(* ===== verification/Prelude.thy ===== *)
theory Prelude
  imports Complex_Main "HOL-Library.AList"
begin

text \<open>
  What every component of the model shares: Python values as read by \<^verbatim>\<open>json.loads\<close>, the
  exceptions the modules raise, computations that may raise, computations that may raise while they
  change a state, and the dictionary interface with its interpretation on association lists.

  Strings are lists of \<^typ>\<open>char\<close>, that is of the code points 0 to 255 of a Python string.
\<close>

section \<open>Exceptions and raising computations\<close>

text \<open>
  One constructor per exception class the modelled modules raise or catch.  A string argument is
  the message (\<^verbatim>\<open>ExecutionError\<close>) or the stable code (\<^verbatim>\<open>ResultContractError.code\<close>); the argument of
  \<^verbatim>\<open>LockUnconfirmed\<close> is the errno of the \<^verbatim>\<open>OSError\<close> that caused it, if one did.
\<close>

datatype exn =
    ExecutionError string
  | LockUnconfirmed "int option"
  | RecoveryStateChanged
  | CollectionTimedOut
  | SubprocessErr
  | ResultContractError string
  | PlanManifestValidationError string
  | TodoPlanValidationError string
  | ContractSchemaError string
  | ContractMissingError
  | ContractVersionMismatchError
  | CapabilityMismatchError
  | PromptShaMismatch string string
  | TickLockHeld
  | PlanGateError string
  | RunAuthorityBusy
  | RunRegistrationError string
  | RetryableReviewRegistration
  | GitHubIssuesError string
  | SnapshotFormatError string
  | NotAnIssueError
  | PhasePromptRenderError string
  | TodoCreateError string
  | HermesDependencyError
  | HermesCallError
  | AgentClientDependencyError
  | ClaudeCallError
  | ShipError string
  | RuntimeErr
  | AttrErr
  | ValueErr string
  | TypeErr
  | KeyErr string
  | IndexErr
  | OverflowErr
  | AssertionErr
  | FileNotFound
  | OSErr int

text \<open>The subclass tests an \<^verbatim>\<open>except\<close> clause makes.\<close>

fun is_execution_error :: "exn \<Rightarrow> bool" where
  "is_execution_error (ExecutionError _) = True"
| "is_execution_error (LockUnconfirmed _) = True"
| "is_execution_error RecoveryStateChanged = True"
| "is_execution_error CollectionTimedOut = True"
| "is_execution_error _ = False"

fun is_os_error :: "exn \<Rightarrow> bool" where
  "is_os_error FileNotFound = True"
| "is_os_error (OSErr _) = True"
| "is_os_error _ = False"

fun is_value_error :: "exn \<Rightarrow> bool" where
  "is_value_error (ValueErr _) = True"
| "is_value_error (PlanManifestValidationError _) = True"
| "is_value_error (TodoPlanValidationError _) = True"
| "is_value_error (SnapshotFormatError _) = True"
| "is_value_error NotAnIssueError = True"
| "is_value_error (PhasePromptRenderError _) = True"
| "is_value_error (TodoCreateError _) = True"
| "is_value_error e = is_execution_error e"

fun is_runtime_error :: "exn \<Rightarrow> bool" where
  "is_runtime_error RuntimeErr = True"
| "is_runtime_error RunAuthorityBusy = True"
| "is_runtime_error (ResultContractError _) = True"
| "is_runtime_error (RunRegistrationError _) = True"
| "is_runtime_error RetryableReviewRegistration = True"
| "is_runtime_error (GitHubIssuesError _) = True"
| "is_runtime_error _ = False"

definition EAGAIN :: int where "EAGAIN = 11"

text \<open>A computation that returns a value or raises.\<close>

type_synonym 'a res = "exn + 'a"

definition raise_if :: "bool \<Rightarrow> exn \<Rightarrow> unit res" where
  "raise_if b e = (if b then Inl e else Inr ())"

text \<open>Checks made one after the other; the first that raises decides.\<close>

fun run_checks :: "unit res list \<Rightarrow> unit res" where
  "run_checks [] = Inr ()"
| "run_checks (c # cs) = (case c of Inl e \<Rightarrow> Inl e | Inr _ \<Rightarrow> run_checks cs)"

definition for_each :: "('a \<Rightarrow> unit res) \<Rightarrow> 'a list \<Rightarrow> unit res" where
  "for_each f xs = run_checks (map f xs)"

definition rbind :: "'a res \<Rightarrow> ('a \<Rightarrow> 'b res) \<Rightarrow> 'b res" where
  "rbind m f = (case m of Inl e \<Rightarrow> Inl e | Inr x \<Rightarrow> f x)"

text \<open>The tuple of a generator expression whose items may raise.\<close>

fun rmap :: "('a \<Rightarrow> 'b res) \<Rightarrow> 'a list \<Rightarrow> 'b list res" where
  "rmap f [] = Inr []"
| "rmap f (x # xs) = rbind (f x) (\<lambda>y. rbind (rmap f xs) (\<lambda>ys. Inr (y # ys)))"

lemma raise_if_Inr [simp]: "raise_if b e = Inr u \<longleftrightarrow> \<not> b"
  by (simp add: raise_if_def)

lemma raise_if_Inl [simp]: "raise_if b e = Inl e' \<longleftrightarrow> b \<and> e' = e"
  by (auto simp: raise_if_def)

lemma run_checks_append:
  "run_checks (cs @ ds) = (case run_checks cs of Inl e \<Rightarrow> Inl e | Inr _ \<Rightarrow> run_checks ds)"
  by (induction cs) (simp_all split: sum.splits)

lemma run_checks_Inr [simp]: "run_checks cs = Inr u \<longleftrightarrow> (\<forall>c \<in> set cs. c = Inr ())"
  by (induction cs) (auto split: sum.splits)

lemma run_checks_Inl_mem: "run_checks cs = Inl e \<Longrightarrow> Inl e \<in> set cs"
  by (induction cs) (auto split: sum.splits)

declare run_checks.simps(2) [simp del]

lemma for_each_Inr [simp]: "for_each f xs = Inr u \<longleftrightarrow> (\<forall>x \<in> set xs. f x = Inr ())"
  by (auto simp: for_each_def)

lemma run_checks_single [simp]: "run_checks [c] = c"
  by (simp add: run_checks.simps(2) split: sum.splits)

lemma for_each_Nil [simp]: "for_each f [] = Inr ()"
  by (simp add: for_each_def)

lemma run_checks_Cons [simp]: "run_checks (Inr u # cs) = run_checks cs" "run_checks (Inl e # cs) = Inl e"
  by (simp_all add: run_checks.simps(2))

lemma for_each_skip [simp]: "for_each (\<lambda>_. Inr ()) xs = Inr ()"
  by simp

lemma raise_if_bool [simp]: "raise_if False e = Inr ()" "raise_if True e = Inl e"
  by (simp_all add: raise_if_def)

lemma rbind_Inr [simp]: "rbind (Inr x) f = f x"
  by (simp add: rbind_def)

lemma rbind_Inl [simp]: "rbind (Inl e) f = Inl e"
  by (simp add: rbind_def)

lemma rbind_eq_Inr: "rbind m f = Inr y \<longleftrightarrow> (\<exists>x. m = Inr x \<and> f x = Inr y)"
  by (cases m) auto

lemma rbind_eq_Inl: "rbind m f = Inl e \<longleftrightarrow> m = Inl e \<or> (\<exists>x. m = Inr x \<and> f x = Inl e)"
  by (cases m) auto

lemma rmap_Inr: "rmap f xs = Inr ys \<longleftrightarrow> list_all2 (\<lambda>x y. f x = Inr y) xs ys"
  by (induction xs arbitrary: ys) (auto simp: rbind_eq_Inr list_all2_Cons1)

lemma rmap_Inl: "rmap f xs = Inl e \<Longrightarrow> \<exists>x \<in> set xs. f x = Inl e"
  by (induction xs) (auto simp: rbind_eq_Inl)

section \<open>Raising computations over a state\<close>

text \<open>
  An operation reads and writes a state and returns or raises; the state it leaves behind when it
  raises is part of its result, because files written before an exception stay written.
\<close>

type_synonym ('s, 'a) op = "'s \<Rightarrow> 'a res \<times> 's"

definition ret :: "'a \<Rightarrow> ('s, 'a) op" where
  "ret x s = (Inr x, s)"

definition raise :: "exn \<Rightarrow> ('s, 'a) op" where
  "raise e s = (Inl e, s)"

definition lift_res :: "'a res \<Rightarrow> ('s, 'a) op" where
  "lift_res r s = (r, s)"

definition reads :: "('s \<Rightarrow> 'a res) \<Rightarrow> ('s, 'a) op" where
  "reads f s = (f s, s)"

definition bind_op :: "('s, 'a) op \<Rightarrow> ('a \<Rightarrow> ('s, 'b) op) \<Rightarrow> ('s, 'b) op" where
  "bind_op m f s = (case m s of (Inl e, s') \<Rightarrow> (Inl e, s') | (Inr x, s') \<Rightarrow> f x s')"

definition then_op :: "('s, unit) op \<Rightarrow> ('s, 'b) op \<Rightarrow> ('s, 'b) op" where
  "then_op m k = bind_op m (\<lambda>_. k)"

text \<open>\<^verbatim>\<open>try: m except ...: h\<close>, where the handler re-raises what it does not catch.\<close>

definition catch_op :: "('s, 'a) op \<Rightarrow> (exn \<Rightarrow> ('s, 'a) op) \<Rightarrow> ('s, 'a) op" where
  "catch_op m h s = (case m s of (Inl e, s') \<Rightarrow> h e s' | (Inr x, s') \<Rightarrow> (Inr x, s'))"

named_theorems op_simps "unfolding of the raising computations over a state"

lemma ret_apply [simp, op_simps]: "ret x s = (Inr x, s)"
  by (simp add: ret_def)

lemma raise_apply [simp, op_simps]: "raise e s = (Inl e, s)"
  by (simp add: raise_def)

lemma lift_res_apply [simp, op_simps]: "lift_res r s = (r, s)"
  by (simp add: lift_res_def)

lemma reads_apply [simp, op_simps]: "reads f s = (f s, s)"
  by (simp add: reads_def)

lemma bind_op_Inr [op_simps]: "m s = (Inr x, s') \<Longrightarrow> bind_op m f s = f x s'"
  by (simp add: bind_op_def)

lemma bind_op_Inl [op_simps]: "m s = (Inl e, s') \<Longrightarrow> bind_op m f s = (Inl e, s')"
  by (simp add: bind_op_def)

lemma bind_op_returns:
  "bind_op m f s = (Inr y, s') \<longleftrightarrow> (\<exists>x s1. m s = (Inr x, s1) \<and> f x s1 = (Inr y, s'))"
  by (auto simp: bind_op_def split: prod.splits sum.splits)

lemma bind_op_raises:
  "bind_op m f s = (Inl e, s') \<longleftrightarrow>
     m s = (Inl e, s') \<or> (\<exists>x s1. m s = (Inr x, s1) \<and> f x s1 = (Inl e, s'))"
  by (auto simp: bind_op_def split: prod.splits sum.splits)

lemma then_op_returns:
  "then_op m k s = (Inr y, s') \<longleftrightarrow> (\<exists>s1. m s = (Inr (), s1) \<and> k s1 = (Inr y, s'))"
  by (auto simp: then_op_def bind_op_returns)

section \<open>Invariants of operations\<close>

text \<open>
  \<open>keeps P m\<close>: from a state satisfying \<open>P\<close> the operation leaves one satisfying \<open>P\<close>, whether it
  returns or raises.
\<close>

definition keeps :: "('s \<Rightarrow> bool) \<Rightarrow> ('s, 'a) op \<Rightarrow> bool" where
  "keeps P m \<longleftrightarrow> (\<forall>s. P s \<longrightarrow> P (snd (m s)))"

named_theorems keeps_intro "preservation rules for raising computations over a state"

lemma keepsD: "keeps P m \<Longrightarrow> P s \<Longrightarrow> m s = (r, s') \<Longrightarrow> P s'"
  by (auto simp: keeps_def dest: spec [of _ s])

lemma keeps_ret [keeps_intro]: "keeps P (ret x)"
  by (simp add: keeps_def)

lemma keeps_raise [keeps_intro]: "keeps P (raise e)"
  by (simp add: keeps_def)

lemma keeps_lift [keeps_intro]: "keeps P (lift_res r)"
  by (simp add: keeps_def)

lemma keeps_reads [keeps_intro]: "keeps P (reads f)"
  by (simp add: keeps_def)

lemma keeps_bind [keeps_intro]: "keeps P m \<Longrightarrow> (\<And>x. keeps P (f x)) \<Longrightarrow> keeps P (bind_op m f)"
  unfolding keeps_def bind_op_def by (fastforce split: prod.splits sum.splits)

lemma keeps_then [keeps_intro]: "keeps P m \<Longrightarrow> keeps P k \<Longrightarrow> keeps P (then_op m k)"
  unfolding then_op_def by (intro keeps_bind)

lemma keeps_catch [keeps_intro]: "keeps P m \<Longrightarrow> (\<And>e. keeps P (h e)) \<Longrightarrow> keeps P (catch_op m h)"
  unfolding keeps_def catch_op_def by (fastforce split: prod.splits sum.splits)

lemma keeps_if [keeps_intro]: "keeps P m \<Longrightarrow> keeps P k \<Longrightarrow> keeps P (if b then m else k)"
  by simp

end
