(* ===== verification/PyValues.thy ===== *)
theory PyValues
  imports Prelude
begin

text \<open>
  Python values as \<^verbatim>\<open>json.loads\<close> builds them, with the tests the code makes on them: exact types
  (\<^verbatim>\<open>type(x) is int\<close> is not \<^verbatim>\<open>isinstance(x, int)\<close>, which holds of booleans too), hashability,
  equality across \<^verbatim>\<open>bool\<close>, \<^verbatim>\<open>int\<close> and \<^verbatim>\<open>float\<close>, dictionaries, and the text \<^verbatim>\<open>json.dumps\<close> prints.
\<close>

section \<open>Values\<close>

text \<open>
  A finite float carries its exact value and the text \<^verbatim>\<open>repr\<close> prints for it.  An object is the
  list of its items in insertion order.
\<close>

datatype pyfloat = Finite rat string | PosInf | NegInf | NaN

datatype json =
    JNull
  | JBool bool
  | JInt int
  | JFloat pyfloat
  | JStr string
  | JList "json list"
  | JObj "(string \<times> json) list"

type_synonym dict = "(string \<times> json) list"

fun is_str :: "json \<Rightarrow> bool" where
  "is_str (JStr _) = True" | "is_str _ = False"

fun is_list :: "json \<Rightarrow> bool" where
  "is_list (JList _) = True" | "is_list _ = False"

fun is_dict :: "json \<Rightarrow> bool" where
  "is_dict (JObj _) = True" | "is_dict _ = False"

text \<open>\<^verbatim>\<open>type(x) is int\<close>, \<^verbatim>\<open>type(x) is bool\<close> and \<^verbatim>\<open>type(x) in (int, float)\<close>.\<close>

fun is_int :: "json \<Rightarrow> bool" where
  "is_int (JInt _) = True" | "is_int _ = False"

fun is_bool :: "json \<Rightarrow> bool" where
  "is_bool (JBool _) = True" | "is_bool _ = False"

fun is_number :: "json \<Rightarrow> bool" where
  "is_number (JInt _) = True" | "is_number (JFloat _) = True" | "is_number _ = False"

text \<open>Contents of a value whose type has been checked before.\<close>

fun str_of :: "json \<Rightarrow> string" where
  "str_of (JStr s) = s" | "str_of _ = []"

fun items :: "json \<Rightarrow> json list" where
  "items (JList xs) = xs" | "items _ = []"

fun dict_of :: "json \<Rightarrow> dict" where
  "dict_of (JObj d) = d" | "dict_of _ = []"

fun int_of :: "json \<Rightarrow> int" where
  "int_of (JInt i) = i" | "int_of (JBool b) = of_bool b" | "int_of _ = 0"

text \<open>Membership in a set display hashes the value first: lists and dictionaries raise.\<close>

fun hashable :: "json \<Rightarrow> bool" where
  "hashable (JList _) = False" | "hashable (JObj _) = False" | "hashable _ = True"

fun str_in :: "json \<Rightarrow> string list \<Rightarrow> bool" where
  "str_in (JStr s) xs = (s \<in> set xs)" | "str_in _ xs = False"

text \<open>\<^verbatim>\<open>bool(x)\<close>.\<close>

fun truthy :: "json \<Rightarrow> bool" where
  "truthy JNull = False"
| "truthy (JBool b) = b"
| "truthy (JInt i) = (i \<noteq> 0)"
| "truthy (JFloat (Finite q _)) = (q \<noteq> 0)"
| "truthy (JFloat _) = True"
| "truthy (JStr s) = (s \<noteq> [])"
| "truthy (JList xs) = (xs \<noteq> [])"
| "truthy (JObj d) = (d \<noteq> [])"

lemma is_str_iff: "is_str v \<longleftrightarrow> (\<exists>s. v = JStr s)" by (cases v) auto
lemma is_list_iff: "is_list v \<longleftrightarrow> (\<exists>xs. v = JList xs)" by (cases v) auto
lemma is_dict_iff: "is_dict v \<longleftrightarrow> (\<exists>d. v = JObj d)" by (cases v) auto
lemma is_int_iff: "is_int v \<longleftrightarrow> (\<exists>i. v = JInt i)" by (cases v) auto

lemma str_in_iff: "str_in v xs \<longleftrightarrow> (\<exists>s \<in> set xs. v = JStr s)" by (cases v) auto

lemma str_in_hashable: "str_in v xs \<Longrightarrow> hashable v" by (cases v) auto

section \<open>Numbers\<close>

fun num_of :: "json \<Rightarrow> pyfloat option" where
  "num_of (JBool b) = Some (Finite (of_bool b) [])"
| "num_of (JInt i) = Some (Finite (of_int i) [])"
| "num_of (JFloat f) = Some f"
| "num_of _ = None"

fun num_eq :: "pyfloat \<Rightarrow> pyfloat \<Rightarrow> bool" where
  "num_eq (Finite a _) (Finite b _) = (a = b)"
| "num_eq PosInf PosInf = True"
| "num_eq NegInf NegInf = True"
| "num_eq _ _ = False"

fun num_less :: "pyfloat \<Rightarrow> pyfloat \<Rightarrow> bool" where
  "num_less (Finite a _) (Finite b _) = (a < b)"
| "num_less (Finite _ _) PosInf = True"
| "num_less NegInf (Finite _ _) = True"
| "num_less NegInf PosInf = True"
| "num_less _ _ = False"

definition num_le :: "pyfloat \<Rightarrow> pyfloat \<Rightarrow> bool" where
  "num_le a b \<longleftrightarrow> num_less a b \<or> num_eq a b"

definition num :: "json \<Rightarrow> pyfloat" where
  "num v = (case num_of v of Some f \<Rightarrow> f | None \<Rightarrow> NaN)"

definition zero :: pyfloat where "zero = Finite 0 []"

text \<open>
  \<^verbatim>\<open>math.isfinite\<close> converts an \<^verbatim>\<open>int\<close> to a double first: an integer that rounds past the largest
  double raises \<^verbatim>\<open>OverflowError\<close>.
\<close>

definition isfinite :: "json \<Rightarrow> bool res" where
  "isfinite v = (case v of
      JInt i \<Rightarrow> if 2 ^ 1024 - 2 ^ 970 \<le> \<bar>i\<bar> then Inl OverflowErr else Inr True
    | JFloat (Finite _ _) \<Rightarrow> Inr True
    | _ \<Rightarrow> Inr False)"

section \<open>Equality\<close>

fun py_eq :: "json \<Rightarrow> json \<Rightarrow> bool"
  and py_eq_list :: "json list \<Rightarrow> json list \<Rightarrow> bool"
  and py_eq_dict :: "dict \<Rightarrow> dict \<Rightarrow> bool" where
  "py_eq JNull w = (w = JNull)"
| "py_eq (JBool b) w = (case num_of w of None \<Rightarrow> False | Some n \<Rightarrow> num_eq (Finite (of_bool b) []) n)"
| "py_eq (JInt i) w = (case num_of w of None \<Rightarrow> False | Some n \<Rightarrow> num_eq (Finite (of_int i) []) n)"
| "py_eq (JFloat f) w = (case num_of w of None \<Rightarrow> False | Some n \<Rightarrow> num_eq f n)"
| "py_eq (JStr s) w = (w = JStr s)"
| "py_eq (JList xs) w = (case w of JList ys \<Rightarrow> py_eq_list xs ys | _ \<Rightarrow> False)"
| "py_eq (JObj d) w = (case w of JObj e \<Rightarrow> length d = length e \<and> py_eq_dict d e | _ \<Rightarrow> False)"
| "py_eq_list [] ys = (ys = [])"
| "py_eq_list (x # xs) ys = (case ys of [] \<Rightarrow> False | y # ys' \<Rightarrow> py_eq x y \<and> py_eq_list xs ys')"
| "py_eq_dict [] e = True"
| "py_eq_dict (kv # d) e =
     ((case map_of e (fst kv) of None \<Rightarrow> False | Some w \<Rightarrow> py_eq (snd kv) w) \<and> py_eq_dict d e)"

text \<open>Values whose objects have distinct keys, as dictionaries have, and which hold no NaN.\<close>

fun wf_json :: "json \<Rightarrow> bool" where
  "wf_json (JFloat f) = (f \<noteq> NaN)"
| "wf_json (JList xs) = (\<forall>x \<in> set xs. wf_json x)"
| "wf_json (JObj d) = (distinct (map fst d) \<and> (\<forall>kv \<in> set d. wf_json (snd kv)))"
| "wf_json _ = True"

lemma num_eq_refl: "f \<noteq> NaN \<Longrightarrow> num_eq f f"
  by (cases f) auto

lemma json_induct3 [case_names null bool int float str list obj list_nil list_cons obj_nil obj_cons]:
  assumes "P JNull" "\<And>b. P (JBool b)" "\<And>i. P (JInt i)" "\<And>f. P (JFloat f)" "\<And>s. P (JStr s)"
    and "\<And>xs. Q xs \<Longrightarrow> P (JList xs)" "\<And>d. R d \<Longrightarrow> P (JObj d)"
    and "Q []" "\<And>x xs. P x \<Longrightarrow> Q xs \<Longrightarrow> Q (x # xs)"
    and "R []" "\<And>kv d. P (snd kv) \<Longrightarrow> R d \<Longrightarrow> R (kv # d)"
  shows "P v" "Q xs" "R d"
proof -
  have P: "P v" for v
  proof (induction v)
    case (JList xs)
    then have "Q xs" by (induction xs) (auto intro: assms)
    then show ?case by (rule assms)
  next
    case (JObj d)
    then have "R d" by (induction d) (auto intro: assms simp: snds.simps)
    then show ?case by (rule assms)
  qed (auto intro: assms)
  show "P v" by (rule P)
  show "Q xs" by (induction xs) (auto intro: assms P)
  show "R d" by (induction d) (auto intro: assms P)
qed

lemma py_eq_refl_aux:
  "wf_json v \<Longrightarrow> py_eq v v"
  "(\<forall>x \<in> set xs. wf_json x) \<Longrightarrow> py_eq_list xs xs"
  "(\<forall>kv \<in> set d. wf_json (snd kv)) \<Longrightarrow> distinct (map fst e) \<Longrightarrow> set d \<subseteq> set e \<Longrightarrow> py_eq_dict d e"
proof (induction v and xs and d arbitrary: and and e rule: json_induct3)
  case (obj_cons kv d)
  then have m: "map_of e (fst kv) = Some (snd kv)"
    by (cases kv) auto
  from obj_cons show ?case by (auto simp: m)
qed (auto simp: num_eq_refl)

lemma py_eq_refl [simp]: "wf_json v \<Longrightarrow> py_eq v v"
  by (rule py_eq_refl_aux)

lemma py_eq_str [simp]: "py_eq v (JStr s) \<longleftrightarrow> v = JStr s"
  by (cases v) auto

lemma py_eq_null [simp]: "py_eq v JNull \<longleftrightarrow> v = JNull"
  by (cases v) auto

section \<open>Dictionaries\<close>

text \<open>\<^verbatim>\<open>d.get(k)\<close>, with \<^verbatim>\<open>None\<close> for a missing key, \<^verbatim>\<open>d[k]\<close> and \<^verbatim>\<open>d[k] = v\<close>.\<close>

definition dget :: "dict \<Rightarrow> string \<Rightarrow> json" where
  "dget d k = (case map_of d k of None \<Rightarrow> JNull | Some v \<Rightarrow> v)"

definition dsub :: "dict \<Rightarrow> string \<Rightarrow> json res" where
  "dsub d k = (case map_of d k of None \<Rightarrow> Inl (KeyErr k) | Some v \<Rightarrow> Inr v)"

definition dput :: "string \<Rightarrow> json \<Rightarrow> dict \<Rightarrow> dict" where
  "dput k v d = AList.update k v d"

definition has_key :: "dict \<Rightarrow> string \<Rightarrow> bool" where
  "has_key d k \<longleftrightarrow> k \<in> fst ` set d"

text \<open>\<^verbatim>\<open>d.update(changes)\<close> and \<^verbatim>\<open>set(d) == set(keys)\<close>.\<close>

definition dupdate :: "dict \<Rightarrow> dict \<Rightarrow> dict" where
  "dupdate d ch = fold (\<lambda>kv. dput (fst kv) (snd kv)) ch d"

definition keys_are :: "dict \<Rightarrow> string list \<Rightarrow> bool" where
  "keys_are d ks \<longleftrightarrow> fst ` set d = set ks"

text \<open>
  The dictionary interface the components program against, and its client lemmas: what one
  assignment and a whole \<^verbatim>\<open>update\<close> do to every key.
\<close>

locale dict_interface =
  fixes lookup :: "'d \<Rightarrow> 'k \<Rightarrow> 'v option"
    and assign :: "'k \<Rightarrow> 'v \<Rightarrow> 'd \<Rightarrow> 'd"
  assumes lookup_assign: "lookup (assign k v d) j = (if j = k then Some v else lookup d j)"
begin

lemma lookup_assign_same: "lookup (assign k v d) k = Some v"
  by (simp add: lookup_assign)

lemma lookup_assign_other: "j \<noteq> k \<Longrightarrow> lookup (assign k v d) j = lookup d j"
  by (simp add: lookup_assign)

lemma lookup_assign_all:
  "lookup (fold (\<lambda>kv. assign (fst kv) (snd kv)) ch d) j =
     (case map_of (rev ch) j of Some v \<Rightarrow> Some v | None \<Rightarrow> lookup d j)"
  by (induction ch arbitrary: d)
    (auto simp: lookup_assign map_add_def split: option.splits)

end

interpretation dct: dict_interface map_of dput
  by unfold_locales (auto simp: dput_def update_conv')

lemma dget_dput [simp]: "dget (dput k v d) j = (if j = k then v else dget d j)"
  by (simp add: dget_def dct.lookup_assign)

lemma has_key_map_of: "has_key d k \<longleftrightarrow> map_of d k \<noteq> None"
  by (simp add: has_key_def map_of_eq_None_iff)

lemma has_key_dput [simp]: "has_key (dput k v d) j \<longleftrightarrow> j = k \<or> has_key d j"
  by (auto simp: has_key_map_of dct.lookup_assign)

lemma fst_set_dput [simp]: "fst ` set (dput k v d) = insert k (fst ` set d)"
  by (simp add: dput_def dom_update)

lemma distinct_dput [simp]: "distinct (map fst (dput k v d)) = distinct (map fst d)"
proof
  show "distinct (map fst d)" if "distinct (map fst (dput k v d))"
    using that unfolding dput_def by (induction d) (auto simp: dom_update split: if_splits)
qed (simp add: dput_def distinct_update)

lemma map_of_rev_eq: "distinct (map fst ch) \<Longrightarrow> map_of (rev ch) j = map_of ch j"
  by (rule map_of_inject_set [THEN iffD2, THEN fun_cong]) (auto simp: rev_map [symmetric])

lemma dget_dupdate:
  "distinct (map fst ch) \<Longrightarrow>
     dget (dupdate d ch) j = (if has_key ch j then dget ch j else dget d j)"
  unfolding dupdate_def dget_def
  by (subst dct.lookup_assign_all) (auto simp: has_key_map_of map_of_rev_eq split: option.splits)

lemma keys_dupdate: "fst ` set (dupdate d ch) = fst ` set ch \<union> fst ` set d"
  unfolding dupdate_def by (induction ch arbitrary: d) auto

lemma keys_are_dput: "keys_are d ks \<Longrightarrow> k \<in> set ks \<Longrightarrow> keys_are (dput k v d) ks"
  by (auto simp: keys_are_def)

lemma keys_are_dupdate: "keys_are d ks \<Longrightarrow> fst ` set ch \<subseteq> set ks \<Longrightarrow> keys_are (dupdate d ch) ks"
  by (auto simp: keys_are_def keys_dupdate)

lemma keys_are_has_key: "keys_are d ks \<Longrightarrow> k \<in> set ks \<Longrightarrow> has_key d k"
  by (simp add: keys_are_def has_key_def)

lemma keys_are_absent: "has_key d k \<Longrightarrow> k \<notin> set ks \<Longrightarrow> \<not> keys_are d ks"
  by (auto simp: keys_are_def has_key_def)

lemma dget_Cons: "dget ((k', v) # d) k = (if k = k' then v else dget d k)"
  by (simp add: dget_def)

lemma dsub_Inr: "dsub d k = Inr v \<longleftrightarrow> map_of d k = Some v"
  by (auto simp: dsub_def split: option.splits)

end
