(* ===== verification/PyText.thy ===== *)
theory PyText
  imports PyValues
begin

text \<open>
  Text: character classes of the regular expressions the validators use, the string methods the
  modules call, and the encoder \<^verbatim>\<open>json.dumps\<close> with its separators, key sorting and ASCII escapes.
\<close>

section \<open>Character classes and anchored patterns\<close>

definition digits :: string where "digits = ''0123456789''"
definition lowers :: string where "lowers = ''abcdefghijklmnopqrstuvwxyz''"
definition uppers :: string where "uppers = ''ABCDEFGHIJKLMNOPQRSTUVWXYZ''"

definition hex_lower :: "char \<Rightarrow> bool" where
  "hex_lower c \<longleftrightarrow> c \<in> set (digits @ ''abcdef'')"

definition alnum :: "char \<Rightarrow> bool" where
  "alnum c \<longleftrightarrow> c \<in> set (digits @ lowers @ uppers)"

text \<open>\<^verbatim>\<open>[0-9a-f]{n}\<close> with \<^verbatim>\<open>fullmatch\<close>.\<close>

definition hex_of_length :: "nat \<Rightarrow> string \<Rightarrow> bool" where
  "hex_of_length n s \<longleftrightarrow> length s = n \<and> list_all hex_lower s"

text \<open>
  A class repeated between bounds, and one first character followed by a class, both with
  \<^verbatim>\<open>fullmatch\<close>.
\<close>

definition class_between :: "(char \<Rightarrow> bool) \<Rightarrow> nat \<Rightarrow> nat \<Rightarrow> string \<Rightarrow> bool" where
  "class_between p lo hi s \<longleftrightarrow> lo \<le> length s \<and> length s \<le> hi \<and> list_all p s"

definition first_then :: "(char \<Rightarrow> bool) \<Rightarrow> (char \<Rightarrow> bool) \<Rightarrow> nat \<Rightarrow> string \<Rightarrow> bool" where
  "first_then p q hi s = (case s of [] \<Rightarrow> False | c # cs \<Rightarrow> p c \<and> length cs \<le> hi \<and> list_all q cs)"

text \<open>A pattern that ends in \<^verbatim>\<open>$\<close> also matches just before a final newline.\<close>

definition newline :: char where "newline = CHR 0x0A"

definition dollar :: "(string \<Rightarrow> bool) \<Rightarrow> string \<Rightarrow> bool" where
  "dollar p s \<longleftrightarrow> p s \<or> (s \<noteq> [] \<and> last s = newline \<and> p (butlast s))"

text \<open>C0 controls other than tab, newline and carriage return, and DEL (\<^verbatim>\<open>_CONTROL_RE\<close>).\<close>

definition control_char :: "char \<Rightarrow> bool" where
  "control_char c \<longleftrightarrow> (let n = of_char c :: nat in n \<le> 8 \<or> n = 11 \<or> n = 12 \<or> (14 \<le> n \<and> n \<le> 31) \<or> n = 127)"

section \<open>String methods\<close>

text \<open>\<^verbatim>\<open>str.isspace\<close> on code points below 256, and \<^verbatim>\<open>strip\<close>.\<close>

definition is_space :: "char \<Rightarrow> bool" where
  "is_space c \<longleftrightarrow> (let n = of_char c :: nat in (9 \<le> n \<and> n \<le> 13) \<or> (28 \<le> n \<and> n \<le> 32) \<or> n = 133 \<or> n = 160)"

definition rstrip_while :: "(char \<Rightarrow> bool) \<Rightarrow> string \<Rightarrow> string" where
  "rstrip_while p s = rev (dropWhile p (rev s))"

definition strip :: "string \<Rightarrow> string" where
  "strip s = rstrip_while is_space (dropWhile is_space s)"

definition startswith :: "string \<Rightarrow> string \<Rightarrow> bool" where
  "startswith s p \<longleftrightarrow> take (length p) s = p"

definition endswith :: "string \<Rightarrow> string \<Rightarrow> bool" where
  "endswith s p \<longleftrightarrow> length p \<le> length s \<and> drop (length s - length p) s = p"

text \<open>\<^verbatim>\<open>p in s\<close> for strings.\<close>

fun contains :: "string \<Rightarrow> string \<Rightarrow> bool" where
  "contains [] p = (p = [])"
| "contains (c # cs) p = (startswith (c # cs) p \<or> contains cs p)"

text \<open>\<^verbatim>\<open>s.split(sep)\<close> for a one-character separator.\<close>

fun split_on :: "char \<Rightarrow> string \<Rightarrow> string list" where
  "split_on d [] = [[]]"
| "split_on d (c # cs) =
     (if c = d then [] # split_on d cs
      else (case split_on d cs of [] \<Rightarrow> [[c]] | w # ws \<Rightarrow> (c # w) # ws))"

definition words_of :: "string \<Rightarrow> string list" where
  "words_of s = filter (\<lambda>w. w \<noteq> []) (split_on (CHR '' '') (map (\<lambda>c. if is_space c then CHR '' '' else c) s))"

text \<open>\<^verbatim>\<open>s.splitlines()\<close> on code points below 256; a carriage return and the newline after it end one line.\<close>

definition line_break :: "char \<Rightarrow> bool" where
  "line_break c \<longleftrightarrow> (let n = of_char c :: nat in (10 \<le> n \<and> n \<le> 13) \<or> (28 \<le> n \<and> n \<le> 30) \<or> n = 133)"

fun splitlines :: "string \<Rightarrow> string list" where
  "splitlines [] = []"
| "splitlines (c # cs) =
     (if c = CHR 0x0D \<and> cs \<noteq> [] \<and> hd cs = CHR 0x0A then splitlines cs
      else if line_break c then [] # splitlines cs
      else (case splitlines cs of [] \<Rightarrow> [[c]] | w # ws \<Rightarrow> (c # w) # ws))"

text \<open>ASCII letters in lower case, and \<^verbatim>\<open>str.islower\<close> of one character below 256.\<close>

definition to_lower :: "char \<Rightarrow> char" where
  "to_lower c = (if c \<in> set uppers then char_of ((of_char c :: nat) + 32) else c)"

definition is_lower :: "char \<Rightarrow> bool" where
  "is_lower c \<longleftrightarrow> (let n = of_char c :: nat in (97 \<le> n \<and> n \<le> 122) \<or> n \<in> {170, 181, 186} \<or> (223 \<le> n \<and> n \<noteq> 247))"

definition join :: "string \<Rightarrow> string list \<Rightarrow> string" where
  "join sep ws = (case ws of [] \<Rightarrow> [] | w # ws' \<Rightarrow> w @ concat (map (\<lambda>x. sep @ x) ws'))"

lemma split_on_ne [simp]: "split_on d s \<noteq> []"
  by (induction s) (auto split: list.splits)

lemma is_space_strip_hd: "strip s = c # cs \<Longrightarrow> \<not> is_space c"
proof -
  assume a: "strip s = c # cs"
  obtain t where t: "dropWhile is_space s = strip s @ t"
    unfolding strip_def rstrip_while_def
    by (metis rev_append rev_rev_ident takeWhile_dropWhile_id)
  with a have "dropWhile is_space s = c # (cs @ t)" by simp
  then show ?thesis by (metis hd_dropWhile list.distinct(1) list.sel(1))
qed

section \<open>Decimal numerals\<close>

definition digit :: "nat \<Rightarrow> char" where "digit n = char_of (48 + n)"

fun dec :: "nat \<Rightarrow> string" where
  "dec n = (if n < 10 then [digit n] else dec (n div 10) @ [digit (n mod 10)])"

declare dec.simps [simp del]

definition dec_int :: "int \<Rightarrow> string" where
  "dec_int i = (if i < 0 then ''-'' @ dec (nat (- i)) else dec (nat i))"

text \<open>Reading a numeral back: \<^verbatim>\<open>int(s)\<close> for a string of ASCII digits.\<close>

definition digit_val :: "char \<Rightarrow> nat" where "digit_val c = of_char c - 48"

definition undec :: "string \<Rightarrow> nat" where
  "undec s = foldl (\<lambda>a c. 10 * a + digit_val c) 0 s"

lemma digit_val_digit [simp]: "n < 10 \<Longrightarrow> digit_val (digit n) = n"
  by (simp add: digit_val_def digit_def)

lemma undec_dec [simp]: "undec (dec n) = n"
proof (induction n rule: dec.induct)
  case (1 n)
  then show ?case
    by (subst dec.simps) (auto simp: undec_def)
qed

lemma dec_inject [simp]: "dec m = dec n \<longleftrightarrow> m = n"
  by (metis undec_dec)

section \<open>Encoding values as JSON text\<close>

text \<open>Escapes of \<^verbatim>\<open>json.dumps\<close>, with and without \<^verbatim>\<open>ensure_ascii\<close>.\<close>

definition backslash :: char where "backslash = CHR 0x5C"

definition hex_digit :: "nat \<Rightarrow> char" where
  "hex_digit n = (if n < 10 then char_of (48 + n) else char_of (87 + n))"

definition esc :: "bool \<Rightarrow> char \<Rightarrow> string" where
  "esc ascii c = (let n = of_char c :: nat in
     if c = CHR 0x22 then [backslash, CHR 0x22]
     else if c = backslash then [backslash, backslash]
     else if n = 10 then [backslash, CHR ''n'']
     else if n = 13 then [backslash, CHR ''r'']
     else if n = 9 then [backslash, CHR ''t'']
     else if n = 12 then [backslash, CHR ''f'']
     else if n = 8 then [backslash, CHR ''b'']
     else if n < 32 \<or> (ascii \<and> 127 \<le> n)
       then [backslash, CHR ''u'', CHR ''0'', CHR ''0'', hex_digit (n div 16), hex_digit (n mod 16)]
     else [c])"

definition quote :: "bool \<Rightarrow> string \<Rightarrow> string" where
  "quote ascii s = CHR 0x22 # concat (map (esc ascii) s) @ [CHR 0x22]"

text \<open>Objects with their keys sorted by code point at every level (\<^verbatim>\<open>sort_keys=True\<close>).\<close>

fun str_le :: "string \<Rightarrow> string \<Rightarrow> bool" where
  "str_le [] t = True"
| "str_le (c # s) [] = False"
| "str_le (c # s) (d # t) =
     (if (of_char c :: nat) < of_char d then True
      else if c = d then str_le s t else False)"

fun insert_item :: "string \<times> json \<Rightarrow> dict \<Rightarrow> dict" where
  "insert_item kv [] = [kv]"
| "insert_item kv (x # xs) = (if str_le (fst kv) (fst x) then kv # x # xs else x # insert_item kv xs)"

fun sort_keys :: "json \<Rightarrow> json" and sort_list :: "json list \<Rightarrow> json list" and sort_items :: "dict \<Rightarrow> dict" where
  "sort_keys (JList xs) = JList (sort_list xs)"
| "sort_keys (JObj d) = JObj (sort_items d)"
| "sort_keys v = v"
| "sort_list [] = []"
| "sort_list (x # xs) = sort_keys x # sort_list xs"
| "sort_items [] = []"
| "sort_items (kv # d) = insert_item (fst kv, sort_keys (snd kv)) (sort_items d)"

text \<open>The encoder: item and key separators, \<^verbatim>\<open>ensure_ascii\<close>.\<close>

record json_style =
  item_sep :: string
  key_sep :: string
  ascii :: bool

definition compact :: json_style where
  "compact = \<lparr>item_sep = '','', key_sep = '':'', ascii = True\<rparr>"

definition default_style :: json_style where
  "default_style = \<lparr>item_sep = '', '', key_sep = '': '', ascii = True\<rparr>"

definition utf8_style :: json_style where
  "utf8_style = \<lparr>item_sep = '','', key_sep = '':'', ascii = False\<rparr>"

fun float_text :: "pyfloat \<Rightarrow> string" where
  "float_text (Finite _ r) = r"
| "float_text PosInf = ''Infinity''"
| "float_text NegInf = ''-Infinity''"
| "float_text NaN = ''NaN''"

fun dumps :: "json_style \<Rightarrow> json \<Rightarrow> string"
  and dumps_list :: "json_style \<Rightarrow> json list \<Rightarrow> string list"
  and dumps_items :: "json_style \<Rightarrow> dict \<Rightarrow> string list" where
  "dumps st JNull = ''null''"
| "dumps st (JBool b) = (if b then ''true'' else ''false'')"
| "dumps st (JInt i) = dec_int i"
| "dumps st (JFloat f) = float_text f"
| "dumps st (JStr s) = quote (ascii st) s"
| "dumps st (JList xs) = ''['' @ join (item_sep st) (dumps_list st xs) @ '']''"
| "dumps st (JObj d) = ''{'' @ join (item_sep st) (dumps_items st d) @ ''}''"
| "dumps_list st [] = []"
| "dumps_list st (x # xs) = dumps st x # dumps_list st xs"
| "dumps_items st [] = []"
| "dumps_items st (kv # d) = (quote (ascii st) (fst kv) @ key_sep st @ dumps st (snd kv)) # dumps_items st d"

text \<open>\<^verbatim>\<open>json.dumps(v, sort_keys=True, separators=(",", ":"))\<close>, the canonical text that is hashed and stored.\<close>

definition canonical :: "json \<Rightarrow> string" where
  "canonical v = dumps compact (sort_keys v)"

text \<open>\<^verbatim>\<open>allow_nan=False\<close> refuses a value that holds NaN or an infinity.\<close>

fun finite_json :: "json \<Rightarrow> bool" where
  "finite_json (JFloat f) = (case f of Finite _ _ \<Rightarrow> True | _ \<Rightarrow> False)"
| "finite_json (JList xs) = (\<forall>x \<in> set xs. finite_json x)"
| "finite_json (JObj d) = (\<forall>kv \<in> set d. finite_json (snd kv))"
| "finite_json _ = True"

text \<open>Length of the UTF-8 encoding of a string.\<close>

definition utf8_length :: "string \<Rightarrow> nat" where
  "utf8_length s = sum_list (map (\<lambda>c. if (of_char c :: nat) < 128 then 1 else 2) s)"

lemma str_le_refl [simp]: "str_le s s"
  by (induction s) auto

section \<open>Length of the encoded text\<close>

text \<open>The canonical text is never longer than what \<^verbatim>\<open>json.dumps\<close> prints with its default separators.\<close>

lemma length_join: "length (join sep ws) = sum_list (map length ws) + length sep * (length ws - 1)"
proof (cases ws)
  case (Cons a ws')
  have "length (concat (map (\<lambda>x. sep @ x) ws')) = sum_list (map length ws') + length sep * length ws'"
    by (induction ws') simp_all
  with Cons show ?thesis by (simp add: join_def)
qed (simp add: join_def)

lemma length_dumps_list [simp]: "length (dumps_list st xs) = length xs"
  by (induction xs) auto

lemma length_dumps_items [simp]: "length (dumps_items st d) = length d"
  by (induction d) auto

lemma length_insert_item [simp]: "length (insert_item kv d) = Suc (length d)"
  by (induction d) auto

lemma dumps_insert_item:
  "sum_list (map length (dumps_items st (insert_item kv d))) = sum_list (map length (dumps_items st (kv # d)))"
  by (induction d) auto

lemma length_sort_list [simp]: "length (sort_list xs) = length xs"
  by (induction xs) auto

lemma length_sort_items [simp]: "length (sort_items d) = length d"
  by (induction d) auto

lemma dumps_sort_aux:
  "length (dumps st (sort_keys v)) = length (dumps st v)"
  "map length (dumps_list st (sort_list xs)) = map length (dumps_list st xs)"
  "sum_list (map length (dumps_items st (sort_items d))) = sum_list (map length (dumps_items st d))"
  by (induction v and xs and d rule: json_induct3) (simp_all add: length_join dumps_insert_item)

lemma dumps_compact_aux:
  "length (dumps compact v) \<le> length (dumps default_style v)"
  "sum_list (map length (dumps_list compact xs)) \<le> sum_list (map length (dumps_list default_style xs))"
  "sum_list (map length (dumps_items compact d)) \<le> sum_list (map length (dumps_items default_style d))"
  by (induction v and xs and d rule: json_induct3)
    (auto simp: length_join compact_def default_style_def intro: add_mono)

lemma canonical_length: "length (canonical v) \<le> length (dumps default_style v)"
  using dumps_compact_aux(1) [of v] by (simp add: canonical_def dumps_sort_aux)

end
