(* ===== verification/Base64.thy ===== *)
theory Base64
  imports PyText
begin

text \<open>
  \<^verbatim>\<open>base64.b64encode\<close> and \<^verbatim>\<open>base64.b64decode(..., validate=True)\<close>, with which an execution record
  stores the bytes of its prompt.  The strict decoder takes whole groups of four characters of the
  alphabet; padding is allowed in the last group only and nothing may follow it.
\<close>

definition b64_alphabet :: string where
  "b64_alphabet = uppers @ lowers @ digits @ ''+/''"

definition b64_char :: "nat \<Rightarrow> char" where
  "b64_char n = b64_alphabet ! n"

definition b64_value :: "char \<Rightarrow> nat option" where
  "b64_value c = map_of (zip b64_alphabet [0..<64]) c"

definition pad :: char where "pad = CHR ''=''"

definition byte :: "char \<Rightarrow> nat" where "byte c = of_char c"

fun b64encode :: "string \<Rightarrow> string" where
  "b64encode [] = []"
| "b64encode [x] = (let a = byte x in [b64_char (a div 4), b64_char (a mod 4 * 16), pad, pad])"
| "b64encode [x, y] = (let a = byte x; b = byte y in
     [b64_char (a div 4), b64_char (a mod 4 * 16 + b div 16), b64_char (b mod 16 * 4), pad])"
| "b64encode (x # y # z # r) = (let a = byte x; b = byte y; c = byte z in
     [b64_char (a div 4), b64_char (a mod 4 * 16 + b div 16),
      b64_char (b mod 16 * 4 + c div 64), b64_char (c mod 64)] @ b64encode r)"

fun b64decode :: "string \<Rightarrow> string option" where
  "b64decode [] = Some []"
| "b64decode (p # q # r # s # rest) =
     (case (b64_value p, b64_value q) of
        (Some a, Some b) \<Rightarrow>
          (if r = pad then (if s = pad \<and> rest = [] then Some [char_of (a * 4 + b div 16)] else None)
           else (case b64_value r of
               None \<Rightarrow> None
             | Some c \<Rightarrow>
                 (if s = pad then
                    (if rest = [] then Some [char_of (a * 4 + b div 16), char_of (b mod 16 * 16 + c div 4)]
                     else None)
                  else (case b64_value s of
                      None \<Rightarrow> None
                    | Some d \<Rightarrow> map_option
                        (\<lambda>t. [char_of (a * 4 + b div 16), char_of (b mod 16 * 16 + c div 4),
                              char_of (c mod 4 * 64 + d)] @ t) (b64decode rest)))))
      | _ \<Rightarrow> None)"
| "b64decode _ = None"

lemma length_alphabet: "length b64_alphabet = 64"
  by (simp add: b64_alphabet_def uppers_def lowers_def digits_def)

lemma distinct_alphabet: "distinct b64_alphabet"
  by (simp add: b64_alphabet_def uppers_def lowers_def digits_def)

lemma b64_value_char [simp]: "n < 64 \<Longrightarrow> b64_value (b64_char n) = Some n"
proof -
  assume n: "n < 64"
  have "(b64_alphabet ! n, n) \<in> set (zip b64_alphabet [0..<64])"
    using n by (force simp: set_zip length_alphabet)
  then show ?thesis
    by (simp add: b64_value_def b64_char_def distinct_alphabet length_alphabet)
qed

lemma pad_not_char [simp]: "n < 64 \<Longrightarrow> b64_char n \<noteq> pad"
proof -
  assume "n < 64"
  then have "b64_char n \<in> set b64_alphabet"
    by (simp add: b64_char_def length_alphabet)
  moreover have "pad \<notin> set b64_alphabet"
    by (simp add: pad_def b64_alphabet_def uppers_def lowers_def digits_def)
  ultimately show ?thesis by metis
qed

lemma byte_lt: "byte x < 256"
  by (simp add: byte_def)

lemma byte_div4 [simp]: "byte x div 4 < 64" and byte_div16 [simp]: "byte x div 16 < 16"
  and byte_div64 [simp]: "byte x div 64 < 4"
  using byte_lt [of x] by arith+

lemma pack_lt: "(k::nat) < 16 \<Longrightarrow> a mod 4 * 16 + k < 64" "(l::nat) < 4 \<Longrightarrow> a mod 16 * 4 + l < 64"
  using mod_less_divisor [of 4 a] mod_less_divisor [of 16 a] by linarith+

lemma unpack: "(k::nat) < 16 \<Longrightarrow> (m * 16 + k) div 16 = m" "(k::nat) < 16 \<Longrightarrow> (m * 16 + k) mod 16 = k"
  "(l::nat) < 4 \<Longrightarrow> (m * 4 + l) div 4 = m" "(l::nat) < 4 \<Longrightarrow> (m * 4 + l) mod 4 = l"
  by simp_all

lemma sextets [simp]:
  "byte x mod 4 * 16 < 64" "byte x mod 4 * 16 + byte y div 16 < 64"
  "byte y mod 16 * 4 < 64" "byte y mod 16 * 4 + byte z div 64 < 64"
  using pack_lt(1) [of 0 "byte x"] pack_lt(2) [of 0 "byte y"] by (simp_all add: pack_lt)

lemma char_of_byte [simp]: "char_of (byte x) = x"
  by (simp add: byte_def)

lemma rejoin [simp]:
  "byte x div 4 * 4 + byte x mod 4 * 16 div 16 = byte x"
  "byte x div 4 * 4 + (byte x mod 4 * 16 + byte y div 16) div 16 = byte x"
  "(byte x mod 4 * 16 + byte y div 16) mod 16 * 16 + byte y mod 16 * 4 div 4 = byte y"
  "(byte x mod 4 * 16 + byte y div 16) mod 16 * 16 + (byte y mod 16 * 4 + byte z div 64) div 4 = byte y"
  "(byte y mod 16 * 4 + byte z div 64) mod 4 * 64 + byte z mod 64 = byte z"
  by (simp_all only: unpack byte_div16 byte_div64 nonzero_mult_div_cancel_right zero_neq_numeral
      not_False_eq_True div_mult_mod_eq neq0_conv)

lemma b64_roundtrip [simp]: "b64decode (b64encode s) = Some s"
  by (induction s rule: b64encode.induct) (simp_all add: Let_def)

end
