(* ===== verification/ExecutionRecord.thy ===== *)
theory ExecutionRecord
  imports Base64
begin

text \<open>
  The durable execution record of \<^verbatim>\<open>hermes_pipeline/agent_execution.py\<close>: its schema constants and
  \<^verbatim>\<open>_validate\<close>, the check that every record passes when it is loaded and before it is written.

  The record is the dictionary the code works on.  The digest \<^verbatim>\<open>hashlib.sha256(...).hexdigest()\<close>, path
  resolution, kernel locks and the boot identity of the host are fields of a \<open>world\<close>.
\<close>

section \<open>The world an operation runs in\<close>

record world =
  sha256 :: "string \<Rightarrow> string"            \<comment> \<open>hexdigest of the bytes\<close>
  resolve :: "string \<Rightarrow> string list"      \<comment> \<open>components of \<^verbatim>\<open>Path(p).resolve()\<close>\<close>
  dir_errno :: "string \<Rightarrow> int option"     \<comment> \<open>errno with which opening a storage directory fails\<close>
  flock :: "string \<Rightarrow> int option"         \<comment> \<open>errno with which a non-blocking lock fails\<close>
  host_boot :: "json \<times> json"               \<comment> \<open>host name and boot identity\<close>

definition digest :: "world \<Rightarrow> json \<Rightarrow> string" where
  "digest w v = sha256 w (canonical v)"

section \<open>Schema constants\<close>

definition SCHEMA_VERSION :: int where "SCHEMA_VERSION = 3"

definition MAX_RECORD_BYTES :: nat where "MAX_RECORD_BYTES = 8 * 1024 * 1024"

definition TERMINAL :: "string list" where
  "TERMINAL = [''exited'', ''timed_out'', ''interrupted'', ''blocked'']"

definition STATUSES :: "string list" where
  "STATUSES = TERMINAL @ [''admitted'', ''running'', ''running_detached'', ''cleanup_unconfirmed'', ''lock_unconfirmed'']"

definition RECORD_FIELDS :: "string list" where
  "RECORD_FIELDS = [''version'', ''execution_id'', ''registration'', ''attempts'', ''approved_recovery'']"

definition REGISTRATION_FIELDS :: "string list" where
  "REGISTRATION_FIELDS = [''registration_id'', ''plan_identity'', ''phase'', ''prompt_base64'', ''prompt_sha256'',
     ''client'', ''worktree'', ''branch'', ''result_contract'', ''timeout'', ''manifest'']"

definition ATTEMPT_FIELDS :: "string list" where
  "ATTEMPT_FIELDS = [''generation'', ''status'', ''host'', ''boot_id'', ''supervisor'', ''client_process'',
     ''started_monotonic'', ''deadline_monotonic'', ''exit_code'', ''exit_signal'', ''cleanup'',
     ''reason'', ''recovery_event'', ''recovery_context'', ''owned_processes'', ''owned_cgroups'', ''direct_processes'']"

definition CLEANUPS :: "string list" where
  "CLEANUPS = [''pending'', ''confirmed'', ''unconfirmed'']"

section \<open>Validation\<close>

text \<open>\<^verbatim>\<open>[A-Za-z0-9][A-Za-z0-9_.-]{0,127}\<close>, \<^verbatim>\<open>fullmatch\<close>.\<close>

definition identifier_ok :: "string \<Rightarrow> bool" where
  "identifier_ok s = first_then alnum (\<lambda>c. alnum c \<or> c \<in> set ''_.-'') 127 s"

definition check_identifier :: "json \<Rightarrow> unit res" where
  "check_identifier v = raise_if (\<not> is_str v \<or> \<not> identifier_ok (str_of v)) (ExecutionError ''invalid execution identity'')"

text \<open>\<^verbatim>\<open>tpo-[0-9a-f]{32}\.scope\<close>.\<close>

definition unit_ok :: "string \<Rightarrow> bool" where
  "unit_ok s \<longleftrightarrow> length s = 42 \<and> take 4 s = ''tpo-'' \<and> list_all hex_lower (take 32 (drop 4 s)) \<and> drop 36 s = ''.scope''"

text \<open>A path segment \<^verbatim>\<open>prefix[0-9]+suffix\<close>.\<close>

definition numbered :: "string \<Rightarrow> string \<Rightarrow> string \<Rightarrow> bool" where
  "numbered pre suf s \<longleftrightarrow> startswith s pre \<and> endswith s suf \<and> length pre + length suf < length s
     \<and> list_all (\<lambda>c. c \<in> set digits) (take (length s - length pre - length suf) (drop (length pre) s))"

definition cgroup_path_ok :: "string \<Rightarrow> string \<Rightarrow> bool" where
  "cgroup_path_ok unit path =
     (case split_on (CHR ''/'') path of
        r # a # b # c # d # e # f # rest \<Rightarrow>
          r = [] \<and> a = ''sys'' \<and> b = ''fs'' \<and> c = ''cgroup'' \<and> d = ''user.slice''
          \<and> numbered ''user-'' ''.slice'' e \<and> numbered ''user@'' ''.service'' f
          \<and> rest \<noteq> [] \<and> last rest = unit
          \<and> list_all (\<lambda>p. p \<noteq> [] \<and> list_all (\<lambda>ch. alnum ch \<or> ch \<in> set ''_.@-'') p) (butlast rest)
      | _ \<Rightarrow> False)"

definition CGROUP_FIELDS :: "string list" where
  "CGROUP_FIELDS = [''version'', ''path'', ''device'', ''inode'', ''boot_id'', ''host'', ''unit'']"

definition validate_legacy_cgroup :: "json \<Rightarrow> unit res" where
  "validate_legacy_cgroup v = (let bad = ValueErr ''invalid cgroup receipt''; r = dict_of v;
     second = py_eq (dget r ''version'') (JInt 2);
     fields = CGROUP_FIELDS @ (if second then [''root_device'', ''root_inode''] else []);
     positive = [''device'', ''inode''] @ (if second then [''root_device'', ''root_inode''] else []);
     unit = str_of (dget r ''unit''); path = str_of (dget r ''path'')
   in run_checks [
     raise_if (\<not> is_dict v) bad,
     raise_if (\<not> keys_are r fields) bad,
     raise_if (\<not> is_int (dget r ''version'') \<or> int_of (dget r ''version'') \<notin> {1, 2}) bad,
     raise_if (\<not> is_str (dget r ''unit'') \<or> \<not> unit_ok unit) bad,
     raise_if (\<not> is_str (dget r ''path'')) bad,
     raise_if (\<exists>part \<in> set (split_on (CHR ''/'') path). part \<in> {''.'', ''..''}) bad,
     raise_if (\<not> cgroup_path_ok unit path) bad,
     raise_if (\<exists>k \<in> set positive. \<not> is_int (dget r k) \<or> int_of (dget r k) \<le> 0) bad,
     raise_if (\<exists>k \<in> set [''boot_id'', ''host'']. \<not> is_str (dget r k) \<or> dget r k = JStr [] \<or> 256 < length (str_of (dget r k))) bad])"

definition validate_registration :: "world \<Rightarrow> json \<Rightarrow> unit res" where
  "validate_registration w v = (let r = dict_of v; c = dget r ''client''; cd = dict_of c; tm = dget r ''timeout'' in run_checks [
     raise_if (\<not> is_dict v \<or> \<not> keys_are r REGISTRATION_FIELDS) (ExecutionError ''invalid registration schema''),
     for_each (\<lambda>k. raise_if (\<not> is_str (dget r k) \<or> dget r k = JStr []) (ExecutionError ''missing pinned registration identity''))
       [''registration_id'', ''plan_identity'', ''phase'', ''worktree'', ''branch''],
     raise_if (\<not> hex_of_length 64 (str_of (dget r ''plan_identity''))) (ExecutionError ''invalid pinned Plan digest''),
     raise_if (\<not> is_dict c \<or> \<not> keys_are cd [''name'', ''tools'']) (ExecutionError ''invalid pinned client configuration''),
     raise_if (\<not> hashable (dget cd ''name'')) TypeErr,
     raise_if (\<not> str_in (dget cd ''name'') [''claude'', ''codex''] \<or> \<not> is_list (dget cd ''tools'')
         \<or> (\<exists>t \<in> set (items (dget cd ''tools'')). \<not> is_str t \<or> t = JStr [])) (ExecutionError ''invalid pinned client configuration''),
     raise_if (\<not> is_number tm) (ExecutionError ''invalid phase timeout''),
     rbind (isfinite tm) (\<lambda>fin. raise_if (\<not> fin \<or> num_le (num tm) zero) (ExecutionError ''invalid phase timeout'')),
     raise_if (\<not> is_dict (dget r ''result_contract'') \<or> \<not> (is_dict (dget r ''manifest'') \<or> dget r ''manifest'' = JNull))
       (ExecutionError ''invalid result or manifest contract''),
     (case dget r ''prompt_base64'' of
        JStr s \<Rightarrow> (case b64decode s of
            None \<Rightarrow> Inl (ExecutionError ''invalid pinned prompt'')
          | Some prompt \<Rightarrow> raise_if (dget r ''prompt_sha256'' \<noteq> JStr (sha256 w prompt)) (ExecutionError ''pinned prompt digest mismatch''))
      | _ \<Rightarrow> Inl (ExecutionError ''invalid pinned prompt''))])"

definition CORE :: "string list" where
  "CORE = [''pid'', ''start_ticks'', ''boot_id'', ''host'']"

definition validate_identity :: "string list \<Rightarrow> json \<Rightarrow> unit res" where
  "validate_identity units v = (let i = dict_of v; ks = fst ` set i; t = dget i ''start_ticks'' in
     if v = JNull then Inr () else run_checks [
     raise_if (\<not> is_dict v \<or> \<not> set CORE \<subseteq> ks \<or> \<not> ks \<subseteq> set CORE \<union> set [''ppid'', ''pgrp'', ''session'', ''state'', ''cgroup''])
       (ExecutionError ''invalid process identity schema''),
     raise_if (has_key i ''cgroup'' \<and> \<not> str_in (dget i ''cgroup'') units) (ExecutionError ''process cgroup is not recorded''),
     raise_if (\<not> is_int (dget i ''pid'') \<or> int_of (dget i ''pid'') \<le> 0
         \<or> (\<exists>k \<in> set [''boot_id'', ''host'']. dget i k \<noteq> JNull \<and> \<not> is_str (dget i k))
         \<or> (t \<noteq> JNull \<and> (\<not> is_int t \<or> int_of t < 0)))
       (ExecutionError ''invalid process identity'')])"

definition attempt_fields :: "int \<Rightarrow> string list" where
  "attempt_fields version = filter (\<lambda>k. \<not> (version < 3 \<and> k = ''direct_processes'') \<and> \<not> (version = 1 \<and> k = ''owned_cgroups'')) ATTEMPT_FIELDS"

text \<open>\<^verbatim>\<open>attempt.get(key, [])\<close>.\<close>

definition get_list :: "dict \<Rightarrow> string \<Rightarrow> json" where
  "get_list d k = (if has_key d k then dget d k else JList [])"

text \<open>The checks on the contents of an attempt: its fields \<open>f\<close>, its cgroup receipts and its direct processes.\<close>

definition attempt_checks :: "(string \<Rightarrow> json) \<Rightarrow> json \<Rightarrow> json \<Rightarrow> unit res" where
  "attempt_checks f groups roots = (let
     started = f ''started_monotonic''; deadline = f ''deadline_monotonic'';
     code = f ''exit_code''; signal = f ''exit_signal'';
     units = map (\<lambda>g. str_of (dget (dict_of g) ''unit'')) (items groups)
   in run_checks [
     raise_if (\<not> hashable (f ''status'')) TypeErr,
     raise_if (\<not> str_in (f ''status'') STATUSES) (ExecutionError ''invalid attempt outcome''),
     raise_if (\<not> hashable (f ''cleanup'')) TypeErr,
     raise_if (\<not> str_in (f ''cleanup'') CLEANUPS) (ExecutionError ''invalid attempt outcome''),
     for_each (\<lambda>k. let x = f k in if x = JNull then Inr () else
         if \<not> is_number x then Inl (ExecutionError ''invalid monotonic timestamp'')
         else rbind (isfinite x) (\<lambda>fin. raise_if (\<not> fin \<or> num_less (num x) zero) (ExecutionError ''invalid monotonic timestamp'')))
       [''started_monotonic'', ''deadline_monotonic''],
     for_each (\<lambda>k. raise_if (f k \<noteq> JNull \<and> \<not> is_int (f k)) (ExecutionError ''invalid collected exit evidence''))
       [''exit_code'', ''exit_signal''],
     raise_if (started \<noteq> JNull \<and> deadline \<noteq> JNull \<and> num_le (num deadline) (num started)) (ExecutionError ''deadline must follow client launch''),
     raise_if (signal \<noteq> JNull \<and> (int_of signal \<le> 0 \<or> (code \<noteq> JNull \<and> int_of code \<noteq> - int_of signal)))
       (ExecutionError ''contradictory collected exit evidence''),
     raise_if (f ''status'' = JStr ''exited'' \<and> code = JNull \<and> signal = JNull) (ExecutionError ''exited requires durable collected exit evidence''),
     for_each (\<lambda>k. raise_if (f k \<noteq> JNull \<and> (\<not> is_str (f k) \<or> 65536 < length (str_of (f k))))
         (ExecutionError ''invalid attempt identity or recovery context''))
       [''host'', ''boot_id'', ''reason'', ''recovery_event'', ''recovery_context''],
     raise_if (\<not> is_list (f ''owned_processes'') \<or> 4096 < length (items (f ''owned_processes'')))
       (ExecutionError ''invalid owned process inventory''),
     raise_if (\<not> is_list groups \<or> 2048 < length (items groups)) (ExecutionError ''invalid cgroup inventory''),
     (case for_each validate_legacy_cgroup (items groups) of Inl _ \<Rightarrow> Inl (ExecutionError ''invalid cgroup receipt'') | Inr u \<Rightarrow> Inr u),
     raise_if (\<not> distinct units) (ExecutionError ''duplicate cgroup receipt''),
     raise_if (\<not> is_list roots \<or> 2048 < length (items roots) \<or> (\<exists>r \<in> set (items roots). \<not> is_dict r)
         \<or> \<not> distinct (map canonical (items roots))) (ExecutionError ''invalid direct process receipts''),
     for_each (validate_identity units)
       ([f ''supervisor'', f ''client_process''] @ items (f ''owned_processes'') @ items roots)])"

definition validate_attempt :: "int \<Rightarrow> nat \<Rightarrow> json \<Rightarrow> unit res" where
  "validate_attempt version generation v = (let a = dict_of v in run_checks [
     raise_if (\<not> is_dict v \<or> \<not> keys_are a (attempt_fields version) \<or> dget a ''generation'' \<noteq> JInt (int generation))
       (ExecutionError ''invalid attempt generation or schema''),
     attempt_checks (dget a) (get_list a ''owned_cgroups'') (get_list a ''direct_processes'')])"

text \<open>\<^verbatim>\<open>enumerate(record["attempts"], 1)\<close>.\<close>

fun validate_attempts :: "int \<Rightarrow> nat \<Rightarrow> json list \<Rightarrow> unit res" where
  "validate_attempts version g [] = Inr ()"
| "validate_attempts version g (a # as) =
     (case validate_attempt version g a of Inl e \<Rightarrow> Inl e | Inr _ \<Rightarrow> validate_attempts version (Suc g) as)"

definition validate_approval :: "json \<Rightarrow> unit res" where
  "validate_approval v = (let d = dict_of v in raise_if (v \<noteq> JNull \<and> (\<not> is_dict v
       \<or> \<not> keys_are d [''generation'', ''event_id'', ''recovery_context''] \<or> \<not> is_int (dget d ''generation'')
       \<or> \<not> is_str (dget d ''event_id'') \<or> dget d ''event_id'' = JStr []
       \<or> \<not> is_str (dget d ''recovery_context'') \<or> 65536 < length (str_of (dget d ''recovery_context''))))
     (ExecutionError ''invalid recovery authorization''))"

definition validate :: "world \<Rightarrow> json \<Rightarrow> unit res" where
  "validate w v = (let r = dict_of v in run_checks [
     raise_if (\<not> is_dict v \<or> \<not> keys_are r RECORD_FIELDS \<or> \<not> is_int (dget r ''version'')
         \<or> int_of (dget r ''version'') \<notin> {1, 2, SCHEMA_VERSION}) (ExecutionError ''unsupported execution record schema''),
     check_identifier (dget r ''execution_id''),
     validate_registration w (dget r ''registration''),
     raise_if (\<not> is_list (dget r ''attempts'')) (ExecutionError ''invalid attempt journal''),
     validate_attempts (int_of (dget r ''version'')) 1 (items (dget r ''attempts'')),
     validate_approval (dget r ''approved_recovery'')])"

section \<open>What validation establishes\<close>

lemma validate_attempts_iff:
  "validate_attempts version g as = Inr () \<longleftrightarrow> (\<forall>i < length as. validate_attempt version (g + i) (as ! i) = Inr ())"
proof (induction as arbitrary: g)
  case (Cons a as)
  have "(\<forall>i < length (a # as). validate_attempt version (g + i) ((a # as) ! i) = Inr ()) \<longleftrightarrow>
      validate_attempt version g a = Inr () \<and> (\<forall>i < length as. validate_attempt version (Suc g + i) (as ! i) = Inr ())"
    by (auto simp: All_less_Suc2)
  with Cons.IH [of "Suc g"] show ?case
    by (cases "validate_attempt version g a") simp_all
qed simp

lemma validate_attempts_append:
  "validate_attempts version g (as @ [a]) = Inr () \<longleftrightarrow>
     validate_attempts version g as = Inr () \<and> validate_attempt version (g + length as) a = Inr ()"
  by (induction as arbitrary: g) (auto split: sum.splits)

definition attempts_of :: "dict \<Rightarrow> json list" where
  "attempts_of r = items (dget r ''attempts'')"

text \<open>Fields of an attempt of the journal.\<close>

definition afield :: "json \<Rightarrow> string \<Rightarrow> json" where
  "afield a k = dget (dict_of a) k"

lemma validate_iff:
  "validate w (JObj r) = Inr u \<longleftrightarrow>
     keys_are r RECORD_FIELDS \<and> (\<exists>v \<in> {1, 2, SCHEMA_VERSION}. dget r ''version'' = JInt v) \<and>
     check_identifier (dget r ''execution_id'') = Inr () \<and> validate_registration w (dget r ''registration'') = Inr () \<and>
     is_list (dget r ''attempts'') \<and> validate_attempts (int_of (dget r ''version'')) 1 (attempts_of r) = Inr () \<and>
     validate_approval (dget r ''approved_recovery'') = Inr ()"
  by (auto simp: validate_def Let_def attempts_of_def is_int_iff)

lemma valid_attempt_shape:
  assumes "validate_attempt version g v = Inr u"
  shows "is_dict v" "keys_are (dict_of v) (attempt_fields version)" "afield v ''generation'' = JInt (int g)"
    "str_in (afield v ''status'') STATUSES" "str_in (afield v ''cleanup'') CLEANUPS"
  using assms by (auto simp: validate_attempt_def attempt_checks_def Let_def afield_def)

lemma valid_attempt_exit:
  assumes "validate_attempt version g v = Inr u" and "afield v ''status'' = JStr ''exited''"
  shows "afield v ''exit_code'' \<noteq> JNull \<or> afield v ''exit_signal'' \<noteq> JNull"
  using assms by (auto simp: validate_attempt_def attempt_checks_def Let_def afield_def)

lemma valid_generations:
  assumes "validate w (JObj r) = Inr u" and "i < length (attempts_of r)"
  shows "afield (attempts_of r ! i) ''generation'' = JInt (int (Suc i))"
proof -
  from assms have "validate_attempt (int_of (dget r ''version'')) (1 + i) (attempts_of r ! i) = Inr ()"
    by (simp add: validate_iff validate_attempts_iff)
  then show ?thesis using valid_attempt_shape(3) by fastforce
qed

lemma valid_last_generation:
  assumes "validate w (JObj r) = Inr u" and "attempts_of r \<noteq> []"
  shows "afield (last (attempts_of r)) ''generation'' = JInt (int (length (attempts_of r)))"
  using valid_generations [OF assms(1), of "length (attempts_of r) - 1"] assms(2)
  by (simp add: last_conv_nth)

end
