(* ===== verification/ExecutionStore.thy ===== *)
theory ExecutionStore
  imports ExecutionRecord
begin

text \<open>
  \<^verbatim>\<open>ExecutionStore\<close> of \<^verbatim>\<open>hermes_pipeline/agent_execution.py\<close>: directories of JSON files, one per
  execution, the lock discipline, and the operations that register an execution, admit an attempt,
  authorize a retry and update the current attempt.
\<close>

section \<open>Files, directories, locks\<close>

text \<open>A file is its size in bytes and what \<^verbatim>\<open>json.loads\<close> makes of it (\<^const>\<open>None\<close>: it raises).\<close>

datatype fcontent = File nat "json option"

type_synonym directory = "(string \<times> fcontent) list"

record store =
  store_root :: string
  dirs :: "(string \<times> directory) list"
  held :: "string list"

definition RECORD :: string where "RECORD = ''record.json''"

text \<open>\<^verbatim>\<open>_directory_handle\<close>: the identifier check, then opening (or first creating) the directory.\<close>

definition open_directory :: "world \<Rightarrow> string \<Rightarrow> bool \<Rightarrow> (store, unit) op" where
  "open_directory w eid create s =
     (if \<not> identifier_ok eid then (Inl (ExecutionError ''invalid execution identity''), s)
      else let s' = (if create \<and> map_of (dirs s) eid = None then s\<lparr>dirs := dirs s @ [(eid, [])]\<rparr> else s)
       in (case dir_errno w eid of
             Some e \<Rightarrow> (Inl (OSErr e), s')
           | None \<Rightarrow> (case map_of (dirs s') eid of None \<Rightarrow> (Inl FileNotFound, s') | Some _ \<Rightarrow> (Inr (), s'))))"

text \<open>\<^verbatim>\<open>_safe_read\<close> of a file of the directory, and \<^verbatim>\<open>json.loads\<close> of it.\<close>

definition safe_read :: "world \<Rightarrow> string \<Rightarrow> string \<Rightarrow> store \<Rightarrow> fcontent res" where
  "safe_read w eid name s = (case fst (open_directory w eid False s) of
      Inl e \<Rightarrow> Inl e
    | Inr _ \<Rightarrow> (case map_of (the (map_of (dirs s) eid)) name of
          None \<Rightarrow> Inl FileNotFound
        | Some (File n v) \<Rightarrow>
            if MAX_RECORD_BYTES < n then Inl (ExecutionError ''execution record exceeds size limit'') else Inr (File n v)))"

definition read_json :: "world \<Rightarrow> string \<Rightarrow> string \<Rightarrow> store \<Rightarrow> json res" where
  "read_json w eid name s = (case safe_read w eid name s of
      Inl e \<Rightarrow> Inl e
    | Inr (File _ (Some v)) \<Rightarrow> Inr v
    | Inr (File _ None) \<Rightarrow> Inl (ValueErr ''json''))"

text \<open>Replacing a file of an open directory, as \<^verbatim>\<open>os.replace\<close> does.\<close>

definition put_file :: "string \<Rightarrow> string \<Rightarrow> fcontent \<Rightarrow> store \<Rightarrow> store" where
  "put_file eid name f s =
     s\<lparr>dirs := AList.update eid (AList.update name f (the (map_of (dirs s) eid))) (dirs s)\<rparr>"

definition file_size :: "json \<Rightarrow> nat" where
  "file_size v = length (canonical v)"

text \<open>
  \<^verbatim>\<open>_atomic_write\<close> under \<^verbatim>\<open>_directory_handle\<close>: NaN and infinities are refused, then the size limit.
  The sorting of keys in the written text is not observed by any reader, so the value is kept as it is.
\<close>

definition atomic_write :: "world \<Rightarrow> string \<Rightarrow> string \<Rightarrow> json \<Rightarrow> (store, unit) op" where
  "atomic_write w eid name v = then_op (open_directory w eid False) (\<lambda>s.
     if \<not> finite_json v then (Inl (ValueErr ''Out of range float values are not JSON compliant''), s)
     else if MAX_RECORD_BYTES < file_size v then (Inl (ExecutionError ''execution record exceeds size limit''), s)
     else (Inr (), put_file eid name (File (file_size v) (Some v)) s))"

text \<open>
  \<^verbatim>\<open>with store.locked(eid): body\<close>.  The lock nests on the same thread, and leaving the block releases
  it whether the body returns or raises.
\<close>

definition locked :: "world \<Rightarrow> string \<Rightarrow> (store, 'a) op \<Rightarrow> (store, 'a) op" where
  "locked w eid body s = (case open_directory w eid True s of
      (Inl e, s') \<Rightarrow> ((case e of OSErr n \<Rightarrow> Inl (LockUnconfirmed (Some n)) | FileNotFound \<Rightarrow> Inl (LockUnconfirmed (Some 2)) | _ \<Rightarrow> Inl e), s')
    | (Inr _, s') \<Rightarrow>
        if eid \<in> set (held s') then body s'
        else (case flock w eid of
            Some n \<Rightarrow> (Inl (LockUnconfirmed (Some n)), s')
          | None \<Rightarrow> (let (r, s'') = body (s'\<lparr>held := eid # held s'\<rparr>) in (r, s''\<lparr>held := remove1 eid (held s'')\<rparr>))))"

section \<open>Loading\<close>

definition is_absolute :: "string \<Rightarrow> bool" where
  "is_absolute p \<longleftrightarrow> startswith p ''/''"

definition is_relative_to :: "string list \<Rightarrow> string list \<Rightarrow> bool" where
  "is_relative_to p q \<longleftrightarrow> take (length q) p = q"

definition outside_worktree :: "world \<Rightarrow> store \<Rightarrow> string \<Rightarrow> unit res" where
  "outside_worktree w s worktree = run_checks [
     raise_if (\<not> is_absolute worktree) (ExecutionError ''worktree must be absolute''),
     raise_if (is_relative_to (resolve w (store_root s)) (resolve w worktree))
       (ExecutionError ''execution records must be outside the execution worktree'')]"

text \<open>The migration of records written before schema version 3.\<close>

definition upgrade_attempt :: "json \<Rightarrow> json" where
  "upgrade_attempt a = (let d = dict_of a;
     d = (if has_key d ''owned_cgroups'' then d else dput ''owned_cgroups'' (JList []) d)
   in JObj (dput ''direct_processes'' (JList []) d))"

definition upgrade :: "dict \<Rightarrow> dict" where
  "upgrade r = (if int_of (dget r ''version'') < SCHEMA_VERSION
     then dput ''version'' (JInt SCHEMA_VERSION) (dput ''attempts'' (JList (map upgrade_attempt (attempts_of r))) r)
     else r)"

text \<open>What \<^verbatim>\<open>load\<close> does with the value it has read: validation, migration, identity, location.\<close>

definition accept_record :: "world \<Rightarrow> store \<Rightarrow> string \<Rightarrow> json \<Rightarrow> dict res" where
  "accept_record w s eid v = (let r = upgrade (dict_of v) in
     rbind (run_checks [
        validate w v,
        raise_if (\<not> py_eq (dget r ''execution_id'') (JStr eid)) (ExecutionError ''execution identity mismatch''),
        outside_worktree w s (str_of (dget (dict_of (dget r ''registration'')) ''worktree''))])
       (\<lambda>_. Inr r))"

definition load :: "world \<Rightarrow> string \<Rightarrow> store \<Rightarrow> dict res" where
  "load w eid s = (case read_json w eid RECORD s of
      Inl e \<Rightarrow> if is_os_error e \<or> is_value_error e
               then Inl (ExecutionError ''execution record unavailable or invalid'') else Inl e
    | Inr v \<Rightarrow> accept_record w s eid v)"

definition write_record :: "world \<Rightarrow> string \<Rightarrow> dict \<Rightarrow> (store, unit) op" where
  "write_record w eid r = atomic_write w eid RECORD (JObj r)"

definition registration_of :: "dict \<Rightarrow> dict" where
  "registration_of r = dict_of (dget r ''registration'')"

definition worktree_of :: "dict \<Rightarrow> string" where
  "worktree_of r = str_of (dget (registration_of r) ''worktree'')"

section \<open>Registering an execution\<close>

definition make_registration ::
  "world \<Rightarrow> string \<Rightarrow> string \<Rightarrow> string \<Rightarrow> string \<Rightarrow> json \<Rightarrow> string \<Rightarrow> string \<Rightarrow> json \<Rightarrow> json \<Rightarrow> json \<Rightarrow> dict" where
  "make_registration w registration_id plan_identity phase prompt client worktree branch result_contract timeout manifest =
     [(''registration_id'', JStr registration_id), (''plan_identity'', JStr plan_identity), (''phase'', JStr phase),
      (''prompt_base64'', JStr (b64encode prompt)), (''prompt_sha256'', JStr (sha256 w prompt)), (''client'', client),
      (''worktree'', JStr worktree), (''branch'', JStr branch), (''result_contract'', result_contract),
      (''timeout'', timeout), (''manifest'', manifest)]"

definition fresh_record :: "string \<Rightarrow> dict \<Rightarrow> dict" where
  "fresh_record eid registration =
     [(''version'', JInt SCHEMA_VERSION), (''execution_id'', JStr eid), (''registration'', JObj registration),
      (''attempts'', JList []), (''approved_recovery'', JNull)]"

definition has_record :: "store \<Rightarrow> string \<Rightarrow> bool" where
  "has_record s eid \<longleftrightarrow> (case map_of (dirs s) eid of None \<Rightarrow> False | Some d \<Rightarrow> map_of d RECORD \<noteq> None)"

text \<open>\<^verbatim>\<open>register\<close>, from the registration dictionary that its keyword arguments make; the body runs under the lock.\<close>

definition register_body :: "world \<Rightarrow> string \<Rightarrow> dict \<Rightarrow> (store, dict) op" where
  "register_body w eid registration s =
     (if has_record s eid
      then bind_op (reads (load w eid)) (\<lambda>existing.
             if \<not> py_eq (dget existing ''registration'') (JObj registration)
             then raise (ExecutionError ''pinned registration drift'') else ret existing) s
      else then_op (write_record w eid (fresh_record eid registration)) (ret (fresh_record eid registration)) s)"

definition register :: "world \<Rightarrow> string \<Rightarrow> dict \<Rightarrow> (store, dict) op" where
  "register w eid registration =
     then_op (reads (\<lambda>s. outside_worktree w s (str_of (dget registration ''worktree''))))
     (then_op (lift_res (validate w (JObj (fresh_record eid registration))))
     (locked w eid (register_body w eid registration)))"

text \<open>\<^verbatim>\<open>prompt\<close>: the decoded bytes.\<close>

definition prompt :: "world \<Rightarrow> string \<Rightarrow> store \<Rightarrow> string res" where
  "prompt w eid s = rbind (load w eid s) (\<lambda>r.
     case b64decode (str_of (dget (registration_of r) ''prompt_base64'')) of
       None \<Rightarrow> Inl (ValueErr ''binascii'') | Some p \<Rightarrow> Inr p)"

section \<open>Worktree ownership\<close>

definition path_text :: "string list \<Rightarrow> string" where
  "path_text parts = (if parts = [] then ''/'' else concat (map (\<lambda>p. ''/'' @ p) parts))"

definition worktree_lock_id :: "world \<Rightarrow> string \<Rightarrow> store \<Rightarrow> string res" where
  "worktree_lock_id w eid s = rbind (load w eid s) (\<lambda>r.
     Inr (''worktree-'' @ sha256 w (path_text (resolve w (worktree_of r)))))"

definition resolved_attempt :: "json \<Rightarrow> bool" where
  "resolved_attempt a \<longleftrightarrow> afield a ''cleanup'' = JStr ''confirmed'' \<and> str_in (afield a ''status'') TERMINAL"

definition assert_worktree_peers_resolved :: "world \<Rightarrow> string \<Rightarrow> store \<Rightarrow> unit res" where
  "assert_worktree_peers_resolved w eid s = rbind (load w eid s) (\<lambda>r.
     for_each (\<lambda>d. rbind (load w (fst d) s) (\<lambda>other.
         raise_if (resolve w (worktree_of other) = resolve w (worktree_of r)
             \<and> (\<exists>a \<in> set (attempts_of other). \<not> resolved_attempt a))
           (ExecutionError ''worktree has an unresolved owned attempt'')))
       (filter (\<lambda>d. map_of (snd d) RECORD \<noteq> None \<and> fst d \<noteq> eid) (dirs s)))"

definition worktree_locked :: "world \<Rightarrow> string \<Rightarrow> (store, 'a) op \<Rightarrow> (store, 'a) op" where
  "worktree_locked w eid body = bind_op (reads (worktree_lock_id w eid)) (\<lambda>lock_id.
     locked w lock_id (then_op (reads (assert_worktree_peers_resolved w eid)) body))"

section \<open>Admission\<close>

definition new_attempt :: "world \<Rightarrow> nat \<Rightarrow> json \<Rightarrow> json \<Rightarrow> json" where
  "new_attempt w n recovery_event context = JObj
     [(''generation'', JInt (int n + 1)), (''status'', JStr ''admitted''),
      (''host'', fst (host_boot w)), (''boot_id'', snd (host_boot w)),
      (''supervisor'', JNull), (''client_process'', JNull), (''started_monotonic'', JNull),
      (''deadline_monotonic'', JNull), (''exit_code'', JNull), (''exit_signal'', JNull),
      (''cleanup'', JStr ''pending''), (''reason'', JNull), (''recovery_event'', recovery_event),
      (''recovery_context'', context), (''owned_processes'', JList []), (''owned_cgroups'', JList []),
      (''direct_processes'', JList [])]"

definition retry_authorized :: "dict \<Rightarrow> string \<Rightarrow> bool" where
  "retry_authorized r event \<longleftrightarrow> (let approval = dget r ''approved_recovery''; a = last (attempts_of r) in
     approval \<noteq> JNull \<and> dget (dict_of approval) ''generation'' = afield a ''generation''
     \<and> dget (dict_of approval) ''event_id'' = JStr event \<and> resolved_attempt a)"

definition admitted_record :: "world \<Rightarrow> dict \<Rightarrow> json \<Rightarrow> dict" where
  "admitted_record w r event = (let approval = dget r ''approved_recovery'';
       context = (if truthy approval then dget (dict_of approval) ''recovery_context'' else JNull)
     in dput ''approved_recovery'' JNull
          (dput ''attempts'' (JList (attempts_of r @ [new_attempt w (length (attempts_of r)) event context])) r))"

definition event_json :: "string option \<Rightarrow> json" where
  "event_json ev = (case ev of None \<Rightarrow> JNull | Some e \<Rightarrow> JStr e)"

text \<open>What \<^verbatim>\<open>admit\<close> does with the record it has loaded, under both locks.\<close>

definition admit_body :: "world \<Rightarrow> string \<Rightarrow> string option \<Rightarrow> dict \<Rightarrow> (store, dict \<times> bool) op" where
  "admit_body w eid recovery_event r = (let new = admitted_record w r (event_json recovery_event);
       commit = then_op (write_record w eid new) (ret (new, True))
     in (if attempts_of r \<noteq> []
         then (case recovery_event of
             None \<Rightarrow> ret (r, False)
           | Some e \<Rightarrow> if \<not> retry_authorized r e
               then raise (ExecutionError ''retry lacks verified authorization or confirmed cleanup'') else commit)
         else (case recovery_event of
             None \<Rightarrow> commit
           | Some _ \<Rightarrow> raise (ExecutionError ''recovery requires a prior attempt''))))"

definition admit :: "world \<Rightarrow> string \<Rightarrow> string option \<Rightarrow> (store, dict \<times> bool) op" where
  "admit w eid recovery_event =
     worktree_locked w eid (locked w eid (bind_op (reads (load w eid)) (admit_body w eid recovery_event)))"

section \<open>Authorizing a retry\<close>

definition authorized_record :: "dict \<Rightarrow> int \<Rightarrow> string \<Rightarrow> string \<Rightarrow> dict" where
  "authorized_record r expected_generation event_id recovery_context =
     dput ''approved_recovery'' (JObj [(''generation'', JInt expected_generation),
       (''event_id'', JStr event_id), (''recovery_context'', JStr recovery_context)]) r"

definition authorize_body :: "world \<Rightarrow> string \<Rightarrow> int \<Rightarrow> string \<Rightarrow> string \<Rightarrow> dict \<Rightarrow> (store, unit) op" where
  "authorize_body w eid expected_generation event_id recovery_context r =
     (let new = authorized_record r expected_generation event_id recovery_context in
      if attempts_of r = [] \<or> afield (last (attempts_of r)) ''generation'' \<noteq> JInt expected_generation
      then raise (ExecutionError ''stale recovery authorization'')
      else if \<exists>a \<in> set (attempts_of r). afield a ''recovery_event'' = JStr event_id
      then raise (ExecutionError ''recovery event already consumed'')
      else then_op (lift_res (validate w (JObj new))) (write_record w eid new))"

definition authorize_retry :: "world \<Rightarrow> string \<Rightarrow> int \<Rightarrow> string \<Rightarrow> string \<Rightarrow> (store, unit) op" where
  "authorize_retry w eid expected_generation event_id recovery_context =
     then_op (lift_res (check_identifier (JStr event_id)))
       (locked w eid (bind_op (reads (load w eid)) (authorize_body w eid expected_generation event_id recovery_context)))"

section \<open>Updating the current attempt\<close>

definition IMMUTABLE_FIELDS :: "string list" where
  "IMMUTABLE_FIELDS = [''generation'', ''recovery_event'', ''recovery_context'']"

definition WRITE_ONCE_FIELDS :: "string list" where
  "WRITE_ONCE_FIELDS = [''exit_code'', ''exit_signal'', ''started_monotonic'', ''deadline_monotonic'', ''supervisor'', ''client_process'']"

definition appends :: "json \<Rightarrow> json \<Rightarrow> bool" where
  "appends new old \<longleftrightarrow> is_list new \<and> py_eq_list (take (length (items old)) (items new)) (items old)"

definition update_checks :: "dict \<Rightarrow> dict \<Rightarrow> unit res" where
  "update_checks a changes = run_checks [
     raise_if (str_in (dget a ''status'') TERMINAL \<and> has_key changes ''status''
         \<and> \<not> py_eq (dget changes ''status'') (dget a ''status'')) (ExecutionError ''terminal attempt outcome is immutable''),
     for_each (\<lambda>k. raise_if (has_key changes k \<and> dget a k \<noteq> JNull \<and> \<not> py_eq (dget changes k) (dget a k))
         (ExecutionError ''collected exit and launch identity are immutable'')) WRITE_ONCE_FIELDS,
     raise_if (has_key changes ''owned_cgroups'' \<and> \<not> appends (dget changes ''owned_cgroups'') (dget a ''owned_cgroups''))
       (ExecutionError ''cgroup ownership receipts are append-only''),
     raise_if (has_key changes ''direct_processes'' \<and> \<not> appends (dget changes ''direct_processes'') (dget a ''direct_processes''))
       (ExecutionError ''direct process receipts are append-only'')]"

definition updated_record :: "dict \<Rightarrow> dict \<Rightarrow> dict" where
  "updated_record r changes = dput ''attempts'' (JList (butlast (attempts_of r)
     @ [JObj (dupdate (dict_of (last (attempts_of r))) changes)])) r"

definition update_body :: "world \<Rightarrow> string \<Rightarrow> int \<Rightarrow> dict \<Rightarrow> dict \<Rightarrow> (store, dict) op" where
  "update_body w eid generation changes r =
     (if attempts_of r = [] \<or> afield (last (attempts_of r)) ''generation'' \<noteq> JInt generation
      then raise (ExecutionError ''stale attempt cannot overwrite current evidence'')
      else then_op (lift_res (update_checks (dict_of (last (attempts_of r))) changes))
        (then_op (lift_res (validate w (JObj (updated_record r changes))))
        (then_op (write_record w eid (updated_record r changes)) (ret (updated_record r changes)))))"

definition update_attempt :: "world \<Rightarrow> string \<Rightarrow> int \<Rightarrow> dict \<Rightarrow> (store, dict) op" where
  "update_attempt w eid generation changes =
     then_op (lift_res (raise_if (\<not> fst ` set changes \<subseteq> set ATTEMPT_FIELDS - set IMMUTABLE_FIELDS)
                (ExecutionError ''unknown or immutable attempt fields'')))
       (locked w eid (bind_op (reads (load w eid)) (update_body w eid generation changes)))"

section \<open>Frame facts\<close>

text \<open>A store with the directories of another one, and perhaps new empty ones.\<close>

definition extends :: "store \<Rightarrow> store \<Rightarrow> bool" where
  "extends s s' \<longleftrightarrow> store_root s' = store_root s \<and>
     (\<forall>d. map_of (dirs s') d = map_of (dirs s) d \<or> (map_of (dirs s) d = None \<and> map_of (dirs s') d = Some []))"

lemma extends_refl [simp]: "extends s s"
  by (simp add: extends_def)

lemma extends_trans: "extends s t \<Longrightarrow> extends t u \<Longrightarrow> extends s u"
  unfolding extends_def by (metis option.distinct(1))

lemma extends_held [simp]: "extends s (t\<lparr>held := h\<rparr>) = extends s t" "extends (s\<lparr>held := h\<rparr>) t = extends s t"
  by (simp_all add: extends_def)

lemma extends_same: "dirs s' = dirs s \<Longrightarrow> store_root s' = store_root s \<Longrightarrow> extends s s'"
  by (simp add: extends_def)

lemma open_directory_False: "snd (open_directory w d False s) = s"
  by (auto simp: open_directory_def split: option.splits)

lemma open_directory_extends: "open_directory w d c s = (r, s') \<Longrightarrow> extends s s'"
  by (auto simp: open_directory_def extends_def map_add_def Let_def split: option.splits if_splits)

lemma open_directory_returns:
  "open_directory w d False s = (Inr (), s') \<longleftrightarrow>
     s' = s \<and> identifier_ok d \<and> dir_errno w d = None \<and> map_of (dirs s) d \<noteq> None"
  by (auto simp: open_directory_def split: option.splits)

text \<open>Reading a file needs only the directory it is in.\<close>

lemma read_json_returns:
  "read_json w d name s = Inr v \<longleftrightarrow> identifier_ok d \<and> dir_errno w d = None \<and>
     (\<exists>fs n. map_of (dirs s) d = Some fs \<and> map_of fs name = Some (File n (Some v)) \<and> n \<le> MAX_RECORD_BYTES)"
  by (auto simp: read_json_def safe_read_def open_directory_def split: option.splits fcontent.splits if_splits sum.splits)

lemma outside_worktree_cong: "store_root s' = store_root s \<Longrightarrow> outside_worktree w s' wt = outside_worktree w s wt"
  by (simp add: outside_worktree_def)

lemma accept_record_cong: "store_root s' = store_root s \<Longrightarrow> accept_record w s' d v = accept_record w s d v"
  by (simp add: accept_record_def outside_worktree_cong [of s' s])

lemma load_cong: "read_json w d RECORD s' = read_json w d RECORD s \<Longrightarrow> store_root s' = store_root s \<Longrightarrow> load w d s' = load w d s"
  by (simp add: load_def accept_record_cong [of s' s] split: sum.splits)

lemma accept_record_returns:
  "accept_record w s d v = Inr r \<longleftrightarrow> validate w v = Inr () \<and> r = upgrade (dict_of v)
     \<and> dget r ''execution_id'' = JStr d \<and> outside_worktree w s (worktree_of r) = Inr ()"
  by (auto simp: accept_record_def rbind_eq_Inr worktree_of_def registration_of_def Let_def)

lemma load_returns:
  "load w d s = Inr r \<longleftrightarrow> (\<exists>v. read_json w d RECORD s = Inr v \<and> accept_record w s d v = Inr r)"
  by (auto simp: load_def split: sum.splits if_splits)

lemma read_json_extends: "extends s s' \<Longrightarrow> read_json w d name s' = Inr v \<longleftrightarrow> read_json w d name s = Inr v"
proof -
  assume "extends s s'"
  then have "map_of (dirs s') d = map_of (dirs s) d \<or> (map_of (dirs s) d = None \<and> map_of (dirs s') d = Some [])"
    by (simp add: extends_def)
  then show ?thesis by (elim disjE) (auto simp: read_json_returns)
qed

lemma load_extends: "extends s s' \<Longrightarrow> load w d s' = Inr r \<longleftrightarrow> load w d s = Inr r"
proof -
  assume e: "extends s s'"
  then have "store_root s' = store_root s" by (simp add: extends_def)
  then show ?thesis
    by (simp add: load_returns read_json_extends [OF e] accept_record_cong [of s' s])
qed

lemma load_put_other: "d \<noteq> e \<Longrightarrow> load w d (put_file e name f s) = load w d s"
proof -
  assume "d \<noteq> e"
  then have "read_json w d RECORD (put_file e name f s) = read_json w d RECORD s"
    by (simp add: read_json_def safe_read_def open_directory_def put_file_def update_conv' split: option.splits)
  then show ?thesis
    by (rule load_cong) (simp add: put_file_def)
qed

lemma locked_returns:
  assumes "locked w k body s = (Inr y, s')"
  obtains s1 s2 where "extends s s1" "body s1 = (Inr y, s2)" "dirs s' = dirs s2" "store_root s' = store_root s2"
proof (cases "open_directory w k True s")
  case (Pair r s0)
  with assms obtain u where r: "r = Inr u"
    by (cases r) (auto simp: locked_def split: exn.splits)
  have ext: "extends s s0" using Pair by (rule open_directory_extends)
  show ?thesis
  proof (cases "k \<in> set (held s0)")
    case True
    with assms Pair r have "body s0 = (Inr y, s')" by (simp add: locked_def)
    with ext that show ?thesis by blast
  next
    case False
    with assms Pair r obtain s2 where "body (s0\<lparr>held := k # held s0\<rparr>) = (Inr y, s2)"
      and "s' = s2\<lparr>held := remove1 k (held s2)\<rparr>"
      by (auto simp: locked_def Let_def split: option.splits prod.splits)
    with ext that [of "s0\<lparr>held := k # held s0\<rparr>" s2] show ?thesis by simp
  qed
qed

lemma transaction_returns:
  assumes "locked w k (bind_op (reads (load w d)) body) s = (Inr y, s')"
  obtains r s1 s2 where "extends s s1" "load w d s = Inr r" "load w d s1 = Inr r" "body r s1 = (Inr y, s2)"
    "dirs s' = dirs s2" "store_root s' = store_root s2"
proof -
  from assms obtain s1 s2 where e: "extends s s1" and b: "bind_op (reads (load w d)) body s1 = (Inr y, s2)"
    and d: "dirs s' = dirs s2" "store_root s' = store_root s2"
    by (rule locked_returns)
  from b obtain r where "load w d s1 = Inr r" "body r s1 = (Inr y, s2)"
    by (auto simp: bind_op_returns)
  with e d that show ?thesis by (simp add: load_extends)
qed

lemma write_record_returns:
  "write_record w d r s = (Inr u, s') \<longleftrightarrow> identifier_ok d \<and> dir_errno w d = None \<and> map_of (dirs s) d \<noteq> None \<and>
     finite_json (JObj r) \<and> file_size (JObj r) \<le> MAX_RECORD_BYTES \<and>
     s' = put_file d RECORD (File (file_size (JObj r)) (Some (JObj r))) s"
  by (auto simp: write_record_def atomic_write_def then_op_returns open_directory_returns split: if_splits)

text \<open>What a loaded record is.\<close>

lemma validate_dict: "validate w v = Inr u \<Longrightarrow> v = JObj (dict_of v)"
  by (cases v) (auto simp: validate_def Let_def)

section \<open>Loaded records are valid records of the current schema\<close>

lemma upgrade_attempt_get:
  "k \<noteq> ''owned_cgroups'' \<Longrightarrow> k \<noteq> ''direct_processes'' \<Longrightarrow> dget (dict_of (upgrade_attempt a)) k = dget (dict_of a) k"
  by (simp add: upgrade_attempt_def Let_def)

lemma upgrade_attempt_lists:
  "get_list (dict_of (upgrade_attempt a)) ''owned_cgroups'' = get_list (dict_of a) ''owned_cgroups''"
  "get_list (dict_of (upgrade_attempt a)) ''direct_processes'' = JList []"
  by (simp_all add: upgrade_attempt_def Let_def get_list_def)

lemma attempt_fields_sets:
  "set (attempt_fields 3) = set ATTEMPT_FIELDS"
  "set (attempt_fields 2) = set ATTEMPT_FIELDS - {''direct_processes''}"
  "set (attempt_fields 1) = set ATTEMPT_FIELDS - {''direct_processes'', ''owned_cgroups''}"
  by (auto simp: attempt_fields_def)

lemma receipt_fields: "''direct_processes'' \<in> set ATTEMPT_FIELDS" "''owned_cgroups'' \<in> set ATTEMPT_FIELDS"
  by (simp_all add: ATTEMPT_FIELDS_def)

lemma upgrade_attempt_keys:
  "fst ` set (dict_of (upgrade_attempt a)) = fst ` set (dict_of a) \<union> {''owned_cgroups'', ''direct_processes''}"
  by (auto simp: upgrade_attempt_def Let_def has_key_def)

lemma old_attempt_keys:
  assumes "keys_are (dict_of a) (attempt_fields v)" and "v \<in> {1, 2}"
  shows "keys_are (dict_of (upgrade_attempt a)) (attempt_fields 3)" "\<not> has_key (dict_of a) ''direct_processes''"
proof -
  show "keys_are (dict_of (upgrade_attempt a)) (attempt_fields 3)"
    using assms receipt_fields by (auto simp: keys_are_def attempt_fields_sets upgrade_attempt_keys)
  show "\<not> has_key (dict_of a) ''direct_processes''"
    using assms by (auto simp: keys_are_def attempt_fields_sets has_key_def)
qed

lemma attempt_checks_upgrade:
  "attempt_checks (dget (dict_of (upgrade_attempt a))) G R = attempt_checks (dget (dict_of a)) G R"
  by (simp add: attempt_checks_def Let_def for_each_def upgrade_attempt_get)

lemma validate_attempt_upgrade:
  assumes v: "v \<in> {1, 2}" and ok: "validate_attempt v g a = Inr ()"
  shows "validate_attempt 3 g (upgrade_attempt a) = Inr ()"
proof -
  have keys: "keys_are (dict_of a) (attempt_fields v)" using valid_attempt_shape [OF ok] by simp
  note old = old_attempt_keys [OF keys v]
  have "get_list (dict_of a) ''direct_processes'' = JList []" using old by (simp add: get_list_def)
  moreover have "is_dict (upgrade_attempt a)" by (simp add: upgrade_attempt_def Let_def)
  ultimately show ?thesis
    using ok old by (simp add: validate_attempt_def Let_def attempt_checks_upgrade upgrade_attempt_lists upgrade_attempt_get)
qed

lemma validate_attempts_upgrade:
  assumes "v \<in> {1, 2}" and "validate_attempts v g as = Inr ()"
  shows "validate_attempts 3 g (map upgrade_attempt as) = Inr ()"
  using assms by (simp add: validate_attempts_iff validate_attempt_upgrade)

lemma upgrade_get:
  "k \<noteq> ''version'' \<Longrightarrow> k \<noteq> ''attempts'' \<Longrightarrow> dget (upgrade r) k = dget r k"
  by (simp add: upgrade_def)

lemma upgrade_valid:
  assumes ok: "validate w (JObj r) = Inr ()"
  shows "validate w (JObj (upgrade r)) = Inr () \<and> dget (upgrade r) ''version'' = JInt SCHEMA_VERSION"
proof (cases "int_of (dget r ''version'') < SCHEMA_VERSION")
  case True
  with ok have v: "int_of (dget r ''version'') \<in> {1, 2}"
    by (auto simp: validate_iff)
  have "keys_are (upgrade r) RECORD_FIELDS"
    using ok unfolding upgrade_def by (auto simp: validate_iff RECORD_FIELDS_def intro!: keys_are_dput)
  then show ?thesis
    using ok True validate_attempts_upgrade [OF v, of 1 "attempts_of r"]
    by (simp add: validate_iff upgrade_def attempts_of_def SCHEMA_VERSION_def)
next
  case False
  with ok show ?thesis by (auto simp: validate_iff upgrade_def SCHEMA_VERSION_def)
qed

lemma upgrade_current: "dget r ''version'' = JInt SCHEMA_VERSION \<Longrightarrow> upgrade r = r"
  by (simp add: upgrade_def)

text \<open>The facts every client of \<^const>\<open>load\<close> uses.\<close>

lemma loaded:
  assumes "load w d s = Inr r"
  shows loaded_valid: "validate w (JObj r) = Inr ()"
    and loaded_version: "dget r ''version'' = JInt SCHEMA_VERSION"
    and loaded_id: "dget r ''execution_id'' = JStr d"
    and loaded_outside: "outside_worktree w s (worktree_of r) = Inr ()"
    and loaded_identifier: "identifier_ok d"
    and loaded_open: "dir_errno w d = None"
    and loaded_directory: "\<exists>fs. map_of (dirs s) d = Some fs"
    and loaded_has_record: "has_record s d"
proof -
  obtain v where v: "read_json w d RECORD s = Inr v" and a: "accept_record w s d v = Inr r"
    using assms by (auto simp: load_returns)
  from a have val: "validate w v = Inr ()" and r: "r = upgrade (dict_of v)"
    by (simp_all add: accept_record_returns)
  show "validate w (JObj r) = Inr ()" "dget r ''version'' = JInt SCHEMA_VERSION"
    using upgrade_valid [of w "dict_of v"] val r validate_dict [OF val] by auto
  show "dget r ''execution_id'' = JStr d" "outside_worktree w s (worktree_of r) = Inr ()"
    using a unfolding accept_record_returns by blast+
  show "identifier_ok d" "dir_errno w d = None" "\<exists>fs. map_of (dirs s) d = Some fs" "has_record s d"
    using v by (auto simp: read_json_returns has_record_def)
qed

lemma loaded_generations:
  "load w d s = Inr r \<Longrightarrow> i < length (attempts_of r) \<Longrightarrow> afield (attempts_of r ! i) ''generation'' = JInt (int (Suc i))"
  by (rule valid_generations [OF loaded_valid])

text \<open>Reading back what was written.\<close>

lemma read_put_same:
  assumes "identifier_ok d" "dir_errno w d = None" "map_of (dirs s) d = Some fs"
  shows "read_json w d name (put_file d name (File n (Some v)) s) =
     (if MAX_RECORD_BYTES < n then Inl (ExecutionError ''execution record exceeds size limit'') else Inr v)"
  using assms by (simp add: read_json_def safe_read_def open_directory_def put_file_def update_conv')

lemma read_put_other:
  assumes "name' \<noteq> name"
  shows "read_json w d name' (put_file e name (File n v) s) = read_json w d name' s
     \<or> map_of (dirs s) e = None"
  using assms by (auto simp: read_json_def safe_read_def open_directory_def put_file_def update_conv' split: option.splits)

lemma load_written:
  assumes wr: "write_record w d r s = (Inr u, s')" and ok: "validate w (JObj r) = Inr ()"
    and v: "dget r ''version'' = JInt SCHEMA_VERSION" and i: "dget r ''execution_id'' = JStr d"
    and out: "outside_worktree w s (worktree_of r) = Inr ()"
  shows "load w d s' = Inr r"
proof -
  have "read_json w d RECORD s' = Inr (JObj r)"
    using wr by (auto simp: write_record_returns read_put_same)
  moreover have "store_root s' = store_root s"
    using wr by (simp add: write_record_returns put_file_def)
  ultimately show ?thesis
    using ok v i out by (simp add: load_def accept_record_returns upgrade_current outside_worktree_cong [of s' s])
qed

text \<open>Whatever a write leaves behind, the next load either fails or returns the record written.\<close>

lemma load_written_only:
  assumes "write_record w d r s = (Inr u, s')" and "load w d s' = Inr r'"
    and "dget r ''version'' = JInt SCHEMA_VERSION"
  shows "r' = r"
proof -
  have "read_json w d RECORD s' = Inr (JObj r)"
    using assms(1) by (auto simp: write_record_returns read_put_same)
  with assms(2,3) show ?thesis by (auto simp: load_returns accept_record_returns upgrade_current)
qed

end
