(* ===== verification/Durable.thy ===== *)
theory Durable
  imports Prelude
begin

text \<open>
  The contract of a durable store that several processes step: what a reader gets under a key only
  ever becomes a later version, versions that appear are good, and later versions of good ones are
  good.  The execution store satisfies it with its records.
\<close>

locale durable =
  fixes step :: "'s \<Rightarrow> 's \<Rightarrow> bool"
    and view :: "'s \<Rightarrow> 'k \<Rightarrow> 'r option"
    and le :: "'r \<Rightarrow> 'r \<Rightarrow> bool"
    and good :: "'r \<Rightarrow> bool"
  assumes le_refl: "le r r"
    and le_trans: "le r r' \<Longrightarrow> le r' r'' \<Longrightarrow> le r r''"
    and le_good: "le r r' \<Longrightarrow> good r \<Longrightarrow> good r'"
    and step_forward: "step s s' \<Longrightarrow> view s k = Some r \<Longrightarrow> \<exists>r'. view s' k = Some r' \<and> le r r'"
    and step_new: "step s s' \<Longrightarrow> view s k = None \<Longrightarrow> view s' k = Some r' \<Longrightarrow> good r'"
begin

definition all_good :: "'s \<Rightarrow> bool" where
  "all_good s \<longleftrightarrow> (\<forall>k r. view s k = Some r \<longrightarrow> good r)"

lemma run_forward:
  assumes "step\<^sup>*\<^sup>* s s'" and "view s k = Some r"
  shows "\<exists>r'. view s' k = Some r' \<and> le r r'"
  using assms
proof (induction rule: rtranclp_induct)
  case base
  then show ?case by (auto intro: le_refl)
next
  case (step t u)
  then obtain q where "view t k = Some q" "le r q" by blast
  with step_forward [OF step.hyps(2)] show ?case by (blast intro: le_trans)
qed

lemma step_all_good:
  assumes "step s s'" and "all_good s"
  shows "all_good s'"
  unfolding all_good_def
proof (intro allI impI)
  fix k r' assume r': "view s' k = Some r'"
  show "good r'"
  proof (cases "view s k")
    case None
    then show ?thesis using step_new assms(1) r' by blast
  next
    case (Some r)
    then show ?thesis using step_forward [OF assms(1) Some] assms(2) r' le_good by (auto simp: all_good_def)
  qed
qed

lemma run_all_good: "step\<^sup>*\<^sup>* s s' \<Longrightarrow> all_good s \<Longrightarrow> all_good s'"
  by (induction rule: rtranclp_induct) (auto intro: step_all_good)

lemma empty_all_good: "(\<And>k. view s k = None) \<Longrightarrow> all_good s"
  by (simp add: all_good_def)

lemma run_good: "step\<^sup>*\<^sup>* s s' \<Longrightarrow> all_good s \<Longrightarrow> view s' k = Some r \<Longrightarrow> good r"
  using run_all_good by (auto simp: all_good_def)

end

end
