(* ===== verification/ExecutionHistory.thy ===== *)
theory ExecutionHistory
  imports ExecutionStore Durable
begin

text \<open>
  What the operations of \<^theory_text>\<open>ExecutionStore\<close> do to the records of a store: each operation as a
  transaction, the relation between an earlier and a later record, the steps of a store that several
  processes use, and the interpretation of the \<^verbatim>\<open>durable\<close> contract on them.
\<close>

section \<open>What the operations do to the record\<close>

lemma worktree_locked_returns:
  assumes "worktree_locked w d body s = (Inr y, s')"
  obtains r s1 s2 where "load w d s = Inr r" "extends s s1" "assert_worktree_peers_resolved w d s1 = Inr ()"
    "body s1 = (Inr y, s2)" "dirs s' = dirs s2" "store_root s' = store_root s2"
proof -
  from assms obtain k where k: "worktree_lock_id w d s = Inr k"
    and l: "locked w k (then_op (reads (assert_worktree_peers_resolved w d)) body) s = (Inr y, s')"
    by (auto simp: worktree_locked_def bind_op_returns)
  from k obtain r where r: "load w d s = Inr r"
    by (auto simp: worktree_lock_id_def rbind_eq_Inr)
  from l show ?thesis
    by (rule locked_returns) (use r that in \<open>auto simp: then_op_returns\<close>)
qed

text \<open>A record is replaced by \<open>r'\<close> when that is what the store now holds for \<open>d\<close>, and nothing else changed.\<close>

definition replaced :: "world \<Rightarrow> string \<Rightarrow> dict \<Rightarrow> store \<Rightarrow> store \<Rightarrow> bool" where
  "replaced w d r' s s' \<longleftrightarrow> (\<exists>s1 s2. extends s s1 \<and> write_record w d r' s1 = (Inr (), s2) \<and>
     dirs s' = dirs s2 \<and> store_root s' = store_root s2)"

definition may_admit :: "dict \<Rightarrow> string option \<Rightarrow> bool" where
  "may_admit r ev = (case ev of None \<Rightarrow> attempts_of r = [] | Some e \<Rightarrow> attempts_of r \<noteq> [] \<and> retry_authorized r e)"

lemma admit_returns:
  assumes "admit w d ev s = (Inr (r', created), s')"
  obtains r s1 where "load w d s = Inr r" "extends s s1" "assert_worktree_peers_resolved w d s1 = Inr ()"
    "created \<Longrightarrow> may_admit r ev \<and> r' = admitted_record w r (event_json ev) \<and> replaced w d r' s s'"
    "\<not> created \<Longrightarrow> r' = r \<and> ev = None \<and> attempts_of r \<noteq> [] \<and> extends s s'"
proof -
  from assms obtain r s1 s2 where r: "load w d s = Inr r" and e1: "extends s s1"
    and peers: "assert_worktree_peers_resolved w d s1 = Inr ()"
    and body: "locked w d (bind_op (reads (load w d)) (admit_body w d ev)) s1 = (Inr (r', created), s2)"
    and d2: "dirs s' = dirs s2" "store_root s' = store_root s2"
    unfolding admit_def by (rule worktree_locked_returns)
  from body obtain q s3 s4 where e3: "extends s1 s3" and l3: "load w d s1 = Inr q"
    and b: "admit_body w d ev q s3 = (Inr (r', created), s4)" and d4: "dirs s2 = dirs s4" "store_root s2 = store_root s4"
    by (rule transaction_returns)
  have q: "q = r" using l3 r e1 by (simp add: load_extends)
  have e13: "extends s s3" using e1 e3 by (rule extends_trans)
  show ?thesis
  proof (rule that [OF r e1 peers])
    assume "created"
    with b q have "may_admit r ev" "r' = admitted_record w r (event_json ev)" "write_record w d r' s3 = (Inr (), s4)"
      by (auto simp: admit_body_def then_op_returns may_admit_def Let_def split: if_splits option.splits)
    with e13 d2 d4 show "may_admit r ev \<and> r' = admitted_record w r (event_json ev) \<and> replaced w d r' s s'"
      by (auto simp: replaced_def)
  next
    assume "\<not> created"
    with b q have "r' = r" "ev = None" "attempts_of r \<noteq> []" "s4 = s3"
      by (auto simp: admit_body_def then_op_returns Let_def split: if_splits option.splits)
    with e13 d2 d4 show "r' = r \<and> ev = None \<and> attempts_of r \<noteq> [] \<and> extends s s'"
      by (simp add: extends_def)
  qed
qed

lemma admit_created:
  assumes "admit w d ev s = (Inr (r', True), s')"
  obtains r s1 where "load w d s = Inr r" "extends s s1" "assert_worktree_peers_resolved w d s1 = Inr ()"
    "may_admit r ev" "r' = admitted_record w r (event_json ev)" "replaced w d r' s s'"
  using assms by (rule admit_returns) (use that in blast)

lemma admit_existing:
  assumes "admit w d ev s = (Inr (r', False), s')"
  shows "load w d s = Inr r'" "ev = None" "attempts_of r' \<noteq> []" "extends s s'"
  using assms by (rule admit_returns, simp)+

lemma authorize_returns:
  assumes "authorize_retry w d g e ctx s = (Inr u, s')"
  obtains r where "load w d s = Inr r" "attempts_of r \<noteq> []" "afield (last (attempts_of r)) ''generation'' = JInt g"
    "\<forall>a \<in> set (attempts_of r). afield a ''recovery_event'' \<noteq> JStr e" "identifier_ok e"
    "validate w (JObj (authorized_record r g e ctx)) = Inr ()" "replaced w d (authorized_record r g e ctx) s s'"
proof -
  from assms have i: "identifier_ok e"
    and t: "locked w d (bind_op (reads (load w d)) (authorize_body w d g e ctx)) s = (Inr u, s')"
    by (auto simp: authorize_retry_def then_op_returns check_identifier_def)
  from t obtain r s1 s2 where "extends s s1" "load w d s = Inr r" "authorize_body w d g e ctx r s1 = (Inr u, s2)"
    "dirs s' = dirs s2" "store_root s' = store_root s2"
    by (rule transaction_returns) blast
  with i that [of r] show ?thesis
    by (auto simp: authorize_body_def Let_def then_op_returns replaced_def split: if_splits)
qed

lemma update_returns:
  assumes "update_attempt w d g changes s = (Inr r', s')"
  obtains r where "load w d s = Inr r" "attempts_of r \<noteq> []" "afield (last (attempts_of r)) ''generation'' = JInt g"
    "fst ` set changes \<subseteq> set ATTEMPT_FIELDS - set IMMUTABLE_FIELDS"
    "update_checks (dict_of (last (attempts_of r))) changes = Inr ()"
    "r' = updated_record r changes" "validate w (JObj r') = Inr ()" "replaced w d r' s s'"
proof -
  from assms have f: "fst ` set changes \<subseteq> set ATTEMPT_FIELDS - set IMMUTABLE_FIELDS"
    and t: "locked w d (bind_op (reads (load w d)) (update_body w d g changes)) s = (Inr r', s')"
    by (auto simp: update_attempt_def then_op_returns)
  from t obtain r s1 s2 where "extends s s1" "load w d s = Inr r" "update_body w d g changes r s1 = (Inr r', s2)"
    "dirs s' = dirs s2" "store_root s' = store_root s2"
    by (rule transaction_returns) blast
  with f that [of r] show ?thesis
    by (auto simp: update_body_def then_op_returns replaced_def split: if_splits)
qed

lemma has_record_extends: "extends s s' \<Longrightarrow> has_record s' d = has_record s d"
proof -
  assume "extends s s'"
  then have "map_of (dirs s') d = map_of (dirs s) d \<or> (map_of (dirs s) d = None \<and> map_of (dirs s') d = Some [])"
    by (simp add: extends_def)
  then show ?thesis by (elim disjE) (auto simp: has_record_def)
qed

lemma register_returns:
  assumes "register w d reg s = (Inr r, s')"
  shows "outside_worktree w s (str_of (dget reg ''worktree'')) = Inr ()"
    "validate w (JObj (fresh_record d reg)) = Inr ()"
    "if has_record s d then load w d s = Inr r \<and> py_eq (dget r ''registration'') (JObj reg) \<and> extends s s'
     else r = fresh_record d reg \<and> replaced w d r s s'"
proof -
  from assms have l: "locked w d (register_body w d reg) s = (Inr r, s')"
    and o: "outside_worktree w s (str_of (dget reg ''worktree'')) = Inr ()"
    and v: "validate w (JObj (fresh_record d reg)) = Inr ()"
    by (auto simp: register_def then_op_returns)
  from l obtain s1 s2 where e: "extends s s1" and b: "register_body w d reg s1 = (Inr r, s2)"
    and d: "dirs s' = dirs s2" "store_root s' = store_root s2"
    by (rule locked_returns)
  show "outside_worktree w s (str_of (dget reg ''worktree'')) = Inr ()" by (rule o)
  show "validate w (JObj (fresh_record d reg)) = Inr ()" by (rule v)
  show "if has_record s d then load w d s = Inr r \<and> py_eq (dget r ''registration'') (JObj reg) \<and> extends s s'
     else r = fresh_record d reg \<and> replaced w d r s s'"
  proof (cases "has_record s d")
    case True
    with b e have "load w d s1 = Inr r" "py_eq (dget r ''registration'') (JObj reg)" "s2 = s1"
      by (auto simp: register_body_def has_record_extends bind_op_returns split: if_splits)
    with True d load_extends [OF e, of w d r] e show ?thesis by (simp add: extends_def)
  next
    case False
    with b e have "r = fresh_record d reg" "write_record w d r s1 = (Inr (), s2)"
      by (auto simp: register_body_def has_record_extends then_op_returns split: if_splits)
    with False e d show ?thesis by (auto simp: replaced_def)
  qed
qed

section \<open>Loading after a replacement\<close>

lemma replaced_root: "replaced w d r' s s' \<Longrightarrow> store_root s' = store_root s"
  by (auto simp: replaced_def extends_def write_record_returns put_file_def)

lemma replaced_load:
  assumes "replaced w d r' s s'" and "validate w (JObj r') = Inr ()"
    and "dget r' ''version'' = JInt SCHEMA_VERSION" and "dget r' ''execution_id'' = JStr d"
    and "outside_worktree w s (worktree_of r') = Inr ()"
  shows "load w d s' = Inr r'"
proof -
  from assms(1) obtain s1 s2 where e: "extends s s1" and wr: "write_record w d r' s1 = (Inr (), s2)"
    and d: "dirs s' = dirs s2" "store_root s' = store_root s2"
    by (auto simp: replaced_def)
  have "outside_worktree w s1 (worktree_of r') = Inr ()"
    using assms(5) e outside_worktree_cong [of s1 s] by (simp add: extends_def)
  with wr assms have "load w d s2 = Inr r'" by (intro load_written)
  moreover have "extends s2 s'" using d by (rule extends_same)
  ultimately show ?thesis by (simp add: load_extends)
qed

lemma replaced_load_only:
  assumes "replaced w d r' s s'" and "load w d s' = Inr r''" and "dget r' ''version'' = JInt SCHEMA_VERSION"
  shows "r'' = r'"
proof -
  from assms(1) obtain s1 s2 where wr: "write_record w d r' s1 = (Inr (), s2)"
    and d: "dirs s' = dirs s2" "store_root s' = store_root s2"
    by (auto simp: replaced_def)
  have "load w d s2 = Inr r''"
    using assms(2) load_extends [OF extends_same [OF d]] by simp
  with wr assms(3) show ?thesis by (intro load_written_only)
qed

lemma replaced_other:
  assumes "replaced w d r' s s'" and "c \<noteq> d"
  shows "load w c s' = Inr r \<longleftrightarrow> load w c s = Inr r"
proof -
  from assms(1) obtain s1 s2 where e: "extends s s1" and wr: "write_record w d r' s1 = (Inr (), s2)"
    and d: "dirs s' = dirs s2" "store_root s' = store_root s2"
    by (auto simp: replaced_def)
  have "load w c s2 = load w c s1"
    using wr assms(2) by (auto simp: write_record_returns load_put_other)
  then show ?thesis using e extends_same [OF d] by (simp add: load_extends)
qed

section \<open>The admitted record is a valid record\<close>

definition text_or_none :: "json \<Rightarrow> bool" where
  "text_or_none v \<longleftrightarrow> v = JNull \<or> (is_str v \<and> length (str_of v) \<le> 65536)"

text \<open>\<^verbatim>\<open>host_boot_identity\<close> returns a host name and a boot identity or \<^verbatim>\<open>None\<close>.\<close>

definition host_ok :: "world \<Rightarrow> bool" where
  "host_ok w \<longleftrightarrow> text_or_none (fst (host_boot w)) \<and> text_or_none (snd (host_boot w))"

lemma new_attempt_valid:
  assumes "host_ok w" and "text_or_none ev" and "text_or_none ctx"
  shows "validate_attempt SCHEMA_VERSION (Suc n) (new_attempt w n ev ctx) = Inr ()"
proof -
  have keys: "keys_are (dict_of (new_attempt w n ev ctx)) (attempt_fields SCHEMA_VERSION)"
    unfolding SCHEMA_VERSION_def keys_are_def attempt_fields_sets(1)
    by (simp add: new_attempt_def ATTEMPT_FIELDS_def insert_commute)
  have "attempt_checks (dget (dict_of (new_attempt w n ev ctx))) (JList []) (JList []) = Inr ()"
    using assms by (auto simp: attempt_checks_def Let_def new_attempt_def dget_def for_each_def host_ok_def text_or_none_def
        STATUSES_def TERMINAL_def CLEANUPS_def validate_identity_def)
  then show ?thesis
    using keys by (simp add: validate_attempt_def new_attempt_def dget_def get_list_def has_key_def Let_def)
qed

lemma approval_context:
  "validate_approval v = Inr () \<Longrightarrow> text_or_none (if truthy v then dget (dict_of v) ''recovery_context'' else JNull)"
  by (cases v) (auto simp: validate_approval_def Let_def text_or_none_def)

lemma admitted_attempts [simp]:
  "attempts_of (admitted_record w r ev) = attempts_of r @ [new_attempt w (length (attempts_of r)) ev
     (if truthy (dget r ''approved_recovery'') then dget (dict_of (dget r ''approved_recovery'')) ''recovery_context'' else JNull)]"
  by (simp add: admitted_record_def Let_def attempts_of_def)

lemma admitted_get:
  "k \<noteq> ''attempts'' \<Longrightarrow> k \<noteq> ''approved_recovery'' \<Longrightarrow> dget (admitted_record w r ev) k = dget r k"
  "dget (admitted_record w r ev) ''approved_recovery'' = JNull"
  by (simp_all add: admitted_record_def Let_def)

lemma admitted_valid:
  assumes l: "load w d s = Inr r" and "host_ok w" and "text_or_none ev"
  shows "validate w (JObj (admitted_record w r ev)) = Inr ()"
proof -
  note ok = loaded_valid [OF l] and v = loaded_version [OF l]
  have a: "validate_approval (dget r ''approved_recovery'') = Inr ()" using ok by (simp add: validate_iff)
  have keys: "keys_are (admitted_record w r ev) RECORD_FIELDS"
    using ok by (auto simp: validate_iff admitted_record_def Let_def RECORD_FIELDS_def intro!: keys_are_dput)
  have att: "validate_attempts SCHEMA_VERSION 1 (attempts_of (admitted_record w r ev)) = Inr ()"
    using ok v assms(2,3) approval_context [OF a]
    by (simp add: validate_iff validate_attempts_append new_attempt_valid)
  have lst: "is_list (dget (admitted_record w r ev) ''attempts'')"
    by (simp add: admitted_record_def Let_def)
  have ap: "validate_approval JNull = Inr ()" by (simp add: validate_approval_def)
  show ?thesis
    using ok v keys att lst ap by (simp add: validate_iff admitted_get)
qed

lemma admitted_loads:
  assumes l: "load w d s = Inr r" and rep: "replaced w d (admitted_record w r ev) s s'"
    and h: "host_ok w" "text_or_none ev"
  shows "load w d s' = Inr (admitted_record w r ev)"
  by (rule replaced_load [OF rep])
    (simp_all add: admitted_valid [OF l h] admitted_get worktree_of_def registration_of_def
      loaded_version [OF l] loaded_id [OF l] loaded_outside [OF l, unfolded worktree_of_def registration_of_def])

lemma admit_loads:
  assumes "admit w d ev s = (Inr (r', created), s')" and "host_ok w" and "text_or_none (event_json ev)"
  shows "load w d s' = Inr r'"
proof (cases created)
  case True
  with assms(1) obtain r where l: "load w d s = Inr r" and r': "r' = admitted_record w r (event_json ev)"
    and rep: "replaced w d r' s s'"
    by (auto elim: admit_created)
  show ?thesis using admitted_loads [OF l rep [unfolded r'] assms(2,3)] r' by simp
next
  case False
  with assms(1) have a: "admit w d ev s = (Inr (r', False), s')" by simp
  show ?thesis using admit_existing [OF a] by (simp add: load_extends)
qed

section \<open>How the history of an execution evolves\<close>

text \<open>
  What may happen to one attempt: its generation and recovery data never change, a terminal status
  and collected exit evidence never change, launch facts are never unset.
\<close>

definition evolves :: "json \<Rightarrow> json \<Rightarrow> bool" where
  "evolves a b \<longleftrightarrow> (\<forall>k \<in> set IMMUTABLE_FIELDS. afield b k = afield a k)
     \<and> (str_in (afield a ''status'') TERMINAL \<longrightarrow> afield b ''status'' = afield a ''status'')
     \<and> (\<forall>k \<in> {''exit_code'', ''exit_signal''}. afield a k \<noteq> JNull \<longrightarrow> afield b k = afield a k)
     \<and> (\<forall>k \<in> set WRITE_ONCE_FIELDS. afield a k \<noteq> JNull \<longrightarrow> afield b k \<noteq> JNull)"

text \<open>A later history: every attempt but the last is untouched, the last may have evolved, more may follow.\<close>

definition history_le :: "json list \<Rightarrow> json list \<Rightarrow> bool" where
  "history_le as bs \<longleftrightarrow> length as \<le> length bs \<and>
     (\<forall>i < length as. if Suc i < length as then bs ! i = as ! i else evolves (as ! i) (bs ! i))"

text \<open>Every attempt but the last has ended, and its cleanup is confirmed.\<close>

definition sealed :: "json list \<Rightarrow> bool" where
  "sealed as \<longleftrightarrow> (\<forall>i. Suc i < length as \<longrightarrow> resolved_attempt (as ! i))"

lemma evolves_refl [simp]: "evolves a a"
  by (simp add: evolves_def)

lemma evolves_trans: "evolves a b \<Longrightarrow> evolves b c \<Longrightarrow> evolves a c"
  unfolding evolves_def by metis

lemma history_le_refl [simp]: "history_le as as"
  by (simp add: history_le_def)

lemma history_le_trans: "history_le as bs \<Longrightarrow> history_le bs cs \<Longrightarrow> history_le as cs"
  unfolding history_le_def
proof (intro conjI allI impI)
  assume a: "length as \<le> length bs \<and> (\<forall>i<length as. if Suc i < length as then bs ! i = as ! i else evolves (as ! i) (bs ! i))"
    and b: "length bs \<le> length cs \<and> (\<forall>i<length bs. if Suc i < length bs then cs ! i = bs ! i else evolves (bs ! i) (cs ! i))"
  show "length as \<le> length cs" using a b by linarith
  fix i assume i: "i < length as"
  from a i have 1: "if Suc i < length as then bs ! i = as ! i else evolves (as ! i) (bs ! i)" by blast
  from a b i have 2: "if Suc i < length bs then cs ! i = bs ! i else evolves (bs ! i) (cs ! i)" by simp
  show "if Suc i < length as then cs ! i = as ! i else evolves (as ! i) (cs ! i)"
  proof (cases "Suc i < length as")
    case True
    with a have "Suc i < length bs" by linarith
    with 1 2 True show ?thesis by simp
  next
    case False
    with 1 2 show ?thesis by (auto split: if_splits intro: evolves_trans)
  qed
qed

lemma history_le_snoc: "history_le as (as @ [a])"
  by (simp add: history_le_def nth_append)

lemma history_le_last:
  assumes "as \<noteq> []" and "evolves (last as) b"
  shows "history_le as (butlast as @ [b])"
proof -
  have "(butlast as @ [b]) ! i = as ! i" if "Suc i < length as" for i
    using that by (auto simp: nth_append nth_butlast)
  moreover have "(butlast as @ [b]) ! i = b" "as ! i = last as" if "i < length as" "\<not> Suc i < length as" for i
  proof -
    from that have "i = length as - 1" by linarith
    with assms(1) show "(butlast as @ [b]) ! i = b" "as ! i = last as"
      by (simp_all add: nth_append last_conv_nth)
  qed
  ultimately show ?thesis using assms by (auto simp: history_le_def)
qed

lemma sealed_snoc: "sealed as \<Longrightarrow> (as \<noteq> [] \<Longrightarrow> resolved_attempt (last as)) \<Longrightarrow> sealed (as @ [a])"
  unfolding sealed_def
proof (intro allI impI)
  fix i assume s: "\<forall>i. Suc i < length as \<longrightarrow> resolved_attempt (as ! i)"
    and l: "as \<noteq> [] \<Longrightarrow> resolved_attempt (last as)" and i: "Suc i < length (as @ [a])"
  show "resolved_attempt ((as @ [a]) ! i)"
  proof (cases "Suc i < length as")
    case True
    with s show ?thesis by (simp add: nth_append)
  next
    case False
    with i have "i = length as - 1" "as \<noteq> []" by auto
    with l show ?thesis by (simp add: nth_append last_conv_nth)
  qed
qed

lemma sealed_last: "sealed as \<Longrightarrow> sealed (butlast as @ [b])"
  by (simp add: sealed_def nth_append nth_butlast)

lemma updated_attempts [simp]:
  "attempts_of (updated_record r changes) = butlast (attempts_of r) @ [JObj (dupdate (dict_of (last (attempts_of r))) changes)]"
  by (simp add: updated_record_def attempts_of_def)

lemma updated_get: "k \<noteq> ''attempts'' \<Longrightarrow> dget (updated_record r changes) k = dget r k"
  by (simp add: updated_record_def)

lemma attempt_exit_int:
  assumes "validate_attempt v g b = Inr ()" and "k \<in> {''exit_code'', ''exit_signal''}"
  shows "afield b k = JNull \<or> is_int (afield b k)"
  using assms by (auto simp: validate_attempt_def attempt_checks_def Let_def afield_def)

lemma py_eq_int: "is_int v \<Longrightarrow> is_int u \<Longrightarrow> py_eq v u \<Longrightarrow> v = u"
  by (auto simp: is_int_iff)

lemma py_eq_not_null: "py_eq v u \<Longrightarrow> u \<noteq> JNull \<Longrightarrow> v \<noteq> JNull"
  by (cases v) auto

lemma update_evolves:
  assumes keys: "fst ` set changes \<subseteq> set ATTEMPT_FIELDS - set IMMUTABLE_FIELDS" and dist: "distinct (map fst changes)"
    and chk: "update_checks (dict_of a) changes = Inr ()" and old: "validate_attempt v g a = Inr ()"
    and new: "validate_attempt v g (JObj (dupdate (dict_of a) changes)) = Inr ()"
  shows "evolves a (JObj (dupdate (dict_of a) changes))"
proof -
  let ?b = "JObj (dupdate (dict_of a) changes)"
  have get: "afield ?b k = (if has_key changes k then dget changes k else afield a k)" for k
    using dget_dupdate [OF dist] by (simp add: afield_def)
  have once: "py_eq (dget changes k) (afield a k)"
    if "k \<in> set WRITE_ONCE_FIELDS" "has_key changes k" "afield a k \<noteq> JNull" for k
    using that chk by (auto simp: update_checks_def afield_def)
  show ?thesis
    unfolding evolves_def
  proof (intro conjI ballI impI)
    fix k assume "k \<in> set IMMUTABLE_FIELDS"
    with keys show "afield ?b k = afield a k" by (auto simp: get has_key_def)
  next
    assume t: "str_in (afield a ''status'') TERMINAL"
    then obtain x where x: "afield a ''status'' = JStr x" by (auto simp: str_in_iff)
    have "has_key changes ''status'' \<Longrightarrow> py_eq (dget changes ''status'') (afield a ''status'')"
      using t chk by (simp add: update_checks_def afield_def)
    with x show "afield ?b ''status'' = afield a ''status''" by (simp add: get)
  next
    fix k assume k: "k \<in> {''exit_code'', ''exit_signal''}" and n: "afield a k \<noteq> JNull"
    have w: "k \<in> set WRITE_ONCE_FIELDS" using k by (auto simp: WRITE_ONCE_FIELDS_def)
    show "afield ?b k = afield a k"
    proof (cases "has_key changes k")
      case True
      have eq: "py_eq (afield ?b k) (afield a k)" using once [OF w True n] True by (simp add: get)
      then have "afield ?b k \<noteq> JNull" using n by (rule py_eq_not_null)
      with eq n attempt_exit_int [OF old k] attempt_exit_int [OF new k] show ?thesis
        by (auto intro: py_eq_int)
    qed (simp add: get)
  next
    fix k assume k: "k \<in> set WRITE_ONCE_FIELDS" and n: "afield a k \<noteq> JNull"
    then show "afield ?b k \<noteq> JNull"
      using once [OF k _ n] py_eq_not_null by (auto simp: get)
  qed
qed

section \<open>Failing operations leave the records as they were\<close>

definition quiet :: "(store, 'a) op \<Rightarrow> bool" where
  "quiet m \<longleftrightarrow> (\<forall>s e s'. m s = (Inl e, s') \<longrightarrow> extends s s')"

named_theorems quiet_intro "operations whose failures leave every record as it was"

lemma quietD: "quiet m \<Longrightarrow> m s = (Inl e, s') \<Longrightarrow> extends s s'"
  by (auto simp: quiet_def)

lemma quiet_ret [quiet_intro]: "quiet (ret x)"
  and quiet_raise [quiet_intro]: "quiet (raise e)"
  and quiet_lift [quiet_intro]: "quiet (lift_res r)"
  and quiet_reads [quiet_intro]: "quiet (reads f)"
  by (simp_all add: quiet_def)

lemma quiet_bind_reads [quiet_intro]: "(\<And>x. quiet (f x)) \<Longrightarrow> quiet (bind_op (reads g) f)"
  unfolding quiet_def by (auto simp: bind_op_raises)

lemma quiet_then_reads [quiet_intro]: "quiet k \<Longrightarrow> quiet (then_op (reads g) k)"
  unfolding then_op_def by (intro quiet_bind_reads)

lemma quiet_then_lift [quiet_intro]: "quiet k \<Longrightarrow> quiet (then_op (lift_res r) k)"
  unfolding quiet_def then_op_def by (auto simp: bind_op_raises)

lemma quiet_write [quiet_intro]: "quiet (write_record w d r)"
  unfolding quiet_def write_record_def atomic_write_def then_op_def
  by (auto simp: bind_op_raises open_directory_returns open_directory_extends split: if_splits)

lemma quiet_write_ret [quiet_intro]: "quiet (then_op (write_record w d r) (ret x))"
  using quiet_write [of w d r] unfolding quiet_def then_op_def by (auto simp: bind_op_raises)

lemma quiet_if [quiet_intro]: "quiet m \<Longrightarrow> quiet k \<Longrightarrow> quiet (if b then m else k)"
  by simp

lemma quiet_locked [quiet_intro]:
  assumes "quiet body"
  shows "quiet (locked w k body)"
  unfolding quiet_def
proof (intro allI impI)
  fix s e s' assume l: "locked w k body s = (Inl e, s')"
  obtain r s0 where o: "open_directory w k True s = (r, s0)" by (cases "open_directory w k True s") auto
  have e0: "extends s s0" using o by (rule open_directory_extends)
  show "extends s s'"
  proof (cases r)
    case (Inl e')
    with l o e0 show ?thesis by (auto simp: locked_def)
  next
    case (Inr u)
    show ?thesis
    proof (cases "k \<in> set (held s0) \<or> flock w k \<noteq> None")
      case True
      with l o Inr assms e0 show ?thesis
        by (auto simp: locked_def split: if_splits dest: quietD intro: extends_trans)
    next
      case False
      with l o Inr obtain s2 where b: "body (s0\<lparr>held := k # held s0\<rparr>) = (Inl e, s2)"
        and s': "s' = s2\<lparr>held := remove1 k (held s2)\<rparr>"
        by (auto simp: locked_def Let_def split: prod.splits)
      from quietD [OF assms b] e0 s' show ?thesis by (simp add: extends_trans [OF e0])
    qed
  qed
qed

lemma quiet_worktree_locked [quiet_intro]: "quiet body \<Longrightarrow> quiet (worktree_locked w d body)"
  unfolding worktree_locked_def by (intro quiet_intro)

lemma quiet_admit: "quiet (admit w d ev)"
proof -
  have "quiet (admit_body w d ev r)" for r
    by (cases ev) (auto simp: admit_body_def Let_def intro: quiet_intro)
  then show ?thesis unfolding admit_def by (intro quiet_intro)
qed

lemma quiet_authorize: "quiet (authorize_retry w d g e ctx)"
proof -
  have "quiet (authorize_body w d g e ctx r)" for r
    by (auto simp: authorize_body_def Let_def intro: quiet_intro)
  then show ?thesis unfolding authorize_retry_def by (intro quiet_intro)
qed

lemma quiet_update: "quiet (update_attempt w d g changes)"
proof -
  have "quiet (update_body w d g changes r)" for r
    by (auto simp: update_body_def intro: quiet_intro)
  then show ?thesis unfolding update_attempt_def by (intro quiet_intro)
qed

lemma quiet_register: "quiet (register w d reg)"
proof -
  have "quiet (register_body w d reg)"
    using quiet_write_ret [of w d "fresh_record d reg" "fresh_record d reg"]
    by (auto simp: quiet_def register_body_def bind_op_raises split: if_splits)
  then show ?thesis unfolding register_def by (intro quiet_intro)
qed

section \<open>Any interleaving of operations\<close>

text \<open>
  Operations of any executions, in any order, by processes that see the same files and paths: the
  lock state and the host identity of the world may differ from step to step.
\<close>

lemma load_same_files: "load (w\<lparr>flock := l, host_boot := h\<rparr>) d s = load w d s"
proof -
  have "validate (w\<lparr>flock := l, host_boot := h\<rparr>) v = validate w v" for v
    by (simp add: validate_def validate_registration_def cong: json.case_cong option.case_cong)
  moreover have "outside_worktree (w\<lparr>flock := l, host_boot := h\<rparr>) t wt = outside_worktree w t wt" for t wt
    by (simp add: outside_worktree_def)
  ultimately have "accept_record (w\<lparr>flock := l, host_boot := h\<rparr>) t d v = accept_record w t d v" for t v
    by (simp add: accept_record_def)
  moreover have "read_json (w\<lparr>flock := l, host_boot := h\<rparr>) d RECORD s = read_json w d RECORD s"
    by (simp add: read_json_def safe_read_def open_directory_def)
  ultimately show ?thesis by (simp add: load_def split: sum.splits)
qed

inductive store_step :: "world \<Rightarrow> store \<Rightarrow> store \<Rightarrow> bool" for w where
  step_register: "register (w\<lparr>flock := l, host_boot := h\<rparr>) d reg s = (res, s') \<Longrightarrow> store_step w s s'"
| step_admit: "admit (w\<lparr>flock := l, host_boot := h\<rparr>) d ev s = (out, s') \<Longrightarrow>
     host_ok (w\<lparr>flock := l, host_boot := h\<rparr>) \<Longrightarrow> text_or_none (event_json ev) \<Longrightarrow> store_step w s s'"
| step_authorize: "authorize_retry (w\<lparr>flock := l, host_boot := h\<rparr>) d g e ctx s = (res, s') \<Longrightarrow> store_step w s s'"
| step_update: "update_attempt (w\<lparr>flock := l, host_boot := h\<rparr>) d g changes s = (res, s') \<Longrightarrow>
     distinct (map fst changes) \<Longrightarrow> store_step w s s'"

inductive_cases store_stepE: "store_step w s s'"

text \<open>
  The histories the operations produce: every attempt but the last has ended with confirmed cleanup,
  the first attempt needed no recovery event, no two attempts were admitted by the same event, and
  a pending approval names an event that no attempt has used.
\<close>

definition recovery_events :: "json list \<Rightarrow> json list" where
  "recovery_events as = map (\<lambda>a. afield a ''recovery_event'') as"

definition good_history :: "dict \<Rightarrow> bool" where
  "good_history r \<longleftrightarrow> sealed (attempts_of r) \<and> distinct (recovery_events (attempts_of r))
     \<and> (attempts_of r \<noteq> [] \<longrightarrow> hd (recovery_events (attempts_of r)) = JNull)
     \<and> (dget r ''approved_recovery'' \<noteq> JNull \<longrightarrow>
          dget (dict_of (dget r ''approved_recovery'')) ''event_id'' \<notin> set (recovery_events (attempts_of r)))"

text \<open>What a step does to every record: nothing, or it replaces one of them by a later one.\<close>

definition later_record :: "dict \<Rightarrow> dict \<Rightarrow> bool" where
  "later_record r r' \<longleftrightarrow> history_le (attempts_of r) (attempts_of r') \<and> (good_history r \<longrightarrow> good_history r')
     \<and> dget r' ''registration'' = dget r ''registration''"

lemma later_record_refl [simp]: "later_record r r"
  by (simp add: later_record_def)

lemma later_record_trans: "later_record a b \<Longrightarrow> later_record b c \<Longrightarrow> later_record a c"
  unfolding later_record_def using history_le_trans by metis

lemma sealed_single [simp]: "sealed [a]"
  by (simp add: sealed_def)

lemma admitted_good:
  assumes m: "may_admit r ev" and g: "good_history r"
  shows "good_history (admitted_record w' r (event_json ev))"
proof (cases ev)
  case None
  with m show ?thesis
    by (simp add: may_admit_def good_history_def admitted_get recovery_events_def new_attempt_def afield_def dget_Cons event_json_def)
next
  case (Some e)
  with m have ne: "attempts_of r \<noteq> []" and res: "resolved_attempt (last (attempts_of r))"
    and ap: "dget r ''approved_recovery'' \<noteq> JNull" "dget (dict_of (dget r ''approved_recovery'')) ''event_id'' = JStr e"
    by (auto simp: may_admit_def retry_authorized_def Let_def)
  from g ne ap have "JStr e \<notin> set (recovery_events (attempts_of r))" "distinct (recovery_events (attempts_of r))"
    "sealed (attempts_of r)" "hd (recovery_events (attempts_of r)) = JNull"
    by (simp_all add: good_history_def)
  moreover have "afield (new_attempt w' n (event_json ev) x) ''recovery_event'' = JStr e" for n x
    using Some by (simp add: new_attempt_def afield_def dget_Cons event_json_def)
  ultimately show ?thesis
    using ne res sealed_snoc by (simp add: good_history_def admitted_get recovery_events_def hd_append)
qed

lemma later_admitted: "may_admit r ev \<Longrightarrow> later_record r (admitted_record w' r (event_json ev))"
  by (simp add: later_record_def history_le_snoc admitted_get admitted_good)

lemma later_authorized:
  assumes "\<forall>a \<in> set (attempts_of r). afield a ''recovery_event'' \<noteq> JStr e"
  shows "later_record r (authorized_record r g e ctx)"
proof -
  have "attempts_of (authorized_record r g e ctx) = attempts_of r"
    by (simp add: authorized_record_def attempts_of_def)
  then show ?thesis
    using assms by (auto simp: later_record_def good_history_def authorized_record_def recovery_events_def dget_Cons)
qed

lemma later_updated:
  assumes l: "load w d s = Inr r" and ne: "attempts_of r \<noteq> []"
    and keys: "fst ` set changes \<subseteq> set ATTEMPT_FIELDS - set IMMUTABLE_FIELDS" and dist: "distinct (map fst changes)"
    and chk: "update_checks (dict_of (last (attempts_of r))) changes = Inr ()"
    and new: "validate w' (JObj (updated_record r changes)) = Inr ()"
  shows "later_record r (updated_record r changes)"
proof -
  let ?n = "length (attempts_of r)" and ?b = "JObj (dupdate (dict_of (last (attempts_of r))) changes)"
  have v: "dget (updated_record r changes) ''version'' = JInt SCHEMA_VERSION"
    using loaded_version [OF l] by (simp add: updated_get)
  have old: "validate_attempt SCHEMA_VERSION ?n (last (attempts_of r)) = Inr ()"
    using loaded_valid [OF l] loaded_version [OF l] ne
    by (cases "attempts_of r" rule: rev_cases) (auto simp: validate_iff validate_attempts_append)
  have "validate_attempt SCHEMA_VERSION ?n ?b = Inr ()"
    using new v ne by (auto simp: validate_iff validate_attempts_append)
  from update_evolves [OF keys dist chk old this] have ev: "evolves (last (attempts_of r)) ?b" .
  then have "afield ?b ''recovery_event'' = afield (last (attempts_of r)) ''recovery_event''"
    by (simp add: evolves_def IMMUTABLE_FIELDS_def)
  then have "recovery_events (butlast (attempts_of r) @ [?b]) = recovery_events (attempts_of r)"
    using ne by (cases "attempts_of r" rule: rev_cases) (simp_all add: recovery_events_def)
  then have "good_history r \<longrightarrow> good_history (updated_record r changes)"
    using ne by (simp add: good_history_def updated_get sealed_last)
  with ev ne show ?thesis by (simp add: later_record_def history_le_last updated_get)
qed

text \<open>Every execution other than \<open>d\<close> keeps its record; that of \<open>d\<close> becomes \<open>r'\<close>.\<close>

lemma replaced_later:
  assumes rep: "replaced w d r' s s'" and l: "load w d s = Inr r" and l': "load w d s' = Inr r'"
    and late: "later_record r r'"
  shows "load w c s = Inr x \<Longrightarrow> \<exists>y. load w c s' = Inr y \<and> later_record x y"
  using assms replaced_other [OF rep, of c x] by (cases "c = d") auto

lemma authorized_valid:
  assumes ok: "validate w (JObj r) = Inr ()" and "e \<noteq> []" and "length ctx \<le> 65536"
  shows "validate w (JObj (authorized_record r g e ctx)) = Inr ()"
proof -
  have "validate_approval (dget (authorized_record r g e ctx) ''approved_recovery'') = Inr ()"
    using assms(2,3) by (auto simp: authorized_record_def validate_approval_def Let_def dget_Cons keys_are_def)
  moreover have "keys_are (authorized_record r g e ctx) RECORD_FIELDS"
    using ok unfolding authorized_record_def by (auto simp: validate_iff RECORD_FIELDS_def intro!: keys_are_dput)
  ultimately show ?thesis
    using ok by (simp add: validate_iff authorized_record_def attempts_of_def)
qed

lemma authorized_loads:
  assumes l: "load w d s = Inr r" and "validate w (JObj (authorized_record r g e ctx)) = Inr ()"
    and rep: "replaced w d (authorized_record r g e ctx) s s'"
  shows "load w d s' = Inr (authorized_record r g e ctx)"
  by (rule replaced_load [OF rep])
    (use assms loaded [OF l] in \<open>simp_all add: authorized_record_def worktree_of_def registration_of_def\<close>)

lemma updated_loads:
  assumes l: "load w d s = Inr r" and "validate w (JObj (updated_record r changes)) = Inr ()"
    and rep: "replaced w d (updated_record r changes) s s'"
  shows "load w d s' = Inr (updated_record r changes)"
  by (rule replaced_load [OF rep])
    (use assms loaded [OF l] in \<open>simp_all add: updated_get worktree_of_def registration_of_def\<close>)

lemma extends_later: "extends s s' \<Longrightarrow> load w c s = Inr x \<Longrightarrow> \<exists>y. load w c s' = Inr y \<and> later_record x y"
  by (simp add: load_extends)

lemma quiet_later:
  "quiet m \<Longrightarrow> m s = (Inl e, s') \<Longrightarrow> load w c s = Inr x \<Longrightarrow> \<exists>y. load w c s' = Inr y \<and> later_record x y"
  by (rule extends_later [OF quietD])

lemma register_later:
  assumes "register w d reg s = (res, s')" and l: "load w c s = Inr x"
  shows "\<exists>y. load w c s' = Inr y \<and> later_record x y"
proof (cases res)
  case (Inl e)
  with assms show ?thesis using quiet_later [OF quiet_register] by blast
next
  case (Inr r)
  note ret = register_returns [OF assms(1) [unfolded Inr]]
  show ?thesis
  proof (cases "has_record s d")
    case True
    with ret l show ?thesis by (auto intro: extends_later)
  next
    case False
    with loaded_has_record [OF l] have "c \<noteq> d" by auto
    with False ret l replaced_other show ?thesis by fastforce
  qed
qed

lemma admit_later:
  assumes a: "admit w d ev s = (out, s')" and "host_ok w" "text_or_none (event_json ev)" and l: "load w c s = Inr x"
  shows "\<exists>y. load w c s' = Inr y \<and> later_record x y"
proof (cases out)
  case (Inl e)
  with a l show ?thesis using quiet_later [OF quiet_admit] by blast
next
  case (Inr p)
  then obtain r' created where p: "out = Inr (r', created)" by (cases p) auto
  show ?thesis
  proof (cases created)
    case True
    with a p obtain r where r: "load w d s = Inr r" "may_admit r ev" and r': "r' = admitted_record w r (event_json ev)"
      and rep: "replaced w d r' s s'"
      by (auto elim: admit_created)
    show ?thesis
      by (rule replaced_later [OF rep r(1)]) (use r r' rep assms admitted_loads later_admitted in auto)
  next
    case False
    with a p l show ?thesis by (auto intro: extends_later dest: admit_existing)
  qed
qed

lemma authorize_later:
  assumes a: "authorize_retry w d g e ctx s = (res, s')" and l: "load w c s = Inr x"
  shows "\<exists>y. load w c s' = Inr y \<and> later_record x y"
proof (cases res)
  case (Inl e)
  with a l show ?thesis using quiet_later [OF quiet_authorize] by blast
next
  case (Inr u)
  with a obtain r where "load w d s = Inr r" "validate w (JObj (authorized_record r g e ctx)) = Inr ()"
    and "replaced w d (authorized_record r g e ctx) s s'"
    and n: "\<forall>a \<in> set (attempts_of r). afield a ''recovery_event'' \<noteq> JStr e"
    by (auto elim: authorize_returns)
  with n l show ?thesis using replaced_later authorized_loads later_authorized by metis
qed

lemma update_later:
  assumes a: "update_attempt w d g changes s = (res, s')" and dist: "distinct (map fst changes)"
    and l: "load w c s = Inr x"
  shows "\<exists>y. load w c s' = Inr y \<and> later_record x y"
proof (cases res)
  case (Inl e)
  with a l show ?thesis using quiet_later [OF quiet_update] by blast
next
  case (Inr r')
  with a obtain r where r: "load w d s = Inr r" "r' = updated_record r changes" "replaced w d r' s s'"
    "validate w (JObj r') = Inr ()" and c: "attempts_of r \<noteq> []"
    "fst ` set changes \<subseteq> set ATTEMPT_FIELDS - set IMMUTABLE_FIELDS"
    "update_checks (dict_of (last (attempts_of r))) changes = Inr ()"
    by (auto elim: update_returns)
  have "later_record r r'" using later_updated [OF r(1) c(1,2) dist c(3)] r by simp
  then show ?thesis using r l replaced_later [OF r(3,1)] updated_loads [OF r(1)] by metis
qed

lemma step_later:
  assumes "store_step w s s'" and "load w c s = Inr x"
  shows "\<exists>y. load w c s' = Inr y \<and> later_record x y"
  using assms
proof (cases rule: store_step.cases)
  case (step_register l h d reg res)
  then show ?thesis using register_later [OF step_register] assms(2) by (simp add: load_same_files)
next
  case (step_admit l h d ev out)
  then show ?thesis using admit_later [OF step_admit] assms(2) by (simp add: load_same_files)
next
  case (step_authorize l h d g e ctx res)
  then show ?thesis using authorize_later [OF step_authorize] assms(2) by (simp add: load_same_files)
next
  case (step_update l h d g changes res)
  then show ?thesis using update_later [OF step_update] assms(2) by (simp add: load_same_files)
qed


section \<open>The store is durable\<close>

lemma fresh_get:
  "dget (fresh_record d reg) ''version'' = JInt SCHEMA_VERSION"
  "dget (fresh_record d reg) ''registration'' = JObj reg"
  "dget (fresh_record d reg) ''execution_id'' = JStr d"
  "dget (fresh_record d reg) ''approved_recovery'' = JNull"
  "attempts_of (fresh_record d reg) = []"
  by (simp_all add: fresh_record_def dget_Cons attempts_of_def)

lemma fresh_good: "good_history (fresh_record d reg)"
  by (simp add: good_history_def fresh_get recovery_events_def sealed_def)

lemma fresh_loads:
  assumes "replaced w d (fresh_record d reg) s s'" and "validate w (JObj (fresh_record d reg)) = Inr ()"
    and "outside_worktree w s (str_of (dget reg ''worktree'')) = Inr ()"
  shows "load w d s' = Inr (fresh_record d reg)"
  by (rule replaced_load [OF assms(1)]) (simp_all add: assms fresh_get worktree_of_def registration_of_def)

text \<open>A record that a step makes readable is a fresh one.\<close>

lemma replaced_same_key:
  assumes "replaced w d r' s s'" and "load w d s = Inr r" and "load w c s' = Inr y"
  shows "\<exists>x. load w c s = Inr x"
  using assms replaced_other [OF assms(1)] by (cases "c = d") auto

lemma quiet_back: "quiet m \<Longrightarrow> m s = (Inl e, s') \<Longrightarrow> load w c s' = Inr y \<Longrightarrow> \<exists>x. load w c s = Inr x"
  using load_extends quietD by blast

lemma register_new:
  assumes "register w d reg s = (res, s')" and "load w c s' = Inr y"
  shows "(\<exists>x. load w c s = Inr x) \<or> good_history y"
proof (cases res)
  case (Inl e)
  with assms quiet_back [OF quiet_register] show ?thesis by blast
next
  case (Inr r)
  note ret = register_returns [OF assms(1) [unfolded Inr]]
  show ?thesis
  proof (cases "has_record s d")
    case True
    with ret assms(2) load_extends show ?thesis by auto
  next
    case False
    with ret(3) have r: "r = fresh_record d reg" "replaced w d (fresh_record d reg) s s'" by auto
    show ?thesis
    proof (cases "c = d")
      case True
      with r assms(2) have "y = fresh_record d reg"
        using replaced_load_only [OF r(2)] by (simp add: fresh_get)
      then show ?thesis by (simp add: fresh_good)
    next
      case False
      with r(2) assms(2) show ?thesis using replaced_other by blast
    qed
  qed
qed

lemma admit_new:
  assumes "admit w d ev s = (out, s')" and "load w c s' = Inr y"
  shows "\<exists>x. load w c s = Inr x"
proof (cases out)
  case (Inl e)
  with assms quiet_back [OF quiet_admit] show ?thesis by blast
next
  case (Inr p)
  then obtain r' created where p: "out = Inr (r', created)" by (cases p) auto
  show ?thesis
  proof (cases created)
    case True
    with assms p obtain r where "load w d s = Inr r" "replaced w d r' s s'"
      by (auto elim: admit_created)
    with assms(2) show ?thesis using replaced_same_key by blast
  next
    case False
    with assms p have "extends s s'" by (auto dest: admit_existing)
    with assms(2) show ?thesis using load_extends by blast
  qed
qed

lemma authorize_new:
  assumes "authorize_retry w d g e ctx s = (res, s')" and "load w c s' = Inr y"
  shows "\<exists>x. load w c s = Inr x"
proof (cases res)
  case (Inl e)
  with assms quiet_back [OF quiet_authorize] show ?thesis by blast
next
  case (Inr u)
  with assms obtain r where "load w d s = Inr r" "replaced w d (authorized_record r g e ctx) s s'"
    by (auto elim: authorize_returns)
  with assms(2) show ?thesis using replaced_same_key by blast
qed

lemma update_new:
  assumes "update_attempt w d g changes s = (res, s')" and "load w c s' = Inr y"
  shows "\<exists>x. load w c s = Inr x"
proof (cases res)
  case (Inl e)
  with assms quiet_back [OF quiet_update] show ?thesis by blast
next
  case (Inr r')
  with assms obtain r where "load w d s = Inr r" "replaced w d r' s s'"
    by (auto elim: update_returns)
  with assms(2) show ?thesis using replaced_same_key by blast
qed

lemma step_new_record:
  assumes "store_step w s s'" and "load w c s' = Inr y"
  shows "(\<exists>x. load w c s = Inr x) \<or> good_history y"
  using assms
proof (cases rule: store_step.cases)
  case (step_register l h d reg res)
  then show ?thesis using register_new [OF step_register] assms(2) by (simp add: load_same_files)
next
  case (step_admit l h d ev out)
  then show ?thesis using admit_new [OF step_admit(1)] assms(2) by (simp add: load_same_files)
next
  case (step_authorize l h d g e ctx res)
  then show ?thesis using authorize_new [OF step_authorize] assms(2) by (simp add: load_same_files)
next
  case (step_update l h d g changes res)
  then show ?thesis using update_new [OF step_update(1)] assms(2) by (simp add: load_same_files)
qed

definition record_view :: "world \<Rightarrow> store \<Rightarrow> string \<Rightarrow> dict option" where
  "record_view w s d = (case load w d s of Inl _ \<Rightarrow> None | Inr r \<Rightarrow> Some r)"

lemma record_view_Some [simp]: "record_view w s d = Some r \<longleftrightarrow> load w d s = Inr r"
  by (simp add: record_view_def split: sum.splits)

lemma record_view_None: "record_view w s d = None \<longleftrightarrow> (\<forall>r. load w d s \<noteq> Inr r)"
  by (auto simp: record_view_def split: sum.splits)

interpretation records: durable "store_step w" "record_view w" later_record good_history for w
proof
  show "later_record r r' \<Longrightarrow> later_record r' r'' \<Longrightarrow> later_record r r''" for r r' r''
    by (rule later_record_trans)
  show "later_record r r' \<Longrightarrow> good_history r \<Longrightarrow> good_history r'" for r r'
    by (simp add: later_record_def)
  show "store_step w s s' \<Longrightarrow> record_view w s k = Some r \<Longrightarrow> \<exists>r'. record_view w s' k = Some r' \<and> later_record r r'" for s s' k r
    using step_later by simp
  show "store_step w s s' \<Longrightarrow> record_view w s k = None \<Longrightarrow> record_view w s' k = Some r' \<Longrightarrow> good_history r'" for s s' k r'
    using step_new_record [of w s s' k r'] by (simp add: record_view_None)
qed simp

definition empty_store :: "string \<Rightarrow> store" where
  "empty_store path = \<lparr>store_root = path, dirs = [], held = []\<rparr>"

lemma empty_store_good: "records.all_good w (empty_store path)"
  by (rule records.empty_all_good) (auto simp: record_view_None dest!: loaded_has_record simp: has_record_def empty_store_def)

lemmas run_later = records.run_forward [simplified]
lemmas reachable_good = records.run_good [OF _ empty_store_good, simplified]

end
