(* ===== verification/ExecutionExample.thy ===== *)
theory ExecutionExample
  imports ExecutionHistory
begin

text \<open>
  A concrete world, registration and history, evaluated step by step: the instance on which the
  witnesses of the store's properties discharge their hypotheses.
\<close>

definition ex_world :: world where
  "ex_world = \<lparr>sha256 = (\<lambda>_. replicate 64 (CHR ''a'')), resolve = (\<lambda>p. split_on (CHR ''/'') p),
     dir_errno = (\<lambda>_. None), flock = (\<lambda>_. None), host_boot = (JStr ''host'', JStr ''boot'')\<rparr>"

definition ex_registration :: dict where
  "ex_registration = make_registration ex_world ''reg1'' (replicate 64 (CHR ''0'')) ''development'' ''do it''
     (JObj [(''name'', JStr ''claude''), (''tools'', JList [JStr ''Read''])]) ''/work/tree'' ''main''
     (JObj []) (JInt 60) JNull"

definition ex_record :: dict where
  "ex_record = fresh_record ''run-1'' ex_registration"

definition ex_lock :: string where
  "ex_lock = ''worktree-'' @ replicate 64 (CHR ''a'')"

definition ex_store :: "bool \<Rightarrow> nat \<Rightarrow> dict \<Rightarrow> store" where
  "ex_store lock n r = \<lparr>store_root = ''/state'',
     dirs = (''run-1'', [(RECORD, File n (Some (JObj r)))]) # (if lock then [(ex_lock, [])] else []), held = []\<rparr>"

lemma ex_worktree: "worktree_of ex_record = ''/work/tree''" "str_of (dget ex_registration ''worktree'') = ''/work/tree''"
  "worktree_of (fresh_record ''run-1'' ex_registration) = ''/work/tree''"
  by code_simp+

lemma ex_outside: "store_root s = ''/state'' \<Longrightarrow> outside_worktree ex_world s ''/work/tree'' = Inr ()"
proof -
  have "outside_worktree ex_world (empty_store ''/state'') ''/work/tree'' = Inr ()" by code_simp
  then show "store_root s = ''/state'' \<Longrightarrow> ?thesis"
    using outside_worktree_cong [of s "empty_store ''/state''"] by (simp add: empty_store_def)
qed

lemma ex_ids: "identifier_ok ''run-1''" "identifier_ok ''event-1''" "dir_errno ex_world d = None" "flock ex_world d = None"
  by code_simp+

lemma ex_valid: "validate ex_world (JObj ex_record) = Inr ()" by code_simp

lemma ex_size: "file_size (JObj ex_record) = 466" "finite_json (JObj ex_record)" by code_simp+

lemmas ex_ops = raise_if_def then_op_def bind_op_def locked_def open_directory_def write_record_def atomic_write_def put_file_def
  MAX_RECORD_BYTES_def ex_store_def ex_ids ex_worktree ex_outside

lemma ex_register:
  "register ex_world ''run-1'' ex_registration (empty_store ''/state'') = (Inr ex_record, ex_store False 466 ex_record)"
  using ex_valid ex_size
  by (simp add: ex_ops register_def empty_store_def has_record_def register_body_def flip: ex_record_def)

text \<open>The records of its later history: an attempt that timed out, an approval, and the attempt it admits.\<close>

definition ex_record1 :: dict where "ex_record1 = admitted_record ex_world ex_record JNull"

definition ex_change :: dict where
  "ex_change = [(''status'', JStr ''timed_out''), (''cleanup'', JStr ''confirmed'')]"

definition ex_record2 :: dict where "ex_record2 = updated_record ex_record1 ex_change"

definition ex_record3 :: dict where "ex_record3 = authorized_record ex_record2 1 ''event-1'' ''resume''"

definition ex_record4 :: dict where "ex_record4 = admitted_record ex_world ex_record3 (JStr ''event-1'')"

lemma ex_read: "n \<le> MAX_RECORD_BYTES \<Longrightarrow> load ex_world ''run-1'' (ex_store b n r) = accept_record ex_world (ex_store b n r) ''run-1'' (JObj r)"
proof -
  assume "n \<le> MAX_RECORD_BYTES"
  then have "read_json ex_world ''run-1'' RECORD (ex_store b n r) = Inr (JObj r)"
    using ex_ids by (simp add: read_json_returns ex_store_def)
  then show ?thesis by (simp add: load_def)
qed

lemma ex_loads:
  assumes "validate ex_world (JObj r) = Inr ()" and "dget r ''version'' = JInt SCHEMA_VERSION"
    and "dget r ''execution_id'' = JStr ''run-1''" and "worktree_of r = ''/work/tree''" and "n \<le> MAX_RECORD_BYTES"
    and "store_root s = ''/state''" and "map_of (dirs s) ''run-1'' = Some [(RECORD, File n (Some (JObj r)))]"
  shows "load ex_world ''run-1'' s = Inr r"
proof -
  have "read_json ex_world ''run-1'' RECORD s = Inr (JObj r)"
    using assms(5,7) ex_ids by (simp add: read_json_returns)
  then show ?thesis
    using assms by (auto simp: load_returns accept_record_returns upgrade_current ex_outside)
qed

lemma ex_lock_ids: "identifier_ok ex_lock" "ex_lock \<noteq> ''run-1''"
  by code_simp+

text \<open>One operation on a store that holds one execution.\<close>

lemma ex_admit:
  assumes r: "validate ex_world (JObj r) = Inr ()" "dget r ''version'' = JInt SCHEMA_VERSION"
      "dget r ''execution_id'' = JStr ''run-1''" "worktree_of r = ''/work/tree''" "n \<le> MAX_RECORD_BYTES"
    and m: "may_admit r ev" and new: "new = admitted_record ex_world r (event_json ev)"
    and sz: "finite_json (JObj new)" "file_size (JObj new) = k" "k \<le> MAX_RECORD_BYTES"
  shows "admit ex_world ''run-1'' ev (ex_store b n r) = (Inr (new, True), ex_store True k new)"
proof -
  note l = ex_loads [OF r]
  have "worktree_lock_id ex_world ''run-1'' (ex_store b n r) = Inr ex_lock"
    using l [of "ex_store b n r"] by (simp add: worktree_lock_id_def ex_store_def ex_lock_def ex_world_def)
  moreover have "admit_body ex_world ''run-1'' ev r = then_op (write_record ex_world ''run-1'' new) (ret (new, True))"
    using m new by (auto simp: admit_body_def may_admit_def Let_def split: option.splits)
  ultimately show ?thesis
    using sz ex_lock_ids
    by (auto simp: admit_def worktree_locked_def assert_worktree_peers_resolved_def l ex_ops)
qed

lemma ex_update:
  assumes r: "validate ex_world (JObj r) = Inr ()" "dget r ''version'' = JInt SCHEMA_VERSION"
      "dget r ''execution_id'' = JStr ''run-1''" "worktree_of r = ''/work/tree''" "n \<le> MAX_RECORD_BYTES"
    and m: "attempts_of r \<noteq> []" "afield (last (attempts_of r)) ''generation'' = JInt g"
      "fst ` set ch \<subseteq> set ATTEMPT_FIELDS - set IMMUTABLE_FIELDS" "update_checks (dict_of (last (attempts_of r))) ch = Inr ()"
      "validate ex_world (JObj new) = Inr ()" and new: "new = updated_record r ch"
    and sz: "finite_json (JObj new)" "file_size (JObj new) = k" "k \<le> MAX_RECORD_BYTES"
  shows "update_attempt ex_world ''run-1'' g ch (ex_store b n r) = (Inr new, ex_store b k new)"
proof -
  note l = ex_loads [OF r]
  have "update_body ex_world ''run-1'' g ch r = then_op (write_record ex_world ''run-1'' new) (ret new)"
    using m new by (auto simp: update_body_def then_op_def bind_op_def)
  then show ?thesis
    using sz m by (auto simp: update_attempt_def l ex_ops)
qed

lemma ex_authorize:
  assumes r: "validate ex_world (JObj r) = Inr ()" "dget r ''version'' = JInt SCHEMA_VERSION"
      "dget r ''execution_id'' = JStr ''run-1''" "worktree_of r = ''/work/tree''" "n \<le> MAX_RECORD_BYTES"
    and m: "attempts_of r \<noteq> []" "afield (last (attempts_of r)) ''generation'' = JInt g" "identifier_ok e"
      "\<forall>a \<in> set (attempts_of r). afield a ''recovery_event'' \<noteq> JStr e"
      "validate ex_world (JObj new) = Inr ()" and new: "new = authorized_record r g e ctx"
    and sz: "finite_json (JObj new)" "file_size (JObj new) = k" "k \<le> MAX_RECORD_BYTES"
  shows "authorize_retry ex_world ''run-1'' g e ctx (ex_store b n r) = (Inr (), ex_store b k new)"
proof -
  note l = ex_loads [OF r]
  have "authorize_body ex_world ''run-1'' g e ctx r = write_record ex_world ''run-1'' new"
    using m new by (auto simp: authorize_body_def then_op_def bind_op_def Let_def)
  then show ?thesis
    using sz m by (auto simp: authorize_retry_def check_identifier_def l ex_ops)
qed

lemmas ex_fields = admitted_get updated_get authorized_record_def worktree_of_def registration_of_def fresh_get

lemma ex_rec:
  assumes "r \<in> {ex_record, ex_record1, ex_record2, ex_record3, ex_record4}"
  shows "dget r ''version'' = JInt SCHEMA_VERSION" "dget r ''execution_id'' = JStr ''run-1''" "worktree_of r = ''/work/tree''"
  using assms ex_worktree(2)
  by (auto simp: ex_record_def ex_record1_def ex_record2_def ex_record3_def ex_record4_def ex_fields)

lemma ex_attempts:
  "attempts_of ex_record = []"
  "attempts_of ex_record1 = [new_attempt ex_world 0 JNull JNull]"
  "attempts_of ex_record2 = [JObj (dupdate (dict_of (new_attempt ex_world 0 JNull JNull)) ex_change)]"
  "attempts_of ex_record3 = attempts_of ex_record2"
  "attempts_of ex_record4 = attempts_of ex_record2 @ [new_attempt ex_world 1 (JStr ''event-1'') (JStr ''resume'')]"
proof -
  show a: "attempts_of ex_record = []"
    and b: "attempts_of ex_record1 = [new_attempt ex_world 0 JNull JNull]"
    and c: "attempts_of ex_record2 = [JObj (dupdate (dict_of (new_attempt ex_world 0 JNull JNull)) ex_change)]"
    by (simp_all add: ex_record1_def ex_record_def fresh_get ex_record2_def dget_Cons)
  show d: "attempts_of ex_record3 = attempts_of ex_record2"
    by (simp add: ex_record3_def authorized_record_def attempts_of_def)
  have "dget ex_record3 ''approved_recovery'' = JObj [(''generation'', JInt 1), (''event_id'', JStr ''event-1''), (''recovery_context'', JStr ''resume'')]"
    by (simp add: ex_record3_def authorized_record_def)
  then show "attempts_of ex_record4 = attempts_of ex_record2 @ [new_attempt ex_world 1 (JStr ''event-1'') (JStr ''resume'')]"
    using c d by (simp add: ex_record4_def dget_Cons)
qed

lemma ex_world_host: "host_ok ex_world"
  by (simp add: host_ok_def text_or_none_def ex_world_def)

lemma ex_sizes:
  "file_size (JObj ex_record1) = 802" "file_size (JObj ex_record2) = 805"
  "file_size (JObj ex_record4) = 1151" 
  by code_simp+
lemma ex_size3:"file_size (JObj ex_record3) = 866" 
  by code_simp

lemma ex_finite: "finite_json (JObj ex_record1)" "finite_json (JObj ex_record2)"  "finite_json (JObj ex_record3)" "finite_json (JObj ex_record4)"
  by code_simp+
lemma ex_attempt2:
  "afield (last (attempts_of ex_record2)) ''generation'' = JInt 1" "resolved_attempt (last (attempts_of ex_record2))"
  "afield (last (attempts_of ex_record1)) ''generation'' = JInt 1"
  "update_checks (dict_of (last (attempts_of ex_record1))) ex_change = Inr ()"
  "retry_authorized ex_record3 ''event-1''"
  "\<forall>a \<in> set (attempts_of ex_record2). afield a ''recovery_event'' \<noteq> JStr ''event-1''"
  by code_simp+
lemma ex_load: "load ex_world ''run-1'' (ex_store b 466 ex_record) = Inr ex_record"
  by (rule ex_loads [OF ex_valid ex_rec, of 466]) (simp_all add: ex_store_def MAX_RECORD_BYTES_def)

lemma ex_valid1: "validate ex_world (JObj ex_record1) = Inr ()"
  unfolding ex_record1_def
  by (rule admitted_valid [OF ex_load]) (simp_all add: ex_world_host text_or_none_def)

lemma ex_valid2: "validate ex_world (JObj ex_record2) = Inr ()" 
proof -
  let ?a = "[(''generation'', JInt 1), (''status'', JStr ''timed_out''), (''host'', JStr ''host''), (''boot_id'', JStr ''boot''),
      (''supervisor'', JNull), (''client_process'', JNull), (''started_monotonic'', JNull),
      (''deadline_monotonic'', JNull), (''exit_code'', JNull), (''exit_signal'', JNull),
      (''cleanup'', JStr ''confirmed''), (''reason'', JNull), (''recovery_event'', JNull),
      (''recovery_context'', JNull), (''owned_processes'', JList []), (''owned_cgroups'', JList []),
      (''direct_processes'', JList [])]"
  have a: "dupdate (dict_of (new_attempt ex_world 0 JNull JNull)) ex_change = ?a"
    by (simp add: new_attempt_def ex_change_def dupdate_def dput_def ex_world_def)
  have "attempt_checks (dget ?a) (JList []) (JList []) = Inr ()"
    by (auto simp: attempt_checks_def Let_def dget_def for_each_def STATUSES_def TERMINAL_def CLEANUPS_def validate_identity_def)
  moreover have "keys_are ?a (attempt_fields 3)"
    unfolding keys_are_def attempt_fields_sets(1) by (simp add: ATTEMPT_FIELDS_def insert_commute)
  ultimately have "validate_attempt 3 1 (JObj (dupdate (dict_of (new_attempt ex_world 0 JNull JNull)) ex_change)) = Inr ()"
    unfolding a by (simp add: validate_attempt_def dget_def get_list_def has_key_def Let_def)
  moreover have "keys_are ex_record2 RECORD_FIELDS"
    using ex_valid1 unfolding ex_record2_def updated_record_def by (auto simp: validate_iff RECORD_FIELDS_def intro!: keys_are_dput)
  moreover have "is_list (dget ex_record2 ''attempts'')" by (simp add: ex_record2_def updated_record_def)
  ultimately show ?thesis using ex_valid1 ex_attempts(3) ex_rec(1) [of ex_record2] ex_rec(1) [of ex_record1]
    by (simp add: validate_iff ex_record2_def updated_get SCHEMA_VERSION_def)
qed

lemma ex_valid3: "validate ex_world (JObj ex_record3) = Inr ()"
  unfolding ex_record3_def by (rule authorized_valid [OF ex_valid2]) simp_all

lemma ex_admit1: "admit ex_world ''run-1'' None (ex_store False 466 ex_record) = (Inr (ex_record1, True), ex_store True 802 ex_record1)"
  by (rule ex_admit [OF ex_valid ex_rec _ _ _ ex_finite(1) ex_sizes(1)])
    (simp_all add: ex_attempts may_admit_def ex_record1_def event_json_def MAX_RECORD_BYTES_def)

lemma ex_update2: "update_attempt ex_world ''run-1'' 1 ex_change (ex_store True 802 ex_record1) = (Inr ex_record2, ex_store True 805 ex_record2)"
  by (rule ex_update [OF ex_valid1 ex_rec _ _ ex_attempt2(3) _ ex_attempt2(4) ex_valid2 _ ex_finite(2) ex_sizes(2)])
    (auto simp add: ex_attempts ex_record2_def ex_change_def ATTEMPT_FIELDS_def IMMUTABLE_FIELDS_def MAX_RECORD_BYTES_def)

lemma ex_authorize3: "authorize_retry ex_world ''run-1'' 1 ''event-1'' ''resume'' (ex_store True 805 ex_record2) = (Inr (), ex_store True 866 ex_record3)"
  by (rule ex_authorize [OF ex_valid2 ex_rec _ _ ex_attempt2(1) ex_ids(2) ex_attempt2(6) ex_valid3 _ ex_finite(3) ex_size3])
    (simp_all add: ex_attempts ex_record3_def MAX_RECORD_BYTES_def)

lemma ex_admit4: "admit ex_world ''run-1'' (Some ''event-1'') (ex_store True 866 ex_record3) = (Inr (ex_record4, True), ex_store True 1151 ex_record4)"
  by (rule ex_admit [OF ex_valid3 ex_rec _ _ _ ex_finite(4) ex_sizes(3)])
    (simp_all add: ex_attempts ex_attempt2 may_admit_def ex_record4_def event_json_def MAX_RECORD_BYTES_def)

lemma ex_load1: "load ex_world ''run-1'' (ex_store b 802 ex_record1) = Inr ex_record1"
  by (rule ex_loads [OF ex_valid1 ex_rec, of 802]) (simp_all add: ex_store_def MAX_RECORD_BYTES_def)

lemma ex_load3: "load ex_world ''run-1'' (ex_store b 866 ex_record3) = Inr ex_record3"
  by (rule ex_loads [OF ex_valid3 ex_rec, of 866]) (simp_all add: ex_store_def MAX_RECORD_BYTES_def)

lemma ex_valid4: "validate ex_world (JObj ex_record4) = Inr ()"
  unfolding ex_record4_def
  by (rule admitted_valid [OF ex_load3]) (simp_all add: ex_world_host text_or_none_def)

lemma ex_load4: "load ex_world ''run-1'' (ex_store b 1151 ex_record4) = Inr ex_record4"
  by (rule ex_loads [OF ex_valid4 ex_rec, of 1151]) (simp_all add: ex_store_def MAX_RECORD_BYTES_def)

lemma ex_register_again:
  "register ex_world ''run-1'' ex_registration (ex_store False 466 ex_record) = (Inr ex_record, ex_store False 466 ex_record)"
proof -
  have l: "load ex_world ''run-1'' (ex_store False 466 ex_record\<lparr>held := [''run-1'']\<rparr>) = Inr ex_record"
    using ex_load load_extends [of "ex_store False 466 ex_record"] by simp
  have "dget ex_record ''registration'' = JObj ex_registration" by (simp add: ex_record_def fresh_get)
  moreover have "py_eq (JObj ex_registration) (JObj ex_registration)" by code_simp
  ultimately show ?thesis
    using ex_valid l
    by (simp add: ex_ops register_def register_body_def has_record_def flip: ex_record_def del: py_eq.simps)
qed

text \<open>The whole history is a run of the store.\<close>

lemma ex_world_same: "ex_world\<lparr>flock := flock ex_world, host_boot := host_boot ex_world\<rparr> = ex_world"
  by simp

lemmas ex_steps = store_step.intros [where w = ex_world and l = "flock ex_world" and h = "host_boot ex_world", unfolded ex_world_same]

lemma ex_step1: "store_step ex_world (empty_store ''/state'') (ex_store False 466 ex_record)"
  by (rule ex_steps(1) [OF ex_register])

lemma ex_step2: "store_step ex_world (ex_store False 466 ex_record) (ex_store True 802 ex_record1)"
  by (rule ex_steps(2) [OF ex_admit1]) (simp_all add: ex_world_host text_or_none_def event_json_def)

lemma ex_step3: "store_step ex_world (ex_store True 802 ex_record1) (ex_store True 805 ex_record2)"
  by (rule ex_steps(4) [OF ex_update2]) (simp add: ex_change_def)

lemma ex_step4: "store_step ex_world (ex_store True 805 ex_record2) (ex_store True 866 ex_record3)"
  by (rule ex_steps(3) [OF ex_authorize3])

lemma ex_step5: "store_step ex_world (ex_store True 866 ex_record3) (ex_store True 1151 ex_record4)"
  by (rule ex_steps(2) [OF ex_admit4]) (simp_all add: ex_world_host text_or_none_def event_json_def)

lemma ex_run: "(store_step ex_world)\<^sup>*\<^sup>* (ex_store False 466 ex_record) (ex_store True 1151 ex_record4)"
  using ex_step2 ex_step3 ex_step4 ex_step5 by (meson converse_rtranclp_into_rtranclp rtranclp.rtrancl_refl)

lemma ex_full_run: "(store_step ex_world)\<^sup>*\<^sup>* (empty_store ''/state'') (ex_store True 1151 ex_record4)"
  using ex_step1 ex_run by (rule converse_rtranclp_into_rtranclp)

text \<open>A second execution on the same worktree, whose attempt has ended with confirmed cleanup.\<close>

definition ex_other :: dict where "ex_other = dput ''execution_id'' (JStr ''run-2'') ex_record2"

definition ex_pair :: "dict \<Rightarrow> nat \<Rightarrow> directory \<Rightarrow> store" where
  "ex_pair r n ds = \<lparr>store_root = ''/state'', dirs = [(''run-1'', [(RECORD, File n (Some (JObj r)))]),
     (''run-2'', [(RECORD, File 805 (Some (JObj ex_other)))])] @ map (\<lambda>d. (fst d, [])) ds, held = []\<rparr>"

lemma ex_other_valid: "validate ex_world (JObj ex_other) = Inr ()"
proof -
  have "keys_are ex_other RECORD_FIELDS"
    using ex_valid2 unfolding ex_other_def by (auto simp: validate_iff RECORD_FIELDS_def intro!: keys_are_dput)
  moreover have "attempts_of ex_other = attempts_of ex_record2" by (simp add: ex_other_def attempts_of_def)
  moreover have "identifier_ok ''run-2''" by code_simp
  ultimately show ?thesis
    using ex_valid2 by (simp add: validate_iff ex_other_def check_identifier_def)
qed

lemma ex_pair_loads:
  "load ex_world ''run-1'' (ex_pair ex_record 466 ds) = Inr ex_record"
  "load ex_world ''run-2'' (ex_pair r n ds) = Inr ex_other"
proof -
  show "load ex_world ''run-1'' (ex_pair ex_record 466 ds) = Inr ex_record"
    by (rule ex_loads [OF ex_valid ex_rec, of 466]) (simp_all add: ex_pair_def MAX_RECORD_BYTES_def)
  have "identifier_ok ''run-2''" by code_simp
  then have "read_json ex_world ''run-2'' RECORD (ex_pair r n ds) = Inr (JObj ex_other)"
    using ex_ids by (simp add: read_json_returns ex_pair_def MAX_RECORD_BYTES_def)
  then show "load ex_world ''run-2'' (ex_pair r n ds) = Inr ex_other"
    using ex_other_valid ex_rec [of ex_record2]
    by (auto simp: load_returns accept_record_returns upgrade_current ex_outside ex_pair_def ex_other_def worktree_of_def registration_of_def)
qed

lemma ex_pair_admit:
  "\<exists>s'. admit ex_world ''run-1'' None (ex_pair ex_record 466 []) = (Inr (ex_record1, True), s')"
proof -
  have sha: "sha256 ex_world = (\<lambda>_. replicate 64 (CHR ''a''))" by (simp add: ex_world_def)
  have lock: "worktree_lock_id ex_world ''run-1'' (ex_pair ex_record 466 []) = Inr ex_lock"
    using sha by (simp add: worktree_lock_id_def ex_pair_loads ex_lock_def)
  have body: "admit_body ex_world ''run-1'' None ex_record = then_op (write_record ex_world ''run-1'' ex_record1) (ret (ex_record1, True))"
    by (simp add: admit_body_def ex_attempts Let_def ex_record1_def event_json_def)
  have other: "attempts_of ex_other = attempts_of ex_record2" by (simp add: ex_other_def attempts_of_def)
  let ?s = "(ex_pair ex_record 466 [(ex_lock, undefined)])\<lparr>held := [ex_lock]\<rparr>"
  have loads: "load ex_world ''run-1'' ?s = Inr ex_record" "load ex_world ''run-2'' ?s = Inr ex_other"
    "load ex_world ''run-1'' (?s\<lparr>held := [''run-1'', ex_lock]\<rparr>) = Inr ex_record"
    using ex_pair_loads load_extends [of "ex_pair ex_record 466 [(ex_lock, undefined)]"] by simp_all
  have peers: "assert_worktree_peers_resolved ex_world ''run-1'' ?s = Inr ()"
    using loads ex_attempt2(2)
    by (simp add: assert_worktree_peers_resolved_def other ex_attempts ex_pair_def raise_if_def)
  have "ex_lock \<noteq> ''run-2''" by code_simp
  then show ?thesis
    unfolding admit_def worktree_locked_def bind_op_def [of "reads (worktree_lock_id ex_world ''run-1'')"]
    using lock body peers loads ex_lock_ids ex_sizes(1) ex_finite(1)
    by (simp add: ex_ops ex_pair_def)
qed

end
