(* ===== verification/ExecutionSafety.thy ===== *)
theory ExecutionSafety
  imports ExecutionExample
begin

text \<open>
  The properties of the execution store: what an admission means, what survives every interleaving
  of the store's operations, that a recovery event is used once, that a pinned registration and its
  prompt cannot drift, and that stale evidence is refused.  Each witness is a step of the history of
  \<^theory_text>\<open>ExecutionExample\<close>.
\<close>

section \<open>Histories\<close>

lemma later_attempts: "later_record r r' \<Longrightarrow> history_le (attempts_of r) (attempts_of r')"
  by (simp add: later_record_def)

lemma reachable_record:
  assumes "(store_step w)\<^sup>*\<^sup>* (empty_store path) s" and "load w d s = Inr r"
  shows "good_history r"
  using reachable_good assms by blast

text \<open>
  C1: in every state that any interleaving of \<^verbatim>\<open>register\<close>, \<^verbatim>\<open>admit\<close>, \<^verbatim>\<open>authorize_retry\<close> and
  \<^verbatim>\<open>update_attempt\<close> reaches from an empty store, whatever locks fail and whichever calls raise, a
  record that loads has generations 1 to n in order, all attempts before the last ended with
  confirmed cleanup, the first admitted without a recovery event, and no event used twice.
\<close>

theorem reachable_histories:
  assumes run: "(store_step w)\<^sup>*\<^sup>* (empty_store path) s" and l: "load w d s = Inr r"
  shows "(\<forall>i < length (attempts_of r). afield (attempts_of r ! i) ''generation'' = JInt (int (Suc i)))
     \<and> (\<forall>i. Suc i < length (attempts_of r) \<longrightarrow> resolved_attempt (attempts_of r ! i))
     \<and> distinct (map (\<lambda>a. afield a ''recovery_event'') (attempts_of r))
     \<and> (attempts_of r \<noteq> [] \<longrightarrow> afield (hd (attempts_of r)) ''recovery_event'' = JNull)"
  using reachable_record [OF run l] loaded_generations [OF l]
  by (auto simp: good_history_def sealed_def recovery_events_def hd_map)

theorem reachable_histories_witness:
  "distinct (map (\<lambda>a. afield a ''recovery_event'') (attempts_of ex_record4)) \<and>
     afield (attempts_of ex_record4 ! 1) ''generation'' = JInt 2 \<and> resolved_attempt (attempts_of ex_record4 ! 0)"
  using reachable_histories [OF ex_full_run ex_load4] by (auto simp: ex_attempts)

text \<open>
  C2: durability.  Whatever any interleaving of the operations does to a store, an execution that
  loads keeps loading; its registration never changes; no attempt is ever removed; every attempt but
  the last one is untouched; and the last keeps its generation and recovery data, a terminal status,
  and collected exit evidence once set.
\<close>

theorem records_are_durable:
  assumes "(store_step w)\<^sup>*\<^sup>* s s'" and "load w d s = Inr r"
  shows "\<exists>r'. load w d s' = Inr r' \<and> dget r' ''registration'' = dget r ''registration''
     \<and> history_le (attempts_of r) (attempts_of r')"
  using run_later [OF assms] by (auto simp: later_record_def)

theorem records_are_durable_witness:
  "\<exists>r'. load ex_world ''run-1'' (ex_store True 1151 ex_record4) = Inr r'
     \<and> dget r' ''registration'' = dget ex_record ''registration'' \<and> history_le (attempts_of ex_record) (attempts_of r')"
  by (rule records_are_durable [OF ex_run ex_load])

section \<open>Admission\<close>

text \<open>
  C3: the admission gate.  When \<^verbatim>\<open>admit\<close> reports a new attempt, the record that loads afterwards
  is the earlier one with exactly one attempt more, of the next generation, whose status is
  \<^verbatim>\<open>admitted\<close> and whose cleanup is pending; the pending approval is consumed; and either this is the
  first attempt and no recovery event was given, or the approval on file named this event and the
  generation of the last attempt, which had ended with confirmed cleanup.
\<close>

theorem admit_adds_one_attempt:
  assumes "admit w d ev s = (Inr (r', True), s')" and "host_ok w" and "text_or_none (event_json ev)"
  shows "\<exists>r a. load w d s = Inr r \<and> load w d s' = Inr r' \<and> attempts_of r' = attempts_of r @ [a]
     \<and> afield a ''generation'' = JInt (int (length (attempts_of r)) + 1) \<and> afield a ''status'' = JStr ''admitted''
     \<and> afield a ''cleanup'' = JStr ''pending'' \<and> dget r' ''approved_recovery'' = JNull
     \<and> (case ev of None \<Rightarrow> attempts_of r = []
        | Some e \<Rightarrow> attempts_of r \<noteq> [] \<and> resolved_attempt (last (attempts_of r))
            \<and> dget (dict_of (dget r ''approved_recovery'')) ''event_id'' = JStr e
            \<and> dget (dict_of (dget r ''approved_recovery'')) ''generation'' = JInt (int (length (attempts_of r))))"
proof -
  obtain r s1 where r: "load w d s = Inr r" and m: "may_admit r ev"
    and r': "r' = admitted_record w r (event_json ev)"
    using assms(1) by (rule admit_created) blast
  have "attempts_of r \<noteq> [] \<Longrightarrow> afield (last (attempts_of r)) ''generation'' = JInt (int (length (attempts_of r)))"
    by (rule valid_last_generation [OF loaded_valid [OF r]])
  then show ?thesis
    using r m r' admit_loads [OF assms]
    by (auto simp: may_admit_def retry_authorized_def Let_def admitted_get new_attempt_def afield_def dget_Cons split: option.splits)
qed

theorem admit_adds_one_attempt_witness:
  "\<exists>r a. load ex_world ''run-1'' (ex_store True 866 ex_record3) = Inr r \<and> load ex_world ''run-1'' (ex_store True 1151 ex_record4) = Inr ex_record4
     \<and> attempts_of ex_record4 = attempts_of r @ [a]"
  using admit_adds_one_attempt [OF ex_admit4 ex_world_host] by (auto simp: text_or_none_def event_json_def)

text \<open>
  C4: an admission, also one that only returns the existing attempt, means that no other execution on
  the same resolved worktree has an attempt that is still running or whose cleanup is unconfirmed.
\<close>

theorem admit_owns_worktree:
  assumes a: "admit w d ev s = (Inr (r', created), s')" and o: "load w e s = Inr other" and ne: "e \<noteq> d"
    and r: "load w d s = Inr r" and same: "resolve w (worktree_of other) = resolve w (worktree_of r)"
  shows "\<forall>a \<in> set (attempts_of other). resolved_attempt a"
proof -
  obtain s1 where e1: "extends s s1" and peers: "assert_worktree_peers_resolved w d s1 = Inr ()"
    using a by (rule admit_returns) blast
  have r1: "load w d s1 = Inr r" and o1: "load w e s1 = Inr other" using r o e1 by (simp_all add: load_extends)
  obtain fs where fs: "map_of (dirs s1) e = Some fs" "map_of fs RECORD \<noteq> None"
    using loaded_directory [OF o1] loaded_has_record [OF o1] by (auto simp: has_record_def)
  then have "(e, fs) \<in> set (filter (\<lambda>d'. map_of (snd d') RECORD \<noteq> None \<and> fst d' \<noteq> d) (dirs s1))"
    using ne by (auto dest: map_of_SomeD)
  with peers r1 have "rbind (load w e s1) (\<lambda>other. raise_if (resolve w (worktree_of other) = resolve w (worktree_of r)
      \<and> (\<exists>a \<in> set (attempts_of other). \<not> resolved_attempt a)) (ExecutionError ''worktree has an unresolved owned attempt'')) = Inr ()"
    by (auto simp: assert_worktree_peers_resolved_def)
  with o1 same show ?thesis by simp
qed

theorem admit_owns_worktree_witness:
  "list_all resolved_attempt (attempts_of ex_other)"
proof -
  obtain s' where "admit ex_world ''run-1'' None (ex_pair ex_record 466 []) = (Inr (ex_record1, True), s')"
    using ex_pair_admit by blast
  from admit_owns_worktree [OF this ex_pair_loads(2) _ ex_pair_loads(1)] show ?thesis
    using ex_rec(3) [of ex_record2] ex_worktree(1)
    by (simp add: ex_other_def worktree_of_def registration_of_def list_all_iff)
qed

section \<open>Recovery events\<close>

lemma used_event_kept:
  assumes "history_le as bs" and "good_history r" and "attempts_of r = bs" and "i < length as"
  shows "afield (bs ! i) ''recovery_event'' = afield (as ! i) ''recovery_event''"
proof -
  have "if Suc i < length as then bs ! i = as ! i else evolves (as ! i) (bs ! i)"
    using assms by (simp add: history_le_def)
  then show ?thesis by (auto simp: evolves_def IMMUTABLE_FIELDS_def split: if_splits)
qed

text \<open>
  C5: a recovery event admits at most one attempt, ever.  Once \<^verbatim>\<open>admit\<close> has consumed it, then after
  any further interleaving of operations neither \<^verbatim>\<open>authorize_retry\<close> nor \<^verbatim>\<open>admit\<close> returns for it.
\<close>

theorem recovery_event_single_use:
  assumes reach: "(store_step w)\<^sup>*\<^sup>* (empty_store path) s0"
    and a: "admit w d (Some e) s0 = (Inr (r', created), s)" and h: "host_ok w" "length e \<le> 65536"
    and run: "(store_step w)\<^sup>*\<^sup>* s s'"
  shows "fst (authorize_retry w d g e ctx s') \<noteq> Inr () \<and> (\<forall>p. fst (admit w d (Some e) s') \<noteq> Inr p)"
proof -
  have t: "text_or_none (event_json (Some e))" using h by (simp add: text_or_none_def event_json_def)
  have step: "store_step w s0 s"
    by (rule step_admit [where l = "flock w" and h = "host_boot w" and d = d and ev = "Some e" and out = "Inr (r', created)"]) (use a h t in simp_all)
  have reach': "(store_step w)\<^sup>*\<^sup>* (empty_store path) s'"
    using reach step run by (meson rtranclp.rtrancl_into_rtrancl rtranclp_trans)
  have created: "created" using a by (rule admit_returns) auto
  with a obtain r where r': "r' = admitted_record w r (event_json (Some e))"
    by (auto elim: admit_created)
  let ?n = "length (attempts_of r)"
  have l: "load w d s = Inr r'" by (rule admit_loads [OF a h(1) t])
  from run_later [OF run l] obtain r2 where l2: "load w d s' = Inr r2"
    and le: "history_le (attempts_of r') (attempts_of r2)" by (auto simp: later_record_def)
  have good: "good_history r2" by (rule reachable_record [OF reach' l2])
  have len: "?n < length (attempts_of r')" using r' by simp
  have "afield (attempts_of r2 ! ?n) ''recovery_event'' = afield (attempts_of r' ! ?n) ''recovery_event''"
    by (rule used_event_kept [OF le good refl len])
  moreover have "afield (attempts_of r' ! ?n) ''recovery_event'' = JStr e"
    using r' by (simp add: new_attempt_def afield_def dget_Cons event_json_def)
  moreover have "?n < length (attempts_of r2)" using le len by (simp add: history_le_def)
  ultimately have used: "JStr e \<in> set (recovery_events (attempts_of r2))"
    by (metis (no_types, lifting) image_eqI list.set_map nth_mem recovery_events_def)
  have "fst (authorize_retry w d g e ctx s') \<noteq> Inr ()"
  proof
    assume "fst (authorize_retry w d g e ctx s') = Inr ()"
    then obtain s2 where "authorize_retry w d g e ctx s' = (Inr (), s2)" by (metis prod.collapse)
    with l2 used show False by (auto elim!: authorize_returns simp: recovery_events_def)
  qed
  moreover have "fst (admit w d (Some e) s') \<noteq> Inr p" for p
  proof
    assume "fst (admit w d (Some e) s') = Inr p"
    then obtain q c s2 where "admit w d (Some e) s' = (Inr (q, c), s2)" by (metis prod.collapse)
    with l2 have "may_admit r2 (Some e)" by (auto elim!: admit_returns)
    with good used show False by (auto simp: may_admit_def retry_authorized_def Let_def good_history_def)
  qed
  ultimately show ?thesis by blast
qed

theorem recovery_event_single_use_witness:
  "fst (authorize_retry ex_world ''run-1'' 2 ''event-1'' ''again'' (ex_store True 1151 ex_record4)) \<noteq> Inr ()"
proof -
  have "(store_step ex_world)\<^sup>*\<^sup>* (empty_store ''/state'') (ex_store True 866 ex_record3)"
    using ex_step1 ex_step2 ex_step3 ex_step4 by (meson converse_rtranclp_into_rtranclp rtranclp.rtrancl_refl)
  from recovery_event_single_use [OF this ex_admit4 ex_world_host _ rtranclp.rtrancl_refl] show ?thesis by simp
qed

section \<open>Pinned registrations\<close>

text \<open>
  C6: a registration cannot drift.  After \<^verbatim>\<open>register\<close> returns, and whatever operations follow, a
  call of \<^verbatim>\<open>register\<close> for the same execution returns only for a registration equal to the stored
  one, and it then returns the stored record, with all its attempts, and writes nothing.
\<close>

theorem registration_pinned:
  assumes reg: "register w d reg s = (Inr r, s1)" and run: "(store_step w)\<^sup>*\<^sup>* s1 s2"
    and again: "register w d reg' s2 = (Inr r', s3)"
  shows "py_eq (dget r ''registration'') (JObj reg') \<and> load w d s2 = Inr r' \<and> load w d s3 = Inr r'
     \<and> history_le (attempts_of r) (attempts_of r')"
proof -
  note ret = register_returns [OF reg]
  have l: "load w d s1 = Inr r"
  proof (cases "has_record s d")
    case True
    with ret(3) have "load w d s = Inr r" "extends s s1" by auto
    then show ?thesis by (simp add: load_extends)
  next
    case False
    with ret(3) have "r = fresh_record d reg" "replaced w d (fresh_record d reg) s s1" by auto
    with fresh_loads ret(1,2) show ?thesis by simp
  qed
  obtain q where q: "load w d s2 = Inr q" "later_record r q"
    using run_later [OF run] l by blast
  from register_returns(3) [OF again] loaded_has_record [OF q(1)] q
  show ?thesis by (auto simp: later_record_def load_extends)
qed

theorem registration_pinned_witness:
  "load ex_world ''run-1'' (ex_store False 466 ex_record) = Inr ex_record"
proof -
  have "register ex_world ''run-1'' ex_registration (ex_store False 466 ex_record) = (Inr ex_record, ex_store False 466 ex_record)"
    by (rule ex_register_again)
  from registration_pinned [OF ex_register rtranclp.rtrancl_refl this] show ?thesis by blast
qed

text \<open>
  The prompt is pinned.  Whatever operations follow the first registration of an execution,
  \<^verbatim>\<open>prompt\<close> returns exactly the bytes that were registered.
\<close>

theorem prompt_pinned:
  assumes reg: "register w d (make_registration w rid plan phase p client wt branch contract tmo man) s = (Inr r, s1)"
    and new: "\<not> has_record s d" and run: "(store_step w)\<^sup>*\<^sup>* s1 s2"
  shows "prompt w d s2 = Inr p"
proof -
  let ?reg = "make_registration w rid plan phase p client wt branch contract tmo man"
  note ret = register_returns [OF reg]
  from new ret(3) have r: "r = fresh_record d ?reg" "replaced w d (fresh_record d ?reg) s s1" by auto
  with fresh_loads ret(1,2) have "load w d s1 = Inr r" by simp
  with run_later [OF run] obtain q where q: "load w d s2 = Inr q" "dget q ''registration'' = dget r ''registration''"
    by (auto simp: later_record_def)
  then show ?thesis
    by (simp add: prompt_def registration_of_def r fresh_get make_registration_def dget_Cons)
qed

theorem prompt_pinned_witness:
  "prompt ex_world ''run-1'' (ex_store True 1151 ex_record4) = Inr ''do it''"
proof (rule prompt_pinned [OF _ _ ex_run])
  show "register ex_world ''run-1'' (make_registration ex_world ''reg1'' (replicate 64 (CHR ''0'')) ''development'' ''do it''
     (JObj [(''name'', JStr ''claude''), (''tools'', JList [JStr ''Read''])]) ''/work/tree'' ''main''
     (JObj []) (JInt 60) JNull) (empty_store ''/state'') = (Inr ex_record, ex_store False 466 ex_record)"
    using ex_register by (simp add: ex_registration_def)
qed (simp add: has_record_def empty_store_def)

section \<open>Stale evidence\<close>

text \<open>
  C8: an update changes the last attempt only, and only the current generation's.  An update for any other
  generation raises, and leaves every record of the store as it was.  One that returns is for the last
  attempt: of the record nothing but that attempt differs afterwards, and of the attempt nothing but the fields
  that were given; its generation, recovery event and context, a terminal status and what was recorded once
  stay; its result is what loads afterwards; and no other record of the store has changed.  The names of
  keyword arguments are distinct.
\<close>

theorem update_is_current:
  assumes u: "update_attempt w d g changes s = (res, s')" and l: "load w d s = Inr r" and k: "distinct (map fst changes)"
  shows "case res of
       Inl e \<Rightarrow> (\<forall>c x. load w c s' = Inr x \<longleftrightarrow> load w c s = Inr x)
     | Inr r' \<Rightarrow> let a = last (attempts_of r); a' = last (attempts_of r') in
         g = int (length (attempts_of r)) \<and> load w d s' = Inr r'
         \<and> (\<forall>f. f \<noteq> ''attempts'' \<longrightarrow> dget r' f = dget r f)
         \<and> length (attempts_of r') = length (attempts_of r) \<and> butlast (attempts_of r') = butlast (attempts_of r)
         \<and> (\<forall>f. afield a' f = (if has_key changes f then dget changes f else afield a f))
         \<and> (\<forall>f \<in> {''generation'', ''recovery_event'', ''recovery_context''}. afield a' f = afield a f)
         \<and> (str_in (afield a ''status'') TERMINAL \<longrightarrow> afield a' ''status'' = afield a ''status'')
         \<and> (\<forall>f \<in> {''exit_code'', ''exit_signal'', ''started_monotonic'', ''deadline_monotonic'', ''supervisor'', ''client_process''}.
              afield a f \<noteq> JNull \<longrightarrow> py_eq (afield a' f) (afield a f) \<or> afield a' f = afield a f)
         \<and> (\<forall>c x. c \<noteq> d \<longrightarrow> (load w c s' = Inr x \<longleftrightarrow> load w c s = Inr x))"
proof (cases res)
  case (Inl e)
  with u have "extends s s'" using quietD [OF quiet_update] by blast
  with Inl show ?thesis by (simp add: load_extends)
next
  case (Inr r')
  with u l have ne: "attempts_of r \<noteq> []" and g: "afield (last (attempts_of r)) ''generation'' = JInt g"
    and f: "fst ` set changes \<subseteq> set ATTEMPT_FIELDS - set IMMUTABLE_FIELDS" and c: "update_checks (dict_of (last (attempts_of r))) changes = Inr ()"
    and r': "r' = updated_record r changes" "validate w (JObj r') = Inr ()" "replaced w d r' s s'"
    by (auto elim!: update_returns)
  have "load w d s' = Inr r'" using updated_loads [OF l] r' by simp
  moreover have "g = int (length (attempts_of r))"
    using valid_last_generation [OF loaded_valid [OF l] ne] g by simp
  moreover have "length (butlast (attempts_of r) @ [a]) = length (attempts_of r)" for a
    using ne by (simp add: Suc_leI)
  moreover have get: "afield (last (attempts_of r')) k = (if has_key changes k then dget changes k else afield (last (attempts_of r)) k)" for k
    using dget_dupdate [OF assms(3)] r'(1) by (simp add: afield_def)
  moreover have "\<forall>k \<in> {''generation'', ''recovery_event'', ''recovery_context''}. \<not> has_key changes k"
    using f by (auto simp: has_key_def IMMUTABLE_FIELDS_def)
  moreover have "afield (last (attempts_of r')) ''status'' = afield (last (attempts_of r)) ''status''" if t: "str_in (afield (last (attempts_of r)) ''status'') TERMINAL"
  proof -
    have "has_key changes ''status'' \<Longrightarrow> py_eq (dget changes ''status'') (afield (last (attempts_of r)) ''status'')"
      using c t by (simp add: update_checks_def afield_def)
    moreover obtain x where "afield (last (attempts_of r)) ''status'' = JStr x" using t by (auto simp: str_in_iff)
    ultimately show ?thesis by (simp add: get)
  qed
  moreover have "\<forall>k \<in> {''exit_code'', ''exit_signal'', ''started_monotonic'', ''deadline_monotonic'', ''supervisor'', ''client_process''}.
      afield (last (attempts_of r)) k \<noteq> JNull \<longrightarrow> has_key changes k \<longrightarrow> py_eq (dget changes k) (afield (last (attempts_of r)) k)"
    using c by (auto simp: update_checks_def WRITE_ONCE_FIELDS_def afield_def)
  ultimately show ?thesis using Inr r'(1) replaced_other [OF r'(3)] updated_get by (simp add: Let_def)
qed

theorem update_is_current_witness:
  "load ex_world ''run-1'' (ex_store True 805 ex_record2) = Inr ex_record2
   \<and> dget ex_record2 ''registration'' = dget ex_record1 ''registration'' \<and> afield (last (attempts_of ex_record2)) ''status'' = JStr ''timed_out''"
proof -
  have "distinct (map fst ex_change)" "dget ex_change ''status'' = JStr ''timed_out''" "has_key ex_change ''status''" by code_simp+
  then show ?thesis using update_is_current [OF ex_update2 ex_load1] by (simp add: Let_def)
qed

end
