(* ===== verification/ProgressJournal.thy ===== *)
theory ProgressJournal
  imports ExecutionHistory
begin

text \<open>
  \<^verbatim>\<open>ProgressJournal\<close> of \<^verbatim>\<open>hermes_pipeline/agent_checkpoint.py\<close>: the supervisor's record of accepted
  task commits, kept beside the execution record as \<^verbatim>\<open>progress.json\<close> and anchored by the digest in
  \<^verbatim>\<open>progress-anchor.json\<close>.

  Git and the submission directory are not part of the store.  They are the fields of a \<open>gitw\<close>: what
  \<^verbatim>\<open>run_git\<close> prints for the arguments in a worktree (as ASCII text) or raises, whether a path exists or
  is a link, the bytes of a regular file or what opening it raises, what \<^verbatim>\<open>git_metadata_identity\<close> captures, what is left of the collection deadline, and
  what reading a staged submission gives.
\<close>

section \<open>Git and staged submissions\<close>

record gitw =
  run_git :: "string \<Rightarrow> string list \<Rightarrow> string res"
  lexists :: "string \<Rightarrow> bool"
  symlink :: "string \<Rightarrow> bool"
  file_bytes :: "string \<Rightarrow> string res"
  metadata_identity :: "string \<Rightarrow> json res"
  deadline_left :: "unit res"
  open_staging :: "string list \<Rightarrow> unit res"
  staged :: "string list \<Rightarrow> string \<Rightarrow> fcontent res"

text \<open>Components of an absolute path, without its empty and \<^verbatim>\<open>.\<close> segments.\<close>

definition path_parts :: "string \<Rightarrow> string list" where
  "path_parts p = filter (\<lambda>x. x \<noteq> [] \<and> x \<noteq> ''.'') (split_on (CHR ''/'') p)"

definition registration :: "world \<Rightarrow> string \<Rightarrow> store \<Rightarrow> dict res" where
  "registration w eid s = rbind (load w eid s) (\<lambda>r. Inr (registration_of r))"

definition git_text :: "world \<Rightarrow> gitw \<Rightarrow> string \<Rightarrow> store \<Rightarrow> string list \<Rightarrow> string res" where
  "git_text w g eid s args = rbind (registration w eid s) (\<lambda>reg.
     case run_git g (str_of (dget reg ''worktree'')) args of
       Inr out \<Rightarrow> Inr (strip out)
     | Inl e \<Rightarrow> Inl (if is_os_error e \<or> e = SubprocessErr then ExecutionError ''checkpoint Git validation failed'' else e))"

section \<open>The journal\<close>

definition PROGRESS :: string where "PROGRESS = ''progress.json''"
definition ANCHOR :: string where "ANCHOR = ''progress-anchor.json''"

text \<open>\<^verbatim>\<open>[0-9a-f]{40}(?:[0-9a-f]{24})?\Z\<close>.\<close>

definition commit_ok :: "json \<Rightarrow> bool" where
  "commit_ok v \<longleftrightarrow> is_str v \<and> (hex_of_length 40 (str_of v) \<or> hex_of_length 64 (str_of v))"

definition JOURNAL_FIELDS :: "string list" where
  "JOURNAL_FIELDS = [''version'', ''execution_id'', ''plan_identity'', ''manifest_digest'', ''task_ids'', ''base'', ''accepted'', ''receipts'']"

definition SUBMISSION_FIELDS :: "string list" where
  "SUBMISSION_FIELDS = [''version'', ''execution_id'', ''generation'', ''plan_identity'', ''task_id'', ''commit'']"

definition RECEIPT_FIELDS :: "string list" where
  "RECEIPT_FIELDS = [''generation'', ''task_id'', ''commit'', ''kind'', ''evidence_sha256'', ''evidence'', ''plan_identity'']"

definition task_id_ok :: "json \<Rightarrow> bool" where
  "task_id_ok v \<longleftrightarrow> is_str v \<and> class_between (\<lambda>c. alnum c \<or> c \<in> set ''_-'') 1 100 (str_of v)"

definition task_ids :: "dict \<Rightarrow> json list res" where
  "task_ids reg = (let manifest = dget reg ''manifest''; tasks = dget (dict_of manifest) ''tasks'';
       ids = map (\<lambda>t. dget (dict_of t) ''id'') (items tasks)
     in if manifest = JNull then Inr [] else rbind (run_checks [
       raise_if (\<not> is_list tasks \<or> items tasks = [] \<or> (\<exists>t \<in> set (items tasks). \<not> is_dict t \<or> \<not> task_id_ok (dget (dict_of t) ''id'')))
         (ExecutionError ''invalid pinned checkpoint manifest''),
       raise_if (\<not> distinct ids) (ExecutionError ''duplicate checkpoint task'')]) (\<lambda>_. Inr ids))"

text \<open>\<^verbatim>\<open>re.search(r'token|secret|authorization|password|api.key|bearer', arg, re.I)\<close>, on a text without newlines.\<close>

fun has_api_key :: "string \<Rightarrow> bool" where
  "has_api_key [] = False"
| "has_api_key (c # cs) = ((startswith (c # cs) ''api'' \<and> startswith (drop 4 (c # cs)) ''key'') \<or> has_api_key cs)"

definition sensitive :: "string \<Rightarrow> bool" where
  "sensitive arg \<longleftrightarrow> (let t = map to_lower arg in
     (\<exists>p \<in> set [''token'', ''secret'', ''authorization'', ''password'', ''bearer'']. contains t p) \<or> has_api_key t)"

definition argument_ok :: "json \<Rightarrow> bool" where
  "argument_ok v \<longleftrightarrow> is_str v \<and> class_between (\<lambda>c. alnum c \<or> c \<in> set ''_./:=+-'') 1 256 (str_of v) \<and> \<not> sensitive (str_of v)"

definition check_ok :: "json \<Rightarrow> bool" where
  "check_ok v \<longleftrightarrow> (let c = dict_of v; argv = dget c ''argv'' in
     is_dict v \<and> keys_are c [''argv'', ''exit_code''] \<and> dget c ''exit_code'' = JInt 0 \<and> is_list argv
     \<and> 1 \<le> length (items argv) \<and> length (items argv) \<le> 64 \<and> list_all argument_ok (items argv))"

definition reviewer_ok :: "json \<Rightarrow> bool" where
  "reviewer_ok v \<longleftrightarrow> is_str v \<and> class_between (\<lambda>c. alnum c \<or> c \<in> set ''_.-'') 1 128 (str_of v)"

definition validate_evidence :: "json \<Rightarrow> json \<Rightarrow> unit res" where
  "validate_evidence kind evidence = (let e = dict_of evidence; checks = dget e ''checks'' in run_checks [
     raise_if (\<not> is_dict evidence \<or> 16384 < length (dumps default_style evidence)) (ExecutionError ''invalid bounded control evidence''),
     if kind = JStr ''review'' then
       raise_if (\<not> keys_are e [''reviewer'', ''receipt_id'', ''outcome''] \<or> dget e ''outcome'' \<noteq> JStr ''accepted''
           \<or> \<not> reviewer_ok (dget e ''reviewer'') \<or> \<not> reviewer_ok (dget e ''receipt_id''))
         (ExecutionError ''invalid independent review evidence'')
     else if kind = JStr ''verification'' then run_checks [
       raise_if (\<not> keys_are e [''checks''] \<or> \<not> is_list checks \<or> length (items checks) < 1 \<or> 64 < length (items checks))
         (ExecutionError ''invalid verification evidence''),
       raise_if (\<not> list_all check_ok (items checks)) (ExecutionError ''invalid or sensitive verification evidence'')]
     else Inl (ExecutionError ''unsupported evidence kind'')])"

definition validate_receipt :: "world \<Rightarrow> dict \<Rightarrow> json \<Rightarrow> unit res" where
  "validate_receipt w journal v = (let r = dict_of v; g = dget r ''generation''; bad = ExecutionError ''invalid control receipt'' in run_checks [
     raise_if (\<not> is_dict v \<or> \<not> keys_are r RECEIPT_FIELDS \<or> \<not> is_int g \<or> int_of g < 1
         \<or> (\<forall>t \<in> set (items (dget journal ''task_ids'')). \<not> py_eq (dget r ''task_id'') t)) bad,
     raise_if (\<not> hashable (dget r ''kind'')) TypeErr,
     raise_if (\<not> str_in (dget r ''kind'') [''verification'', ''review''] \<or> \<not> py_eq (dget r ''plan_identity'') (dget journal ''plan_identity'')
         \<or> \<not> commit_ok (dget r ''commit'') \<or> \<not> is_str (dget r ''evidence_sha256'')
         \<or> \<not> hex_of_length 64 (str_of (dget r ''evidence_sha256''))) bad,
     validate_evidence (dget r ''kind'') (dget r ''evidence''),
     raise_if (dget r ''evidence_sha256'' \<noteq> JStr (digest w (dget r ''evidence''))) (ExecutionError ''control receipt evidence digest mismatch'')])"

definition receipt_for :: "json \<Rightarrow> json \<Rightarrow> json \<Rightarrow> json \<Rightarrow> bool" where
  "receipt_for generation task_id commit v \<longleftrightarrow> (let r = dict_of v in
     py_eq (dget r ''generation'') generation \<and> py_eq (dget r ''task_id'') task_id \<and> py_eq (dget r ''commit'') commit)"

definition require_receipts :: "dict \<Rightarrow> json \<Rightarrow> json \<Rightarrow> json \<Rightarrow> unit res" where
  "require_receipts journal generation task_id commit =
     (let kinds = map (\<lambda>r. dget (dict_of r) ''kind'') (filter (receipt_for generation task_id commit) (items (dget journal ''receipts'')))
      in raise_if (set kinds \<noteq> {JStr ''verification'', JStr ''review''})
           (ExecutionError ''trusted verification and coordinator review receipts required''))"

definition sole_parent :: "world \<Rightarrow> gitw \<Rightarrow> string \<Rightarrow> store \<Rightarrow> string \<Rightarrow> string \<Rightarrow> unit res" where
  "sole_parent w g eid s previous commit = rbind (git_text w g eid s [''rev-list'', ''--parents'', ''-n'', ''1'', commit]) (\<lambda>out.
     raise_if (words_of out \<noteq> [commit, previous]) (ExecutionError ''checkpoint commit must have previous commit as sole parent''))"

definition ENTRY_FIELDS :: "string list" where
  "ENTRY_FIELDS = [''task_id'', ''commit'', ''generation'', ''previous'', ''digest'']"

definition without_digest :: "dict \<Rightarrow> dict" where
  "without_digest e = filter (\<lambda>kv. fst kv \<noteq> ''digest'') e"

text \<open>The loop over the accepted entries, from the commit before the first of them.\<close>

fun accepted_chain :: "world \<Rightarrow> gitw \<Rightarrow> string \<Rightarrow> store \<Rightarrow> dict \<Rightarrow> json \<Rightarrow> json list \<Rightarrow> json list \<Rightarrow> unit res" where
  "accepted_chain w g eid s journal previous tasks [] = Inr ()"
| "accepted_chain w g eid s journal previous tasks (v # entries) = (let e = dict_of v; commit = dget e ''commit'' in run_checks [
     raise_if (\<not> is_dict v \<or> \<not> keys_are e ENTRY_FIELDS \<or> tasks = [] \<or> \<not> py_eq (dget e ''task_id'') (hd tasks)
         \<or> \<not> py_eq (dget e ''previous'') previous \<or> dget e ''digest'' \<noteq> JStr (digest w (JObj (without_digest e))))
       (ExecutionError ''rewritten checkpoint history''),
     require_receipts journal (dget e ''generation'') (dget e ''task_id'') commit,
     raise_if (py_eq commit previous) (ExecutionError ''checkpoint must advance commit history''),
     sole_parent w g eid s (str_of previous) (str_of commit),
     accepted_chain w g eid s journal commit (tl tasks) entries])"

definition journal_drift :: "world \<Rightarrow> string \<Rightarrow> dict \<Rightarrow> json \<Rightarrow> unit res" where
  "journal_drift w eid reg v = (let j = dict_of v; contract = dict_of (dget reg ''result_contract'') in run_checks [
     raise_if (\<not> is_dict v \<or> \<not> keys_are j JOURNAL_FIELDS \<or> dget j ''version'' \<noteq> JInt 1) (ExecutionError ''unsupported progress schema''),
     raise_if (\<not> py_eq (dget j ''execution_id'') (JStr eid) \<or> \<not> py_eq (dget j ''plan_identity'') (dget reg ''plan_identity'')
         \<or> dget j ''manifest_digest'' \<noteq> JStr (digest w (dget reg ''manifest''))) (ExecutionError ''checkpoint Plan drift''),
     rbind (task_ids reg) (\<lambda>ids. raise_if (\<not> py_eq (dget j ''task_ids'') (JList ids)) (ExecutionError ''checkpoint Plan drift'')),
     raise_if (truthy (dget contract ''base_sha'') \<and> \<not> py_eq (dget j ''base'') (dget contract ''base_sha'')) (ExecutionError ''rewritten checkpoint base''),
     raise_if (\<not> is_list (dget j ''accepted'') \<or> \<not> is_list (dget j ''receipts'') \<or> \<not> commit_ok (dget j ''base''))
       (ExecutionError ''invalid progress history'')])"

definition journal_checks :: "world \<Rightarrow> gitw \<Rightarrow> string \<Rightarrow> store \<Rightarrow> dict \<Rightarrow> json \<Rightarrow> unit res" where
  "journal_checks w g eid s reg v = (let j = dict_of v in run_checks [
     journal_drift w eid reg v,
     for_each (validate_receipt w j) (items (dget j ''receipts'')),
     accepted_chain w g eid s j (dget j ''base'') (items (dget j ''task_ids'')) (items (dget j ''accepted''))])"

text \<open>Reading a file of the execution's directory: what opens the directory raises outside the \<^verbatim>\<open>try\<close>.\<close>

definition read_or :: "world \<Rightarrow> string \<Rightarrow> string \<Rightarrow> (exn \<Rightarrow> bool) \<Rightarrow> exn \<Rightarrow> store \<Rightarrow> json res" where
  "read_or w eid name caught e s = rbind (fst (open_directory w eid False s)) (\<lambda>_.
     case read_json w eid name s of Inl e' \<Rightarrow> Inl (if caught e' then e else e') | Inr v \<Rightarrow> Inr v)"

definition anchor_ok :: "world \<Rightarrow> json \<Rightarrow> json \<Rightarrow> bool" where
  "anchor_ok w journal anchor \<longleftrightarrow> (let a = dict_of anchor in
     is_dict anchor \<and> keys_are a [''version'', ''digest''] \<and> dget a ''version'' = JInt 1 \<and> dget a ''digest'' = JStr (digest w journal))"

definition load_journal :: "world \<Rightarrow> gitw \<Rightarrow> string \<Rightarrow> store \<Rightarrow> dict res" where
  "load_journal w g eid s =
     rbind (read_or w eid PROGRESS is_value_error (ExecutionError ''invalid progress journal'') s) (\<lambda>v.
     rbind (registration w eid s) (\<lambda>reg.
     rbind (journal_checks w g eid s reg v) (\<lambda>_.
     rbind (read_or w eid ANCHOR (\<lambda>e. e = FileNotFound \<or> is_value_error e)
              (ExecutionError ''rewritten or interrupted checkpoint anchor'') s) (\<lambda>anchor.
     rbind (raise_if (\<not> anchor_ok w v anchor) (ExecutionError ''rewritten or interrupted checkpoint history'')) (\<lambda>_.
     Inr (dict_of v))))))"

definition write_journal :: "world \<Rightarrow> gitw \<Rightarrow> string \<Rightarrow> dict \<Rightarrow> (store, unit) op" where
  "write_journal w g eid journal =
     then_op (open_directory w eid False)
     (then_op (lift_res (deadline_left g))
     (then_op (atomic_write w eid PROGRESS (JObj journal))
       (atomic_write w eid ANCHOR (JObj [(''version'', JInt 1), (''digest'', JStr (digest w (JObj journal)))]))))"

definition accepted_count :: "world \<Rightarrow> string \<Rightarrow> store \<Rightarrow> nat res" where
  "accepted_count w eid s = rbind (read_or w eid PROGRESS is_value_error (ExecutionError ''invalid progress journal'') s) (\<lambda>v.
     rbind (run_checks [
       raise_if (\<not> is_dict v \<or> \<not> has_key (dict_of v) ''accepted'') (ExecutionError ''missing accepted field in progress journal''),
       raise_if (\<not> is_list (dget (dict_of v) ''accepted'')) (ExecutionError ''accepted field is not a list'')])
       (\<lambda>_. Inr (length (items (dget (dict_of v) ''accepted'')))))"

section \<open>Git state of the worktree\<close>

definition validate_git_metadata :: "gitw \<Rightarrow> dict \<Rightarrow> unit res" where
  "validate_git_metadata g reg = (let pinned = dget (dict_of (dget reg ''result_contract'')) ''git_metadata'' in
     rbind (raise_if (\<not> is_dict pinned \<or> \<not> keys_are (dict_of pinned) [''worktree_git_dir'', ''common_dir'']) (ExecutionError ''git_metadata_unconfirmed'')) (\<lambda>_.
     rbind (metadata_identity g (str_of (dget reg ''worktree''))) (\<lambda>actual.
     raise_if (\<not> py_eq pinned actual) (ExecutionError ''git_metadata_drift''))))"

definition MERGE_STATE :: "string list" where
  "MERGE_STATE = [''index.lock'', ''HEAD.lock'', ''MERGE_HEAD'', ''CHERRY_PICK_HEAD'', ''REVERT_HEAD'', ''rebase-apply'', ''rebase-merge'', ''sequencer'']"

definition hidden_flag :: "string \<Rightarrow> bool" where
  "hidden_flag entry \<longleftrightarrow> (case entry of [] \<Rightarrow> False | c # _ \<Rightarrow> is_lower c \<or> c = CHR ''S'')"

definition last_commit :: "dict \<Rightarrow> string" where
  "last_commit journal = (let accepted = items (dget journal ''accepted'') in
     str_of (if accepted = [] then dget journal ''base'' else dget (dict_of (last accepted)) ''commit''))"

definition check_git :: "world \<Rightarrow> gitw \<Rightarrow> string \<Rightarrow> store \<Rightarrow> dict \<Rightarrow> (string \<times> string) res" where
  "check_git w g eid s journal = rbind (registration w eid s) (\<lambda>reg. let git = git_text w g eid s; previous = last_commit journal in
     rbind (run_checks [
       if has_key (dict_of (dget reg ''result_contract'')) ''git_metadata'' then validate_git_metadata g reg else Inr (),
       rbind (git [''symbolic-ref'', ''--short'', ''HEAD'']) (\<lambda>b.
         raise_if (JStr b \<noteq> dget reg ''branch'') (ExecutionError ''checkpoint branch drift'')),
       rbind (git [''ls-files'', ''-v'', ''-z'']) (\<lambda>out.
         raise_if (\<exists>e \<in> set (split_on (CHR 0x00) out). hidden_flag e) (ExecutionError ''checkpoint hidden index flags block validation'')),
       for_each (\<lambda>name. rbind (git [''rev-parse'', ''--git-path'', name]) (\<lambda>p.
         raise_if (lexists g (if is_absolute p then p else str_of (dget reg ''worktree'') @ ''/'' @ p))
           (ExecutionError ''checkpoint Git lock or merge state''))) MERGE_STATE]) (\<lambda>_.
     rbind (git [''rev-parse'', ''HEAD'']) (\<lambda>head.
     rbind (git [''merge-base'', ''--is-ancestor'', previous, head]) (\<lambda>_.
     Inr (head, previous)))))"

section \<open>Operations\<close>

definition current_attempt :: "world \<Rightarrow> string \<Rightarrow> int \<Rightarrow> store \<Rightarrow> unit res" where
  "current_attempt w eid generation s = rbind (load w eid s) (\<lambda>r.
     raise_if (attempts_of r = [] \<or> \<not> py_eq (JInt generation) (afield (last (attempts_of r)) ''generation''))
       (ExecutionError ''stale checkpoint attempt''))"

definition staging_directory :: "world \<Rightarrow> gitw \<Rightarrow> string \<Rightarrow> int \<Rightarrow> store \<Rightarrow> string list res" where
  "staging_directory w g eid generation s = rbind (current_attempt w eid generation s) (\<lambda>_.
     rbind (registration w eid s) (\<lambda>reg.
     let authority = path_parts (store_root s);
         directory = butlast authority @ [''agent-submissions'', eid, dec_int generation];
         worktree = path_parts (str_of (dget reg ''worktree''))
     in rbind (raise_if (is_relative_to directory worktree \<or> is_relative_to directory authority)
                (ExecutionError ''checkpoint staging must be outside authority and worktree'')) (\<lambda>_.
        rbind (open_staging g directory) (\<lambda>_. Inr directory))))"

definition reject_lost_progress :: "world \<Rightarrow> string \<Rightarrow> bool \<Rightarrow> store \<Rightarrow> unit res" where
  "reject_lost_progress w eid initializing s = rbind (registration w eid s) (\<lambda>reg.
     rbind (rbind (fst (open_directory w eid False s)) (\<lambda>_. case safe_read w eid ANCHOR s of
         Inl e \<Rightarrow> if e = FileNotFound then Inr () else Inl e
       | Inr _ \<Rightarrow> Inl (ExecutionError ''missing modern progress journal''))) (\<lambda>_.
     if dget (dict_of (dget reg ''result_contract'')) ''progress_version'' = JNull then Inr ()
     else if \<not> initializing then Inl (ExecutionError ''missing modern progress journal'')
     else rbind (load w eid s) (\<lambda>r. raise_if (attempts_of r \<noteq> []) (ExecutionError ''missing modern progress journal''))))"

definition fresh_journal :: "world \<Rightarrow> gitw \<Rightarrow> string \<Rightarrow> store \<Rightarrow> dict res" where
  "fresh_journal w g eid s = rbind (registration w eid s) (\<lambda>reg.
     rbind (task_ids reg) (\<lambda>ids.
     let pinned = dget (dict_of (dget reg ''result_contract'')) ''base_sha'' in
     rbind (if truthy pinned then Inr pinned else rbind (git_text w g eid s [''rev-parse'', ''HEAD'']) (\<lambda>h. Inr (JStr h))) (\<lambda>base.
     Inr [(''version'', JInt 1), (''execution_id'', JStr eid), (''plan_identity'', dget reg ''plan_identity''),
          (''manifest_digest'', JStr (digest w (dget reg ''manifest''))), (''task_ids'', JList ids), (''base'', base),
          (''accepted'', JList []), (''receipts'', JList [])])))"

definition start_journal :: "world \<Rightarrow> gitw \<Rightarrow> string \<Rightarrow> (store, dict) op" where
  "start_journal w g eid =
     then_op (reads (reject_lost_progress w eid True))
     (then_op (reads (\<lambda>s. rbind (load w eid s) (\<lambda>r.
         raise_if (attempts_of r \<noteq> []) (ExecutionError ''legacy progress absent: recovery-only validation required''))))
     (bind_op (reads (fresh_journal w g eid)) (\<lambda>j.
       then_op (reads (\<lambda>s. rbind (check_git w g eid s j) (\<lambda>_. Inr ())))
         (then_op (write_journal w g eid j) (ret j)))))"

definition initialize :: "world \<Rightarrow> gitw \<Rightarrow> string \<Rightarrow> (store, dict) op" where
  "initialize w g eid = locked w eid (catch_op (reads (load_journal w g eid))
     (\<lambda>e. if e = FileNotFound then start_journal w g eid else raise e))"

definition validate_fresh :: "world \<Rightarrow> gitw \<Rightarrow> string \<Rightarrow> (store, string \<times> string) op" where
  "validate_fresh w g eid = locked w eid (reads (\<lambda>s.
     rbind (load_journal w g eid s) (\<lambda>j.
     rbind (check_git w g eid s j) (\<lambda>hp.
     rbind (if items (dget j ''task_ids'') = [] then Inr ()
            else if fst hp \<noteq> snd hp then Inl (ExecutionError ''fresh execution requires clean pinned base'')
            else rbind (git_text w g eid s [''status'', ''--porcelain=v1'', ''-z'']) (\<lambda>st.
              raise_if (st \<noteq> []) (ExecutionError ''fresh execution requires clean pinned base'')))
       (\<lambda>_. Inr hp)))))"

definition make_receipt :: "world \<Rightarrow> dict \<Rightarrow> int \<Rightarrow> json \<Rightarrow> string \<Rightarrow> string \<Rightarrow> json \<Rightarrow> json" where
  "make_receipt w journal generation task_id commit kind evidence = JObj
     [(''generation'', JInt generation), (''task_id'', task_id), (''commit'', JStr commit), (''kind'', JStr kind),
      (''evidence_sha256'', JStr (digest w evidence)), (''evidence'', evidence), (''plan_identity'', dget journal ''plan_identity'')]"

definition receipted :: "dict \<Rightarrow> json \<Rightarrow> dict" where
  "receipted journal r = dput ''receipts'' (JList (items (dget journal ''receipts'') @ [r])) journal"

definition record_receipt :: "world \<Rightarrow> gitw \<Rightarrow> string \<Rightarrow> int \<Rightarrow> json \<Rightarrow> string \<Rightarrow> string \<Rightarrow> json \<Rightarrow> (store, unit) op" where
  "record_receipt w g eid generation task_id commit kind evidence = locked w eid
     (then_op (reads (current_attempt w eid generation))
     (bind_op (reads (load_journal w g eid)) (\<lambda>j.
     bind_op (reads (\<lambda>s. check_git w g eid s j)) (\<lambda>hp.
     let receipt = make_receipt w j generation task_id commit kind evidence in
     then_op (lift_res (validate_receipt w j receipt))
     (then_op (reads (\<lambda>s. rbind (git_text w g eid s [''merge-base'', ''--is-ancestor'', commit, fst hp]) (\<lambda>_. Inr ())))
     (if \<exists>r \<in> set (items (dget j ''receipts'')). py_eq receipt r then ret ()
      else write_journal w g eid (receipted j receipt)))))))"

definition filename_ok :: "string \<Rightarrow> bool" where
  "filename_ok f \<longleftrightarrow> endswith f ''.json'' \<and> class_between (\<lambda>c. alnum c \<or> c \<in> set ''_-'') 1 100 (take (length f - 5) f)"

definition read_submission :: "world \<Rightarrow> gitw \<Rightarrow> string \<Rightarrow> int \<Rightarrow> string \<Rightarrow> store \<Rightarrow> json res" where
  "read_submission w g eid generation filename s =
     rbind (raise_if (\<not> filename_ok filename) (ExecutionError ''invalid checkpoint submission path'')) (\<lambda>_.
     rbind (staging_directory w g eid generation s) (\<lambda>d.
     rbind (staged g d filename) (\<lambda>f. case f of File n v \<Rightarrow>
       if 16384 < n then Inl (ExecutionError ''checkpoint evidence exceeds size limit'')
       else (case v of None \<Rightarrow> Inl (ExecutionError ''invalid checkpoint submission'') | Some x \<Rightarrow> Inr x))))"

definition submission_checks :: "string \<Rightarrow> int \<Rightarrow> dict \<Rightarrow> json \<Rightarrow> unit res" where
  "submission_checks eid generation journal v = (let sub = dict_of v; tasks = items (dget journal ''task_ids'');
       index = length (items (dget journal ''accepted'')) in run_checks [
     raise_if (\<not> is_dict v \<or> \<not> keys_are sub SUBMISSION_FIELDS \<or> dget sub ''version'' \<noteq> JInt 1 \<or> dget sub ''generation'' \<noteq> JInt generation
         \<or> \<not> py_eq (dget sub ''execution_id'') (JStr eid) \<or> \<not> py_eq (dget sub ''plan_identity'') (dget journal ''plan_identity'')
         \<or> \<not> commit_ok (dget sub ''commit'')) (ExecutionError ''invalid checkpoint submission identity or schema''),
     raise_if (length tasks \<le> index \<or> \<not> py_eq (dget sub ''task_id'') (tasks ! index)) (ExecutionError ''checkpoint task order mismatch'')])"

definition make_entry :: "world \<Rightarrow> json \<Rightarrow> string \<Rightarrow> int \<Rightarrow> string \<Rightarrow> json" where
  "make_entry w task_id commit generation previous =
     (let entry = [(''task_id'', task_id), (''commit'', JStr commit), (''generation'', JInt generation), (''previous'', JStr previous)]
      in JObj (entry @ [(''digest'', JStr (digest w (JObj entry)))]))"

definition promoted :: "dict \<Rightarrow> json \<Rightarrow> dict" where
  "promoted journal entry = dput ''accepted'' (JList (items (dget journal ''accepted'') @ [entry])) journal"

definition promote :: "world \<Rightarrow> gitw \<Rightarrow> string \<Rightarrow> int \<Rightarrow> string \<Rightarrow> (store, dict) op" where
  "promote w g eid generation filename = locked w eid
     (then_op (reads (current_attempt w eid generation))
     (bind_op (reads (read_submission w g eid generation filename)) (\<lambda>v.
     bind_op (reads (load_journal w g eid)) (\<lambda>j. let sub = dict_of v; commit = str_of (dget sub ''commit'') in
     then_op (lift_res (submission_checks eid generation j v))
     (bind_op (reads (\<lambda>s. check_git w g eid s j)) (\<lambda>hp.
     then_op (lift_res (raise_if (commit = snd hp) (ExecutionError ''checkpoint must advance commit history'')))
     (then_op (reads (\<lambda>s. sole_parent w g eid s (snd hp) commit))
     (then_op (reads (\<lambda>s. rbind (git_text w g eid s [''merge-base'', ''--is-ancestor'', commit, fst hp]) (\<lambda>_. Inr ())))
     (then_op (lift_res (require_receipts j (JInt generation) (dget sub ''task_id'') (JStr commit)))
     (let new = promoted j (make_entry w (dget sub ''task_id'') commit generation (snd hp)) in
      then_op (write_journal w g eid new) (ret new)))))))))))"

section \<open>The context of a recovery\<close>

fun candidate_chain :: "world \<Rightarrow> gitw \<Rightarrow> string \<Rightarrow> store \<Rightarrow> string \<Rightarrow> string list \<Rightarrow> unit res" where
  "candidate_chain w g eid s parent [] = Inr ()"
| "candidate_chain w g eid s parent (c # cs) = run_checks [sole_parent w g eid s parent c, candidate_chain w g eid s c cs]"

definition recovery_mode :: "json list \<Rightarrow> nat \<Rightarrow> string list \<Rightarrow> string" where
  "recovery_mode tasks count candidates =
     (if tasks = [] \<or> candidates \<noteq> [] then ''recovery_validation''
      else if count = length tasks then ''verification_only'' else ''resume'')"

definition INSTRUCTION :: string where
  "INSTRUCTION = ''Preserve and inspect all staged, unstaged and untracked work. Validate and independently review candidate commits before checkpointing. Never reset, clean, or commit incomplete work.''"

definition context_of :: "world \<Rightarrow> gitw \<Rightarrow> string \<Rightarrow> store \<Rightarrow> dict \<times> bool \<Rightarrow> dict res" where
  "context_of w g eid s jl = (let j = fst jl; accepted = items (dget j ''accepted''); tasks = items (dget j ''task_ids''); count = length accepted in
     rbind (check_git w g eid s j) (\<lambda>hp.
     rbind (git_text w g eid s [''rev-list'', ''--reverse'', snd hp @ ''..'' @ fst hp]) (\<lambda>out.
     rbind (git_text w g eid s [''status'', ''--porcelain=v1'', ''-z'']) (\<lambda>st. let candidates = splitlines out in
     rbind (run_checks [
       raise_if (tasks \<noteq> [] \<and> int (length candidates) > int (length tasks) - int count) (ExecutionError ''unexpected HEAD beyond unfinished task history''),
       candidate_chain w g eid s (snd hp) candidates]) (\<lambda>_.
     rbind (registration w eid s) (\<lambda>reg.
     Inr [(''version'', JInt 1), (''mode'', JStr (recovery_mode tasks count candidates)), (''plan_identity'', dget j ''plan_identity''),
          (''worktree'', dget reg ''worktree''), (''branch'', dget reg ''branch''), (''head'', JStr (fst hp)),
          (''accepted'', JList accepted), (''current_task'', if count < length tasks then tasks ! count else JNull),
          (''candidate_commits'', JList (map JStr candidates)), (''dirty'', JBool (st \<noteq> [])), (''status_sha256'', JStr (sha256 w st)),
          (''subtask_guarantee'', JBool (tasks \<noteq> [])), (''legacy_evidence_absent'', JBool (snd jl)), (''instruction'', JStr INSTRUCTION)]))))))"

definition legacy_journal :: "world \<Rightarrow> gitw \<Rightarrow> string \<Rightarrow> store \<Rightarrow> (dict \<times> bool) res" where
  "legacy_journal w g eid s = rbind (reject_lost_progress w eid False s) (\<lambda>_.
     rbind (git_text w g eid s [''rev-parse'', ''HEAD'']) (\<lambda>head.
     rbind (registration w eid s) (\<lambda>reg.
     Inr ([(''base'', JStr head), (''accepted'', JList []), (''task_ids'', JList []), (''plan_identity'', dget reg ''plan_identity'')], True))))"

definition recovery_context :: "world \<Rightarrow> gitw \<Rightarrow> string \<Rightarrow> int \<Rightarrow> (store, dict) op" where
  "recovery_context w g eid generation = locked w eid (reads (\<lambda>s.
     rbind (current_attempt w eid generation s) (\<lambda>_.
     rbind (case load_journal w g eid s of
         Inr j \<Rightarrow> Inr (j, False)
       | Inl e \<Rightarrow> if e = FileNotFound then legacy_journal w g eid s else Inl e) (\<lambda>jl.
     context_of w g eid s jl))))"

end
