(* ===== verification/ProgressHistory.thy ===== *)
theory ProgressHistory
  imports ProgressJournal
begin

text \<open>
  Library of the progress journal: what a journal that loads looks like, that Git and the record are
  only read, and what each write leaves behind.
\<close>

section \<open>Dependence on the store\<close>

text \<open>Everything that asks Git sees the store only through the record of the execution.\<close>

lemma registration_cong: "load w eid s' = load w eid s \<Longrightarrow> registration w eid s' = registration w eid s"
  by (simp add: registration_def)

lemma git_text_cong: "load w eid s' = load w eid s \<Longrightarrow> git_text w g eid s' = git_text w g eid s"
  by (rule ext) (simp add: git_text_def registration_cong [of w eid s' s])

lemma sole_parent_cong: "load w eid s' = load w eid s \<Longrightarrow> sole_parent w g eid s' = sole_parent w g eid s"
  by (intro ext) (simp add: sole_parent_def git_text_cong [of w eid s' s])

lemma require_receipts_cong: "dget j' ''receipts'' = dget j ''receipts'' \<Longrightarrow> require_receipts j' = require_receipts j"
  by (intro ext) (simp add: require_receipts_def)

lemma accepted_chain_cong:
  assumes "load w eid s' = load w eid s" and "\<And>a b c. require_receipts j a b c = Inr () \<Longrightarrow> require_receipts j' a b c = Inr ()"
  shows "accepted_chain w g eid s j p ts es = Inr () \<Longrightarrow> accepted_chain w g eid s' j' p ts es = Inr ()"
  using assms(2) by (induction es arbitrary: p ts) (auto simp: Let_def sole_parent_cong [OF assms(1)])

lemma validate_receipt_cong:
  "dget j' ''task_ids'' = dget j ''task_ids'' \<Longrightarrow> dget j' ''plan_identity'' = dget j ''plan_identity'' \<Longrightarrow>
     validate_receipt w j' = validate_receipt w j"
  by (intro ext) (simp add: validate_receipt_def)

lemma journal_drift_cong:
  assumes "journal_drift w eid reg (JObj j) = Inr ()" and "keys_are j' JOURNAL_FIELDS"
    and "\<And>k. k \<notin> {''accepted'', ''receipts''} \<Longrightarrow> dget j' k = dget j k"
    and "is_list (dget j' ''accepted'')" and "is_list (dget j' ''receipts'')"
  shows "journal_drift w eid reg (JObj j') = Inr ()"
  using assms by (auto simp: journal_drift_def Let_def)

section \<open>Journals that load\<close>

lemma read_or_returns: "read_or w eid name c e s = Inr v \<longleftrightarrow> read_json w eid name s = Inr v"
proof -
  have "read_json w eid name s = Inr v \<Longrightarrow> fst (open_directory w eid False s) = Inr ()"
    by (auto simp: read_json_returns open_directory_def)
  then show ?thesis
    by (auto simp: read_or_def rbind_eq_Inr split: sum.splits if_splits)
qed

lemma load_journal_returns:
  "load_journal w g eid s = Inr j \<longleftrightarrow> (\<exists>v reg anchor. read_json w eid PROGRESS s = Inr v \<and> registration w eid s = Inr reg
     \<and> journal_checks w g eid s reg v = Inr () \<and> read_json w eid ANCHOR s = Inr anchor \<and> anchor_ok w v anchor \<and> j = dict_of v)"
  by (auto simp: load_journal_def rbind_eq_Inr read_or_returns)

lemma journal_loaded:
  assumes "load_journal w g eid s = Inr j"
  obtains reg where "read_json w eid PROGRESS s = Inr (JObj j)" "registration w eid s = Inr reg"
    "journal_drift w eid reg (JObj j) = Inr ()" "\<forall>r \<in> set (items (dget j ''receipts'')). validate_receipt w j r = Inr ()"
    "accepted_chain w g eid s j (dget j ''base'') (items (dget j ''task_ids'')) (items (dget j ''accepted'')) = Inr ()"
proof -
  from assms obtain v reg where v: "read_json w eid PROGRESS s = Inr v" "registration w eid s = Inr reg"
    "journal_checks w g eid s reg v = Inr ()" "j = dict_of v"
    by (auto simp: load_journal_returns)
  then have "is_dict v" by (simp add: journal_checks_def journal_drift_def Let_def)
  with v(4) have vj: "v = JObj j" by (cases v) simp_all
  from v(3) have "journal_checks w g eid s reg (JObj j) = Inr ()" by (simp only: vj)
  then show ?thesis using that [of reg] v(1,2) by (simp add: journal_checks_def Let_def vj)
qed

text \<open>Conversely, what makes a stored journal load.\<close>

lemma journal_loads:
  assumes "read_json w eid PROGRESS s = Inr (JObj j)" and "registration w eid s = Inr reg"
    and "journal_drift w eid reg (JObj j) = Inr ()" and "\<forall>r \<in> set (items (dget j ''receipts'')). validate_receipt w j r = Inr ()"
    and "accepted_chain w g eid s j (dget j ''base'') (items (dget j ''task_ids'')) (items (dget j ''accepted'')) = Inr ()"
    and "read_json w eid ANCHOR s = Inr (JObj [(''version'', JInt 1), (''digest'', JStr (digest w (JObj j)))])"
  shows "load_journal w g eid s = Inr j"
  using assms by (auto simp: load_journal_returns journal_checks_def Let_def anchor_ok_def keys_are_def dget_Cons)

lemma receipt_commit: "validate_receipt w j r = Inr () \<Longrightarrow> commit_ok (dget (dict_of r) ''commit'')"
  by (simp add: validate_receipt_def Let_def)

lemma receipt_kind: "validate_receipt w j r = Inr () \<Longrightarrow> dget (dict_of r) ''kind'' \<in> {JStr ''verification'', JStr ''review''}"
  by (auto simp: validate_receipt_def Let_def str_in_iff)

lemma required_receipts:
  "require_receipts j g t c = Inr () \<longleftrightarrow>
     (\<lambda>r. dget (dict_of r) ''kind'') ` {r \<in> set (items (dget j ''receipts'')). receipt_for g t c r} = {JStr ''verification'', JStr ''review''}"
  by (simp add: require_receipts_def)

lemma required_receipts_ex:
  assumes "require_receipts j g t c = Inr ()" and "kind \<in> {''verification'', ''review''}"
  shows "\<exists>r \<in> set (items (dget j ''receipts'')). receipt_for g t c r \<and> dget (dict_of r) ''kind'' = JStr kind"
proof -
  have "JStr kind \<in> (\<lambda>r. dget (dict_of r) ''kind'') ` {r \<in> set (items (dget j ''receipts'')). receipt_for g t c r}"
    using assms unfolding required_receipts by blast
  then show ?thesis by auto
qed

lemma required_commit:
  assumes "\<forall>r \<in> set (items (dget j ''receipts'')). validate_receipt w j r = Inr ()" and "require_receipts j g t c = Inr ()"
  shows "commit_ok c"
proof -
  obtain r where r: "r \<in> set (items (dget j ''receipts''))" "receipt_for g t c r"
    using required_receipts_ex [OF assms(2), of "''review''"] by auto
  have "commit_ok (dget (dict_of r) ''commit'')" using assms(1) r(1) receipt_commit by blast
  then obtain x where x: "dget (dict_of r) ''commit'' = JStr x" by (auto simp: commit_ok_def is_str_iff)
  with r(2) have "c = JStr x" by (simp add: receipt_for_def Let_def)
  then show ?thesis using \<open>commit_ok (dget (dict_of r) ''commit'')\<close> x by simp
qed

section \<open>The chain of accepted entries\<close>

definition commit_of :: "json \<Rightarrow> json" where "commit_of e = dget (dict_of e) ''commit''"

definition after_entries :: "json \<Rightarrow> json list \<Rightarrow> json" where
  "after_entries previous entries = (if entries = [] then previous else commit_of (last entries))"

lemma after_entries_simps [simp]:
  "after_entries p [] = p" "after_entries p (es @ [e]) = commit_of e" "after_entries p (e # es) = after_entries (commit_of e) es"
  by (simp_all add: after_entries_def)

lemma accepted_chain_append:
  "accepted_chain w g eid s j p ts (es @ fs) = Inr () \<longleftrightarrow>
     accepted_chain w g eid s j p ts es = Inr () \<and> accepted_chain w g eid s j (after_entries p es) (drop (length es) ts) fs = Inr ()"
proof (induction es arbitrary: p ts)
  case (Cons e es)
  then show ?case by (simp add: Let_def commit_of_def drop_Suc conj_assoc)
qed simp

text \<open>One link of the chain, as a predicate.\<close>

definition linked :: "world \<Rightarrow> gitw \<Rightarrow> string \<Rightarrow> store \<Rightarrow> dict \<Rightarrow> json \<Rightarrow> json \<Rightarrow> json \<Rightarrow> bool" where
  "linked w g eid s j previous task v \<longleftrightarrow> (let e = dict_of v; commit = dget e ''commit'' in
     py_eq (dget e ''task_id'') task \<and> py_eq (dget e ''previous'') previous
     \<and> dget e ''digest'' = JStr (digest w (JObj (without_digest e)))
     \<and> require_receipts j (dget e ''generation'') (dget e ''task_id'') commit = Inr ()
     \<and> \<not> py_eq commit previous \<and> sole_parent w g eid s (str_of previous) (str_of commit) = Inr ())"

lemma accepted_chain_linked:
  "accepted_chain w g eid s j p ts es = Inr () \<Longrightarrow> length es \<le> length ts \<and>
     (\<forall>i < length es. linked w g eid s j (if i = 0 then p else commit_of (es ! (i - 1))) (ts ! i) (es ! i))"
proof (induction es arbitrary: p ts)
  case (Cons e es)
  then obtain t ts' where ts: "ts = t # ts'" by (cases ts) (auto simp: Let_def)
  with Cons.prems have l: "linked w g eid s j p t e" and c: "accepted_chain w g eid s j (commit_of e) ts' es = Inr ()"
    by (auto simp: linked_def Let_def commit_of_def)
  from Cons.IH [OF c] have len: "length es \<le> length ts'"
    and IH: "\<And>i. i < length es \<Longrightarrow> linked w g eid s j (if i = 0 then commit_of e else commit_of (es ! (i - 1))) (ts' ! i) (es ! i)" by auto
  show ?case
  proof (intro conjI allI impI)
    fix i assume i: "i < length (e # es)"
    show "linked w g eid s j (if i = 0 then p else commit_of ((e # es) ! (i - 1))) (ts ! i) ((e # es) ! i)"
    proof (cases i)
      case (Suc k)
      then show ?thesis using IH [of k] i ts by (cases k) auto
    qed (use l ts in simp)
  qed (use len ts in simp)
qed simp

text \<open>The commits of a chain whose receipts are valid are commits.\<close>

lemma chain_commits:
  assumes "\<forall>r \<in> set (items (dget j ''receipts'')). validate_receipt w j r = Inr ()"
  shows "accepted_chain w g eid s j p ts es = Inr () \<Longrightarrow> commit_ok p \<Longrightarrow> commit_ok (after_entries p es)"
  using required_commit [OF assms] by (induction es arbitrary: p ts) (auto simp: Let_def commit_of_def)

section \<open>Writing\<close>

lemma files_distinct: "PROGRESS \<noteq> RECORD" "ANCHOR \<noteq> RECORD" "PROGRESS \<noteq> ANCHOR"
  by (simp_all add: PROGRESS_def ANCHOR_def RECORD_def)

lemma atomic_write_returns:
  "atomic_write w d name v s = (Inr u, s') \<longleftrightarrow> identifier_ok d \<and> dir_errno w d = None \<and> map_of (dirs s) d \<noteq> None \<and>
     finite_json v \<and> file_size v \<le> MAX_RECORD_BYTES \<and> s' = put_file d name (File (file_size v) (Some v)) s"
  by (auto simp: atomic_write_def then_op_returns open_directory_returns split: if_splits)

lemma load_put_file:
  assumes "name \<noteq> RECORD" and "map_of (dirs s) e \<noteq> None"
  shows "load w d (put_file e name f s) = load w d s"
proof (cases f)
  case (File n v)
  then have "read_json w d RECORD (put_file e name f s) = read_json w d RECORD s"
    using read_put_other [of RECORD name w d e n v s] assms by auto
  then show ?thesis by (rule load_cong) (simp add: put_file_def)
qed

definition anchor_for :: "world \<Rightarrow> dict \<Rightarrow> json" where
  "anchor_for w j = JObj [(''version'', JInt 1), (''digest'', JStr (digest w (JObj j)))]"

definition journal_written :: "world \<Rightarrow> string \<Rightarrow> dict \<Rightarrow> store \<Rightarrow> store" where
  "journal_written w d j s = put_file d ANCHOR (File (file_size (anchor_for w j)) (Some (anchor_for w j)))
     (put_file d PROGRESS (File (file_size (JObj j)) (Some (JObj j))) s)"

lemma put_file_dir: "map_of (dirs (put_file e name f s)) d = (if d = e then Some (AList.update name f (the (map_of (dirs s) e))) else map_of (dirs s) d)"
  by (simp add: put_file_def update_conv')

lemma write_journal_returns:
  "write_journal w g d j s = (Inr u, s') \<longleftrightarrow> identifier_ok d \<and> dir_errno w d = None \<and> map_of (dirs s) d \<noteq> None \<and> deadline_left g = Inr ()
     \<and> finite_json (JObj j) \<and> file_size (JObj j) \<le> MAX_RECORD_BYTES \<and> file_size (anchor_for w j) \<le> MAX_RECORD_BYTES \<and> s' = journal_written w d j s"
  by (auto simp: write_journal_def then_op_returns open_directory_returns atomic_write_returns put_file_dir journal_written_def anchor_for_def)

lemma journal_written_load: "map_of (dirs s) d \<noteq> None \<Longrightarrow> load w c (journal_written w d j s) = load w c s"
  by (simp add: journal_written_def load_put_file files_distinct put_file_dir)

lemma journal_written_read:
  assumes "identifier_ok d" "dir_errno w d = None" "map_of (dirs s) d \<noteq> None"
    and "file_size (JObj j) \<le> MAX_RECORD_BYTES" "file_size (anchor_for w j) \<le> MAX_RECORD_BYTES"
  shows "read_json w d PROGRESS (journal_written w d j s) = Inr (JObj j)"
    "read_json w d ANCHOR (journal_written w d j s) = Inr (anchor_for w j)"
  using assms files_distinct by (auto simp: journal_written_def read_json_returns put_file_dir update_conv')

text \<open>What a write makes loadable.\<close>

lemma journal_written_loads:
  assumes wr: "write_journal w g d j s = (Inr u, s')" and reg: "registration w d s = Inr reg"
    and "journal_drift w d reg (JObj j) = Inr ()" and "\<forall>r \<in> set (items (dget j ''receipts'')). validate_receipt w j r = Inr ()"
    and "accepted_chain w g d s j (dget j ''base'') (items (dget j ''task_ids'')) (items (dget j ''accepted'')) = Inr ()"
  shows "load_journal w g d s' = Inr j"
proof (rule journal_loads)
  from wr have s': "s' = journal_written w d j s" and ok: "identifier_ok d" "dir_errno w d = None" "map_of (dirs s) d \<noteq> None"
    "file_size (JObj j) \<le> MAX_RECORD_BYTES" "file_size (anchor_for w j) \<le> MAX_RECORD_BYTES"
    by (simp_all add: write_journal_returns)
  then have l: "load w d s' = load w d s" by (simp add: journal_written_load)
  show "read_json w d PROGRESS s' = Inr (JObj j)" using journal_written_read(1) [OF ok] s' by simp
  show "read_json w d ANCHOR s' = Inr (JObj [(''version'', JInt 1), (''digest'', JStr (digest w (JObj j)))])"
    using journal_written_read(2) [OF ok] s' by (simp add: anchor_for_def)
  show "registration w d s' = Inr reg" using reg registration_cong [OF l] by simp
  show "accepted_chain w g d s' j (dget j ''base'') (items (dget j ''task_ids'')) (items (dget j ''accepted'')) = Inr ()"
    by (rule accepted_chain_cong [OF l _ assms(5)])
qed (use assms in simp_all)

section \<open>Operations as transactions\<close>

lemma load_journal_mono:
  assumes reads: "\<And>name v. read_json w d name s = Inr v \<Longrightarrow> read_json w d name s' = Inr v"
    and loads: "\<And>r. load w d s = Inr r \<Longrightarrow> load w d s' = Inr r" and l: "load_journal w g d s = Inr j"
  shows "load_journal w g d s' = Inr j"
proof -
  from l obtain v reg anchor where v: "read_json w d PROGRESS s = Inr v" "registration w d s = Inr reg"
    "journal_checks w g d s reg v = Inr ()" "read_json w d ANCHOR s = Inr anchor" "anchor_ok w v anchor" "j = dict_of v"
    by (auto simp: load_journal_returns)
  from v(2) obtain r where "load w d s = Inr r" by (auto simp: registration_def rbind_eq_Inr)
  with loads have eq: "load w d s' = load w d s" by simp
  have "journal_checks w g d s' reg v = Inr ()"
    using v(3) accepted_chain_cong [OF eq, of "dict_of v" "dict_of v"] by (simp add: journal_checks_def Let_def)
  with v reads registration_cong [OF eq] show ?thesis by (auto simp: load_journal_returns)
qed

lemma load_journal_extends: "extends s s' \<Longrightarrow> load_journal w g d s' = Inr j \<longleftrightarrow> load_journal w g d s = Inr j"
proof -
  assume e: "extends s s'"
  have "load_journal w g d s' = Inr j" if "load_journal w g d s = Inr j"
    by (rule load_journal_mono [OF _ _ that]) (simp_all add: read_json_extends [OF e] load_extends [OF e])
  moreover have "load_journal w g d s = Inr j" if "load_journal w g d s' = Inr j"
    by (rule load_journal_mono [OF _ _ that]) (simp_all add: read_json_extends [OF e] load_extends [OF e])
  ultimately show ?thesis by blast
qed

lemma check_git_returns:
  "check_git w g d s j = Inr hp \<Longrightarrow> snd hp = last_commit j \<and> git_text w g d s [''rev-parse'', ''HEAD''] = Inr (fst hp)"
  by (auto simp: check_git_def rbind_eq_Inr Let_def)

lemma promote_returns:
  assumes "promote w g d gen f s = (Inr j', s')"
  obtains v j hp s1 s2 where "extends s s1" "load_journal w g d s1 = Inr j" "submission_checks d gen j v = Inr ()"
    "check_git w g d s1 j = Inr hp" "str_of (dget (dict_of v) ''commit'') \<noteq> snd hp"
    "sole_parent w g d s1 (snd hp) (str_of (dget (dict_of v) ''commit'')) = Inr ()"
    "require_receipts j (JInt gen) (dget (dict_of v) ''task_id'') (JStr (str_of (dget (dict_of v) ''commit''))) = Inr ()"
    "j' = promoted j (make_entry w (dget (dict_of v) ''task_id'') (str_of (dget (dict_of v) ''commit'')) gen (snd hp))"
    "write_journal w g d j' s1 = (Inr (), s2)" "dirs s' = dirs s2" "store_root s' = store_root s2"
    "current_attempt w d gen s1 = Inr ()"
proof -
  from assms [unfolded promote_def] obtain s1 s2 where e: "extends s s1" and d: "dirs s' = dirs s2" "store_root s' = store_root s2"
    and b: "then_op (reads (current_attempt w d gen))
     (bind_op (reads (read_submission w g d gen f)) (\<lambda>v.
     bind_op (reads (load_journal w g d)) (\<lambda>j. let sub = dict_of v; commit = str_of (dget sub ''commit'') in
     then_op (lift_res (submission_checks d gen j v))
     (bind_op (reads (\<lambda>s. check_git w g d s j)) (\<lambda>hp.
     then_op (lift_res (raise_if (commit = snd hp) (ExecutionError ''checkpoint must advance commit history'')))
     (then_op (reads (\<lambda>s. sole_parent w g d s (snd hp) commit))
     (then_op (reads (\<lambda>s. rbind (git_text w g d s [''merge-base'', ''--is-ancestor'', commit, fst hp]) (\<lambda>_. Inr ())))
     (then_op (lift_res (require_receipts j (JInt gen) (dget sub ''task_id'') (JStr commit)))
     (let new = promoted j (make_entry w (dget sub ''task_id'') commit gen (snd hp)) in
      then_op (write_journal w g d new) (ret new)))))))))) s1 = (Inr j', s2)"
    by (rule locked_returns)
  from b obtain v j a p where "current_attempt w d gen s1 = Inr ()" "load_journal w g d s1 = Inr j"
    "submission_checks d gen j v = Inr ()" "check_git w g d s1 j = Inr (a, p)" "str_of (dget (dict_of v) ''commit'') \<noteq> p"
    "sole_parent w g d s1 p (str_of (dget (dict_of v) ''commit'')) = Inr ()"
    "require_receipts j (JInt gen) (dget (dict_of v) ''task_id'') (JStr (str_of (dget (dict_of v) ''commit''))) = Inr ()"
    "j' = promoted j (make_entry w (dget (dict_of v) ''task_id'') (str_of (dget (dict_of v) ''commit'')) gen p)"
    "write_journal w g d j' s1 = (Inr (), s2)"
    by (auto simp: then_op_returns bind_op_returns Let_def)
  with e d that [of s1 j v "(a, p)" s2] show ?thesis by simp
qed

lemma record_receipt_returns:
  assumes "record_receipt w g d gen t c k ev s = (Inr u, s')"
  obtains j s1 s2 where "extends s s1" "load_journal w g d s1 = Inr j" "current_attempt w d gen s1 = Inr ()"
    "validate_receipt w j (make_receipt w j gen t c k ev) = Inr ()"
    "if \<exists>r \<in> set (items (dget j ''receipts'')). py_eq (make_receipt w j gen t c k ev) r then s2 = s1
     else write_journal w g d (receipted j (make_receipt w j gen t c k ev)) s1 = (Inr (), s2)"
    "dirs s' = dirs s2" "store_root s' = store_root s2"
proof -
  from assms [unfolded record_receipt_def] obtain s1 s2 where e: "extends s s1" and d: "dirs s' = dirs s2" "store_root s' = store_root s2"
    and b: "then_op (reads (current_attempt w d gen))
     (bind_op (reads (load_journal w g d)) (\<lambda>j.
     bind_op (reads (\<lambda>s. check_git w g d s j)) (\<lambda>hp.
     let receipt = make_receipt w j gen t c k ev in
     then_op (lift_res (validate_receipt w j receipt))
     (then_op (reads (\<lambda>s. rbind (git_text w g d s [''merge-base'', ''--is-ancestor'', c, fst hp]) (\<lambda>_. Inr ())))
     (if \<exists>r \<in> set (items (dget j ''receipts'')). py_eq receipt r then ret ()
      else write_journal w g d (receipted j receipt)))))) s1 = (Inr u, s2)"
    by (rule locked_returns)
  from b obtain j where "load_journal w g d s1 = Inr j" "current_attempt w d gen s1 = Inr ()"
    "validate_receipt w j (make_receipt w j gen t c k ev) = Inr ()"
    "(if \<exists>r \<in> set (items (dget j ''receipts'')). py_eq (make_receipt w j gen t c k ev) r then ret ()
      else write_journal w g d (receipted j (make_receipt w j gen t c k ev))) s1 = (Inr (), s2)"
    by (auto simp: then_op_returns bind_op_returns Let_def simp del: ret_apply split del: if_split)
  with e d that [of s1 j s2] show ?thesis by (simp split: if_splits)
qed

section \<open>Appending to a journal keeps it loadable\<close>

lemma last_commit_after:
  "last_commit j = str_of (after_entries (dget j ''base'') (items (dget j ''accepted'')))"
  by (simp add: last_commit_def after_entries_def commit_of_def Let_def)

lemma promoted_get:
  "k \<noteq> ''accepted'' \<Longrightarrow> dget (promoted j e) k = dget j k"
  "dget (promoted j e) ''accepted'' = JList (items (dget j ''accepted'') @ [e])"
  by (simp_all add: promoted_def)

lemma receipted_get:
  "k \<noteq> ''receipts'' \<Longrightarrow> dget (receipted j r) k = dget j k"
  "dget (receipted j r) ''receipts'' = JList (items (dget j ''receipts'') @ [r])"
  by (simp_all add: receipted_def)

lemma make_entry_get:
  "dget (dict_of (make_entry w t c g p)) ''task_id'' = t" "dget (dict_of (make_entry w t c g p)) ''commit'' = JStr c"
  "dget (dict_of (make_entry w t c g p)) ''generation'' = JInt g" "dget (dict_of (make_entry w t c g p)) ''previous'' = JStr p"
  "dget (dict_of (make_entry w t c g p)) ''digest'' = JStr (digest w (JObj (without_digest (dict_of (make_entry w t c g p)))))"
  "is_dict (make_entry w t c g p)" "keys_are (dict_of (make_entry w t c g p)) ENTRY_FIELDS"
  by (simp_all add: make_entry_def Let_def dget_Cons without_digest_def ENTRY_FIELDS_def keys_are_def)

lemma drift_fields:
  assumes "journal_drift w d reg (JObj j) = Inr ()"
  shows "keys_are j JOURNAL_FIELDS" "is_list (dget j ''accepted'')" "is_list (dget j ''receipts'')" "commit_ok (dget j ''base'')"
    "\<exists>ids. task_ids reg = Inr ids \<and> py_eq (dget j ''task_ids'') (JList ids)"
  using assms by (auto simp: journal_drift_def Let_def rbind_eq_Inr)

lemma promoted_loads:
  assumes l: "load_journal w g d s = Inr j" and t: "py_eq t (items (dget j ''task_ids'') ! length (items (dget j ''accepted'')))"
    and idx: "length (items (dget j ''accepted'')) < length (items (dget j ''task_ids''))"
    and c: "c \<noteq> last_commit j" "sole_parent w g d s (last_commit j) c = Inr ()"
    and r: "require_receipts j (JInt n) t (JStr c) = Inr ()"
    and wr: "write_journal w g d (promoted j (make_entry w t c n (last_commit j))) s = (Inr (), s')"
  shows "load_journal w g d s' = Inr (promoted j (make_entry w t c n (last_commit j)))"
proof -
  let ?e = "make_entry w t c n (last_commit j)" and ?acc = "items (dget j ''accepted'')" and ?ts = "items (dget j ''task_ids'')"
  from l obtain reg where reg: "registration w d s = Inr reg" and drift: "journal_drift w d reg (JObj j) = Inr ()"
    and rec: "\<forall>r \<in> set (items (dget j ''receipts'')). validate_receipt w j r = Inr ()"
    and chain: "accepted_chain w g d s j (dget j ''base'') ?ts ?acc = Inr ()"
    by (rule journal_loaded)
  note shape = drift_fields [OF drift]
  have keys: "keys_are (promoted j ?e) JOURNAL_FIELDS"
    unfolding promoted_def by (rule keys_are_dput [OF shape(1)]) (simp add: JOURNAL_FIELDS_def)
  have drift': "journal_drift w d reg (JObj (promoted j ?e)) = Inr ()"
    by (rule journal_drift_cong [OF drift keys]) (use shape in \<open>simp_all add: promoted_get\<close>)
  have prev: "after_entries (dget j ''base'') ?acc = JStr (last_commit j)"
    using chain_commits [OF rec chain shape(4)] by (auto simp: last_commit_after commit_ok_def is_str_iff)
  obtain t0 ts where ts: "drop (length ?acc) ?ts = t0 # ts" "t0 = ?ts ! length ?acc"
    using idx by (metis Cons_nth_drop_Suc)
  have "accepted_chain w g d s j (JStr (last_commit j)) (drop (length ?acc) ?ts) [?e] = Inr ()"
    using t c r ts by (auto simp: Let_def make_entry_get)
  then have "accepted_chain w g d s j (dget j ''base'') ?ts (?acc @ [?e]) = Inr ()"
    using chain prev by (simp only: accepted_chain_append)
  then have "accepted_chain w g d s (promoted j ?e) (dget j ''base'') ?ts (?acc @ [?e]) = Inr ()"
    using accepted_chain_cong [OF refl, of j "promoted j ?e"] by (simp add: require_receipts_cong [of "promoted j ?e" j] promoted_get)
  then show ?thesis
    using rec by (intro journal_written_loads [OF wr reg drift'])
      (simp_all add: promoted_get validate_receipt_cong [of "promoted j ?e" j])
qed

lemma required_more:
  assumes "require_receipts j a b c = Inr ()" and "dget (dict_of r) ''kind'' \<in> {JStr ''verification'', JStr ''review''}"
  shows "require_receipts (receipted j r) a b c = Inr ()"
  using assms unfolding required_receipts by (auto simp: receipted_get)

lemma receipted_loads:
  assumes l: "load_journal w g d s = Inr j" and r: "validate_receipt w j r = Inr ()"
    and wr: "write_journal w g d (receipted j r) s = (Inr (), s')"
  shows "load_journal w g d s' = Inr (receipted j r)"
proof -
  from l obtain reg where reg: "registration w d s = Inr reg" and drift: "journal_drift w d reg (JObj j) = Inr ()"
    and rec: "\<forall>r \<in> set (items (dget j ''receipts'')). validate_receipt w j r = Inr ()"
    and chain: "accepted_chain w g d s j (dget j ''base'') (items (dget j ''task_ids'')) (items (dget j ''accepted'')) = Inr ()"
    by (rule journal_loaded)
  note shape = drift_fields [OF drift]
  have keys: "keys_are (receipted j r) JOURNAL_FIELDS"
    unfolding receipted_def by (rule keys_are_dput [OF shape(1)]) (simp add: JOURNAL_FIELDS_def)
  have drift': "journal_drift w d reg (JObj (receipted j r)) = Inr ()"
    by (rule journal_drift_cong [OF drift keys]) (use shape in \<open>simp_all add: receipted_get\<close>)
  have "accepted_chain w g d s (receipted j r) (dget j ''base'') (items (dget j ''task_ids'')) (items (dget j ''accepted'')) = Inr ()"
    by (rule accepted_chain_cong [OF refl _ chain]) (rule required_more [OF _ receipt_kind [OF r]])
  then show ?thesis
    using rec r by (intro journal_written_loads [OF wr reg drift'])
      (auto simp add: receipted_get validate_receipt_cong [of "receipted j r" j])
qed

section \<open>Only a missing journal file is reported as missing\<close>

definition found :: "'a res \<Rightarrow> bool" where
  "found r \<longleftrightarrow> r \<noteq> Inl FileNotFound"

named_theorems found_intro "computations that do not raise FileNotFoundError"

lemma found_Inr [found_intro]: "found (Inr x)"
  and found_Inl [found_intro]: "e \<noteq> FileNotFound \<Longrightarrow> found (Inl e)"
  and found_raise_if [found_intro]: "e \<noteq> FileNotFound \<Longrightarrow> found (raise_if b e)"
  by (simp_all add: found_def)

lemma found_run_checks [found_intro]: "list_all found cs \<Longrightarrow> found (run_checks cs)"
  by (auto simp: found_def list_all_iff dest: run_checks_Inl_mem)

lemma found_list [found_intro]: "list_all found []" "found c \<Longrightarrow> list_all found cs \<Longrightarrow> list_all found (c # cs)"
  by simp_all

lemma found_for_each [found_intro]: "(\<And>x. found (f x)) \<Longrightarrow> found (for_each f xs)"
  unfolding for_each_def by (intro found_run_checks) (simp add: list_all_iff)

lemma found_rbind [found_intro]: "found m \<Longrightarrow> (\<And>x. found (f x)) \<Longrightarrow> found (rbind m f)"
  by (cases m) (auto simp: found_def)

lemma found_if [found_intro]: "found a \<Longrightarrow> found b \<Longrightarrow> found (if c then a else b)"
  by simp

lemma found_isfinite [found_intro]: "found (isfinite v)"
  by (auto simp: found_def isfinite_def split: json.splits pyfloat.splits)

lemma found_identity [found_intro]: "found (validate_identity us v)"
  unfolding validate_identity_def Let_def by (intro found_intro) simp_all

lemma found_cgroups: "found (case for_each f xs of Inl _ \<Rightarrow> Inl (ExecutionError m) | Inr u \<Rightarrow> Inr u)"
  by (simp add: found_def split: sum.splits)

lemma found_timestamp: "found (if v = JNull then Inr () else if b then Inl (ExecutionError m) else
    rbind (isfinite v) (\<lambda>fin. raise_if (p fin) (ExecutionError m)))"
  by (intro found_intro) simp_all

lemma found_attempt [found_intro]: "found (validate_attempt ver g v)"
  unfolding validate_attempt_def attempt_checks_def Let_def
  by (intro found_intro found_cgroups found_timestamp) simp_all

lemma found_attempts [found_intro]: "found (validate_attempts ver g as)"
proof (induction as arbitrary: g)
  case (Cons a as)
  have "found (validate_attempt ver g a)" by (rule found_attempt)
  with Cons.IH [of "Suc g"] show ?case by (auto simp: found_def split: sum.splits)
qed (simp add: found_def)

lemma found_validate [found_intro]: "found (validate w v)"
proof -
  have "found (case dget r ''prompt_base64'' of
        JStr s \<Rightarrow> (case b64decode s of
            None \<Rightarrow> Inl (ExecutionError ''invalid pinned prompt'')
          | Some p \<Rightarrow> raise_if (dget r ''prompt_sha256'' \<noteq> JStr (sha256 w p)) (ExecutionError ''pinned prompt digest mismatch''))
      | _ \<Rightarrow> Inl (ExecutionError ''invalid pinned prompt''))" for r
    by (auto simp: found_def split: json.splits option.splits)
  then have "found (validate_registration w r)" for r
    unfolding validate_registration_def Let_def by (intro found_intro) simp_all
  then show ?thesis
    unfolding validate_def Let_def check_identifier_def validate_approval_def by (intro found_intro) simp_all
qed

lemma found_load [found_intro]: "found (load w d s)"
proof -
  have "found (accept_record w s d v)" for v
    unfolding accept_record_def outside_worktree_def Let_def by (intro found_intro) simp_all
  then show ?thesis
    by (auto simp: load_def found_def split: sum.splits)
qed

lemma found_git_text [found_intro]: "found (git_text w g d s args)"
  unfolding git_text_def registration_def
  by (intro found_intro) (auto simp: found_def split: sum.splits)

lemma found_chain [found_intro]: "found (accepted_chain w g d s j p ts es)"
proof (induction es arbitrary: p ts)
  case (Cons e es)
  then show ?case
    unfolding accepted_chain.simps Let_def require_receipts_def sole_parent_def by (intro found_intro) simp_all
qed (simp add: found_def)

lemma found_checks [found_intro]: "found (journal_checks w g d s reg v)"
  unfolding journal_checks_def journal_drift_def validate_receipt_def validate_evidence_def task_ids_def Let_def
  by (intro found_intro) simp_all

lemma load_journal_present:
  assumes "read_json w d PROGRESS s = Inr v" and a: "read_json w d ANCHOR s = Inr a"
  shows "found (load_journal w g d s)"
proof -
  have "read_or w d PROGRESS c e s = Inr v" "read_or w d ANCHOR c' e' s = Inr a" for c e c' e'
    using assms by (simp_all add: read_or_returns)
  then show ?thesis
    unfolding load_journal_def registration_def by (simp, intro found_intro) simp_all
qed

end
