(* ===== verification/ProgressExample.thy ===== *)
theory ProgressExample
  imports ProgressHistory ExecutionExample
begin

text \<open>
  A concrete journal, its receipts and a repository with one commit, on which the witnesses of the
  progress journal's properties discharge their hypotheses.
\<close>

definition c0 :: string where "c0 = replicate 40 (CHR ''0'')"
definition c1 :: string where "c1 = replicate 40 (CHR ''1'')"

definition pj_manifest :: json where
  "pj_manifest = JObj [(''tasks'', JList [JObj [(''id'', JStr ''t1'')]])]"

definition pj_registration :: dict where
  "pj_registration = dput ''manifest'' pj_manifest ex_registration"

definition pj_record :: dict where
  "pj_record = dput ''registration'' (JObj pj_registration) ex_record1"

definition pj_submission :: dict where
  "pj_submission = [(''version'', JInt 1), (''execution_id'', JStr ''run-1''), (''generation'', JInt 1),
     (''plan_identity'', JStr (replicate 64 (CHR ''0''))), (''task_id'', JStr ''t1''), (''commit'', JStr c1)]"

definition pj_out :: "string list \<Rightarrow> string" where
  "pj_out args = (if args = [''symbolic-ref'', ''--short'', ''HEAD''] then ''main''
     else if args = [''rev-parse'', ''HEAD''] then c1
     else if take 4 args = [''rev-list'', ''--parents'', ''-n'', ''1''] then c1 @ '' '' @ c0 else [])"

definition pj_git :: gitw where
  "pj_git = \<lparr>run_git = (\<lambda>wt args. Inr (pj_out args)), lexists = (\<lambda>_. False), symlink = (\<lambda>_. False), file_bytes = (\<lambda>_. Inr []),
     metadata_identity = (\<lambda>_. Inr JNull),
     deadline_left = Inr (), open_staging = (\<lambda>_. Inr ()), staged = (\<lambda>_ _. Inr (File 250 (Some (JObj pj_submission))))\<rparr>"

definition pj_evidence :: json where
  "pj_evidence = JObj [(''checks'', JList [JObj [(''argv'', JList [JStr ''pytest'']), (''exit_code'', JInt 0)]])]"

definition pj_review :: json where
  "pj_review = JObj [(''reviewer'', JStr ''alice''), (''receipt_id'', JStr ''r1''), (''outcome'', JStr ''accepted'')]"

definition pj_journal0 :: dict where
  "pj_journal0 = [(''version'', JInt 1), (''execution_id'', JStr ''run-1''), (''plan_identity'', JStr (replicate 64 (CHR ''0''))),
     (''manifest_digest'', JStr (replicate 64 (CHR ''a''))), (''task_ids'', JList [JStr ''t1'']), (''base'', JStr c0),
     (''accepted'', JList []), (''receipts'', JList [])]"

definition pj_receipt :: json where
  "pj_receipt = make_receipt ex_world pj_journal0 1 (JStr ''t1'') c1 ''verification'' pj_evidence"

definition pj_receipt2 :: json where
  "pj_receipt2 = make_receipt ex_world pj_journal0 1 (JStr ''t1'') c1 ''review'' pj_review"

definition pj_journal1 :: dict where "pj_journal1 = receipted pj_journal0 pj_receipt"
definition pj_journal2 :: dict where "pj_journal2 = receipted pj_journal1 pj_receipt2"
definition pj_entry :: json where "pj_entry = make_entry ex_world (JStr ''t1'') c1 1 c0"
definition pj_journal3 :: dict where "pj_journal3 = promoted pj_journal2 pj_entry"

definition pj_store :: "dict \<Rightarrow> store" where
  "pj_store j = \<lparr>store_root = ''/state'', dirs = [(''run-1'', [(RECORD, File 900 (Some (JObj pj_record))),
     (PROGRESS, File (file_size (JObj j)) (Some (JObj j))), (ANCHOR, File (file_size (anchor_for ex_world j)) (Some (anchor_for ex_world j)))])], held = []\<rparr>"

lemma pj_registration_valid: "validate_registration ex_world (JObj pj_registration) = Inr ()"
  by code_simp

lemma pj_valid: "validate ex_world (JObj pj_record) = Inr ()"
proof -
  have "keys_are pj_record RECORD_FIELDS"
    using ex_valid1 unfolding pj_record_def by (auto simp: validate_iff RECORD_FIELDS_def intro!: keys_are_dput)
  moreover have "attempts_of pj_record = attempts_of ex_record1" by (simp add: pj_record_def attempts_of_def)
  ultimately show ?thesis
    using ex_valid1 pj_registration_valid by (simp add: validate_iff pj_record_def)
qed

lemma pj_fields:
  "dget pj_record ''version'' = JInt SCHEMA_VERSION" "dget pj_record ''execution_id'' = JStr ''run-1''"
  "registration_of pj_record = pj_registration" "worktree_of pj_record = ''/work/tree''" "attempts_of pj_record = attempts_of ex_record1"
proof -
  have "str_of (dget pj_registration ''worktree'') = ''/work/tree''" by code_simp
  then show "dget pj_record ''version'' = JInt SCHEMA_VERSION" "dget pj_record ''execution_id'' = JStr ''run-1''"
    "registration_of pj_record = pj_registration" "worktree_of pj_record = ''/work/tree''" "attempts_of pj_record = attempts_of ex_record1"
    using ex_rec [of ex_record1] by (simp_all add: pj_record_def registration_of_def worktree_of_def attempts_of_def)
qed

lemma pj_load:
  assumes "store_root s = ''/state''" and "map_of (dirs s) ''run-1'' = Some fs" and "map_of fs RECORD = Some (File 900 (Some (JObj pj_record)))"
  shows "load ex_world ''run-1'' s = Inr pj_record"
proof -
  have "read_json ex_world ''run-1'' RECORD s = Inr (JObj pj_record)"
    using assms ex_ids by (simp add: read_json_returns MAX_RECORD_BYTES_def)
  then show ?thesis
    using assms pj_valid pj_fields by (auto simp: load_returns accept_record_returns upgrade_current ex_outside)
qed

lemma pj_loads: "load ex_world ''run-1'' (pj_store j) = Inr pj_record"
  by (rule pj_load, simp add: pj_store_def, simp add: pj_store_def, simp)

lemma pj_sizes:
  "file_size (JObj pj_journal0) = 300" "file_size (JObj pj_journal1) = 631"
  "file_size (JObj pj_journal2) = 970" "file_size (JObj pj_journal3) = 1183"
  by code_simp+

lemma pj_finite: "finite_json (JObj pj_journal1)" "finite_json (JObj pj_journal2)" "finite_json (JObj pj_journal3)"
  by code_simp+

lemma pj_anchor_size: "file_size (anchor_for ex_world j) = 89"
proof -
  have "digest ex_world v = replicate 64 (CHR ''a'')" for v by (simp add: digest_def ex_world_def)
  then have "anchor_for ex_world j = JObj [(''version'', JInt 1), (''digest'', JStr (replicate 64 (CHR ''a'')))]"
    by (simp add: anchor_for_def)
  moreover have "file_size (JObj [(''version'', JInt 1), (''digest'', JStr (replicate 64 (CHR ''a'')))]) = 89"
    by code_simp
  ultimately show ?thesis by simp
qed

lemma pj_reads:
  assumes "file_size (JObj j) \<le> MAX_RECORD_BYTES"
  shows "read_json ex_world ''run-1'' PROGRESS (pj_store j) = Inr (JObj j)"
    "read_json ex_world ''run-1'' ANCHOR (pj_store j) = Inr (JObj [(''version'', JInt 1), (''digest'', JStr (digest ex_world (JObj j)))])"
    "registration ex_world ''run-1'' (pj_store j) = Inr pj_registration"
  using assms ex_ids files_distinct pj_anchor_size [of j]
  by (auto simp add: read_json_returns pj_store_def anchor_for_def MAX_RECORD_BYTES_def registration_def pj_loads pj_fields pj_load)

lemma pj_drift: "journal_drift ex_world ''run-1'' pj_registration (JObj pj_journal0) = Inr ()"
  by code_simp

lemma pj_load_journal0: "load_journal ex_world pj_git ''run-1'' (pj_store pj_journal0) = Inr pj_journal0"
  by (rule journal_loads [OF pj_reads(1) pj_reads(3) pj_drift _ _ pj_reads(2)])
    (simp_all add: pj_sizes MAX_RECORD_BYTES_def, simp_all add: pj_journal0_def dget_Cons)

text \<open>The store with an execution locked, and a write to it.\<close>

definition pj_locked :: "dict \<Rightarrow> store" where "pj_locked j = (pj_store j)\<lparr>held := [''run-1'']\<rparr>"

lemma pj_extends: "extends (pj_store j) (pj_locked j)"
  by (simp add: pj_locked_def)

lemma pj_lock:
  "locked ex_world ''run-1'' body (pj_store j) = (let (r, s2) = body (pj_locked j) in (r, s2\<lparr>held := remove1 ''run-1'' (held s2)\<rparr>))"
  using ex_ids by (simp add: locked_def open_directory_def pj_store_def pj_locked_def)

lemma pj_load_locked: "load ex_world ''run-1'' (pj_locked j) = Inr pj_record"
  using pj_loads [of j] load_extends [OF pj_extends [of j]] by simp

lemma pj_locked_facts:
  "registration ex_world ''run-1'' (pj_locked j) = Inr pj_registration"
  "load_journal ex_world pj_git ''run-1'' (pj_locked j) = Inr j' \<longleftrightarrow> load_journal ex_world pj_git ''run-1'' (pj_store j) = Inr j'"
  using load_journal_extends [OF pj_extends [of j]] by (simp_all add: registration_def pj_load_locked pj_fields)

lemma pj_git_text: "git_text ex_world pj_git ''run-1'' (pj_locked j) args = Inr (strip (pj_out args))"
  by (simp add: git_text_def pj_locked_facts pj_git_def)

lemma pj_attempt: "current_attempt ex_world ''run-1'' 1 (pj_locked j) = Inr ()"
  using ex_attempt2(3) by (simp add: current_attempt_def pj_load_locked pj_fields ex_attempts)

lemma pj_strips:
  "strip (pj_out [''symbolic-ref'', ''--short'', ''HEAD'']) = ''main''" "strip (pj_out [''ls-files'', ''-v'', ''-z'']) = []"
  "strip (pj_out [''rev-parse'', ''--git-path'', name]) = []" "strip (pj_out [''rev-parse'', ''HEAD'']) = c1"
  "strip (pj_out [''merge-base'', ''--is-ancestor'', a, b]) = []" "words_of (strip (pj_out [''rev-list'', ''--parents'', ''-n'', ''1'', c])) = [c1, c0]"
proof -
  show "strip (pj_out [''symbolic-ref'', ''--short'', ''HEAD'']) = ''main''" "strip (pj_out [''ls-files'', ''-v'', ''-z'']) = []"
    "strip (pj_out [''rev-parse'', ''HEAD'']) = c1"
    by code_simp+
  have "strip [] = []" by code_simp
  then show "strip (pj_out [''rev-parse'', ''--git-path'', name]) = []" "strip (pj_out [''merge-base'', ''--is-ancestor'', a, b]) = []"
    by (simp_all add: pj_out_def)
  have "words_of (strip (c1 @ '' '' @ c0)) = [c1, c0]" by code_simp
  then show "words_of (strip (pj_out [''rev-list'', ''--parents'', ''-n'', ''1'', c])) = [c1, c0]"
    by (simp add: pj_out_def)
qed

lemma pj_contract: "dget pj_registration ''result_contract'' = JObj []" "dget pj_registration ''branch'' = JStr ''main''"
  "str_of (dget pj_registration ''worktree'') = ''/work/tree''"
  by code_simp+

lemma pj_check_git: "check_git ex_world pj_git ''run-1'' (pj_locked j) j' = Inr (c1, last_commit j')"
proof -
  have "lexists pj_git p = False" for p by (simp add: pj_git_def)
  then show ?thesis
    by (simp add: check_git_def pj_locked_facts pj_git_text pj_strips pj_contract has_key_def Let_def raise_if_def hidden_flag_def)
qed

lemma pj_write:
  assumes "finite_json (JObj j')" and "file_size (JObj j') \<le> MAX_RECORD_BYTES"
  shows "write_journal ex_world pj_git ''run-1'' j' (pj_locked j) = (Inr (), pj_locked j')"
proof -
  have "journal_written ex_world ''run-1'' j' (pj_locked j) = pj_locked j'"
    using files_distinct by (auto simp: journal_written_def put_file_def pj_locked_def pj_store_def)
  then show ?thesis
    using assms ex_ids pj_anchor_size [of j'] by (simp add: write_journal_returns MAX_RECORD_BYTES_def pj_git_def)
      (simp add: pj_locked_def pj_store_def)
qed

lemma pj_valid_receipts:
  "validate_receipt ex_world pj_journal0 pj_receipt = Inr ()" "validate_receipt ex_world pj_journal1 pj_receipt2 = Inr ()"
  by code_simp+

lemma pj_same_receipts:
  "make_receipt ex_world pj_journal1 1 (JStr ''t1'') c1 ''review'' pj_review = pj_receipt2"
  "\<not> py_eq pj_receipt2 pj_receipt" "last_commit pj_journal0 = c0" "last_commit pj_journal1 = c0" "last_commit pj_journal2 = c0"
  by code_simp+

lemma pj_load_journal1: "load_journal ex_world pj_git ''run-1'' (pj_store pj_journal1) = Inr pj_journal1"
proof -
  have "load_journal ex_world pj_git ''run-1'' (pj_locked pj_journal0) = Inr pj_journal0"
    by (simp add: pj_locked_facts pj_load_journal0)
  from receipted_loads [OF this pj_valid_receipts(1)] pj_write [OF pj_finite(1)]
  show ?thesis by (simp add: pj_sizes MAX_RECORD_BYTES_def pj_locked_facts flip: pj_journal1_def del: finite_json.simps)
qed

lemma pj_load_journal2: "load_journal ex_world pj_git ''run-1'' (pj_store pj_journal2) = Inr pj_journal2"
proof -
  have "load_journal ex_world pj_git ''run-1'' (pj_locked pj_journal1) = Inr pj_journal1"
    by (simp add: pj_locked_facts pj_load_journal1)
  from receipted_loads [OF this pj_valid_receipts(2)] pj_write [OF pj_finite(2)]
  show ?thesis by (simp add: pj_sizes MAX_RECORD_BYTES_def pj_locked_facts flip: pj_journal2_def del: finite_json.simps)
qed

text \<open>One receipt recorded, and the commit promoted.\<close>

lemma pj_unlock: "(pj_locked j)\<lparr>held := remove1 ''run-1'' (held (pj_locked j))\<rparr> = pj_store j"
  by (simp add: pj_locked_def pj_store_def)

lemma pj_record_receipt:
  "record_receipt ex_world pj_git ''run-1'' 1 (JStr ''t1'') c1 ''review'' pj_review (pj_store pj_journal1) = (Inr (), pj_store pj_journal2)"
proof -
  have w: "write_journal ex_world pj_git ''run-1'' pj_journal2 (pj_locked pj_journal1) = (Inr (), pj_locked pj_journal2)"
    by (rule pj_write [OF pj_finite(2)]) (simp add: pj_sizes MAX_RECORD_BYTES_def)
  have l: "load_journal ex_world pj_git ''run-1'' (pj_locked pj_journal1) = Inr pj_journal1"
    by (simp add: pj_locked_facts pj_load_journal1)
  have r: "items (dget pj_journal1 ''receipts'') = [pj_receipt]" by (simp add: pj_journal1_def receipted_get pj_journal0_def dget_Cons)
  show ?thesis
    using pj_valid_receipts(2) pj_same_receipts(2)
    by (simp add: record_receipt_def pj_lock then_op_def bind_op_def pj_attempt l r pj_check_git Let_def pj_same_receipts(1)
        pj_git_text w pj_unlock flip: pj_journal2_def)
qed

lemma pj_submission_facts:
  "submission_checks ''run-1'' 1 pj_journal2 (JObj pj_submission) = Inr ()" "str_of (dget pj_submission ''commit'') = c1"
  "dget pj_submission ''task_id'' = JStr ''t1''" "require_receipts pj_journal2 (JInt 1) (JStr ''t1'') (JStr c1) = Inr ()" "c1 \<noteq> c0"
  by code_simp+

lemma pj_staging: "read_submission ex_world pj_git ''run-1'' 1 ''t1.json'' (pj_locked j) = Inr (JObj pj_submission)"
proof -
  have "filename_ok ''t1.json''" by code_simp
  moreover have "\<not> is_relative_to (butlast (path_parts ''/state'') @ [''agent-submissions'', ''run-1'', dec_int 1]) (path_parts ''/work/tree'')"
    "\<not> is_relative_to (butlast (path_parts ''/state'') @ [''agent-submissions'', ''run-1'', dec_int 1]) (path_parts ''/state'')"
    by code_simp+
  moreover have "store_root (pj_locked j) = ''/state''" by (simp add: pj_locked_def pj_store_def)
  ultimately show ?thesis
    by (simp add: read_submission_def staging_directory_def pj_attempt pj_locked_facts pj_contract raise_if_def Let_def)
      (simp add: pj_git_def)
qed

lemma pj_promote:
  "promote ex_world pj_git ''run-1'' 1 ''t1.json'' (pj_store pj_journal2) = (Inr pj_journal3, pj_store pj_journal3)"
proof -
  have w: "write_journal ex_world pj_git ''run-1'' pj_journal3 (pj_locked pj_journal2) = (Inr (), pj_locked pj_journal3)"
    by (rule pj_write [OF pj_finite(3)]) (simp add: pj_sizes MAX_RECORD_BYTES_def)
  have l: "load_journal ex_world pj_git ''run-1'' (pj_locked pj_journal2) = Inr pj_journal2"
    by (simp add: pj_locked_facts pj_load_journal2)
  have e: "promoted pj_journal2 (make_entry ex_world (JStr ''t1'') c1 1 c0) = pj_journal3"
    by (simp add: pj_journal3_def pj_entry_def)
  show ?thesis
    using pj_submission_facts
    by (simp add: promote_def pj_lock then_op_def bind_op_def pj_attempt l pj_staging pj_check_git Let_def pj_same_receipts
        sole_parent_def pj_git_text pj_strips raise_if_def e w pj_unlock)
qed

lemma pj_load_journal3: "load_journal ex_world pj_git ''run-1'' (pj_store pj_journal3) = Inr pj_journal3"
proof -
  have w: "write_journal ex_world pj_git ''run-1'' (promoted pj_journal2 (make_entry ex_world (JStr ''t1'') c1 1 (last_commit pj_journal2))) (pj_locked pj_journal2)
      = (Inr (), pj_locked pj_journal3)"
    using pj_write [OF pj_finite(3)] pj_same_receipts
    by (simp add: pj_sizes MAX_RECORD_BYTES_def flip: pj_journal3_def pj_entry_def del: finite_json.simps)
  have l: "load_journal ex_world pj_git ''run-1'' (pj_locked pj_journal2) = Inr pj_journal2"
    by (simp add: pj_locked_facts pj_load_journal2)
  have j: "items (dget pj_journal2 ''task_ids'') = [JStr ''t1'']" "items (dget pj_journal2 ''accepted'') = []"
    by (simp_all add: pj_journal2_def pj_journal1_def receipted_get pj_journal0_def dget_Cons)
  have "load_journal ex_world pj_git ''run-1'' (pj_locked pj_journal3) =
      Inr (promoted pj_journal2 (make_entry ex_world (JStr ''t1'') c1 1 (last_commit pj_journal2)))"
    by (rule promoted_loads [OF l _ _ _ _ _ w])
      (use pj_submission_facts pj_same_receipts in \<open>simp_all add: j sole_parent_def pj_git_text pj_strips raise_if_def\<close>)
  then show ?thesis
    by (simp add: pj_locked_facts pj_same_receipts flip: pj_entry_def pj_journal3_def)
qed

lemma pj_recovery_context:
  "\<exists>ctx s'. recovery_context ex_world pj_git ''run-1'' 1 (pj_store pj_journal3) = (Inr ctx, s') \<and> dget ctx ''mode'' = JStr ''verification_only''"
proof -
  have l: "load_journal ex_world pj_git ''run-1'' (pj_locked pj_journal3) = Inr pj_journal3"
    by (simp add: pj_locked_facts pj_load_journal3)
  have j: "items (dget pj_journal3 ''accepted'') = [pj_entry]" "items (dget pj_journal3 ''task_ids'') = [JStr ''t1'']"
    by (simp_all add: pj_journal3_def pj_journal2_def pj_journal1_def promoted_get receipted_get pj_journal0_def dget_Cons)
  have out: "pj_out [''rev-list'', ''--reverse'', x] = []" "pj_out [''status'', ''--porcelain=v1'', ''-z''] = []" "strip [] = []" for x
    by (simp_all add: pj_out_def strip_def rstrip_while_def)
  show ?thesis
    by (simp add: recovery_context_def pj_lock pj_attempt l context_of_def pj_check_git pj_git_text out j pj_locked_facts Let_def raise_if_def
        recovery_mode_def dget_Cons)
qed

end
