(* ===== verification/ProgressSafety.thy ===== *)
theory ProgressSafety
  imports ProgressExample
begin

text \<open>
  The properties of the progress journal: what a journal that loads certifies, that promotion and
  receipts keep it loadable, that an interrupted write blocks, and how a recovery is described.
\<close>

section \<open>Library\<close>

lemma write_journal_frame:
  assumes "write_journal w g d j s1 = (Inr (), s2)" and "extends s s1" and "dirs s' = dirs s2" and "store_root s' = store_root s2"
  shows "load w c s' = Inr x \<longleftrightarrow> load w c s = Inr x"
proof -
  have "load w c s' = Inr x \<longleftrightarrow> load w c s2 = Inr x"
    by (rule load_extends [OF extends_same [OF assms(3,4)]])
  also have "\<dots> \<longleftrightarrow> load w c s1 = Inr x"
    using assms(1) by (auto simp: write_journal_returns journal_written_load)
  finally show ?thesis using load_extends [OF assms(2)] by simp
qed

text \<open>What the drift checks of a journal that loads say of the registration it belongs to.\<close>

definition manifest_tasks_of :: "dict \<Rightarrow> json list" where
  "manifest_tasks_of reg = items (dget (dict_of (dget reg ''manifest'')) ''tasks'')"

lemma loaded_journal_registration:
  assumes "load_journal w g d s = Inr j"
  obtains reg where "registration w d s = Inr reg" "dget j ''manifest_digest'' = JStr (digest w (dget reg ''manifest''))"
    "py_eq (dget j ''plan_identity'') (dget reg ''plan_identity'')"
    "dget reg ''manifest'' \<noteq> JNull \<longrightarrow> dget j ''task_ids'' = JList (map (\<lambda>t. dget (dict_of t) ''id'') (manifest_tasks_of reg)) \<and> (\<forall>t \<in> set (manifest_tasks_of reg). is_str (dget (dict_of t) ''id''))"
    "dget reg ''manifest'' = JNull \<longrightarrow> items (dget j ''task_ids'') = []"
    "truthy (dget (dict_of (dget reg ''result_contract'')) ''base_sha'') \<longrightarrow> py_eq (dget j ''base'') (dget (dict_of (dget reg ''result_contract'')) ''base_sha'')"
proof -
  obtain reg where reg: "registration w d s = Inr reg" and c: "journal_drift w d reg (JObj j) = Inr ()" using assms by (rule journal_loaded)
  have strs: "py_eq v (JList xs) \<Longrightarrow> \<forall>x \<in> set xs. is_str x \<Longrightarrow> v = JList xs" for v xs
  proof (cases v)
    case (JList ys)
    assume "py_eq v (JList xs)" "\<forall>x \<in> set xs. is_str x"
    then have "py_eq_list ys xs" "\<forall>x \<in> set xs. is_str x" using JList by simp_all
    then have "ys = xs" by (induction ys arbitrary: xs) (auto split: list.splits json.splits elim: is_str.elims)
    then show ?thesis using JList by simp
  qed auto
  obtain ids where ids: "task_ids reg = Inr ids" "py_eq (dget j ''task_ids'') (JList ids)"
    using c by (auto simp: journal_drift_def Let_def rbind_eq_Inr)
  have n: "dget reg ''manifest'' \<noteq> JNull \<longrightarrow> ids = map (\<lambda>t. dget (dict_of t) ''id'') (manifest_tasks_of reg) \<and> (\<forall>t \<in> set (manifest_tasks_of reg). is_str (dget (dict_of t) ''id''))"
    using ids(1) by (auto simp: task_ids_def Let_def rbind_eq_Inr manifest_tasks_of_def task_id_ok_def)
  have "dget reg ''manifest'' = JNull \<longrightarrow> ids = []" using ids(1) by (auto simp: task_ids_def Let_def)
  then have "dget reg ''manifest'' = JNull \<longrightarrow> items (dget j ''task_ids'') = []" using strs [OF ids(2)] by auto
  then show thesis using that [of reg] reg c n strs [OF ids(2)] by (auto simp: journal_drift_def Let_def)
qed

text \<open>
  C9: what a journal that loads certifies.  It belongs to the registration of its execution, whose manifest it names by
  its digest: the accepted entries are, in order, the first tasks of that pinned manifest, on the pinned base
  where the registration has one; each entry continues the commit before it, which Git reports as the sole
  parent, and never repeats it; and each is backed by a verification and a review receipt for the same
  generation, task and commit, whose evidence passed validation and matches its recorded digest.
\<close>

theorem loaded_journal_is_certified:
  assumes l: "load_journal w g d s = Inr j" and i: "i < length (items (dget j ''accepted''))"
  defines "e \<equiv> dict_of (items (dget j ''accepted'') ! i)"
    and "previous \<equiv> (if i = 0 then dget j ''base'' else commit_of (items (dget j ''accepted'') ! (i - 1)))"
  shows "(\<exists>r. load w d s = Inr r
      \<and> dget j ''manifest_digest'' = JStr (digest w (dget (registration_of r) ''manifest''))
      \<and> length (items (dget j ''accepted'')) \<le> length (manifest_tasks_of (registration_of r))
      \<and> dget e ''task_id'' = dget (dict_of (manifest_tasks_of (registration_of r) ! i)) ''id''
      \<and> (truthy (dget (dict_of (dget (registration_of r) ''result_contract'')) ''base_sha'') \<longrightarrow>
           py_eq (dget j ''base'') (dget (dict_of (dget (registration_of r) ''result_contract'')) ''base_sha'')))
    \<and> py_eq (dget e ''previous'') previous
    \<and> \<not> py_eq (dget e ''commit'') previous \<and> sole_parent w g d s (str_of previous) (str_of (dget e ''commit'')) = Inr ()
    \<and> (\<forall>kind \<in> {''verification'', ''review''}. \<exists>r \<in> set (items (dget j ''receipts'')).
         receipt_for (dget e ''generation'') (dget e ''task_id'') (dget e ''commit'') r \<and> dget (dict_of r) ''kind'' = JStr kind
         \<and> validate_receipt w j r = Inr ())"
proof -
  from l have rec: "\<forall>r \<in> set (items (dget j ''receipts'')). validate_receipt w j r = Inr ()"
    and chain: "accepted_chain w g d s j (dget j ''base'') (items (dget j ''task_ids'')) (items (dget j ''accepted'')) = Inr ()"
    by (auto elim: journal_loaded)
  from accepted_chain_linked [OF chain] i have len: "length (items (dget j ''accepted'')) \<le> length (items (dget j ''task_ids''))"
    and link: "linked w g d s j previous (items (dget j ''task_ids'') ! i) (items (dget j ''accepted'') ! i)"
    by (simp_all add: previous_def)
  from link have "require_receipts j (dget e ''generation'') (dget e ''task_id'') (dget e ''commit'') = Inr ()"
    by (simp add: linked_def Let_def e_def)
  then have receipts: "\<forall>kind \<in> {''verification'', ''review''}. \<exists>r \<in> set (items (dget j ''receipts'')).
         receipt_for (dget e ''generation'') (dget e ''task_id'') (dget e ''commit'') r \<and> dget (dict_of r) ''kind'' = JStr kind
         \<and> validate_receipt w j r = Inr ()"
    using required_receipts_ex rec by blast
  have "\<exists>r. load w d s = Inr r
      \<and> dget j ''manifest_digest'' = JStr (digest w (dget (registration_of r) ''manifest''))
      \<and> length (items (dget j ''accepted'')) \<le> length (manifest_tasks_of (registration_of r))
      \<and> dget e ''task_id'' = dget (dict_of (manifest_tasks_of (registration_of r) ! i)) ''id''
      \<and> (truthy (dget (dict_of (dget (registration_of r) ''result_contract'')) ''base_sha'') \<longrightarrow>
           py_eq (dget j ''base'') (dget (dict_of (dget (registration_of r) ''result_contract'')) ''base_sha''))"
  proof (rule loaded_journal_registration [OF l])
    fix reg assume reg: "registration w d s = Inr reg" "dget j ''manifest_digest'' = JStr (digest w (dget reg ''manifest''))"
      and ids: "dget reg ''manifest'' \<noteq> JNull \<longrightarrow> dget j ''task_ids'' = JList (map (\<lambda>t. dget (dict_of t) ''id'') (manifest_tasks_of reg)) \<and> (\<forall>t \<in> set (manifest_tasks_of reg). is_str (dget (dict_of t) ''id''))"
      and none: "dget reg ''manifest'' = JNull \<longrightarrow> items (dget j ''task_ids'') = []"
      and base: "truthy (dget (dict_of (dget reg ''result_contract'')) ''base_sha'') \<longrightarrow> py_eq (dget j ''base'') (dget (dict_of (dget reg ''result_contract'')) ''base_sha'')"
    from reg(1) obtain r where r: "load w d s = Inr r" "reg = registration_of r" by (auto simp: registration_def rbind_eq_Inr)
    have "items (dget j ''task_ids'') \<noteq> []" using len i by auto
    then have ids: "items (dget j ''task_ids'') = map (\<lambda>t. dget (dict_of t) ''id'') (manifest_tasks_of reg)" "\<forall>t \<in> set (manifest_tasks_of reg). is_str (dget (dict_of t) ''id'')"
      using ids none by auto
    have n: "i < length (manifest_tasks_of reg)" using ids(1) len i by simp
    then have "is_str (dget (dict_of (manifest_tasks_of reg ! i)) ''id'')" using ids(2) by simp
    moreover have "py_eq (dget e ''task_id'') (dget (dict_of (manifest_tasks_of reg ! i)) ''id'')"
      using link ids(1) n by (simp add: linked_def Let_def e_def)
    ultimately have "dget e ''task_id'' = dget (dict_of (manifest_tasks_of reg ! i)) ''id''"
      by (cases "dget (dict_of (manifest_tasks_of reg ! i)) ''id''") simp_all
    then show ?thesis using r reg(2) len ids(1) base by auto
  qed
  with link receipts show ?thesis by (simp add: linked_def Let_def e_def)
qed

theorem loaded_journal_is_certified_witness:
  "dget (dict_of pj_entry) ''task_id'' = JStr ''t1'' \<and> \<not> py_eq (dget (dict_of pj_entry) ''commit'') (JStr c0)"
proof -
  have a: "items (dget pj_journal3 ''accepted'') = [pj_entry]" "dget pj_journal3 ''base'' = JStr c0"
    by (simp_all add: pj_journal3_def pj_journal2_def pj_journal1_def promoted_get receipted_get pj_journal0_def dget_Cons)
  have "0 < length (items (dget pj_journal3 ''accepted''))" by (simp add: a)
  from loaded_journal_is_certified [OF pj_load_journal3 this]
  obtain r where r: "load ex_world ''run-1'' (pj_store pj_journal3) = Inr r" "dget (dict_of pj_entry) ''task_id'' = dget (dict_of (manifest_tasks_of (registration_of r) ! 0)) ''id''"
    and c: "\<not> py_eq (dget (dict_of pj_entry) ''commit'') (JStr c0)" by (auto simp: a)
  have "registration_of r = pj_registration" using r(1) pj_loads [of pj_journal3] pj_reads(3) [of pj_journal3] by (simp add: registration_def pj_sizes MAX_RECORD_BYTES_def)
  moreover have "manifest_tasks_of pj_registration ! 0 = JObj [(''id'', JStr ''t1'')]" by code_simp
  ultimately show ?thesis using r(2) c by (simp add: dget_Cons)
qed

text \<open>
  C10: a promotion accepts exactly the next task.  When \<^verbatim>\<open>promote\<close> returns, the journal had loaded, the
  new one is the old one with one entry more, for the next task of the manifest, whose commit Git
  reports as the child of the last accepted commit; both receipts existed; the new journal is what
  loads afterwards; and no execution record has changed.
\<close>

theorem promote_accepts_next:
  assumes "promote w g d gen f s = (Inr j', s')"
  shows "\<exists>j e. load_journal w g d s = Inr j \<and> load_journal w g d s' = Inr j'
    \<and> items (dget j' ''accepted'') = items (dget j ''accepted'') @ [e]
    \<and> length (items (dget j ''accepted'')) < length (items (dget j ''task_ids''))
    \<and> py_eq (dget (dict_of e) ''task_id'') (items (dget j ''task_ids'') ! length (items (dget j ''accepted'')))
    \<and> dget (dict_of e) ''previous'' = JStr (last_commit j) \<and> commit_of e \<noteq> JStr (last_commit j)
    \<and> dget (dict_of e) ''generation'' = JInt gen
    \<and> require_receipts j (JInt gen) (dget (dict_of e) ''task_id'') (commit_of e) = Inr ()
    \<and> (\<forall>c x. load w c s' = Inr x \<longleftrightarrow> load w c s = Inr x)"
proof -
  from assms obtain v j hp s1 s2 where e1: "extends s s1" and l1: "load_journal w g d s1 = Inr j" and sub: "submission_checks d gen j v = Inr ()"
    and git: "check_git w g d s1 j = Inr hp" and new: "str_of (dget (dict_of v) ''commit'') \<noteq> snd hp"
    and par: "sole_parent w g d s1 (snd hp) (str_of (dget (dict_of v) ''commit'')) = Inr ()"
    and req: "require_receipts j (JInt gen) (dget (dict_of v) ''task_id'') (JStr (str_of (dget (dict_of v) ''commit''))) = Inr ()"
    and j': "j' = promoted j (make_entry w (dget (dict_of v) ''task_id'') (str_of (dget (dict_of v) ''commit'')) gen (snd hp))"
    and wr: "write_journal w g d j' s1 = (Inr (), s2)" and d: "dirs s' = dirs s2" "store_root s' = store_root s2"
    by (rule promote_returns)
  have hp: "snd hp = last_commit j" using check_git_returns [OF git] by simp
  have task: "py_eq (dget (dict_of v) ''task_id'') (items (dget j ''task_ids'') ! length (items (dget j ''accepted'')))"
    "length (items (dget j ''accepted'')) < length (items (dget j ''task_ids''))"
    using sub by (simp_all add: submission_checks_def Let_def)
  have "load_journal w g d s2 = Inr j'"
    unfolding j' hp by (rule promoted_loads [OF l1 task]) (use new par req wr j' hp in simp_all)
  then have after: "load_journal w g d s' = Inr j'"
    using load_journal_extends [OF extends_same [OF d]] by simp
  have before: "load_journal w g d s = Inr j" using l1 load_journal_extends [OF e1] by simp
  show ?thesis
    using before after write_journal_frame [OF wr e1 d] task new req j' hp
    by (intro exI [of _ j] exI [of _ "make_entry w (dget (dict_of v) ''task_id'') (str_of (dget (dict_of v) ''commit'')) gen (snd hp)"])
      (simp add: promoted_get make_entry_get commit_of_def)
qed

theorem promote_accepts_next_witness:
  "load_journal ex_world pj_git ''run-1'' (pj_store pj_journal3) = Inr pj_journal3"
  using promote_accepts_next [OF pj_promote] by blast

text \<open>
  Recording a receipt keeps the journal loadable.  When \<^verbatim>\<open>record_receipt\<close> returns, the journal
  loads afterwards with the same accepted entries, every earlier receipt is still there, and a receipt
  equal to the new one is among them.
\<close>

theorem record_receipt_keeps_journal:
  assumes a: "record_receipt w g d gen t c k ev s = (Inr u, s')"
  shows "\<exists>j j'. load_journal w g d s = Inr j \<and> load_journal w g d s' = Inr j' \<and> dget j' ''accepted'' = dget j ''accepted''
    \<and> set (items (dget j ''receipts'')) \<subseteq> set (items (dget j' ''receipts''))
    \<and> (make_receipt w j gen t c k ev \<in> set (items (dget j' ''receipts''))
       \<or> (\<exists>r \<in> set (items (dget j' ''receipts'')). py_eq (make_receipt w j gen t c k ev) r))"
proof -
  from a obtain j s1 s2 where e1: "extends s s1" and l1: "load_journal w g d s1 = Inr j"
    and v: "validate_receipt w j (make_receipt w j gen t c k ev) = Inr ()"
    and wr: "if \<exists>r \<in> set (items (dget j ''receipts'')). py_eq (make_receipt w j gen t c k ev) r then s2 = s1
     else write_journal w g d (receipted j (make_receipt w j gen t c k ev)) s1 = (Inr (), s2)"
    and d: "dirs s' = dirs s2" "store_root s' = store_root s2"
    by (rule record_receipt_returns)
  have before: "load_journal w g d s = Inr j" using l1 load_journal_extends [OF e1] by simp
  note after = load_journal_extends [OF extends_same [OF d], of w g d]
  show ?thesis
  proof (cases "\<exists>r \<in> set (items (dget j ''receipts'')). py_eq (make_receipt w j gen t c k ev) r")
    case True
    with wr l1 after have "load_journal w g d s' = Inr j" by simp
    with before True show ?thesis by blast
  next
    case False
    with wr have w: "write_journal w g d (receipted j (make_receipt w j gen t c k ev)) s1 = (Inr (), s2)" by simp
    have l': "load_journal w g d s' = Inr (receipted j (make_receipt w j gen t c k ev))"
      using receipted_loads [OF l1 v w] after by simp
    show ?thesis
      by (rule exI [of _ j], rule exI [of _ "receipted j (make_receipt w j gen t c k ev)"])
        (use before l' in \<open>auto simp: receipted_get\<close>)
  qed
qed

theorem record_receipt_keeps_journal_witness:
  "\<exists>j j'. load_journal ex_world pj_git ''run-1'' (pj_store pj_journal1) = Inr j \<and>
     load_journal ex_world pj_git ''run-1'' (pj_store pj_journal2) = Inr j' \<and> dget j' ''accepted'' = dget j ''accepted''"
  using record_receipt_keeps_journal [OF pj_record_receipt] by blast

text \<open>
  An interrupted write blocks.  If a crash leaves a new \<^verbatim>\<open>progress.json\<close> beside the anchor of
  another journal, with another digest, then \<^verbatim>\<open>_load\<close> raises, and so nothing is promoted, no receipt is
  recorded, and no fresh journal is started over it.
\<close>

theorem interrupted_write_blocks:
  assumes anchor: "read_json w d ANCHOR s = Inr (anchor_for w j)" and dig: "digest w (JObj j') \<noteq> digest w (JObj j)"
    and wr: "atomic_write w d PROGRESS (JObj j') s = (Inr (), s')"
  shows "(\<forall>x. load_journal w g d s' \<noteq> Inr x) \<and> (\<forall>gen f x s2. promote w g d gen f s' \<noteq> (Inr x, s2))
    \<and> (\<forall>gen t c k ev s2. record_receipt w g d gen t c k ev s' \<noteq> (Inr (), s2))
    \<and> (\<forall>x s2. initialize w g d s' \<noteq> (Inr x, s2))"
proof -
  have p: "read_json w d PROGRESS s' = Inr (JObj j')"
    using wr by (auto simp: atomic_write_returns read_put_same)
  have a: "read_json w d ANCHOR s' = Inr (anchor_for w j)"
    using wr anchor read_put_other [of ANCHOR PROGRESS w d d "file_size (JObj j')" "Some (JObj j')" s] files_distinct
    by (auto simp: atomic_write_returns)
  have blocked: "load_journal w g d s1 \<noteq> Inr x" if "extends s' s1" for s1 x
    using p a dig by (auto simp: load_journal_returns read_json_extends [OF that] anchor_ok_def anchor_for_def dget_Cons)
  have "found (load_journal w g d s1)" if "extends s' s1" for s1
    using p a load_journal_present [of w d s1] by (simp add: read_json_extends [OF that])
  then have missing: "load_journal w g d s1 \<noteq> Inl FileNotFound" if "extends s' s1" for s1
    using that by (simp add: found_def)
  have "initialize w g d s' \<noteq> (Inr x, s2)" for x s2
  proof
    assume "initialize w g d s' = (Inr x, s2)"
    then obtain s1 s3 where "extends s' s1" and b: "catch_op (reads (load_journal w g d))
        (\<lambda>e. if e = FileNotFound then start_journal w g d else raise e) s1 = (Inr x, s3)"
      unfolding initialize_def by (rule locked_returns)
    with blocked [of s1] missing [of s1] show False
      by (cases "load_journal w g d s1") (auto simp: catch_op_def split: if_splits)
  qed
  moreover have "promote w g d gen f s' \<noteq> (Inr x, s2)" for gen f x s2
    using blocked by (blast elim: promote_returns)
  moreover have "record_receipt w g d gen t c k ev s' \<noteq> (Inr (), s2)" for gen t c k ev s2
    using blocked by (blast elim: record_receipt_returns)
  ultimately show ?thesis using blocked by simp
qed

theorem interrupted_write_blocks_witness:
  "\<exists>w s j j'. read_json w ''run-1'' ANCHOR s = Inr (anchor_for w j) \<and> load_journal w pj_git ''run-1'' s \<noteq> Inr j'"
proof -
  let ?w = "ex_world\<lparr>sha256 := \<lambda>t. t\<rparr>"
  let ?s = "\<lparr>store_root = ''/state'', dirs = [(''run-1'', [(ANCHOR, File 50 (Some (anchor_for ?w [])))])], held = []\<rparr>"
  let ?s' = "put_file ''run-1'' PROGRESS (File (file_size (JObj pj_journal0)) (Some (JObj pj_journal0))) ?s"
  have a: "read_json ?w ''run-1'' ANCHOR ?s = Inr (anchor_for ?w [])"
    using ex_ids by (simp add: read_json_returns MAX_RECORD_BYTES_def)
  have d: "digest ?w (JObj pj_journal0) \<noteq> digest ?w (JObj [])"
  proof -
    have "digest ?w v = canonical v" for v by (simp add: digest_def)
    moreover have "length (canonical (JObj pj_journal0)) \<noteq> length (canonical (JObj []))"
    proof -
      have "canonical (JObj []) = ''{}''" by code_simp
      then show ?thesis using pj_sizes(1) by (simp add: file_size_def)
    qed
    ultimately show ?thesis by metis
  qed
  have wr: "atomic_write ?w ''run-1'' PROGRESS (JObj pj_journal0) ?s = (Inr (), ?s')"
    using ex_ids pj_sizes(1) by (simp add: atomic_write_returns MAX_RECORD_BYTES_def) (simp add: pj_journal0_def)
  from interrupted_write_blocks [OF a d wr, of pj_git] have "load_journal ?w pj_git ''run-1'' ?s' \<noteq> Inr pj_journal0" by blast
  moreover have "read_json ?w ''run-1'' ANCHOR ?s' = Inr (anchor_for ?w [])"
    using ex_ids files_distinct by (simp add: read_json_returns put_file_def MAX_RECORD_BYTES_def)
  ultimately show ?thesis by blast
qed

section \<open>Recovery\<close>

lemma context_fields:
  assumes "context_of w g d s jl = Inr ctx"
  shows "\<exists>out hp. check_git w g d s (fst jl) = Inr hp \<and> git_text w g d s [''rev-list'', ''--reverse'', snd hp @ ''..'' @ fst hp] = Inr out
    \<and> candidate_chain w g d s (snd hp) (splitlines out) = Inr ()
    \<and> (items (dget (fst jl) ''task_ids'') = [] \<or> length (splitlines out) + length (items (dget (fst jl) ''accepted'')) \<le> length (items (dget (fst jl) ''task_ids'')))
    \<and> dget ctx ''mode'' = JStr (recovery_mode (items (dget (fst jl) ''task_ids'')) (length (items (dget (fst jl) ''accepted''))) (splitlines out))
    \<and> dget ctx ''candidate_commits'' = JList (map JStr (splitlines out)) \<and> dget ctx ''head'' = JStr (fst hp)
    \<and> dget ctx ''accepted'' = JList (items (dget (fst jl) ''accepted''))
    \<and> dget ctx ''legacy_evidence_absent'' = JBool (snd jl)
    \<and> dget ctx ''current_task'' = (if length (items (dget (fst jl) ''accepted'')) < length (items (dget (fst jl) ''task_ids''))
         then items (dget (fst jl) ''task_ids'') ! length (items (dget (fst jl) ''accepted'')) else JNull)"
proof -
  from assms obtain hp out st reg where "check_git w g d s (fst jl) = Inr hp"
    "git_text w g d s [''rev-list'', ''--reverse'', snd hp @ ''..'' @ fst hp] = Inr out"
    "items (dget (fst jl) ''task_ids'') \<noteq> [] \<longrightarrow> \<not> int (length (splitlines out)) > int (length (items (dget (fst jl) ''task_ids''))) - int (length (items (dget (fst jl) ''accepted'')))"
    "candidate_chain w g d s (snd hp) (splitlines out) = Inr ()" and ctx: "ctx = [(''version'', JInt 1), (''mode'', JStr (recovery_mode (items (dget (fst jl) ''task_ids'')) (length (items (dget (fst jl) ''accepted''))) (splitlines out))), (''plan_identity'', dget (fst jl) ''plan_identity''),
          (''worktree'', dget reg ''worktree''), (''branch'', dget reg ''branch''), (''head'', JStr (fst hp)),
          (''accepted'', JList (items (dget (fst jl) ''accepted''))), (''current_task'', if length (items (dget (fst jl) ''accepted'')) < length (items (dget (fst jl) ''task_ids'')) then items (dget (fst jl) ''task_ids'') ! length (items (dget (fst jl) ''accepted'')) else JNull),
          (''candidate_commits'', JList (map JStr (splitlines out))), (''dirty'', JBool (st \<noteq> [])), (''status_sha256'', JStr (sha256 w st)),
          (''subtask_guarantee'', JBool (items (dget (fst jl) ''task_ids'') \<noteq> [])), (''legacy_evidence_absent'', JBool (snd jl)), (''instruction'', JStr INSTRUCTION)]"
    by (auto simp: context_of_def rbind_eq_Inr Let_def)
  then show ?thesis
    by (intro exI [of _ out] exI [of _ hp]) (auto simp: dget_Cons)
qed

text \<open>
  C13: what a recovery may resume.  When \<^verbatim>\<open>recovery_context\<close> says \<^verbatim>\<open>resume\<close>, the journal has loaded (the
  evidence is not legacy), tasks remain, the current task is the next unaccepted one, and Git lists no
  commit between the last accepted commit and HEAD; when it says \<^verbatim>\<open>verification_only\<close>, every task is
  accepted and there is no such commit either.
\<close>

theorem recovery_modes:
  assumes "recovery_context w g d gen s = (Inr ctx, s')" and "dget ctx ''mode'' \<noteq> JStr ''recovery_validation''"
  shows "\<exists>j. load_journal w g d s = Inr j \<and> dget ctx ''legacy_evidence_absent'' = JBool False
    \<and> dget ctx ''candidate_commits'' = JList [] \<and> dget ctx ''accepted'' = JList (items (dget j ''accepted''))
    \<and> (dget ctx ''mode'' = JStr ''resume'' \<and> length (items (dget j ''accepted'')) < length (items (dget j ''task_ids''))
         \<and> dget ctx ''current_task'' = items (dget j ''task_ids'') ! length (items (dget j ''accepted''))
       \<or> dget ctx ''mode'' = JStr ''verification_only'' \<and> length (items (dget j ''accepted'')) = length (items (dget j ''task_ids'')))"
proof -
  from assms(1) obtain s1 s2 where e: "extends s s1" and b: "reads (\<lambda>s.
     rbind (current_attempt w d gen s) (\<lambda>_.
     rbind (case load_journal w g d s of Inr j \<Rightarrow> Inr (j, False)
       | Inl e \<Rightarrow> if e = FileNotFound then legacy_journal w g d s else Inl e) (\<lambda>jl. context_of w g d s jl))) s1 = (Inr ctx, s2)"
    unfolding recovery_context_def by (rule locked_returns)
  then obtain jl where jl: "(case load_journal w g d s1 of Inr j \<Rightarrow> Inr (j, False)
       | Inl e \<Rightarrow> if e = FileNotFound then legacy_journal w g d s1 else Inl e) = Inr jl" and c: "context_of w g d s1 jl = Inr ctx"
    by (auto simp: rbind_eq_Inr)
  note f = context_fields [OF c]
  show ?thesis
  proof (cases "load_journal w g d s1")
    case (Inl e')
    with jl have "items (dget (fst jl) ''task_ids'') = []"
      by (auto simp: legacy_journal_def rbind_eq_Inr dget_Cons split: if_splits)
    with f assms(2) show ?thesis by (auto simp: recovery_mode_def)
  next
    case (Inr j)
    with jl have jl': "jl = (j, False)" by simp
    with Inr e have "load_journal w g d s = Inr j" by (simp add: load_journal_extends)
    with f jl' assms(2) show ?thesis
      by (intro exI [of _ j]) (auto simp: recovery_mode_def split: if_splits)
  qed
qed

theorem recovery_modes_witness:
  "\<exists>ctx. dget ctx ''mode'' = JStr ''verification_only'' \<and> dget ctx ''candidate_commits'' = JList []"
proof -
  obtain ctx s' where r: "recovery_context ex_world pj_git ''run-1'' 1 (pj_store pj_journal3) = (Inr ctx, s')"
    and m: "dget ctx ''mode'' = JStr ''verification_only''"
    using pj_recovery_context by blast
  from recovery_modes [OF r] m show ?thesis by auto
qed

end
