(* ===== verification/Recovery.thy ===== *)
theory Recovery
  imports ProgressHistory
begin

text \<open>
  \<^verbatim>\<open>hermes_pipeline/agent_recovery.py\<close>: operator and tick approvals of a recovery, bound to a snapshot
  of the work in the worktree and kept beside the execution record as \<^verbatim>\<open>recovery-intent.json\<close>.

  A fresh event id (\<^verbatim>\<open>secrets.token_hex(16)\<close>) is an argument, and so is whether the process runs in a
  worker environment.  Log messages are not modelled.
\<close>

section \<open>Constants\<close>

definition INTENT :: string where "INTENT = ''recovery-intent.json''"
definition INTENT_LIMIT :: nat where "INTENT_LIMIT = 256 * 1024"

definition PREVIEW_FIELDS :: "string list" where
  "PREVIEW_FIELDS = [''version'', ''execution_id'', ''event_id'', ''generation'', ''mode'', ''registration_sha256'', ''head'', ''branch'',
     ''worktree'', ''work_sha256'', ''context'']"

definition event_id_ok :: "string \<Rightarrow> bool" where
  "event_id_ok = dollar (hex_of_length 32)"

definition MAX_GENERATIONS :: int where "MAX_GENERATIONS = 3"
definition MAX_REISSUES :: int where "MAX_REISSUES = 3"

definition RECOVERY_REASONS :: "string list" where
  "RECOVERY_REASONS = [''recovery_approved'', ''recovery_already_approved'', ''recovery_no_attempt'', ''recovery_outcome_ineligible'',
     ''recovery_cleanup_unconfirmed'', ''recovery_generation_exhausted'', ''recovery_evidence_legacy'', ''recovery_evidence_invalid'',
     ''recovery_worktree_unsafe'', ''recovery_worktree_busy'', ''recovery_state_changed'', ''recovery_approval_failed'', ''recovery_busy'',
     ''recovery_operator_intent_pending'']"

definition APPROVERS :: "string list" where "APPROVERS = [''operator'', ''tick'']"

definition require_operator :: "bool \<Rightarrow> unit res" where
  "require_operator worker_env = raise_if worker_env (ExecutionError ''operator recovery is unavailable in worker context'')"

definition strict_digest :: "world \<Rightarrow> json \<Rightarrow> string res" where
  "strict_digest w v = (if finite_json v then Inr (digest w v) else Inl (ValueErr ''Out of range float values are not JSON compliant''))"

definition git_bytes :: "gitw \<Rightarrow> string \<Rightarrow> string list \<Rightarrow> string res" where
  "git_bytes g tree args = (case run_git g tree args of
       Inr out \<Rightarrow> Inr out
     | Inl e \<Rightarrow> Inl (if is_os_error e \<or> e = SubprocessErr then ExecutionError ''recovery Git validation failed'' else e))"

definition verdict :: "string \<Rightarrow> int \<Rightarrow> json \<Rightarrow> json \<Rightarrow> dict res" where
  "verdict reason generation event_id mode = (if reason \<notin> set RECOVERY_REASONS then Inl (ValueErr ''reason'')
     else Inr [(''approved'', JBool (reason \<in> {''recovery_approved'', ''recovery_already_approved''})), (''event_id'', event_id),
       (''reason'', JStr reason), (''generation'', JInt generation), (''mode'', mode)])"

definition operator_form :: "dict \<Rightarrow> dict" where
  "operator_form intent = [(''version'', dget intent ''version''), (''status'', dget intent ''status''), (''preview'', dget intent ''preview'')]"

section \<open>Reading and writing the intent\<close>

definition legacy_keys :: "string list" where "legacy_keys = [''version'', ''status'', ''preview'']"
definition new_keys :: "string list" where "new_keys = [''version'', ''status'', ''approver'', ''preview'']"
definition reissue_keys :: "string list" where "reissue_keys = [''version'', ''status'', ''approver'', ''preview'', ''reissues'']"

text \<open>The checks on the value read; every exception leaves the function as an \<^verbatim>\<open>ExecutionError\<close>.\<close>

definition intent_checks :: "string \<Rightarrow> json \<Rightarrow> unit res" where
  "intent_checks eid v = (let i = dict_of v; p = dict_of (dget i ''preview''); bad = ExecutionError ''invalid recovery intent schema'';
       invalid = ExecutionError ''recovery intent unavailable or invalid'';
       legacy = keys_are i legacy_keys; modern = keys_are i new_keys \<or> keys_are i reissue_keys;
       reissues = (if has_key i ''reissues'' then dget i ''reissues'' else JInt 0)
     in run_checks [
       raise_if (\<not> is_dict v) bad,
       raise_if (\<not> (legacy \<or> modern)) bad,
       raise_if (dget i ''version'' \<noteq> JInt 1) bad,
       raise_if (\<not> hashable (dget i ''status'')) invalid,
       raise_if (\<not> str_in (dget i ''status'') [''prepared'', ''approved'', ''consumed'', ''invalidated'']) bad,
       raise_if (\<not> is_dict (dget i ''preview'') \<or> \<not> keys_are p PREVIEW_FIELDS) bad,
       raise_if (dget p ''version'' \<noteq> JInt 1) bad,
       raise_if (\<not> is_str (dget p ''event_id'')) invalid,
       raise_if (\<not> event_id_ok (str_of (dget p ''event_id''))) bad,
       raise_if (\<not> is_int (dget p ''generation'') \<or> int_of (dget p ''generation'') < 1) bad,
       raise_if (\<not> hashable (dget p ''mode'')) invalid,
       raise_if (\<not> str_in (dget p ''mode'') [''resume'', ''recovery_only'']) bad,
       raise_if (\<not> py_eq (dget p ''execution_id'') (JStr eid)) bad,
       raise_if (modern \<and> \<not> hashable (dget i ''approver'')) invalid,
       raise_if (modern \<and> \<not> str_in (dget i ''approver'') APPROVERS) bad,
       raise_if (modern \<and> (\<not> is_int reissues \<or> int_of reissues < 0)) bad])"

definition normal_intent :: "dict \<Rightarrow> dict" where
  "normal_intent i = (if keys_are i legacy_keys then dput ''reissues'' (JInt 0) (dput ''approver'' (JStr ''operator'') i)
     else if has_key i ''reissues'' then i else dput ''reissues'' (JInt 0) i)"

definition read_optional :: "world \<Rightarrow> string \<Rightarrow> store \<Rightarrow> dict option res" where
  "read_optional w eid s = (let unavailable = (\<lambda>e. if is_execution_error e then e else if is_os_error e \<or> is_value_error e \<or> e = TypeErr
         then ExecutionError ''recovery intent unavailable or invalid'' else e) in
     case fst (open_directory w eid False s) of
       Inl e \<Rightarrow> Inl (unavailable e)
     | Inr _ \<Rightarrow> (case safe_read w eid INTENT s of
         Inl e \<Rightarrow> if e = FileNotFound then Inr None else Inl (unavailable e)
       | Inr (File n v) \<Rightarrow>
           if INTENT_LIMIT < n then Inl (ExecutionError ''recovery intent exceeds size limit'')
           else (case v of None \<Rightarrow> Inl (ExecutionError ''invalid recovery intent schema'')
             | Some x \<Rightarrow> rbind (intent_checks eid x) (\<lambda>_. Inr (Some (normal_intent (dict_of x)))))))"

definition write_intent :: "world \<Rightarrow> string \<Rightarrow> dict \<Rightarrow> (store, unit) op" where
  "write_intent w eid intent =
     then_op (lift_res (raise_if (INTENT_LIMIT < length (dumps default_style (JObj intent))) (ExecutionError ''recovery intent exceeds size limit'')))
       (atomic_write w eid INTENT (JObj intent))"

section \<open>The snapshot of the work\<close>

text \<open>\<^verbatim>\<open>n.to_bytes(8, 'big')\<close>, and the bytes of a hexadecimal digest.\<close>

definition be8 :: "nat \<Rightarrow> string" where
  "be8 n = map (\<lambda>i. char_of (n div 256 ^ i mod 256)) [7, 6, 5, 4, 3, 2, 1, 0]"

definition hex_val :: "char \<Rightarrow> nat" where
  "hex_val c = (if c \<in> set digits then of_char c - 48 else of_char c - 87)"

fun unhex :: "string \<Rightarrow> string" where
  "unhex (a # b # cs) = char_of (16 * hex_val a + hex_val b) # unhex cs"
| "unhex _ = []"

text \<open>The paths \<^verbatim>\<open>tree/name\<close>, its parent and so on, up to but without the worktree.\<close>

definition ancestors_below :: "string \<Rightarrow> string \<Rightarrow> string list" where
  "ancestors_below tree name = map (\<lambda>k. path_text (path_parts tree @ take k (path_parts name))) (rev [1..<Suc (length (path_parts name))])"

definition untracked_part :: "world \<Rightarrow> gitw \<Rightarrow> string \<Rightarrow> string \<Rightarrow> string res" where
  "untracked_part w g tree name = (let path = tree @ ''/'' @ name in
     rbind (run_checks [
       raise_if (\<not> is_relative_to (resolve w path) (resolve w tree)) (ExecutionError ''untracked path escapes worktree''),
       raise_if (\<exists>p \<in> set (ancestors_below tree name). symlink g p) (ExecutionError ''untracked symlink blocks recovery'')]) (\<lambda>_.
     case file_bytes g path of
       Inl e \<Rightarrow> Inl (if is_os_error e then ExecutionError ''untracked recovery evidence unavailable'' else e)
     | Inr b \<Rightarrow> Inr (be8 (length name) @ name @ unhex (sha256 w b))))"

definition DIFFS :: "string list list" where
  "DIFFS = [[''diff'', ''--binary'', ''--no-ext-diff'', ''--no-textconv''],
     [''diff'', ''--cached'', ''--binary'', ''--no-ext-diff'', ''--no-textconv''],
     [''status'', ''--porcelain=v1'', ''-z'', ''--untracked-files=all'']]"

definition work_digest :: "world \<Rightarrow> gitw \<Rightarrow> string \<Rightarrow> string res" where
  "work_digest w g tree =
     rbind (rmap (git_bytes g tree) DIFFS) (\<lambda>raws.
     rbind (git_bytes g tree [''ls-files'', ''--others'', ''--exclude-standard'', ''-z'']) (\<lambda>out.
     rbind (rmap (untracked_part w g tree) (filter (\<lambda>n. n \<noteq> []) (split_on (CHR 0x00) out))) (\<lambda>parts.
     Inr (sha256 w (concat (map (\<lambda>raw. be8 (length raw) @ raw) raws) @ concat parts)))))"

definition recovery_only_text :: string where
  "recovery_only_text = ''Verification and result collection only: do not repeat implementation. ''"

definition mode_context :: "string \<Rightarrow> dict \<Rightarrow> dict" where
  "mode_context mode context = (let c = dput ''operator_mode'' (JStr mode) context in
     if mode = ''recovery_only'' then dput ''instruction'' (JStr (recovery_only_text @ str_of (dget c ''instruction''))) c else c)"

definition make_preview :: "world \<Rightarrow> gitw \<Rightarrow> string \<Rightarrow> string \<Rightarrow> string \<Rightarrow> dict \<Rightarrow> dict \<Rightarrow> dict res" where
  "make_preview w g eid mode event_id r context = (let reg = registration_of r; c = mode_context mode context in
     rbind (raise_if (mode = ''resume'' \<and> truthy (dget context ''legacy_evidence_absent''))
         (ExecutionError ''legacy evidence permits recovery_only validation only'')) (\<lambda>_.
     rbind (work_digest w g (worktree_of r)) (\<lambda>work.
     rbind (strict_digest w (JObj reg)) (\<lambda>sha.
     Inr [(''version'', JInt 1), (''execution_id'', JStr eid), (''event_id'', JStr event_id),
          (''generation'', afield (last (attempts_of r)) ''generation''), (''mode'', JStr mode), (''registration_sha256'', JStr sha),
          (''head'', dget c ''head''), (''branch'', dget reg ''branch''), (''worktree'', JStr (path_text (path_parts (worktree_of r)))),
          (''work_sha256'', JStr work), (''context'', JObj c)]))))"

definition snapshot :: "world \<Rightarrow> gitw \<Rightarrow> string \<Rightarrow> string \<Rightarrow> string \<Rightarrow> dict option \<Rightarrow> (store, dict) op" where
  "snapshot w g eid mode event_id context =
     then_op (lift_res (raise_if (mode \<notin> {''resume'', ''recovery_only''}) (ExecutionError ''invalid recovery mode'')))
     (bind_op (reads (load w eid)) (\<lambda>r.
     then_op (lift_res (run_checks [
       raise_if (attempts_of r = []) (ExecutionError ''recovery requires a prior attempt''),
       raise_if (\<not> resolved_attempt (last (attempts_of r))) (ExecutionError ''recovery requires terminal outcome and confirmed cleanup'')]))
     (bind_op (case context of Some c \<Rightarrow> ret c
        | None \<Rightarrow> recovery_context w g eid (int_of (afield (last (attempts_of r)) ''generation''))) (\<lambda>c.
     lift_res (make_preview w g eid mode event_id r c)))))"

section \<open>Operator approvals\<close>

definition prepare_recovery :: "world \<Rightarrow> gitw \<Rightarrow> bool \<Rightarrow> string \<Rightarrow> string \<Rightarrow> string \<Rightarrow> (store, dict) op" where
  "prepare_recovery w g worker_env fresh eid mode =
     then_op (lift_res (require_operator worker_env))
     (worktree_locked w eid (locked w eid
       (bind_op (snapshot w g eid mode fresh None) (\<lambda>p.
         then_op (write_intent w eid [(''version'', JInt 1), (''status'', JStr ''prepared''), (''preview'', JObj p)]) (ret p)))))"

definition approve_recovery :: "world \<Rightarrow> gitw \<Rightarrow> bool \<Rightarrow> string \<Rightarrow> dict \<Rightarrow> (store, string) op" where
  "approve_recovery w g worker_env eid preview =
     then_op (lift_res (require_operator worker_env))
     (worktree_locked w eid (locked w eid
       (bind_op (reads (read_optional w eid)) (\<lambda>intent.
         case intent of
           None \<Rightarrow> raise (ExecutionError ''recovery preview approval mismatch'')
         | Some i \<Rightarrow> if dget i ''status'' \<noteq> JStr ''prepared'' \<or> \<not> py_eq (JObj preview) (dget i ''preview'')
             then raise (ExecutionError ''recovery preview approval mismatch'')
             else bind_op (snapshot w g eid (str_of (dget preview ''mode'')) (str_of (dget preview ''event_id'')) None) (\<lambda>p.
               then_op (lift_res (raise_if (\<not> py_eq (JObj p) (JObj preview)) (ExecutionError ''recovery state changed since preview'')))
               (then_op (write_intent w eid (operator_form (dput ''status'' (JStr ''approved'') i)))
                 (ret (str_of (dget preview ''event_id'')))))))))"

section \<open>Verification and consumption\<close>

definition validate_body :: "world \<Rightarrow> gitw \<Rightarrow> string \<Rightarrow> string \<Rightarrow> (store, dict) op" where
  "validate_body w g eid event_id = bind_op (reads (read_optional w eid)) (\<lambda>intent.
     case intent of
       None \<Rightarrow> raise (ExecutionError ''recovery lacks an approved unused event'')
     | Some i \<Rightarrow> let preview = dict_of (dget i ''preview'') in
         if dget i ''status'' \<noteq> JStr ''approved'' \<or> dget preview ''event_id'' \<noteq> JStr event_id
         then raise (ExecutionError ''recovery lacks an approved unused event'')
         else bind_op (snapshot w g eid (str_of (dget preview ''mode'')) event_id None) (\<lambda>p.
           then_op (lift_res (raise_if (\<not> py_eq (JObj p) (JObj preview)) RecoveryStateChanged)) (ret preview)))"

definition validate_recovery :: "world \<Rightarrow> gitw \<Rightarrow> string \<Rightarrow> string \<Rightarrow> (store, dict) op" where
  "validate_recovery w g eid event_id = worktree_locked w eid (locked w eid (validate_body w g eid event_id))"

definition consumed_intent :: "dict \<Rightarrow> dict \<Rightarrow> dict" where
  "consumed_intent i preview =
     (if dget i ''approver'' = JStr ''operator''
      then operator_form [(''version'', JInt 1), (''status'', JStr ''consumed''), (''preview'', JObj preview)]
      else [(''version'', JInt 1), (''status'', JStr ''consumed''), (''approver'', dget i ''approver''), (''preview'', JObj preview),
        (''reissues'', dget i ''reissues'')])"

definition consume_recovery :: "world \<Rightarrow> gitw \<Rightarrow> string \<Rightarrow> string \<Rightarrow> (store, dict) op" where
  "consume_recovery w g eid event_id = worktree_locked w eid (locked w eid
     (bind_op (reads (read_optional w eid)) (\<lambda>intent.
      bind_op (validate_recovery w g eid event_id) (\<lambda>preview.
      case intent of None \<Rightarrow> raise TypeErr
      | Some i \<Rightarrow> then_op (write_intent w eid (consumed_intent i preview)) (ret preview)))))"

section \<open>Approval by the tick\<close>

definition tick_approved :: "dict \<Rightarrow> int \<Rightarrow> bool" where
  "tick_approved i generation \<longleftrightarrow> dget i ''status'' = JStr ''approved'' \<and> dget i ''approver'' = JStr ''tick''
     \<and> dget (dict_of (dget i ''preview'')) ''generation'' = JInt generation"

definition retract_stale_tick_approval :: "world \<Rightarrow> string \<Rightarrow> int \<Rightarrow> (store, unit) op" where
  "retract_stale_tick_approval w eid generation =
     catch_op (bind_op (reads (read_optional w eid)) (\<lambda>intent. case intent of
         None \<Rightarrow> ret ()
       | Some i \<Rightarrow> if tick_approved i generation then write_intent w eid (dput ''status'' (JStr ''invalidated'') i) else ret ()))
     (\<lambda>e. if is_execution_error e then ret () else raise e)"

definition refuse :: "world \<Rightarrow> string \<Rightarrow> int \<Rightarrow> string \<Rightarrow> (store, dict) op" where
  "refuse w eid generation reason =
     then_op (retract_stale_tick_approval w eid generation) (lift_res (verdict reason generation JNull JNull))"

definition eligible_outcome :: "json \<Rightarrow> bool" where
  "eligible_outcome a \<longleftrightarrow> str_in (afield a ''status'') [''timed_out'', ''interrupted'']
     \<or> (afield a ''status'' = JStr ''exited'' \<and> afield a ''reason'' = JStr ''result_invalid'')"

definition event_used :: "dict \<Rightarrow> json \<Rightarrow> bool" where
  "event_used r event \<longleftrightarrow> (\<exists>a \<in> set (attempts_of r). py_eq (afield a ''recovery_event'') event)"

text \<open>An approval on file that still describes the work is returned again.\<close>

definition still_approved :: "world \<Rightarrow> gitw \<Rightarrow> string \<Rightarrow> string \<Rightarrow> dict \<Rightarrow> int \<Rightarrow> dict option \<Rightarrow> (store, dict option) op" where
  "still_approved w g eid mode r generation intent = (case intent of
      None \<Rightarrow> ret None
    | Some i \<Rightarrow> let event = dget (dict_of (dget i ''preview'')) ''event_id'' in
        if \<not> tick_approved i generation \<or> event_used r event then ret None
        else catch_op (bind_op (snapshot w g eid mode (str_of event) None) (\<lambda>p.
            if py_eq (JObj p) (dget i ''preview'')
            then bind_op (lift_res (verdict ''recovery_already_approved'' generation event (JStr mode))) (\<lambda>v. ret (Some v)) else ret None))
          (\<lambda>e. if is_execution_error e then ret None else raise e))"

definition next_reissues :: "dict option \<Rightarrow> int \<Rightarrow> int" where
  "next_reissues intent generation = (case intent of
      None \<Rightarrow> 0
    | Some i \<Rightarrow> if dget i ''approver'' = JStr ''tick'' \<and> dget (dict_of (dget i ''preview'')) ''generation'' = JInt generation
        then int_of (dget i ''reissues'') + 1 else 0)"

definition tick_intent :: "dict \<Rightarrow> int \<Rightarrow> dict" where
  "tick_intent preview reissues = [(''version'', JInt 1), (''status'', JStr ''approved''), (''approver'', JStr ''tick''),
     (''preview'', JObj preview), (''reissues'', JInt reissues)]"

definition new_approval :: "world \<Rightarrow> gitw \<Rightarrow> string \<Rightarrow> string \<Rightarrow> string \<Rightarrow> int \<Rightarrow> dict option \<Rightarrow> dict \<Rightarrow> (store, dict) op" where
  "new_approval w g fresh eid mode generation intent context =
     bind_op (catch_op (bind_op (snapshot w g eid mode fresh (Some context)) (\<lambda>p. ret (Some p)))
         (\<lambda>e. if is_execution_error e then ret None else raise e)) (\<lambda>preview.
     case preview of
       None \<Rightarrow> refuse w eid generation ''recovery_worktree_unsafe''
     | Some p \<Rightarrow>
         if next_reissues intent generation > MAX_REISSUES then refuse w eid generation ''recovery_state_changed''
         else then_op (write_intent w eid (tick_intent p (next_reissues intent generation)))
           (lift_res (verdict ''recovery_approved'' generation (JStr fresh) (JStr mode))))"

definition approve_fresh :: "world \<Rightarrow> gitw \<Rightarrow> string \<Rightarrow> string \<Rightarrow> string \<Rightarrow> int \<Rightarrow> dict option \<Rightarrow> (store, dict) op" where
  "approve_fresh w g fresh eid mode generation intent =
     bind_op (catch_op (bind_op (reads (load_journal w g eid)) (\<lambda>_. ret True))
         (\<lambda>e. if e = FileNotFound then ret True else if is_execution_error e then ret False else raise e)) (\<lambda>valid.
     if \<not> valid then refuse w eid generation ''recovery_evidence_invalid''
     else bind_op (catch_op (bind_op (recovery_context w g eid generation) (\<lambda>c. ret (Some c)))
         (\<lambda>e. if is_execution_error e then ret None else raise e)) (\<lambda>context.
     case context of
       None \<Rightarrow> refuse w eid generation ''recovery_worktree_unsafe''
     | Some c \<Rightarrow> if truthy (dget c ''legacy_evidence_absent'') then refuse w eid generation ''recovery_evidence_legacy''
         else new_approval w g fresh eid mode generation intent c))"

definition operator_pending :: "dict option \<Rightarrow> bool" where
  "operator_pending intent \<longleftrightarrow> (case intent of None \<Rightarrow> False
     | Some i \<Rightarrow> dget i ''approver'' = JStr ''operator'' \<and> str_in (dget i ''status'') [''prepared'', ''approved''])"

definition approval_policy :: "world \<Rightarrow> gitw \<Rightarrow> string \<Rightarrow> int \<Rightarrow> string \<Rightarrow> string \<Rightarrow> dict \<Rightarrow> (store, dict) op" where
  "approval_policy w g fresh max_generations mode eid r = (let a = last (attempts_of r); generation = int_of (afield a ''generation'') in
     bind_op (catch_op (bind_op (reads (assert_worktree_peers_resolved w eid)) (\<lambda>_. ret True))
         (\<lambda>e. if is_execution_error e then ret False else raise e)) (\<lambda>free.
     if \<not> free then lift_res (verdict ''recovery_worktree_busy'' generation JNull JNull)
     else if \<not> eligible_outcome a then refuse w eid generation ''recovery_outcome_ineligible''
     else if afield a ''cleanup'' \<noteq> JStr ''confirmed'' then refuse w eid generation ''recovery_cleanup_unconfirmed''
     else if max_generations \<le> generation then refuse w eid generation ''recovery_generation_exhausted''
     else bind_op (reads (read_optional w eid)) (\<lambda>intent.
       if operator_pending intent then lift_res (verdict ''recovery_operator_intent_pending'' generation JNull JNull)
       else bind_op (still_approved w g eid mode r generation intent) (\<lambda>v.
         case v of Some x \<Rightarrow> ret x | None \<Rightarrow> approve_fresh w g fresh eid mode generation intent))))"

definition approval_failed :: "int \<Rightarrow> exn \<Rightarrow> (store, dict) op" where
  "approval_failed generation e =
     (if e = LockUnconfirmed (Some EAGAIN) then lift_res (verdict ''recovery_busy'' generation JNull JNull)
      else if is_execution_error e \<or> is_os_error e then lift_res (verdict ''recovery_approval_failed'' generation JNull JNull)
      else raise e)"

definition auto_approve_resume :: "world \<Rightarrow> gitw \<Rightarrow> string \<Rightarrow> int \<Rightarrow> string \<Rightarrow> bool \<Rightarrow> string \<Rightarrow> (store, dict) op" where
  "auto_approve_resume w g fresh max_generations mode worktree_lock_held eid = (let inner =
       locked w eid (bind_op (reads (load w eid)) (\<lambda>r.
         if attempts_of r = [] then lift_res (verdict ''recovery_no_attempt'' 0 JNull JNull)
         else catch_op (approval_policy w g fresh max_generations mode eid r)
           (approval_failed (int_of (afield (last (attempts_of r)) ''generation'')))))
     in catch_op (if worktree_lock_held then inner else bind_op (reads (worktree_lock_id w eid)) (\<lambda>k. locked w k inner))
          (approval_failed 0))"

section \<open>Pending approvals\<close>

definition pending_of :: "int \<Rightarrow> dict \<Rightarrow> dict \<Rightarrow> string option" where
  "pending_of max_generations i r = (let a = last (attempts_of r); generation = int_of (afield a ''generation'');
       preview = dict_of (dget i ''preview'') in
     if attempts_of r = [] \<or> \<not> str_in (afield a ''status'') [''timed_out'', ''interrupted''] \<or> afield a ''cleanup'' \<noteq> JStr ''confirmed''
        \<or> max_generations \<le> generation \<or> dget preview ''generation'' \<noteq> JInt generation \<or> event_used r (dget preview ''event_id'')
     then None else Some (str_of (dget preview ''event_id'')))"

definition pending_auto_recovery :: "world \<Rightarrow> int \<Rightarrow> string \<Rightarrow> (store, string option) op" where
  "pending_auto_recovery w max_generations eid = locked w eid (reads (\<lambda>s.
     rbind (read_optional w eid s) (\<lambda>intent. case intent of
         None \<Rightarrow> Inr None
       | Some i \<Rightarrow> if dget i ''status'' \<noteq> JStr ''approved'' \<or> dget i ''approver'' \<noteq> JStr ''tick'' then Inr None
           else rbind (load w eid s) (\<lambda>r. Inr (pending_of max_generations i r)))))"

definition invalidate_recovery :: "world \<Rightarrow> string \<Rightarrow> string \<Rightarrow> (store, bool) op" where
  "invalidate_recovery w eid event_id = locked w eid
     (bind_op (reads (read_optional w eid)) (\<lambda>intent. case intent of
         None \<Rightarrow> ret False
       | Some i \<Rightarrow> if dget i ''status'' = JStr ''approved'' \<and> dget i ''approver'' = JStr ''tick''
             \<and> dget (dict_of (dget i ''preview'')) ''event_id'' = JStr event_id
           then then_op (write_intent w eid (dput ''status'' (JStr ''invalidated'') i)) (ret True) else ret False))"

definition recovery_state :: "world \<Rightarrow> string \<Rightarrow> store \<Rightarrow> dict option res" where
  "recovery_state w eid s = rbind (read_optional w eid s) (\<lambda>intent. Inr (case intent of
       None \<Rightarrow> None
     | Some i \<Rightarrow> Some [(''state'', dget i ''status''), (''approver'', dget i ''approver''),
         (''generation'', dget (dict_of (dget i ''preview'')) ''generation''), (''reissues'', dget i ''reissues'')]))"

end
