(* ===== verification/RecoveryHistory.thy ===== *)
theory RecoveryHistory
  imports Recovery
begin

text \<open>
  Library of the recovery approvals: what the operations may write, what is read back, and the case
  analysis of the tick's approval.
\<close>

section \<open>Only the intent file is written\<close>

definition intent_only :: "store \<Rightarrow> store \<Rightarrow> bool" where
  "intent_only s s' \<longleftrightarrow> store_root s' = store_root s \<and>
     (\<forall>w d name v. name \<noteq> INTENT \<longrightarrow> read_json w d name s' = Inr v \<longleftrightarrow> read_json w d name s = Inr v)"

definition writes_intent :: "(store, 'a) op \<Rightarrow> bool" where
  "writes_intent m \<longleftrightarrow> (\<forall>s r s'. m s = (r, s') \<longrightarrow> intent_only s s')"

named_theorems frame_intro "operations that write at most the recovery intent"

lemma intent_only_refl [simp]: "intent_only s s"
  by (simp add: intent_only_def)

lemma intent_only_trans: "intent_only s t \<Longrightarrow> intent_only t u \<Longrightarrow> intent_only s u"
  by (simp add: intent_only_def)

lemma intent_only_extends: "extends s s' \<Longrightarrow> intent_only s s'"
  by (simp add: intent_only_def read_json_extends) (simp add: extends_def)

lemma intent_only_held [simp]: "intent_only s (t\<lparr>held := h\<rparr>) = intent_only s t" "intent_only (s\<lparr>held := h\<rparr>) t = intent_only s t"
  by (simp_all add: intent_only_def read_json_returns)

lemma writes_intentD: "writes_intent m \<Longrightarrow> m s = (r, s') \<Longrightarrow> intent_only s s'"
  by (simp add: writes_intent_def)

lemma frame_simple [frame_intro]: "writes_intent (ret x)" "writes_intent (raise e)" "writes_intent (lift_res r)" "writes_intent (reads f)"
  by (simp_all add: writes_intent_def)

lemma frame_bind [frame_intro]:
  assumes "writes_intent m" and "\<And>x. writes_intent (f x)"
  shows "writes_intent (bind_op m f)"
  unfolding writes_intent_def
proof (intro allI impI)
  fix s r s' assume b: "bind_op m f s = (r, s')"
  obtain q s1 where m: "m s = (q, s1)" by (cases "m s") auto
  with b assms show "intent_only s s'"
    by (cases q) (auto simp: bind_op_def dest: writes_intentD intro: intent_only_trans)
qed

lemma frame_then [frame_intro]: "writes_intent m \<Longrightarrow> writes_intent k \<Longrightarrow> writes_intent (then_op m k)"
  unfolding then_op_def by (intro frame_bind)

lemma frame_catch [frame_intro]:
  assumes "writes_intent m" and "\<And>e. writes_intent (h e)"
  shows "writes_intent (catch_op m h)"
  unfolding writes_intent_def
proof (intro allI impI)
  fix s r s' assume b: "catch_op m h s = (r, s')"
  obtain q s1 where m: "m s = (q, s1)" by (cases "m s") auto
  with b assms show "intent_only s s'"
    by (cases q) (auto simp: catch_op_def dest: writes_intentD intro: intent_only_trans)
qed

lemma frame_if [frame_intro]: "writes_intent a \<Longrightarrow> writes_intent b \<Longrightarrow> writes_intent (if c then a else b)"
  by simp

lemma frame_option [frame_intro]: "writes_intent a \<Longrightarrow> (\<And>x. writes_intent (f x)) \<Longrightarrow> writes_intent (case v of None \<Rightarrow> a | Some x \<Rightarrow> f x)"
  by (cases v) simp_all

lemma frame_let [frame_intro]: "writes_intent (f v) \<Longrightarrow> writes_intent (let x = v in f x)"
  by simp

lemma frame_locked [frame_intro]:
  assumes "writes_intent body"
  shows "writes_intent (locked w k body)"
  unfolding writes_intent_def
proof (intro allI impI)
  fix s r s' assume l: "locked w k body s = (r, s')"
  obtain q s0 where o: "open_directory w k True s = (q, s0)" by (cases "open_directory w k True s") auto
  then have e: "intent_only s s0" by (intro intent_only_extends open_directory_extends)
  show "intent_only s s'"
  proof (cases "(\<exists>x. q = Inl x) \<or> k \<in> set (held s0) \<or> flock w k \<noteq> None")
    case True
    with l o e assms show ?thesis
      by (auto simp: locked_def split: sum.splits if_splits intro: intent_only_trans dest: writes_intentD)
  next
    case False
    with l o obtain s2 where b: "body (s0\<lparr>held := k # held s0\<rparr>) = (r, s2)" and s': "s' = s2\<lparr>held := remove1 k (held s2)\<rparr>"
      by (auto simp: locked_def Let_def split: sum.splits prod.splits)
    from writes_intentD [OF assms b] e s' show ?thesis by (simp add: intent_only_trans [OF e])
  qed
qed

lemma frame_worktree_locked [frame_intro]: "writes_intent body \<Longrightarrow> writes_intent (worktree_locked w d body)"
  unfolding worktree_locked_def by (intro frame_intro)

lemma frame_write_intent [frame_intro]: "writes_intent (write_intent w d i)"
proof -
  have "writes_intent (atomic_write w d INTENT v)" for v
    unfolding writes_intent_def
  proof (intro allI impI)
    fix s r s' assume a: "atomic_write w d INTENT v s = (r, s')"
    show "intent_only s s'"
    proof (cases r)
      case (Inl e)
      with a have "s' = s"
        by (auto simp: atomic_write_def then_op_def bind_op_def open_directory_def split: option.splits if_splits)
      then show ?thesis by simp
    next
      case (Inr u)
      with a have "map_of (dirs s) d \<noteq> None" "s' = put_file d INTENT (File (file_size v) (Some v)) s"
        by (auto simp: atomic_write_returns)
      then show ?thesis
        by (auto simp: intent_only_def read_json_returns put_file_dir update_conv' put_file_def)
    qed
  qed
  then show ?thesis unfolding write_intent_def by (intro frame_intro)
qed

lemma frame_recovery_context [frame_intro]: "writes_intent (recovery_context w g d gen)"
  unfolding recovery_context_def by (intro frame_intro)

lemma frame_snapshot [frame_intro]: "writes_intent (snapshot w g d mode ev c)"
  unfolding snapshot_def by (intro frame_intro)

lemma frame_refuse [frame_intro]: "writes_intent (refuse w d gen reason)"
  unfolding refuse_def retract_stale_tick_approval_def by (intro frame_intro)

lemma frame_auto_approve: "writes_intent (auto_approve_resume w g fresh mg mode b d)"
  unfolding auto_approve_resume_def approval_policy_def approval_failed_def still_approved_def approve_fresh_def new_approval_def Let_def
  by (intro frame_intro)

lemma frame_validate [frame_intro]: "writes_intent (validate_recovery w g d ev)"
  unfolding validate_recovery_def validate_body_def Let_def by (intro frame_intro)

lemma frame_operator:
  "writes_intent (prepare_recovery w g env fresh d mode)" "writes_intent (approve_recovery w g env d preview)"
  "writes_intent (consume_recovery w g d ev)" "writes_intent (invalidate_recovery w d ev)" "writes_intent (pending_auto_recovery w mg d)"
  unfolding prepare_recovery_def approve_recovery_def consume_recovery_def invalidate_recovery_def pending_auto_recovery_def
  by (intro frame_intro)+

lemma intent_only_load:
  assumes "intent_only s s'"
  shows "load w c s' = Inr x \<longleftrightarrow> load w c s = Inr x"
proof -
  have "INTENT \<noteq> RECORD" by (simp add: INTENT_def RECORD_def)
  with assms show ?thesis
    by (auto simp: load_returns intent_only_def accept_record_cong [of s' s])
qed

lemma intent_only_journal:
  assumes "intent_only s s'"
  shows "load_journal w g c s' = Inr x \<longleftrightarrow> load_journal w g c s = Inr x"
proof -
  have i: "INTENT \<noteq> PROGRESS" "INTENT \<noteq> ANCHOR" by (simp_all add: INTENT_def PROGRESS_def ANCHOR_def)
  have sym: "intent_only s' s" using assms by (simp add: intent_only_def)
  have "load_journal w g c b = Inr x" if "intent_only a b" "load_journal w g c a = Inr x" for a b
  proof -
    from that(2) obtain v reg anchor where v: "read_json w c PROGRESS a = Inr v" "registration w c a = Inr reg"
      "journal_checks w g c a reg v = Inr ()" "read_json w c ANCHOR a = Inr anchor" "anchor_ok w v anchor" "x = dict_of v"
      by (auto simp: load_journal_returns)
    from v(2) obtain r where "load w c a = Inr r" by (auto simp: registration_def rbind_eq_Inr)
    then have eq: "load w c b = load w c a" using intent_only_load [OF that(1)] by simp
    have "journal_checks w g c b reg v = Inr ()"
      using v(3) accepted_chain_cong [OF eq, of "dict_of v" "dict_of v"] by (simp add: journal_checks_def Let_def)
    with v that(1) i registration_cong [OF eq] show ?thesis by (auto simp: load_journal_returns intent_only_def)
  qed
  with assms sym show ?thesis by blast
qed

section \<open>Reading back what was written\<close>

lemma read_optional_Some:
  "read_optional w d s = Inr (Some i) \<longleftrightarrow> identifier_ok d \<and> dir_errno w d = None \<and> (\<exists>fs n x. map_of (dirs s) d = Some fs
     \<and> map_of fs INTENT = Some (File n (Some x)) \<and> n \<le> INTENT_LIMIT \<and> intent_checks d x = Inr () \<and> i = normal_intent (dict_of x))"
proof -
  have "INTENT_LIMIT \<le> MAX_RECORD_BYTES" by (simp add: INTENT_LIMIT_def MAX_RECORD_BYTES_def)
  then show ?thesis
    by (auto simp: read_optional_def safe_read_def open_directory_def Let_def rbind_eq_Inr
        split: option.splits fcontent.splits if_splits sum.splits)
qed

lemma read_optional_extends:
  assumes "extends s s'" and "read_optional w d s = Inr (Some i)"
  shows "read_optional w d s' = Inr (Some i)"
proof -
  from assms(2) have "map_of (dirs s) d \<noteq> None" by (auto simp: read_optional_Some)
  with assms(1) have "map_of (dirs s') d = map_of (dirs s) d"
    unfolding extends_def by metis
  with assms(2) show ?thesis by (simp add: read_optional_Some)
qed

lemma read_optional_held [simp]: "read_optional w d (s\<lparr>held := h\<rparr>) = read_optional w d s"
proof -
  have o: "fst (open_directory w d False (s\<lparr>held := h\<rparr>)) = fst (open_directory w d False s)"
    by (simp add: open_directory_def Let_def split: option.splits)
  then have "safe_read w d INTENT (s\<lparr>held := h\<rparr>) = safe_read w d INTENT s"
    by (simp add: safe_read_def split: sum.splits)
  with o show ?thesis by (simp add: read_optional_def split: sum.splits)
qed

lemma write_intent_returns:
  "write_intent w d i s = (Inr u, s') \<longleftrightarrow> length (dumps default_style (JObj i)) \<le> INTENT_LIMIT \<and> atomic_write w d INTENT (JObj i) s = (Inr u, s')"
  by (auto simp: write_intent_def then_op_returns raise_if_def)

lemma read_written_intent:
  assumes wr: "write_intent w d i s = (Inr u, s')" and ok: "intent_checks d (JObj i) = Inr ()"
  shows "read_optional w d s' = Inr (Some (normal_intent i))"
proof -
  have "file_size (JObj i) \<le> INTENT_LIMIT"
    using wr canonical_length [of "JObj i"] by (simp add: write_intent_returns file_size_def)
  with wr ok show ?thesis
    by (auto simp: write_intent_returns atomic_write_returns read_optional_Some put_file_dir update_conv')
qed

text \<open>What an intent that is read satisfies.\<close>

lemma intent_checked:
  assumes "intent_checks d x = Inr ()"
  defines "i \<equiv> normal_intent (dict_of x)"
  shows "is_dict (dget i ''preview'')" "keys_are (dict_of (dget i ''preview'')) PREVIEW_FIELDS"
    "str_in (dget i ''status'') [''prepared'', ''approved'', ''consumed'', ''invalidated'']" "str_in (dget i ''approver'') APPROVERS"
    "is_int (dget i ''reissues'')" "0 \<le> int_of (dget i ''reissues'')" "is_str (dget (dict_of (dget i ''preview'')) ''event_id'')"
    "is_int (dget (dict_of (dget i ''preview'')) ''generation'')" "1 \<le> int_of (dget (dict_of (dget i ''preview'')) ''generation'')"
proof -
  have g: "dget i k = dget (dict_of x) k" if "k \<in> {''preview'', ''status'', ''version''}" for k
    using that by (auto simp: i_def normal_intent_def)
  note c = assms(1) [unfolded intent_checks_def Let_def]
  show "is_dict (dget i ''preview'')" "keys_are (dict_of (dget i ''preview'')) PREVIEW_FIELDS"
    "str_in (dget i ''status'') [''prepared'', ''approved'', ''consumed'', ''invalidated'']"
    "is_str (dget (dict_of (dget i ''preview'')) ''event_id'')"
    "is_int (dget (dict_of (dget i ''preview'')) ''generation'')" "1 \<le> int_of (dget (dict_of (dget i ''preview'')) ''generation'')"
    using c by (simp_all add: g)
  show "str_in (dget i ''approver'') APPROVERS" "is_int (dget i ''reissues'')" "0 \<le> int_of (dget i ''reissues'')"
    using c by (auto simp: i_def normal_intent_def APPROVERS_def split: if_splits)
qed

section \<open>Snapshots\<close>

lemma preview_fields:
  assumes "make_preview w g d mode ev r c = Inr p"
  shows "keys_are p PREVIEW_FIELDS" "dget p ''version'' = JInt 1" "dget p ''execution_id'' = JStr d" "dget p ''event_id'' = JStr ev"
    "dget p ''generation'' = afield (last (attempts_of r)) ''generation''" "dget p ''mode'' = JStr mode"
    "mode = ''resume'' \<longrightarrow> \<not> truthy (dget c ''legacy_evidence_absent'')"
  using assms by (auto simp: make_preview_def rbind_eq_Inr Let_def dget_Cons keys_are_def PREVIEW_FIELDS_def)

lemma snapshot_returns:
  assumes "snapshot w g d mode ev c s = (Inr p, s')"
  obtains r c' where "load w d s = Inr r" "attempts_of r \<noteq> []" "resolved_attempt (last (attempts_of r))" "mode \<in> {''resume'', ''recovery_only''}"
    "make_preview w g d mode ev r c' = Inr p" "intent_only s s'"
    "case c of Some x \<Rightarrow> c' = x \<and> s' = s | None \<Rightarrow> recovery_context w g d (int_of (afield (last (attempts_of r)) ''generation'')) s = (Inr c', s')"
proof -
  have f: "intent_only s s'" by (rule writes_intentD [OF frame_snapshot assms])
  from assms obtain r c' where "load w d s = Inr r" "attempts_of r \<noteq> []" "resolved_attempt (last (attempts_of r))"
    "mode \<in> {''resume'', ''recovery_only''}" "make_preview w g d mode ev r c' = Inr p"
    "(case c of Some c \<Rightarrow> ret c | None \<Rightarrow> recovery_context w g d (int_of (afield (last (attempts_of r)) ''generation''))) s = (Inr c', s')"
    by (auto simp: snapshot_def then_op_returns bind_op_returns)
  with f that [of r c'] show ?thesis by (cases c) auto
qed

lemma recovery_context_extends: "recovery_context w g d n s = (r, s') \<Longrightarrow> extends s s'"
proof -
  assume a: "recovery_context w g d n s = (r, s')"
  obtain q s0 where o: "open_directory w d True s = (q, s0)" by (cases "open_directory w d True s") auto
  with a have "dirs s' = dirs s0" "store_root s' = store_root s0"
    by (auto simp: recovery_context_def locked_def Let_def split: sum.splits if_splits option.splits prod.splits)
  then show ?thesis using open_directory_extends [OF o] extends_same extends_trans by blast
qed

lemma snapshot_extends: "snapshot w g d mode ev c s = (Inr p, s') \<Longrightarrow> extends s s'"
  by (erule snapshot_returns) (auto dest: recovery_context_extends split: option.splits)

lemma loaded_last_generation:
  assumes "load w d s = Inr r" and "attempts_of r \<noteq> []"
  shows "afield (last (attempts_of r)) ''generation'' = JInt (int (length (attempts_of r)))"
  by (rule valid_last_generation [OF loaded_valid [OF assms(1)] assms(2)])

text \<open>The tick's intent on such a snapshot passes the checks it is read with.\<close>

lemma tick_intent_checks:
  assumes "make_preview w g d mode ev r c = Inr p" and "load w d s = Inr r" and "attempts_of r \<noteq> []"
    and "event_id_ok ev" and "mode \<in> {''resume'', ''recovery_only''}" and "0 \<le> n"
  shows "intent_checks d (JObj (tick_intent p n)) = Inr ()" "normal_intent (tick_intent p n) = tick_intent p n"
proof -
  note p = preview_fields [OF assms(1)] loaded_last_generation [OF assms(2,3)]
  have len: "1 \<le> int (length (attempts_of r))" using assms(3) by (cases "attempts_of r") auto
  have k: "\<not> keys_are (tick_intent p n) legacy_keys" "keys_are (tick_intent p n) reissue_keys" "has_key (tick_intent p n) ''reissues''"
    using keys_are_absent [of "tick_intent p n" "''approver''" legacy_keys]
    by (simp_all add: tick_intent_def keys_are_def legacy_keys_def reissue_keys_def has_key_def)
  then show "normal_intent (tick_intent p n) = tick_intent p n" by (simp add: normal_intent_def)
  have i: "dget (tick_intent p n) ''version'' = JInt 1" "dget (tick_intent p n) ''status'' = JStr ''approved''"
    "dget (tick_intent p n) ''approver'' = JStr ''tick''" "dget (tick_intent p n) ''preview'' = JObj p" "dget (tick_intent p n) ''reissues'' = JInt n"
    by (simp_all add: tick_intent_def dget_Cons)
  show "intent_checks d (JObj (tick_intent p n)) = Inr ()"
    using assms(5) unfolding intent_checks_def Let_def
    using assms(3,6) by (simp add: k i p(1-6) assms(4) len p(8) APPROVERS_def)
qed

section \<open>The tick's approval, case by case\<close>

definition approves :: "dict \<Rightarrow> bool" where
  "approves v \<longleftrightarrow> dget v ''approved'' = JBool True"

lemma verdict_returns:
  "verdict reason n ev mode = Inr v \<longleftrightarrow> reason \<in> set RECOVERY_REASONS \<and>
     v = [(''approved'', JBool (reason \<in> {''recovery_approved'', ''recovery_already_approved''})), (''event_id'', ev),
       (''reason'', JStr reason), (''generation'', JInt n), (''mode'', mode)]"
  by (auto simp: verdict_def)

lemma verdict_approves:
  "verdict reason n ev mode = Inr v \<Longrightarrow> approves v \<longleftrightarrow> reason \<in> {''recovery_approved'', ''recovery_already_approved''}"
  by (auto simp: verdict_returns approves_def dget_Cons)

lemma refuse_returns: "refuse w d n reason s = (Inr v, s') \<Longrightarrow> verdict reason n JNull JNull = Inr v"
  by (auto simp: refuse_def then_op_returns)

lemma refuse_not_approved:
  "refuse w d n reason s = (Inr v, s') \<Longrightarrow> reason \<notin> {''recovery_approved'', ''recovery_already_approved''} \<Longrightarrow> \<not> approves v"
  using verdict_approves [OF refuse_returns] by blast

lemma catch_returns:
  "catch_op m h s = (Inr y, s') \<longleftrightarrow> m s = (Inr y, s') \<or> (\<exists>e s1. m s = (Inl e, s1) \<and> h e s1 = (Inr y, s'))"
  by (auto simp: catch_op_def split: prod.splits sum.splits)

lemma approval_failed_not_approved: "approval_failed n e s = (Inr v, s') \<Longrightarrow> \<not> approves v"
  by (auto simp: approval_failed_def verdict_approves dest!: verdict_approves split: if_splits)

lemma still_approved_returns:
  assumes "still_approved w g d mode r n intent s = (Inr (Some v), s')"
  obtains i p where "intent = Some i" "tick_approved i n" "\<not> event_used r (dget (dict_of (dget i ''preview'')) ''event_id'')"
    "snapshot w g d mode (str_of (dget (dict_of (dget i ''preview'')) ''event_id'')) None s = (Inr p, s')"
    "py_eq (JObj p) (dget i ''preview'')"
    "verdict ''recovery_already_approved'' n (dget (dict_of (dget i ''preview'')) ''event_id'') (JStr mode) = Inr v"
  using assms by (auto simp: still_approved_def Let_def catch_returns bind_op_returns split: option.splits if_splits)

lemma new_approval_returns:
  assumes "new_approval w g fresh d mode n intent c s = (Inr v, s')" and "approves v"
  obtains p s1 where "snapshot w g d mode fresh (Some c) s = (Inr p, s1)" "next_reissues intent n \<le> MAX_REISSUES"
    "write_intent w d (tick_intent p (next_reissues intent n)) s1 = (Inr (), s')"
    "verdict ''recovery_approved'' n (JStr fresh) (JStr mode) = Inr v"
  using assms refuse_not_approved
  by (auto simp: new_approval_def catch_returns bind_op_returns then_op_returns split: option.splits if_splits)

lemma approve_fresh_returns:
  assumes "approve_fresh w g fresh d mode n intent s = (Inr v, s')" and "approves v"
  obtains c s1 where "intent_only s s1" "recovery_context w g d n s = (Inr c, s1)" "\<not> truthy (dget c ''legacy_evidence_absent'')"
    "new_approval w g fresh d mode n intent c s1 = (Inr v, s')"
proof -
  from assms obtain c s1 where c: "recovery_context w g d n s = (Inr c, s1)" "\<not> truthy (dget c ''legacy_evidence_absent'')"
    "new_approval w g fresh d mode n intent c s1 = (Inr v, s')"
    using refuse_not_approved
    by (auto simp: approve_fresh_def catch_returns bind_op_returns bind_op_raises then_op_returns split: option.splits if_splits)
  with that writes_intentD [OF frame_recovery_context c(1)] show ?thesis by blast
qed

lemma approval_policy_returns:
  assumes "approval_policy w g fresh mg mode d r s = (Inr v, s')" and "approves v"
  defines "n \<equiv> int_of (afield (last (attempts_of r)) ''generation'')"
  obtains intent s1 where "assert_worktree_peers_resolved w d s = Inr ()" "eligible_outcome (last (attempts_of r))"
    "afield (last (attempts_of r)) ''cleanup'' = JStr ''confirmed''" "n < mg" "read_optional w d s = Inr intent" "\<not> operator_pending intent"
    "still_approved w g d mode r n intent s = (Inr (Some v), s') \<or> (intent_only s s1 \<and> approve_fresh w g fresh d mode n intent s1 = (Inr v, s'))"
proof -
  have no: "verdict ''recovery_worktree_busy'' m a b \<noteq> Inr v" "verdict ''recovery_operator_intent_pending'' m a b \<noteq> Inr v" for m a b
    using assms(2) verdict_approves by fastforce+
  have f: "intent_only s s1" if "still_approved w g d mode r n intent s = (q, s1)" for intent q s1
  proof -
    have "writes_intent (still_approved w g d mode r n intent)"
      unfolding still_approved_def Let_def by (intro frame_intro)
    then show ?thesis using that by (rule writes_intentD)
  qed
  from assms(1,2) obtain intent where "assert_worktree_peers_resolved w d s = Inr ()" "eligible_outcome (last (attempts_of r))"
    "afield (last (attempts_of r)) ''cleanup'' = JStr ''confirmed''" "n < mg" "read_optional w d s = Inr intent" "\<not> operator_pending intent"
    "bind_op (still_approved w g d mode r n intent) (\<lambda>v. case v of Some x \<Rightarrow> ret x | None \<Rightarrow> approve_fresh w g fresh d mode n intent) s = (Inr v, s')"
    using refuse_not_approved no
    by (auto simp: approval_policy_def Let_def catch_returns bind_op_returns [of "catch_op m h" for m h] bind_op_returns [of "reads f" for f]
        bind_op_raises n_def [symmetric] split: if_splits)
  with that f show ?thesis
    by (auto simp: bind_op_returns split: option.splits) blast
qed

lemma auto_approve_returns:
  assumes a: "auto_approve_resume w g fresh mg mode b d s = (Inr v, s')" and ok: "approves v"
  obtains r s1 s2 where "extends s s1" "load w d s = Inr r" "attempts_of r \<noteq> []"
    "approval_policy w g fresh mg mode d r s1 = (Inr v, s2)" "extends s2 s'"
proof -
  define body where "body = (\<lambda>r. if attempts_of r = [] then lift_res (verdict ''recovery_no_attempt'' 0 JNull JNull)
         else catch_op (approval_policy w g fresh mg mode d r) (approval_failed (int_of (afield (last (attempts_of r)) ''generation''))))"
  note goal = that
  have inner: thesis if l: "locked w d (bind_op (reads (load w d)) body) t = (Inr v, t')" and "extends s t" "extends t' s'" for t t'
  proof -
    from l obtain r s1 s2 where e: "extends t s1" "load w d t = Inr r" "body r s1 = (Inr v, s2)" "dirs t' = dirs s2" "store_root t' = store_root s2"
      by (rule transaction_returns)
    have "verdict ''recovery_no_attempt'' 0 JNull JNull \<noteq> Inr v"
      using ok verdict_approves by fastforce
    with e(3) ok have "attempts_of r \<noteq> []" "approval_policy w g fresh mg mode d r s1 = (Inr v, s2)"
      by (auto simp: body_def catch_returns dest: approval_failed_not_approved split: if_splits)
    moreover have "load w d s = Inr r" using e(2) that(2) by (simp add: load_extends)
    moreover have "extends s s1" "extends s2 s'"
      using that(2,3) e(1) extends_same [OF e(4,5)] by (auto intro: extends_trans)
    ultimately show thesis using goal by blast
  qed
  from a ok have main: "(if b then locked w d (bind_op (reads (load w d)) body)
      else bind_op (reads (worktree_lock_id w d)) (\<lambda>k. locked w k (locked w d (bind_op (reads (load w d)) body)))) s = (Inr v, s')"
    by (auto simp: auto_approve_resume_def Let_def catch_returns body_def dest: approval_failed_not_approved)
  show thesis
  proof (cases b)
    case True
    with main inner [of s s'] show thesis by simp
  next
    case False
    with main obtain k where "locked w k (locked w d (bind_op (reads (load w d)) body)) s = (Inr v, s')"
      by (auto simp: bind_op_returns)
    then obtain s1 s2 where "extends s s1" "locked w d (bind_op (reads (load w d)) body) s1 = (Inr v, s2)"
      and e: "dirs s' = dirs s2" "store_root s' = store_root s2"
      by (rule locked_returns)
    with inner [of s1 s2] extends_same [OF e] show thesis by blast
  qed
qed

section \<open>Intents the tick must not touch\<close>

text \<open>\<open>holds_intent\<close>: the intent on file is this one.\<close>

definition holds_intent :: "world \<Rightarrow> string \<Rightarrow> dict \<Rightarrow> store \<Rightarrow> bool" where
  "holds_intent w d i s \<longleftrightarrow> read_optional w d s = Inr (Some i)"

lemma keeps_locked [keeps_intro]:
  assumes "keeps (holds_intent w d i) body"
  shows "keeps (holds_intent w d i) (locked w' k body)"
  unfolding keeps_def
proof (intro allI impI)
  fix s assume h: "holds_intent w d i s"
  obtain q s0 where o: "open_directory w' k True s = (q, s0)" by (cases "open_directory w' k True s") auto
  have h0: "holds_intent w d i s0"
    using h read_optional_extends [OF open_directory_extends [OF o]] by (simp add: holds_intent_def)
  moreover from h0 have "holds_intent w d i (s0\<lparr>held := hs\<rparr>)" for hs by (simp add: holds_intent_def)
  ultimately have b: "holds_intent w d i (snd (body s0))" "holds_intent w d i (snd (body (s0\<lparr>held := hs\<rparr>)))" for hs
    using assms by (simp_all add: keeps_def)
  then have "body (s0\<lparr>held := hs\<rparr>) = (x, t) \<Longrightarrow> read_optional w d t = Inr (Some i)" for hs x t
    unfolding holds_intent_def by (metis snd_conv)
  with b h0 o show "holds_intent w d i (snd (locked w' k body s))"
    by (auto simp: locked_def Let_def holds_intent_def split: sum.splits prod.splits option.splits)
qed

lemma keeps_reading [keeps_intro]:
  "keeps (holds_intent w d i) (k (Some i)) \<Longrightarrow> keeps (holds_intent w d i) (bind_op (reads (read_optional w d)) k)"
  by (auto simp: keeps_def bind_op_def holds_intent_def)

lemma keeps_retract [keeps_intro]:
  "\<not> tick_approved i n \<Longrightarrow> keeps (holds_intent w d i) (retract_stale_tick_approval w d n)"
  unfolding retract_stale_tick_approval_def by (intro keeps_catch keeps_reading keeps_if) (auto intro: keeps_intro)

lemma keeps_refuse [keeps_intro]: "\<not> tick_approved i n \<Longrightarrow> keeps (holds_intent w d i) (refuse w d n reason)"
  unfolding refuse_def by (intro keeps_intro)

lemma operator_pending_not_tick: "operator_pending (Some i) \<Longrightarrow> \<not> tick_approved i n"
  by (auto simp: operator_pending_def tick_approved_def)

lemma auto_approve_keeps_operator:
  assumes "operator_pending (Some i)"
  shows "keeps (holds_intent w d i) (auto_approve_resume w g fresh mg mode b d)"
proof -
  have pending: "(if operator_pending (Some i) then m else k) = m" for m k :: "(store, dict) op"
    using assms by simp
  have "keeps (holds_intent w d i) (approval_failed n e)" for n e
    unfolding approval_failed_def by (intro keeps_intro)
  moreover have tail: "keeps (holds_intent w d i) (bind_op (reads (read_optional w d)) (\<lambda>intent. if operator_pending intent then lift_res q else k intent))"
    for q and k :: "dict option \<Rightarrow> (store, dict) op"
    by (rule keeps_reading) (simp only: pending keeps_lift)
  moreover have "keeps (holds_intent w d i) (approval_policy w g fresh mg mode d r)" for r
    unfolding approval_policy_def Let_def
    by (intro keeps_bind [of _ "catch_op m h" for m h] keeps_bind [of _ "reads (assert_worktree_peers_resolved w d)"] keeps_catch keeps_if
        keeps_refuse operator_pending_not_tick [OF assms] tail keeps_lift keeps_reads keeps_ret keeps_raise)
  ultimately show ?thesis
    unfolding auto_approve_resume_def Let_def by (intro keeps_intro)
qed

end
