(* ===== verification/RecoveryExample.thy ===== *)
theory RecoveryExample
  imports RecoveryHistory ProgressExample
begin

text \<open>
  A timed-out attempt with a journal on which the tick approves a resumption: the instance of the
  witnesses for the recovery approvals.
\<close>

definition rx_record :: dict where
  "rx_record = dput ''registration'' (JObj pj_registration) ex_record2"

definition rx_event :: string where "rx_event = replicate 32 (CHR ''e'')"

definition rx_files :: "(string \<times> fcontent) list" where
  "rx_files = [(RECORD, File 900 (Some (JObj rx_record))), (PROGRESS, File (file_size (JObj pj_journal0)) (Some (JObj pj_journal0))),
     (ANCHOR, File (file_size (anchor_for ex_world pj_journal0)) (Some (anchor_for ex_world pj_journal0)))]"

definition rx_store :: store where
  "rx_store = \<lparr>store_root = ''/state'', dirs = [(''run-1'', rx_files)], held = [''run-1'']\<rparr>"

definition rx_context :: dict where
  "rx_context = [(''version'', JInt 1), (''mode'', JStr ''resume''), (''plan_identity'', JStr (replicate 64 (CHR ''0''))),
     (''worktree'', JStr ''/work/tree''), (''branch'', JStr ''main''), (''head'', JStr c1), (''accepted'', JList []),
     (''current_task'', JStr ''t1''), (''candidate_commits'', JList []), (''dirty'', JBool False),
     (''status_sha256'', JStr (replicate 64 (CHR ''a''))), (''subtask_guarantee'', JBool True), (''legacy_evidence_absent'', JBool False),
     (''instruction'', JStr INSTRUCTION)]"

definition rx_preview :: dict where
  "rx_preview = [(''version'', JInt 1), (''execution_id'', JStr ''run-1''), (''event_id'', JStr rx_event), (''generation'', JInt 1),
     (''mode'', JStr ''resume''), (''registration_sha256'', JStr (replicate 64 (CHR ''a''))), (''head'', JStr c1), (''branch'', JStr ''main''),
     (''worktree'', JStr ''/work/tree''), (''work_sha256'', JStr (replicate 64 (CHR ''a''))), (''context'', JObj (dput ''operator_mode'' (JStr ''resume'') rx_context))]"

definition rx_after :: store where
  "rx_after = put_file ''run-1'' INTENT (File (file_size (JObj (tick_intent rx_preview 0))) (Some (JObj (tick_intent rx_preview 0)))) rx_store"

definition rx_verdict :: dict where
  "rx_verdict = [(''approved'', JBool True), (''event_id'', JStr rx_event), (''reason'', JStr ''recovery_approved''),
     (''generation'', JInt 1), (''mode'', JStr ''resume'')]"

lemma rx_valid: "validate ex_world (JObj rx_record) = Inr ()"
proof -
  have "keys_are rx_record RECORD_FIELDS"
    using ex_valid2 unfolding rx_record_def by (auto simp: validate_iff RECORD_FIELDS_def intro!: keys_are_dput)
  moreover have "attempts_of rx_record = attempts_of ex_record2" by (simp add: rx_record_def attempts_of_def)
  ultimately show ?thesis
    using ex_valid2 pj_registration_valid by (simp add: validate_iff rx_record_def)
qed

lemma rx_fields:
  "dget rx_record ''version'' = JInt SCHEMA_VERSION" "dget rx_record ''execution_id'' = JStr ''run-1''"
  "registration_of rx_record = pj_registration" "worktree_of rx_record = ''/work/tree''" "attempts_of rx_record = attempts_of ex_record2"
proof -
  have "str_of (dget pj_registration ''worktree'') = ''/work/tree''" by code_simp
  then show "dget rx_record ''version'' = JInt SCHEMA_VERSION" "dget rx_record ''execution_id'' = JStr ''run-1''"
    "registration_of rx_record = pj_registration" "worktree_of rx_record = ''/work/tree''" "attempts_of rx_record = attempts_of ex_record2"
    using ex_rec [of ex_record2] by (simp_all add: rx_record_def registration_of_def worktree_of_def attempts_of_def)
qed

lemma rx_attempt: "attempts_of ex_record2 \<noteq> []" "eligible_outcome (last (attempts_of ex_record2))"
  "afield (last (attempts_of ex_record2)) ''cleanup'' = JStr ''confirmed''" "afield (last (attempts_of ex_record2)) ''status'' = JStr ''timed_out''"
  by code_simp+

lemma rx_load: "load ex_world ''run-1'' rx_store = Inr rx_record"
proof -
  have "read_json ex_world ''run-1'' RECORD rx_store = Inr (JObj rx_record)"
    using ex_ids by (simp add: read_json_returns MAX_RECORD_BYTES_def rx_store_def rx_files_def)
  then show ?thesis
    using rx_valid rx_fields by (auto simp: load_returns accept_record_returns upgrade_current ex_outside rx_store_def)
qed

lemma rx_reads:
  "read_json ex_world ''run-1'' PROGRESS rx_store = Inr (JObj pj_journal0)"
  "read_json ex_world ''run-1'' ANCHOR rx_store = Inr (JObj [(''version'', JInt 1), (''digest'', JStr (digest ex_world (JObj pj_journal0)))])"
  using ex_ids files_distinct pj_anchor_size [of pj_journal0]
  by (auto simp add: read_json_returns rx_store_def rx_files_def anchor_for_def MAX_RECORD_BYTES_def pj_sizes)

lemma rx_registration: "registration ex_world ''run-1'' rx_store = Inr pj_registration"
  by (simp add: registration_def rx_load rx_fields)

lemma rx_journal: "load_journal ex_world pj_git ''run-1'' rx_store = Inr pj_journal0"
  by (rule journal_loads [OF rx_reads(1) rx_registration pj_drift _ _ rx_reads(2)]) (simp_all add: pj_journal0_def dget_Cons)

text \<open>The stores the operations see below: only the intent may differ, and the execution is locked.\<close>

definition rx_like :: "store \<Rightarrow> bool" where
  "rx_like s \<longleftrightarrow> intent_only rx_store s \<and> map_of (dirs s) ''run-1'' \<noteq> None \<and> ''run-1'' \<in> set (held s)"

lemma rx_like_self [simp]: "rx_like rx_store"
  by (simp add: rx_like_def) (simp add: rx_store_def)

lemma rx_like_facts:
  assumes "rx_like s"
  shows "load ex_world ''run-1'' s = Inr rx_record" "load_journal ex_world pj_git ''run-1'' s = Inr pj_journal0"
    "registration ex_world ''run-1'' s = Inr pj_registration" "locked ex_world ''run-1'' body s = body s"
proof -
  have i: "intent_only rx_store s" using assms by (simp add: rx_like_def)
  show l: "load ex_world ''run-1'' s = Inr rx_record"
    and "load_journal ex_world pj_git ''run-1'' s = Inr pj_journal0"
    using rx_load rx_journal by (simp_all add: intent_only_load [OF i] intent_only_journal [OF i])
  from l show "registration ex_world ''run-1'' s = Inr pj_registration" by (simp add: registration_def rx_fields)
  show "locked ex_world ''run-1'' body s = body s"
    using assms ex_ids by (auto simp: locked_def open_directory_def rx_like_def)
qed

lemma rx_git_text: "rx_like s \<Longrightarrow> git_text ex_world pj_git ''run-1'' s args = Inr (strip (pj_out args))"
  by (simp add: git_text_def rx_like_facts pj_git_def)

lemma rx_check_git: "rx_like s \<Longrightarrow> check_git ex_world pj_git ''run-1'' s j = Inr (c1, last_commit j)"
proof -
  assume l: "rx_like s"
  have "lexists pj_git p = False" for p by (simp add: pj_git_def)
  then show ?thesis
    by (simp add: check_git_def rx_like_facts [OF l] rx_git_text [OF l] pj_strips pj_contract has_key_def Let_def raise_if_def hidden_flag_def)
qed

lemma rx_recovery_context:
  assumes "rx_like s"
  shows "recovery_context ex_world pj_git ''run-1'' 1 s = (Inr rx_context, s)"
proof -
  note l = rx_like_facts [OF assms] rx_git_text [OF assms] rx_check_git [OF assms]
  have a: "current_attempt ex_world ''run-1'' 1 s = Inr ()"
    using ex_attempt2(1) rx_attempt(1) by (simp add: current_attempt_def l rx_fields)
  have j: "items (dget pj_journal0 ''accepted'') = []" "items (dget pj_journal0 ''task_ids'') = [JStr ''t1'']"
    "dget pj_journal0 ''plan_identity'' = JStr (replicate 64 (CHR ''0''))"
    by (simp_all add: pj_journal0_def dget_Cons)
  have out: "pj_out [''rev-list'', ''--reverse'', x] = []" "pj_out [''status'', ''--porcelain=v1'', ''-z''] = []" "strip [] = []" for x
    by (simp_all add: pj_out_def strip_def rstrip_while_def)
  have w: "dget pj_registration ''worktree'' = JStr ''/work/tree''" by code_simp
  have sha: "sha256 ex_world [] = replicate 64 (CHR ''a'')" by (simp add: ex_world_def)
  show ?thesis
    by (simp add: recovery_context_def l a context_of_def out j Let_def raise_if_def
        recovery_mode_def rx_context_def pj_contract w sha)
qed

lemma rx_make_preview: "make_preview ex_world pj_git ''run-1'' ''resume'' rx_event rx_record rx_context = Inr rx_preview"
proof -
  have out: "git_bytes pj_git t a = Inr []" if "a \<in> set ([''ls-files'', ''--others'', ''--exclude-standard'', ''-z''] # DIFFS)" for t a
    using that by (auto simp: git_bytes_def pj_git_def pj_out_def DIFFS_def)
  then have "rmap (git_bytes pj_git t) DIFFS = Inr [[], [], []]" for t
    by (simp add: DIFFS_def)
  with out have w: "work_digest ex_world pj_git t = Inr (replicate 64 (CHR ''a''))" for t
    by (simp add: work_digest_def) (simp add: ex_world_def)
  have f: "finite_json (JObj pj_registration)" "path_text (path_parts ''/work/tree'') = ''/work/tree''"
    "\<not> truthy (dget rx_context ''legacy_evidence_absent'')" "dget rx_context ''head'' = JStr c1"
    by code_simp+
  have d: "digest ex_world v = replicate 64 (CHR ''a'')" for v by (simp add: digest_def ex_world_def)
  show ?thesis
    using ex_attempt2(1) f
    by (simp add: make_preview_def rx_fields Let_def w strict_digest_def d mode_context_def pj_contract rx_preview_def del: finite_json.simps)
qed

lemma rx_intent_size: "length (dumps default_style (JObj (tick_intent rx_preview 0))) = 1154" "finite_json (JObj (tick_intent rx_preview 0))"
  by code_simp+

lemma rx_no_intent: "read_optional ex_world ''run-1'' rx_store = Inr None"
proof -
  have "INTENT \<notin> {RECORD, PROGRESS, ANCHOR}" by (simp add: INTENT_def RECORD_def PROGRESS_def ANCHOR_def)
  then show ?thesis
    using ex_ids by (simp add: read_optional_def open_directory_def safe_read_def Let_def rx_store_def rx_files_def)
qed

lemma rx_write: "write_intent ex_world ''run-1'' (tick_intent rx_preview 0) rx_store = (Inr (), rx_after)"
proof -
  have "file_size (JObj (tick_intent rx_preview 0)) \<le> INTENT_LIMIT"
    using canonical_length [of "JObj (tick_intent rx_preview 0)"] unfolding file_size_def rx_intent_size INTENT_LIMIT_def by simp
  then show ?thesis
    using rx_intent_size ex_ids
    by (simp add: write_intent_returns atomic_write_returns rx_after_def INTENT_LIMIT_def MAX_RECORD_BYTES_def del: finite_json.simps)
      (simp add: rx_store_def)
qed

lemma rx_snapshot:
  assumes "rx_like s"
  shows "snapshot ex_world pj_git ''run-1'' ''resume'' rx_event (Some rx_context) s = (Inr rx_preview, s)"
    "snapshot ex_world pj_git ''run-1'' ''resume'' rx_event None s = (Inr rx_preview, s)"
  using rx_attempt ex_attempt2
  by (simp_all add: snapshot_def then_op_def bind_op_def rx_like_facts [OF assms] rx_fields rx_recovery_context [OF assms] rx_make_preview)

lemma rx_approve: "auto_approve_resume ex_world pj_git rx_event 3 ''resume'' True ''run-1'' rx_store = (Inr rx_verdict, rx_after)"
proof -
  have peers: "assert_worktree_peers_resolved ex_world ''run-1'' rx_store = Inr ()"
    by (simp add: assert_worktree_peers_resolved_def rx_load) (simp add: rx_store_def)
  have absent: "\<not> truthy (dget rx_context ''legacy_evidence_absent'')" by code_simp
  have v: "verdict ''recovery_approved'' 1 (JStr rx_event) (JStr ''resume'') = Inr rx_verdict"
    by (simp add: verdict_def rx_verdict_def RECOVERY_REASONS_def)
  show ?thesis
    using rx_attempt ex_attempt2(1)
    by (simp add: auto_approve_resume_def approval_policy_def catch_op_def bind_op_def then_op_def rx_like_facts rx_fields peers rx_no_intent
        operator_pending_def still_approved_def approve_fresh_def rx_recovery_context absent new_approval_def rx_snapshot
        next_reissues_def MAX_REISSUES_def rx_write v Let_def)
qed

text \<open>Consuming that approval.\<close>

definition rx_locked :: store where
  "rx_locked = rx_after\<lparr>dirs := dirs rx_after @ [(ex_lock, [])], held := [ex_lock, ''run-1'']\<rparr>"

definition rx_done :: store where
  "rx_done = put_file ''run-1'' INTENT (File (file_size (JObj (consumed_intent (tick_intent rx_preview 0) rx_preview)))
     (Some (JObj (consumed_intent (tick_intent rx_preview 0) rx_preview)))) rx_locked\<lparr>held := [''run-1'']\<rparr>"

lemma rx_after_intent: "read_optional ex_world ''run-1'' rx_after = Inr (Some (tick_intent rx_preview 0))"
proof -
  have e: "event_id_ok rx_event" by code_simp
  note t = tick_intent_checks [OF rx_make_preview rx_load, of 0]
  show ?thesis using read_written_intent [OF rx_write] t rx_attempt rx_fields e by simp
qed

lemma rx_like_after: "rx_like rx_after" "rx_like rx_locked"
proof -
  have i: "intent_only rx_store rx_after"
    by (rule writes_intentD [OF frame_auto_approve rx_approve])
  have d: "map_of (dirs rx_after) ''run-1'' \<noteq> None" "held rx_after = [''run-1'']"
    by (simp_all add: rx_after_def put_file_def rx_store_def update_conv')
  from i d show "rx_like rx_after" by (simp add: rx_like_def)
  have "extends rx_after (rx_after\<lparr>dirs := dirs rx_after @ [(ex_lock, [])]\<rparr>)"
    by (auto simp: extends_def map_add_def split: option.splits)
  then have "intent_only rx_after rx_locked" by (simp add: rx_locked_def intent_only_extends)
  with i d show "rx_like rx_locked"
    by (auto simp: rx_like_def intro: intent_only_trans) (simp_all add: rx_locked_def map_add_def split: option.splits)
qed

lemma rx_preview_same: "py_eq (JObj rx_preview) (JObj rx_preview)" "str_of (dget rx_preview ''mode'') = ''resume''"
  "dget rx_preview ''event_id'' = JStr rx_event"
  by code_simp+

lemma rx_lock_id: "rx_like s \<Longrightarrow> worktree_lock_id ex_world ''run-1'' s = Inr ex_lock"
  by (simp add: worktree_lock_id_def rx_like_facts rx_fields ex_lock_def) (simp add: ex_world_def)

lemma rx_peers: "assert_worktree_peers_resolved ex_world ''run-1'' rx_locked = Inr ()"
proof -
  have "dirs rx_locked = AList.update ''run-1'' fs [(''run-1'', rx_files)] @ [(ex_lock, [])]"
    if "fs = AList.update INTENT (File (file_size (JObj (tick_intent rx_preview 0))) (Some (JObj (tick_intent rx_preview 0)))) rx_files" for fs
    using that by (simp add: rx_locked_def rx_after_def put_file_def rx_store_def)
  then show ?thesis
    by (simp add: assert_worktree_peers_resolved_def rx_like_facts rx_like_after)
qed

lemma rx_relock: "worktree_locked ex_world ''run-1'' body rx_locked = body rx_locked" for body :: "(store, 'b) op"
proof -
  have "map_of (dirs rx_locked) ex_lock \<noteq> None" "held rx_locked = [ex_lock, ''run-1'']"
    by (simp_all add: rx_locked_def map_add_def split: option.splits)
  then have "locked ex_world ex_lock m rx_locked = m rx_locked" for m :: "(store, 'b) op"
    using ex_lock_ids ex_ids by (auto simp: locked_def open_directory_def)
  then show ?thesis
    by (simp add: worktree_locked_def bind_op_def [of "reads f" for f] rx_lock_id rx_like_after then_op_def rx_peers)
qed

lemma rx_locked_intent: "read_optional ex_world ''run-1'' rx_locked = Inr (Some (tick_intent rx_preview 0))"
proof -
  have "extends rx_after (rx_after\<lparr>dirs := dirs rx_after @ [(ex_lock, [])]\<rparr>)"
    by (auto simp: extends_def map_add_def split: option.splits)
  then have "extends rx_after rx_locked" by (simp add: rx_locked_def)
  then show ?thesis by (rule read_optional_extends [OF _ rx_after_intent])
qed

lemma rx_validate: "validate_recovery ex_world pj_git ''run-1'' rx_event rx_locked = (Inr rx_preview, rx_locked)"
  using rx_preview_same
  by (simp add: validate_recovery_def rx_relock rx_like_facts rx_like_after validate_body_def bind_op_def then_op_def rx_locked_intent
      tick_intent_def dget_Cons rx_snapshot Let_def del: py_eq.simps)

lemma rx_consumed_size: "length (dumps default_style (JObj (consumed_intent (tick_intent rx_preview 0) rx_preview))) = 1154"
  "finite_json (JObj (consumed_intent (tick_intent rx_preview 0) rx_preview))"
  by code_simp+

lemma rx_consume: "consume_recovery ex_world pj_git ''run-1'' rx_event rx_after = (Inr rx_preview, rx_done)"
proof -
  have "file_size (JObj (consumed_intent (tick_intent rx_preview 0) rx_preview)) \<le> INTENT_LIMIT"
    using canonical_length [of "JObj (consumed_intent (tick_intent rx_preview 0) rx_preview)"] unfolding file_size_def rx_consumed_size INTENT_LIMIT_def by simp
  then have w: "write_intent ex_world ''run-1'' (consumed_intent (tick_intent rx_preview 0) rx_preview) rx_locked
      = (Inr (), put_file ''run-1'' INTENT (File (file_size (JObj (consumed_intent (tick_intent rx_preview 0) rx_preview)))
          (Some (JObj (consumed_intent (tick_intent rx_preview 0) rx_preview)))) rx_locked)"
    using rx_consumed_size ex_ids rx_like_after(2)
    by (simp add: write_intent_returns atomic_write_returns INTENT_LIMIT_def MAX_RECORD_BYTES_def rx_like_def del: finite_json.simps)
  have new: "map_of (dirs rx_after) ex_lock = None" "held rx_after = [''run-1'']"
    using ex_lock_ids(2) by (simp_all add: rx_after_def put_file_def rx_store_def update_conv')
  have "rx_after\<lparr>dirs := dirs rx_after @ [(ex_lock, [])], held := [ex_lock, ''run-1'']\<rparr> = rx_locked"
    by (simp add: rx_locked_def)
  with new have lock: "locked ex_world ex_lock body rx_after = (let (r, s2) = body rx_locked in (r, s2\<lparr>held := remove1 ex_lock (held s2)\<rparr>))" for body :: "(store, 'a) op"
    using ex_lock_ids ex_ids by (simp add: locked_def open_directory_def Let_def map_add_def)
  show ?thesis
    by (simp add: consume_recovery_def worktree_locked_def bind_op_def rx_lock_id rx_like_after lock then_op_def rx_peers rx_like_facts
        rx_locked_intent rx_validate w) (simp add: rx_done_def put_file_def rx_locked_def)
qed

end
