(* ===== verification/RecoverySafety.thy ===== *)
theory RecoverySafety
  imports RecoveryExample
begin

text \<open>
  The properties of recovery approvals: the closed set of verdicts, when the tick approves, that it
  leaves operator intents alone, that an approval is consumed once, and that no recovery operation
  touches execution records or journals.
\<close>

section \<open>Library\<close>

text \<open>\<open>yields P m\<close>: what the operation returns satisfies \<open>P\<close>.\<close>

definition yields :: "('a \<Rightarrow> bool) \<Rightarrow> ('s, 'a) op \<Rightarrow> bool" where
  "yields P m \<longleftrightarrow> (\<forall>s x s'. m s = (Inr x, s') \<longrightarrow> P x)"

named_theorems yields_intro "what operations return"

lemma yieldsD: "yields P m \<Longrightarrow> m s = (Inr x, s') \<Longrightarrow> P x"
  unfolding yields_def by blast

lemma yields_ret [yields_intro]: "P x \<Longrightarrow> yields P (ret x)"
  and yields_raise [yields_intro]: "yields P (raise e)"
  by (simp_all add: yields_def)

lemma yields_lift [yields_intro]: "(\<And>x. r = Inr x \<Longrightarrow> P x) \<Longrightarrow> yields P (lift_res r)"
  by (simp add: yields_def)

lemma yields_bind [yields_intro]: "(\<And>x. yields P (f x)) \<Longrightarrow> yields P (bind_op m f)"
  unfolding yields_def by (metis bind_op_returns)

lemma yields_then [yields_intro]: "yields P k \<Longrightarrow> yields P (then_op m k)"
  unfolding then_op_def by (intro yields_bind)

lemma yields_catch [yields_intro]: "yields P m \<Longrightarrow> (\<And>e. yields P (h e)) \<Longrightarrow> yields P (catch_op m h)"
  unfolding yields_def catch_returns by blast

lemma yields_if [yields_intro]: "yields P a \<Longrightarrow> yields P b \<Longrightarrow> yields P (if c then a else b)"
  by simp

lemma yields_option [yields_intro]: "yields P a \<Longrightarrow> (\<And>x. yields P (f x)) \<Longrightarrow> yields P (case v of None \<Rightarrow> a | Some x \<Rightarrow> f x)"
  by (cases v) simp_all

lemma yields_locked [yields_intro]: "yields P m \<Longrightarrow> yields P (locked w k m)"
  unfolding yields_def by (blast elim: locked_returns)

text \<open>What every verdict looks like.\<close>

definition is_verdict :: "dict \<Rightarrow> bool" where
  "is_verdict v \<longleftrightarrow> (\<exists>reason n ev mode. verdict reason n ev mode = Inr v)"

lemma verdict_yields: "yields is_verdict (lift_res (verdict reason n ev mode))"
  by (auto simp: yields_def is_verdict_def)

lemma still_approved_verdict: "still_approved w g d mode r n i s = (Inr (Some v), s') \<Longrightarrow> is_verdict v"
  by (blast elim: still_approved_returns intro: is_verdict_def [THEN iffD2])

lemma refuse_yields: "yields is_verdict (refuse w d n reason)"
  unfolding refuse_def by (intro yields_then verdict_yields)

lemma fresh_yields: "yields is_verdict (approve_fresh w g fresh d mode n i)"
  unfolding approve_fresh_def new_approval_def Let_def
  by (intro yields_then yields_if yields_option refuse_yields verdict_yields yields_bind [of _ "\<lambda>valid. if \<not> valid then m else k" for m k]
      yields_bind)

lemma policy_yields: "yields is_verdict (approval_policy w g fresh mg mode d r)"
proof -
  have tail: "yields is_verdict (bind_op (still_approved w g d mode r n i)
      (\<lambda>v. case v of Some x \<Rightarrow> ret x | None \<Rightarrow> approve_fresh w g fresh d mode n i))" for n i
    unfolding yields_def bind_op_returns
  proof (intro allI impI, elim exE conjE)
    fix s x s' v s1
    assume v: "still_approved w g d mode r n i s = (Inr v, s1)"
      and k: "(case v of None \<Rightarrow> approve_fresh w g fresh d mode n i | Some x \<Rightarrow> ret x) s1 = (Inr x, s')"
    show "is_verdict x"
      using v k by (cases v) (auto intro: still_approved_verdict yieldsD [OF fresh_yields])
  qed
  show ?thesis
    unfolding approval_policy_def Let_def
    by (intro yields_bind [of _ "\<lambda>free. if \<not> free then m else k" for m k] yields_if refuse_yields verdict_yields
        yields_bind [of _ "\<lambda>intent. if operator_pending intent then m else k intent" for m k] tail)
qed

lemma auto_approve_verdict: "auto_approve_resume w g fresh mg mode b d s = (Inr v, s') \<Longrightarrow> is_verdict v"
proof -
  assume "auto_approve_resume w g fresh mg mode b d s = (Inr v, s')"
  moreover have "yields is_verdict (approval_failed n e)" for n e
    unfolding approval_failed_def by (intro yields_if verdict_yields yields_raise)
  then have "yields is_verdict (auto_approve_resume w g fresh mg mode b d)"
    unfolding auto_approve_resume_def Let_def
    by (intro yields_catch yields_if yields_locked verdict_yields policy_yields
        yields_bind [of _ "\<lambda>k. locked w k m" for m] yields_bind [of _ "\<lambda>r. if attempts_of r = [] then m else k r" for m k])
  ultimately show ?thesis by (rule yieldsD [rotated])
qed

section \<open>The policy, written out\<close>

text \<open>Every other record on file can be read, and on the same worktree has no attempt that may still be at work.\<close>

definition peers_free :: "world \<Rightarrow> string \<Rightarrow> dict \<Rightarrow> store \<Rightarrow> bool" where
  "peers_free w d r s \<longleftrightarrow> (\<forall>(k, files) \<in> set (dirs s). map_of files RECORD \<noteq> None \<and> k \<noteq> d \<longrightarrow> (\<exists>other. load w k s = Inr other
     \<and> (resolve w (worktree_of other) = resolve w (worktree_of r)
        \<longrightarrow> (\<forall>a \<in> set (attempts_of other). afield a ''cleanup'' = JStr ''confirmed''
              \<and> str_in (afield a ''status'') [''exited'', ''timed_out'', ''interrupted'', ''blocked'']))))"

text \<open>
  The reason the policy gives for a record, by the first condition that fails; \<open>n\<close> is the generation
  it answers for.  Only work that passes all of them comes to the evidence, an intact journal and a safe worktree.
\<close>

definition policy_reason :: "world \<Rightarrow> gitw \<Rightarrow> int \<Rightarrow> string \<Rightarrow> dict \<Rightarrow> store \<Rightarrow> int \<Rightarrow> string \<Rightarrow> bool" where
  "policy_reason w g limit d r s n reason \<longleftrightarrow>
     (if attempts_of r = [] then reason = ''recovery_no_attempt'' \<and> n = 0
      else let a = last (attempts_of r) in n = int (length (attempts_of r))
        \<and> (if \<not> peers_free w d r s then reason = ''recovery_worktree_busy''
           else if afield a ''status'' \<notin> {JStr ''timed_out'', JStr ''interrupted''} \<and> (afield a ''status'' \<noteq> JStr ''exited'' \<or> afield a ''reason'' \<noteq> JStr ''result_invalid'')
             then reason = ''recovery_outcome_ineligible''
           else if afield a ''cleanup'' \<noteq> JStr ''confirmed'' then reason = ''recovery_cleanup_unconfirmed''
           else if limit \<le> int (length (attempts_of r)) then reason = ''recovery_generation_exhausted''
           else if \<exists>i. read_optional w d s = Inr (Some i) \<and> dget i ''approver'' = JStr ''operator'' \<and> dget i ''status'' \<in> {JStr ''prepared'', JStr ''approved''}
             then reason = ''recovery_operator_intent_pending''
           else reason \<in> {''recovery_approved'', ''recovery_already_approved'', ''recovery_evidence_legacy'', ''recovery_worktree_unsafe'', ''recovery_state_changed''}
             \<or> reason = ''recovery_evidence_invalid'' \<and> (\<forall>j. load_journal w g d s \<noteq> Inr j)))"

definition verdict_says :: "dict \<Rightarrow> string \<Rightarrow> int \<Rightarrow> bool" where
  "verdict_says v reason n \<longleftrightarrow> dget v ''reason'' = JStr reason \<and> dget v ''generation'' = JInt n
     \<and> dget v ''approved'' = JBool (reason \<in> {''recovery_approved'', ''recovery_already_approved''})
     \<and> (if reason \<in> {''recovery_approved'', ''recovery_already_approved''} then True else dget v ''event_id'' = JNull \<and> dget v ''mode'' = JNull)"

lemma verdict_said: "verdict reason n ev m = Inr v \<Longrightarrow> reason \<in> {''recovery_approved'', ''recovery_already_approved''} \<or> ev = JNull \<and> m = JNull \<Longrightarrow> verdict_says v reason n"
  by (auto simp: verdict_returns verdict_says_def dget_Cons)

lemma refused_says: "refuse w d n reason s = (Inr v, s') \<Longrightarrow> verdict_says v reason n"
  using refuse_returns verdict_said by blast

lemma lifted_says: "lift_res (verdict reason n JNull JNull) s = (Inr v, s') \<Longrightarrow> verdict_says v reason n"
  using verdict_said by auto

lemma peers_free_iff: "load w d s = Inr r \<Longrightarrow> assert_worktree_peers_resolved w d s = Inr () \<longleftrightarrow> peers_free w d r s"
  by (auto simp: assert_worktree_peers_resolved_def peers_free_def rbind_eq_Inr resolved_attempt_def TERMINAL_def)

lemma new_approval_says:
  assumes "new_approval w g fresh d mode n i c s = (Inr v, s')"
  shows "\<exists>reason \<in> {''recovery_approved'', ''recovery_worktree_unsafe'', ''recovery_state_changed''}. verdict_says v reason n"
  using assms verdict_said [of _ n _ _ v]
  by (auto simp: new_approval_def bind_op_returns [of "catch_op m h" for m h] then_op_returns split: option.splits if_splits dest: refused_says)

lemma approve_fresh_says:
  assumes "approve_fresh w g fresh d mode n i s = (Inr v, s')"
  shows "(\<exists>reason \<in> {''recovery_approved'', ''recovery_evidence_legacy'', ''recovery_worktree_unsafe'', ''recovery_state_changed''}. verdict_says v reason n)
    \<or> verdict_says v ''recovery_evidence_invalid'' n \<and> (\<forall>j. load_journal w g d s \<noteq> Inr j)"
proof -
  from assms obtain valid s1 where c: "catch_op (bind_op (reads (load_journal w g d)) (\<lambda>_. ret True))
         (\<lambda>e. if e = FileNotFound then ret True else if is_execution_error e then ret False else raise e) s = (Inr valid, s1)"
    and k: "(if \<not> valid then refuse w d n ''recovery_evidence_invalid''
     else bind_op (catch_op (bind_op (recovery_context w g d n) (\<lambda>c. ret (Some c)))
         (\<lambda>e. if is_execution_error e then ret None else raise e)) (\<lambda>context.
     case context of
       None \<Rightarrow> refuse w d n ''recovery_worktree_unsafe''
     | Some c \<Rightarrow> if truthy (dget c ''legacy_evidence_absent'') then refuse w d n ''recovery_evidence_legacy''
         else new_approval w g fresh d mode n i c)) s1 = (Inr v, s')"
    unfolding approve_fresh_def bind_op_returns [of "catch_op m h" for m h] by blast
  show ?thesis
  proof (cases valid)
    case False
    then have "\<forall>j. load_journal w g d s \<noteq> Inr j" using c by (auto simp: catch_op_def bind_op_def reads_def ret_def)
    then show ?thesis using k False refused_says by auto
  next
    case True
    with k have "bind_op (catch_op (bind_op (recovery_context w g d n) (\<lambda>c. ret (Some c)))
         (\<lambda>e. if is_execution_error e then ret None else raise e)) (\<lambda>context.
     case context of
       None \<Rightarrow> refuse w d n ''recovery_worktree_unsafe''
     | Some c \<Rightarrow> if truthy (dget c ''legacy_evidence_absent'') then refuse w d n ''recovery_evidence_legacy''
         else new_approval w g fresh d mode n i c) s1 = (Inr v, s')" by simp
    then obtain found_context s2 where "(case found_context of
       None \<Rightarrow> refuse w d n ''recovery_worktree_unsafe''
     | Some c \<Rightarrow> if truthy (dget c ''legacy_evidence_absent'') then refuse w d n ''recovery_evidence_legacy''
         else new_approval w g fresh d mode n i c) s2 = (Inr v, s')" by (elim bind_op_returns [THEN iffD1, elim_format] exE conjE)
    then show ?thesis using new_approval_says [of w g fresh d mode n i _ s2 v s'] refused_says [of w d n _ s2 v s']
      by (cases found_context) (auto split: if_splits)
  qed
qed

lemma policy_says:
  assumes "approval_policy w g fresh mg mode d r s = (Inr v, s')" and r: "load w d s = Inr r" "attempts_of r \<noteq> []"
  shows "\<exists>reason n. verdict_says v reason n \<and> policy_reason w g mg d r s n reason"
proof -
  define a where "a = last (attempts_of r)"
  define n where "n = int (length (attempts_of r))"
  have n: "int_of (afield a ''generation'') = n" using loaded_last_generation [OF r] by (simp add: n_def a_def)
  have pending: "operator_pending i \<longleftrightarrow> (\<exists>x. i = Some x \<and> dget x ''approver'' = JStr ''operator'' \<and> dget x ''status'' \<in> {JStr ''prepared'', JStr ''approved''})" for i
    by (auto simp: operator_pending_def str_in_iff split: option.splits)
  have eligible: "eligible_outcome a \<longleftrightarrow> \<not> (afield a ''status'' \<notin> {JStr ''timed_out'', JStr ''interrupted''} \<and> (afield a ''status'' \<noteq> JStr ''exited'' \<or> afield a ''reason'' \<noteq> JStr ''result_invalid''))"
    by (auto simp: eligible_outcome_def str_in_iff)
  from assms(1) obtain free s1 where c: "catch_op (bind_op (reads (assert_worktree_peers_resolved w d)) (\<lambda>_. ret True))
         (\<lambda>e. if is_execution_error e then ret False else raise e) s = (Inr free, s1)"
    and k: "(if \<not> free then lift_res (verdict ''recovery_worktree_busy'' n JNull JNull)
     else if \<not> eligible_outcome a then refuse w d n ''recovery_outcome_ineligible''
     else if afield a ''cleanup'' \<noteq> JStr ''confirmed'' then refuse w d n ''recovery_cleanup_unconfirmed''
     else if mg \<le> n then refuse w d n ''recovery_generation_exhausted''
     else bind_op (reads (read_optional w d)) (\<lambda>intent.
       if operator_pending intent then lift_res (verdict ''recovery_operator_intent_pending'' n JNull JNull)
       else bind_op (still_approved w g d mode r n intent) (\<lambda>v.
         case v of Some x \<Rightarrow> ret x | None \<Rightarrow> approve_fresh w g fresh d mode n intent))) s1 = (Inr v, s')"
    unfolding approval_policy_def Let_def a_def [symmetric] n bind_op_returns [of "catch_op m h" for m h] by blast
  have s1: "s1 = s" and free: "free \<longleftrightarrow> peers_free w d r s"
    using c peers_free_iff [OF r(1)] by (auto simp: catch_op_def bind_op_def reads_def ret_def raise_def split: sum.splits if_splits)
  show ?thesis
  proof (cases "free \<and> eligible_outcome a \<and> afield a ''cleanup'' = JStr ''confirmed'' \<and> n < mg")
    case False
    define reason where "reason = (if \<not> free then ''recovery_worktree_busy'' else if \<not> eligible_outcome a then ''recovery_outcome_ineligible''
       else if afield a ''cleanup'' \<noteq> JStr ''confirmed'' then ''recovery_cleanup_unconfirmed'' else ''recovery_generation_exhausted'')"
    have "verdict_says v reason n"
      using k False refused_says [of w d n _ s1 v s'] lifted_says [of _ n s1 v s'] unfolding reason_def by (auto split: if_splits)
    moreover have "policy_reason w g mg d r s n reason"
      using False r(2) unfolding policy_reason_def Let_def a_def [symmetric] n_def [symmetric] free [symmetric] reason_def eligible by auto
    ultimately show ?thesis by blast
  next
    case True
    then obtain intent where i: "read_optional w d s = Inr intent" and m: "(if operator_pending intent then lift_res (verdict ''recovery_operator_intent_pending'' n JNull JNull)
       else bind_op (still_approved w g d mode r n intent) (\<lambda>v. case v of Some x \<Rightarrow> ret x | None \<Rightarrow> approve_fresh w g fresh d mode n intent)) s = (Inr v, s')"
      using k s1 by (auto simp: bind_op_returns [of "reads f" for f] reads_def)
    have q: "policy_reason w g mg d r s n reason \<longleftrightarrow> (if operator_pending intent then reason = ''recovery_operator_intent_pending''
           else reason \<in> {''recovery_approved'', ''recovery_already_approved'', ''recovery_evidence_legacy'', ''recovery_worktree_unsafe'', ''recovery_state_changed''}
             \<or> reason = ''recovery_evidence_invalid'' \<and> (\<forall>j. load_journal w g d s \<noteq> Inr j))" for reason
    proof -
      have e: "\<not> (afield a ''status'' \<notin> {JStr ''timed_out'', JStr ''interrupted''} \<and> (afield a ''status'' \<noteq> JStr ''exited'' \<or> afield a ''reason'' \<noteq> JStr ''result_invalid''))"
        using True eligible by blast
      have f: "peers_free w d r s" "afield a ''cleanup'' = JStr ''confirmed''" "\<not> mg \<le> n" using True free by auto
      have op: "(\<exists>i. read_optional w d s = Inr (Some i) \<and> dget i ''approver'' = JStr ''operator'' \<and> dget i ''status'' \<in> {JStr ''prepared'', JStr ''approved''}) \<longleftrightarrow> operator_pending intent"
        using i pending by auto
      show ?thesis by (simp only: policy_reason_def Let_def a_def [symmetric] n_def [symmetric] r(2) e f op if_True if_False simp_thms)
    qed
    show ?thesis
    proof (cases "operator_pending intent")
      case True
      then have "verdict_says v ''recovery_operator_intent_pending'' n" using m by (intro lifted_says [of _ _ s v s']) simp
      moreover have "policy_reason w g mg d r s n ''recovery_operator_intent_pending''" unfolding q using True by simp
      ultimately show ?thesis by blast
    next
      case False
      then obtain x s2 where x: "still_approved w g d mode r n intent s = (Inr x, s2)"
        and f: "(case x of Some y \<Rightarrow> ret y | None \<Rightarrow> approve_fresh w g fresh d mode n intent) s2 = (Inr v, s')"
        using m by (auto simp: bind_op_returns)
      have io: "intent_only s s2"
      proof -
        have "writes_intent (still_approved w g d mode r n intent)" unfolding still_approved_def Let_def by (intro frame_intro)
        then show ?thesis using x by (rule writes_intentD)
      qed
      show ?thesis
      proof (cases x)
        case None
        with f have "approve_fresh w g fresh d mode n intent s2 = (Inr v, s')" by simp
        note says = approve_fresh_says [OF this, unfolded intent_only_journal [OF io]]
        then show ?thesis
        proof (elim disjE bexE conjE)
          fix reason assume reason: "reason \<in> {''recovery_approved'', ''recovery_evidence_legacy'', ''recovery_worktree_unsafe'', ''recovery_state_changed''}" and "verdict_says v reason n"
          moreover have "policy_reason w g mg d r s n reason" unfolding q if_not_P [OF False] by (rule disjI1, rule subsetD [OF _ reason]) simp
          ultimately show ?thesis by blast
        next
          assume j: "\<forall>j. load_journal w g d s \<noteq> Inr j" and "verdict_says v ''recovery_evidence_invalid'' n"
          moreover have "policy_reason w g mg d r s n ''recovery_evidence_invalid''" unfolding q if_not_P [OF False] by (rule disjI2, rule conjI [OF refl j])
          ultimately show ?thesis by blast
        qed
      next
        case (Some y)
        with x f have "still_approved w g d mode r n intent s = (Inr (Some v), s2)" by (simp add: ret_def)
        then obtain ev where "verdict ''recovery_already_approved'' n ev (JStr mode) = Inr v" by (rule still_approved_returns)
        then have "verdict_says v ''recovery_already_approved'' n" by (rule verdict_said) simp
        moreover have "policy_reason w g mg d r s n ''recovery_already_approved''" unfolding q using False by simp
        ultimately show ?thesis by blast
      qed
    qed
  qed
qed

lemma auto_approve_cases:
  assumes a: "auto_approve_resume w g fresh mg mode b d s = (Inr v, s')"
  shows "(\<exists>reason n. reason \<in> {''recovery_busy'', ''recovery_approval_failed''} \<and> verdict_says v reason n)
    \<or> (\<exists>r s1 reason n. extends s s1 \<and> load w d s1 = Inr r \<and> verdict_says v reason n \<and> policy_reason w g mg d r s1 n reason)"
    (is "?failed \<or> ?decided")
proof -
  have failed: ?failed if "approval_failed n e t = (Inr v, t')" for n e t t'
  proof -
    have "verdict ''recovery_busy'' n JNull JNull = Inr v \<or> verdict ''recovery_approval_failed'' n JNull JNull = Inr v"
      using that by (auto simp: approval_failed_def split: if_splits)
    then show ?thesis
    proof
      assume "verdict ''recovery_busy'' n JNull JNull = Inr v"
      from verdict_said [OF this] show ?thesis by (intro exI [of _ "''recovery_busy''"] exI [of _ n]) simp
    next
      assume "verdict ''recovery_approval_failed'' n JNull JNull = Inr v"
      from verdict_said [OF this] show ?thesis by (intro exI [of _ "''recovery_approval_failed''"] exI [of _ n]) simp
    qed
  qed
  define body where "body = (\<lambda>r. if attempts_of r = [] then lift_res (verdict ''recovery_no_attempt'' 0 JNull JNull)
         else catch_op (approval_policy w g fresh mg mode d r) (approval_failed (int_of (afield (last (attempts_of r)) ''generation''))))"
  have inner: ?thesis if l: "locked w d (bind_op (reads (load w d)) body) t = (Inr v, t')" and "extends s t" for t t'
  proof -
    from l obtain r s1 s2 where e: "extends t s1" "load w d t = Inr r" "body r s1 = (Inr v, s2)"
      by (rule transaction_returns)
    have r: "load w d s1 = Inr r" and x: "extends s s1" using e(1,2) that(2) by (simp_all add: load_extends extends_trans [of s t])
    show ?thesis
    proof (cases "attempts_of r = []")
      case True
      then have "verdict_says v ''recovery_no_attempt'' 0" using e(3) lifted_says unfolding body_def by simp
      moreover have "policy_reason w g mg d r s1 0 ''recovery_no_attempt''" using True by (simp add: policy_reason_def)
      ultimately show ?thesis using r x by blast
    next
      case False
      then consider "approval_policy w g fresh mg mode d r s1 = (Inr v, s2)" | ?failed
        using e(3) unfolding body_def if_not_P [OF False] catch_returns by (elim disjE exE conjE) (assumption, drule failed, assumption)
      then show ?thesis
      proof cases
        case 1
        from policy_says [OF this r False] obtain reason n where "verdict_says v reason n" "policy_reason w g mg d r s1 n reason" by (elim exE conjE)
        with x r have ?decided by (intro exI conjI)
        then show ?thesis by (rule disjI2)
      qed (rule disjI1)
    qed
  qed
  from a consider ?failed | "(if b then locked w d (bind_op (reads (load w d)) body)
      else bind_op (reads (worktree_lock_id w d)) (\<lambda>k. locked w k (locked w d (bind_op (reads (load w d)) body)))) s = (Inr v, s')"
    unfolding auto_approve_resume_def Let_def body_def [symmetric] catch_returns by (elim disjE exE conjE) (assumption, drule failed, assumption)
  then show ?thesis
  proof cases
    case 2
    show ?thesis
    proof (cases b)
      case True
      with 2 inner [of s s'] show ?thesis by simp
    next
      case False
      with 2 obtain k where "locked w k (locked w d (bind_op (reads (load w d)) body)) s = (Inr v, s')"
        by (auto simp: bind_op_returns)
      then obtain s1 s2 where "extends s s1" "locked w d (bind_op (reads (load w d)) body) s1 = (Inr v, s2)"
        by (rule locked_returns)
      with inner [of s1 s2] show ?thesis by blast
    qed
  qed blast
qed

text \<open>
  C14: the tick's decision follows from what is on file.  Whatever \<^verbatim>\<open>auto_approve_resume\<close> returns, unless a lock was
  busy or the approval could not be carried out, its reason is the one of the first condition that the record
  on file fails, in this order: there is an attempt; no other record on the worktree is unresolved or unreadable; the
  last attempt timed out, was interrupted or exited with an invalid result; its cleanup is confirmed;
  the generation limit is not reached; no intent of the operator is pending.  Only past all of these it is an answer about
  the evidence, an approval among them, and the evidence is called invalid only when the journal does not load.  It says
  approved exactly for the two approving reasons, names the generation decided on, and names no event and no
  mode otherwise.
\<close>

theorem auto_approve_closed_reasons:
  assumes "auto_approve_resume w g fresh mg mode b d s = (Inr v, s')"
  shows "\<exists>reason n. dget v ''reason'' = JStr reason \<and> dget v ''generation'' = JInt n
    \<and> dget v ''approved'' = JBool (reason \<in> {''recovery_approved'', ''recovery_already_approved''})
    \<and> (reason \<in> {''recovery_approved'', ''recovery_already_approved''} \<or> dget v ''event_id'' = JNull \<and> dget v ''mode'' = JNull)
    \<and> (reason \<in> {''recovery_busy'', ''recovery_approval_failed''}
       \<or> (\<exists>r s1. extends s s1 \<and> load w d s1 = Inr r \<and> policy_reason w g mg d r s1 n reason))"
proof -
  have says: "dget v ''reason'' = JStr reason \<and> dget v ''generation'' = JInt n
    \<and> dget v ''approved'' = JBool (reason \<in> {''recovery_approved'', ''recovery_already_approved''})
    \<and> (reason \<in> {''recovery_approved'', ''recovery_already_approved''} \<or> dget v ''event_id'' = JNull \<and> dget v ''mode'' = JNull)"
    if "verdict_says v reason n" for reason n
    using that unfolding verdict_says_def by metis
  from auto_approve_cases [OF assms] show ?thesis
  proof (elim disjE exE conjE)
    fix reason n assume "reason \<in> {''recovery_busy'', ''recovery_approval_failed''}" "verdict_says v reason n"
    then show ?thesis using says [of reason n] by (intro exI [of _ reason] exI [of _ n]) (simp only: simp_thms)
  next
    fix r s1 reason n assume "extends s s1" "load w d s1 = Inr r" "verdict_says v reason n" "policy_reason w g mg d r s1 n reason"
    then have "\<exists>r s1. extends s s1 \<and> load w d s1 = Inr r \<and> policy_reason w g mg d r s1 n reason" by (intro exI conjI)
    then show ?thesis using says [OF \<open>verdict_says v reason n\<close>] by (intro exI [of _ reason] exI [of _ n]) (simp only: simp_thms)
  qed
qed

lemma auto_approve_facts:
  assumes a: "auto_approve_resume w g fresh mg mode b d s = (Inr v, s')" and ok: "approves v" and fresh: "event_id_ok fresh"
  shows "\<exists>r i. load w d s = Inr r \<and> attempts_of r \<noteq> [] \<and> eligible_outcome (last (attempts_of r))
     \<and> afield (last (attempts_of r)) ''cleanup'' = JStr ''confirmed'' \<and> int (length (attempts_of r)) < mg
     \<and> read_optional w d s' = Inr (Some i) \<and> tick_approved i (int (length (attempts_of r)))
     \<and> dget v ''event_id'' = dget (dict_of (dget i ''preview'')) ''event_id''
     \<and> (dget v ''event_id'' = JStr fresh \<or> \<not> event_used r (dget v ''event_id''))
     \<and> (dget v ''reason'' = JStr ''recovery_approved'' \<longrightarrow> 0 \<le> int_of (dget i ''reissues'') \<and> int_of (dget i ''reissues'') \<le> MAX_REISSUES)
     \<and> load w d s' = Inr r"
proof -
  obtain r s1 s2 where e1: "extends s s1" and r: "load w d s = Inr r" "attempts_of r \<noteq> []"
    and p: "approval_policy w g fresh mg mode d r s1 = (Inr v, s2)" and e2: "extends s2 s'"
    using a ok by (rule auto_approve_returns)
  define n where "n = int (length (attempts_of r))"
  have n: "int_of (afield (last (attempts_of r)) ''generation'') = n"
    using loaded_last_generation [OF r] by (simp add: n_def)
  from p ok obtain intent s3 where el: "eligible_outcome (last (attempts_of r))"
    "afield (last (attempts_of r)) ''cleanup'' = JStr ''confirmed''" "n < mg" and i: "read_optional w d s1 = Inr intent"
    and or: "still_approved w g d mode r n intent s1 = (Inr (Some v), s2)
      \<or> (intent_only s1 s3 \<and> approve_fresh w g fresh d mode n intent s3 = (Inr v, s2))"
    unfolding n [symmetric] by (rule approval_policy_returns)
  have "\<exists>i. read_optional w d s2 = Inr (Some i) \<and> tick_approved i n \<and> dget v ''event_id'' = dget (dict_of (dget i ''preview'')) ''event_id''
     \<and> (dget v ''event_id'' = JStr fresh \<or> \<not> event_used r (dget v ''event_id''))
     \<and> (dget v ''reason'' = JStr ''recovery_approved'' \<longrightarrow> 0 \<le> int_of (dget i ''reissues'') \<and> int_of (dget i ''reissues'') \<le> MAX_REISSUES)"
    using or
  proof (elim disjE conjE)
    assume "still_approved w g d mode r n intent s1 = (Inr (Some v), s2)"
    then obtain j p where j: "intent = Some j" "tick_approved j n" "\<not> event_used r (dget (dict_of (dget j ''preview'')) ''event_id'')"
      and sn: "snapshot w g d mode (str_of (dget (dict_of (dget j ''preview'')) ''event_id'')) None s1 = (Inr p, s2)"
      and v: "verdict ''recovery_already_approved'' n (dget (dict_of (dget j ''preview'')) ''event_id'') (JStr mode) = Inr v"
      by (rule still_approved_returns)
    have "read_optional w d s2 = Inr (Some j)"
      using i j(1) read_optional_extends [OF snapshot_extends [OF sn]] by simp
    with j v show ?thesis by (auto simp: verdict_returns dget_Cons)
  next
    assume f: "intent_only s1 s3" "approve_fresh w g fresh d mode n intent s3 = (Inr v, s2)"
    from f(2) ok obtain c s4 where s4: "intent_only s3 s4" "new_approval w g fresh d mode n intent c s4 = (Inr v, s2)"
      by (rule approve_fresh_returns)
    from s4(2) ok obtain q s5 where sn: "snapshot w g d mode fresh (Some c) s4 = (Inr q, s5)" and lim: "next_reissues intent n \<le> MAX_REISSUES"
      and wr: "write_intent w d (tick_intent q (next_reissues intent n)) s5 = (Inr (), s2)"
      and v: "verdict ''recovery_approved'' n (JStr fresh) (JStr mode) = Inr v"
      by (rule new_approval_returns)
    from sn obtain r' where r': "load w d s4 = Inr r'" "attempts_of r' \<noteq> []" "mode \<in> {''resume'', ''recovery_only''}"
      and mk: "make_preview w g d mode fresh r' c = Inr q"
      by (rule snapshot_returns) auto
    have "load w d s4 = Inr r"
      using r(1) f(1) s4(1) e1 by (simp add: intent_only_load load_extends)
    with r' have [simp]: "r' = r" by simp
    have pos: "0 \<le> next_reissues intent n"
    proof (cases intent)
      case (Some j)
      with i obtain x where "intent_checks d x = Inr ()" "j = normal_intent (dict_of x)" by (auto simp: read_optional_Some)
      with Some intent_checked(6) [of d x] show ?thesis by (simp add: next_reissues_def)
    qed (simp add: next_reissues_def)
    note t = tick_intent_checks [OF mk r'(1,2) fresh r'(3) pos]
    have "read_optional w d s2 = Inr (Some (tick_intent q (next_reissues intent n)))"
      using read_written_intent [OF wr t(1)] t(2) by simp
    moreover have "dget q ''generation'' = JInt n" "dget q ''event_id'' = JStr fresh"
      using preview_fields(4,5) [OF mk] loaded_last_generation [OF r] by (simp_all add: n_def)
    ultimately show ?thesis
      using v lim pos by (auto simp: verdict_returns dget_Cons tick_intent_def tick_approved_def)
  qed
  moreover have "load w d s' = Inr r"
    using intent_only_load [OF writes_intentD [OF frame_auto_approve a]] r(1) by simp
  ultimately show ?thesis
    using r el read_optional_extends [OF e2] by (auto simp: n_def)
qed

theorem auto_approve_closed_reasons_witness:
  "\<exists>n. dget rx_verdict ''generation'' = JInt n
    \<and> (\<exists>r s1. extends rx_store s1 \<and> load ex_world ''run-1'' s1 = Inr r \<and> policy_reason ex_world pj_git 3 ''run-1'' r s1 n ''recovery_approved'')"
proof -
  have v: "dget rx_verdict ''reason'' = JStr ''recovery_approved''" by (simp add: rx_verdict_def dget_Cons)
  from auto_approve_closed_reasons [OF rx_approve] obtain reason n where r: "dget rx_verdict ''reason'' = JStr reason" "dget rx_verdict ''generation'' = JInt n"
    and d: "reason \<in> {''recovery_busy'', ''recovery_approval_failed''}
       \<or> (\<exists>r s1. extends rx_store s1 \<and> load ex_world ''run-1'' s1 = Inr r \<and> policy_reason ex_world pj_git 3 ''run-1'' r s1 n reason)"
    by (elim exE conjE)
  have "reason = ''recovery_approved''" using r(1) v by simp
  moreover then have "reason \<notin> {''recovery_busy'', ''recovery_approval_failed''}" by simp
  ultimately show ?thesis using d r(2) by (intro exI [of _ n]) (simp only: simp_thms)
qed

text \<open>
  C15: the tick approves only what its policy allows.  When \<^verbatim>\<open>auto_approve_resume\<close> approves, the last
  attempt timed out, was interrupted, or exited with an invalid result; its cleanup is confirmed; its
  generation is below the limit; and what is on file afterwards is the tick's approval for that
  generation under the returned event, which is fresh or used by no attempt.  A new approval has been
  reissued at most \<^verbatim>\<open>MAX_REISSUES\<close> times.
\<close>

theorem auto_approve_sound:
  assumes "auto_approve_resume w g fresh mg mode b d s = (Inr v, s')" and "approves v" and "event_id_ok fresh"
  shows "\<exists>r i. load w d s = Inr r \<and> attempts_of r \<noteq> [] \<and> eligible_outcome (last (attempts_of r))
     \<and> afield (last (attempts_of r)) ''cleanup'' = JStr ''confirmed'' \<and> int (length (attempts_of r)) < mg
     \<and> read_optional w d s' = Inr (Some i) \<and> tick_approved i (int (length (attempts_of r)))
     \<and> dget v ''event_id'' = dget (dict_of (dget i ''preview'')) ''event_id''
     \<and> (dget v ''event_id'' = JStr fresh \<or> \<not> event_used r (dget v ''event_id''))
     \<and> (dget v ''reason'' = JStr ''recovery_approved'' \<longrightarrow> 0 \<le> int_of (dget i ''reissues'') \<and> int_of (dget i ''reissues'') \<le> MAX_REISSUES)"
  using auto_approve_facts [OF assms] by blast

lemma rx_approves: "approves rx_verdict" "event_id_ok rx_event"
  by code_simp+

theorem auto_approve_sound_witness:
  "\<exists>r i. load ex_world ''run-1'' rx_store = Inr r \<and> eligible_outcome (last (attempts_of r)) \<and> int (length (attempts_of r)) < 3
     \<and> read_optional ex_world ''run-1'' rx_after = Inr (Some i) \<and> tick_approved i (int (length (attempts_of r)))
     \<and> int_of (dget i ''reissues'') \<le> MAX_REISSUES"
proof -
  have "dget rx_verdict ''reason'' = JStr ''recovery_approved''" by code_simp
  with auto_approve_sound [OF rx_approve rx_approves] show ?thesis by blast
qed

text \<open>
  C16: the tick never overrides an operator.  While an operator's prepared or approved intent is on
  file, \<^verbatim>\<open>auto_approve_resume\<close> leaves it there, whether it returns or raises, and does not approve.
\<close>

theorem operator_intent_wins:
  assumes "read_optional w d s = Inr (Some i)" and "operator_pending (Some i)"
    and "auto_approve_resume w g fresh mg mode b d s = (r, s')"
  shows "read_optional w d s' = Inr (Some i) \<and> (\<nexists>v. r = Inr v \<and> approves v)"
proof
  show "read_optional w d s' = Inr (Some i)"
    using keepsD [OF auto_approve_keeps_operator [OF assms(2)] _ assms(3)] assms(1) by (simp add: holds_intent_def)
  show "\<nexists>v. r = Inr v \<and> approves v"
  proof
    assume "\<exists>v. r = Inr v \<and> approves v"
    then obtain v where "r = Inr v" and ok: "approves v" by blast
    with assms(3) obtain q s1 s2 where "extends s s1" and p: "approval_policy w g fresh mg mode d q s1 = (Inr v, s2)"
      using auto_approve_returns by (metis (no_types, lifting))
    with assms(1) have "read_optional w d s1 = Inr (Some i)" by (simp add: read_optional_extends)
    with p ok assms(2) show False by (auto elim: approval_policy_returns)
  qed
qed

text \<open>The same store with an operator's prepared intent.\<close>

definition rx_operator :: dict where
  "rx_operator = [(''version'', JInt 1), (''status'', JStr ''prepared''), (''preview'', JObj rx_preview)]"

theorem operator_intent_wins_witness:
  "read_optional ex_world ''run-1'' (snd (auto_approve_resume ex_world pj_git rx_event 3 ''resume'' True ''run-1''
     (put_file ''run-1'' INTENT (File 1000 (Some (JObj rx_operator))) rx_store))) = Inr (Some (normal_intent rx_operator))"
proof -
  have "intent_checks ''run-1'' (JObj rx_operator) = Inr ()" "operator_pending (Some (normal_intent rx_operator))"
    by code_simp+
  then have "read_optional ex_world ''run-1'' (put_file ''run-1'' INTENT (File 1000 (Some (JObj rx_operator))) rx_store) = Inr (Some (normal_intent rx_operator))"
    using ex_ids by (simp add: read_optional_Some put_file_dir INTENT_LIMIT_def update_conv' rx_store_def)
  then show ?thesis
    using operator_intent_wins \<open>operator_pending (Some (normal_intent rx_operator))\<close> by (metis prod.collapse)
qed

text \<open>The run of an operation whose execution can be locked.\<close>

lemma locked_reads:
  assumes "identifier_ok d" and "dir_errno w d = None" and "flock w d = None"
  shows "\<exists>t u. extends s t \<and> locked w d (reads f) s = (f t, u)"
proof -
  obtain q s0 where o: "open_directory w d True s = (q, s0)" by (cases "open_directory w d True s") auto
  with assms have q: "q = Inr ()" by (auto simp: open_directory_def Let_def split: option.splits if_splits)
  have e: "extends s s0" by (rule open_directory_extends [OF o])
  show ?thesis
  proof (cases "d \<in> set (held s0)")
    case True
    with o q e show ?thesis by (auto simp: locked_def)
  next
    case False
    with o q assms have "locked w d (reads f) s = (f (s0\<lparr>held := d # held s0\<rparr>), s0)"
      by (simp add: locked_def)
    with e show ?thesis by (metis extends_held(1))
  qed
qed

text \<open>
  C17: an approval reaches the supervisor only for attempts that did not exit.  After
  \<^verbatim>\<open>auto_approve_resume\<close> approves, \<^verbatim>\<open>pending_auto_recovery\<close> with the same limit returns the approved
  event, except when the attempt exited with an invalid result: that approval is never pending.
\<close>

theorem approved_event_pending:
  assumes a: "auto_approve_resume w g fresh mg mode b d s = (Inr v, s')" and ok: "approves v" and fresh: "event_id_ok fresh"
    and r: "load w d s = Inr r" and unused: "\<not> event_used r (JStr fresh)" and lock: "flock w d = None"
  shows "fst (pending_auto_recovery w mg d s') =
     Inr (if afield (last (attempts_of r)) ''status'' = JStr ''exited'' then None else Some (str_of (dget v ''event_id'')))"
proof -
  from auto_approve_facts [OF a ok fresh] r obtain i where at: "attempts_of r \<noteq> []" "eligible_outcome (last (attempts_of r))"
    "afield (last (attempts_of r)) ''cleanup'' = JStr ''confirmed''" "int (length (attempts_of r)) < mg"
    and i: "read_optional w d s' = Inr (Some i)" "tick_approved i (int (length (attempts_of r)))"
    and ev: "dget v ''event_id'' = dget (dict_of (dget i ''preview'')) ''event_id''"
    "dget v ''event_id'' = JStr fresh \<or> \<not> event_used r (dget v ''event_id'')" and l: "load w d s' = Inr r"
    by auto
  have n: "afield (last (attempts_of r)) ''generation'' = JInt (int (length (attempts_of r)))"
    by (rule loaded_last_generation [OF r at(1)])
  have pend: "pending_of mg i r = (if afield (last (attempts_of r)) ''status'' = JStr ''exited'' then None else Some (str_of (dget v ''event_id'')))"
    using at i(2) ev unused n by (auto simp: pending_of_def Let_def tick_approved_def eligible_outcome_def)
  define f where "f = (\<lambda>s. rbind (read_optional w d s) (\<lambda>intent. case intent of
         None \<Rightarrow> Inr None
       | Some i \<Rightarrow> if dget i ''status'' \<noteq> JStr ''approved'' \<or> dget i ''approver'' \<noteq> JStr ''tick'' then Inr None
           else rbind (load w d s) (\<lambda>r. Inr (pending_of mg i r))))"
  have "f t = Inr (pending_of mg i r)" if "extends s' t" for t
  proof -
    have "load w d t = Inr r" using load_extends [OF that] l by simp
    then show ?thesis using read_optional_extends [OF that i(1)] i(2) by (simp add: f_def tick_approved_def)
  qed
  moreover have "identifier_ok d" "dir_errno w d = None" using i(1) by (simp_all add: read_optional_Some)
  ultimately show ?thesis
    using locked_reads [OF _ _ lock, of s' f] pend by (auto simp: pending_auto_recovery_def f_def [symmetric])
qed

theorem approved_event_pending_witness: "fst (pending_auto_recovery ex_world 3 ''run-1'' rx_after) = Inr (Some rx_event)"
proof -
  have "\<not> event_used rx_record (JStr rx_event)" "dget rx_verdict ''event_id'' = JStr rx_event"
    by (simp_all add: event_used_def rx_fields ex_attempts(3) new_attempt_def ex_change_def dupdate_def dput_def rx_verdict_def dget_def afield_def)
  then show ?thesis
    using approved_event_pending [OF rx_approve rx_approves rx_load] rx_attempt ex_ids by (simp add: rx_fields)
qed

text \<open>What is consumed passes the checks it is read with.\<close>

lemma consumed_intent_checks:
  assumes c: "intent_checks d x = Inr ()" and i: "i = normal_intent (dict_of x)"
  defines "j \<equiv> consumed_intent i (dict_of (dget i ''preview''))"
  shows "intent_checks d (JObj j) = Inr ()" "dget (normal_intent j) ''status'' = JStr ''consumed''"
    "dget (normal_intent j) ''preview'' = dget i ''preview''"
proof -
  have p: "dget i ''preview'' = dget (dict_of x) ''preview''" by (auto simp: i normal_intent_def)
  have pd: "JObj (dict_of (dget (dict_of x) ''preview'')) = dget (dict_of x) ''preview''"
    using c by (cases "dget (dict_of x) ''preview''") (simp_all add: intent_checks_def Let_def)
  note k = intent_checked(4,5,6) [OF c, folded i]
  have old: "dget j ''version'' = JInt 1" "dget j ''status'' = JStr ''consumed''" "dget j ''preview'' = dget (dict_of x) ''preview''"
    unfolding j_def using p pd by (auto simp: consumed_intent_def operator_form_def dget_Cons)
  note ch = c [unfolded intent_checks_def Let_def]
  show "intent_checks d (JObj j) = Inr ()" "dget (normal_intent j) ''status'' = JStr ''consumed''"
    "dget (normal_intent j) ''preview'' = dget i ''preview''"
  proof (atomize (full), cases "dget i ''approver'' = JStr ''operator''")
    case True
    then have l: "keys_are j legacy_keys"
      unfolding j_def by (simp add: consumed_intent_def operator_form_def keys_are_def legacy_keys_def)
    moreover have "''approver'' \<notin> set legacy_keys" "''approver'' \<in> set new_keys" "''approver'' \<in> set reissue_keys"
      by (simp_all add: legacy_keys_def new_keys_def reissue_keys_def)
    ultimately have "\<not> keys_are j new_keys" "\<not> keys_are j reissue_keys"
      unfolding keys_are_def by metis+
    note l = l this
    have "intent_checks d (JObj j) = Inr ()"
      using ch l unfolding intent_checks_def Let_def by (simp add: old)
    then show "intent_checks d (JObj j) = Inr () \<and> dget (normal_intent j) ''status'' = JStr ''consumed'' \<and> dget (normal_intent j) ''preview'' = dget i ''preview''"
      using l old p by (simp add: normal_intent_def)
  next
    case False
    have e: "j = [(''version'', JInt 1), (''status'', JStr ''consumed''), (''approver'', dget i ''approver''), (''preview'', dget (dict_of x) ''preview''),
        (''reissues'', dget i ''reissues'')]"
      unfolding j_def using False p pd by (simp add: consumed_intent_def)
    have l: "\<not> keys_are j legacy_keys" "keys_are j reissue_keys" "has_key j ''reissues''"
      using keys_are_absent [of j "''approver''" legacy_keys]
      by (simp_all add: e keys_are_def legacy_keys_def reissue_keys_def has_key_def)
    have m: "dget j ''approver'' = dget i ''approver''" "dget j ''reissues'' = dget i ''reissues''"
      by (simp_all add: e dget_Cons)
    have "intent_checks d (JObj j) = Inr ()"
      using ch k unfolding intent_checks_def Let_def by (simp add: old l m str_in_hashable)
    then show "intent_checks d (JObj j) = Inr () \<and> dget (normal_intent j) ''status'' = JStr ''consumed'' \<and> dget (normal_intent j) ''preview'' = dget i ''preview''"
      using l old p by (simp add: normal_intent_def)
  qed
qed

lemma validate_recovery_returns:
  assumes "validate_recovery w g d ev s = (Inr p, s')"
  obtains i s1 where "extends s s1" "read_optional w d s1 = Inr (Some i)" "dget i ''status'' = JStr ''approved''"
    "dget (dict_of (dget i ''preview'')) ''event_id'' = JStr ev" "p = dict_of (dget i ''preview'')"
proof -
  from assms obtain s1 s2 where "extends s s1" "locked w d (validate_body w g d ev) s1 = (Inr p, s2)"
    unfolding validate_recovery_def by (rule worktree_locked_returns)
  moreover from this(2) obtain s3 s4 where "extends s1 s3" "validate_body w g d ev s3 = (Inr p, s4)" by (rule locked_returns)
  ultimately show thesis
    using that [of s3] by (auto simp: validate_body_def bind_op_returns then_op_returns Let_def intro: extends_trans split: option.splits if_splits)
qed

lemma consume_recovery_returns:
  assumes "consume_recovery w g d ev s = (Inr p, s')"
  obtains i s1 s2 s3 where "extends s s1" "read_optional w d s1 = Inr (Some i)" "validate_recovery w g d ev s1 = (Inr p, s2)"
    "write_intent w d (consumed_intent i p) s2 = (Inr (), s3)" "extends s3 s'"
proof -
  from assms obtain t1 t2 where t: "extends s t1" "dirs s' = dirs t2" "store_root s' = store_root t2"
    "locked w d (bind_op (reads (read_optional w d)) (\<lambda>intent. bind_op (validate_recovery w g d ev) (\<lambda>preview.
      case intent of None \<Rightarrow> raise TypeErr
      | Some i \<Rightarrow> then_op (write_intent w d (consumed_intent i preview)) (ret preview)))) t1 = (Inr p, t2)"
    unfolding consume_recovery_def by (rule worktree_locked_returns)
  from t(4) obtain s1 s2 where "extends t1 s1" "dirs t2 = dirs s2" "store_root t2 = store_root s2"
    "bind_op (reads (read_optional w d)) (\<lambda>intent. bind_op (validate_recovery w g d ev) (\<lambda>preview.
      case intent of None \<Rightarrow> raise TypeErr
      | Some i \<Rightarrow> then_op (write_intent w d (consumed_intent i preview)) (ret preview))) s1 = (Inr p, s2)"
    by (rule locked_returns)
  note b = this
  have e: "extends s s1" "extends s2 s'"
    using t(1-3) b(1-3) extends_same [of s' s2] by (auto intro: extends_trans)
  from b(4) obtain i q where "read_optional w d s1 = Inr (Some i)" "validate_recovery w g d ev s1 = (Inr p, q)"
    "write_intent w d (consumed_intent i p) q = (Inr (), s2)"
    by (auto simp: bind_op_returns then_op_returns split: option.splits)
  with e that show thesis by blast
qed

text \<open>
  C18: an approval is consumed once.  When \<^verbatim>\<open>consume_recovery\<close> returns, the intent on file is that
  preview, consumed, and no event is validated or consumed again before a new approval.
\<close>

theorem consumed_approval_is_spent:
  assumes "consume_recovery w g d ev s = (Inr p, s')"
  shows "(\<exists>i. read_optional w d s' = Inr (Some i) \<and> dget i ''status'' = JStr ''consumed'' \<and> dget i ''preview'' = JObj p)
     \<and> (\<nexists>ev' q t. validate_recovery w g d ev' s' = (Inr q, t) \<or> consume_recovery w g d ev' s' = (Inr q, t))"
proof -
  from assms obtain i s1 s2 s3 where s: "extends s s1" "read_optional w d s1 = Inr (Some i)" "validate_recovery w g d ev s1 = (Inr p, s2)"
    "write_intent w d (consumed_intent i p) s2 = (Inr (), s3)" "extends s3 s'"
    by (rule consume_recovery_returns)
  from s(2) obtain x where x: "intent_checks d x = Inr ()" "i = normal_intent (dict_of x)" by (auto simp: read_optional_Some)
  from s(3) obtain j s4 where j: "extends s1 s4" "read_optional w d s4 = Inr (Some j)" "p = dict_of (dget j ''preview'')"
    by (rule validate_recovery_returns)
  with read_optional_extends [OF j(1) s(2)] have p: "p = dict_of (dget i ''preview'')" by simp
  note c = consumed_intent_checks [OF x, folded p]
  define i' where "i' = normal_intent (consumed_intent i p)"
  have r: "read_optional w d s' = Inr (Some i')" "dget i' ''status'' = JStr ''consumed''" "dget i' ''preview'' = JObj p"
    using read_optional_extends [OF s(5) read_written_intent [OF s(4) c(1)]] c(2,3) intent_checked(1) [OF x(1), folded x(2)] p
    by (simp_all add: i'_def is_dict_iff)  auto
  have no: False if "validate_recovery w g d ev' t = (Inr q, u)" "extends s' t" for ev' q t u
    using that(1) by (rule validate_recovery_returns)
      (use read_optional_extends [OF extends_trans [OF that(2)] r(1)] r(2) in fastforce)
  then have "consume_recovery w g d ev' s' \<noteq> (Inr q, t)" for ev' q t
    by (blast elim: consume_recovery_returns)
  with r no [OF _ extends_refl] show ?thesis by blast
qed

theorem consumed_approval_is_spent_witness:
  "\<nexists>ev' q t. consume_recovery ex_world pj_git ''run-1'' ev' rx_done = (Inr q, t)"
  using consumed_approval_is_spent [OF rx_consume] by blast

section \<open>Recovery as a transition system\<close>

inductive recovery_step :: "world \<Rightarrow> gitw \<Rightarrow> store \<Rightarrow> store \<Rightarrow> bool" for w g where
  step_prepare: "prepare_recovery w g env fresh d mode s = (r, s') \<Longrightarrow> recovery_step w g s s'"
| step_approve: "approve_recovery w g env d preview s = (r, s') \<Longrightarrow> recovery_step w g s s'"
| step_validate: "validate_recovery w g d ev s = (r, s') \<Longrightarrow> recovery_step w g s s'"
| step_consume: "consume_recovery w g d ev s = (r, s') \<Longrightarrow> recovery_step w g s s'"
| step_tick: "auto_approve_resume w g fresh mg mode b d s = (r, s') \<Longrightarrow> recovery_step w g s s'"
| step_pending: "pending_auto_recovery w mg d s = (r, s') \<Longrightarrow> recovery_step w g s s'"
| step_invalidate: "invalidate_recovery w d ev s = (r, s') \<Longrightarrow> recovery_step w g s s'"

lemma recovery_step_frame: "recovery_step w g s s' \<Longrightarrow> intent_only s s'"
  by (induction rule: recovery_step.induct)
    (erule writes_intentD [OF frame_operator(1)] writes_intentD [OF frame_operator(2)] writes_intentD [OF frame_validate]
      writes_intentD [OF frame_operator(3)] writes_intentD [OF frame_auto_approve] writes_intentD [OF frame_operator(5)]
      writes_intentD [OF frame_operator(4)])+

text \<open>
  C19: recovery approvals never change execution records or progress journals.  After any run of the
  recovery operations, returning or raising, every record and every journal loads exactly as before.
\<close>

theorem recovery_keeps_records:
  assumes "(recovery_step w g)\<^sup>*\<^sup>* s s'"
  shows "(load w' d s' = Inr r \<longleftrightarrow> load w' d s = Inr r) \<and> (load_journal w' g' d s' = Inr j \<longleftrightarrow> load_journal w' g' d s = Inr j)"
proof -
  from assms have "intent_only s s'"
    by (induction rule: rtranclp_induct) (auto dest: recovery_step_frame intro: intent_only_trans)
  then show ?thesis by (simp add: intent_only_load intent_only_journal)
qed

theorem recovery_keeps_records_witness:
  "load ex_world ''run-1'' rx_done = Inr rx_record \<and> load_journal ex_world pj_git ''run-1'' rx_done = Inr pj_journal0"
proof -
  have "(recovery_step ex_world pj_git)\<^sup>*\<^sup>* rx_store rx_done"
    using step_tick [OF rx_approve] step_consume [OF rx_consume] by (meson r_into_rtranclp rtranclp.rtrancl_into_rtrancl)
  from recovery_keeps_records [OF this] show ?thesis using rx_load rx_journal by blast
qed

end
