(* ===== verification/JsonText.thy ===== *)
theory JsonText
  imports PyText
begin

text \<open>
  Reading JSON text: \<^verbatim>\<open>json.loads\<close> as the modules call it on files, command output and card headers, and
  the round trip with the encoder.  Texts with characters above code point 255 are outside the model; a
  float keeps the text it was read from.
\<close>

section \<open>Strings and numbers\<close>

definition json_ws :: "char \<Rightarrow> bool" where
  "json_ws c \<longleftrightarrow> c = CHR '' '' \<or> c = CHR 0x09 \<or> c = CHR 0x0A \<or> c = CHR 0x0D"

definition skip_ws :: "string \<Rightarrow> string" where "skip_ws = dropWhile json_ws"

definition unescape :: "char \<Rightarrow> char option" where
  "unescape c = (if c = CHR 0x22 \<or> c = backslash \<or> c = CHR ''/'' then Some c
     else if c = CHR ''b'' then Some (CHR 0x08) else if c = CHR ''f'' then Some (CHR 0x0C)
     else if c = CHR ''n'' then Some (CHR 0x0A) else if c = CHR ''r'' then Some (CHR 0x0D)
     else if c = CHR ''t'' then Some (CHR 0x09) else None)"

definition hex_value :: "char \<Rightarrow> nat option" where
  "hex_value c = (let n = of_char c :: nat in
     if 48 \<le> n \<and> n \<le> 57 then Some (n - 48) else if 97 \<le> n \<and> n \<le> 102 then Some (n - 87)
     else if 65 \<le> n \<and> n \<le> 70 then Some (n - 55) else None)"

definition hex4 :: "char \<Rightarrow> char \<Rightarrow> char \<Rightarrow> char \<Rightarrow> nat option" where
  "hex4 a b c d = (case (hex_value a, hex_value b, hex_value c, hex_value d) of
     (Some i, Some j, Some k, Some l) \<Rightarrow> Some (((i * 16 + j) * 16 + k) * 16 + l) | _ \<Rightarrow> None)"

definition onto :: "char \<Rightarrow> (string \<times> string) option \<Rightarrow> (string \<times> string) option" where
  "onto c r = (case r of None \<Rightarrow> None | Some (s, t) \<Rightarrow> Some (c # s, t))"

text \<open>The characters of a string up to its closing quote, and what follows it.\<close>

fun parse_string :: "string \<Rightarrow> (string \<times> string) option" where
  "parse_string [] = None"
| "parse_string (c # r) =
     (if c = CHR 0x22 then Some ([], r)
      else if c = backslash then
        (case r of
           [] \<Rightarrow> None
         | e # r1 \<Rightarrow> if e = CHR ''u'' then
               (case r1 of
                  h1 # h2 # h3 # h4 # r2 \<Rightarrow>
                    (case hex4 h1 h2 h3 h4 of None \<Rightarrow> None
                     | Some n \<Rightarrow> if n < 256 then onto (char_of n) (parse_string r2) else None)
                | _ \<Rightarrow> None)
             else (case unescape e of None \<Rightarrow> None | Some ch \<Rightarrow> onto ch (parse_string r1)))
      else if (of_char c :: nat) < 32 then None
      else onto c (parse_string r))"

definition is_digit :: "char \<Rightarrow> bool" where
  "is_digit c \<longleftrightarrow> (let n = of_char c :: nat in 48 \<le> n \<and> n \<le> 57)"

definition int_part :: "string \<Rightarrow> (string \<times> string) option" where
  "int_part s = (case s of [] \<Rightarrow> None | c # r \<Rightarrow> if c = CHR ''0'' then Some ([c], r)
     else if is_digit c then Some (takeWhile is_digit s, dropWhile is_digit s) else None)"

definition frac_part :: "string \<Rightarrow> string \<times> string" where
  "frac_part s = (case s of c # d # r \<Rightarrow> if c = CHR ''.'' \<and> is_digit d then (takeWhile is_digit (d # r), dropWhile is_digit (d # r)) else ([], s)
     | _ \<Rightarrow> ([], s))"

definition exp_part :: "string \<Rightarrow> int option \<times> string" where
  "exp_part s = (case s of [] \<Rightarrow> (None, s) | c # r \<Rightarrow>
     if c \<noteq> CHR ''e'' \<and> c \<noteq> CHR ''E'' then (None, s)
     else let (neg, t) = (case r of [] \<Rightarrow> (False, r) | sg # r1 \<Rightarrow> if sg = CHR ''-'' then (True, r1) else if sg = CHR ''+'' then (False, r1) else (False, r));
              ds = takeWhile is_digit t
          in if ds = [] then (None, s) else (Some (if neg then - int (undec ds) else int (undec ds)), dropWhile is_digit t))"

definition float_of :: "bool \<Rightarrow> string \<Rightarrow> string \<Rightarrow> int \<Rightarrow> string \<Rightarrow> pyfloat" where
  "float_of neg ds fs e txt = (let m = of_nat (undec (ds @ fs)) :: rat; k = e - int (length fs);
       q = (if 0 \<le> k then m * 10 ^ nat k else m / 10 ^ nat (- k))
     in if (2 ^ 1024 - 2 ^ 970 :: rat) \<le> q then (if neg then NegInf else PosInf) else Finite (if neg then - q else q) txt)"

definition parse_number :: "string \<Rightarrow> (json \<times> string) option" where
  "parse_number s = (let (neg, t) = (case s of [] \<Rightarrow> (False, s) | c # r \<Rightarrow> if c = CHR ''-'' then (True, r) else (False, s)) in
     case int_part t of None \<Rightarrow> None | Some (ds, r) \<Rightarrow>
       (let (fs, r1) = frac_part r; (ex, r2) = exp_part r1 in
        if fs = [] \<and> ex = None then Some (JInt (if neg then - int (undec ds) else int (undec ds)), r)
        else Some (JFloat (float_of neg ds fs (case ex of None \<Rightarrow> 0 | Some e \<Rightarrow> e) (take (length s - length r2) s)), r2)))"

section \<open>Values\<close>

definition literals :: "(string \<times> json) list" where
  "literals = [(''null'', JNull), (''true'', JBool True), (''false'', JBool False), (''NaN'', JFloat NaN),
     (''Infinity'', JFloat PosInf), (''-Infinity'', JFloat NegInf)]"

definition parse_literal :: "string \<Rightarrow> (json \<times> string) option" where
  "parse_literal s = (case filter (\<lambda>kv. startswith s (fst kv)) literals of [] \<Rightarrow> None | kv # _ \<Rightarrow> Some (snd kv, drop (length (fst kv)) s))"

lemma skip_ws_length: "length (skip_ws s) \<le> length s"
  unfolding skip_ws_def by (rule length_dropWhile_le)

lemma skip_ws_hd: "skip_ws s = c # r \<Longrightarrow> length r < length s"
  using skip_ws_length [of s] by simp

lemma onto_Some: "onto c r = Some (s, t) \<longleftrightarrow> (\<exists>s'. r = Some (s', t) \<and> s = c # s')"
  by (auto simp: onto_def split: option.splits)

text \<open>
  A value, the elements of an array up to its bracket, the members of an object up to its brace.  The
  tests on lengths always hold; they are what the recursion terminates by.
\<close>

function (sequential) parse_value :: "string \<Rightarrow> (json \<times> string) option"
  and parse_elements :: "string \<Rightarrow> (json list \<times> string) option"
  and parse_members :: "string \<Rightarrow> (dict \<times> string) option" where
  "parse_value [] = None"
| "parse_value (c # r) =
     (if c = CHR 0x22 then (case parse_string r of None \<Rightarrow> None | Some (t, r') \<Rightarrow> Some (JStr t, r'))
      else if c = CHR ''{'' then
        (case skip_ws r of
           [] \<Rightarrow> None
         | d # r' \<Rightarrow> if d = CHR ''}'' then Some (JObj [], r')
             else (case parse_members (skip_ws r) of None \<Rightarrow> None | Some (ms, r'') \<Rightarrow> Some (JObj (dupdate [] ms), r'')))
      else if c = CHR ''['' then
        (case skip_ws r of
           [] \<Rightarrow> None
         | d # r' \<Rightarrow> if d = CHR '']'' then Some (JList [], r')
             else (case parse_elements (skip_ws r) of None \<Rightarrow> None | Some (xs, r'') \<Rightarrow> Some (JList xs, r'')))
      else (case parse_number (c # r) of Some vr \<Rightarrow> Some vr | None \<Rightarrow> parse_literal (c # r)))"
| "parse_elements s =
     (case parse_value s of
        None \<Rightarrow> None
      | Some (v, r) \<Rightarrow>
          (case skip_ws r of
             [] \<Rightarrow> None
           | d # r' \<Rightarrow> if d = CHR '']'' then Some ([v], r')
               else if d = CHR '','' \<and> length (skip_ws r') < length s then
                 (case parse_elements (skip_ws r') of None \<Rightarrow> None | Some (vs, r'') \<Rightarrow> Some (v # vs, r''))
               else None))"
| "parse_members s =
     (case s of
        [] \<Rightarrow> None
      | c # t \<Rightarrow> if c \<noteq> CHR 0x22 then None else
         (case parse_string t of
            None \<Rightarrow> None
          | Some (k, r) \<Rightarrow>
              (case skip_ws r of
                 [] \<Rightarrow> None
               | d # r1 \<Rightarrow> if d \<noteq> CHR '':'' \<or> \<not> length (skip_ws r1) < length s then None else
                  (case parse_value (skip_ws r1) of
                     None \<Rightarrow> None
                   | Some (v, r2) \<Rightarrow>
                       (case skip_ws r2 of
                          [] \<Rightarrow> None
                        | e # r3 \<Rightarrow> if e = CHR ''}'' then Some ([(k, v)], r3)
                            else if e = CHR '','' \<and> length (skip_ws r3) < length s then
                              (case parse_members (skip_ws r3) of None \<Rightarrow> None | Some (ms, r4) \<Rightarrow> Some ((k, v) # ms, r4))
                            else None)))))"
  by pat_completeness auto

termination
  by (relation "measures [\<lambda>x. case x of Inl s \<Rightarrow> length s | Inr (Inl s) \<Rightarrow> length s | Inr (Inr s) \<Rightarrow> length s,
      \<lambda>x. case x of Inl s \<Rightarrow> 0 | Inr _ \<Rightarrow> 1]")
    (auto simp: le_imp_less_Suc skip_ws_length dest: skip_ws_hd)

definition loads :: "string \<Rightarrow> json option" where
  "loads s = (case parse_value (skip_ws s) of None \<Rightarrow> None | Some (v, r) \<Rightarrow> if skip_ws r = [] then Some v else None)"

declare parse_elements.simps [simp del] parse_members.simps [simp del]

section \<open>Round trip\<close>

text \<open>Values whose text is read back as it is: no floats, and distinct keys.\<close>

fun plain :: "json \<Rightarrow> bool" where
  "plain (JFloat _) = False"
| "plain (JList xs) = (\<forall>x \<in> set xs. plain x)"
| "plain (JObj d) = (distinct (map fst d) \<and> (\<forall>kv \<in> set d. plain (snd kv)))"
| "plain _ = True"

definition style_ok :: "json_style \<Rightarrow> bool" where
  "style_ok st \<longleftrightarrow> item_sep st \<in> {'','', '', ''} \<and> key_sep st \<in> {'':'', '': ''}"

text \<open>What may follow a value.\<close>

definition stops :: "string \<Rightarrow> bool" where
  "stops s \<longleftrightarrow> (case s of [] \<Rightarrow> True | c # _ \<Rightarrow> \<not> is_digit c \<and> c \<notin> {CHR ''.'', CHR ''e'', CHR ''E''})"

lemma hex_value_digit: "n < 16 \<Longrightarrow> hex_value (hex_digit n) = Some n"
  by (auto simp: hex_value_def hex_digit_def)

lemma hex4_esc:
  assumes "n < 256"
  shows "hex4 (CHR ''0'') (CHR ''0'') (hex_digit (n div 16)) (hex_digit (n mod 16)) = Some n"
proof -
  have "hex_value (CHR ''0'') = Some 0" by (simp add: hex_value_def)
  moreover have "n div 16 < 16" using assms by simp
  ultimately show ?thesis by (simp add: hex4_def hex_value_digit)
qed

lemma of_char_256: "(of_char c :: nat) < 256"
  using of_char_of [where 'a = nat] by (metis nat_of_char_less_256)

lemma char_codes: "char_of (8 :: nat) = CHR 0x08" "char_of (9 :: nat) = CHR 0x09" "char_of (10 :: nat) = CHR 0x0A"
  "char_of (12 :: nat) = CHR 0x0C" "char_of (13 :: nat) = CHR 0x0D" "char_of (48 :: nat) = CHR ''0''"
  by code_simp+

lemma parse_string_esc: "parse_string (esc b c @ r) = onto c (parse_string r)"
proof -
  define n where "n = (of_char c :: nat)"
  have c: "c = char_of n" and lt: "n < 256" by (simp_all add: n_def of_char_256)
  consider "c \<in> {CHR 0x22, CHR 0x5C}" | "n \<in> {8, 9, 10, 12, 13}"
    | "c \<notin> {CHR 0x22, CHR 0x5C}" "n \<notin> {8, 9, 10, 12, 13}" "n < 32 \<or> (b \<and> 127 \<le> n)"
    | "c \<notin> {CHR 0x22, CHR 0x5C}" "\<not> n < 32" "\<not> (b \<and> 127 \<le> n)"
    by auto
  then show ?thesis
  proof cases
    case 1
    then show ?thesis by (elim insertE emptyE) (simp_all add: esc_def backslash_def unescape_def)
  next
    case 2
    then have "c \<in> {CHR 0x08, CHR 0x09, CHR 0x0A, CHR 0x0C, CHR 0x0D}" using c char_codes by auto
    then show ?thesis by (elim insertE emptyE) (simp_all add: esc_def backslash_def unescape_def)
  next
    case 3
    then have "esc b c = [backslash, CHR ''u'', CHR ''0'', CHR ''0'', hex_digit (n div 16), hex_digit (n mod 16)]"
      by (simp add: esc_def Let_def backslash_def flip: n_def)
    then show ?thesis using lt hex4_esc [OF lt] c by (simp add: backslash_def)
  next
    case 4
    then have "esc b c = [c]"
      by (auto simp: esc_def Let_def backslash_def simp flip: n_def)
    with 4 show ?thesis by (simp add: backslash_def flip: n_def)
  qed
qed

lemma parse_string_quote: "parse_string (concat (map (esc b) s) @ CHR 0x22 # r) = Some (s, r)"
  by (induction s) (simp_all add: parse_string_esc onto_def)

lemma dec_digits: "list_all is_digit (dec n)" "dec n \<noteq> []" "n \<noteq> 0 \<Longrightarrow> hd (dec n) \<noteq> CHR ''0''"
proof (induction n rule: dec.induct)
  case (1 n)
  have d: "is_digit (digit k)" if "k < 10" for k using that by (auto simp: is_digit_def digit_def)
  have z: "digit k \<noteq> CHR ''0''" if "k < 10" "k \<noteq> 0" for k
  proof
    assume "digit k = CHR ''0''"
    then have "digit_val (digit k) = digit_val (CHR ''0'')" by simp
    with that show False by (simp add: digit_val_def [of "CHR ''0''"])
  qed
  { case 1 show ?case using "1.IH"(1) d by (subst dec.simps) auto }
  { case 2 show ?case by (subst dec.simps) auto }
  { case 3 show ?case using "1.IH"(2,3) z 3 by (subst dec.simps) (auto simp: hd_append) }
qed

lemma dec_zero: "dec 0 = ''0''"
  by (simp add: dec.simps digit_def char_codes)

lemma dec_hd: "\<exists>c r. dec n = c # r \<and> is_digit c"
  using dec_digits(1,2) [of n] by (cases "dec n") auto

lemma int_part_dec: "stops r \<Longrightarrow> int_part (dec n @ r) = Some (dec n, r)"
proof (cases "n = 0")
  case True
  then show ?thesis by (simp add: int_part_def dec_zero)
next
  case False
  assume "stops r"
  then have "takeWhile is_digit (dec n @ r) = dec n" "dropWhile is_digit (dec n @ r) = r"
    using dec_digits(1) [of n] by (simp_all add: list_all_iff takeWhile_append dropWhile_append stops_def split: list.splits)
  moreover obtain c t where "dec n = c # t" "is_digit c" using dec_hd by blast
  moreover from this dec_digits(3) [OF False] have "c \<noteq> CHR ''0''" by simp
  ultimately show ?thesis by (simp add: int_part_def)
qed

lemma parts_stop: "stops r \<Longrightarrow> frac_part r = ([], r)" "stops r \<Longrightarrow> exp_part r = (None, r)"
  by (auto simp: stops_def frac_part_def exp_part_def split: list.splits)

lemma parse_number_dec: "stops r \<Longrightarrow> parse_number (dec_int i @ r) = Some (JInt i, r)"
proof -
  assume r: "stops r"
  have m: "\<not> is_digit (CHR ''-'')" by (simp add: is_digit_def)
  obtain c t where c: "dec (nat i) = c # t" "is_digit c" using dec_hd by blast
  with m have "c \<noteq> CHR ''-''" by auto
  with c r int_part_dec [OF r, of "nat i"] int_part_dec [OF r, of "nat (- i)"] show ?thesis
    by (auto simp: parse_number_def dec_int_def parts_stop undec_dec [of "nat i", unfolded c(1)])
qed

lemma dec_int_hd: "\<exists>c r. dec_int i = c # r \<and> (is_digit c \<or> c = CHR ''-'')"
  using dec_hd [of "nat i"] by (auto simp: dec_int_def)

text \<open>The first character of the text of a value.\<close>

lemma dumps_hd:
  "plain v \<Longrightarrow> \<exists>c r. dumps st v = c # r \<and> \<not> json_ws c \<and> c \<notin> {CHR '']'', CHR ''}''}"
proof (cases v)
  case (JInt i)
  obtain c r where "dec_int i = c # r" "is_digit c \<or> c = CHR ''-''" using dec_int_hd by blast
  then show ?thesis using JInt by (auto simp: json_ws_def is_digit_def)
qed (auto simp: json_ws_def quote_def)

lemma join_simps: "join sep [] = []" "join sep [w] = w" "join sep (w # x # ws) = w @ sep @ join sep (x # ws)"
  by (simp_all add: join_def)

lemma skip_ws_dumps: "plain v \<Longrightarrow> skip_ws (dumps st v @ r) = dumps st v @ r"
  using dumps_hd [of v st] by (auto simp: skip_ws_def)

lemma skip_ws_sep: "style_ok st \<Longrightarrow> plain v \<Longrightarrow> skip_ws (item_sep st @ dumps st v @ r) = CHR '','' # tl (item_sep st) @ dumps st v @ r"
    "style_ok st \<Longrightarrow> plain v \<Longrightarrow> skip_ws (tl (item_sep st) @ dumps st v @ r) = dumps st v @ r"
    "style_ok st \<Longrightarrow> plain v \<Longrightarrow> skip_ws (tl (key_sep st) @ dumps st v @ r) = dumps st v @ r"
  using skip_ws_dumps [of v st] by (auto simp: style_ok_def skip_ws_def json_ws_def)

lemma item_sep_ok: "style_ok st \<Longrightarrow> item_sep st = CHR '','' # tl (item_sep st)" "style_ok st \<Longrightarrow> key_sep st = CHR '':'' # tl (key_sep st)"
  by (auto simp: style_ok_def)

lemma stops_simps: "stops (CHR '','' # r)" "stops (CHR '']'' # r)" "stops (CHR ''}'' # r)" "stops []" "stops (CHR 0x0A # r)"
  by (simp_all add: stops_def is_digit_def)

lemma skip_ws_simps: "skip_ws (CHR '','' # r) = CHR '','' # r" "skip_ws (CHR '']'' # r) = CHR '']'' # r" "skip_ws (CHR ''}'' # r) = CHR ''}'' # r"
    "skip_ws (CHR '':'' # r) = CHR '':'' # r" "skip_ws (CHR 0x22 # r) = CHR 0x22 # r"
  by (simp_all add: skip_ws_def json_ws_def)

lemma dupdate_self_aux: "distinct (map fst (e @ d)) \<Longrightarrow> fold (\<lambda>kv. dput (fst kv) (snd kv)) d e = e @ d"
proof (induction d arbitrary: e)
  case (Cons kv d)
  have "dput (fst kv) (snd kv) e = e @ [kv]"
    using Cons.prems unfolding dput_def by (induction e) auto
  with Cons.IH [of "e @ [kv]"] Cons.prems show ?case by simp
qed simp

lemma dupdate_self: "distinct (map fst d) \<Longrightarrow> dupdate [] d = d"
  using dupdate_self_aux [of "[]" d] by (simp add: dupdate_def)

lemma parse_dumps:
  assumes "style_ok st"
  shows "plain v \<Longrightarrow> stops r \<Longrightarrow> parse_value (dumps st v @ r) = Some (v, r)"
    "\<forall>x \<in> set xs. plain x \<Longrightarrow> xs \<noteq> [] \<Longrightarrow> parse_elements (join (item_sep st) (dumps_list st xs) @ CHR '']'' # r) = Some (xs, r)"
    "\<forall>kv \<in> set d. plain (snd kv) \<Longrightarrow> d \<noteq> [] \<Longrightarrow> parse_members (join (item_sep st) (dumps_items st d) @ CHR ''}'' # r) = Some (d, r)"
proof (induction v and xs and d arbitrary: r and r and r rule: json_induct3)
  case null
  then show ?case by (simp add: parse_number_def int_part_def is_digit_def parse_literal_def literals_def startswith_def)
next
  case (bool b)
  then show ?case by (simp add: parse_number_def int_part_def is_digit_def parse_literal_def literals_def startswith_def)
next
  case (int i)
  obtain c t where c: "dec_int i = c # t" "is_digit c \<or> c = CHR ''-''" using dec_int_hd by blast
  then have "c \<notin> {CHR 0x22, CHR ''{'', CHR ''[''}" by (auto simp: is_digit_def)
  then show ?case using parse_number_dec [OF int(2), of i] c by simp
next
  case (str s)
  show ?case by (simp add: quote_def parse_string_quote)
next
  case (list xs)
  show ?case
  proof (cases xs)
    case Nil
    then show ?thesis by (simp add: join_simps skip_ws_simps)
  next
    case (Cons x ys)
    let ?t = "join (item_sep st) (dumps_list st xs) @ CHR '']'' # r"
    have "plain x" using list.prems(1) Cons by simp
    then obtain c u where c: "dumps st x = c # u" "\<not> json_ws c" "c \<noteq> CHR '']''" using dumps_hd by blast
    have "\<exists>u'. ?t = c # u'" using Cons c(1) by (simp add: join_def)
    then obtain u' where "?t = c # u'" by blast
    moreover have "parse_elements ?t = Some (xs, r)" using list Cons by simp
    ultimately show ?thesis using c by (simp add: skip_ws_def)
  qed
next
  case (obj d)
  show ?case
  proof (cases d)
    case Nil
    then show ?thesis by (simp add: join_simps skip_ws_simps dupdate_def)
  next
    case (Cons x ys)
    let ?t = "join (item_sep st) (dumps_items st d) @ CHR ''}'' # r"
    have "\<exists>u'. ?t = CHR 0x22 # u'" using Cons by (simp add: join_def quote_def)
    then obtain u' where "?t = CHR 0x22 # u'" by blast
    moreover have "parse_members ?t = Some (d, r)" using obj Cons by simp
    ultimately show ?thesis using obj.prems(1) by (simp add: skip_ws_simps dupdate_self)
  qed
next
  case (list_cons x xs)
  show ?case
  proof (cases xs)
    case Nil
    then show ?thesis using list_cons(1) [of "CHR '']'' # r"] list_cons.prems
      by (subst parse_elements.simps) (simp add: join_simps stops_simps skip_ws_simps)
  next
    case (Cons y ys)
    let ?t = "join (item_sep st) (dumps_list st xs) @ CHR '']'' # r"
    have y: "plain y" and x: "plain x" using list_cons.prems Cons by simp_all
    obtain q where q: "?t = dumps st y @ q" using Cons by (simp add: join_def)
    have s: "stops (item_sep st @ ?t)" using item_sep_ok(1) [OF assms] stops_simps(1) by (metis append_Cons)
    have v: "parse_value (dumps st x @ item_sep st @ ?t) = Some (x, item_sep st @ ?t)"
      using list_cons(1) x s by blast
    have e: "parse_elements ?t = Some (xs, r)" using list_cons(2) list_cons.prems Cons by simp
    have "skip_ws (item_sep st @ ?t) = CHR '','' # tl (item_sep st) @ ?t" "skip_ws (tl (item_sep st) @ ?t) = ?t"
      using skip_ws_sep [OF assms y] q by simp_all
    moreover have "item_sep st \<noteq> []" using assms by (auto simp: style_ok_def)
    ultimately show ?thesis
      using v e Cons by (subst parse_elements.simps) (simp add: join_simps)
  qed
next
  case (obj_cons kv d)
  obtain k v where kv: "kv = (k, v)" by fastforce
  have v: "plain v" using obj_cons.prems kv by simp
  have quote: "quote (ascii st) k @ u = CHR 0x22 # concat (map (esc (ascii st)) k) @ CHR 0x22 # u" for u by (simp add: quote_def)
  have sep: "skip_ws (key_sep st @ dumps st v @ u) = CHR '':'' # tl (key_sep st) @ dumps st v @ u" for u
    using item_sep_ok(2) [OF assms] skip_ws_simps(4) by (metis append_Cons)
  show ?case
  proof (cases d)
    case Nil
    then show ?thesis using obj_cons(1) [of "CHR ''}'' # r"] v kv skip_ws_sep(3) [OF assms v]
      by (subst parse_members.simps) (simp add: join_simps quote parse_string_quote sep stops_simps skip_ws_simps)
  next
    case (Cons y ys)
    let ?t = "join (item_sep st) (dumps_items st d) @ CHR ''}'' # r"
    obtain q where q: "?t = CHR 0x22 # q" using Cons by (simp add: join_def quote_def)
    have s: "stops (item_sep st @ ?t)" using item_sep_ok(1) [OF assms] stops_simps(1) by (metis append_Cons)
    have e: "parse_members ?t = Some (d, r)" using obj_cons(2) obj_cons.prems Cons by simp
    have p: "parse_value (dumps st v @ item_sep st @ ?t) = Some (v, item_sep st @ ?t)"
      using obj_cons(1) v kv s by simp
    have t: "skip_ws (item_sep st @ ?t) = CHR '','' # tl (item_sep st) @ ?t" "skip_ws (tl (item_sep st) @ ?t) = ?t"
      using assms q by (auto simp: style_ok_def skip_ws_def json_ws_def)
    have "join (item_sep st) (dumps_items st (kv # d)) @ CHR ''}'' # r = quote (ascii st) k @ key_sep st @ dumps st v @ item_sep st @ ?t"
      using Cons kv by (simp add: join_simps)
    then show ?thesis
      using p e t sep [of "item_sep st @ ?t"] skip_ws_sep(3) [OF assms v, of "item_sep st @ ?t"] kv
      by (subst parse_members.simps) (simp add: quote parse_string_quote)
  qed
qed simp_all

lemma loads_dumps: "plain v \<Longrightarrow> style_ok st \<Longrightarrow> loads (dumps st v) = Some v"
  using parse_dumps(1) [of st v "[]"] skip_ws_dumps [of v st "[]"]
  by (simp add: loads_def stops_simps) (simp add: skip_ws_def)

end
