(* ===== verification/Board.thy ===== *)
theory Board
  imports JsonText
begin

text \<open>
  \<^verbatim>\<open>hermes_pipeline/kanban_tasks.py\<close>, the client of the Hermes task board: commands and their output, card
  headers, snapshots, archiving, the status map of a tick, the child-first order of its cards,
  completion and the outcome log.

  The Hermes command line is the parameter \<open>command\<close>: it takes the arguments of a subprocess and
  returns its exit code and output, or raises (\<open>SubprocessErr\<close> is \<^verbatim>\<open>subprocess.TimeoutExpired\<close>).  Its
  state \<open>remote\<close> also stands for everything else that changes outside the process, so that what a
  path raises when it is read or written may differ from one command to the next.
\<close>

section \<open>State\<close>

record 'b board =
  remote :: 'b
  texts :: "string \<Rightarrow> string option"

record 'b bw =
  command :: "string list \<Rightarrow> 'b \<Rightarrow> (int \<times> string) res \<times> 'b"
  read_error :: "string \<Rightarrow> 'b \<Rightarrow> exn option"
  write_error :: "string \<Rightarrow> 'b \<Rightarrow> exn option"

definition hermes :: "'b bw \<Rightarrow> string list \<Rightarrow> ('b board, int \<times> string) op" where
  "hermes w args s = (case command w args (remote s) of (r, b) \<Rightarrow> (r, s\<lparr>remote := b\<rparr>))"

definition read_text :: "'b bw \<Rightarrow> string \<Rightarrow> 'b board \<Rightarrow> string res" where
  "read_text w path s = (case read_error w path (remote s) of Some e \<Rightarrow> Inl e
     | None \<Rightarrow> (case texts s path of None \<Rightarrow> Inl FileNotFound | Some t \<Rightarrow> Inr t))"

definition write_text :: "'b bw \<Rightarrow> string \<Rightarrow> string \<Rightarrow> ('b board, unit) op" where
  "write_text w path t s = (case write_error w path (remote s) of Some e \<Rightarrow> (Inl e, s)
     | None \<Rightarrow> (Inr (), s\<lparr>texts := (texts s)(path := Some t)\<rparr>))"

definition unlink :: "'b bw \<Rightarrow> bool \<Rightarrow> string \<Rightarrow> ('b board, unit) op" where
  "unlink w missing_ok path s = (case write_error w path (remote s) of Some e \<Rightarrow> (Inl e, s)
     | None \<Rightarrow> if texts s path = None \<and> \<not> missing_ok then (Inl FileNotFound, s) else (Inr (), s\<lparr>texts := (texts s)(path := None)\<rparr>))"

definition path_exists :: "'b board \<Rightarrow> string \<Rightarrow> bool" where
  "path_exists s path \<longleftrightarrow> texts s path \<noteq> None"

text \<open>\<^verbatim>\<open>except (subprocess.TimeoutExpired, OSError)\<close>\<close>

definition command_failed :: "exn \<Rightarrow> bool" where
  "command_failed e \<longleftrightarrow> e = SubprocessErr \<or> is_os_error e"

section \<open>Cards and their headers\<close>

definition hermes_id_ok :: "string \<Rightarrow> bool" where
  "hermes_id_ok s \<longleftrightarrow> startswith s ''t_'' \<and> hex_of_length 8 (drop 2 s)"

definition build_json_header :: "string \<Rightarrow> string \<Rightarrow> string \<Rightarrow> string \<Rightarrow> int \<Rightarrow> string" where
  "build_json_header tick_id phase_key todo_id project_slug generation = dumps default_style (sort_keys (JObj
     ([(''tick_id'', JStr tick_id), (''phase_key'', JStr phase_key), (''todo_id'', JStr todo_id), (''project_slug'', JStr project_slug)]
      @ (if generation > 1 then [(''generation'', JInt generation)] else []))))"

definition header_generation :: "dict \<Rightarrow> int" where
  "header_generation h = (let g = dget h ''generation'' in if is_int g \<and> int_of g \<ge> 1 then int_of g else 1)"

definition phase_idempotency_key :: "string \<Rightarrow> string \<Rightarrow> int \<Rightarrow> string res" where
  "phase_idempotency_key tick_id phase_key generation =
     (if generation < 1 then Inl (ValueErr ''generation must be >= 1'')
      else if generation = 1 then Inr (tick_id @ '':'' @ phase_key)
      else Inr (tick_id @ '':'' @ phase_key @ '':g'' @ dec_int generation))"

definition parse_task_id :: "string \<Rightarrow> string option" where
  "parse_task_id out = (let fromjson = (case loads out of Some (JObj d) \<Rightarrow> dget d ''id'' | _ \<Rightarrow> JNull);
       parts = words_of (strip out);
       task_id = (if fromjson \<noteq> JNull then fromjson
         else if 2 \<le> length parts \<and> parts ! 0 = ''Created'' then JStr (parts ! 1) else JNull)
     in if is_str task_id \<and> hermes_id_ok (str_of task_id) then Some (str_of task_id) else None)"

definition validated_task_list :: "json \<Rightarrow> dict list option" where
  "validated_task_list snapshot = (let tasks = (case snapshot of
         JList xs \<Rightarrow> JList xs
       | JObj d \<Rightarrow> if has_key d ''tasks'' then dget d ''tasks'' else JList []
       | _ \<Rightarrow> JNull)
     in case tasks of JList xs \<Rightarrow> if list_all is_dict xs then Some (map dict_of xs) else None | _ \<Rightarrow> None)"

text \<open>\<^verbatim>\<open>d.get(k, default)\<close>.\<close>

definition dget_or :: "dict \<Rightarrow> string \<Rightarrow> json \<Rightarrow> json" where
  "dget_or d k v = (if has_key d k then dget d k else v)"

definition parse_task_header :: "dict \<Rightarrow> dict option" where
  "parse_task_header task = (case dget_or task ''body'' (JStr []) of
       JStr body \<Rightarrow> (case loads (takeWhile (\<lambda>c. c \<noteq> newline) body) of Some (JObj h) \<Rightarrow> Some h | _ \<Rightarrow> None)
     | _ \<Rightarrow> None)"

section \<open>Snapshots\<close>

definition list_task_snapshot :: "'b bw \<Rightarrow> string \<Rightarrow> ('b board, dict list option) op" where
  "list_task_snapshot w tenant =
     catch_op (bind_op (hermes w [''hermes'', ''kanban'', ''list'', ''--tenant'', tenant, ''--archived'', ''--json'']) (\<lambda>r.
         ret (if fst r \<noteq> 0 then None else case loads (snd r) of None \<Rightarrow> None | Some v \<Rightarrow> validated_task_list v)))
       (\<lambda>e. if command_failed e then ret None else raise e)"

definition task_status_in_snapshot :: "'b bw \<Rightarrow> string \<Rightarrow> string \<Rightarrow> ('b board, string option) op" where
  "task_status_in_snapshot w tenant task_id = bind_op (list_task_snapshot w tenant) (\<lambda>tasks. ret (
     case tasks of None \<Rightarrow> None
     | Some ts \<Rightarrow> (case find (\<lambda>t. dget t ''id'' = JStr task_id) ts of None \<Rightarrow> None
         | Some t \<Rightarrow> (case dget t ''status'' of JStr st \<Rightarrow> Some st | _ \<Rightarrow> None))))"

text \<open>A live card of a tick and phase, by its header.\<close>

definition card_of :: "string \<Rightarrow> string \<Rightarrow> dict \<Rightarrow> dict option" where
  "card_of tick_id phase_key task = (if dget task ''status'' = JStr ''archived'' then None
     else (case parse_task_header task of None \<Rightarrow> None
       | Some h \<Rightarrow> if dget h ''tick_id'' = JStr tick_id \<and> dget h ''phase_key'' = JStr phase_key then Some h else None))"

definition find_task_id_in_snapshot :: "'b bw \<Rightarrow> string \<Rightarrow> string \<Rightarrow> string \<Rightarrow> int \<Rightarrow> ('b board, string option) op" where
  "find_task_id_in_snapshot w tenant tick_id phase_key generation = bind_op (list_task_snapshot w tenant) (\<lambda>tasks. ret (
     case tasks of None \<Rightarrow> None
     | Some ts \<Rightarrow> (case find (\<lambda>t. case card_of tick_id phase_key t of None \<Rightarrow> False | Some h \<Rightarrow> header_generation h = generation) ts of
           None \<Rightarrow> None
         | Some t \<Rightarrow> parse_task_id (dumps default_style (JObj [(''id'', dget t ''id'')])))))"

record card =
  card_id :: string
  card_status :: string
  card_generation :: int

definition live_card :: "string \<Rightarrow> string \<Rightarrow> dict \<Rightarrow> card option" where
  "live_card tick_id phase_key t = (case card_of tick_id phase_key t of None \<Rightarrow> None
     | Some h \<Rightarrow> if is_str (dget t ''id'') \<and> is_str (dget t ''status'')
         then Some \<lparr>card_id = str_of (dget t ''id''), card_status = str_of (dget t ''status''), card_generation = header_generation h\<rparr> else None)"

definition phase_cards_in_snapshot :: "'b bw \<Rightarrow> string \<Rightarrow> string \<Rightarrow> string \<Rightarrow> ('b board, card list option) op" where
  "phase_cards_in_snapshot w tenant tick_id phase_key = bind_op (list_task_snapshot w tenant) (\<lambda>tasks. ret (
     case tasks of None \<Rightarrow> None | Some ts \<Rightarrow> Some (List.map_filter (live_card tick_id phase_key) ts)))"

section \<open>Archiving and completing\<close>

text \<open>\<^verbatim>\<open>{task["id"]: task.get("status") for task in snapshot if isinstance(task.get("id"), str)}\<close>\<close>

definition statuses_of :: "dict list \<Rightarrow> string \<Rightarrow> json option" where
  "statuses_of ts = map_of (rev (map (\<lambda>t. (str_of (dget t ''id''), dget t ''status'')) (filter (\<lambda>t. is_str (dget t ''id'')) ts)))"

definition archive_command :: "string \<Rightarrow> string list" where
  "archive_command task_id = [''hermes'', ''kanban'', ''archive'', task_id]"

text \<open>The archive command, whatever it returns or raises.\<close>

definition try_archive :: "'b bw \<Rightarrow> string \<Rightarrow> ('b board, bool) op" where
  "try_archive w task_id = catch_op (bind_op (hermes w (archive_command task_id)) (\<lambda>r. ret (fst r = 0))) (\<lambda>e. ret False)"

fun archive_each :: "'b bw \<Rightarrow> bool \<Rightarrow> string list \<Rightarrow> ('b board, bool) op" where
  "archive_each w ok [] = ret ok"
| "archive_each w ok (i # is) = bind_op (try_archive w i) (\<lambda>b. archive_each w (ok \<and> b) is)"

fun archive_confirmed :: "'b bw \<Rightarrow> string \<Rightarrow> (string \<Rightarrow> json option) \<Rightarrow> string list \<Rightarrow> ('b board, bool) op" where
  "archive_confirmed w tenant statuses [] = ret True"
| "archive_confirmed w tenant statuses (i # is) =
     (if statuses i = Some (JStr ''archived'') then archive_confirmed w tenant statuses is
      else bind_op (try_archive w i) (\<lambda>_.
        bind_op (list_task_snapshot w tenant) (\<lambda>snapshot.
        case snapshot of None \<Rightarrow> ret False
        | Some ts \<Rightarrow> if statuses_of ts i \<noteq> Some (JStr ''archived'') then ret False
            else archive_confirmed w tenant (statuses_of ts) is)))"

definition archive_tasks :: "'b bw \<Rightarrow> string list \<Rightarrow> string option \<Rightarrow> ('b board, bool) op" where
  "archive_tasks w task_ids tenant = (if task_ids = [] then ret True
     else case tenant of
       None \<Rightarrow> archive_each w True task_ids
     | Some t \<Rightarrow> bind_op (list_task_snapshot w t) (\<lambda>snapshot.
         archive_confirmed w t (case snapshot of None \<Rightarrow> Map.empty | Some ts \<Rightarrow> statuses_of ts) task_ids))"

definition complete_todo_kanban_task :: "'b bw \<Rightarrow> string \<Rightarrow> string \<Rightarrow> ('b board, bool) op" where
  "complete_todo_kanban_task w tenant task_id =
     catch_op (bind_op (hermes w [''hermes'', ''kanban'', ''complete'', task_id]) (\<lambda>r. ret (fst r = 0))) (\<lambda>e. ret False)"

section \<open>The blocked-validation marker\<close>

definition run_path :: "string \<Rightarrow> string \<Rightarrow> string \<Rightarrow> string" where
  "run_path state_dir tick_id name = state_dir @ ''/runs/'' @ tick_id @ ''/'' @ name"

definition validation_blocked_marker :: "string \<Rightarrow> string \<Rightarrow> string" where
  "validation_blocked_marker state_dir tick_id = run_path state_dir tick_id ''result-validation-blocked''"

definition validation_blocked_summary :: "'b bw \<Rightarrow> string \<Rightarrow> string \<Rightarrow> 'b board \<Rightarrow> string res" where
  "validation_blocked_summary w state_dir tick_id s = (case read_text w (validation_blocked_marker state_dir tick_id) s of
       Inl e \<Rightarrow> if is_os_error e then Inr [] else Inl e
     | Inr t \<Rightarrow> Inr (case loads t of
         Some (JObj d) \<Rightarrow> (case (dget d ''step_key'', dget d ''code'') of
             (JStr step_key, JStr code) \<Rightarrow> strip (take 256 step_key @ '' '' @ take 200 code) | _ \<Rightarrow> [])
       | _ \<Rightarrow> []))"

definition record_validation_blocked :: "'b bw \<Rightarrow> string \<Rightarrow> string \<Rightarrow> string \<Rightarrow> string \<Rightarrow> string \<Rightarrow> ('b board, unit) op" where
  "record_validation_blocked w state_dir tick_id step_key code reason =
     catch_op (write_text w (validation_blocked_marker state_dir tick_id) (dumps default_style (sort_keys (JObj
         [(''schema_version'', JInt 1), (''tick_id'', JStr tick_id), (''step_key'', JStr step_key), (''code'', JStr code), (''reason'', JStr reason)]))
       @ [newline]))
     (\<lambda>e. if is_os_error e then ret () else raise e)"

definition clear_validation_blocked :: "'b bw \<Rightarrow> string \<Rightarrow> string \<Rightarrow> ('b board, unit) op" where
  "clear_validation_blocked w state_dir tick_id =
     catch_op (unlink w True (validation_blocked_marker state_dir tick_id)) (\<lambda>e. if is_os_error e then ret () else raise e)"

end
