(* ===== verification/TickStatus.thy ===== *)
theory TickStatus
  imports Board
begin

text \<open>
  \<^verbatim>\<open>hermes_pipeline/kanban_tasks.py\<close>, what a tick observes of its cards: the status map, the newest card
  of every phase, termination of a card's worker, the child-first order, completion of a tick and the
  outcome log.  The concurrent \<^verbatim>\<open>show\<close> commands of \<^verbatim>\<open>_fetch_task_payloads\<close> are made one after the other.
\<close>

section \<open>Status map and cards of a tick\<close>

definition list_command :: "string \<Rightarrow> string list" where
  "list_command tenant = [''hermes'', ''kanban'', ''list'', ''--tenant'', tenant, ''--json'']"

definition list_tasks :: "'b bw \<Rightarrow> string \<Rightarrow> ('b board, dict list) op" where
  "list_tasks w tenant =
     catch_op (bind_op (hermes w (list_command tenant)) (\<lambda>r.
         ret (if fst r \<noteq> 0 then [] else case loads (snd r) of None \<Rightarrow> []
              | Some v \<Rightarrow> (case validated_task_list v of None \<Rightarrow> [] | Some ts \<Rightarrow> ts))))
       (\<lambda>e. if e = SubprocessErr \<or> e = FileNotFound then ret [] else raise e)"

definition header_for :: "string \<Rightarrow> dict \<Rightarrow> dict option" where
  "header_for tick_id task = (case parse_task_header task of None \<Rightarrow> None
     | Some h \<Rightarrow> if dget h ''tick_id'' = JStr tick_id then Some h else None)"

definition add_status :: "string \<Rightarrow> dict \<Rightarrow> (string \<times> string) list \<Rightarrow> (string \<times> string) list" where
  "add_status tick_id task m = (case header_for tick_id task of None \<Rightarrow> m
     | Some h \<Rightarrow> (case (dget h ''phase_key'', dget_or task ''status'' (JStr ''unknown'')) of
           (JStr key, JStr status) \<Rightarrow> AList.update key status m
         | _ \<Rightarrow> m))"

definition get_todo_kanban_status :: "'b bw \<Rightarrow> string \<Rightarrow> string \<Rightarrow> ('b board, (string \<times> string) list) op" where
  "get_todo_kanban_status w tenant tick_id = bind_op (list_tasks w tenant) (\<lambda>ts. ret (fold (add_status tick_id) ts []))"

record task_info =
  info_task :: string
  info_phase :: string
  info_status :: string
  info_todo :: string
  info_generation :: int

definition task_info_of :: "string \<Rightarrow> dict \<Rightarrow> task_info option" where
  "task_info_of tick_id task = (case header_for tick_id task of None \<Rightarrow> None
     | Some h \<Rightarrow> (case (dget h ''phase_key'', dget_or task ''id'' (JStr []), dget_or task ''status'' (JStr ''unknown''), dget_or h ''todo_id'' (JStr [])) of
           (JStr key, JStr task_id, JStr status, JStr todo) \<Rightarrow> Some \<lparr>info_task = task_id, info_phase = key, info_status = status,
             info_todo = todo, info_generation = header_generation h\<rparr>
         | _ \<Rightarrow> None))"

text \<open>Of two cards of a phase the one with the higher generation is kept, and of equal ones the later.\<close>

definition add_task :: "string \<Rightarrow> dict \<Rightarrow> (string \<times> task_info) list \<Rightarrow> (string \<times> task_info) list" where
  "add_task tick_id task m = (case task_info_of tick_id task of None \<Rightarrow> m
     | Some i \<Rightarrow> if (case map_of m (info_phase i) of None \<Rightarrow> False | Some j \<Rightarrow> info_generation j > info_generation i) then m
         else AList.update (info_phase i) i m)"

definition get_todo_kanban_tasks :: "'b bw \<Rightarrow> string \<Rightarrow> string \<Rightarrow> ('b board, (string \<times> task_info) list) op" where
  "get_todo_kanban_tasks w tenant tick_id = bind_op (list_tasks w tenant) (\<lambda>ts. ret (fold (add_task tick_id) ts []))"

section \<open>Card details\<close>

definition show_task_payload :: "'b bw \<Rightarrow> string \<Rightarrow> ('b board, dict option) op" where
  "show_task_payload w task_id =
     catch_op (bind_op (hermes w [''hermes'', ''kanban'', ''show'', task_id, ''--json'']) (\<lambda>r.
         ret (if fst r \<noteq> 0 then None else case loads (snd r) of Some (JObj d) \<Rightarrow> Some d | _ \<Rightarrow> None)))
       (\<lambda>e. if command_failed e then ret None else raise e)"

definition payload_run_terminated :: "dict option \<Rightarrow> bool \<Rightarrow> bool" where
  "payload_run_terminated payload require_kill_confirmation = (case payload of None \<Rightarrow> False
     | Some p \<Rightarrow> (case (dget p ''task'', dget p ''runs'') of
           (JObj task, JList runs) \<Rightarrow>
             if dget task ''worker_pid'' \<noteq> JNull \<or> dget task ''claim_lock'' \<noteq> JNull then False
             else if \<not> list_all (\<lambda>r. is_dict r \<and> dget (dict_of r) ''ended_at'' \<noteq> JNull) runs then False
             else if \<not> require_kill_confirmation then True
             else if runs = [] then False
             else (case dget (dict_of (last runs)) ''metadata'' of JObj m \<Rightarrow> dget m ''terminated'' = JBool True | _ \<Rightarrow> False)
         | _ \<Rightarrow> False))"

definition task_run_terminated :: "'b bw \<Rightarrow> string \<Rightarrow> bool \<Rightarrow> ('b board, bool) op" where
  "task_run_terminated w task_id require_kill_confirmation =
     bind_op (show_task_payload w task_id) (\<lambda>p. ret (payload_run_terminated p require_kill_confirmation))"

fun map_op :: "('a \<Rightarrow> ('s, 'b) op) \<Rightarrow> 'a list \<Rightarrow> ('s, 'b list) op" where
  "map_op f [] = ret []"
| "map_op f (x # xs) = bind_op (f x) (\<lambda>y. bind_op (map_op f xs) (\<lambda>ys. ret (y # ys)))"

definition fetch_task_payloads :: "'b bw \<Rightarrow> string list \<Rightarrow> ('b board, (string \<times> dict) list option) op" where
  "fetch_task_payloads w ids = bind_op (map_op (show_task_payload w) ids) (\<lambda>ps.
     ret (if list_all (\<lambda>p. p \<noteq> None) ps then Some (zip ids (map the ps)) else None))"

section \<open>Child-first order\<close>

text \<open>The parents a card's details name, if the details are usable.\<close>

definition shown_parents :: "string \<Rightarrow> dict \<Rightarrow> string list option" where
  "shown_parents task_id payload = (case (dget payload ''task'', dget payload ''parents'', dget payload ''runs'') of
       (JObj task, JList parents, JList runs) \<Rightarrow>
         if dget task ''id'' = JStr task_id \<and> list_all is_str parents \<and> list_all is_dict runs then Some (map str_of parents) else None
     | _ \<Rightarrow> None)"

definition child_counts :: "(string \<times> string list) list \<Rightarrow> (string \<times> int) list" where
  "child_counts parents = map (\<lambda>i. (fst i, int (count_list (concat (map snd parents)) (fst i)))) parents"

text \<open>The heap of ready cards is the list of its elements; popping takes the least string.\<close>

fun least :: "string \<Rightarrow> string list \<Rightarrow> string" where
  "least m [] = m"
| "least m (x # xs) = least (if str_le x m then x else m) xs"

fun release :: "string list \<Rightarrow> (string \<times> int) list \<Rightarrow> string list \<Rightarrow> (string \<times> int) list \<times> string list" where
  "release [] counts ready = (counts, ready)"
| "release (p # ps) counts ready = (let counts' = map (\<lambda>c. if fst c = p then (fst c, snd c - 1) else c) counts in
     release ps counts' (if map_of counts' p = Some 0 then p # ready else ready))"

definition pending_work :: "(string \<times> int) list \<Rightarrow> string list \<Rightarrow> nat" where
  "pending_work counts ready = sum_list (map (\<lambda>c. nat (snd c)) counts) + length ready"

lemma sum_list_less:
  assumes "x \<in> set xs" and "f x < (g x :: nat)" and "\<And>y. y \<in> set xs \<Longrightarrow> f y \<le> g y"
  shows "sum_list (map f xs) < sum_list (map g xs)"
  using assms
proof (induction xs)
  case (Cons y ys)
  have "sum_list (map f ys) \<le> sum_list (map g ys)" using Cons.prems(3) by (intro sum_list_mono) simp
  moreover have "f y \<le> g y" using Cons.prems(3) by simp
  ultimately show ?case
    using Cons by (cases "x = y") (auto intro: add_less_le_mono add_le_less_mono)
qed simp

lemma release_work: "release ps counts ready = (counts', ready') \<Longrightarrow> pending_work counts' ready' \<le> pending_work counts ready"
proof (induction ps arbitrary: counts ready)
  case (Cons p ps)
  define c' where "c' = map (\<lambda>c. if fst c = p then (fst c, snd c - 1) else c) counts"
  have le: "sum_list (map (\<lambda>c. nat (snd c)) c') \<le> sum_list (map (\<lambda>c. nat (snd c)) counts)"
    unfolding c'_def by (simp add: o_def) (rule sum_list_mono, auto)
  have "pending_work c' (if map_of c' p = Some 0 then p # ready else ready) \<le> pending_work counts ready"
  proof (cases "map_of c' p = Some 0")
    case True
    then have "(p, 0) \<in> set c'" by (rule map_of_SomeD)
    then have m: "(p, 1) \<in> set counts" by (auto simp: c'_def split: if_splits)
    have "sum_list (map (\<lambda>c. nat (snd (if fst c = p then (fst c, snd c - 1) else c))) counts) < sum_list (map (\<lambda>c. nat (snd c)) counts)"
      by (rule sum_list_less [OF m]) auto
    then show ?thesis using True by (simp add: pending_work_def c'_def o_def)
  qed (use le in \<open>simp add: pending_work_def\<close>)
  moreover have "release ps c' (if map_of c' p = Some 0 then p # ready else ready) = (counts', ready')"
    using Cons.prems by (simp add: c'_def Let_def)
  ultimately show ?case using Cons.IH by (meson order_trans)
qed simp

lemma least_in: "least m xs \<in> insert m (set xs)"
  by (induction xs arbitrary: m) auto

function child_first :: "(string \<times> string list) list \<Rightarrow> (string \<times> int) list \<Rightarrow> string list \<Rightarrow> string list" where
  "child_first parents counts [] = []"
| "child_first parents counts (r # rs) = (let i = least r rs;
       cr = release (case map_of parents i of None \<Rightarrow> [] | Some ps \<Rightarrow> ps) counts (remove1 i (r # rs))
     in i # child_first parents (fst cr) (snd cr))"
  by pat_completeness auto

termination
proof (relation "measure (\<lambda>(p, c, r). pending_work c r)", simp)
  fix parents :: "(string \<times> string list) list" and counts r rs i cr
  assume i: "i = least r rs"
    and cr: "cr = release (case map_of parents i of None \<Rightarrow> [] | Some ps \<Rightarrow> ps) counts (remove1 i (r # rs))"
  have "i \<in> set (r # rs)" using least_in [of r rs] i by simp
  then have "length (remove1 i (r # rs)) < length (r # rs)" by (metis length_pos_if_in_set length_remove1 diff_less zero_less_one)
  then have "pending_work counts (remove1 i (r # rs)) < pending_work counts (r # rs)" by (simp add: pending_work_def)
  moreover have "pending_work (fst cr) (snd cr) \<le> pending_work counts (remove1 i (r # rs))"
    by (rule release_work) (simp add: cr)
  ultimately show "((parents, fst cr, snd cr), parents, counts, r # rs) \<in> measure (\<lambda>(p, c, r). pending_work c r)"
    by (simp add: case_prod_beta del: remove1.simps)
qed

definition order_ids :: "(string \<times> string list) list \<Rightarrow> string list option" where
  "order_ids parents = (
     if \<exists>ip \<in> set parents. \<exists>p \<in> set (snd ip). p \<notin> fst ` set parents then None
     else let counts = child_counts parents;
              ordered = child_first parents counts (map fst (filter (\<lambda>c. snd c = 0) counts))
          in if length ordered \<noteq> length parents then None else Some ordered)"

definition child_first_task_order :: "'b bw \<Rightarrow> dict list \<Rightarrow> ('b board, dict list option) op" where
  "child_first_task_order w tasks = (let ids = map (\<lambda>t. str_of (dget t ''id'')) tasks in
     if \<not> list_all (\<lambda>t. is_str (dget t ''id'')) tasks \<or> \<not> distinct ids then ret None
     else bind_op (fetch_task_payloads w ids) (\<lambda>payloads. ret (
       case payloads of None \<Rightarrow> None
       | Some ps \<Rightarrow>
           (let parents = map (\<lambda>ip. (fst ip, shown_parents (fst ip) (snd ip))) ps in
            if list_all (\<lambda>ip. snd ip \<noteq> None) parents
            then (case order_ids (map (\<lambda>ip. (fst ip, the (snd ip))) parents) of
                None \<Rightarrow> None
              | Some order \<Rightarrow> Some (map (\<lambda>i. the (map_of (zip ids tasks) i)) order))
            else None))))"

section \<open>Completion of a tick\<close>

definition COMPLETION_STATUSES :: "string list" where "COMPLETION_STATUSES = [''done'', ''failed'']"

text \<open>What a \<^verbatim>\<open>for\<close> loop over a value visits; other values raise \<^verbatim>\<open>TypeError\<close>.\<close>

fun iterated :: "json \<Rightarrow> json list res" where
  "iterated (JList xs) = Inr xs"
| "iterated (JStr s) = Inr (map (\<lambda>c. JStr [c]) s)"
| "iterated (JObj d) = Inr (map (JStr \<circ> fst) d)"
| "iterated _ = Inl TypeErr"

text \<open>\<^verbatim>\<open>d.get(key)\<close> for any value as the key.\<close>

definition status_get :: "(string \<times> string) list \<Rightarrow> json \<Rightarrow> string option res" where
  "status_get m key = (if \<not> hashable key then Inl TypeErr else Inr (case key of JStr k \<Rightarrow> map_of m k | _ \<Rightarrow> None))"

fun all_done :: "(string \<times> string) list \<Rightarrow> json list \<Rightarrow> bool res" where
  "all_done m [] = Inr True"
| "all_done m (k # ks) = rbind (status_get m k) (\<lambda>st. if st = Some ''done'' then all_done m ks else Inr False)"

text \<open>
  The pinned registration of a tick: for schema version 6 every step key must be done.  Every error but
  \<^verbatim>\<open>AttributeError\<close> (a registration that is not an object) makes the answer no.
\<close>

definition pinned_done :: "'b bw \<Rightarrow> string \<Rightarrow> string \<Rightarrow> (string \<times> string) list \<Rightarrow> 'b board \<Rightarrow> bool res" where
  "pinned_done w state_dir tick_id m s = (let path = run_path state_dir tick_id ''registration.json'' in
     if \<not> path_exists s path then Inr True
     else (case rbind (read_text w path s) (\<lambda>t. case loads t of
              None \<Rightarrow> Inl (ValueErr ''json'')
            | Some (JObj pinned) \<Rightarrow> if py_eq (dget pinned ''schema_version'') (JInt 6)
                then rbind (dsub pinned ''step_keys'') (\<lambda>keys. if \<not> truthy keys then Inr False else rbind (iterated keys) (all_done m))
                else Inr True
            | Some _ \<Rightarrow> Inl AttrErr) of
          Inr b \<Rightarrow> Inr b
        | Inl e \<Rightarrow> if is_os_error e \<or> is_value_error e \<or> e = TypeErr \<or> (case e of KeyErr _ \<Rightarrow> True | _ \<Rightarrow> False) then Inr False else Inl e))"

text \<open>The outcome log of a tick without cards: does it hold \<^verbatim>\<open>picked_none\<close>?\<close>

fun picked_none :: "string list \<Rightarrow> bool res" where
  "picked_none [] = Inr False"
| "picked_none (l # ls) = (case loads l of None \<Rightarrow> Inl (ValueErr ''json'')
     | Some (JObj d) \<Rightarrow> if dget d ''outcome'' = JStr ''picked_none'' then Inr True else picked_none ls
     | Some _ \<Rightarrow> Inl AttrErr)"

definition outcomes_path :: "string \<Rightarrow> string \<Rightarrow> string" where
  "outcomes_path state_dir tick_id = state_dir @ ''/outcomes/'' @ tick_id @ ''-phases.json''"

definition no_cards_complete :: "'b bw \<Rightarrow> string \<Rightarrow> string \<Rightarrow> 'b board \<Rightarrow> bool res" where
  "no_cards_complete w state_dir tick_id s = (let path = outcomes_path state_dir tick_id in
     if \<not> path_exists s path then Inr False
     else (case rbind (read_text w path s) (\<lambda>t. picked_none (split_on newline (strip t))) of
          Inr b \<Rightarrow> Inr b
        | Inl e \<Rightarrow> if is_os_error e \<or> e = ValueErr ''json'' then Inr False else Inl e))"

text \<open>Every expected phase has a card; an unreadable list of expected phases is not checked.\<close>

fun all_present :: "(string \<times> string) list \<Rightarrow> json list \<Rightarrow> bool res" where
  "all_present m [] = Inr True"
| "all_present m (k # ks) = rbind (status_get m k) (\<lambda>st. if st \<noteq> None then all_present m ks else Inr False)"

definition expected_present :: "'b bw \<Rightarrow> string \<Rightarrow> (string \<times> string) list \<Rightarrow> 'b board \<Rightarrow> bool res" where
  "expected_present w state_dir m s = (let path = state_dir @ ''/outcomes/expected-phases.json'' in
     if \<not> path_exists s path then Inr True
     else (case rbind (read_text w path s) (\<lambda>t. case loads t of None \<Rightarrow> Inl (ValueErr ''json'')
            | Some v \<Rightarrow> rbind (iterated v) (all_present m)) of
          Inr b \<Rightarrow> Inr b
        | Inl e \<Rightarrow> if is_os_error e \<or> e = ValueErr ''json'' then Inr True else Inl e))"

definition tick_complete :: "'b bw \<Rightarrow> string option \<Rightarrow> string \<Rightarrow> (string \<times> string) list \<Rightarrow> 'b board \<Rightarrow> bool res" where
  "tick_complete w state_dir tick_id m s =
     rbind (case state_dir of None \<Rightarrow> Inr True | Some d \<Rightarrow> pinned_done w d tick_id m s) (\<lambda>pinned.
     if \<not> pinned then Inr False
     else if m = [] then (case state_dir of None \<Rightarrow> Inr False | Some d \<Rightarrow> no_cards_complete w d tick_id s)
     else if \<not> list_all (\<lambda>kv. snd kv \<in> set COMPLETION_STATUSES) m then Inr False
     else expected_present w (case state_dir of Some d \<Rightarrow> if d = [] then ''.hermes'' else d | None \<Rightarrow> ''.hermes'') m s)"

definition all_phases_complete :: "'b bw \<Rightarrow> string \<Rightarrow> string \<Rightarrow> string option \<Rightarrow> ('b board, bool) op" where
  "all_phases_complete w tenant tick_id state_dir =
     bind_op (get_todo_kanban_status w tenant tick_id) (\<lambda>m. reads (tick_complete w state_dir tick_id m))"

section \<open>The outcome log\<close>

record observed =
  seen :: "string list"
  failures :: "(string \<times> json) list"

text \<open>One entry of the log; values that are not strings are hashed into the sets and never match a key.\<close>

definition startswith_failed :: "string \<Rightarrow> bool" where
  "startswith_failed s \<longleftrightarrow> startswith s ''failed_at_phase_''"

definition note_entry :: "json \<Rightarrow> observed \<Rightarrow> observed res" where
  "note_entry v ob = (case v of
     JObj entry \<Rightarrow>
       (let key = dget_or entry ''phase_key'' (JStr []); outcome = dget_or entry ''outcome'' (JStr []);
            add = (\<lambda>x ob. if is_str x \<and> truthy x then ob\<lparr>seen := str_of x # seen ob\<rparr> else ob);
            o1 = add outcome (add key ob)
        in rbind (run_checks [raise_if (truthy key \<and> \<not> hashable key) TypeErr, raise_if (truthy outcome \<and> \<not> hashable outcome) TypeErr,
             raise_if (\<not> is_str outcome) AttrErr]) (\<lambda>_.
           if startswith_failed (str_of outcome) then
             (case dget_or entry ''detail'' (JObj []) of
                JObj d \<Rightarrow> if hashable (dget d ''kanban_status'') then Inr (o1\<lparr>failures := (str_of outcome, dget d ''kanban_status'') # failures o1\<rparr>)
                  else Inl TypeErr
              | _ \<Rightarrow> Inl AttrErr)
           else Inr o1))
   | _ \<Rightarrow> Inl AttrErr)"

fun note_lines :: "string list \<Rightarrow> observed \<Rightarrow> observed res" where
  "note_lines [] ob = Inr ob"
| "note_lines (l # ls) ob = (let line = strip l in
     if line = [] then note_lines ls ob
     else (case loads line of None \<Rightarrow> Inl (ValueErr ''json'')
       | Some v \<Rightarrow> rbind (note_entry v ob) (note_lines ls)))"

definition nothing_seen :: observed where "nothing_seen = \<lparr>seen = [], failures = []\<rparr>"

text \<open>The entries a status map adds.\<close>

definition complete_entry :: "string \<Rightarrow> json" where
  "complete_entry key = JObj [(''outcome'', JStr ''phase_complete''), (''phase_key'', JStr key)]"

definition failed_entry :: "string \<Rightarrow> string \<Rightarrow> json" where
  "failed_entry key status = JObj [(''outcome'', JStr (''failed_at_phase_'' @ key)), (''detail'', JObj [(''kanban_status'', JStr status)])]"

definition all_complete_entry :: json where
  "all_complete_entry = JObj [(''outcome'', JStr ''all_phases_complete'')]"

definition phase_entries :: "observed \<Rightarrow> string \<times> string \<Rightarrow> json list" where
  "phase_entries ob kv = (let key = fst kv; status = snd kv in
     if status = ''done'' then (if key \<in> set (seen ob) then [] else [complete_entry key])
     else if status \<in> {''failed'', ''archived'', ''blocked''}
       then (if (''failed_at_phase_'' @ key, JStr status) \<in> set (failures ob) then [] else [failed_entry key status])
     else [])"

definition new_outcomes :: "observed \<Rightarrow> (string \<times> string) list \<Rightarrow> json list" where
  "new_outcomes ob m = concat (map (phase_entries ob) m)
     @ (if m \<noteq> [] \<and> list_all (\<lambda>kv. snd kv \<in> set COMPLETION_STATUSES) m \<and> ''all_phases_complete'' \<notin> set (seen ob) then [all_complete_entry] else [])"

definition log_line :: "json \<Rightarrow> string" where
  "log_line e = dumps default_style (sort_keys e) @ [newline]"

definition observe_outcomes :: "'b bw \<Rightarrow> string \<Rightarrow> string \<Rightarrow> (string \<times> string) list \<Rightarrow> ('b board, unit) op" where
  "observe_outcomes w state_dir tick_id m = (let path = outcomes_path state_dir tick_id in
     bind_op (reads (\<lambda>s. if \<not> path_exists s path then Inr [] else rbind (read_text w path s) (\<lambda>t. Inr (strip t)))) (\<lambda>content.
     bind_op (lift_res (if content = [] then Inr nothing_seen else note_lines (split_on newline content) nothing_seen)) (\<lambda>ob.
     if new_outcomes ob m = [] then ret ()
     else (\<lambda>s. write_text w path ((case texts s path of None \<Rightarrow> [] | Some t \<Rightarrow> t) @ concat (map log_line (new_outcomes ob m))) s))))"

end
