(* ===== verification/TickHistory.thy ===== *)
theory TickHistory
  imports TickStatus "HOL-Library.Multiset"
begin

text \<open>
  Library of the task board: the characters of encoded lines, the outcome log as lines, what the order
  of the cards maintains, and what a confirmed archive has seen.
\<close>

section \<open>Encoded lines\<close>

definition printable :: "char \<Rightarrow> bool" where
  "printable c \<longleftrightarrow> (let n = of_char c :: nat in 32 \<le> n \<and> n \<le> 126)"

lemma printable_digit: "n < 10 \<Longrightarrow> printable (digit n)"
  by (simp add: printable_def digit_def)

lemma printable_hex: "n < 16 \<Longrightarrow> printable (hex_digit n)"
  by (simp add: printable_def hex_digit_def)

lemma printable_esc: "list_all printable (esc True c)"
proof -
  have "(of_char c :: nat) < 256" by (rule of_char_256)
  then have "(of_char c :: nat) div 16 < 16" by (intro less_mult_imp_div_less) simp
  then have "printable (hex_digit (of_char c div 16))" "printable (hex_digit (of_char c mod 16))"
    by (auto intro!: printable_hex)
  then show ?thesis by (auto simp: esc_def Let_def backslash_def) (auto simp: printable_def)
qed

lemma printable_join: "list_all printable sep \<Longrightarrow> list_all (list_all printable) ws \<Longrightarrow> list_all printable (join sep ws)"
  by (cases ws) (auto simp: join_def list_all_iff)

lemma printable_dec: "list_all printable (dec n)"
proof (induction n rule: dec.induct)
  case (1 n)
  then show ?case by (subst dec.simps) (auto simp: printable_digit)
qed

lemma dumps_printable:
  assumes "ascii st" and "style_ok st"
  shows "plain v \<Longrightarrow> list_all printable (dumps st v)"
    "\<forall>x \<in> set xs. plain x \<Longrightarrow> list_all (list_all printable) (dumps_list st xs)"
    "\<forall>kv \<in> set d. plain (snd kv) \<Longrightarrow> list_all (list_all printable) (dumps_items st d)"
proof (induction v and xs and d rule: json_induct3)
  have "list_all printable (concat (map (esc True) s))" for s
    by (induction s) (simp_all add: printable_esc)
  then have q: "list_all printable (quote True s)" for s by (simp add: quote_def) (simp add: printable_def)
  have sep: "list_all printable (item_sep st)" "list_all printable (key_sep st)"
    using assms(2) by (auto simp: style_ok_def printable_def)
  {
    case (str s) show ?case using q assms(1) by simp
  next
    case (int i) show ?case by (simp add: dec_int_def printable_dec) (simp add: printable_def)
  next
    case (list xs) then show ?case using printable_join [OF sep(1)] by simp (simp add: printable_def)
  next
    case (obj d) then show ?case using printable_join [OF sep(1)] by simp (simp add: printable_def)
  next
    case (obj_cons kv d) then show ?case using q assms(1) sep by simp
  }
qed (simp_all add: printable_def)

lemma newline_not_printable: "\<not> printable newline"
  by (simp add: printable_def newline_def)

lemma dumps_no_newline: "plain v \<Longrightarrow> ascii st \<Longrightarrow> style_ok st \<Longrightarrow> newline \<notin> set (dumps st v)"
  using dumps_printable(1) [of st v] newline_not_printable by (auto simp: list_all_iff)

lemma insert_item_set: "set (insert_item kv d) = insert kv (set d)"
  by (induction d) auto

lemma insert_item_mset: "mset (insert_item kv d) = add_mset kv (mset d)"
  by (induction d) auto

lemma sort_items_keys: "mset (map fst (sort_items d)) = mset (map fst d)"
  by (induction d) (simp_all add: insert_item_mset)

lemma sort_plain:
  "plain v \<Longrightarrow> plain (sort_keys v)"
  "\<forall>x \<in> set xs. plain x \<Longrightarrow> \<forall>x \<in> set (sort_list xs). plain x"
  "\<forall>kv \<in> set d. plain (snd kv) \<Longrightarrow> \<forall>kv \<in> set (sort_items d). plain (snd kv)"
proof (induction v and xs and d rule: json_induct3)
  case (obj d)
  then show ?case using mset_eq_imp_distinct_iff [OF sort_items_keys [of d]] by simp
qed (auto simp: insert_item_set)

lemma default_ok: "style_ok default_style" "ascii default_style"
  by (simp_all add: style_ok_def default_style_def)

text \<open>The header line of a card.\<close>

lemma header_parses:
  assumes "plain (JObj h)" and "dget_or task ''body'' (JStr []) = JStr (dumps default_style (JObj h) @ newline # rest)"
  shows "parse_task_header task = Some h"
proof -
  have "takeWhile (\<lambda>c. c \<noteq> newline) (dumps default_style (JObj h) @ newline # rest) = dumps default_style (JObj h)"
    using dumps_no_newline [OF assms(1) default_ok(2,1)] by (intro takeWhile_tail [THEN trans]) (auto simp: takeWhile_eq_all_conv)
  then show ?thesis using assms loads_dumps [OF assms(1) default_ok(1)] by (simp add: parse_task_header_def)
qed

section \<open>Lines\<close>

lemma strip_line: "s \<noteq> [] \<Longrightarrow> \<not> is_space (hd s) \<Longrightarrow> \<not> is_space (last s) \<Longrightarrow> list_all is_space t \<Longrightarrow> strip (s @ t) = s"
proof -
  assume a: "s \<noteq> []" "\<not> is_space (hd s)" "\<not> is_space (last s)" "list_all is_space t"
  have d: "dropWhile is_space (s @ t) = s @ t" using a by (cases s) auto
  have "dropWhile is_space (rev t @ rev s) = dropWhile is_space (rev s)"
    using a(4) by (subst dropWhile_append2) (auto simp: list_all_iff)
  also have "\<dots> = rev s" using a by (cases s rule: rev_cases) auto
  finally show ?thesis by (simp add: strip_def d rstrip_while_def)
qed

lemma strip_id: "s \<noteq> [] \<Longrightarrow> \<not> is_space (hd s) \<Longrightarrow> \<not> is_space (last s) \<Longrightarrow> strip s = s"
  using strip_line [of s "[]"] by simp

lemma split_on_join: "ls \<noteq> [] \<Longrightarrow> \<forall>l \<in> set ls. d \<notin> set l \<Longrightarrow> split_on d (join [d] ls) = ls"
proof (induction ls)
  case (Cons l ls)
  have one: "d \<notin> set x \<Longrightarrow> split_on d (x @ d # r) = x # split_on d r" "d \<notin> set x \<Longrightarrow> split_on d x = [x]" for x r
    by (induction x) auto
  show ?case
  proof (cases ls)
    case Nil
    then show ?thesis using Cons.prems by (simp add: join_simps one)
  next
    case (Cons y ys)
    then have "join [d] (l # ls) = l @ d # join [d] ls" by (simp add: join_simps)
    with Cons.IH Cons.prems Cons show ?thesis by (simp add: one)
  qed
qed simp

lemma concat_lines: "ls \<noteq> [] \<Longrightarrow> concat (map (\<lambda>l. l @ [d]) ls) = join [d] ls @ [d]"
proof (induction ls)
  case (Cons l ls)
  then show ?case by (cases ls) (simp_all add: join_simps)
qed simp

text \<open>A log of encoded objects, read back line by line.\<close>

definition log_text :: "dict list \<Rightarrow> string" where
  "log_text es = concat (map (\<lambda>e. dumps default_style (JObj e) @ [newline]) es)"

lemma log_text_lines:
  assumes "es \<noteq> []"
  shows "strip (log_text es) = join [newline] (map (\<lambda>e. dumps default_style (JObj e)) es)"
proof -
  define ls where "ls = map (\<lambda>e. dumps default_style (JObj e)) es"
  have ls: "ls \<noteq> []" "\<forall>l \<in> set ls. hd l = CHR ''{'' \<and> l \<noteq> [] \<and> last l = CHR ''}''" using assms by (auto simp: ls_def)
  have "hd (join [newline] ls) = CHR ''{'' \<and> join [newline] ls \<noteq> [] \<and> last (join [newline] ls) = CHR ''}''"
    using ls
  proof (induction ls)
    case (Cons l ls)
    then show ?case by (cases ls) (auto simp: join_simps)
  qed simp
  moreover have "\<not> is_space (CHR ''{'')" "\<not> is_space (CHR ''}'')" by (simp_all add: is_space_def)
  moreover have "log_text es = join [newline] ls @ [newline]"
    using concat_lines [OF ls(1), of newline] by (simp add: log_text_def ls_def o_def)
  moreover have "is_space newline" by (simp add: is_space_def newline_def)
  ultimately show ?thesis by (simp add: strip_line ls_def)
qed

lemma log_text_split:
  assumes "es \<noteq> []" and "\<forall>e \<in> set es. plain (JObj e)"
  shows "split_on newline (strip (log_text es)) = map (\<lambda>e. dumps default_style (JObj e)) es"
proof -
  have "\<forall>l \<in> set (map (\<lambda>e. dumps default_style (JObj e)) es). newline \<notin> set l"
    using assms(2) dumps_no_newline [OF _ default_ok(2,1)] by (auto simp del: dumps.simps)
  then show ?thesis using assms(1) unfolding log_text_lines [OF assms(1)] by (intro split_on_join) simp_all
qed

lemma strip_object: "strip (dumps st (JObj e)) = dumps st (JObj e)"
  by (rule strip_id) (simp_all add: is_space_def)

section \<open>The order of the cards\<close>

lemma release_keys: "map fst (fst (release ps counts ready)) = map fst counts"
proof (induction ps arbitrary: counts ready)
  case (Cons p ps)
  have "map fst (map (\<lambda>c. if fst c = p then (fst c, snd c - 1) else c) counts) = map fst counts" by (simp add: o_def)
  with Cons.IH show ?case by (simp add: Let_def)
qed simp

lemma decrement_map_of:
  "map_of (map (\<lambda>c. if fst c = p then (fst c, snd c - (1 :: int)) else c) counts) j =
     map_option (\<lambda>n. if j = p then n - 1 else n) (map_of counts j)"
  by (induction counts) auto

lemma release_counts:
  "map_of (fst (release ps counts ready)) j = map_option (\<lambda>n. n - int (count_list ps j)) (map_of counts j)"
proof (induction ps arbitrary: counts ready)
  case (Cons p ps)
  show ?case
    using Cons.IH [of "map (\<lambda>c. if fst c = p then (fst c, snd c - 1) else c) counts"]
    by (cases "map_of counts j") (simp_all add: Let_def decrement_map_of)
qed (simp add: map_option.id [unfolded id_def])

lemma release_ready:
  assumes "\<And>p. p \<in> set ps \<Longrightarrow> \<exists>n. map_of counts p = Some n \<and> int (count_list ps p) \<le> n"
    and "distinct ready" and "set ps \<inter> set ready = {}"
  shows "distinct (snd (release ps counts ready))
    \<and> set (snd (release ps counts ready)) = set ready \<union> {j \<in> set ps. map_of counts j = Some (int (count_list ps j))}"
  using assms
proof (induction ps arbitrary: counts ready)
  case (Cons p ps)
  define c' where "c' = map (\<lambda>c. if fst c = p then (fst c, snd c - 1) else c) counts"
  define r' where "r' = (if map_of c' p = Some 0 then p # ready else ready)"
  have c': "map_of c' j = map_option (\<lambda>n. if j = p then n - 1 else n) (map_of counts j)" for j
    unfolding c'_def by (rule decrement_map_of)
  obtain n where n: "map_of counts p = Some n" "int (count_list (p # ps) p) \<le> n" using Cons.prems(1) by force
  have a: "\<exists>n. map_of c' q = Some n \<and> int (count_list ps q) \<le> n" if "q \<in> set ps" for q
  proof -
    have "q \<in> set (p # ps)" using that by simp
    from Cons.prems(1) [OF this] obtain m where "map_of counts q = Some m" "int (count_list (p # ps) q) \<le> m" by blast
    then show ?thesis by (cases "q = p") (simp_all add: c')
  qed
  have p: "p \<notin> set ps" if "map_of c' p = Some 0"
  proof
    assume "p \<in> set ps"
    then have "count_list ps p \<noteq> 0" by (simp add: count_list_0_iff)
    with n that c' show False by simp
  qed
  have "distinct r'" "set ps \<inter> set r' = {}" using Cons.prems(2,3) p by (auto simp: r'_def)
  from Cons.IH [OF a this] have ih: "distinct (snd (release ps c' r'))"
    "set (snd (release ps c' r')) = set r' \<union> {j \<in> set ps. map_of c' j = Some (int (count_list ps j))}" by simp_all
  have "set r' \<union> {j \<in> set ps. map_of c' j = Some (int (count_list ps j))}
      = set ready \<union> {j \<in> set (p # ps). map_of counts j = Some (int (count_list (p # ps) j))}"
  proof -
    have "map_of c' p = Some 0 \<longleftrightarrow> p \<notin> set ps \<and> map_of counts p = Some (int (count_list (p # ps) p))"
      using n c' p by (auto simp: count_list_0_iff)
    moreover have "p \<in> set ps \<Longrightarrow> map_of c' p = Some (int (count_list ps p)) \<longleftrightarrow> map_of counts p = Some (int (count_list (p # ps) p))"
      using n c' by auto
    moreover have "j \<noteq> p \<Longrightarrow> map_of c' j = Some (int (count_list ps j)) \<longleftrightarrow> map_of counts j = Some (int (count_list (p # ps) j))" for j
      using c' by (auto simp: option.map_id [unfolded id_def])
    ultimately show ?thesis by (auto simp: r'_def)
  qed
  with ih show ?case by (simp add: Let_def c'_def [symmetric] r'_def [symmetric])
qed simp

text \<open>
  \<open>left parents D i\<close>: how often cards outside \<open>D\<close> name \<open>i\<close> as a parent.  The loop keeps the counts equal
  to it, and the ordered and ready cards are those it is zero for.
\<close>

definition card_ids :: "(string \<times> string list) list \<Rightarrow> string set" where
  "card_ids parents = fst ` set parents"

lemma card_ids_map_of: "i \<in> card_ids parents \<longleftrightarrow> (\<exists>ps. map_of parents i = Some ps)"
  unfolding card_ids_def by (metis map_of_eq_None_iff not_None_eq)

definition parents_known :: "(string \<times> string list) list \<Rightarrow> bool" where
  "parents_known parents \<longleftrightarrow> (\<forall>i ps p. map_of parents i = Some ps \<longrightarrow> p \<in> set ps \<longrightarrow> p \<in> card_ids parents)"

lemma parents_knownD: "parents_known parents \<Longrightarrow> map_of parents i = Some ps \<Longrightarrow> p \<in> set ps \<Longrightarrow> p \<in> card_ids parents"
  unfolding parents_known_def by blast

lemma finite_card_ids [simp]: "finite (card_ids parents)"
  by (simp add: card_ids_def)

definition left :: "(string \<times> string list) list \<Rightarrow> string set \<Rightarrow> string \<Rightarrow> nat" where
  "left parents D i = (\<Sum>x \<in> card_ids parents - D. count_list (the (map_of parents x)) i)"

definition order_inv :: "(string \<times> string list) list \<Rightarrow> string set \<Rightarrow> (string \<times> int) list \<Rightarrow> string list \<Rightarrow> bool" where
  "order_inv parents D counts ready \<longleftrightarrow> distinct ready \<and> set ready \<inter> D = {} \<and> D \<subseteq> card_ids parents \<and>
     (\<forall>i. map_of counts i = (if i \<in> card_ids parents then Some (int (left parents D i)) else None)) \<and>
     (\<forall>i \<in> card_ids parents. i \<in> D \<union> set ready \<longleftrightarrow> left parents D i = 0) \<and> set ready \<subseteq> card_ids parents"

lemma left_zero: "left parents D i = 0 \<longleftrightarrow> (\<forall>x ps. map_of parents x = Some ps \<longrightarrow> i \<in> set ps \<longrightarrow> x \<in> D)"
proof -
  have "left parents D i = 0 \<longleftrightarrow> (\<forall>x \<in> card_ids parents - D. count_list (the (map_of parents x)) i = 0)"
    unfolding left_def by (subst sum_eq_0_iff) simp_all
  also have "\<dots> \<longleftrightarrow> (\<forall>x ps. map_of parents x = Some ps \<longrightarrow> i \<in> set ps \<longrightarrow> x \<in> D)"
    unfolding count_list_0_iff by (metis DiffI DiffD1 DiffD2 card_ids_map_of option.sel)
  finally show ?thesis .
qed

lemma left_insert:
  assumes "x \<in> card_ids parents" and "x \<notin> D"
  shows "left parents D i = left parents (insert x D) i + count_list (the (map_of parents x)) i"
proof -
  have e: "card_ids parents - D = insert x (card_ids parents - insert x D)" using assms by auto
  have "left parents D i = (\<Sum>y \<in> insert x (card_ids parents - insert x D). count_list (the (map_of parents y)) i)"
    unfolding left_def by (subst e) (rule refl)
  then show ?thesis unfolding left_def by simp
qed

lemma order_invD:
  assumes "order_inv parents D counts ready"
  shows "distinct ready" "set ready \<inter> D = {}" "D \<subseteq> card_ids parents" "set ready \<subseteq> card_ids parents"
    "i \<in> card_ids parents \<Longrightarrow> map_of counts i = Some (int (left parents D i))" "i \<notin> card_ids parents \<Longrightarrow> map_of counts i = None"
    "i \<in> card_ids parents \<Longrightarrow> i \<in> D \<or> i \<in> set ready \<longleftrightarrow> left parents D i = 0"
  using assms unfolding order_inv_def by simp_all

lemma order_step:
  assumes inv: "order_inv parents D counts ready" and x: "x \<in> set ready"
    and closed: "parents_known parents"
    and ps: "map_of parents x = Some ps" and r: "release ps counts (remove1 x ready) = (counts', ready')"
  shows "order_inv parents (insert x D) counts' ready'"
proof -
  note inv = order_invD [OF inv]
  have xD: "x \<in> card_ids parents" "x \<notin> D" using inv(2,4) x by auto
  have li: "left parents D i = left parents (insert x D) i + count_list ps i" for i
    using left_insert [OF xD, of i] ps by simp
  have c: "map_of counts p = Some (int (left parents D p))" if "p \<in> set ps" for p
    using inv(5) parents_knownD [OF closed ps that] by simp
  have a: "\<exists>n. map_of counts p = Some n \<and> int (count_list ps p) \<le> n" if "p \<in> set ps" for p
    using c [OF that] li [of p] by simp
  have pos: "left parents D p \<noteq> 0" if "p \<in> set ps" for p
    using that li [of p] by (metis add_is_0 count_list_0_iff)
  have out: "p \<notin> set ready" "p \<notin> D" if "p \<in> set ps" for p
    using inv(7) [OF parents_knownD [OF closed ps that]] pos [OF that] by auto
  have rx: "set (remove1 x ready) = set ready - {x}" "distinct (remove1 x ready)" using inv(1) by simp_all
  have "set ps \<inter> set (remove1 x ready) = {}" using rx(1) out by blast
  from release_ready [OF a rx(2) this] r
  have rr: "distinct ready'" "set ready' = (set ready - {x}) \<union> {j \<in> set ps. map_of counts j = Some (int (count_list ps j))}"
    using rx(1) by simp_all
  have xps: "x \<notin> set ps" using out x by blast
  have cs: "map_of counts' j = map_option (\<lambda>n. n - int (count_list ps j)) (map_of counts j)" for j
    using release_counts [of ps counts "remove1 x ready" j] r by simp
  have new: "map_of counts j = Some (int (count_list ps j)) \<longleftrightarrow> left parents (insert x D) j = 0" if "j \<in> set ps" for j
    using c [OF that] li [of j] by simp
  have i0: "left parents D x = 0" using inv(7) [OF xD(1)] x by simp
  show ?thesis
    unfolding order_inv_def
  proof (intro conjI allI ballI)
    show "distinct ready'" by (rule rr)
    show "set ready' \<inter> insert x D = {}" using rr(2) inv(2) xps out by blast
    show "insert x D \<subseteq> card_ids parents" using inv(3) xD by blast
    show "map_of counts' i = (if i \<in> card_ids parents then Some (int (left parents (insert x D) i)) else None)" for i
      using inv(5,6) [of i] li [of i] by (cases "i \<in> card_ids parents") (simp_all add: cs)
    show "set ready' \<subseteq> card_ids parents" using rr(2) inv(4) parents_knownD [OF closed ps] by blast
    fix i assume i: "i \<in> card_ids parents"
    show "i \<in> insert x D \<union> set ready' \<longleftrightarrow> left parents (insert x D) i = 0"
    proof (cases "i \<in> set ps")
      case True
      then show ?thesis using new out rr(2) xps by blast
    next
      case False
      then have "left parents (insert x D) i = left parents D i" using li [of i] count_list_0_iff [of ps i] by simp
      moreover have "i \<in> set ready' \<longleftrightarrow> i \<in> set ready \<and> i \<noteq> x" using rr(2) False by simp
      ultimately show ?thesis using inv(7) [OF i] x by (cases "i = x") simp_all
    qed
  qed
qed

lemma child_first_spec:
  assumes "order_inv parents D counts ready"
    and closed: "parents_known parents"
  shows "distinct (child_first parents counts ready) \<and> set (child_first parents counts ready) \<inter> D = {}
     \<and> set (child_first parents counts ready) \<subseteq> card_ids parents
     \<and> (\<exists>counts'. order_inv parents (D \<union> set (child_first parents counts ready)) counts' [])
     \<and> (\<forall>xs y ys x ps. child_first parents counts ready = xs @ y # ys \<longrightarrow> map_of parents x = Some ps \<longrightarrow> y \<in> set ps \<longrightarrow> x \<in> D \<union> set xs)"
  using assms
proof (induction parents counts ready arbitrary: D rule: child_first.induct)
  case (1 parents counts)
  then show ?case by auto
next
  case (2 parents counts r rs)
  define i where "i = least r rs"
  have i: "i \<in> set (r # rs)" using least_in [of r rs] by (simp add: i_def)
  with order_invD(2,4) [OF "2.prems"(1)] have iD: "i \<in> card_ids parents" "i \<notin> D" by blast+
  then obtain ps where ps: "map_of parents i = Some ps" by (auto simp: card_ids_map_of)
  obtain c' r' where r: "release ps counts (remove1 i (r # rs)) = (c', r')" by fastforce
  have inv: "order_inv parents (insert i D) c' r'"
    by (rule order_step [OF "2.prems"(1) i "2.prems"(2) ps r])
  have L: "child_first parents counts (r # rs) = i # child_first parents c' r'"
    by (simp add: Let_def ps r del: remove1.simps flip: i_def)
  have ih: "distinct (child_first parents c' r') \<and> set (child_first parents c' r') \<inter> insert i D = {}
     \<and> set (child_first parents c' r') \<subseteq> card_ids parents
     \<and> (\<exists>counts'. order_inv parents (insert i D \<union> set (child_first parents c' r')) counts' [])
     \<and> (\<forall>xs y ys x ps. child_first parents c' r' = xs @ y # ys \<longrightarrow> map_of parents x = Some ps \<longrightarrow> y \<in> set ps \<longrightarrow> x \<in> insert i D \<union> set xs)"
    using "2.IH" [OF i_def refl, of "insert i D"] inv "2.prems"(2) by (simp add: ps r del: remove1.simps)
  have i0: "left parents D i = 0" using order_invD(7) [OF "2.prems"(1) iD(1)] i by simp
  show ?case
    unfolding L
  proof (intro conjI allI impI)
    show "distinct (i # child_first parents c' r')" "set (i # child_first parents c' r') \<inter> D = {}"
      "set (i # child_first parents c' r') \<subseteq> card_ids parents" using ih iD by auto
    have "insert i D \<union> set (child_first parents c' r') = D \<union> set (i # child_first parents c' r')" by auto
    then show "\<exists>counts'. order_inv parents (D \<union> set (i # child_first parents c' r')) counts' []" using ih by metis
    fix xs y ys x qs
    assume e: "i # child_first parents c' r' = xs @ y # ys" and x: "map_of parents x = Some qs" "y \<in> set qs"
    show "x \<in> D \<union> set xs"
    proof (cases xs)
      case Nil
      then show ?thesis using e x i0 by (auto simp: left_zero)
    next
      case (Cons z zs)
      then show ?thesis using e x ih by auto
    qed
  qed
qed

lemma initial_order:
  assumes "distinct (map fst parents)"
  shows "order_inv parents {} (child_counts parents) (map fst (filter (\<lambda>c. snd c = 0) (child_counts parents)))"
proof -
  have k: "map fst (child_counts parents) = map fst parents" by (simp add: child_counts_def o_def)
  have l: "left parents {} i = count_list (concat (map snd parents)) i" for i
  proof -
    have "left parents {} i = sum_list (map (\<lambda>x. count_list (the (map_of parents x)) i) (map fst parents))"
      unfolding left_def card_ids_def by (simp only: sum_list_distinct_conv_sum_set [OF assms] set_map Diff_empty)
    also have "\<dots> = sum_list (map (\<lambda>ip. count_list (snd ip) i) parents)"
      using assms by (auto intro!: arg_cong [where f = sum_list] map_cong)
    also have "\<dots> = count_list (concat (map snd parents)) i"
      by (induction parents) (auto simp: count_list_append)
    finally show ?thesis .
  qed
  have m: "map_of (child_counts parents) i = (if i \<in> card_ids parents then Some (int (left parents {} i)) else None)" for i
  proof -
    have "map_of (map (\<lambda>i. (fst i, f (fst i))) xs) j = (if j \<in> fst ` set xs then Some (f j) else None)" for f :: "string \<Rightarrow> int" and xs :: "(string \<times> string list) list" and j
      by (induction xs) auto
    then show ?thesis unfolding l child_counts_def card_ids_def .
  qed
  have d: "distinct (map fst (filter (\<lambda>c. snd c = 0) (child_counts parents)))"
    using assms k by (metis distinct_map_filter)
  have r: "i \<in> set (map fst (filter (\<lambda>c. snd c = 0) (child_counts parents))) \<longleftrightarrow> i \<in> card_ids parents \<and> left parents {} i = 0" for i
  proof -
    have "distinct (map fst (child_counts parents))" using assms k by simp
    then have "(i, 0) \<in> set (child_counts parents) \<longleftrightarrow> map_of (child_counts parents) i = Some 0" by simp
    moreover have "i \<in> set (map fst (filter (\<lambda>c. snd c = 0) (child_counts parents))) \<longleftrightarrow> (i, 0) \<in> set (child_counts parents)"
      by (force simp: image_iff)
    ultimately show ?thesis using m [of i] by simp
  qed
  show ?thesis
    unfolding order_inv_def using m d r by blast
qed

text \<open>When it answers and what the answer is.\<close>

lemma order_ids_sound:
  assumes "distinct (map fst parents)" and "order_ids parents = Some order"
  shows "mset order = mset (map fst parents)"
    and "order = xs @ y # ys \<Longrightarrow> map_of parents x = Some ps \<Longrightarrow> y \<in> set ps \<Longrightarrow> x \<in> set xs"
proof -
  let ?r = "map fst (filter (\<lambda>c. snd c = 0) (child_counts parents))"
  from assms(2) have o: "order = child_first parents (child_counts parents) ?r" "length order = length parents"
    and k: "\<not> (\<exists>ip \<in> set parents. \<exists>p \<in> set (snd ip). p \<notin> card_ids parents)"
    by (auto simp: order_ids_def Let_def card_ids_def split: if_splits)
  from k have closed: "parents_known parents"
    unfolding parents_known_def by (metis map_of_SomeD snd_conv)
  note s = child_first_spec [OF initial_order [OF assms(1)] closed, folded o(1)]
  then have d: "distinct order" and sub: "set order \<subseteq> set (map fst parents)" by (auto simp: card_ids_def)
  have "card (set order) = card (set (map fst parents))"
    using distinct_card [OF d] distinct_card [OF assms(1)] o(2) by simp
  then have "set order = set (map fst parents)" using sub by (simp add: card_subset_eq)
  then show "mset order = mset (map fst parents)" using set_eq_iff_mset_eq_distinct [OF d assms(1)] by blast
  show "order = xs @ y # ys \<Longrightarrow> map_of parents x = Some ps \<Longrightarrow> y \<in> set ps \<Longrightarrow> x \<in> set xs"
    using s by blast
qed

lemma order_ids_complete:
  fixes rank :: "string \<Rightarrow> nat"
  assumes "distinct (map fst parents)"
    and closed: "\<And>i ps p. map_of parents i = Some ps \<Longrightarrow> p \<in> set ps \<Longrightarrow> p \<in> card_ids parents \<and> rank i < rank p"
  shows "\<exists>order. order_ids parents = Some order"
proof -
  let ?r = "map fst (filter (\<lambda>c. snd c = 0) (child_counts parents))"
  let ?L = "child_first parents (child_counts parents) ?r"
  have cl: "parents_known parents" using closed unfolding parents_known_def by blast
  note s = child_first_spec [OF initial_order [OF assms(1)] cl]
  then obtain counts where inv: "order_inv parents (set ?L) counts []" by force
  have "i \<in> set ?L" if "i \<in> card_ids parents" for i
    using that
  proof (induction i rule: measure_induct_rule [where f = rank])
    case (less i)
    have "left parents (set ?L) i = 0"
      unfolding left_zero
    proof (intro allI impI)
      fix x ps assume x: "map_of parents x = Some ps" "i \<in> set ps"
      then have "x \<in> card_ids parents" by (simp add: card_ids_map_of)
      with less.IH closed [OF x] show "x \<in> set ?L" by blast
    qed
    then show ?case using order_invD(7) [OF inv less.prems] by simp
  qed
  with s have L: "set ?L = set (map fst parents)" "distinct ?L" by (auto simp: card_ids_def)
  then have "length ?L = length (map fst parents)" using distinct_card [OF L(2)] distinct_card [OF assms(1)] by simp
  moreover have "\<not> (\<exists>ip \<in> set parents. \<exists>p \<in> set (snd ip). p \<notin> fst ` set parents)"
    using parents_knownD [OF cl] assms(1) unfolding card_ids_def by (metis map_of_is_SomeI prod.collapse)
  ultimately show ?thesis by (simp add: order_ids_def Let_def)
qed

end
