(* ===== verification/TickSafety.thy ===== *)
theory TickSafety
  imports TickHistory
begin

text \<open>
  The properties of what a tick observes on the board: the header of a created card is found again, the
  newest card of a phase is kept, cards are ordered before their parents, and the outcome log is
  append-only and written once.
\<close>

section \<open>Card headers\<close>

lemma header_sorted:
  "sort_keys (JObj ([(''tick_id'', JStr a), (''phase_key'', JStr b), (''todo_id'', JStr c), (''project_slug'', JStr d)]
      @ (if g > 1 then [(''generation'', JInt g)] else []))) =
   JObj ((if g > 1 then [(''generation'', JInt g)] else []) @ [(''phase_key'', JStr b), (''project_slug'', JStr d), (''tick_id'', JStr a), (''todo_id'', JStr c)])"
  by simp

text \<open>
  A card that is created with a header is found by it.  When the body of a live card on the board
  starts with the header \<^verbatim>\<open>_build_json_header\<close> prints for a tick, a phase and a generation, and a line
  break, the snapshot yields the card under that tick and phase with that generation.
\<close>

theorem created_card_is_found:
  assumes "1 \<le> g"
    and "dget task ''body'' = JStr (build_json_header tick key todo slug g @ newline # prompt)"
    and "dget task ''status'' = JStr status" and "status \<noteq> ''archived''" and "dget task ''id'' = JStr i"
  shows "live_card tick key task = Some \<lparr>card_id = i, card_status = status, card_generation = g\<rparr>"
proof -
  let ?h = "(if g > 1 then [(''generation'', JInt g)] else []) @ [(''phase_key'', JStr key), (''project_slug'', JStr slug), (''tick_id'', JStr tick), (''todo_id'', JStr todo)]"
  have "has_key task ''body''" using assms(2) by (auto simp: has_key_map_of dget_def split: option.splits)
  then have "dget_or task ''body'' (JStr []) = JStr (dumps default_style (JObj ?h) @ newline # prompt)"
    using assms(2) unfolding build_json_header_def header_sorted by (simp add: dget_or_def del: dumps.simps)
  moreover have "plain (JObj ?h)" by auto
  ultimately have "parse_task_header task = Some ?h" by (rule header_parses [rotated])
  moreover have "dget ?h ''tick_id'' = JStr tick" "dget ?h ''phase_key'' = JStr key" "header_generation ?h = g"
    using assms(1) by (auto simp: dget_Cons header_generation_def dget_def [of "[]"])
  ultimately show ?thesis
    using assms(3-5) by (simp add: live_card_def card_of_def)
qed

definition ex_card :: dict where
  "ex_card = [(''id'', JStr ''t_0000000a''), (''status'', JStr ''ready''),
     (''body'', JStr (build_json_header ''tick'' ''plan'' ''TODO-1'' ''board'' 2 @ newline # ''go''))]"

theorem created_card_is_found_witness:
  "live_card ''tick'' ''plan'' ex_card = Some \<lparr>card_id = ''t_0000000a'', card_status = ''ready'', card_generation = 2\<rparr>"
  by (rule created_card_is_found) (simp_all add: ex_card_def dget_Cons)

section \<open>The newest card\<close>

lemma add_tasks_spec:
  assumes "\<And>k j. map_of m k = Some j \<Longrightarrow> info_phase j = k"
  shows "(\<forall>k j. map_of (fold (add_task tick) ts m) k = Some j \<longrightarrow> info_phase j = k \<and>
         (map_of m k = Some j \<or> (\<exists>t \<in> set ts. task_info_of tick t = Some j)))
     \<and> (\<forall>k j. map_of m k = Some j \<longrightarrow> (\<exists>j'. map_of (fold (add_task tick) ts m) k = Some j' \<and> info_generation j \<le> info_generation j'))
     \<and> (\<forall>t \<in> set ts. \<forall>i. task_info_of tick t = Some i \<longrightarrow>
          (\<exists>j. map_of (fold (add_task tick) ts m) (info_phase i) = Some j \<and> info_generation i \<le> info_generation j))"
  using assms
proof (induction ts arbitrary: m)
  case (Cons t ts)
  define m' where "m' = add_task tick t m"
  have keep: "info_phase j = k \<and> (map_of m k = Some j \<or> task_info_of tick t = Some j)" if "map_of m' k = Some j" for k j
    using that Cons.prems unfolding m'_def add_task_def by (auto simp: update_conv' split: option.splits if_splits)
  have grow: "\<exists>j'. map_of m' k = Some j' \<and> info_generation j \<le> info_generation j'" if "map_of m k = Some j" for k j
    using that unfolding m'_def add_task_def by (auto simp: update_conv' split: option.splits)
  have new: "\<exists>j. map_of m' (info_phase i) = Some j \<and> info_generation i \<le> info_generation j" if "task_info_of tick t = Some i" for i
    using that unfolding m'_def add_task_def by (auto simp: update_conv' split: option.splits)
  have "\<And>k j. map_of m' k = Some j \<Longrightarrow> info_phase j = k" using keep by blast
  note ih = Cons.IH [OF this, unfolded atomize_conj]
  show ?case
    using ih keep grow new by (simp flip: m'_def) (meson order_trans)
qed auto

text \<open>
  Of several cards of a phase the tick sees the one of the highest generation.  For every card of the
  tick that the listing holds, \<^verbatim>\<open>get_todo_kanban_tasks\<close> has an entry under its phase that describes a listed
  card of that phase whose generation is at least as high.
\<close>

theorem newest_card_is_kept:
  assumes "get_todo_kanban_tasks w tenant tick s = (Inr m, s')" and "list_tasks w tenant s = (Inr ts, s')"
    and "t \<in> set ts" and "task_info_of tick t = Some i"
  shows "\<exists>j. map_of m (info_phase i) = Some j \<and> info_generation i \<le> info_generation j \<and> info_phase j = info_phase i
     \<and> (\<exists>u \<in> set ts. task_info_of tick u = Some j)"
proof -
  have "m = fold (add_task tick) ts []"
    using assms(1,2) by (simp add: get_todo_kanban_tasks_def bind_op_def)
  then show ?thesis using add_tasks_spec [of "[]" tick ts] assms(3,4) by fastforce
qed

text \<open>A board that answers every command with the same listing.\<close>

definition still_board :: "json \<Rightarrow> unit bw" where
  "still_board v = \<lparr>command = (\<lambda>args b. (Inr (0, dumps default_style v), b)), read_error = (\<lambda>_ _. None), write_error = (\<lambda>_ _. None)\<rparr>"

definition ex_cards :: "dict list" where
  "ex_cards = [ex_card, dput ''id'' (JStr ''t_0000000b'') (dput ''body'' (JStr (build_json_header ''tick'' ''plan'' ''TODO-1'' ''board'' 1 @ newline # ''go'')) ex_card)]"

definition idle :: "unit board" where "idle = \<lparr>remote = (), texts = (\<lambda>_. None)\<rparr>"

lemma still_hermes: "hermes (still_board v) args s = (Inr (0, dumps default_style v), s)"
  by (simp add: hermes_def still_board_def)

lemma still_listing:
  assumes "plain (JList (map JObj ts))"
  shows "list_tasks (still_board (JList (map JObj ts))) tenant s = (Inr ts, s)"
    "list_task_snapshot (still_board (JList (map JObj ts))) tenant s = (Inr (Some ts), s)"
proof -
  have "list_all is_dict (map JObj ts)" "map dict_of (map JObj ts) = ts" by (simp_all add: list_all_iff o_def)
  then have v: "validated_task_list (JList (map JObj ts)) = Some ts" by (simp add: validated_task_list_def)
  note l = loads_dumps [OF assms default_ok(1)]
  show "list_tasks (still_board (JList (map JObj ts))) tenant s = (Inr ts, s)"
    by (simp add: list_tasks_def catch_op_def bind_op_def still_hermes l v del: dumps.simps)
  show "list_task_snapshot (still_board (JList (map JObj ts))) tenant s = (Inr (Some ts), s)"
    by (simp add: list_task_snapshot_def catch_op_def bind_op_def still_hermes l v del: dumps.simps)
qed

lemma ex_cards_plain: "plain (JList (map JObj ex_cards))"
  by (simp add: ex_cards_def ex_card_def dput_def)

theorem newest_card_is_kept_witness:
  "\<exists>j. map_of (fold (add_task ''tick'') ex_cards []) ''plan'' = Some j \<and> 2 \<le> info_generation j"
proof -
  have l: "list_tasks (still_board (JList (map JObj ex_cards))) ''b'' idle = (Inr ex_cards, idle)"
    by (rule still_listing(1) [OF ex_cards_plain])
  then have g: "get_todo_kanban_tasks (still_board (JList (map JObj ex_cards))) ''b'' ''tick'' idle = (Inr (fold (add_task ''tick'') ex_cards []), idle)"
    by (simp add: get_todo_kanban_tasks_def bind_op_def)
  have "task_info_of ''tick'' ex_card = Some \<lparr>info_task = ''t_0000000a'', info_phase = ''plan'', info_status = ''ready'', info_todo = ''TODO-1'', info_generation = 2\<rparr>"
    by code_simp
  with newest_card_is_kept [OF g l, of ex_card] show ?thesis by (auto simp: ex_cards_def)
qed

section \<open>Children before parents\<close>

abbreviation tid :: "dict \<Rightarrow> string" where "tid t \<equiv> str_of (dget t ''id'')"

lemma map_zip_back: "distinct (map f xs) \<Longrightarrow> map (\<lambda>i. the (map_of (zip (map f xs) xs) i)) (map f xs) = xs"
proof -
  assume d: "distinct (map f xs)"
  have "map_of (zip (map f xs) xs) (f x) = Some x" if "x \<in> set xs" for x
  proof (rule map_of_is_SomeI)
    show "distinct (map fst (zip (map f xs) xs))" using d by simp
    show "(f x, x) \<in> set (zip (map f xs) xs)" using that by (auto simp: in_set_zip in_set_conv_nth)
  qed
  then show ?thesis by (auto intro: map_idI)
qed

lemma map_op_length: "map_op f xs u = (Inr qs, v) \<Longrightarrow> length qs = length xs"
  by (induction xs arbitrary: qs u) (auto simp: bind_op_returns)

lemma fetched_ids: "fetch_task_payloads w ids s = (Inr (Some ps), s') \<Longrightarrow> map fst ps = ids"
  by (auto simp: fetch_task_payloads_def bind_op_returns dest!: map_op_length split: if_splits)

lemma order_returns:
  assumes "child_first_task_order w tasks s = (Inr (Some order), s')" and "fetch_task_payloads w (map tid tasks) s = (Inr (Some ps), s')"
  obtains parents ids where "distinct (map tid tasks)" "order_ids parents = Some ids" "order = map (\<lambda>i. the (map_of (zip (map tid tasks) tasks) i)) ids"
    "parents = map (\<lambda>ip. (fst ip, the (shown_parents (fst ip) (snd ip)))) ps" "map fst ps = map tid tasks"
proof -
  have "map fst ps = map tid tasks" by (rule fetched_ids [OF assms(2)])
  moreover from assms obtain ids where "distinct (map tid tasks)"
    "order_ids (map (\<lambda>ip. (fst ip, the (shown_parents (fst ip) (snd ip)))) ps) = Some ids" "order = map (\<lambda>i. the (map_of (zip (map tid tasks) tasks) i)) ids"
    by (auto simp: child_first_task_order_def Let_def bind_op_def o_def split: if_splits option.splits)
  ultimately show thesis using that by blast
qed

text \<open>
  The order in which cards are stopped is a permutation of them with every card before its parents.
  When \<^verbatim>\<open>_child_first_task_order\<close> answers, it returns each card once, and a card stands after every card
  that the details name it as a parent of.
\<close>

theorem child_before_parent:
  assumes "child_first_task_order w tasks s = (Inr (Some order), s')"
    and "fetch_task_payloads w (map (\<lambda>t. str_of (dget t ''id'')) tasks) s = (Inr (Some ps), s')"
  shows "mset order = mset tasks \<and> (\<forall>xs y ys t p parents. order = xs @ y # ys \<longrightarrow> t \<in> set tasks
     \<longrightarrow> map_of ps (str_of (dget t ''id'')) = Some p \<longrightarrow> shown_parents (str_of (dget t ''id'')) p = Some parents
     \<longrightarrow> str_of (dget y ''id'') \<in> set parents \<longrightarrow> t \<in> set xs)"
proof -
  from assms obtain parents ids where d: "distinct (map tid tasks)" and o: "order_ids parents = Some ids"
    and order: "order = map (\<lambda>i. the (map_of (zip (map tid tasks) tasks) i)) ids"
    and parents: "parents = map (\<lambda>ip. (fst ip, the (shown_parents (fst ip) (snd ip)))) ps" and ps: "map fst ps = map tid tasks"
    by (rule order_returns)
  have k: "map fst parents = map tid tasks" using ps by (simp add: parents o_def)
  then have dp: "distinct (map fst parents)" using d by simp
  let ?f = "\<lambda>i. the (map_of (zip (map tid tasks) tasks) i)"
  have f: "?f (tid t) = t" if "t \<in> set tasks" for t
    using map_zip_back [OF d] that by (metis (no_types, lifting) map_eq_conv map_map comp_def list.map_ident)
  have m: "mset ids = mset (map tid tasks)" using order_ids_sound(1) [OF dp o] k by simp
  then have "mset order = mset (map ?f (map tid tasks))" unfolding order by (simp only: mset_map)
  then have perm: "mset order = mset tasks" by (simp only: map_zip_back [OF d])
  have idset: "i \<in> tid ` set tasks" if "i \<in> set ids" for i using that m by (metis list.set_map set_mset_mset)
  have ids: "tid (?f i) = i" if "i \<in> set ids" for i using idset [OF that] f by auto
  show ?thesis
  proof (intro conjI allI impI)
    show "mset order = mset tasks" by (rule perm)
    fix xs y ys t p qs
    assume e: "order = xs @ y # ys" and t: "t \<in> set tasks" "map_of ps (tid t) = Some p" "shown_parents (tid t) p = Some qs" "tid y \<in> set qs"
    from e obtain i1 j i2 where i: "ids = i1 @ j # i2" "xs = map ?f i1" "y = ?f j"
      unfolding order by (auto simp: map_eq_append_conv map_eq_Cons_conv)
    then have "j = tid y" using ids [of j] by simp
    moreover have "map_of parents (tid t) = Some qs"
      using t(2,3) unfolding parents by (induction ps) auto
    ultimately have "tid t \<in> set i1" using order_ids_sound(2) [OF dp o i(1)] t(4) by blast
    then show "t \<in> set xs" using f [OF t(1)] i(2) by force
  qed
qed

text \<open>
  The order always exists for cards without cycles.  When the cards have distinct ids, their details
  are read, every named parent is among them and some ranking puts every card below its parents,
  \<^verbatim>\<open>_child_first_task_order\<close> returns an order.
\<close>

theorem acyclic_cards_are_ordered:
  fixes rank :: "string \<Rightarrow> nat"
  assumes "list_all (\<lambda>t. is_str (dget t ''id'')) tasks" and "distinct (map (\<lambda>t. str_of (dget t ''id'')) tasks)"
    and "fetch_task_payloads w (map (\<lambda>t. str_of (dget t ''id'')) tasks) s = (Inr (Some ps), s')"
    and "list_all (\<lambda>ip. case shown_parents (fst ip) (snd ip) of None \<Rightarrow> False
           | Some qs \<Rightarrow> list_all (\<lambda>q. q \<in> (\<lambda>t. str_of (dget t ''id'')) ` set tasks \<and> rank (fst ip) < rank q) qs) ps"
  shows "\<exists>order. child_first_task_order w tasks s = (Inr (Some order), s')"
proof -
  have ps: "map fst ps = map tid tasks" by (rule fetched_ids [OF assms(3)])
  define parents where "parents = map (\<lambda>ip. (fst ip, the (shown_parents (fst ip) (snd ip)))) ps"
  have k: "map fst parents = map tid tasks" using ps by (simp add: parents_def o_def)
  have all: "list_all (\<lambda>ip. shown_parents (fst ip) (snd ip) \<noteq> None) ps"
    using assms(4) by (auto simp: list_all_iff split: option.splits)
  have closed: "q \<in> card_ids parents \<and> rank i < rank q" if "map_of parents i = Some qs" "q \<in> set qs" for i qs q
  proof -
    from that(1) obtain p where p: "(i, p) \<in> set ps" "qs = the (shown_parents i p)"
      unfolding parents_def by (auto dest!: map_of_SomeD)
    with assms(4) have "list_all (\<lambda>q. q \<in> tid ` set tasks \<and> rank i < rank q) qs"
      by (auto simp: list_all_iff split: option.splits)
    moreover have "card_ids parents = tid ` set tasks" using k unfolding card_ids_def by (metis list.set_map)
    ultimately show ?thesis using that(2) by (simp add: list_all_iff)
  qed
  have "distinct (map fst parents)" using assms(2) k by simp
  from order_ids_complete [OF this, of rank] closed obtain ids where "order_ids parents = Some ids" by blast
  then show ?thesis
    using assms(1,2,3) all unfolding parents_def
    by (simp add: child_first_task_order_def Let_def bind_op_def o_def list.pred_map)
qed

text \<open>Two cards, the first a child of the second.\<close>

definition ex_details :: "string \<Rightarrow> dict" where
  "ex_details i = [(''task'', JObj [(''id'', JStr i)]), (''parents'', JList (if i = ''t_0000000a'' then [JStr ''t_0000000b''] else [])), (''runs'', JList [])]"

definition ex_show :: "unit bw" where
  "ex_show = \<lparr>command = (\<lambda>args b. (Inr (0, dumps default_style (JObj (ex_details (args ! 3)))), b)), read_error = (\<lambda>_ _. None), write_error = (\<lambda>_ _. None)\<rparr>"

definition ex_chain :: "dict list" where
  "ex_chain = [[(''id'', JStr ''t_0000000b'')], [(''id'', JStr ''t_0000000a'')]]"

lemma ex_fetch: "fetch_task_payloads ex_show (map (\<lambda>t. str_of (dget t ''id'')) ex_chain) idle =
   (Inr (Some [(''t_0000000b'', ex_details ''t_0000000b''), (''t_0000000a'', ex_details ''t_0000000a'')]), idle)"
proof -
  have "show_task_payload ex_show i idle = (Inr (Some (ex_details i)), idle)" for i
  proof -
    have "plain (JObj (ex_details i))" by (simp add: ex_details_def)
    from loads_dumps [OF this default_ok(1)] show ?thesis
      by (simp add: show_task_payload_def catch_op_def bind_op_def hermes_def ex_show_def del: dumps.simps)
  qed
  then show ?thesis by (simp add: ex_chain_def dget_Cons fetch_task_payloads_def bind_op_def)
qed

lemma ex_order: "child_first_task_order ex_show ex_chain idle = (Inr (Some (rev ex_chain)), idle)"
proof -
  have o: "order_ids [(''t_0000000b'', []), (''t_0000000a'', [''t_0000000b''])] = Some [''t_0000000a'', ''t_0000000b'']"
    by code_simp
  have p: "shown_parents ''t_0000000b'' (ex_details ''t_0000000b'') = Some []" "shown_parents ''t_0000000a'' (ex_details ''t_0000000a'') = Some [''t_0000000b'']"
    by (simp_all add: shown_parents_def ex_details_def dget_Cons)
  show ?thesis
    using ex_fetch by (simp add: child_first_task_order_def ex_chain_def dget_Cons Let_def bind_op_def p o)
qed

theorem child_before_parent_witness: "mset (rev ex_chain) = mset ex_chain \<and> rev ex_chain ! 0 = [(''id'', JStr ''t_0000000a'')]"
  using child_before_parent [OF ex_order ex_fetch] by (simp add: ex_chain_def)

theorem acyclic_cards_are_ordered_witness: "\<exists>order. child_first_task_order ex_show ex_chain idle = (Inr (Some order), idle)"
proof (rule acyclic_cards_are_ordered [OF _ _ ex_fetch, of "\<lambda>i. if i = ''t_0000000b'' then 1 else 0"])
  have p: "shown_parents ''t_0000000b'' (ex_details ''t_0000000b'') = Some []" "shown_parents ''t_0000000a'' (ex_details ''t_0000000a'') = Some [''t_0000000b'']"
    by (simp_all add: shown_parents_def ex_details_def dget_Cons)
  then show "list_all (\<lambda>ip. case shown_parents (fst ip) (snd ip) of None \<Rightarrow> False
       | Some qs \<Rightarrow> list_all (\<lambda>q. q \<in> (\<lambda>t. str_of (dget t ''id'')) ` set ex_chain
            \<and> (if fst ip = ''t_0000000b'' then 1 else 0) < (if q = ''t_0000000b'' then 1 else (0 :: nat))) qs)
     [(''t_0000000b'', ex_details ''t_0000000b''), (''t_0000000a'', ex_details ''t_0000000a'')]"
    by (simp add: ex_chain_def dget_Cons)
qed (simp_all add: ex_chain_def dget_Cons)

section \<open>The outcome log\<close>

text \<open>The abstract log: the list of its entries, and what a status map appends to it.\<close>

fun note_entries :: "dict list \<Rightarrow> observed \<Rightarrow> observed res" where
  "note_entries [] ob = Inr ob"
| "note_entries (e # es) ob = rbind (note_entry (JObj e) ob) (note_entries es)"

definition entry_of :: "json \<Rightarrow> dict" where "entry_of v = dict_of (sort_keys v)"

definition observe_log :: "dict list \<Rightarrow> (string \<times> string) list \<Rightarrow> dict list res" where
  "observe_log es m = rbind (note_entries es nothing_seen) (\<lambda>ob. Inr (es @ map entry_of (new_outcomes ob m)))"

lemma note_log_lines:
  assumes "\<forall>e \<in> set es. plain (JObj e)"
  shows "note_lines (map (\<lambda>e. dumps default_style (JObj e)) es) ob = note_entries es ob"
  using assms
proof (induction es arbitrary: ob)
  case (Cons e es)
  have "strip (dumps default_style (JObj e)) \<noteq> []" "loads (strip (dumps default_style (JObj e))) = Some (JObj e)"
    using Cons.prems loads_dumps [of "JObj e" default_style] default_ok by (simp_all add: strip_object del: dumps.simps) simp
  then show ?case using Cons by (simp add: Let_def rbind_def del: dumps.simps split: sum.splits)
qed simp

lemma entry_forms:
  "sort_keys (complete_entry k) = complete_entry k" "sort_keys all_complete_entry = all_complete_entry"
  "sort_keys (failed_entry k st) = JObj [(''detail'', JObj [(''kanban_status'', JStr st)]), (''outcome'', JStr (''failed_at_phase_'' @ k))]"
  by (simp_all add: complete_entry_def all_complete_entry_def failed_entry_def)

lemma new_outcome_cases:
  "e \<in> set (new_outcomes ob m) \<Longrightarrow> (\<exists>k. e = complete_entry k) \<or> (\<exists>k st. e = failed_entry k st) \<or> e = all_complete_entry"
  by (auto simp: new_outcomes_def phase_entries_def Let_def split: if_splits)

lemma new_outcome_plain: "e \<in> set (new_outcomes ob m) \<Longrightarrow> JObj (entry_of e) = sort_keys e \<and> plain (sort_keys e)"
  using new_outcome_cases by (fastforce simp: entry_of_def entry_forms complete_entry_def all_complete_entry_def)

lemma log_text_append: "log_text (es @ map entry_of (new_outcomes ob m)) = log_text es @ concat (map log_line (new_outcomes ob m))"
  using new_outcome_plain [of _ ob m]
  by (auto simp: log_text_def log_line_def simp del: dumps.simps intro!: arg_cong [where f = concat])

lemma observe_on_log:
  assumes "texts s (outcomes_path d tick) = Some (log_text es)" and "\<forall>e \<in> set es. plain (JObj e)"
    and "read_error w (outcomes_path d tick) (remote s) = None" and "write_error w (outcomes_path d tick) (remote s) = None"
  shows "observe_outcomes w d tick m s = (case observe_log es m of
      Inl e \<Rightarrow> (Inl e, s)
    | Inr es' \<Rightarrow> (Inr (), s\<lparr>texts := (texts s)(outcomes_path d tick := Some (log_text es'))\<rparr>))"
proof -
  define content where "content = strip (log_text es)"
  have pl: "\<forall>e \<in> set es. plain (JObj e)" by (rule assms(2))
  have n: "(if content = [] then Inr nothing_seen else note_lines (split_on newline content) nothing_seen) = note_entries es nothing_seen"
  proof (cases "es = []")
    case True
    then show ?thesis by (simp add: content_def log_text_def strip_def rstrip_while_def)
  next
    case False
    then have "content \<noteq> []" by (cases es) (simp_all add: content_def log_text_lines join_def)
    then show ?thesis using log_text_split [OF False pl] note_log_lines [OF pl] by (simp add: content_def del: dumps.simps)
  qed
  have same: "s\<lparr>texts := (texts s)(outcomes_path d tick := Some (log_text es))\<rparr> = s"
    using assms(1) by (simp add: fun_upd_idem)
  show ?thesis
  proof (cases "note_entries es nothing_seen")
    case (Inl e)
    then show ?thesis
      using assms n by (simp add: observe_outcomes_def Let_def bind_op_def path_exists_def read_text_def observe_log_def flip: content_def)
  next
    case (Inr ob)
    then show ?thesis
      using assms n same log_text_append [of es ob m]
      by (simp add: observe_outcomes_def Let_def bind_op_def path_exists_def read_text_def write_text_def observe_log_def flip: content_def)
  qed
qed

lemma note_entry_forms:
  "k \<noteq> [] \<Longrightarrow> note_entry (JObj (entry_of (complete_entry k))) ob = Inr (ob\<lparr>seen := ''phase_complete'' # k # seen ob\<rparr>)"
  "note_entry (JObj (entry_of all_complete_entry)) ob = Inr (ob\<lparr>seen := ''all_phases_complete'' # seen ob\<rparr>)"
  "note_entry (JObj (entry_of (failed_entry k st))) ob =
     Inr (ob\<lparr>seen := (''failed_at_phase_'' @ k) # seen ob, failures := (''failed_at_phase_'' @ k, JStr st) # failures ob\<rparr>)"
  by (simp_all add: note_entry_def entry_of_def entry_forms complete_entry_def all_complete_entry_def dget_or_def has_key_def dget_Cons Let_def
      startswith_failed_def startswith_def raise_if_def)

lemma note_entries_append: "note_entries (es @ fs) ob = rbind (note_entries es ob) (note_entries fs)"
  by (induction es arbitrary: ob) (simp_all add: rbind_def split: sum.splits)

definition grows :: "observed \<Rightarrow> observed \<Rightarrow> bool" where
  "grows ob ob' \<longleftrightarrow> set (seen ob) \<subseteq> set (seen ob') \<and> set (failures ob) \<subseteq> set (failures ob')"

lemma note_new:
  assumes "\<forall>e \<in> set vs. (\<exists>k. k \<noteq> [] \<and> e = complete_entry k) \<or> (\<exists>k st. e = failed_entry k st) \<or> e = all_complete_entry"
  shows "\<exists>ob'. note_entries (map entry_of vs) ob = Inr ob' \<and> grows ob ob'
    \<and> (\<forall>k. k \<noteq> [] \<longrightarrow> complete_entry k \<in> set vs \<longrightarrow> k \<in> set (seen ob'))
    \<and> (\<forall>k st. failed_entry k st \<in> set vs \<longrightarrow> (''failed_at_phase_'' @ k, JStr st) \<in> set (failures ob'))
    \<and> (all_complete_entry \<in> set vs \<longrightarrow> ''all_phases_complete'' \<in> set (seen ob'))"
  using assms
proof (induction vs arbitrary: ob)
  case Nil
  then show ?case by (simp add: grows_def)
next
  case (Cons v vs)
  have diff: "complete_entry k \<noteq> failed_entry k' st" "complete_entry k \<noteq> all_complete_entry" "failed_entry k st \<noteq> all_complete_entry" for k k' st
    by (simp_all add: complete_entry_def failed_entry_def all_complete_entry_def)
  have inj: "complete_entry k = complete_entry k' \<longleftrightarrow> k = k'" "failed_entry k st = failed_entry k' st' \<longleftrightarrow> k = k' \<and> st = st'" for k k' st st'
    by (auto simp: complete_entry_def failed_entry_def)
  from Cons.prems have "(\<exists>k. k \<noteq> [] \<and> v = complete_entry k) \<or> (\<exists>k st. v = failed_entry k st) \<or> v = all_complete_entry" by simp
  then obtain ob1 where ob1: "note_entry (JObj (entry_of v)) ob = Inr ob1" "grows ob ob1"
    and new: "\<And>k. v = complete_entry k \<Longrightarrow> k \<noteq> [] \<Longrightarrow> k \<in> set (seen ob1)" "\<And>k st. v = failed_entry k st \<Longrightarrow> (''failed_at_phase_'' @ k, JStr st) \<in> set (failures ob1)"
    "v = all_complete_entry \<Longrightarrow> ''all_phases_complete'' \<in> set (seen ob1)"
    using note_entry_forms by (elim disjE exE conjE) (fastforce simp: grows_def diff inj diff [symmetric])+
  from Cons.IH [of ob1] Cons.prems obtain ob' where "note_entries (map entry_of vs) ob1 = Inr ob'" "grows ob1 ob'"
    "\<forall>k. k \<noteq> [] \<longrightarrow> complete_entry k \<in> set vs \<longrightarrow> k \<in> set (seen ob')"
    "\<forall>k st. failed_entry k st \<in> set vs \<longrightarrow> (''failed_at_phase_'' @ k, JStr st) \<in> set (failures ob')"
    "all_complete_entry \<in> set vs \<longrightarrow> ''all_phases_complete'' \<in> set (seen ob')" by auto
  then show ?case using ob1 new by (auto simp: grows_def)
qed

lemma nothing_new:
  assumes "grows ob ob'" and "\<forall>kv \<in> set m. fst kv \<noteq> []"
    and "\<And>k. k \<noteq> [] \<Longrightarrow> complete_entry k \<in> set (new_outcomes ob m) \<Longrightarrow> k \<in> set (seen ob')"
    and "\<And>k st. failed_entry k st \<in> set (new_outcomes ob m) \<Longrightarrow> (''failed_at_phase_'' @ k, JStr st) \<in> set (failures ob')"
    and "all_complete_entry \<in> set (new_outcomes ob m) \<Longrightarrow> ''all_phases_complete'' \<in> set (seen ob')"
  shows "new_outcomes ob' m = []"
proof -
  have "phase_entries ob' kv = []" if kv: "kv \<in> set m" for kv
  proof -
    have sub: "set (phase_entries ob kv) \<subseteq> set (new_outcomes ob m)" using kv by (auto simp: new_outcomes_def)
    show ?thesis
      using sub assms(1,2) assms(3) [of "fst kv"] assms(4) [of "fst kv" "snd kv"] kv
      by (auto simp: phase_entries_def Let_def grows_def split: if_splits)
  qed
  moreover have "''all_phases_complete'' \<in> set (seen ob')"
    if "m \<noteq> [] \<and> list_all (\<lambda>kv. snd kv \<in> set COMPLETION_STATUSES) m"
    using that assms(1,5) by (cases "''all_phases_complete'' \<in> set (seen ob)") (auto simp: grows_def new_outcomes_def)
  ultimately show ?thesis by (auto simp: new_outcomes_def)
qed

lemma observe_log_again:
  assumes "observe_log es m = Inr es'" and "\<forall>kv \<in> set m. fst kv \<noteq> []"
  shows "observe_log es' m = Inr es'"
proof -
  from assms(1) obtain ob where ob: "note_entries es nothing_seen = Inr ob" "es' = es @ map entry_of (new_outcomes ob m)"
    by (auto simp: observe_log_def rbind_eq_Inr)
  have "\<forall>e \<in> set (new_outcomes ob m). (\<exists>k. k \<noteq> [] \<and> e = complete_entry k) \<or> (\<exists>k st. e = failed_entry k st) \<or> e = all_complete_entry"
    using assms(2) by (auto simp: new_outcomes_def phase_entries_def Let_def split: if_splits)
  from note_new [OF this, of ob] obtain ob' where "note_entries (map entry_of (new_outcomes ob m)) ob = Inr ob'" "new_outcomes ob' m = []"
    using nothing_new [OF _ assms(2), of ob] by blast
  then show ?thesis using ob by (simp add: observe_log_def note_entries_append)
qed

text \<open>
  the outcome log is append-only.  On a log that holds the encoded entries \<open>es\<close>, \<^verbatim>\<open>observe_outcomes\<close>
  leaves the encoding of the abstract log's entries and changes nothing else; if the abstract log rejects
  its entries, it raises that exception and writes nothing.
\<close>

theorem observe_outcomes_refines_log:
  assumes "texts s (outcomes_path d tick) = Some (log_text es)" and "list_all (\<lambda>e. plain (JObj e)) es"
    and "read_error w (outcomes_path d tick) (remote s) = None" and "write_error w (outcomes_path d tick) (remote s) = None"
  shows "observe_outcomes w d tick m s = (case observe_log es m of
      Inl e \<Rightarrow> (Inl e, s)
    | Inr es' \<Rightarrow> (Inr (), s\<lparr>texts := (texts s)(outcomes_path d tick := Some (log_text es'))\<rparr>))"
  using assms by (intro observe_on_log) (simp_all add: list_all_iff)

definition ex_log :: "unit board" where
  "ex_log = \<lparr>remote = (), texts = (\<lambda>_. Some (log_text [entry_of (complete_entry ''plan'')]))\<rparr>"

definition ex_map :: "(string \<times> string) list" where "ex_map = [(''plan'', ''done''), (''build'', ''failed'')]"

lemma ex_observe:
  "observe_log [entry_of (complete_entry ''plan'')] ex_map =
     Inr (map entry_of [complete_entry ''plan'', failed_entry ''build'' ''failed'', all_complete_entry])"
  by code_simp

theorem observe_outcomes_refines_log_witness:
  "\<exists>s'. observe_outcomes ex_show ''.hermes'' ''tick'' ex_map ex_log = (Inr (), s')
     \<and> texts s' (outcomes_path ''.hermes'' ''tick'') = Some (log_text (map entry_of [complete_entry ''plan'', failed_entry ''build'' ''failed'', all_complete_entry]))"
proof -
  have "list_all (\<lambda>e. plain (JObj e)) [entry_of (complete_entry ''plan'')]"
    by (simp add: entry_of_def entry_forms complete_entry_def)
  then show ?thesis
    using observe_outcomes_refines_log [of ex_log "''.hermes''" "''tick''" "[entry_of (complete_entry ''plan'')]" ex_show ex_map] ex_observe
    by (simp add: ex_log_def ex_show_def)
qed

text \<open>
  An outcome is logged once.  After \<^verbatim>\<open>observe_outcomes\<close> returns on a log of entries, calling it again
  with the same status map (of nonempty phase keys) returns and leaves everything as it is.
\<close>

theorem observe_outcomes_once:
  assumes "texts s (outcomes_path d tick) = Some (log_text es)" and "list_all (\<lambda>e. plain (JObj e)) es"
    and "read_error w (outcomes_path d tick) (remote s) = None" and "write_error w (outcomes_path d tick) (remote s) = None"
    and "list_all (\<lambda>kv. fst kv \<noteq> []) m" and "observe_outcomes w d tick m s = (Inr (), s')"
  shows "observe_outcomes w d tick m s' = (Inr (), s')"
proof -
  have pl: "\<forall>e \<in> set es. plain (JObj e)" and ne: "\<forall>kv \<in> set m. fst kv \<noteq> []"
    using assms(2,5) by (simp_all only: list_all_iff)
  from observe_on_log [OF assms(1) pl assms(3,4), of m] assms(6) obtain es' where es': "observe_log es m = Inr es'"
    "s' = s\<lparr>texts := (texts s)(outcomes_path d tick := Some (log_text es'))\<rparr>"
    by (auto split: sum.splits)
  from es'(1) obtain ob where "es' = es @ map entry_of (new_outcomes ob m)" by (auto simp: observe_log_def rbind_eq_Inr)
  then have "\<forall>e \<in> set es'. plain (JObj e)" using pl new_outcome_plain by (auto simp del: plain.simps)
  from observe_on_log [of s' d tick es', OF _ this, of w m] assms(3,4) observe_log_again [OF es'(1) ne] es'(2) show ?thesis
    by simp
qed

theorem observe_outcomes_once_witness:
  "\<exists>s'. observe_outcomes ex_show ''.hermes'' ''tick'' ex_map ex_log = (Inr (), s') \<and> observe_outcomes ex_show ''.hermes'' ''tick'' ex_map s' = (Inr (), s')"
proof -
  have pl: "list_all (\<lambda>e. plain (JObj e)) [entry_of (complete_entry ''plan'')]"
    by (simp add: entry_of_def entry_forms complete_entry_def)
  then obtain s' where s': "observe_outcomes ex_show ''.hermes'' ''tick'' ex_map ex_log = (Inr (), s')"
    using observe_on_log [of ex_log "''.hermes''" "''tick''" "[entry_of (complete_entry ''plan'')]" ex_show ex_map] ex_observe
    by (auto simp: ex_log_def ex_show_def)
  moreover have "observe_outcomes ex_show ''.hermes'' ''tick'' ex_map s' = (Inr (), s')"
    by (rule observe_outcomes_once [OF _ pl _ _ _ s']) (simp_all add: ex_log_def ex_show_def ex_map_def)
  ultimately show ?thesis by blast
qed

end
