(* ===== verification/Registration.thy ===== *)
theory Registration
  imports TickStatus
begin

text \<open>
  \<^verbatim>\<open>hermes_pipeline/kanban_tasks.py\<close>, the crash-safe registration of a phase chain: the pending-state
  marker, its reconciliation, the durable creation of one card, of the whole chain behind its barrier,
  and the cancellation of a tick.

  A cancel event is a test of the environment.  The argument checks of the dataclass fields that hold
  strings by construction are part of the types.
\<close>

section \<open>The pending-state marker\<close>

datatype pending =
    PendingTaskCreate (p_tenant: string) (p_tick: string) (p_phase: string) (p_known: "string list")
  | PendingTaskCleanup (p_tenant: string) (p_tick: string) (p_ids: "string list")
  | PendingBarrierCommit (p_tenant: string) (p_tick: string) (p_barrier: string) (p_ids: "string list")

definition pending_marker :: "string \<Rightarrow> string" where
  "pending_marker project = project @ ''/.hermes/outcomes/pending-task-create.json''"

definition strs :: "string list \<Rightarrow> json" where "strs xs = JList (map JStr xs)"

fun pending_payload :: "pending \<Rightarrow> dict res" where
  "pending_payload (PendingTaskCreate tenant tick key known) = rbind (run_checks [
     raise_if (\<not> list_all (\<lambda>v. v \<noteq> []) [tenant, tick, key]) (ValueErr ''pending task-create fields must be nonempty strings''),
     raise_if (\<not> list_all hermes_id_ok known) (ValueErr ''pending task-create known task IDs must be valid Hermes IDs'')]) (\<lambda>_.
     Inr [(''tenant'', JStr tenant), (''tick_id'', JStr tick), (''phase_key'', JStr key), (''known_task_ids'', strs known)])"
| "pending_payload (PendingTaskCleanup tenant tick ids) = rbind (run_checks [
     raise_if (\<not> list_all (\<lambda>v. v \<noteq> []) [tenant, tick]) (ValueErr ''pending task-cleanup fields must be nonempty strings''),
     raise_if (ids = [] \<or> \<not> list_all hermes_id_ok ids) (ValueErr ''pending task-cleanup IDs must be valid Hermes IDs'')]) (\<lambda>_.
     Inr [(''tenant'', JStr tenant), (''tick_id'', JStr tick), (''cleanup_task_ids'', strs ids)])"
| "pending_payload (PendingBarrierCommit tenant tick barrier ids) = rbind (run_checks [
     raise_if (\<not> list_all (\<lambda>v. v \<noteq> []) [tenant, tick]) (ValueErr ''pending barrier-commit fields must be nonempty strings''),
     raise_if (ids = [] \<or> \<not> list_all hermes_id_ok (barrier # ids)) (ValueErr ''pending barrier-commit IDs must be valid Hermes IDs'')]) (\<lambda>_.
     Inr [(''tenant'', JStr tenant), (''tick_id'', JStr tick), (''barrier_task_id'', JStr barrier), (''cleanup_task_ids'', strs ids)])"

definition persist_pending :: "'b bw \<Rightarrow> string \<Rightarrow> pending \<Rightarrow> ('b board, unit) op" where
  "persist_pending w project p = bind_op (lift_res (pending_payload p)) (\<lambda>d.
     write_text w (pending_marker project) (dumps default_style (sort_keys (JObj d))))"

definition nonempty_str :: "json \<Rightarrow> bool" where
  "nonempty_str v \<longleftrightarrow> is_str v \<and> str_of v \<noteq> []"

definition id_list :: "json \<Rightarrow> bool" where
  "id_list v \<longleftrightarrow> is_list v \<and> list_all (\<lambda>x. is_str x \<and> hermes_id_ok (str_of x)) (items v)"

definition str_items :: "json \<Rightarrow> string list" where "str_items v = map str_of (items v)"

definition decode_pending :: "json \<Rightarrow> pending option" where
  "decode_pending v = (case v of
     JObj d \<Rightarrow>
       (let get = dget d; tenant = get ''tenant''; tick = get ''tick_id''; ids = get ''cleanup_task_ids''; known = get ''known_task_ids'' in
        if keys_are d [''tenant'', ''tick_id'', ''barrier_task_id'', ''cleanup_task_ids''] then
          (if list_all nonempty_str [tenant, tick, get ''barrier_task_id''] \<and> id_list ids \<and> items ids \<noteq> [] \<and> hermes_id_ok (str_of (get ''barrier_task_id''))
           then Some (PendingBarrierCommit (str_of tenant) (str_of tick) (str_of (get ''barrier_task_id'')) (str_items ids)) else None)
        else if keys_are d [''tenant'', ''tick_id'', ''cleanup_task_ids''] then
          (if list_all nonempty_str [tenant, tick] \<and> id_list ids \<and> items ids \<noteq> []
           then Some (PendingTaskCleanup (str_of tenant) (str_of tick) (str_items ids)) else None)
        else if \<not> keys_are d [''tenant'', ''tick_id'', ''phase_key'', ''known_task_ids''] then None
        else if list_all nonempty_str [tenant, tick, get ''phase_key''] \<and> id_list known
        then Some (PendingTaskCreate (str_of tenant) (str_of tick) (str_of (get ''phase_key'')) (str_items known)) else None)
   | _ \<Rightarrow> None)"

definition load_pending :: "'b bw \<Rightarrow> string \<Rightarrow> 'b board \<Rightarrow> pending option res" where
  "load_pending w project s = (case read_text w (pending_marker project) s of
       Inl e \<Rightarrow> if is_os_error e then Inr None else Inl e
     | Inr t \<Rightarrow> Inr (case loads t of None \<Rightarrow> None | Some v \<Rightarrow> decode_pending v))"

definition clear_pending :: "'b bw \<Rightarrow> string \<Rightarrow> pending \<Rightarrow> ('b board, bool) op" where
  "clear_pending w project p = bind_op (reads (load_pending w project)) (\<lambda>q.
     if q \<noteq> Some p then ret False
     else catch_op (then_op (unlink w False (pending_marker project)) (ret True)) (\<lambda>e. if is_os_error e then ret False else raise e))"

section \<open>Cleanup and reconciliation\<close>

definition persist_and_archive :: "'b bw \<Rightarrow> string \<Rightarrow> pending \<Rightarrow> ('b board, bool) op" where
  "persist_and_archive w project c =
     bind_op (catch_op (then_op (persist_pending w project c) (ret True)) (\<lambda>e. if is_os_error e then ret False else raise e)) (\<lambda>ok.
     if \<not> ok then ret False
     else bind_op (archive_tasks w (p_ids c) (Some (p_tenant c))) (\<lambda>archived.
       if \<not> archived then ret False else clear_pending w project c))"

definition complete_barrier :: "'b bw \<Rightarrow> string \<Rightarrow> ('b board, unit) op" where
  "complete_barrier w task_id =
     bind_op (catch_op (hermes w [''hermes'', ''kanban'', ''complete'', task_id]) (\<lambda>e. if command_failed e then raise RuntimeErr else raise e)) (\<lambda>r.
     if fst r \<noteq> 0 then raise RuntimeErr else ret ())"

definition cleanup_of_commit :: "pending \<Rightarrow> pending" where
  "cleanup_of_commit p = PendingTaskCleanup (p_tenant p) (p_tick p) (p_ids p)"

definition reconcile_commit :: "'b bw \<Rightarrow> string \<Rightarrow> bool \<Rightarrow> pending \<Rightarrow> ('b board, bool) op" where
  "reconcile_commit w project cleanup_only p =
     (if cleanup_only then persist_and_archive w project (cleanup_of_commit p)
      else bind_op (task_status_in_snapshot w (p_tenant p) (p_barrier p)) (\<lambda>st.
        if st = Some ''done'' then clear_pending w project p
        else if st \<in> {Some ''ready'', Some ''todo''} then
          bind_op (catch_op (then_op (complete_barrier w (p_barrier p)) (ret True)) (\<lambda>e. if is_runtime_error e then ret False else raise e)) (\<lambda>ok.
            if \<not> ok then ret False else clear_pending w project p)
        else if st \<in> {Some ''failed'', Some ''archived''} then persist_and_archive w project (cleanup_of_commit p)
        else ret False))"

definition archive_and_clear :: "'b bw \<Rightarrow> string \<Rightarrow> pending \<Rightarrow> ('b board, bool) op" where
  "archive_and_clear w project c = bind_op (archive_tasks w (p_ids c) (Some (p_tenant c))) (\<lambda>archived.
     if \<not> archived then ret False else clear_pending w project c)"

definition reconcile_create :: "'b bw \<Rightarrow> string \<Rightarrow> pending \<Rightarrow> ('b board, bool) op" where
  "reconcile_create w project p =
     bind_op (find_task_id_in_snapshot w (p_tenant p) (p_tick p) (p_phase p) 1) (\<lambda>task_id.
     case task_id of None \<Rightarrow> ret False
     | Some i \<Rightarrow> (let c = PendingTaskCleanup (p_tenant p) (p_tick p) (i # rev (p_known p)) in
         bind_op (catch_op (then_op (persist_pending w project c) (ret True)) (\<lambda>e. if is_os_error e then ret False else raise e)) (\<lambda>ok.
         if \<not> ok then ret False else archive_and_clear w project c)))"

definition reconcile_pending_task_create :: "'b bw \<Rightarrow> string \<Rightarrow> bool \<Rightarrow> ('b board, bool) op" where
  "reconcile_pending_task_create w project cleanup_only =
     bind_op (reads (load_pending w project)) (\<lambda>q.
     case q of
       None \<Rightarrow> (\<lambda>s. ret (\<not> path_exists s (pending_marker project)) s)
     | Some (PendingBarrierCommit t k b ids) \<Rightarrow> reconcile_commit w project cleanup_only (PendingBarrierCommit t k b ids)
     | Some (PendingTaskCleanup t k ids) \<Rightarrow> archive_and_clear w project (PendingTaskCleanup t k ids)
     | Some (PendingTaskCreate t k key known) \<Rightarrow> reconcile_create w project (PendingTaskCreate t k key known))"

section \<open>Creating one card\<close>

definition or_find :: "'b bw \<Rightarrow> string option \<Rightarrow> string \<Rightarrow> string \<Rightarrow> string \<Rightarrow> ('b board, string option) op" where
  "or_find w task_id tenant tick key = (case task_id of Some i \<Rightarrow> ret (Some i) | None \<Rightarrow> find_task_id_in_snapshot w tenant tick key 1)"

definition recover_uncertain_task_id :: "'b bw \<Rightarrow> string list \<Rightarrow> string \<Rightarrow> string \<Rightarrow> string \<Rightarrow> ('b board, string option) op" where
  "recover_uncertain_task_id w cmd tenant tick key =
     bind_op (catch_op (bind_op (hermes w cmd) (\<lambda>r. ret (Some r))) (\<lambda>e. if command_failed e then ret None else raise e)) (\<lambda>r.
     or_find w (case r of None \<Rightarrow> None | Some rc \<Rightarrow> if fst rc \<noteq> 0 then None else parse_task_id (snd rc)) tenant tick key)"

definition recover_and_archive :: "'b bw \<Rightarrow> string list \<Rightarrow> string \<Rightarrow> pending \<Rightarrow> ('b board, bool) op" where
  "recover_and_archive w cmd project p =
     bind_op (recover_uncertain_task_id w cmd (p_tenant p) (p_tick p) (p_phase p)) (\<lambda>task_id.
     case task_id of None \<Rightarrow> ret False
     | Some i \<Rightarrow> persist_and_archive w project (PendingTaskCleanup (p_tenant p) (p_tick p) (i # rev (p_known p))))"

definition cleanup_after_local_error :: "'b bw \<Rightarrow> string \<Rightarrow> pending \<Rightarrow> ('b board, bool) op" where
  "cleanup_after_local_error w project p = (if p_known p = [] then clear_pending w project p
     else persist_and_archive w project (PendingTaskCleanup (p_tenant p) (p_tick p) (rev (p_known p))))"

definition is_set :: "('b \<Rightarrow> bool) option \<Rightarrow> 'b board \<Rightarrow> bool" where
  "is_set cancel s = (case cancel of None \<Rightarrow> False | Some f \<Rightarrow> f (remote s))"

text \<open>An operation for its effect, and then \<^verbatim>\<open>RuntimeError\<close>.\<close>

definition then_fail :: "('b board, bool) op \<Rightarrow> ('b board, 'a) op" where
  "then_fail m = bind_op m (\<lambda>_. raise RuntimeErr)"

definition created_card :: "'b bw \<Rightarrow> string list \<Rightarrow> string \<Rightarrow> pending \<Rightarrow> ('b \<Rightarrow> bool) option \<Rightarrow> int \<times> string \<Rightarrow> ('b board, string \<times> pending) op" where
  "created_card w cmd project p cancel r s = (let cleanup = (\<lambda>i. PendingTaskCleanup (p_tenant p) (p_tick p) (i # rev (p_known p))) in
     if is_set cancel s then
       (case (if fst r = 0 then parse_task_id (snd r) else None) of
          None \<Rightarrow> raise RuntimeErr s
        | Some i \<Rightarrow> then_fail (persist_and_archive w project (cleanup i)) s)
     else if fst r \<noteq> 0 then then_fail (recover_and_archive w cmd project p) s
     else (case parse_task_id (snd r) of
         None \<Rightarrow> then_fail (recover_and_archive w cmd project p) s
       | Some i \<Rightarrow> then_op (catch_op (persist_pending w project (cleanup i)) (\<lambda>e. if is_os_error e then raise RuntimeErr else raise e))
           (ret (i, cleanup i)) s))"

definition run_durable_task_create :: "'b bw \<Rightarrow> string list \<Rightarrow> string \<Rightarrow> pending \<Rightarrow> ('b \<Rightarrow> bool) option \<Rightarrow> ('b board, string \<times> pending) op" where
  "run_durable_task_create w cmd project p cancel s =
     (if is_set cancel s then raise RuntimeErr s
      else bind_op (catch_op (then_op (persist_pending w project p) (ret True)) (\<lambda>e. if is_os_error e then ret False else raise e)) (\<lambda>ok.
        if \<not> ok then
          (if p_known p = [] then raise RuntimeErr
           else then_fail (persist_and_archive w project (PendingTaskCleanup (p_tenant p) (p_tick p) (rev (p_known p)))))
        else (\<lambda>s1. case hermes w cmd s1 of
            (Inr r, s2) \<Rightarrow> created_card w cmd project p cancel r s2
          | (Inl e, s2) \<Rightarrow>
              if is_os_error e then then_fail (cleanup_after_local_error w project p) s2
              else if e = SubprocessErr then
                (if is_set cancel s2 then raise RuntimeErr s2 else then_fail (recover_and_archive w cmd project p) s2)
              else raise e s2)) s)"

section \<open>Creating the chain\<close>

record prepared_phase =
  phase_key :: string
  phase_name :: string
  phase_body :: string
  phase_turns :: int
  phase_timeout :: int
  rendered_prompt :: string
  prompt_client :: string
  phase_tools_text :: string
  result_template :: "string option"
  bound_execution :: "string option"
  prepared_role :: string
  max_runtime :: "int option"

definition BARRIER_KEY :: string where "BARRIER_KEY = ''__registration_barrier__''"
definition CLEANUP_GRACE :: int where "CLEANUP_GRACE = 60"

definition barrier_body :: "string \<Rightarrow> string \<Rightarrow> string" where
  "barrier_body tick slug = dumps default_style (sort_keys (JObj [(''infrastructure'', JStr ''registration_barrier''), (''phase_key'', JStr BARRIER_KEY),
       (''project_slug'', JStr slug), (''tick_id'', JStr tick)])) @ [newline]
     @ ''Registration infrastructure: completing this nonspawnable barrier commits the durable phase chain.''"

definition barrier_command :: "string \<Rightarrow> string \<Rightarrow> string \<Rightarrow> string list" where
  "barrier_command slug tick project = [''hermes'', ''kanban'', ''create'', ''--tenant'', slug, ''Registration barrier: '' @ tick,
     ''--body'', barrier_body tick slug, ''--workspace'', ''dir:'' @ project, ''--idempotency-key'', tick @ '':'' @ BARRIER_KEY,
     ''--assignee'', ''-'', ''--json'']"

definition phase_command :: "string \<Rightarrow> string \<Rightarrow> string \<Rightarrow> string \<Rightarrow> string \<Rightarrow> prepared_phase \<Rightarrow> string list" where
  "phase_command slug tick project assignee parent ph = [''hermes'', ''kanban'', ''create'', ''--tenant'', slug, phase_name ph,
     ''--body'', phase_body ph, ''--workspace'', ''dir:'' @ project, ''--idempotency-key'', tick @ '':'' @ phase_key ph,
     ''--assignee'', assignee, ''--json'', ''--parent'', parent, ''--max-runtime'',
     dec_int (case max_runtime ph of Some m \<Rightarrow> m | None \<Rightarrow> phase_timeout ph + CLEANUP_GRACE),
     ''--max-retries'', ''1'', ''--goal'', ''--goal-max-turns'', dec_int (phase_turns ph)]"

text \<open>The cards after the barrier: \<open>created\<close> holds every id so far, newest last.\<close>

fun create_phases :: "'b bw \<Rightarrow> string \<Rightarrow> string \<Rightarrow> string \<Rightarrow> string \<Rightarrow> ('b \<Rightarrow> bool) option \<Rightarrow> prepared_phase list \<Rightarrow> string list \<Rightarrow> pending
    \<Rightarrow> ('b board, string list \<times> pending) op" where
  "create_phases w slug tick project assignee cancel [] created cleanup = ret (created, cleanup)"
| "create_phases w slug tick project assignee cancel (ph # phs) created cleanup =
     bind_op (run_durable_task_create w (phase_command slug tick project assignee (last created) ph) project
         (PendingTaskCreate slug tick (phase_key ph) created) cancel) (\<lambda>ic.
     (\<lambda>s. if is_set cancel s then then_fail (persist_and_archive w project (snd ic)) s
          else create_phases w slug tick project assignee cancel phs (created @ [fst ic]) (snd ic) s))"

definition persist_expected :: "'b bw \<Rightarrow> string \<Rightarrow> prepared_phase list \<Rightarrow> ('b board, unit) op" where
  "persist_expected w project phs = catch_op
     (write_text w (project @ ''/.hermes/outcomes/expected-phases.json'') (dumps default_style (strs (map phase_key phs))))
     (\<lambda>e. if is_os_error e then raise RuntimeErr else raise e)"

definition cancel_point :: "'b bw \<Rightarrow> string \<Rightarrow> ('b \<Rightarrow> bool) option \<Rightarrow> pending \<Rightarrow> ('b board, 'a) op \<Rightarrow> ('b board, 'a) op" where
  "cancel_point w project cancel cleanup k s = (if is_set cancel s then then_fail (persist_and_archive w project cleanup) s else k s)"

definition commit_chain :: "'b bw \<Rightarrow> string \<Rightarrow> ('b \<Rightarrow> bool) option \<Rightarrow> pending \<Rightarrow> pending \<Rightarrow> ('b board, unit) op" where
  "commit_chain w project cancel cleanup commit =
     bind_op (catch_op (then_op (persist_pending w project commit) (ret True)) (\<lambda>e. if is_os_error e then ret False else raise e)) (\<lambda>ok.
     if \<not> ok then then_fail (persist_and_archive w project cleanup)
     else cancel_point w project cancel cleanup
       (then_op (catch_op (complete_barrier w (p_barrier commit)) (\<lambda>e. raise RuntimeErr))
         (bind_op (clear_pending w project commit) (\<lambda>cleared. if cleared then ret () else raise RuntimeErr))))"

definition create_prepared_todo_phases :: "'b bw \<Rightarrow> prepared_phase list \<Rightarrow> string \<Rightarrow> string \<Rightarrow> string \<Rightarrow> string \<Rightarrow> ('b \<Rightarrow> bool) option
    \<Rightarrow> ('b board, string list) op" where
  "create_prepared_todo_phases w phs tick slug project assignee cancel =
     (if list_ex (\<lambda>ph. bound_execution ph \<in> {None, Some []}) phs then raise RuntimeErr
      else bind_op (run_durable_task_create w (barrier_command slug tick project) project (PendingTaskCreate slug tick BARRIER_KEY []) cancel) (\<lambda>bc.
       bind_op (create_phases w slug tick project assignee cancel phs [fst bc] (snd bc)) (\<lambda>cc.
       cancel_point w project cancel (snd cc)
         (bind_op (catch_op (then_op (persist_expected w project phs) (ret True)) (\<lambda>e. ret False)) (\<lambda>ok.
          if \<not> ok then then_fail (persist_and_archive w project (snd cc))
          else then_op (commit_chain w project cancel (snd cc) (PendingBarrierCommit slug tick (fst bc) (p_ids (snd cc))))
            (ret (tl (fst cc))))))))"

section \<open>Cancelling a tick\<close>

definition tick_tasks :: "string \<Rightarrow> dict list \<Rightarrow> dict list" where
  "tick_tasks tick = filter (\<lambda>t. header_for tick t \<noteq> None \<and> is_str (dget t ''id''))"

definition ids_of :: "dict list \<Rightarrow> string set" where "ids_of ts = (\<lambda>t. str_of (dget t ''id'')) ` set ts"

fun reclaim_running :: "'b bw \<Rightarrow> dict list \<Rightarrow> ('b board, bool) op" where
  "reclaim_running w [] = ret True"
| "reclaim_running w (t # ts) = (let i = str_of (dget t ''id'') in
     if dget t ''status'' \<noteq> JStr ''running'' then reclaim_running w ts
     else bind_op (catch_op (bind_op (hermes w [''hermes'', ''kanban'', ''reclaim'', ''--reason'', ''tpo harness overall timeout'', i])
           (\<lambda>r. if fst r \<noteq> 0 then ret False else ret True)) (\<lambda>e. if command_failed e then ret False else raise e)) (\<lambda>ok.
       if \<not> ok then ret False
       else bind_op (task_run_terminated w i True) (\<lambda>stopped. if \<not> stopped then ret False else reclaim_running w ts)))"

fun archive_live :: "'b bw \<Rightarrow> dict list \<Rightarrow> ('b board, bool) op" where
  "archive_live w [] = ret True"
| "archive_live w (t # ts) =
     (if dget t ''status'' = JStr ''archived'' then archive_live w ts
      else bind_op (catch_op (bind_op (hermes w (archive_command (str_of (dget t ''id'')))) (\<lambda>r. ret (fst r = 0)))
           (\<lambda>e. if command_failed e then ret False else raise e)) (\<lambda>ok.
        if \<not> ok then ret False else archive_live w ts))"

definition all_stopped :: "dict list \<Rightarrow> (string \<times> dict) list \<Rightarrow> dict list \<Rightarrow> bool" where
  "all_stopped snapshot payloads tasks \<longleftrightarrow> list_all (\<lambda>t. let i = str_of (dget t ''id'') in
     statuses_of snapshot i = Some (JStr ''archived'') \<and> payload_run_terminated (map_of payloads i) False) tasks"

definition confirm_cancelled :: "'b bw \<Rightarrow> string \<Rightarrow> string \<Rightarrow> dict list \<Rightarrow> dict list \<Rightarrow> ('b board, bool) op" where
  "confirm_cancelled w tenant tick tasks order =
     bind_op (list_task_snapshot w tenant) (\<lambda>final. case final of None \<Rightarrow> ret False
     | Some ts \<Rightarrow> if ids_of (tick_tasks tick ts) \<noteq> ids_of tasks then ret False
         else bind_op (fetch_task_payloads w (map (\<lambda>t. str_of (dget t ''id'')) order)) (\<lambda>ps.
           case ps of None \<Rightarrow> ret False | Some payloads \<Rightarrow> ret (all_stopped ts payloads tasks)))"

definition stop_tasks :: "'b bw \<Rightarrow> string \<Rightarrow> string \<Rightarrow> dict list \<Rightarrow> ('b board, bool) op" where
  "stop_tasks w tenant tick tasks =
     bind_op (child_first_task_order w tasks) (\<lambda>ord. case ord of None \<Rightarrow> ret False
     | Some order \<Rightarrow>
         bind_op (reclaim_running w order) (\<lambda>ok. if \<not> ok then ret False
         else bind_op (archive_live w order) (\<lambda>ok. if \<not> ok then ret False
         else confirm_cancelled w tenant tick tasks order)))"

definition cancel_todo_kanban_tasks :: "'b bw \<Rightarrow> string \<Rightarrow> string \<Rightarrow> string option \<Rightarrow> ('b board, bool) op" where
  "cancel_todo_kanban_tasks w tenant tick project =
     (let settle = (case project of None \<Rightarrow> ret True | Some d \<Rightarrow> reconcile_pending_task_create w d True) in
      bind_op settle (\<lambda>ok. if \<not> ok then ret False
      else bind_op (list_task_snapshot w tenant) (\<lambda>snap. case snap of None \<Rightarrow> ret False
        | Some ts \<Rightarrow> bind_op (list_task_snapshot w tenant) (\<lambda>stable. case stable of None \<Rightarrow> ret False
            | Some us \<Rightarrow>
                if ids_of (tick_tasks tick us) \<noteq> ids_of (tick_tasks tick ts) then ret False
                else if tick_tasks tick ts = [] then settle
                else stop_tasks w tenant tick (tick_tasks tick ts)))))"

end
