(* ===== verification/OpRelation.thy ===== *)
theory OpRelation
  imports Prelude
begin

text \<open>
  The contract of what an operation may do to its state: a reflexive and transitive relation that its
  parts obey.  Components interpret it with the relation their operations share.
\<close>

locale op_relation =
  fixes rel :: "'s \<Rightarrow> 's \<Rightarrow> bool"
  assumes rel_refl: "rel s s"
    and rel_trans: "rel s t \<Longrightarrow> rel t u \<Longrightarrow> rel s u"
begin

definition obeys :: "('s, 'a) op \<Rightarrow> bool" where
  "obeys m \<longleftrightarrow> (\<forall>s r s'. m s = (r, s') \<longrightarrow> rel s s')"

lemma obeysD: "obeys m \<Longrightarrow> m s = (r, s') \<Longrightarrow> rel s s'"
  unfolding obeys_def by blast

lemma obeysI: "(\<And>s r s'. m s = (r, s') \<Longrightarrow> rel s s') \<Longrightarrow> obeys m"
  unfolding obeys_def by blast

lemma obeys_simple: "obeys (ret x)" "obeys (raise e)" "obeys (lift_res r)" "obeys (reads f)"
  by (simp_all add: obeys_def rel_refl)

lemma obeys_bind:
  assumes "obeys m" and "\<And>x. obeys (f x)"
  shows "obeys (bind_op m f)"
proof (rule obeysI)
  fix s r s' assume b: "bind_op m f s = (r, s')"
  obtain q s1 where m: "m s = (q, s1)" by (cases "m s") auto
  with b assms show "rel s s'"
    by (cases q) (auto simp: bind_op_def dest: obeysD intro: rel_trans)
qed

lemma obeys_then: "obeys m \<Longrightarrow> obeys k \<Longrightarrow> obeys (then_op m k)"
  unfolding then_op_def by (intro obeys_bind)

lemma obeys_catch:
  assumes "obeys m" and "\<And>e. obeys (h e)"
  shows "obeys (catch_op m h)"
proof (rule obeysI)
  fix s r s' assume b: "catch_op m h s = (r, s')"
  obtain q s1 where m: "m s = (q, s1)" by (cases "m s") auto
  with b assms show "rel s s'"
    by (cases q) (auto simp: catch_op_def dest: obeysD intro: rel_trans)
qed

lemma obeys_if: "obeys a \<Longrightarrow> obeys b \<Longrightarrow> obeys (if c then a else b)"
  by simp

lemma obeys_option: "obeys a \<Longrightarrow> (\<And>x. obeys (f x)) \<Longrightarrow> obeys (case v of None \<Rightarrow> a | Some x \<Rightarrow> f x)"
  by (cases v) simp_all

lemma obeys_state: "(\<And>s. obeys (f s)) \<Longrightarrow> obeys (\<lambda>s. f s s)"
  unfolding obeys_def by blast

lemma obeys_let: "(\<And>x. obeys (f x)) \<Longrightarrow> obeys (let x = v in f x)"
  by simp

lemmas obeys_rules = obeys_simple obeys_bind obeys_then obeys_catch obeys_if obeys_option

end

end
