(* ===== verification/RegistrationHistory.thy ===== *)
theory RegistrationHistory
  imports Registration TickHistory OpRelation
begin

text \<open>
  Library of the crash-safe registration: runs of the board, what operations leave of the text files,
  the encoding of the pending-state marker, and what is known of every card at every exit.
\<close>

section \<open>Runs\<close>

inductive board_step :: "'b bw \<Rightarrow> 'b board \<Rightarrow> 'b board \<Rightarrow> bool" for w where
  step_command: "hermes w args s = (r, s') \<Longrightarrow> board_step w s s'"
| step_text: "remote s' = remote s \<Longrightarrow> board_step w s s'"

definition board_run :: "'b bw \<Rightarrow> 'b board \<Rightarrow> 'b board \<Rightarrow> bool" where
  "board_run w = (board_step w)\<^sup>*\<^sup>*"

interpretation brd: op_relation "board_run w" for w
  by unfold_locales (auto simp: board_run_def)

interpretation txs: op_relation "\<lambda>s s' :: 'b board. texts s' = texts s"
  by unfold_locales auto

lemma run_hermes: "brd.obeys w (hermes w args)"
  by (rule brd.obeysI) (auto simp: board_run_def intro: step_command)

lemma run_text: "remote s' = remote s \<Longrightarrow> board_run w s s'"
  by (auto simp: board_run_def intro: step_text)

lemma run_write: "brd.obeys w (write_text w' p t)" "brd.obeys w (unlink w' b p)"
  by (auto intro!: brd.obeysI run_text simp: write_text_def unlink_def split: option.splits if_splits)

lemma txt_hermes: "txs.obeys (hermes w args)"
  by (rule txs.obeysI) (auto simp: hermes_def split: prod.splits)

lemmas runs = brd.obeys_rules run_hermes run_write
lemmas texts_kept = txs.obeys_rules txt_hermes

lemma snapshot_runs: "brd.obeys w (list_task_snapshot w tenant)" "txs.obeys (list_task_snapshot w tenant)"
  unfolding list_task_snapshot_def by (intro runs, intro texts_kept)

lemma client_runs:
  "brd.obeys w (task_status_in_snapshot w tenant i)" "txs.obeys (task_status_in_snapshot w tenant i)"
  "brd.obeys w (find_task_id_in_snapshot w tenant k p g)" "txs.obeys (find_task_id_in_snapshot w tenant k p g)"
  "brd.obeys w (try_archive w i)" "txs.obeys (try_archive w i)"
  "brd.obeys w (show_task_payload w i)" "txs.obeys (show_task_payload w i)"
  unfolding task_status_in_snapshot_def find_task_id_in_snapshot_def try_archive_def show_task_payload_def
  by (intro runs snapshot_runs | intro texts_kept snapshot_runs)+

lemma archive_confirmed_runs: "brd.obeys w (archive_confirmed w tenant st ids)" "txs.obeys (archive_confirmed w tenant st ids)"
proof -
  show "brd.obeys w (archive_confirmed w tenant st ids)"
  proof (induction ids arbitrary: st)
    case (Cons i ids)
    show ?case unfolding archive_confirmed.simps by (intro runs snapshot_runs client_runs Cons.IH)
  qed (simp add: runs)
  show "txs.obeys (archive_confirmed w tenant st ids)"
  proof (induction ids arbitrary: st)
    case (Cons i ids)
    show ?case unfolding archive_confirmed.simps by (intro texts_kept snapshot_runs client_runs Cons.IH)
  qed (simp add: texts_kept)
qed

lemma archive_runs: "brd.obeys w (archive_tasks w ids (Some tenant))" "txs.obeys (archive_tasks w ids (Some tenant))"
  unfolding archive_tasks_def option.case by (intro runs snapshot_runs archive_confirmed_runs, intro texts_kept snapshot_runs archive_confirmed_runs)

section \<open>Archived cards\<close>

definition archived_seen :: "'b bw \<Rightarrow> string \<Rightarrow> string \<Rightarrow> 'b board \<Rightarrow> 'b board \<Rightarrow> bool" where
  "archived_seen w tenant i s s' \<longleftrightarrow> (\<exists>s1 s2 ts. board_run w s s1 \<and> list_task_snapshot w tenant s1 = (Inr (Some ts), s2)
     \<and> board_run w s2 s' \<and> statuses_of ts i = Some (JStr ''archived''))"

lemma archived_seen_extend: "archived_seen w tenant i t u \<Longrightarrow> board_run w s t \<Longrightarrow> board_run w u v \<Longrightarrow> archived_seen w tenant i s v"
  unfolding archived_seen_def using brd.rel_trans by blast

lemma archive_confirmed_seen:
  "archive_confirmed w tenant st ids s = (Inr True, s') \<Longrightarrow> i \<in> set ids \<Longrightarrow> st i = Some (JStr ''archived'') \<or> archived_seen w tenant i s s'"
proof (induction ids arbitrary: st s)
  case (Cons j js)
  show ?case
  proof (cases "st j = Some (JStr ''archived'')")
    case True
    with Cons.prems Cons.IH show ?thesis by auto
  next
    case False
    with Cons.prems(1) obtain b s1 ts s2 where s: "try_archive w j s = (Inr b, s1)" "list_task_snapshot w tenant s1 = (Inr (Some ts), s2)"
      "statuses_of ts j = Some (JStr ''archived'')" "archive_confirmed w tenant (statuses_of ts) js s2 = (Inr True, s')"
      by (auto simp: bind_op_returns split: option.splits if_splits)
    have r: "board_run w s s1" "board_run w s1 s2" "board_run w s2 s'"
      using brd.obeysD [OF client_runs(5) s(1)] brd.obeysD [OF snapshot_runs(1) s(2)] brd.obeysD [OF archive_confirmed_runs(1) s(4)] by blast+
    have r2: "board_run w s s2" by (rule brd.rel_trans [OF r(1,2)])
    have here: "archived_seen w tenant k s s'" if "statuses_of ts k = Some (JStr ''archived'')" for k
      unfolding archived_seen_def using r s(2) that by blast
    show ?thesis
    proof (cases "i = j")
      case True
      then show ?thesis using here s(3) by simp
    next
      case F: False
      then have "statuses_of ts i = Some (JStr ''archived'') \<or> archived_seen w tenant i s2 s'"
        using Cons.IH [OF s(4)] Cons.prems(2) by simp
      then show ?thesis using here archived_seen_extend [OF _ r2 brd.rel_refl] by blast
    qed
  qed
qed simp

lemma archive_tasks_seen:
  assumes "archive_tasks w ids (Some tenant) s = (Inr True, s')" and "i \<in> set ids"
  shows "archived_seen w tenant i s s'"
proof -
  from assms obtain sn s1 where s: "list_task_snapshot w tenant s = (Inr sn, s1)"
    "archive_confirmed w tenant (case sn of None \<Rightarrow> Map.empty | Some ts \<Rightarrow> statuses_of ts) ids s1 = (Inr True, s')"
    by (auto simp: archive_tasks_def bind_op_returns split: if_splits)
  have r: "board_run w s s1" "board_run w s1 s'"
    using brd.obeysD [OF snapshot_runs(1) s(1)] brd.obeysD [OF archive_confirmed_runs(1) s(2)] by blast+
  show ?thesis
  proof (cases sn)
    case None
    then show ?thesis using archive_confirmed_seen [OF s(2) assms(2)] archived_seen_extend [OF _ r(1) brd.rel_refl] by auto
  next
    case (Some ts)
    then show ?thesis
      using archive_confirmed_seen [OF s(2) assms(2)] archived_seen_extend [OF _ r(1) brd.rel_refl] s(1) r brd.rel_refl
      unfolding archived_seen_def by fastforce
  qed
qed

section \<open>The marker\<close>

definition encode_pending :: "pending \<Rightarrow> string res" where
  "encode_pending p = rbind (pending_payload p) (\<lambda>d. Inr (dumps default_style (sort_keys (JObj d))))"

definition pending_on_file :: "string \<Rightarrow> 'b board \<Rightarrow> pending option" where
  "pending_on_file project s = (case texts s (pending_marker project) of None \<Rightarrow> None
     | Some t \<Rightarrow> (case loads t of None \<Rightarrow> None | Some v \<Rightarrow> decode_pending v))"

lemma persist_returns:
  "persist_pending w project p s = (Inr u, s') \<longleftrightarrow> (\<exists>t. encode_pending p = Inr t \<and> write_error w (pending_marker project) (remote s) = None
     \<and> s' = s\<lparr>texts := (texts s)(pending_marker project := Some t)\<rparr>)"
  by (auto simp: persist_pending_def encode_pending_def bind_op_returns rbind_eq_Inr write_text_def split: option.splits)

lemma persist_raises: "persist_pending w project p s = (Inl e, s') \<Longrightarrow> s' = s"
  by (auto simp: persist_pending_def bind_op_raises write_text_def split: option.splits)

lemma persist_runs: "brd.obeys w (persist_pending w project p)"
  unfolding persist_pending_def by (intro runs)

lemma strs_props: "plain (strs xs)" "items (strs xs) = map JStr xs" "is_list (strs xs)"
  by (simp_all add: strs_def)

lemma id_list_strs: "list_all hermes_id_ok xs \<Longrightarrow> id_list (strs xs)" "str_items (strs xs) = xs"
  by (simp_all add: id_list_def str_items_def strs_def list_all_iff o_def)

lemma task_id_nonempty: "hermes_id_ok i \<Longrightarrow> i \<noteq> []"
  by (auto simp: hermes_id_ok_def startswith_def)

lemma encoded_decodes:
  assumes "encode_pending p = Inr t"
  shows "\<exists>v. loads t = Some v \<and> decode_pending v = Some p"
proof -
  from assms obtain d where d: "pending_payload p = Inr d" "t = dumps default_style (sort_keys (JObj d))"
    by (auto simp: encode_pending_def rbind_eq_Inr)
  have key: "fst ` set (sort_items d) = fst ` set d"
    using arg_cong [OF sort_items_keys [of d], of set_mset] by simp
  have "plain (JObj d)" using d(1) by (cases p) (auto simp: rbind_eq_Inr strs_props)
  then have l: "loads t = Some (JObj (sort_items d))"
    unfolding d(2) by (metis default_ok(1) loads_dumps sort_keys.simps(2) sort_plain(1))
  have srt: "sort_keys (strs xs) = strs xs" for xs
    unfolding strs_def by (simp, induction xs) simp_all
  note g = dget_Cons strs_props id_list_strs nonempty_str_def keys_are_def
  have "decode_pending (JObj (sort_items d)) = Some p"
  proof (cases p)
    case (PendingTaskCreate tenant tick k known)
    with d(1) have "d = [(''tenant'', JStr tenant), (''tick_id'', JStr tick), (''phase_key'', JStr k), (''known_task_ids'', strs known)]"
      and ok: "tenant \<noteq> []" "tick \<noteq> []" "k \<noteq> []" "list_all hermes_id_ok known" by (auto simp: rbind_eq_Inr)
    then have e: "sort_items d = [(''known_task_ids'', strs known), (''phase_key'', JStr k), (''tenant'', JStr tenant), (''tick_id'', JStr tick)]"
      by (simp add: srt)
    then have "\<not> keys_are (sort_items d) [''tenant'', ''tick_id'', ''barrier_task_id'', ''cleanup_task_ids'']"
      "\<not> keys_are (sort_items d) [''tenant'', ''tick_id'', ''cleanup_task_ids'']"
      using keys_are_absent [of "sort_items d" "''phase_key''"] by (simp_all add: has_key_def)
    moreover have "keys_are (sort_items d) [''tenant'', ''tick_id'', ''phase_key'', ''known_task_ids'']"
      unfolding e by (simp add: keys_are_def insert_commute)
    ultimately show ?thesis
      using e ok PendingTaskCreate by (simp add: decode_pending_def Let_def dget_Cons nonempty_str_def id_list_strs)
  next
    case (PendingTaskCleanup tenant tick ids)
    with d(1) have "d = [(''tenant'', JStr tenant), (''tick_id'', JStr tick), (''cleanup_task_ids'', strs ids)]"
      and ok: "tenant \<noteq> []" "tick \<noteq> []" "ids \<noteq> []" "list_all hermes_id_ok ids" by (auto simp: rbind_eq_Inr)
    from this(1) have e: "sort_items d = [(''cleanup_task_ids'', strs ids), (''tenant'', JStr tenant), (''tick_id'', JStr tick)]"
      by (simp add: srt)
    have "\<not> keys_are (sort_items d) [''tenant'', ''tick_id'', ''barrier_task_id'', ''cleanup_task_ids'']"
    proof
      assume "keys_are (sort_items d) [''tenant'', ''tick_id'', ''barrier_task_id'', ''cleanup_task_ids'']"
      from keys_are_has_key [OF this, of "''barrier_task_id''"] show False unfolding e by (simp add: has_key_def)
    qed
    moreover have "keys_are (sort_items d) [''tenant'', ''tick_id'', ''cleanup_task_ids'']"
      unfolding e by (simp add: keys_are_def insert_commute)
    ultimately show ?thesis
      using e ok PendingTaskCleanup by (simp add: decode_pending_def Let_def dget_Cons nonempty_str_def id_list_strs strs_props)
  next
    case (PendingBarrierCommit tenant tick b ids)
    with d(1) have "d = [(''tenant'', JStr tenant), (''tick_id'', JStr tick), (''barrier_task_id'', JStr b), (''cleanup_task_ids'', strs ids)]"
      and ok: "tenant \<noteq> []" "tick \<noteq> []" "ids \<noteq> []" "list_all hermes_id_ok ids" "hermes_id_ok b" by (auto simp: rbind_eq_Inr)
    then have e: "sort_items d = [(''barrier_task_id'', JStr b), (''cleanup_task_ids'', strs ids), (''tenant'', JStr tenant), (''tick_id'', JStr tick)]"
      by (simp add: srt)
    have "keys_are (sort_items d) [''tenant'', ''tick_id'', ''barrier_task_id'', ''cleanup_task_ids'']"
      unfolding e by (simp add: keys_are_def insert_commute)
    then show ?thesis
      using e ok PendingBarrierCommit task_id_nonempty [OF ok(5)]
      by (simp add: decode_pending_def Let_def dget_Cons nonempty_str_def id_list_strs strs_props)
  qed
  with l show ?thesis by blast
qed

lemma persisted: "persist_pending w project p s = (Inr u, s') \<Longrightarrow> pending_on_file project s' = Some p"
  by (auto simp: persist_returns pending_on_file_def dest: encoded_decodes)

lemma load_pending_file: "read_error w (pending_marker project) (remote s) = None \<Longrightarrow> load_pending w project s = Inr (pending_on_file project s)"
  by (simp add: load_pending_def read_text_def pending_on_file_def split: option.splits)

lemma loaded_pending: "load_pending w project s = Inr (Some p) \<Longrightarrow> pending_on_file project s = Some p"
  by (auto simp: load_pending_def read_text_def pending_on_file_def split: option.splits if_splits sum.splits)

lemma clear_pending_result:
  assumes "clear_pending w project p s = (r, s')"
  shows "remote s' = remote s \<and> (s' = s \<or> (r = Inr True \<and> pending_on_file project s = Some p \<and> texts s' (pending_marker project) = None))
     \<and> (r = Inr True \<longrightarrow> texts s' (pending_marker project) = None \<and> pending_on_file project s = Some p)"
  using assms
  by (auto simp: clear_pending_def bind_op_def catch_op_def then_op_def unlink_def dest: loaded_pending split: sum.splits option.splits if_splits prod.splits)

section \<open>What is known of every card\<close>

fun tracked_ids :: "pending \<Rightarrow> string list" where
  "tracked_ids (PendingTaskCreate _ _ _ known) = known"
| "tracked_ids (PendingTaskCleanup _ _ ids) = ids"
| "tracked_ids (PendingBarrierCommit _ _ b ids) = b # ids"

definition tracked :: "string \<Rightarrow> string list \<Rightarrow> 'b board \<Rightarrow> bool" where
  "tracked project ids s \<longleftrightarrow> ids = [] \<or> (\<exists>p. pending_on_file project s = Some p \<and> set ids \<subseteq> set (tracked_ids p))"

definition accounted :: "'b bw \<Rightarrow> string \<Rightarrow> string \<Rightarrow> string list \<Rightarrow> 'b board \<Rightarrow> 'b board \<Rightarrow> bool" where
  "accounted w project tenant ids s s' \<longleftrightarrow> tracked project ids s' \<or> (\<forall>i \<in> set ids. archived_seen w tenant i s s')"

lemma tracked_texts: "texts s' = texts s \<Longrightarrow> tracked project ids s' = tracked project ids s"
  by (simp add: tracked_def pending_on_file_def)

lemma accounted_extend: "accounted w project tenant ids t u \<Longrightarrow> board_run w s t \<Longrightarrow> accounted w project tenant ids s u"
  unfolding accounted_def using archived_seen_extend [OF _ _ brd.rel_refl] by blast

lemma archive_then_clear:
  assumes "bind_op (archive_tasks w cids (Some tenant)) (\<lambda>archived. if \<not> archived then ret False else clear_pending w project p) s = (r, s')"
    and "tracked project ids s" and "set ids \<subseteq> set cids"
  shows "board_run w s s' \<and> accounted w project tenant ids s s'"
proof -
  obtain q s1 where a: "archive_tasks w cids (Some tenant) s = (q, s1)" by fastforce
  have r: "board_run w s s1" and t: "texts s1 = texts s"
    using brd.obeysD [OF archive_runs(1) a] txs.obeysD [OF archive_runs(2) a] by simp_all
  show ?thesis
  proof (cases "q = Inr True")
    case False
    with assms(1) a have "s' = s1" by (cases q) (simp_all add: bind_op_def)
    with r tracked_texts [OF t] assms(2) show ?thesis by (simp add: accounted_def)
  next
    case True
    with assms(1) a have c: "clear_pending w project p s1 = (r, s')" by (simp add: bind_op_def)
    note cr = clear_pending_result [OF c]
    have r': "board_run w s1 s'" using cr by (simp add: run_text)
    have "\<forall>i \<in> set ids. archived_seen w tenant i s s'"
      using archive_tasks_seen [OF a [unfolded True]] assms(3) archived_seen_extend [OF _ brd.rel_refl r'] by blast
    with brd.rel_trans [OF r r'] show ?thesis unfolding accounted_def by blast
  qed
qed

lemma caught_persist:
  "bind_op (catch_op (then_op (persist_pending w project p) (ret True)) (\<lambda>e. if is_os_error e then ret False else raise e)) k s
   = (case persist_pending w project p s of (Inr u, s1) \<Rightarrow> k True s1
      | (Inl e, s1) \<Rightarrow> if is_os_error e then k False s1 else (Inl e, s1))"
  by (auto simp: bind_op_def catch_op_def then_op_def split: prod.splits sum.splits)

lemma persist_and_archive_accounts:
  assumes "persist_and_archive w project (PendingTaskCleanup tenant tick cids) s = (r, s')"
    and "tracked project ids s" and "set ids \<subseteq> set cids"
  shows "board_run w s s' \<and> accounted w project tenant ids s s'"
proof -
  let ?c = "PendingTaskCleanup tenant tick cids"
  obtain q s1 where p: "persist_pending w project ?c s = (q, s1)" by fastforce
  have r1: "board_run w s s1" by (rule brd.obeysD [OF persist_runs p])
  show ?thesis
  proof (cases q)
    case (Inl e)
    with persist_raises p have "s1 = s" by blast
    with Inl p assms(1) have "s' = s" by (simp add: persist_and_archive_def caught_persist split: if_splits)
    then show ?thesis using assms(2) by (simp add: accounted_def brd.rel_refl)
  next
    case (Inr u)
    have k: "tracked project ids s1"
      using persisted [OF p [unfolded Inr]] assms(3) by (simp add: tracked_def)
    have "bind_op (archive_tasks w cids (Some tenant)) (\<lambda>archived. if \<not> archived then ret False else clear_pending w project ?c) s1 = (r, s')"
      using assms(1) p Inr by (simp add: persist_and_archive_def caught_persist)
    from archive_then_clear [OF this k assms(3)] show ?thesis
      using accounted_extend [OF _ r1] brd.rel_trans [OF r1] by blast
  qed
qed

lemma uncertain_runs: "brd.obeys w (recover_uncertain_task_id w cmd tenant tick key)" "txs.obeys (recover_uncertain_task_id w cmd tenant tick key)"
  unfolding recover_uncertain_task_id_def or_find_def by (intro runs client_runs, intro texts_kept client_runs)

lemma accountedI: "tracked project ids s' \<Longrightarrow> accounted w project tenant ids s s'"
  by (simp add: accounted_def)

lemma persist_and_archive_all:
  "persist_and_archive w project (PendingTaskCleanup tenant tick (rev known)) s = (r, s') \<Longrightarrow>
    tracked project known s \<Longrightarrow> board_run w s s' \<and> accounted w project tenant known s s'"
  by (rule persist_and_archive_accounts) auto

lemma persist_and_archive_more:
  "persist_and_archive w project (PendingTaskCleanup tenant tick (i # rev known)) s = (r, s') \<Longrightarrow>
    tracked project known s \<Longrightarrow> board_run w s s' \<and> accounted w project tenant known s s'"
  by (rule persist_and_archive_accounts) auto

lemma then_fail_result: "then_fail m s = (r, s') \<Longrightarrow> \<exists>q e. m s = (q, s') \<and> r = Inl e"
  by (auto simp: then_fail_def bind_op_def raise_def split: prod.splits sum.splits)

lemma recover_and_archive_accounts:
  assumes "recover_and_archive w cmd project (PendingTaskCreate tenant tick key known) s = (r, s')" and "tracked project known s"
  shows "board_run w s s' \<and> accounted w project tenant known s s'"
proof -
  obtain q s1 where q: "recover_uncertain_task_id w cmd tenant tick key s = (q, s1)" by fastforce
  have r1: "board_run w s s1" by (rule brd.obeysD [OF uncertain_runs(1) q])
  have k: "tracked project known s1" using tracked_texts [OF txs.obeysD [OF uncertain_runs(2) q]] assms(2) by simp
  show ?thesis
  proof (cases "\<exists>i. q = Inr (Some i)")
    case True
    then obtain i where i: "q = Inr (Some i)" by blast
    with assms(1) q have "persist_and_archive w project (PendingTaskCleanup tenant tick (i # rev known)) s1 = (r, s')"
      by (simp add: recover_and_archive_def bind_op_def)
    from persist_and_archive_more [OF this k] show ?thesis
      using accounted_extend [OF _ r1] brd.rel_trans [OF r1] by blast
  next
    case False
    with assms(1) q have "s' = s1"
      by (cases q) (auto simp: recover_and_archive_def bind_op_def split: option.splits)
    with r1 k show ?thesis by (simp add: accountedI)
  qed
qed

lemma cleanup_after_local_error_accounts:
  assumes "cleanup_after_local_error w project (PendingTaskCreate tenant tick key known) s = (r, s')" and "tracked project known s"
  shows "board_run w s s' \<and> accounted w project tenant known s s'"
proof (cases "known = []")
  case True
  with assms(1) have "clear_pending w project (PendingTaskCreate tenant tick key known) s = (r, s')"
    by (simp add: cleanup_after_local_error_def)
  from clear_pending_result [OF this] show ?thesis using True by (auto simp: run_text accounted_def tracked_def)
next
  case False
  with assms persist_and_archive_all show ?thesis by (simp add: cleanup_after_local_error_def)
qed

text \<open>A card printed by its creation command, somewhere in a run.\<close>

definition card_printed :: "'b bw \<Rightarrow> string list \<Rightarrow> string \<Rightarrow> 'b board \<Rightarrow> 'b board \<Rightarrow> bool" where
  "card_printed w cmd i s s' \<longleftrightarrow> (\<exists>s1 out s2. board_run w s s1 \<and> hermes w cmd s1 = (Inr (0, out), s2)
     \<and> parse_task_id out = Some i \<and> board_run w s2 s')"

lemma created_card_accounts:
  assumes "created_card w cmd project (PendingTaskCreate tenant tick key known) cancel a s = (r, s')" and "tracked project known s"
  shows "board_run w s s' \<and> accounted w project tenant known s s'
    \<and> (\<forall>i c. r = Inr (i, c) \<longrightarrow> fst a = 0 \<and> parse_task_id (snd a) = Some i \<and> c = PendingTaskCleanup tenant tick (i # rev known) \<and> pending_on_file project s' = Some c)"
proof -
  let ?p = "PendingTaskCreate tenant tick key known"
  have rec: ?thesis if "then_fail (recover_and_archive w cmd project ?p) s = (r, s')"
    using then_fail_result [OF that] recover_and_archive_accounts [OF _ assms(2)] by auto
  have paa: ?thesis if "then_fail (persist_and_archive w project (PendingTaskCleanup tenant tick (i # rev known))) s = (r, s')" for i
    using then_fail_result [OF that] persist_and_archive_more [OF _ assms(2)] by auto
  show ?thesis
  proof (cases "is_set cancel s")
    case True
    show ?thesis
    proof (cases "if fst a = 0 then parse_task_id (snd a) else None")
      case None
      with True assms have "r = Inl RuntimeErr" "s' = s" by (auto simp: created_card_def raise_def)
      with assms(2) show ?thesis by (simp add: brd.rel_refl accountedI)
    next
      case (Some i)
      with True assms(1) have "then_fail (persist_and_archive w project (PendingTaskCleanup tenant tick (i # rev known))) s = (r, s')"
        by (auto simp: created_card_def Let_def)
      then show ?thesis by (rule paa)
    qed
  next
    case False
    show ?thesis
    proof (cases "fst a = 0 \<and> parse_task_id (snd a) \<noteq> None")
      case F: False
      with False assms(1) have "then_fail (recover_and_archive w cmd project ?p) s = (r, s')"
        by (auto simp: created_card_def Let_def split: if_splits)
      then show ?thesis by (rule rec)
    next
      case True
      then obtain i where i: "fst a = 0" "parse_task_id (snd a) = Some i" by auto
      let ?c = "PendingTaskCleanup tenant tick (i # rev known)"
      obtain q s1 where p: "persist_pending w project ?c s = (q, s1)" by fastforce
      show ?thesis
      proof (cases q)
        case (Inl e)
        with persist_raises p have "s1 = s" by blast
        with Inl p False i assms(1) have "s' = s" "\<exists>e. r = Inl e"
          by (auto simp: created_card_def then_op_def bind_op_def catch_op_def raise_def split: if_splits)
        then show ?thesis using assms(2) by (auto simp: brd.rel_refl accountedI)
      next
        case (Inr u)
        with p False i assms(1) have s1: "r = Inr (i, ?c)" "s' = s1"
          by (auto simp: created_card_def then_op_def bind_op_def catch_op_def ret_def)
        have on: "pending_on_file project s1 = Some ?c" by (rule persisted [OF p [unfolded Inr]])
        then have "tracked project known s1" by (auto simp: tracked_def)
        then show ?thesis using s1 i on brd.obeysD [OF persist_runs p] by (simp add: accountedI)
      qed
    qed
  qed
qed

lemma durable_create_accounts:
  assumes "run_durable_task_create w cmd project (PendingTaskCreate tenant tick key known) cancel s = (r, s')" and "tracked project known s"
  shows "board_run w s s' \<and> accounted w project tenant known s s'
    \<and> (\<forall>i c. r = Inr (i, c) \<longrightarrow> card_printed w cmd i s s' \<and> c = PendingTaskCleanup tenant tick (i # rev known) \<and> pending_on_file project s' = Some c)"
proof -
  let ?p = "PendingTaskCreate tenant tick key known"
  note res [simp] = raise_def
  show ?thesis
  proof (cases "is_set cancel s")
    case True
    with assms show ?thesis by (auto simp: run_durable_task_create_def brd.rel_refl accountedI)
  next
    case nc: False
    obtain q s1 where p: "persist_pending w project ?p s = (q, s1)" by fastforce
    show ?thesis
    proof (cases q)
      case (Inl e)
      with persist_raises p have "s1 = s" by blast
      note sm = nc Inl p this
      show ?thesis
      proof (cases "is_os_error e \<and> known \<noteq> []")
        case True
        with sm assms(1) have "then_fail (persist_and_archive w project (PendingTaskCleanup tenant tick (rev known))) s = (r, s')"
          by (simp add: run_durable_task_create_def caught_persist)
        then show ?thesis using then_fail_result persist_and_archive_all [OF _ assms(2)] by blast
      next
        case False
        with sm assms(1) have "s' = s" "\<exists>e. r = Inl e"
          by (auto simp: run_durable_task_create_def caught_persist split: if_splits)
        then show ?thesis using assms(2) by (auto simp: brd.rel_refl accountedI)
      qed
    next
      case (Inr u)
      have r1: "board_run w s s1" by (rule brd.obeysD [OF persist_runs p])
      have k1: "tracked project known s1" using persisted [OF p [unfolded Inr]] by (auto simp: tracked_def)
      obtain h s2 where h: "hermes w cmd s1 = (h, s2)" by fastforce
      have r12: "board_run w s1 s2" by (rule brd.obeysD [OF run_hermes h])
      have r2: "board_run w s s2" by (rule brd.rel_trans [OF r1 r12])
      have k2: "tracked project known s2" using tracked_texts [OF txs.obeysD [OF txt_hermes h]] k1 by simp
      show ?thesis
      proof (cases h)
        case (Inl e)
        with \<open>q = Inr u\<close> p nc h assms(1) have
          "(if is_os_error e then then_fail (cleanup_after_local_error w project ?p) s2
            else if e = SubprocessErr then (if is_set cancel s2 then raise RuntimeErr s2 else then_fail (recover_and_archive w cmd project ?p) s2)
            else raise e s2) = (r, s')"
          by (simp add: run_durable_task_create_def caught_persist del: res)
        then have "\<exists>q e. r = Inl e \<and> (s' = s2 \<or> cleanup_after_local_error w project ?p s2 = (q, s') \<or> recover_and_archive w cmd project ?p s2 = (q, s'))"
          by (auto split: if_splits dest: then_fail_result)
        then have "\<exists>e. r = Inl e" "board_run w s2 s' \<and> accounted w project tenant known s2 s'"
          using cleanup_after_local_error_accounts [OF _ k2] recover_and_archive_accounts [OF _ k2] accountedI [OF k2] brd.rel_refl by blast+
        then show ?thesis using brd.rel_trans [OF r2] accounted_extend [OF _ r2] by blast
      next
        case (Inr a)
        with \<open>q = Inr u\<close> p nc h assms(1) have "created_card w cmd project ?p cancel a s2 = (r, s')"
          by (simp add: run_durable_task_create_def caught_persist del: res)
        note c = created_card_accounts [OF this k2]
        have "card_printed w cmd i s s'" if "r = Inr (i, d)" for i d
        proof -
          have "fst a = 0" "parse_task_id (snd a) = Some i" using c that by auto
          then show ?thesis unfolding card_printed_def using r1 c Inr h by (metis prod.collapse)
        qed
        then show ?thesis using c brd.rel_trans [OF r2] accounted_extend [OF _ r2] by blast
      qed
    qed
  qed
qed

end
