(* ===== verification/ChainHistory.thy ===== *)
theory ChainHistory
  imports RegistrationHistory TickSafety
begin

text \<open>
  Library of the chain: what a returned chain created, what the reconciliation of a marker and the
  cancellation of a tick confirmed.
\<close>

section \<open>The chain\<close>

text \<open>The cards of a chain, each printed by the creation command that names its predecessor as its parent.\<close>

fun chain_printed :: "'b bw \<Rightarrow> string \<Rightarrow> string \<Rightarrow> string \<Rightarrow> string \<Rightarrow> string \<Rightarrow> prepared_phase list \<Rightarrow> string list \<Rightarrow> 'b board \<Rightarrow> 'b board \<Rightarrow> bool" where
  "chain_printed w slug tick project assignee parent [] ids s s' \<longleftrightarrow> ids = [] \<and> board_run w s s'"
| "chain_printed w slug tick project assignee parent (ph # phs) ids s s' \<longleftrightarrow> (case ids of [] \<Rightarrow> False
     | i # js \<Rightarrow> \<exists>s1. card_printed w (phase_command slug tick project assignee parent ph) i s s1
         \<and> chain_printed w slug tick project assignee i phs js s1 s')"

lemma card_printed_run: "card_printed w cmd i s s' \<Longrightarrow> board_run w s s'"
  unfolding card_printed_def using brd.rel_trans brd.obeysD [OF run_hermes] by blast

lemma chain_printed_length: "chain_printed w slug tick project assignee parent phs ids s s' \<Longrightarrow> length ids = length phs"
  by (induction phs arbitrary: parent ids s) (auto split: list.splits)

lemma chain_printed_extend:
  "chain_printed w slug tick project assignee parent phs ids s t \<Longrightarrow> board_run w t u \<Longrightarrow> chain_printed w slug tick project assignee parent phs ids s u"
  by (induction phs arbitrary: parent ids s) (auto split: list.splits intro: brd.rel_trans)

lemma accounted_subset: "accounted w project tenant ids s s' \<Longrightarrow> set js \<subseteq> set ids \<Longrightarrow> accounted w project tenant js s s'"
  by (auto simp: accounted_def tracked_def)

lemma create_phases_accounts:
  assumes "create_phases w slug tick project assignee cancel phs created cleanup s = (r, s')"
    and "created \<noteq> []" and "pending_on_file project s = Some cleanup" and "cleanup = PendingTaskCleanup slug tick (rev created)"
  shows "board_run w s s' \<and> accounted w project slug created s s'
    \<and> (\<forall>out c. r = Inr (out, c) \<longrightarrow> (\<exists>ids. out = created @ ids \<and> chain_printed w slug tick project assignee (last created) phs ids s s')
         \<and> c = PendingTaskCleanup slug tick (rev out) \<and> pending_on_file project s' = Some c)"
  using assms
proof (induction phs arbitrary: created cleanup s)
  case Nil
  then have "r = Inr (created, cleanup)" "s' = s" by (simp_all add: ret_def)
  moreover have "tracked project created s" using Nil.prems by (simp add: tracked_def)
  ultimately show ?case using Nil.prems by (simp add: brd.rel_refl accountedI)
next
  case (Cons ph phs)
  let ?cmd = "phase_command slug tick project assignee (last created) ph"
  obtain q s1 where d: "run_durable_task_create w ?cmd project (PendingTaskCreate slug tick (phase_key ph) created) cancel s = (q, s1)" by fastforce
  have k: "tracked project created s" using Cons.prems by (simp add: tracked_def)
  note acc = durable_create_accounts [OF d k]
  show ?case
  proof (cases q)
    case (Inl e)
    with Cons.prems(1) d have "r = Inl e" "s' = s1" by (simp_all add: bind_op_def)
    with acc show ?thesis by simp
  next
    case (Inr ic)
    obtain i c where ic: "ic = (i, c)" by fastforce
    with acc Inr have a: "board_run w s s1" "card_printed w ?cmd i s s1" "c = PendingTaskCleanup slug tick (rev (created @ [i]))"
      "pending_on_file project s1 = Some c" by auto
    have sub: "set created \<subseteq> set (created @ [i])" by auto
    show ?thesis
    proof (cases "is_set cancel s1")
      case True
      with Cons.prems(1) d Inr ic have "then_fail (persist_and_archive w project c) s1 = (r, s')" by (simp add: bind_op_def)
      then obtain qq e where f: "persist_and_archive w project c s1 = (qq, s')" "r = Inl e" by (blast dest: then_fail_result)
      have "tracked project created s1" using a(3,4) by (auto simp: tracked_def)
      then have "board_run w s1 s' \<and> accounted w project slug created s1 s'"
        using persist_and_archive_accounts f(1) a(3) by fastforce
      then show ?thesis using f(2) brd.rel_trans [OF a(1)] accounted_extend [OF _ a(1)] by blast
    next
      case False
      with Cons.prems(1) d Inr ic have rest: "create_phases w slug tick project assignee cancel phs (created @ [i]) c s1 = (r, s')"
        by (simp add: bind_op_def)
      note ih = Cons.IH [OF rest _ a(4,3), simplified]
      have "\<exists>ids. out = created @ ids \<and> chain_printed w slug tick project assignee (last created) (ph # phs) ids s s'"
        if "r = Inr (out, d)" for out d
        using ih that a(2) by fastforce
      then show ?thesis
        using ih brd.rel_trans [OF a(1)] accounted_subset [OF _ sub] accounted_extend [OF _ a(1)] by simp blast
    qed
  qed
qed

lemma complete_barrier_done:
  "complete_barrier w b s = (Inr u, s') \<Longrightarrow> \<exists>out. hermes w [''hermes'', ''kanban'', ''complete'', b] s = (Inr (0, out), s')"
  by (auto simp: complete_barrier_def bind_op_returns catch_op_def ret_def raise_def split: prod.splits sum.splits if_splits)

lemma complete_barrier_runs: "brd.obeys w (complete_barrier w b)" "txs.obeys (complete_barrier w b)"
  unfolding complete_barrier_def by (intro runs, intro texts_kept)

lemma clear_pending_others:
  "clear_pending w project p s = (r, s') \<Longrightarrow> f \<noteq> pending_marker project \<Longrightarrow> texts s' f = texts s f"
  by (auto simp: clear_pending_def bind_op_def catch_op_def then_op_def unlink_def split: sum.splits option.splits if_splits prod.splits)

lemma commit_chain_done:
  assumes "commit_chain w project cancel cleanup commit s = (Inr u, s')"
  shows "texts s' (pending_marker project) = None \<and> (\<exists>s1 out s2. board_run w s s1 \<and> \<not> is_set cancel s1 \<and> pending_on_file project s1 = Some commit
    \<and> hermes w [''hermes'', ''kanban'', ''complete'', p_barrier commit] s1 = (Inr (0, out), s2) \<and> board_run w s2 s')
    \<and> (\<forall>f. f \<noteq> pending_marker project \<longrightarrow> texts s' f = texts s f)"
proof -
  obtain q s1 where p: "persist_pending w project commit s = (q, s1)" by fastforce
  have no: "then_fail (persist_and_archive w project cleanup) x \<noteq> (Inr u, s')" for x
    using then_fail_result by fastforce
  have q: "q = Inr ()"
  proof (cases q)
    case (Inl e)
    with p assms no show ?thesis by (simp add: commit_chain_def caught_persist raise_def split: if_splits)
  qed simp
  with p assms no have "\<not> is_set cancel s1" and c: "then_op (catch_op (complete_barrier w (p_barrier commit)) (\<lambda>e. raise RuntimeErr))
      (bind_op (clear_pending w project commit) (\<lambda>cleared. if cleared then ret () else raise RuntimeErr)) s1 = (Inr u, s')"
    by (auto simp: commit_chain_def caught_persist cancel_point_def split: if_splits)
  from c obtain s2 where b: "complete_barrier w (p_barrier commit) s1 = (Inr (), s2)" and d: "clear_pending w project commit s2 = (Inr True, s')"
    by (auto simp: then_op_def bind_op_returns catch_op_def ret_def raise_def split: prod.splits sum.splits if_splits)
  from complete_barrier_done [OF b] obtain out where o: "hermes w [''hermes'', ''kanban'', ''complete'', p_barrier commit] s1 = (Inr (0, out), s2)" by blast
  have "texts s2 = texts s1" by (rule txs.obeysD [OF complete_barrier_runs(2) b])
  moreover have "f \<noteq> pending_marker project \<Longrightarrow> texts s1 f = texts s f" for f
    using p q by (auto simp: persist_returns)
  ultimately have "\<forall>f. f \<noteq> pending_marker project \<longrightarrow> texts s' f = texts s f" using clear_pending_others [OF d] by simp
  moreover have "board_run w s s1" by (rule brd.obeysD [OF persist_runs p])
  moreover have "board_run w s2 s'" "texts s' (pending_marker project) = None"
    using clear_pending_result [OF d] by (auto simp: run_text)
  ultimately show ?thesis using \<open>\<not> is_set cancel s1\<close> o persisted [OF p [unfolded q]] by blast
qed

definition expected_file :: "string \<Rightarrow> string" where
  "expected_file project = project @ ''/.hermes/outcomes/expected-phases.json''"

lemma prepared_chain:
  assumes "create_prepared_todo_phases w phs tick slug project assignee cancel s = (Inr ids, s')"
  shows "(\<exists>b s0 s1 out s2. card_printed w (barrier_command slug tick project) b s s0
      \<and> chain_printed w slug tick project assignee b phs ids s0 s1
      \<and> hermes w [''hermes'', ''kanban'', ''complete'', b] s1 = (Inr (0, out), s2) \<and> board_run w s2 s')
    \<and> texts s' (pending_marker project) = None
    \<and> texts s' (expected_file project) = Some (dumps default_style (strs (map phase_key phs)))
    \<and> list_all (\<lambda>ph. bound_execution ph \<notin> {None, Some []}) phs"
proof -
  have bound: "\<not> list_ex (\<lambda>ph. bound_execution ph \<in> {None, Some []}) phs"
    using assms unfolding create_prepared_todo_phases_def by (simp add: raise_def split: if_splits)
  with assms obtain bc s0 cc s3 where d: "run_durable_task_create w (barrier_command slug tick project) project (PendingTaskCreate slug tick BARRIER_KEY []) cancel s = (Inr bc, s0)"
    and c: "create_phases w slug tick project assignee cancel phs [fst bc] (snd bc) s0 = (Inr cc, s3)"
    and k: "cancel_point w project cancel (snd cc)
         (bind_op (catch_op (then_op (persist_expected w project phs) (ret True)) (\<lambda>e. ret False)) (\<lambda>ok.
          if \<not> ok then then_fail (persist_and_archive w project (snd cc))
          else then_op (commit_chain w project cancel (snd cc) (PendingBarrierCommit slug tick (fst bc) (p_ids (snd cc))))
            (ret (tl (fst cc))))) s3 = (Inr ids, s')"
    by (auto simp: create_prepared_todo_phases_def bind_op_returns)
  obtain b bcl where bc: "bc = (b, bcl)" by fastforce
  obtain out cl where cc: "cc = (out, cl)" by fastforce
  have tr: "tracked project [] s" by (simp add: tracked_def)
  note da = durable_create_accounts [OF d [unfolded bc] tr]
  then have cl: "bcl = PendingTaskCleanup slug tick (rev [b])" "pending_on_file project s0 = Some bcl"
    and pb: "card_printed w (barrier_command slug tick project) b s s0" by simp_all
  note ca = create_phases_accounts [OF c [unfolded bc cc fst_conv snd_conv] _ cl(2,1), simplified]
  then obtain js where js: "out = b # js" "chain_printed w slug tick project assignee b phs js s0 s3" by auto
  have no: "then_fail m x \<noteq> (Inr u, y)" for m :: "('b board, bool) op" and u :: "string list" and x y
    using then_fail_result by fastforce
  from k no have k': "bind_op (catch_op (then_op (persist_expected w project phs) (ret True)) (\<lambda>e. ret False)) (\<lambda>ok.
          if \<not> ok then then_fail (persist_and_archive w project (snd cc))
          else then_op (commit_chain w project cancel (snd cc) (PendingBarrierCommit slug tick (fst bc) (p_ids (snd cc))))
            (ret (tl (fst cc)))) s3 = (Inr ids, s')"
    unfolding cancel_point_def by (auto split: if_splits)
  then obtain ok s4 where e: "catch_op (then_op (persist_expected w project phs) (ret True)) (\<lambda>e. ret False) s3 = (Inr ok, s4)"
    and f: "(if \<not> ok then then_fail (persist_and_archive w project (snd cc))
          else then_op (commit_chain w project cancel (snd cc) (PendingBarrierCommit slug tick (fst bc) (p_ids (snd cc))))
            (ret (tl (fst cc)))) s4 = (Inr ids, s')"
    by (auto simp: bind_op_returns)
  from f no have ok by (cases ok) auto
  with e have ex: "persist_expected w project phs s3 = (Inr (), s4)"
    by (auto simp: catch_op_def then_op_def bind_op_def ret_def split: prod.splits sum.splits)
  from \<open>ok\<close> f bc cc js(1) have g: "commit_chain w project cancel cl (PendingBarrierCommit slug tick b (p_ids cl)) s4 = (Inr (), s')" and ids: "ids = js"
    by (auto simp: then_op_returns ret_def)
  from ex have s4: "s4 = s3\<lparr>texts := (texts s3)(expected_file project := Some (dumps default_style (strs (map phase_key phs))))\<rparr>"
    by (auto simp: persist_expected_def catch_op_def write_text_def expected_file_def raise_def split: prod.splits sum.splits option.splits if_splits)
  then have r34: "board_run w s3 s4" by (simp add: run_text)
  from commit_chain_done [OF g] obtain s5 o5 s6 where h: "board_run w s4 s5"
    "hermes w [''hermes'', ''kanban'', ''complete'', b] s5 = (Inr (0, o5), s6)" "board_run w s6 s'"
    and m: "texts s' (pending_marker project) = None" and oth: "\<forall>f. f \<noteq> pending_marker project \<longrightarrow> texts s' f = texts s4 f"
    by auto
  have "expected_file project \<noteq> pending_marker project" by (simp add: expected_file_def pending_marker_def)
  then have "texts s' (expected_file project) = Some (dumps default_style (strs (map phase_key phs)))"
    using oth s4 by simp
  moreover have "chain_printed w slug tick project assignee b phs ids s0 s5"
    using chain_printed_extend [OF js(2) brd.rel_trans [OF r34 h(1)]] ids by simp
  moreover have "list_all (\<lambda>ph. bound_execution ph \<notin> {None, Some []}) phs"
    using bound by (auto simp: list_ex_iff list_all_iff)
  ultimately show ?thesis using pb h(2,3) m by blast
qed

section \<open>Reconciliation\<close>

lemma persist_and_archive_true:
  assumes "persist_and_archive w project (PendingTaskCleanup tenant tick cids) s = (Inr True, s')"
  shows "texts s' (pending_marker project) = None \<and> (\<forall>i \<in> set cids. archived_seen w tenant i s s')"
proof -
  let ?c = "PendingTaskCleanup tenant tick cids"
  obtain q s1 where p: "persist_pending w project ?c s = (q, s1)" by fastforce
  have r1: "board_run w s s1" by (rule brd.obeysD [OF persist_runs p])
  from assms p obtain u where "q = Inr u" and
    b: "bind_op (archive_tasks w cids (Some tenant)) (\<lambda>archived. if \<not> archived then ret False else clear_pending w project ?c) s1 = (Inr True, s')"
    by (cases q) (auto simp: persist_and_archive_def caught_persist ret_def split: if_splits)
  from b obtain s2 where a: "archive_tasks w cids (Some tenant) s1 = (Inr True, s2)" and c: "clear_pending w project ?c s2 = (Inr True, s')"
    by (auto simp: bind_op_returns ret_def split: if_splits)
  have r2: "board_run w s2 s'" and m: "texts s' (pending_marker project) = None"
    using clear_pending_result [OF c] by (auto simp: run_text)
  then show ?thesis using archive_tasks_seen [OF a] archived_seen_extend [OF _ r1 r2] by blast
qed

lemma archive_and_clear_true:
  assumes "archive_and_clear w project (PendingTaskCleanup tenant tick cids) s = (Inr True, s')"
  shows "texts s' (pending_marker project) = None \<and> (\<forall>i \<in> set cids. archived_seen w tenant i s s')"
proof -
  from assms obtain s2 where a: "archive_tasks w cids (Some tenant) s = (Inr True, s2)" and c: "clear_pending w project (PendingTaskCleanup tenant tick cids) s2 = (Inr True, s')"
    by (auto simp: archive_and_clear_def bind_op_returns ret_def split: if_splits)
  have r2: "board_run w s2 s'" and m: "texts s' (pending_marker project) = None"
    using clear_pending_result [OF c] by (auto simp: run_text)
  then show ?thesis using archive_tasks_seen [OF a] archived_seen_extend [OF _ brd.rel_refl r2] by blast
qed

text \<open>The card a pending creation is looked for: the first live one of its tick and phase, in generation one, with its id.\<close>

definition pending_card :: "string \<Rightarrow> string \<Rightarrow> dict \<Rightarrow> bool" where
  "pending_card tick key t \<longleftrightarrow> dget t ''status'' \<noteq> JStr ''archived'' \<and> (\<exists>h. parse_task_header t = Some h
     \<and> dget h ''tick_id'' = JStr tick \<and> dget h ''phase_key'' = JStr key \<and> header_generation h = 1)"

definition pending_found :: "string \<Rightarrow> string \<Rightarrow> dict list \<Rightarrow> string \<Rightarrow> bool" where
  "pending_found tick key ts i \<longleftrightarrow> (\<exists>before t after. ts = before @ t # after \<and> pending_card tick key t
     \<and> list_all (\<lambda>u. \<not> pending_card tick key u) before \<and> (dget t ''id'' = JStr i \<or> \<not> is_str (dget t ''id'')))"

lemma parse_printed_id: "parse_task_id (dumps default_style (JObj [(''id'', JStr c)])) = Some i \<Longrightarrow> i = c"
proof -
  have "loads (dumps default_style (JObj [(''id'', JStr c)])) = Some (JObj [(''id'', JStr c)])"
    by (rule loads_dumps [OF _ default_ok(1)]) simp
  then show "parse_task_id (dumps default_style (JObj [(''id'', JStr c)])) = Some i \<Longrightarrow> i = c"
    by (simp add: parse_task_id_def Let_def dget_Cons split: if_splits)
qed

lemma find_first: "find P xs = Some t \<Longrightarrow> \<exists>before after. xs = before @ t # after \<and> P t \<and> list_all (\<lambda>u. \<not> P u) before"
proof (induction xs)
  case (Cons x xs)
  then show ?case
    by (cases "P x") (force intro: exI [of _ "[]"], metis append_Cons find.simps(2) list.pred_inject(2))
qed simp

lemma found_pending:
  assumes "find_task_id_in_snapshot w tenant tick key 1 s = (Inr (Some i), s1)"
  shows "\<exists>ts. list_task_snapshot w tenant s = (Inr (Some ts), s1) \<and> pending_found tick key ts i"
proof -
  let ?P = "\<lambda>t. case card_of tick key t of None \<Rightarrow> False | Some h \<Rightarrow> header_generation h = 1"
  from assms obtain ts t where ts: "list_task_snapshot w tenant s = (Inr (Some ts), s1)" and t: "find ?P ts = Some t"
    and i: "parse_task_id (dumps default_style (JObj [(''id'', dget t ''id'')])) = Some i"
    by (auto simp: find_task_id_in_snapshot_def bind_op_returns ret_def split: option.splits)
  have P: "?P = pending_card tick key"
    by (auto simp: fun_eq_iff pending_card_def card_of_def split: option.splits)
  have "dget t ''id'' = JStr i \<or> \<not> is_str (dget t ''id'')"
  proof (cases "is_str (dget t ''id'')")
    case True
    then obtain c where c: "dget t ''id'' = JStr c" unfolding is_str_iff by blast
    have "c = i" by (rule parse_printed_id [OF i [unfolded c], symmetric])
    then show ?thesis using c by blast
  qed simp
  moreover have "find (pending_card tick key) ts = Some t" using t by (simp only: P)
  from find_first [OF this] obtain before after where "ts = before @ t # after" "pending_card tick key t" "list_all (\<lambda>u. \<not> pending_card tick key u) before"
    by (elim exE conjE)
  ultimately have "pending_found tick key ts i" unfolding pending_found_def by (intro exI conjI)
  with ts show ?thesis by (intro exI conjI)
qed

lemma reconcile_create_true:
  assumes "reconcile_create w project (PendingTaskCreate tenant tick key known) s = (Inr True, s')"
  shows "texts s' (pending_marker project) = None \<and> (\<exists>ts s1 i. list_task_snapshot w tenant s = (Inr (Some ts), s1) \<and> pending_found tick key ts i
     \<and> (\<forall>j \<in> set (i # known). archived_seen w tenant j s s'))"
proof -
  from assms obtain i s1 where f: "find_task_id_in_snapshot w tenant tick key 1 s = (Inr (Some i), s1)"
    and b: "bind_op (catch_op (then_op (persist_pending w project (PendingTaskCleanup tenant tick (i # rev known))) (ret True)) (\<lambda>e. if is_os_error e then ret False else raise e)) (\<lambda>ok.
         if \<not> ok then ret False else archive_and_clear w project (PendingTaskCleanup tenant tick (i # rev known))) s1 = (Inr True, s')"
    by (auto simp: reconcile_create_def bind_op_returns [of "find_task_id_in_snapshot w tenant tick key 1"] Let_def ret_def split: option.splits)
  have r1: "board_run w s s1" by (rule brd.obeysD [OF client_runs(3) f])
  obtain q s2 where p: "persist_pending w project (PendingTaskCleanup tenant tick (i # rev known)) s1 = (q, s2)" by fastforce
  have r2: "board_run w s1 s2" by (rule brd.obeysD [OF persist_runs p])
  from b p have "archive_and_clear w project (PendingTaskCleanup tenant tick (i # rev known)) s2 = (Inr True, s')"
    by (cases q) (auto simp: caught_persist ret_def split: if_splits)
  note a = archive_and_clear_true [OF this]
  have "\<forall>j \<in> set (i # known). archived_seen w tenant j s s'"
    using a archived_seen_extend [OF _ brd.rel_trans [OF r1 r2] brd.rel_refl] by auto
  then show ?thesis using a found_pending [OF f] by blast
qed

lemma reconcile_commit_true:
  assumes "reconcile_commit w project only (PendingBarrierCommit tenant tick b ids) s = (Inr True, s')"
  shows "texts s' (pending_marker project) = None \<and> ((\<forall>i \<in> set ids. archived_seen w tenant i s s')
     \<or> \<not> only \<and> (\<exists>st s1. task_status_in_snapshot w tenant b s = (Inr (Some st), s1) \<and> (st = ''done''
         \<or> st \<in> {''ready'', ''todo''} \<and> (\<exists>out s2. hermes w [''hermes'', ''kanban'', ''complete'', b] s1 = (Inr (0, out), s2)))))"
proof (cases only)
  case True
  with assms persist_and_archive_true show ?thesis by (simp add: reconcile_commit_def cleanup_of_commit_def)
next
  case False
  let ?p = "PendingBarrierCommit tenant tick b ids"
  from assms False obtain q s1 where st: "task_status_in_snapshot w tenant b s = (Inr q, s1)"
    and k: "(if q = Some ''done'' then clear_pending w project ?p
        else if q \<in> {Some ''ready'', Some ''todo''} then
          bind_op (catch_op (then_op (complete_barrier w b) (ret True)) (\<lambda>e. if is_runtime_error e then ret False else raise e)) (\<lambda>ok.
            if \<not> ok then ret False else clear_pending w project ?p)
        else if q \<in> {Some ''failed'', Some ''archived''} then persist_and_archive w project (cleanup_of_commit ?p)
        else ret False) s1 = (Inr True, s')"
    unfolding reconcile_commit_def pending.sel by (auto simp: bind_op_returns [of "task_status_in_snapshot w tenant b"])
  have r1: "board_run w s s1" by (rule brd.obeysD [OF client_runs(1) st])
  consider "q = Some ''done''" | "q \<in> {Some ''ready'', Some ''todo''}" | "q \<in> {Some ''failed'', Some ''archived''}" | "q \<notin> {Some ''done'', Some ''ready'', Some ''todo'', Some ''failed'', Some ''archived''}"
    by auto
  then show ?thesis
  proof cases
    case 1
    with k have "clear_pending w project ?p s1 = (Inr True, s')" by simp
    from clear_pending_result [OF this] show ?thesis using 1 st False by simp
  next
    case 2
    then have q: "q \<noteq> Some ''done''" by auto
    from 2 k q obtain s2 where c: "catch_op (then_op (complete_barrier w b) (ret True)) (\<lambda>e. if is_runtime_error e then ret False else raise e) s1 = (Inr True, s2)"
      and d: "clear_pending w project ?p s2 = (Inr True, s')"
      by (auto simp: bind_op_returns [of "catch_op m h" for m h] ret_def split: if_splits)
    from c have "complete_barrier w b s1 = (Inr (), s2)"
      by (auto simp: catch_op_def then_op_def bind_op_def ret_def raise_def split: prod.splits sum.splits if_splits)
    from complete_barrier_done [OF this] clear_pending_result [OF d] show ?thesis using 2 st False by auto
  next
    case 3
    then have "q \<noteq> Some ''done''" "q \<notin> {Some ''ready'', Some ''todo''}" by auto
    with 3 k have "persist_and_archive w project (PendingTaskCleanup tenant tick ids) s1 = (Inr True, s')"
      by (simp add: cleanup_of_commit_def)
    from persist_and_archive_true [OF this] show ?thesis
      using archived_seen_extend [OF _ r1 brd.rel_refl] by blast
  next
    case 4
    with k show ?thesis by (simp add: ret_def)
  qed
qed

text \<open>What a successful reconciliation settles, by the state that was pending.\<close>

fun settled :: "'b bw \<Rightarrow> bool \<Rightarrow> pending option \<Rightarrow> 'b board \<Rightarrow> 'b board \<Rightarrow> bool" where
  "settled w only None s s' \<longleftrightarrow> s' = s"
| "settled w only (Some (PendingTaskCreate tenant tick key known)) s s' \<longleftrightarrow> (\<exists>ts s1 i. list_task_snapshot w tenant s = (Inr (Some ts), s1)
     \<and> pending_found tick key ts i \<and> list_all (\<lambda>j. archived_seen w tenant j s s') (i # known))"
| "settled w only (Some (PendingTaskCleanup tenant tick ids)) s s' \<longleftrightarrow> list_all (\<lambda>i. archived_seen w tenant i s s') ids"
| "settled w only (Some (PendingBarrierCommit tenant tick b ids)) s s' \<longleftrightarrow> list_all (\<lambda>i. archived_seen w tenant i s s') ids
     \<or> \<not> only \<and> (\<exists>st s1. task_status_in_snapshot w tenant b s = (Inr (Some st), s1) \<and> (st = ''done''
         \<or> st \<in> {''ready'', ''todo''} \<and> (\<exists>out s2. hermes w [''hermes'', ''kanban'', ''complete'', b] s1 = (Inr (0, out), s2))))"

lemma reconcile_true:
  assumes "reconcile_pending_task_create w project only s = (Inr True, s')"
  shows "texts s' (pending_marker project) = None \<and> settled w only (pending_on_file project s) s s'"
proof -
  from assms obtain q where q: "load_pending w project s = Inr q"
    and k: "(case q of
       None \<Rightarrow> (\<lambda>s. (Inr (\<not> path_exists s (pending_marker project)), s))
     | Some (PendingBarrierCommit t k b ids) \<Rightarrow> reconcile_commit w project only (PendingBarrierCommit t k b ids)
     | Some (PendingTaskCleanup t k ids) \<Rightarrow> archive_and_clear w project (PendingTaskCleanup t k ids)
     | Some (PendingTaskCreate t k key known) \<Rightarrow> reconcile_create w project (PendingTaskCreate t k key known)) s = (Inr True, s')"
    unfolding reconcile_pending_task_create_def ret_def by (auto simp: bind_op_returns reads_def)
  show ?thesis
  proof (cases q)
    case None
    with k show ?thesis by (auto simp: path_exists_def pending_on_file_def)
  next
    case (Some p)
    with q loaded_pending have "pending_on_file project s = Some p" by blast
    show ?thesis
    proof (cases p)
      case (PendingTaskCreate tenant tick key known)
      with Some k have "reconcile_create w project (PendingTaskCreate tenant tick key known) s = (Inr True, s')" by simp
      from reconcile_create_true [OF this] show ?thesis
        unfolding \<open>pending_on_file project s = Some p\<close> PendingTaskCreate settled.simps list_all_iff by blast
    qed (use Some k \<open>pending_on_file project s = Some p\<close> reconcile_commit_true archive_and_clear_true in \<open>simp_all add: list_all_iff\<close>)
  qed
qed

section \<open>Cancellation\<close>

lemma settle_true:
  assumes "(case project of None \<Rightarrow> ret True | Some d \<Rightarrow> reconcile_pending_task_create w d True) s = (Inr True, s')"
  shows "\<forall>d. project = Some d \<longrightarrow> texts s' (pending_marker d) = None"
  using assms by (cases project) (auto dest: reconcile_true)

lemma map_texts: "(\<And>x. txs.obeys (f x)) \<Longrightarrow> txs.obeys (map_op f xs)"
  by (induction xs) (simp_all only: map_op.simps texts_kept)

lemma payload_texts: "txs.obeys (fetch_task_payloads w ids)"
  unfolding fetch_task_payloads_def by (intro texts_kept map_texts client_runs)

lemma terminated_texts: "txs.obeys (task_run_terminated w i k)"
  unfolding task_run_terminated_def by (intro texts_kept client_runs)

lemma order_texts: "txs.obeys (child_first_task_order w ts)"
  unfolding child_first_task_order_def Let_def by (intro texts_kept payload_texts)

lemma reclaim_texts: "txs.obeys (reclaim_running w ts)"
proof (induction ts)
  case (Cons t ts)
  show ?case unfolding reclaim_running.simps Let_def
    by (intro texts_kept terminated_texts Cons.IH)
qed (simp only: reclaim_running.simps archive_live.simps texts_kept)

lemma archive_live_texts: "txs.obeys (archive_live w ts)"
proof (induction ts)
  case (Cons t ts)
  show ?case unfolding archive_live.simps by (intro texts_kept Cons.IH)
qed (simp only: reclaim_running.simps archive_live.simps texts_kept)

lemma stop_texts: "txs.obeys (stop_tasks w tenant tick ts)"
  unfolding stop_tasks_def confirm_cancelled_def
  by (intro texts_kept order_texts reclaim_texts archive_live_texts snapshot_runs payload_texts)

lemma payload_runs: "brd.obeys w (fetch_task_payloads w ids)"
proof -
  have "brd.obeys w (map_op (show_task_payload w) xs)" for xs
  proof (induction xs)
    case (Cons x xs)
    show ?case unfolding map_op.simps by (intro runs client_runs Cons.IH)
  qed (simp only: map_op.simps runs)
  then show ?thesis unfolding fetch_task_payloads_def by (intro runs)
qed

lemma order_runs: "brd.obeys w (child_first_task_order w ts)"
  unfolding child_first_task_order_def Let_def by (intro runs payload_runs)

lemma terminated_runs: "brd.obeys w (task_run_terminated w i k)"
  unfolding task_run_terminated_def by (intro runs client_runs)

text \<open>
  A card stopped in the run: if it was running, its worker was reclaimed and then shown ended and
  killed; if it was not archived, it was archived.
\<close>

definition reclaimed_seen :: "'b bw \<Rightarrow> dict \<Rightarrow> 'b board \<Rightarrow> 'b board \<Rightarrow> bool" where
  "reclaimed_seen w t s s' \<longleftrightarrow> (let i = str_of (dget t ''id'') in \<exists>a msg b c. board_run w s a
     \<and> hermes w [''hermes'', ''kanban'', ''reclaim'', ''--reason'', ''tpo harness overall timeout'', i] a = (Inr (0, msg), b)
     \<and> task_run_terminated w i True b = (Inr True, c) \<and> board_run w c s')"

definition archive_run :: "'b bw \<Rightarrow> dict \<Rightarrow> 'b board \<Rightarrow> 'b board \<Rightarrow> bool" where
  "archive_run w t s s' \<longleftrightarrow> (\<exists>a msg b. board_run w s a
     \<and> hermes w [''hermes'', ''kanban'', ''archive'', str_of (dget t ''id'')] a = (Inr (0, msg), b) \<and> board_run w b s')"

lemma stopped_extend:
  "reclaimed_seen w t u v \<Longrightarrow> board_run w s u \<Longrightarrow> board_run w v s' \<Longrightarrow> reclaimed_seen w t s s'"
  "archive_run w t u v \<Longrightarrow> board_run w s u \<Longrightarrow> board_run w v s' \<Longrightarrow> archive_run w t s s'"
  unfolding reclaimed_seen_def archive_run_def Let_def using brd.rel_trans by blast+

lemma caught_command:
  "catch_op (bind_op (hermes w args) (\<lambda>r. if fst r \<noteq> 0 then ret False else ret True)) (\<lambda>e. if command_failed e then ret False else raise e) s = (Inr True, s')
     \<longleftrightarrow> (\<exists>msg. hermes w args s = (Inr (0, msg), s'))"
  "catch_op (bind_op (hermes w args) (\<lambda>r. ret (fst r = 0))) (\<lambda>e. if command_failed e then ret False else raise e) s = (Inr True, s')
     \<longleftrightarrow> (\<exists>msg. hermes w args s = (Inr (0, msg), s'))"
  by (auto simp: catch_op_def bind_op_def ret_def raise_def split: prod.splits sum.splits if_splits)

lemma reclaim_true:
  "reclaim_running w ts s = (Inr True, s') \<Longrightarrow> board_run w s s' \<and> list_all (\<lambda>t. dget t ''status'' = JStr ''running'' \<longrightarrow> reclaimed_seen w t s s') ts"
proof (induction ts arbitrary: s)
  case Nil
  then show ?case by (simp add: ret_def brd.rel_refl)
next
  case (Cons t ts)
  let ?i = "str_of (dget t ''id'')"
  show ?case
  proof (cases "dget t ''status'' = JStr ''running''")
    case False
    with Cons show ?thesis by (simp add: Let_def)
  next
    case True
    with Cons.prems obtain msg b c where h: "hermes w [''hermes'', ''kanban'', ''reclaim'', ''--reason'', ''tpo harness overall timeout'', ?i] s = (Inr (0, msg), b)"
      and k: "task_run_terminated w ?i True b = (Inr True, c)" and rest: "reclaim_running w ts c = (Inr True, s')"
      by (auto simp: Let_def bind_op_returns [of "catch_op m g" for m g] bind_op_returns [of "task_run_terminated w i q" for i q] caught_command ret_def split: if_splits)
    have r: "board_run w s b" "board_run w b c" by (rule brd.obeysD [OF run_hermes h], rule brd.obeysD [OF terminated_runs k])
    have rc: "board_run w s c" by (rule brd.rel_trans [OF r])
    note ih = Cons.IH [OF rest]
    have "reclaimed_seen w t s s'" unfolding reclaimed_seen_def Let_def using h k ih brd.rel_refl by blast
    moreover have "list_all (\<lambda>t. dget t ''status'' = JStr ''running'' \<longrightarrow> reclaimed_seen w t s s') ts"
      using ih stopped_extend(1) [OF _ rc brd.rel_refl] by (auto simp: list_all_iff)
    ultimately show ?thesis using brd.rel_trans [OF rc] ih by simp
  qed
qed

lemma archive_live_true:
  "archive_live w ts s = (Inr True, s') \<Longrightarrow> board_run w s s' \<and> list_all (\<lambda>t. dget t ''status'' \<noteq> JStr ''archived'' \<longrightarrow> archive_run w t s s') ts"
proof (induction ts arbitrary: s)
  case Nil
  then show ?case by (simp add: ret_def brd.rel_refl)
next
  case (Cons t ts)
  let ?i = "str_of (dget t ''id'')"
  show ?case
  proof (cases "dget t ''status'' = JStr ''archived''")
    case True
    with Cons show ?thesis by simp
  next
    case False
    with Cons.prems obtain msg b where h: "hermes w [''hermes'', ''kanban'', ''archive'', ?i] s = (Inr (0, msg), b)" and rest: "archive_live w ts b = (Inr True, s')"
      by (auto simp: archive_command_def bind_op_returns [of "catch_op m g" for m g] caught_command ret_def split: if_splits)
    have r: "board_run w s b" by (rule brd.obeysD [OF run_hermes h])
    note ih = Cons.IH [OF rest]
    have "archive_run w t s s'" unfolding archive_run_def using h ih brd.rel_refl by blast
    moreover have "list_all (\<lambda>t. dget t ''status'' \<noteq> JStr ''archived'' \<longrightarrow> archive_run w t s s') ts"
      using ih stopped_extend(2) [OF _ r brd.rel_refl] by (auto simp: list_all_iff)
    ultimately show ?thesis using brd.rel_trans [OF r] ih by simp
  qed
qed

lemma order_mset: "child_first_task_order w tasks s = (Inr (Some order), s') \<Longrightarrow> mset order = mset tasks"
proof -
  assume o: "child_first_task_order w tasks s = (Inr (Some order), s')"
  obtain q t where f: "fetch_task_payloads w (map (\<lambda>t. str_of (dget t ''id'')) tasks) s = (q, t)" by fastforce
  with o have "t = s'" "\<exists>ps. q = Inr (Some ps)"
    by (cases q; simp add: child_first_task_order_def Let_def bind_op_def ret_def split: if_splits option.splits)+
  with f obtain ps where "fetch_task_payloads w (map (\<lambda>t. str_of (dget t ''id'')) tasks) s = (Inr (Some ps), s')" by blast
  from child_before_parent [OF o this] show ?thesis by blast
qed

text \<open>
  What a cancellation from \<open>s\<close> to \<open>s'\<close> did and saw of the cards of its tick: all stopped, then one
  snapshot with the same cards, all archived, and their details, which are the last thing it asked for.
\<close>

definition stopped_seen :: "'b bw \<Rightarrow> string \<Rightarrow> string \<Rightarrow> dict list \<Rightarrow> 'b board \<Rightarrow> 'b board \<Rightarrow> bool" where
  "stopped_seen w tenant tick tasks s s' \<longleftrightarrow> (\<exists>s1 ts s2 ids payloads. board_run w s s1
     \<and> list_all (\<lambda>t. dget t ''status'' = JStr ''running'' \<longrightarrow> reclaimed_seen w t s s1) tasks
     \<and> list_all (\<lambda>t. dget t ''status'' \<noteq> JStr ''archived'' \<longrightarrow> archive_run w t s s1) tasks
     \<and> list_task_snapshot w tenant s1 = (Inr (Some ts), s2) \<and> ids_of (tick_tasks tick ts) = ids_of tasks
     \<and> fetch_task_payloads w ids s2 = (Inr (Some payloads), s')
     \<and> list_all (\<lambda>t. statuses_of ts (str_of (dget t ''id'')) = Some (JStr ''archived'')
          \<and> payload_run_terminated (map_of payloads (str_of (dget t ''id''))) False) tasks)"

lemma stop_tasks_true:
  assumes "stop_tasks w tenant tick tasks s = (Inr True, s')"
  shows "stopped_seen w tenant tick tasks s s'"
proof -
  from assms obtain order t1 t2 t3 where o: "child_first_task_order w tasks s = (Inr (Some order), t1)"
    and r: "reclaim_running w order t1 = (Inr True, t2)" and a: "archive_live w order t2 = (Inr True, t3)"
    and c: "confirm_cancelled w tenant tick tasks order t3 = (Inr True, s')"
    by (auto simp: stop_tasks_def bind_op_returns ret_def split: option.splits if_splits)
  have "set order = set tasks" using order_mset [OF o] by (rule mset_eq_setD)
  then have same: "list_all P order = list_all P tasks" for P by (simp add: list_all_iff)
  have r1: "board_run w s t1" by (rule brd.obeysD [OF order_runs o])
  note rt = reclaim_true [OF r] and al = archive_live_true [OF a]
  have run: "board_run w s t2" "board_run w s t3" "board_run w t2 t3" using r1 rt al brd.rel_trans by blast+
  have "list_all (\<lambda>t. dget t ''status'' = JStr ''running'' \<longrightarrow> reclaimed_seen w t s t3) tasks"
    using rt stopped_extend(1) [OF _ r1 run(3)] unfolding same by (auto simp: list_all_iff)
  moreover have "list_all (\<lambda>t. dget t ''status'' \<noteq> JStr ''archived'' \<longrightarrow> archive_run w t s t3) tasks"
    using al stopped_extend(2) [OF _ run(1) brd.rel_refl] unfolding same by (auto simp: list_all_iff)
  moreover from c obtain ts s2 payloads where "list_task_snapshot w tenant t3 = (Inr (Some ts), s2)" "ids_of (tick_tasks tick ts) = ids_of tasks"
    "fetch_task_payloads w (map (\<lambda>t. str_of (dget t ''id'')) order) s2 = (Inr (Some payloads), s')" "all_stopped ts payloads tasks"
    by (auto simp: confirm_cancelled_def bind_op_returns ret_def split: option.splits if_splits)
  ultimately show ?thesis using run(2) unfolding stopped_seen_def all_stopped_def Let_def by blast
qed

lemma cancelled:
  assumes "cancel_todo_kanban_tasks w tenant tick project s = (Inr True, s')"
  shows "(\<forall>d. project = Some d \<longrightarrow> texts s' (pending_marker d) = None)
    \<and> (\<exists>s1 ts s2 us s3. (case project of None \<Rightarrow> s1 = s | Some d \<Rightarrow> reconcile_pending_task_create w d True s = (Inr True, s1))
         \<and> list_task_snapshot w tenant s1 = (Inr (Some ts), s2) \<and> list_task_snapshot w tenant s2 = (Inr (Some us), s3)
         \<and> ids_of (tick_tasks tick us) = ids_of (tick_tasks tick ts)
         \<and> (if tick_tasks tick ts = [] then (case project of None \<Rightarrow> s' = s3 | Some d \<Rightarrow> reconcile_pending_task_create w d True s3 = (Inr True, s'))
            else stopped_seen w tenant tick (tick_tasks tick ts) s3 s'))"
proof -
  let ?settle = "case project of None \<Rightarrow> ret True | Some d \<Rightarrow> reconcile_pending_task_create w d True"
  from assms obtain s1 ts s2 us s3 where a: "?settle s = (Inr True, s1)" "list_task_snapshot w tenant s1 = (Inr (Some ts), s2)"
    "list_task_snapshot w tenant s2 = (Inr (Some us), s3)" "ids_of (tick_tasks tick us) = ids_of (tick_tasks tick ts)"
    and k: "(if tick_tasks tick ts = [] then ?settle else stop_tasks w tenant tick (tick_tasks tick ts)) s3 = (Inr True, s')"
    unfolding cancel_todo_kanban_tasks_def Let_def
    by (auto simp: bind_op_returns ret_def split: option.splits if_splits)
  have "texts s3 = texts s1"
    using txs.obeysD [OF snapshot_runs(2) a(2)] txs.obeysD [OF snapshot_runs(2) a(3)] by simp
  then have m: "tick_tasks tick ts \<noteq> [] \<Longrightarrow> texts s' = texts s1"
    using k by (auto dest!: txs.obeysD [OF stop_texts])
  have "\<forall>d. project = Some d \<longrightarrow> texts s' (pending_marker d) = None"
  proof (cases "tick_tasks tick ts = []")
    case True
    then have "?settle s3 = (Inr True, s')" using k by simp
    then show ?thesis by (rule settle_true)
  qed (use settle_true [OF a(1)] m in simp)
  moreover have settle: "?settle u = (Inr True, v) \<Longrightarrow> case project of None \<Rightarrow> v = u | Some d \<Rightarrow> reconcile_pending_task_create w d True u = (Inr True, v)" for u v
    by (auto simp: ret_def split: option.splits)
  moreover have "if tick_tasks tick ts = [] then (case project of None \<Rightarrow> s' = s3 | Some d \<Rightarrow> reconcile_pending_task_create w d True s3 = (Inr True, s'))
            else stopped_seen w tenant tick (tick_tasks tick ts) s3 s'"
    using k stop_tasks_true settle by (auto split: if_splits)
  ultimately show ?thesis using a(2-) settle [OF a(1)] by blast
qed

end
