(* ===== verification/RegistrationSafety.thy ===== *)
theory RegistrationSafety
  imports ChainHistory TickSafety
begin

text \<open>
  The properties of the crash-safe registration: the marker reads back what was persisted, no created
  card is forgotten, a returned chain is complete and committed, a successful reconciliation settles
  what was pending, and a successful cancellation has seen the tick stopped.
\<close>

section \<open>A small board\<close>

text \<open>Its state counts the cards it has created; it lists no cards.\<close>

definition ex_maker :: "nat bw" where
  "ex_maker = \<lparr>command = (\<lambda>args n. if args ! 2 = ''create'' then (Inr (0, ''Created t_0000000'' @ dec_int (int n)), Suc n) else (Inr (0, ''[]''), n)),
     read_error = (\<lambda>_ _. None), write_error = (\<lambda>_ _. None)\<rparr>"

definition ex_empty :: "nat board" where "ex_empty = \<lparr>remote = 0, texts = (\<lambda>_. None)\<rparr>"

definition ex_phase :: prepared_phase where
  "ex_phase = \<lparr>phase_key = ''plan'', phase_name = ''Plan'', phase_body = ''body'', phase_turns = 1, phase_timeout = 60, rendered_prompt = ''go'',
     prompt_client = ''codex'', phase_tools_text = [], result_template = None, bound_execution = Some ''binding'', prepared_role = ''worker'', max_runtime = None\<rparr>"

definition ex_create :: pending where "ex_create = PendingTaskCreate ''board'' ''tick'' ''plan'' [''t_00000000'']"

section \<open>The marker\<close>

text \<open>
  C26: the pending-state marker reads back exactly what was persisted: when \<^verbatim>\<open>_persist_pending_task_state\<close>
  returns, the loader decodes the file it wrote to the same kind of pending state with the same fields.
\<close>

theorem pending_marker_roundtrip:
  assumes "persist_pending w project p s = (Inr u, s')" and "read_error w (pending_marker project) (remote s') = None"
  shows "load_pending w project s' = Inr (Some p)"
  using load_pending_file [OF assms(2)] persisted [OF assms(1)] by simp

theorem pending_marker_roundtrip_witness:
  "load_pending ex_maker ''/p'' (snd (persist_pending ex_maker ''/p'' ex_create ex_empty)) = Inr (Some ex_create)"
proof (rule pending_marker_roundtrip)
  have "fst (persist_pending ex_maker ''/p'' ex_create ex_empty) = Inr ()" by code_simp
  then show "persist_pending ex_maker ''/p'' ex_create ex_empty = (Inr (), snd (persist_pending ex_maker ''/p'' ex_create ex_empty))"
    by (simp add: prod_eq_iff)
qed (simp add: ex_maker_def)

section \<open>Creation\<close>

text \<open>
  C27: no created card is forgotten.  However the creation of the rest of a chain ends (its result, a
  failed command, an unwritable marker, a cancellation), every card created before it is either listed
  by the pending-state marker that is left, or a snapshot in the run has shown it archived; and when it
  ends well, the marker lists all of the chain's cards.
\<close>

theorem no_card_forgotten:
  assumes "create_phases w slug tick project assignee cancel phs created cleanup s = (r, s')"
    and "created \<noteq> []" and "pending_on_file project s = Some cleanup" and "cleanup = PendingTaskCleanup slug tick (rev created)"
  shows "accounted w project slug created s s'
    \<and> (case r of Inl e \<Rightarrow> True | Inr (out, c) \<Rightarrow> c = PendingTaskCleanup slug tick (rev out) \<and> pending_on_file project s' = Some c
         \<and> length out = length created + length phs)"
proof (cases r)
  case (Inl e)
  then show ?thesis using create_phases_accounts [OF assms] by simp
next
  case (Inr oc)
  obtain out c where oc: "oc = (out, c)" by fastforce
  from create_phases_accounts [OF assms] Inr oc obtain ids where "out = created @ ids"
    and chain: "chain_printed w slug tick project assignee (last created) phs ids s s'"
    and rest: "c = PendingTaskCleanup slug tick (rev out)" "pending_on_file project s' = Some c" "accounted w project slug created s s'" by blast
  then show ?thesis using Inr oc chain_printed_length [OF chain] by simp
qed

definition ex_started :: "nat board" where
  "ex_started = snd (persist_pending ex_maker ''/p'' (PendingTaskCleanup ''board'' ''tick'' [''t_00000000'']) (ex_empty\<lparr>remote := 1\<rparr>))"

lemma ex_started_pending: "pending_on_file ''/p'' ex_started = Some (PendingTaskCleanup ''board'' ''tick'' [''t_00000000''])"
proof (rule persisted)
  have "fst (persist_pending ex_maker ''/p'' (PendingTaskCleanup ''board'' ''tick'' [''t_00000000'']) (ex_empty\<lparr>remote := 1\<rparr>)) = Inr ()" by code_simp
  then show "persist_pending ex_maker ''/p'' (PendingTaskCleanup ''board'' ''tick'' [''t_00000000'']) (ex_empty\<lparr>remote := 1\<rparr>) = (Inr (), ex_started)"
    unfolding ex_started_def by (simp add: prod_eq_iff)
qed

theorem no_card_forgotten_witness:
  "accounted ex_maker ''/p'' ''board'' [''t_00000000''] ex_started
     (snd (create_phases ex_maker ''board'' ''tick'' ''/p'' ''worker'' (Some (\<lambda>n. 1 < n)) [ex_phase] [''t_00000000''] (PendingTaskCleanup ''board'' ''tick'' [''t_00000000'']) ex_started))"
  by (rule no_card_forgotten [OF prod.collapse [symmetric] _ ex_started_pending, THEN conjunct1]) simp_all

text \<open>
  C28: a chain that is returned is complete and committed.  Every phase's card was printed by the
  command that creates it with the previous card as its parent, the first below the barrier card; only
  after the last of them the barrier was completed; the file of expected phases holds exactly the
  chain's phase keys, no pending-state marker is left, and no phase was created without its bound
  execution.
\<close>

theorem returned_chain_is_committed:
  assumes "create_prepared_todo_phases w phs tick slug project assignee cancel s = (Inr ids, s')"
  shows "(\<exists>b s0 s1 out s2. card_printed w (barrier_command slug tick project) b s s0
      \<and> chain_printed w slug tick project assignee b phs ids s0 s1
      \<and> hermes w [''hermes'', ''kanban'', ''complete'', b] s1 = (Inr (0, out), s2) \<and> board_run w s2 s')
    \<and> texts s' (pending_marker project) = None
    \<and> texts s' (expected_file project) = Some (dumps default_style (strs (map phase_key phs)))
    \<and> list_all (\<lambda>ph. bound_execution ph \<notin> {None, Some []}) phs"
  by (rule prepared_chain [OF assms])

theorem returned_chain_is_committed_witness:
  "texts (snd (create_prepared_todo_phases ex_maker [ex_phase] ''tick'' ''board'' ''/p'' ''worker'' None ex_empty)) (pending_marker ''/p'') = None"
proof -
  have "fst (create_prepared_todo_phases ex_maker [ex_phase] ''tick'' ''board'' ''/p'' ''worker'' None ex_empty) = Inr [''t_00000001'']" by code_simp
  then have "create_prepared_todo_phases ex_maker [ex_phase] ''tick'' ''board'' ''/p'' ''worker'' None ex_empty
     = (Inr [''t_00000001''], snd (create_prepared_todo_phases ex_maker [ex_phase] ''tick'' ''board'' ''/p'' ''worker'' None ex_empty))"
    by (simp add: prod_eq_iff)
  from returned_chain_is_committed [OF this] show ?thesis by blast
qed

section \<open>Reconciliation and cancellation\<close>

text \<open>
  C29: a reconciliation that reports success has settled what was pending: no marker is left, and every
  card the marker listed has been seen archived, except for a pending barrier commit outside a
  cleanup, whose barrier was found done or has just been completed.  For a pending creation the card
  that may have been created is settled too: the first snapshot shows a live card of the tick and phase,
  and that card has been seen archived with the known ones.
\<close>

theorem reconciliation_settles:
  assumes "reconcile_pending_task_create w project only s = (Inr True, s')"
  shows "texts s' (pending_marker project) = None \<and> settled w only (pending_on_file project s) s s'"
  by (rule reconcile_true [OF assms])

definition ex_archived :: dict where
  "ex_archived = [(''id'', JStr ''t_00000000''), (''status'', JStr ''archived''),
     (''body'', JStr (build_json_header ''tick'' ''plan'' ''TODO-1'' ''board'' 1 @ newline # ''go''))]"

definition ex_over :: "nat bw" where
  "ex_over = ex_maker\<lparr>command := (\<lambda>args n. (Inr (0, if args ! 2 = ''show''
      then dumps default_style (JObj [(''task'', JObj [(''id'', JStr (args ! 3))]), (''parents'', JList []), (''runs'', JList [])])
      else dumps default_style (JList [JObj ex_archived])), n))\<rparr>"

theorem reconciliation_settles_witness:
  "list_all (\<lambda>i. archived_seen ex_over ''board'' i ex_started (snd (reconcile_pending_task_create ex_over ''/p'' True ex_started))) [''t_00000000'']"
proof -
  have "fst (reconcile_pending_task_create ex_over ''/p'' True ex_started) = Inr True" by code_simp
  then have "reconcile_pending_task_create ex_over ''/p'' True ex_started = (Inr True, snd (reconcile_pending_task_create ex_over ''/p'' True ex_started))"
    by (simp add: prod_eq_iff)
  from reconciliation_settles [OF this] show ?thesis unfolding ex_started_pending by simp
qed

text \<open>
  C30: a cancellation that reports success has stopped the tick and seen it stopped.  Right after the pending
  state was settled, two snapshots in a row agreed on the cards of the tick.  If there were none, the pending
  state was settled once more; otherwise every running one was reclaimed with its worker shown ended,
  every live one was archived, and after that a last snapshot showed the same cards, all archived, with
  the details of every one of them, read last, showing no run that may still be going.  When the project
  is given, no pending-state marker is left.
\<close>

theorem cancellation_confirmed:
  assumes "cancel_todo_kanban_tasks w tenant tick project s = (Inr True, s')"
  shows "(case project of None \<Rightarrow> True | Some d \<Rightarrow> texts s' (pending_marker d) = None)
    \<and> (\<exists>s1 ts s2 us s3. (case project of None \<Rightarrow> s1 = s | Some d \<Rightarrow> reconcile_pending_task_create w d True s = (Inr True, s1))
         \<and> list_task_snapshot w tenant s1 = (Inr (Some ts), s2) \<and> list_task_snapshot w tenant s2 = (Inr (Some us), s3)
         \<and> ids_of (tick_tasks tick us) = ids_of (tick_tasks tick ts)
         \<and> (if tick_tasks tick ts = [] then (case project of None \<Rightarrow> s' = s3 | Some d \<Rightarrow> reconcile_pending_task_create w d True s3 = (Inr True, s'))
            else stopped_seen w tenant tick (tick_tasks tick ts) s3 s'))"
  using cancelled [OF assms] by (auto split: option.splits)

theorem cancellation_confirmed_witness:
  "texts (snd (cancel_todo_kanban_tasks ex_over ''board'' ''tick'' (Some ''/p'') ex_started)) (pending_marker ''/p'') = None"
proof -
  have "fst (cancel_todo_kanban_tasks ex_over ''board'' ''tick'' (Some ''/p'') ex_started) = Inr True" by code_simp
  then have "cancel_todo_kanban_tasks ex_over ''board'' ''tick'' (Some ''/p'') ex_started
      = (Inr True, snd (cancel_todo_kanban_tasks ex_over ''board'' ''tick'' (Some ''/p'') ex_started))"
    by (simp add: prod_eq_iff)
  from cancellation_confirmed [OF this] show ?thesis by simp
qed

end
