(* ===== verification/PhaseRecovery.thy ===== *)
theory PhaseRecovery
  imports Recovery TickStatus
begin

text \<open>
  \<^verbatim>\<open>hermes_pipeline/phase_recovery.py\<close>: how the tick routes a phase whose card is missing or not done, over
  the execution records, the recovery approvals and the task board at once.  It also holds the process
  identity of \<^verbatim>\<open>agent_execution.py\<close> and \<^verbatim>\<open>abandon_run_if_registered\<close> of \<^verbatim>\<open>run_registration.py\<close>.

  The host's boot identity and the start time of a process (read from \<^verbatim>\<open>/proc\<close> or the Darwin backend) are
  parameters.  The callback \<open>reissue\<close> that creates a card is an operation over the same state.
\<close>

section \<open>State\<close>

record 'b tick_state =
  execs :: store
  cards :: "'b board"

record 'b tick_world =
  exec_world :: world
  git_world :: gitw
  board_world :: "'b bw"
  fresh_event :: string
  host_identity :: dict
  process_start :: "int \<Rightarrow> json"

definition on_execs :: "(store, 'a) op \<Rightarrow> ('b tick_state, 'a) op" where
  "on_execs m s = (case m (execs s) of (r, x) \<Rightarrow> (r, s\<lparr>execs := x\<rparr>))"

definition on_cards :: "('b board, 'a) op \<Rightarrow> ('b tick_state, 'a) op" where
  "on_cards m s = (case m (cards s) of (r, x) \<Rightarrow> (r, s\<lparr>cards := x\<rparr>))"

section \<open>Process identity\<close>

definition process_identity :: "'b tick_world \<Rightarrow> json \<Rightarrow> dict" where
  "process_identity w pid = dupdate (host_identity w) [(''pid'', pid),
     (''start_ticks'', if is_int pid \<and> int_of pid > 0 then process_start w (int_of pid) else JNull)]"

definition identity_matches :: "'b tick_world \<Rightarrow> json \<Rightarrow> bool" where
  "identity_matches w v = (let identity = dict_of v in
     is_dict v \<and> truthy (dget identity ''boot_id'') \<and> truthy (dget identity ''start_ticks'')
     \<and> py_eq (JObj (process_identity w (dget identity ''pid'')))
         (JObj (map (\<lambda>key. (key, dget identity key)) [''pid'', ''start_ticks'', ''boot_id'', ''host''])))"

section \<open>Attempts and approvals\<close>

definition RECOVERY_LOCAL_CODES :: "string list" where
  "RECOVERY_LOCAL_CODES = [''recovery_archive_unconfirmed'', ''recovery_admission_stalled'']"

definition TRANSIENT_REFUSALS :: "string list" where
  "TRANSIENT_REFUSALS = [''recovery_busy'', ''recovery_approval_failed'', ''recovery_worktree_busy'']"

definition GAVE_UP :: "string list" where "GAVE_UP = [''blocked'', ''triage'']"
definition LIVE :: "string list" where "LIVE = [''running'']"

definition PROCEED :: string where "PROCEED = ''proceed''"
definition WAIT :: string where "WAIT = ''wait''"
definition REISSUED :: string where "REISSUED = ''reissued''"
definition REFUSED :: string where "REFUSED = ''refused''"

definition last_attempt :: "'b tick_world \<Rightarrow> string \<Rightarrow> store \<Rightarrow> json option res" where
  "last_attempt w eid s = (case load (exec_world w) eid s of
       Inl e \<Rightarrow> if is_execution_error e \<or> is_os_error e \<or> is_value_error e then Inr None else Inl e
     | Inr r \<Rightarrow> Inr (if attempts_of r \<noteq> [] then Some (last (attempts_of r)) else None))"

definition resumable :: "json \<Rightarrow> bool" where
  "resumable a \<longleftrightarrow> afield a ''cleanup'' = JStr ''confirmed''
     \<and> (str_in (afield a ''status'') (filter (\<lambda>st. st \<noteq> ''exited'') TERMINAL)
        \<or> afield a ''status'' = JStr ''exited'' \<and> afield a ''reason'' = JStr ''result_invalid'')"

definition daemon_alive :: "'b tick_world \<Rightarrow> json \<Rightarrow> bool" where
  "daemon_alive w a \<longleftrightarrow> \<not> str_in (afield a ''status'') TERMINAL \<and> identity_matches w (afield a ''supervisor'')"

definition approved_generation :: "'b tick_world \<Rightarrow> string \<Rightarrow> store \<Rightarrow> json res" where
  "approved_generation w eid s = (case recovery_state (exec_world w) eid s of
       Inl e \<Rightarrow> if is_execution_error e then Inr JNull else Inl e
     | Inr None \<Rightarrow> Inr JNull
     | Inr (Some st) \<Rightarrow> Inr (if dget st ''state'' \<noteq> JStr ''approved'' then JNull else dget st ''generation''))"

section \<open>Unblocking, abandoning, retiring\<close>

definition unblock_marker :: "'b tick_world \<Rightarrow> string \<Rightarrow> string \<Rightarrow> string \<Rightarrow> int \<Rightarrow> string" where
  "unblock_marker w state_dir tick_id key generation = run_path state_dir tick_id
     (''unblocked-'' @ map (\<lambda>c. if alnum c \<or> c \<in> set ''_.-'' then c else CHR ''-'') key @ ''-''
      @ take 8 (sha256 (exec_world w) key) @ ''-g'' @ dec_int generation)"

definition unblock_once :: "'b tick_world \<Rightarrow> string \<Rightarrow> string \<Rightarrow> string \<Rightarrow> int \<Rightarrow> string \<Rightarrow> string \<Rightarrow> ('b board, bool) op" where
  "unblock_once w state_dir tick_id key generation task_id reason s = (let marker = unblock_marker w state_dir tick_id key generation in
     if path_exists s marker then (Inr False, s)
     else bind_op (catch_op (bind_op (hermes (board_world w) [''hermes'', ''kanban'', ''unblock'', task_id, ''--reason'', reason])
             (\<lambda>r. ret (fst r = 0))) (\<lambda>e. if command_failed e then ret False else raise e)) (\<lambda>ok.
       if \<not> ok then ret False
       else then_op (write_text (board_world w) marker (task_id @ [newline])) (ret True)) s)"

definition running_reason :: "string \<Rightarrow> int \<Rightarrow> string" where
  "running_reason key generation = ''tpo tick: supervisor attempt g'' @ dec_int generation @ '' for '' @ key @ '' is still running''"

definition approved_reason :: "string \<Rightarrow> int \<Rightarrow> string" where
  "approved_reason key generation = ''tpo tick: resume of '' @ key @ '' as attempt g'' @ dec_int generation @ '' is approved; run the card command again''"

definition abandon_run_if_registered :: "'b bw \<Rightarrow> string \<Rightarrow> string \<Rightarrow> string \<Rightarrow> ('b board, bool) op" where
  "abandon_run_if_registered w state_dir tick_id reason s =
     (if \<not> path_exists s (run_path state_dir tick_id ''registration.json'') then (Inr False, s)
      else then_op (write_text w (run_path state_dir tick_id ''abandoned'') (reason @ [newline])) (ret True) s)"

definition retire_cards :: "'b bw \<Rightarrow> string \<Rightarrow> string \<Rightarrow> string \<Rightarrow> ('b board, bool) op" where
  "retire_cards w tenant tick_id key = bind_op (phase_cards_in_snapshot w tenant tick_id key) (\<lambda>found.
     case found of None \<Rightarrow> raise (ResultContractError ''recovery_archive_unconfirmed'')
     | Some cs \<Rightarrow>
         if list_ex (\<lambda>c. card_status c \<in> set LIVE) cs then ret False
         else if cs = [] then ret True
         else bind_op (archive_tasks w (map card_id cs) (Some tenant)) (\<lambda>ok.
           if ok then ret True else raise (ResultContractError ''recovery_archive_unconfirmed'')))"

definition refuse_phase :: "'b bw \<Rightarrow> string \<Rightarrow> string \<Rightarrow> string \<Rightarrow> string \<Rightarrow> ('b board, string) op" where
  "refuse_phase w state_dir tick_id key code =
     (if code \<notin> set (RECOVERY_REASONS @ RECOVERY_LOCAL_CODES) then raise AssertionErr
      else then_op (record_validation_blocked w state_dir tick_id key code code) (ret REFUSED))"

section \<open>Routing\<close>

text \<open>The decision of \<^verbatim>\<open>auto_approve_resume\<close> and what follows it.\<close>

definition resume_phase :: "'b tick_world \<Rightarrow> string \<Rightarrow> string \<Rightarrow> string \<Rightarrow> string \<Rightarrow> string \<Rightarrow> int \<Rightarrow> (int \<Rightarrow> ('b tick_state, unit) op)
    \<Rightarrow> ('b tick_state, string) op" where
  "resume_phase w eid state_dir tenant tick_id key generation reissue = (let bw = board_world w in
     bind_op (on_execs (auto_approve_resume (exec_world w) (git_world w) (fresh_event w) MAX_GENERATIONS ''resume'' True eid)) (\<lambda>verdict.
     if \<not> truthy (dget verdict ''approved'') then
       (let code = str_of (dget verdict ''reason'') in
        if code \<in> set TRANSIENT_REFUSALS then ret WAIT
        else if code = ''recovery_generation_exhausted'' then
          bind_op (on_cards (retire_cards bw tenant tick_id key)) (\<lambda>retired.
            if \<not> retired then ret WAIT
            else bind_op (on_cards (abandon_run_if_registered bw state_dir tick_id code)) (\<lambda>_. on_cards (refuse_phase bw state_dir tick_id key code)))
        else on_cards (refuse_phase bw state_dir tick_id key code))
     else bind_op (on_cards (retire_cards bw tenant tick_id key)) (\<lambda>retired.
       if \<not> retired then ret WAIT else then_op (reissue (generation + 1)) (ret REISSUED))))"

text \<open>What follows once the last attempt is known; \<open>c\<close> is the phase's current card.\<close>

definition spent_card :: "'b tick_world \<Rightarrow> string \<Rightarrow> string \<Rightarrow> string \<Rightarrow> string \<Rightarrow> string \<Rightarrow> int \<Rightarrow> task_info \<Rightarrow> (int \<Rightarrow> ('b tick_state, unit) op)
    \<Rightarrow> ('b tick_state, string) op" where
  "spent_card w eid state_dir tenant tick_id key generation c reissue =
     (if info_generation c > generation then
        (if info_status c \<notin> set GAVE_UP then ret WAIT
         else bind_op (on_execs (reads (approved_generation w eid))) (\<lambda>approved.
           if py_eq approved (JInt generation) then
             bind_op (if info_status c = ''blocked''
                      then on_cards (unblock_once w state_dir tick_id key (info_generation c) (info_task c) (approved_reason key (info_generation c)))
                      else ret False) (\<lambda>unblocked.
               if unblocked then ret WAIT
               else on_cards (refuse_phase (board_world w) state_dir tick_id key ''recovery_admission_stalled''))
           else resume_phase w eid state_dir tenant tick_id key generation reissue))
      else if info_status c \<notin> set GAVE_UP then ret WAIT
      else resume_phase w eid state_dir tenant tick_id key generation reissue)"

definition route_attempt :: "'b tick_world \<Rightarrow> string \<Rightarrow> string \<Rightarrow> string \<Rightarrow> string \<Rightarrow> string \<Rightarrow> task_info option \<Rightarrow> (int \<Rightarrow> ('b tick_state, unit) op) \<Rightarrow> json
    \<Rightarrow> ('b tick_state, string) op" where
  "route_attempt w eid state_dir tenant tick_id key worker reissue a =
     (if \<not> str_in (afield a ''status'') TERMINAL then
        (case worker of None \<Rightarrow> ret WAIT
         | Some c \<Rightarrow> if info_status c = ''blocked'' \<and> daemon_alive w a
             then bind_op (on_cards (unblock_once w state_dir tick_id key (info_generation c) (info_task c) (running_reason key (info_generation c)))) (\<lambda>_. ret WAIT)
             else ret WAIT)
      else if \<not> resumable a then ret PROCEED
      else (case worker of
          None \<Rightarrow> resume_phase w eid state_dir tenant tick_id key (int_of (afield a ''generation'')) reissue
        | Some c \<Rightarrow> spent_card w eid state_dir tenant tick_id key (int_of (afield a ''generation'')) c reissue))"

definition route_recovery :: "'b tick_world \<Rightarrow> string \<Rightarrow> string \<Rightarrow> string \<Rightarrow> string \<Rightarrow> string \<Rightarrow> task_info option \<Rightarrow> (int \<Rightarrow> ('b tick_state, unit) op)
    \<Rightarrow> ('b tick_state, string) op" where
  "route_recovery w eid state_dir tenant tick_id key worker reissue =
     bind_op (on_execs (reads (last_attempt w eid))) (\<lambda>att.
     case att of None \<Rightarrow> ret PROCEED | Some a \<Rightarrow> route_attempt w eid state_dir tenant tick_id key worker reissue a)"

end
