(* ===== verification/PhaseRouting.thy ===== *)
theory PhaseRouting
  imports PhaseRecovery RecoverySafety RegistrationSafety
begin

text \<open>
  The properties of the tick's recovery routing: a card is reissued only for an approved attempt whose
  old cards are gone, and every refusal leaves a record of its code.
\<close>

section \<open>Parts of the state\<close>

lemma on_execs_iff: "on_execs m s = (r, s') \<longleftrightarrow> (\<exists>x. m (execs s) = (r, x) \<and> s' = s\<lparr>execs := x\<rparr>)"
  by (auto simp: on_execs_def split: prod.splits)

lemma on_cards_iff: "on_cards m s = (r, s') \<longleftrightarrow> (\<exists>x. m (cards s) = (r, x) \<and> s' = s\<lparr>cards := x\<rparr>)"
  by (auto simp: on_cards_def split: prod.splits)

lemma on_reads: "on_execs (reads f) s = (f (execs s), s)"
  by (simp add: on_execs_def)

lemmas outcome_names = PROCEED_def WAIT_def REISSUED_def REFUSED_def

section \<open>Retiring and refusing\<close>

lemma card_snapshot_runs: "brd.obeys w (phase_cards_in_snapshot w tenant tick key)"
  unfolding phase_cards_in_snapshot_def by (intro runs snapshot_runs)

lemma retire_true:
  assumes "retire_cards w tenant tick key b = (Inr True, b')"
  shows "\<exists>cs b1. phase_cards_in_snapshot w tenant tick key b = (Inr (Some cs), b1)
    \<and> list_all (\<lambda>c. card_status c \<noteq> ''running'' \<and> archived_seen w tenant (card_id c) b b') cs"
proof -
  from assms obtain cs b1 where cs: "phase_cards_in_snapshot w tenant tick key b = (Inr (Some cs), b1)"
    and q: "\<not> list_ex (\<lambda>c. card_status c \<in> set LIVE) cs"
    and k: "cs = [] \<or> archive_tasks w (map card_id cs) (Some tenant) b1 = (Inr True, b')"
    by (auto simp: retire_cards_def bind_op_returns split: option.splits if_splits)
  have "board_run w b b1" by (rule brd.obeysD [OF card_snapshot_runs cs])
  then have "\<forall>c \<in> set cs. archived_seen w tenant (card_id c) b b'"
    using k archive_tasks_seen archived_seen_extend [OF _ _ brd.rel_refl] by fastforce
  with cs q show ?thesis by (auto simp: list_all_iff list_ex_iff LIVE_def)
qed

definition blocked_text :: "string \<Rightarrow> string \<Rightarrow> string \<Rightarrow> string" where
  "blocked_text tick_id key code = dumps default_style (sort_keys (JObj [(''schema_version'', JInt 1), (''tick_id'', JStr tick_id),
     (''step_key'', JStr key), (''code'', JStr code), (''reason'', JStr code)])) @ [newline]"

text \<open>A refusal is on record, unless its marker could not be written.\<close>

definition refusal_recorded :: "'b bw \<Rightarrow> string \<Rightarrow> string \<Rightarrow> string \<Rightarrow> string \<Rightarrow> 'b board \<Rightarrow> bool" where
  "refusal_recorded w state_dir tick_id key code b \<longleftrightarrow> code \<in> set (RECOVERY_REASONS @ RECOVERY_LOCAL_CODES)
     \<and> (texts b (validation_blocked_marker state_dir tick_id) = Some (blocked_text tick_id key code)
        \<or> (\<exists>e. write_error w (validation_blocked_marker state_dir tick_id) (remote b) = Some e \<and> is_os_error e))"

lemma refuse_phase_returns:
  "refuse_phase w state_dir tick_id key code b = (Inr v, b') \<Longrightarrow> v = REFUSED \<and> refusal_recorded w state_dir tick_id key code b'"
  by (auto simp: refuse_phase_def then_op_def bind_op_def record_validation_blocked_def catch_op_def write_text_def refusal_recorded_def
      blocked_text_def split: if_splits option.splits prod.splits sum.splits)

section \<open>Resuming\<close>

lemma verdict_truthy: "is_verdict v \<Longrightarrow> truthy (dget v ''approved'') \<longleftrightarrow> approves v"
  by (auto simp: is_verdict_def approves_def verdict_returns dget_Cons)

lemma resume_returns:
  assumes "resume_phase w eid sd tenant tick key g reissue s = (Inr x, s')"
  shows "x = WAIT \<or> (x = REFUSED \<and> (\<exists>code. refusal_recorded (board_world w) sd tick key code (cards s')))
    \<or> (x = REISSUED \<and> (\<exists>v e b. auto_approve_resume (exec_world w) (git_world w) (fresh_event w) MAX_GENERATIONS ''resume'' True eid (execs s) = (Inr v, e)
        \<and> approves v \<and> retire_cards (board_world w) tenant tick key (cards s) = (Inr True, b)
        \<and> reissue (g + 1) (s\<lparr>execs := e, cards := b\<rparr>) = (Inr (), s')))"
proof -
  from assms obtain v e where v: "auto_approve_resume (exec_world w) (git_world w) (fresh_event w) MAX_GENERATIONS ''resume'' True eid (execs s) = (Inr v, e)"
    and k: "(if \<not> truthy (dget v ''approved'') then
       (let code = str_of (dget v ''reason'') in
        if code \<in> set TRANSIENT_REFUSALS then ret WAIT
        else if code = ''recovery_generation_exhausted'' then
          bind_op (on_cards (retire_cards (board_world w) tenant tick key)) (\<lambda>retired.
            if \<not> retired then ret WAIT
            else bind_op (on_cards (abandon_run_if_registered (board_world w) sd tick code)) (\<lambda>_. on_cards (refuse_phase (board_world w) sd tick key code)))
        else on_cards (refuse_phase (board_world w) sd tick key code))
     else bind_op (on_cards (retire_cards (board_world w) tenant tick key)) (\<lambda>retired.
       if \<not> retired then ret WAIT else then_op (reissue (g + 1)) (ret REISSUED))) (s\<lparr>execs := e\<rparr>) = (Inr x, s')"
    unfolding resume_phase_def Let_def bind_op_returns on_execs_iff by blast
  show ?thesis
  proof (cases "approves v")
    case True
    with k verdict_truthy [OF auto_approve_verdict [OF v]] show ?thesis
      using v by (auto simp: bind_op_returns then_op_returns on_cards_iff split: if_splits)
  next
    case False
    with verdict_truthy [OF auto_approve_verdict [OF v]] have "\<not> truthy (dget v ''approved'')" by simp
    with k show ?thesis
      by (auto simp: bind_op_returns Let_def on_cards_iff split: if_splits dest!: refuse_phase_returns)
  qed
qed

section \<open>Routing\<close>

lemma last_attempt_Some:
  "last_attempt w eid e = Inr (Some a) \<Longrightarrow> \<exists>r. load (exec_world w) eid e = Inr r \<and> attempts_of r \<noteq> [] \<and> a = last (attempts_of r)"
  by (auto simp: last_attempt_def split: sum.splits if_splits)

lemma spent_card_cases:
  assumes "spent_card w eid sd tenant tick key g c reissue s = (Inr x, s')"
  shows "x = WAIT \<or> (x = REFUSED \<and> (\<exists>code. refusal_recorded (board_world w) sd tick key code (cards s')))
    \<or> (info_status c \<in> set GAVE_UP \<and> resume_phase w eid sd tenant tick key g reissue s = (Inr x, s'))"
  using assms unfolding spent_card_def
  by (auto simp: bind_op_returns on_reads on_cards_iff split: if_splits dest!: refuse_phase_returns)

text \<open>What a route can end in.\<close>

lemma route_attempt_cases:
  assumes "route_attempt w eid sd tenant tick key worker reissue a s = (Inr x, s')"
  shows "(x = PROCEED \<and> s' = s) \<or> x = WAIT
    \<or> (x = REFUSED \<and> (\<exists>code. refusal_recorded (board_world w) sd tick key code (cards s')))
    \<or> (resumable a \<and> (case worker of None \<Rightarrow> True | Some c \<Rightarrow> info_status c \<in> set GAVE_UP)
        \<and> resume_phase w eid sd tenant tick key (int_of (afield a ''generation'')) reissue s = (Inr x, s'))"
  using assms unfolding route_attempt_def
  by (auto simp: bind_op_returns split: option.splits if_splits dest!: spent_card_cases)

lemma route_cases:
  assumes "route_recovery w eid sd tenant tick key worker reissue s = (Inr x, s')"
  shows "(x = PROCEED \<and> s' = s) \<or> x = WAIT
    \<or> (x = REFUSED \<and> (\<exists>code. refusal_recorded (board_world w) sd tick key code (cards s')))
    \<or> (\<exists>a. last_attempt w eid (execs s) = Inr (Some a) \<and> resumable a
        \<and> (case worker of None \<Rightarrow> True | Some c \<Rightarrow> info_status c \<in> set GAVE_UP)
        \<and> resume_phase w eid sd tenant tick key (int_of (afield a ''generation'')) reissue s = (Inr x, s'))"
proof -
  from assms obtain att where "last_attempt w eid (execs s) = Inr att"
    "(case att of None \<Rightarrow> ret PROCEED | Some a \<Rightarrow> route_attempt w eid sd tenant tick key worker reissue a) s = (Inr x, s')"
    by (auto simp: route_recovery_def bind_op_returns on_reads)
  then show ?thesis using route_attempt_cases by (cases att) (simp, fastforce)
qed

text \<open>
  C31: a card is reissued only for an approved attempt whose cards are gone.  When \<^verbatim>\<open>route_recovery\<close>
  answers reissued, the last recorded attempt ended in a terminal failure with confirmed cleanup below
  the limit of generations; when the card of the next generation was created, the tick's approval of
  that attempt was on file; no card of the phase was running, and every one had been seen archived; and
  the current card, if any, had been given up by its worker.
\<close>

theorem reissue_is_approved:
  assumes "route_recovery w eid sd tenant tick key worker reissue s = (Inr REISSUED, s')" and "event_id_ok (fresh_event w)"
  shows "\<exists>r i n cs b s2. load (exec_world w) eid (execs s) = Inr r \<and> attempts_of r \<noteq> [] \<and> n = int (length (attempts_of r)) \<and> n < MAX_GENERATIONS
    \<and> resumable (last (attempts_of r)) \<and> eligible_outcome (last (attempts_of r))
    \<and> read_optional (exec_world w) eid (execs s2) = Inr (Some i) \<and> tick_approved i n
    \<and> phase_cards_in_snapshot (board_world w) tenant tick key (cards s) = (Inr (Some cs), b)
    \<and> list_all (\<lambda>c. card_status c \<noteq> ''running'' \<and> archived_seen (board_world w) tenant (card_id c) (cards s) (cards s2)) cs
    \<and> (case worker of None \<Rightarrow> True | Some c \<Rightarrow> info_status c \<in> set GAVE_UP)
    \<and> reissue (n + 1) s2 = (Inr (), s')"
proof -
  from route_cases [OF assms(1)] obtain a where a: "last_attempt w eid (execs s) = Inr (Some a)" "resumable a"
    and wk: "case worker of None \<Rightarrow> True | Some c \<Rightarrow> info_status c \<in> set GAVE_UP"
    and res: "resume_phase w eid sd tenant tick key (int_of (afield a ''generation'')) reissue s = (Inr REISSUED, s')"
    by (auto simp: outcome_names)
  from resume_returns [OF res] obtain v e b where v: "auto_approve_resume (exec_world w) (git_world w) (fresh_event w) MAX_GENERATIONS ''resume'' True eid (execs s) = (Inr v, e)"
    and "approves v" and ret: "retire_cards (board_world w) tenant tick key (cards s) = (Inr True, b)"
    and re: "reissue (int_of (afield a ''generation'') + 1) (s\<lparr>execs := e, cards := b\<rparr>) = (Inr (), s')"
    by (auto simp: outcome_names)
  from last_attempt_Some [OF a(1)] obtain r where r: "load (exec_world w) eid (execs s) = Inr r" "attempts_of r \<noteq> []" "a = last (attempts_of r)" by blast
  have n: "int_of (afield a ''generation'') = int (length (attempts_of r))"
    using loaded_last_generation [OF r(1,2)] r(3) by simp
  from auto_approve_facts [OF v \<open>approves v\<close> assms(2)] r obtain i where i: "read_optional (exec_world w) eid e = Inr (Some i)"
    "tick_approved i (int (length (attempts_of r)))" "eligible_outcome (last (attempts_of r))" "int (length (attempts_of r)) < MAX_GENERATIONS"
    by auto
  from retire_true [OF ret] obtain cs b1 where cs: "phase_cards_in_snapshot (board_world w) tenant tick key (cards s) = (Inr (Some cs), b1)"
    "list_all (\<lambda>c. card_status c \<noteq> ''running'' \<and> archived_seen (board_world w) tenant (card_id c) (cards s) b) cs" by blast
  show ?thesis
  proof (intro exI conjI)
    show "reissue (int (length (attempts_of r)) + 1) (s\<lparr>execs := e, cards := b\<rparr>) = (Inr (), s')" by (rule re [unfolded n])
    show "list_all (\<lambda>c. card_status c \<noteq> ''running'' \<and> archived_seen (board_world w) tenant (card_id c) (cards s) (cards (s\<lparr>execs := e, cards := b\<rparr>))) cs"
      using cs(2) by simp
  qed (use r i cs a(2) wk in simp_all)
qed

text \<open>
  The answers of \<^verbatim>\<open>route_recovery\<close> are closed and mean what they say: it proceeds without touching
  anything, waits, reissues, or refuses, and then the blocked-validation marker holds the phase key and
  one of the published codes, unless the marker could not be written.
\<close>

theorem route_answers:
  assumes "route_recovery w eid sd tenant tick key worker reissue s = (Inr x, s')"
  shows "(x = PROCEED \<and> s' = s) \<or> x = WAIT \<or> x = REISSUED
    \<or> (x = REFUSED \<and> (\<exists>code. refusal_recorded (board_world w) sd tick key code (cards s')))"
  using route_cases [OF assms] resume_returns by blast

section \<open>A failed attempt and its cards\<close>

definition rt_world :: "nat tick_world" where
  "rt_world = \<lparr>exec_world = ex_world, git_world = pj_git, board_world = ex_maker, fresh_event = rx_event, host_identity = [], process_start = (\<lambda>_. JNull)\<rparr>"

definition rt_state :: "nat tick_state" where "rt_state = \<lparr>execs = rx_store, cards = ex_empty\<rparr>"

definition rt_reissue :: "int \<Rightarrow> (nat tick_state, unit) op" where
  "rt_reissue n = on_cards (bind_op (hermes ex_maker [''hermes'', ''kanban'', ''create'']) (\<lambda>_. ret ()))"

lemma rt_fields: "exec_world rt_world = ex_world" "git_world rt_world = pj_git" "board_world rt_world = ex_maker" "fresh_event rt_world = rx_event"
  by (simp_all add: rt_world_def)

lemma rt_reissued: "rt_reissue n s = (Inr (), s\<lparr>cards := (cards s)\<lparr>remote := Suc (remote (cards s))\<rparr>\<rparr>)"
  by (simp add: rt_reissue_def on_cards_def bind_op_def hermes_def ex_maker_def)

lemma rt_last: "last_attempt rt_world ''run-1'' rx_store = Inr (Some (last (attempts_of rx_record)))"
  using rx_load rx_attempt(1) by (simp add: last_attempt_def rt_world_def rx_fields)

lemma rt_attempt: "str_in (afield (last (attempts_of rx_record)) ''status'') TERMINAL" "resumable (last (attempts_of rx_record))"
  "int_of (afield (last (attempts_of rx_record)) ''generation'') = 1"
  by code_simp+

lemma rt_list: "list_task_snapshot ex_maker ''board'' b = (Inr (Some []), b)"
proof -
  have l: "loads ''[]'' = Some (JList [])" by code_simp
  show ?thesis
    by (simp add: list_task_snapshot_def catch_op_def bind_op_def hermes_def ex_maker_def l validated_task_list_def)
qed

lemma rt_retire: "retire_cards ex_maker ''board'' ''tick'' ''plan'' ex_empty = (Inr True, ex_empty)"
  by (simp add: retire_cards_def phase_cards_in_snapshot_def bind_op_def rt_list)

lemma rt_route: "route_recovery rt_world ''run-1'' ''/s'' ''board'' ''tick'' ''plan'' None rt_reissue rt_state
   = (Inr REISSUED, rt_state\<lparr>execs := rx_after, cards := ex_empty\<lparr>remote := 1\<rparr>\<rparr>)"
proof -
  have t: "truthy (dget rx_verdict ''approved'')" by code_simp
  have "resume_phase rt_world ''run-1'' ''/s'' ''board'' ''tick'' ''plan'' 1 rt_reissue rt_state
      = (Inr REISSUED, rt_state\<lparr>execs := rx_after, cards := ex_empty\<lparr>remote := 1\<rparr>\<rparr>)"
    using t rt_retire rx_approve
    by (simp add: resume_phase_def Let_def bind_op_def then_op_def on_execs_def on_cards_def rt_state_def rt_fields rt_reissued MAX_GENERATIONS_def ex_empty_def)
  then show ?thesis
    using rt_last rt_attempt
    by (simp add: route_recovery_def route_attempt_def bind_op_def on_reads rt_state_def)
qed

theorem reissue_is_approved_witness:
  "\<exists>r i n. load ex_world ''run-1'' rx_store = Inr r \<and> n = int (length (attempts_of r)) \<and> n < MAX_GENERATIONS
     \<and> eligible_outcome (last (attempts_of r)) \<and> tick_approved i n"
proof -
  have "event_id_ok (fresh_event rt_world)" using rx_approves(2) by (simp add: rt_fields)
  from reissue_is_approved [OF rt_route this] show ?thesis by (auto simp: rt_fields rt_state_def)
qed

text \<open>The same attempt with a newer card in triage and no approval to spend.\<close>

definition rt_card :: task_info where
  "rt_card = \<lparr>info_task = ''t_00000009'', info_phase = ''plan'', info_status = ''triage'', info_todo = ''TODO-1'', info_generation = 2\<rparr>"

lemma rt_refuse: "route_recovery rt_world ''run-1'' ''/s'' ''board'' ''tick'' ''plan'' (Some rt_card) rt_reissue (rt_state\<lparr>execs := rx_after\<rparr>)
   = (Inr REFUSED, rt_state\<lparr>execs := rx_after, cards := ex_empty\<lparr>texts := (texts ex_empty)(validation_blocked_marker ''/s'' ''tick'' :=
        Some (blocked_text ''tick'' ''plan'' ''recovery_admission_stalled''))\<rparr>\<rparr>)"
proof -
  have g: "dget (tick_intent rx_preview 0) ''status'' = JStr ''approved''" "dget (dict_of (dget (tick_intent rx_preview 0) ''preview'')) ''generation'' = JInt 1"
    by code_simp+
  have "last_attempt rt_world ''run-1'' rx_after = Inr (Some (last (attempts_of rx_record)))"
    using rx_like_facts(1) [OF rx_like_after(1)] rx_attempt(1) by (simp add: last_attempt_def rt_fields rx_fields)
  moreover have "approved_generation rt_world ''run-1'' rx_after = Inr (JInt 1)"
    by (simp add: approved_generation_def recovery_state_def rt_fields rx_after_intent g dget_Cons)
  moreover have "refuse_phase ex_maker ''/s'' ''tick'' ''plan'' ''recovery_admission_stalled'' ex_empty
      = (Inr REFUSED, ex_empty\<lparr>texts := (texts ex_empty)(validation_blocked_marker ''/s'' ''tick'' := Some (blocked_text ''tick'' ''plan'' ''recovery_admission_stalled''))\<rparr>)"
    by (simp add: refuse_phase_def RECOVERY_LOCAL_CODES_def then_op_def bind_op_def record_validation_blocked_def catch_op_def write_text_def ex_maker_def blocked_text_def)
  ultimately show ?thesis
    using rt_attempt
    by (simp add: route_recovery_def route_attempt_def spent_card_def rt_card_def GAVE_UP_def bind_op_def on_reads on_cards_def rt_state_def rt_fields)
qed

theorem route_answers_witness:
  "\<exists>code. refusal_recorded ex_maker ''/s'' ''tick'' ''plan'' code (ex_empty\<lparr>texts := (texts ex_empty)(validation_blocked_marker ''/s'' ''tick'' :=
        Some (blocked_text ''tick'' ''plan'' ''recovery_admission_stalled''))\<rparr>)"
  using route_answers [OF rt_refuse] by (simp add: outcome_names rt_fields)

end
