(* ===== verification/Regex.thy ===== *)
theory Regex
  imports PyText
begin

text \<open>
  The part of Python's \<^verbatim>\<open>re\<close> the modules use: backtracking matchers that list the ends of their matches
  in the order the engine tries them, with \<^verbatim>\<open>fullmatch\<close>, \<^verbatim>\<open>search\<close> and \<^verbatim>\<open>sub\<close>.

  A position is the text before it, last character first, and the text from it on.
\<close>

section \<open>Patterns\<close>

type_synonym pos = "string \<times> string"

datatype rx =
    Eps
  | Cls "char \<Rightarrow> bool"
  | Run nat "nat option" "char \<Rightarrow> bool"   \<comment> \<open>a class repeated between bounds, longest first\<close>
  | LazyRun "char \<Rightarrow> bool"                \<comment> \<open>\<^verbatim>\<open>*?\<close> of a class, shortest first\<close>
  | Cat rx rx
  | Or rx rx
  | Ahead rx
  | Behind string
  | WordEdge
  | LineStart                            \<comment> \<open>\<^verbatim>\<open>^\<close> and \<^verbatim>\<open>$\<close> under \<^verbatim>\<open>re.MULTILINE\<close>\<close>
  | LineEnd
  | TextEnd                              \<comment> \<open>\<^verbatim>\<open>$\<close> without the flag\<close>

definition Opt :: "rx \<Rightarrow> rx" where "Opt r = Or r Eps"

fun cat :: "rx list \<Rightarrow> rx" where
  "cat [] = Eps" | "cat [r] = r" | "cat (r # rs) = Cat r (cat rs)"

fun alts :: "rx list \<Rightarrow> rx" where
  "alts [] = Cls (\<lambda>_. False)" | "alts [r] = r" | "alts (r # rs) = Or r (alts rs)"

text \<open>\<^verbatim>\<open>\w\<close> on code points below 256: letters, numbers and the underscore.\<close>

definition word_char :: "char \<Rightarrow> bool" where
  "word_char c \<longleftrightarrow> alnum c \<or> c = CHR ''_'' \<or> (let n = of_char c :: nat in
     n \<in> {170, 178, 179, 181, 185, 186, 188, 189, 190} \<or> (192 \<le> n \<and> n \<noteq> 215 \<and> n \<noteq> 247))"

definition is_word_at :: "string \<Rightarrow> bool" where
  "is_word_at s \<longleftrightarrow> (case s of [] \<Rightarrow> False | c # _ \<Rightarrow> word_char c)"

text \<open>Text matched as it stands, and under \<^verbatim>\<open>(?i)\<close>, where it is written in lower case.\<close>

definition lit :: "string \<Rightarrow> rx" where "lit s = cat (map (\<lambda>c. Cls (\<lambda>d. d = c)) s)"
definition ci :: "string \<Rightarrow> rx" where "ci s = cat (map (\<lambda>c. Cls (\<lambda>d. to_lower d = c)) s)"

section \<open>Matching\<close>

definition advance :: "nat \<Rightarrow> pos \<Rightarrow> pos" where
  "advance k p = (rev (take k (snd p)) @ fst p, drop k (snd p))"

definition run_length :: "nat option \<Rightarrow> (char \<Rightarrow> bool) \<Rightarrow> string \<Rightarrow> nat" where
  "run_length hi f s = (let k = length (takeWhile f s) in case hi of None \<Rightarrow> k | Some h \<Rightarrow> min k h)"

primrec ends :: "rx \<Rightarrow> pos \<Rightarrow> pos list" where
  "ends Eps p = [p]"
| "ends (Cls f) p = (case snd p of [] \<Rightarrow> [] | c # cs \<Rightarrow> if f c then [(c # fst p, cs)] else [])"
| "ends (Run lo hi f) p = map (\<lambda>k. advance k p) (rev [lo ..< Suc (run_length hi f (snd p))])"
| "ends (LazyRun f) p = map (\<lambda>k. advance k p) [0 ..< Suc (run_length None f (snd p))]"
| "ends (Cat r s) p = concat (map (ends s) (ends r p))"
| "ends (Or r s) p = ends r p @ ends s p"
| "ends (Ahead r) p = (if ends r p \<noteq> [] then [p] else [])"
| "ends (Behind t) p = (if startswith (fst p) (rev t) then [p] else [])"
| "ends WordEdge p = (if is_word_at (fst p) \<noteq> is_word_at (snd p) then [p] else [])"
| "ends LineStart p = (if fst p = [] \<or> hd (fst p) = newline then [p] else [])"
| "ends LineEnd p = (if snd p = [] \<or> hd (snd p) = newline then [p] else [])"
| "ends TextEnd p = (if snd p = [] \<or> snd p = [newline] then [p] else [])"

definition fullmatch :: "rx \<Rightarrow> string \<Rightarrow> bool" where
  "fullmatch r s \<longleftrightarrow> list_ex (\<lambda>p. snd p = []) (ends r ([], s))"

text \<open>\<^verbatim>\<open>re.match\<close>: at the start of the text.\<close>

definition matches :: "rx \<Rightarrow> string \<Rightarrow> bool" where "matches r s \<longleftrightarrow> ends r ([], s) \<noteq> []"

fun search_from :: "rx \<Rightarrow> string \<Rightarrow> string \<Rightarrow> bool" where
  "search_from r b [] = (ends r (b, []) \<noteq> [])"
| "search_from r b (c # cs) = (ends r (b, c # cs) \<noteq> [] \<or> search_from r (c # b) cs)"

definition search :: "rx \<Rightarrow> string \<Rightarrow> bool" where "search r s = search_from r [] s"

text \<open>
  \<^verbatim>\<open>re.sub\<close> for a pattern that matches no empty text: the first match at the leftmost position is
  replaced, and the scan goes on behind it.
\<close>

function sub_from :: "rx \<Rightarrow> string \<Rightarrow> string \<Rightarrow> string \<Rightarrow> string" where
  "sub_from r new b s = (case s of [] \<Rightarrow> []
     | c # cs \<Rightarrow> (case ends r (b, s) of
           p # _ \<Rightarrow> if length (snd p) < length s then new @ sub_from r new (fst p) (snd p) else c # sub_from r new (c # b) cs
         | [] \<Rightarrow> c # sub_from r new (c # b) cs))"
  by pat_completeness auto
termination
  by (relation "measure (\<lambda>(r, new, b, s). length s)") auto

declare sub_from.simps [simp del]

definition sub :: "rx \<Rightarrow> string \<Rightarrow> string \<Rightarrow> string" where "sub r new s = sub_from r new [] s"

section \<open>Positions only move forward\<close>

definition text_at :: "pos \<Rightarrow> string" where "text_at p = rev (fst p) @ snd p"

lemma advance_text: "text_at (advance k p) = text_at p"
  by (simp add: advance_def text_at_def)

lemma advance_length: "length (snd (advance k p)) \<le> length (snd p)"
  by (simp add: advance_def)

lemma ends_text: "q \<in> set (ends r p) \<Longrightarrow> text_at q = text_at p \<and> length (snd q) \<le> length (snd p)"
proof (induction r arbitrary: p q)
  case (Cat r s)
  from Cat.prems obtain p1 where "p1 \<in> set (ends r p)" "q \<in> set (ends s p1)" by auto
  with Cat.IH(1) [of p1 p] Cat.IH(2) [of q p1] show ?case by auto
qed (auto simp: advance_def text_at_def split: list.splits if_splits)

text \<open>A substitution that writes no character of a class, over text without one, leaves none.\<close>

lemma sub_from_all: "list_all f s \<Longrightarrow> list_all f new \<Longrightarrow> list_all f (sub_from r new b s)"
proof (induction r new b s rule: sub_from.induct)
  case (1 r new b s)
  show ?case
  proof (cases s)
    case (Cons c cs)
    show ?thesis
    proof (cases "ends r (b, s)")
      case Nil
      then show ?thesis using 1 Cons by (subst sub_from.simps) simp
    next
      case e: (Cons p ps)
      show ?thesis
      proof (cases "length (snd p) < length s")
        case True
        have "text_at p = text_at (b, s)" "length (snd p) \<le> length s" using ends_text [of p r "(b, s)"] e by auto
        then have le: "length b \<le> length (fst p)" and "snd p = drop (length (fst p)) (rev b @ s)"
          by (auto simp: text_at_def dest: arg_cong [of _ _ length] arg_cong [of _ _ "drop (length (fst p))"])
        then have "snd p = drop (length (fst p) - length b) s" by simp
        then have "list_all f (snd p)" using 1(4) by (auto simp: list_all_iff dest: in_set_dropD)
        then show ?thesis using 1 Cons e True by (subst sub_from.simps) simp
      next
        case False
        then show ?thesis using 1 Cons e by (subst sub_from.simps) simp
      qed
    qed
  qed (simp add: sub_from.simps)
qed

end
