(* ===== verification/ResultContract.thy ===== *)
theory ResultContract
  imports Regex JsonText
begin

text \<open>
  \<^verbatim>\<open>hermes_pipeline/result_contract.py\<close>, the worker's report: the screening of its text for credentials
  and control characters, the strict parser of \<^verbatim>\<open>metadata.tpo_result\<close>, and the template a card publishes.
\<close>

section \<open>Constants\<close>

definition MAX_METADATA_BYTES :: nat where "MAX_METADATA_BYTES = 65536"
definition MAX_COMMAND_LENGTH :: nat where "MAX_COMMAND_LENGTH = 500"
definition RESULT_SCHEMA_VERSION :: int where "RESULT_SCHEMA_VERSION = 1"

definition TOP_KEYS :: "string list" where
  "TOP_KEYS = [''schema_version'', ''tick_id'', ''todo_id'', ''step_key'', ''verdict'', ''git'', ''acceptance'']"

definition OPTIONAL_TOP_KEYS :: "string list" where "OPTIONAL_TOP_KEYS = [''delivery'', ''review'']"
definition RENDERABLE_SECTIONS :: "string list" where "RENDERABLE_SECTIONS = [''delivery'']"

definition GIT_KEYS :: "string list" where
  "GIT_KEYS = [''expected_parent_sha'', ''resulting_head_sha'', ''task_commit_sha'', ''changed_files'']"

definition COMMAND_KEYS :: "string list" where "COMMAND_KEYS = [''command'', ''exit_code'']"
definition ACCEPTANCE_ENTRY_KEYS :: "string list" where "ACCEPTANCE_ENTRY_KEYS = [''criterion'', ''status'']"
definition DELIVERY_KEYS :: "string list" where "DELIVERY_KEYS = [''pr_url'', ''branch'', ''head_sha'', ''checks'']"
definition RESULT_TEMPLATE_HEADING :: string where "RESULT_TEMPLATE_HEADING = ''Required result metadata:''"

definition sha_ok :: "string \<Rightarrow> bool" where "sha_ok = hex_of_length 40"

section \<open>Text screening\<close>

definition placeholder :: "string \<Rightarrow> bool" where
  "placeholder s \<longleftrightarrow> 2 \<le> length s \<and> hd s = CHR ''<'' \<and> last s = CHR ''>'' \<and> list_all (\<lambda>c. c \<notin> set ''<>'') (butlast (tl s))"

definition break_char :: "char \<Rightarrow> bool" where "break_char c \<longleftrightarrow> c \<in> {CHR 0x0A, CHR 0x0D, CHR 0x09}"

definition not_space :: "char \<Rightarrow> bool" where "not_space c \<longleftrightarrow> \<not> is_space c"

definition token_char :: "string \<Rightarrow> char \<Rightarrow> bool" where "token_char extra c \<longleftrightarrow> alnum c \<or> c \<in> set extra"

text \<open>\<^verbatim>\<open>SECRET_RE\<close>, one alternative after the other; all but the vendor key ignore case.\<close>

definition space_run :: "nat \<Rightarrow> rx" where "space_run lo = Run lo None is_space"

definition dash_word :: "string \<Rightarrow> string \<Rightarrow> rx" where
  "dash_word a b = cat [ci a, Opt (Cls (\<lambda>c. c \<in> set ''-_'')), ci b]"

definition credential_names :: rx where
  "credential_names = alts [ci ''authorization'', dash_word ''access'' ''token'', dash_word ''refresh'' ''token'', ci ''token'', ci ''password'',
     ci ''passwd'', ci ''secret'', ci ''credential'', dash_word ''api'' ''key'', dash_word ''access'' ''key'', dash_word ''private'' ''key'']"

definition pem_name :: rx where "pem_name = cat [Run 0 None (\<lambda>c. c \<in> set (lowers @ uppers) \<or> c = CHR '' ''), ci ''private key-----'']"

definition SECRET_RE :: rx where
  "SECRET_RE = alts [
     cat [ci ''gh'', Cls (\<lambda>c. to_lower c \<in> set ''pousr''), lit ''_'', Run 20 None (token_char ''_'')],
     cat [ci ''github_pat_'', Run 20 None (token_char ''_'')],
     cat [credential_names, space_run 0, Cls (\<lambda>c. c \<in> set '':=''), space_run 0, Opt (cat [ci ''bearer'', space_run 1]), Run 1 None not_space],
     cat [ci ''bearer'', space_run 1, Run 8 None (token_char ''._~+/-''), Run 0 (Some 2) (\<lambda>c. c = CHR ''='')],
     cat [Behind ''://'', Run 1 None (\<lambda>c. not_space c \<and> c \<notin> set ''/:@''), lit '':'', Run 1 None (\<lambda>c. not_space c \<and> c \<notin> set ''/@''), Ahead (lit ''@'')],
     cat [ci ''sk-ant-'', Run 16 None (token_char ''_-'')],
     cat [alts [lit ''AKIA'', lit ''ASIA'', lit ''ABIA'', lit ''ACCA''], Run 16 (Some 16) (\<lambda>c. c \<in> set (digits @ uppers))],
     cat [WordEdge, ci ''login'', space_run 1, Run 1 None not_space, space_run 1, ci ''password'', space_run 1, Run 1 None not_space],
     cat [ci ''-----begin '', pem_name, Opt (cat [LazyRun (\<lambda>_. True), ci ''-----end '', pem_name])]]"

definition sanitize_result_text :: "string \<Rightarrow> nat \<Rightarrow> string" where
  "sanitize_result_text value maximum = take maximum (sub SECRET_RE ''[REDACTED]''
     (sub (Run 1 None break_char) '' '' (filter (\<lambda>c. \<not> control_char c) value)))"

definition unsafe_text :: "string \<Rightarrow> bool" where
  "unsafe_text s \<longleftrightarrow> list_ex control_char s \<or> search SECRET_RE s"

fun unsafe :: "json \<Rightarrow> bool" and unsafe_list :: "json list \<Rightarrow> bool" and unsafe_items :: "dict \<Rightarrow> bool" where
  "unsafe (JStr s) = unsafe_text s"
| "unsafe (JObj d) = unsafe_items d"
| "unsafe (JList xs) = unsafe_list xs"
| "unsafe _ = False"
| "unsafe_list [] = False"
| "unsafe_list (x # xs) = (unsafe x \<or> unsafe_list xs)"
| "unsafe_items [] = False"
| "unsafe_items (kv # d) = (unsafe_text (fst kv) \<or> unsafe (snd kv) \<or> unsafe_items d)"

definition reject_unsafe_strings :: "json \<Rightarrow> unit res" where
  "reject_unsafe_strings v = raise_if (unsafe v) (ResultContractError ''unsafe_metadata'')"

section \<open>Field checks\<close>

definition as_mapping :: "json \<Rightarrow> string \<Rightarrow> dict res" where
  "as_mapping v code = (case v of JObj d \<Rightarrow> Inr d | _ \<Rightarrow> Inl (ResultContractError code))"

definition exact_keys :: "dict \<Rightarrow> string list \<Rightarrow> string \<Rightarrow> unit res" where
  "exact_keys d keys code = raise_if (\<not> keys_are d keys) (ResultContractError code)"

definition bounded_string :: "json \<Rightarrow> nat \<Rightarrow> string \<Rightarrow> string res" where
  "bounded_string v maximum code = (case v of
     JStr s \<Rightarrow> rbind (run_checks [
         raise_if (maximum < length s) (ResultContractError ''size_limit''),
         raise_if (s = []) (ResultContractError code),
         raise_if (unsafe_text s) (ResultContractError ''unsafe_metadata''),
         raise_if (placeholder s) (ResultContractError code)]) (\<lambda>_. Inr s)
   | _ \<Rightarrow> Inl (ResultContractError code))"

record command_result =
  cmd_text :: string
  cmd_exit :: int

definition parse_command :: "json \<Rightarrow> command_result res" where
  "parse_command v = rbind (as_mapping v ''invalid_command'') (\<lambda>item.
     rbind (exact_keys item COMMAND_KEYS ''invalid_command'') (\<lambda>_.
     rbind (bounded_string (dget item ''command'') MAX_COMMAND_LENGTH ''invalid_command'') (\<lambda>command.
     case dget item ''exit_code'' of JInt n \<Rightarrow> Inr \<lparr>cmd_text = command, cmd_exit = n\<rparr> | _ \<Rightarrow> Inl (ResultContractError ''invalid_command''))))"

text \<open>
  The runs that succeeded.  A status or outcome is looked up in a set, so that a list or an object there
  raises \<^verbatim>\<open>TypeError\<close>.
\<close>

definition SUCCESS_WORDS :: "string list" where "SUCCESS_WORDS = [''success'', ''succeeded'', ''completed'', ''done'']"

definition run_succeeded :: "dict \<Rightarrow> bool res" where
  "run_succeeded run = (let status = dget run ''status''; outcome = dget run ''outcome'' in
     if \<not> hashable status then Inl TypeErr
     else if str_in status SUCCESS_WORDS then Inr True
     else if \<not> hashable outcome then Inl TypeErr
     else Inr (str_in outcome SUCCESS_WORDS \<or> (status = JNull \<and> py_eq (dget run ''exit_code'') (JInt 0))))"

fun runs_succeeded :: "json list \<Rightarrow> dict list res" where
  "runs_succeeded [] = Inr []"
| "runs_succeeded (JObj run # runs) = rbind (run_succeeded run) (\<lambda>ok. rbind (runs_succeeded runs) (\<lambda>rs. Inr (if ok then run # rs else rs)))"
| "runs_succeeded (_ # runs) = runs_succeeded runs"

definition successful_runs :: "dict \<Rightarrow> dict list res" where
  "successful_runs payload = (case dget payload ''runs'' of
     JList runs \<Rightarrow> rbind (runs_succeeded runs) (\<lambda>ok. if ok = [] then Inl (ResultContractError ''missing_successful_run'') else Inr ok)
   | _ \<Rightarrow> Inl (ResultContractError ''malformed_payload''))"

section \<open>The report\<close>

record git_result =
  expected_parent_sha :: string
  resulting_head_sha :: string
  task_commit_sha :: string
  changed_files :: "string list"

record delivery_evidence =
  pr_url :: string
  delivery_branch :: string
  delivery_head :: string
  delivery_checks :: "command_result list"

record worker_result =
  result_tick :: string
  result_todo :: string
  result_step :: string
  result_git :: git_result
  result_delivery :: "delivery_evidence option"

text \<open>\<^verbatim>\<open>len(json.dumps(value, ensure_ascii=False, separators=(",", ":")).encode())\<close>\<close>

definition too_large :: "dict \<Rightarrow> bool" where
  "too_large d \<longleftrightarrow> MAX_METADATA_BYTES < utf8_length (dumps utf8_style (JObj d))"

definition path_segments :: "string \<Rightarrow> string list" where
  "path_segments p = filter (\<lambda>x. x \<noteq> [] \<and> x \<noteq> ''.'') (split_on (CHR ''/'') p)"

definition file_ok :: "json \<Rightarrow> bool" where
  "file_ok v \<longleftrightarrow> is_str v \<and> str_of v \<noteq> [] \<and> length (str_of v) \<le> 500 \<and> \<not> placeholder (str_of v)
     \<and> \<not> startswith (str_of v) ''/'' \<and> ''..'' \<notin> set (path_segments (str_of v)) \<and> backslash \<notin> set (str_of v)"

definition parse_files :: "bool \<Rightarrow> json \<Rightarrow> string list res" where
  "parse_files allow_no_changes v = (let bad = ResultContractError ''invalid_git''; files = items v in
     rbind (run_checks [
       raise_if (\<not> is_list v \<or> (files = [] \<and> \<not> allow_no_changes)) bad,
       raise_if (\<not> list_all hashable files) TypeErr,
       raise_if (\<not> distinct files) bad,
       raise_if (\<not> list_all file_ok files) bad]) (\<lambda>_. Inr (map str_of files)))"

definition parse_git :: "bool \<Rightarrow> json \<Rightarrow> git_result res" where
  "parse_git allow_no_changes v = rbind (as_mapping v ''invalid_git'') (\<lambda>git.
     (let shas = map (dget git) [''expected_parent_sha'', ''resulting_head_sha'', ''task_commit_sha''] in
      rbind (run_checks [
        exact_keys git GIT_KEYS ''invalid_git'',
        raise_if (\<not> list_all (\<lambda>x. is_str x \<and> sha_ok (str_of x)) shas) (ResultContractError ''invalid_git''),
        raise_if (shas ! 1 \<noteq> shas ! 2) (ResultContractError ''invalid_git'')]) (\<lambda>_.
      rbind (parse_files allow_no_changes (dget git ''changed_files'')) (\<lambda>files.
      Inr \<lparr>expected_parent_sha = str_of (shas ! 0), resulting_head_sha = str_of (shas ! 1), task_commit_sha = str_of (shas ! 2), changed_files = files\<rparr>))))"

definition parse_criterion :: "json \<Rightarrow> string res" where
  "parse_criterion v = rbind (as_mapping v ''invalid_acceptance'') (\<lambda>entry.
     rbind (exact_keys entry ACCEPTANCE_ENTRY_KEYS ''invalid_acceptance'') (\<lambda>_.
     if dget entry ''status'' \<noteq> JStr ''passed'' \<or> \<not> is_str (dget entry ''criterion'') then Inl (ResultContractError ''invalid_acceptance'')
     else Inr (str_of (dget entry ''criterion''))))"

definition parse_acceptance :: "string list \<Rightarrow> json \<Rightarrow> unit res" where
  "parse_acceptance criteria v =
     (if \<not> is_list v \<or> length (items v) \<noteq> length criteria then Inl (ResultContractError ''invalid_acceptance'')
      else rbind (rmap parse_criterion (items v)) (\<lambda>observed. raise_if (observed \<noteq> criteria) (ResultContractError ''invalid_acceptance'')))"

definition pr_url_ok :: "string \<Rightarrow> bool" where
  "pr_url_ok = fullmatch (cat [lit ''https://github.com/'', Run 1 None (token_char ''_.-''), lit ''/'', Run 1 None (token_char ''_.-''),
     lit ''/pull/'', Run 1 None (\<lambda>c. c \<in> set digits)])"

definition validate_delivery :: "json \<Rightarrow> delivery_evidence res" where
  "validate_delivery v = (let bad = ResultContractError ''invalid_delivery'' in
     rbind (as_mapping v ''invalid_delivery'') (\<lambda>d.
     rbind (exact_keys d DELIVERY_KEYS ''invalid_delivery'') (\<lambda>_.
     rbind (bounded_string (dget d ''pr_url'') 1000 ''invalid_delivery'') (\<lambda>url.
     if \<not> pr_url_ok url then Inl bad
     else rbind (bounded_string (dget d ''branch'') 256 ''invalid_delivery'') (\<lambda>branch.
     rbind (run_checks [
       raise_if (\<not> is_str (dget d ''head_sha'') \<or> \<not> sha_ok (str_of (dget d ''head_sha''))) bad,
       raise_if (\<not> is_list (dget d ''checks'') \<or> items (dget d ''checks'') = [] \<or> 50 < length (items (dget d ''checks''))) bad]) (\<lambda>_.
     rbind (rmap parse_command (items (dget d ''checks''))) (\<lambda>checks.
     if list_ex (\<lambda>c. cmd_exit c \<noteq> 0) checks then Inl bad
     else Inr \<lparr>pr_url = url, delivery_branch = branch, delivery_head = str_of (dget d ''head_sha''), delivery_checks = checks\<rparr>)))))))"

definition parse_report :: "string \<Rightarrow> string \<Rightarrow> string \<Rightarrow> string list \<Rightarrow> bool \<Rightarrow> dict \<Rightarrow> worker_result res" where
  "parse_report tick_id todo_id step_key criteria allow_no_changes raw = rbind (run_checks [
       raise_if (too_large raw) (ResultContractError ''size_limit''),
       reject_unsafe_strings (JObj (filter (\<lambda>kv. fst kv \<notin> {''acceptance'', ''review''}) raw)),
       raise_if (\<not> (set TOP_KEYS \<subseteq> fst ` set raw \<and> fst ` set raw \<subseteq> set (TOP_KEYS @ OPTIONAL_TOP_KEYS))) (ResultContractError ''malformed_result''),
       raise_if (\<not> py_eq (dget raw ''schema_version'') (JInt RESULT_SCHEMA_VERSION) \<or> dget raw ''verdict'' \<noteq> JStr ''success'') (ResultContractError ''invalid_verdict''),
       raise_if (\<not> (dget raw ''tick_id'' = JStr tick_id \<and> dget raw ''todo_id'' = JStr todo_id \<and> dget raw ''step_key'' = JStr step_key)) (ResultContractError ''identity_mismatch'')]) (\<lambda>_.
     rbind (parse_git allow_no_changes (dget raw ''git'')) (\<lambda>git.
     rbind (parse_acceptance criteria (dget raw ''acceptance'')) (\<lambda>_.
     rbind (if has_key raw ''delivery'' then rbind (validate_delivery (dget raw ''delivery'')) (\<lambda>d. Inr (Some d)) else Inr None) (\<lambda>delivery.
     Inr \<lparr>result_tick = tick_id, result_todo = todo_id, result_step = step_key, result_git = git, result_delivery = delivery\<rparr>))))"

definition parse_worker_result :: "json \<Rightarrow> string \<Rightarrow> string \<Rightarrow> string \<Rightarrow> string list \<Rightarrow> bool \<Rightarrow> worker_result res" where
  "parse_worker_result payload tick_id todo_id step_key criteria allow_no_changes =
     rbind (as_mapping payload ''malformed_payload'') (\<lambda>envelope.
     rbind (successful_runs envelope) (\<lambda>runs.
     rbind (as_mapping (dget (last runs) ''metadata'') ''missing_result'') (\<lambda>metadata.
     rbind (raise_if (too_large metadata) (ResultContractError ''size_limit'')) (\<lambda>_.
     rbind (as_mapping (dget metadata ''tpo_result'') ''missing_result'') (\<lambda>raw.
     parse_report tick_id todo_id step_key criteria allow_no_changes raw)))))"

end
