(* ===== verification/ResultGit.thy ===== *)
theory ResultGit
  imports ResultContract
begin

text \<open>
  \<^verbatim>\<open>hermes_pipeline/result_contract.py\<close>, the template a card publishes and the Git checks of a reported
  result.

  Git is a parameter: a query takes the working directory and the arguments and returns the exit code
  and the decoded output, or raises (\<open>SubprocessErr\<close> is \<^verbatim>\<open>subprocess.TimeoutExpired\<close>).
\<close>

section \<open>The template\<close>

text \<open>\<^verbatim>\<open>json.dumps(value, indent=2, ensure_ascii=...)\<close>; of the style only \<^const>\<open>ascii\<close> matters.\<close>

definition indent :: "nat \<Rightarrow> string" where "indent n = newline # replicate (2 * n) (CHR '' '')"

fun dumps_indent :: "json_style \<Rightarrow> nat \<Rightarrow> json \<Rightarrow> string"
  and indent_list :: "json_style \<Rightarrow> nat \<Rightarrow> json list \<Rightarrow> string list"
  and indent_items :: "json_style \<Rightarrow> nat \<Rightarrow> dict \<Rightarrow> string list" where
  "dumps_indent st n (JList xs) = (if xs = [] then ''[]'' else ''['' @ indent (Suc n) @ join ('','' @ indent (Suc n)) (indent_list st (Suc n) xs) @ indent n @ '']'')"
| "dumps_indent st n (JObj d) = (if d = [] then ''{}'' else ''{'' @ indent (Suc n) @ join ('','' @ indent (Suc n)) (indent_items st (Suc n) d) @ indent n @ ''}'')"
| "dumps_indent st n v = dumps st v"
| "indent_list st n [] = []"
| "indent_list st n (x # xs) = dumps_indent st n x # indent_list st n xs"
| "indent_items st n [] = []"
| "indent_items st n (kv # d) = (quote (ascii st) (fst kv) @ '': '' @ dumps_indent st n (snd kv)) # indent_items st n d"

definition require_keys :: "dict \<Rightarrow> string list \<Rightarrow> dict res" where
  "require_keys d keys = (if \<not> keys_are d keys then Inl (ResultContractError ''template_out_of_date'') else Inr d)"

definition template_git :: "bool \<Rightarrow> dict res" where
  "template_git allow_no_changes = require_keys
     [(''expected_parent_sha'', JStr ''<40-hex SHA of HEAD before the task commit>''),
      (''resulting_head_sha'', JStr ''<40-hex SHA of HEAD after the task commit>''),
      (''task_commit_sha'', JStr ''<40-hex SHA of the task commit; same as resulting_head_sha>''),
      (''changed_files'', JList [JStr (if allow_no_changes
         then ''<repo-relative path the commit changed, or drop this entry entirely if no commit was made>''
         else ''<repo-relative path the task commit changed>'')])] GIT_KEYS"

definition template_command :: "string \<Rightarrow> int \<Rightarrow> dict res" where
  "template_command description exit_code = require_keys
     [(''command'', JStr (''<'' @ description @ ''>'')), (''exit_code'', JInt exit_code)] COMMAND_KEYS"

definition template_delivery :: "string \<Rightarrow> dict res" where
  "template_delivery branch = rbind (template_command ''required repository gate the client ran'' 0) (\<lambda>gate. require_keys
     [(''pr_url'', JStr ''<URL of the pull request the external client opened>''), (''branch'', JStr branch),
      (''head_sha'', JStr ''<40-hex SHA the branch was pushed at; same as resulting_head_sha>''), (''checks'', JList [JObj gate])] DELIVERY_KEYS)"

definition template_acceptance :: "string list \<Rightarrow> json list res" where
  "template_acceptance criteria = rmap (\<lambda>c. rbind (require_keys [(''criterion'', JStr c), (''status'', JStr ''passed'')] ACCEPTANCE_ENTRY_KEYS)
     (\<lambda>d. Inr (JObj d))) criteria"

definition published_template :: "string \<Rightarrow> string \<Rightarrow> string \<Rightarrow> string list \<Rightarrow> string option \<Rightarrow> string option \<Rightarrow> bool \<Rightarrow> dict res" where
  "published_template tick_id todo_id step_key criteria section_name branch allow_no_changes =
     rbind (run_checks [
       raise_if (case section_name of None \<Rightarrow> False | Some s \<Rightarrow> s \<notin> set RENDERABLE_SECTIONS) (ResultContractError ''unknown_result_section''),
       raise_if (section_name = Some ''delivery'' \<and> branch = None) (ResultContractError ''incomplete_result_section'')]) (\<lambda>_.
     rbind (template_git allow_no_changes) (\<lambda>git.
     rbind (template_acceptance criteria) (\<lambda>acceptance.
     rbind (require_keys [(''schema_version'', JInt RESULT_SCHEMA_VERSION), (''tick_id'', JStr tick_id), (''todo_id'', JStr todo_id),
       (''step_key'', JStr step_key), (''verdict'', JStr ''success''), (''git'', JObj git), (''acceptance'', JList acceptance)] TOP_KEYS) (\<lambda>t.
     if section_name = Some ''delivery'' then rbind (template_delivery (the branch)) (\<lambda>d. Inr (dput ''delivery'' (JObj d) t)) else Inr t))))"

definition render_result_template :: "string \<Rightarrow> string \<Rightarrow> string \<Rightarrow> string list \<Rightarrow> string option \<Rightarrow> string option \<Rightarrow> bool \<Rightarrow> string res" where
  "render_result_template tick_id todo_id step_key criteria section_name branch allow_no_changes =
     rbind (published_template tick_id todo_id step_key criteria section_name branch allow_no_changes) (\<lambda>t. Inr (join [newline] ([
       RESULT_TEMPLATE_HEADING,
       ''Close this card with metadata.tpo_result set to exactly this object, replacing every <...> placeholder with the real value. Add no other keys, drop none, and keep the pre-filled values verbatim.'',
       ''```json'', dumps_indent utf8_style 0 (JObj t), ''```'']
       @ (if section_name = Some ''delivery'' then [''checks lists every required gate the external client reported running, not just one, each with its exact command and real exit code -- replace the pre-filled 0 if a gate exited non-zero, and expect the card to be rejected, because delivery requires every gate to pass.''] else [])
       @ [''changed_files lists every repo-relative path in the commit that was made, deduplicated, exactly as the repository records it -- and is [] only when no commit was made''
          @ (if allow_no_changes then ''.'' else '', which this card does not permit: it must name the task commit's paths and must not be empty.'')]) @ [newline]))"

section \<open>Git queries\<close>

type_synonym git_query = "string \<Rightarrow> string list \<Rightarrow> (int \<times> string) res"

definition failed_query :: exn where "failed_query = ResultContractError ''git_verification_failed''"

definition query :: "git_query \<Rightarrow> bool \<Rightarrow> string \<Rightarrow> string list \<Rightarrow> (int \<times> string) res" where
  "query g text_mode cwd args = (case g cwd args of
       Inr r \<Rightarrow> Inr r
     | Inl e \<Rightarrow> if is_os_error e \<or> e = SubprocessErr \<or> (text_mode \<and> e = ValueErr ''unicode'') then Inl failed_query else Inl e)"

definition git_out :: "git_query \<Rightarrow> string \<Rightarrow> string list \<Rightarrow> string res" where
  "git_out g cwd args = rbind (query g True cwd args) (\<lambda>r. if fst r \<noteq> 0 then Inl failed_query else Inr (strip (snd r)))"

definition git_predicate :: "git_query \<Rightarrow> string \<Rightarrow> string list \<Rightarrow> bool res" where
  "git_predicate g cwd args = rbind (query g True cwd args) (\<lambda>r. if fst r \<notin> {0, 1} then Inl failed_query else Inr (fst r = 0))"

definition git_raw :: "git_query \<Rightarrow> string \<Rightarrow> string list \<Rightarrow> string res" where
  "git_raw g cwd args = rbind (query g False cwd args) (\<lambda>r. if fst r \<noteq> 0 then Inl failed_query else Inr (snd r))"

fun insert_str :: "string \<Rightarrow> string list \<Rightarrow> string list" where
  "insert_str x [] = [x]"
| "insert_str x (y # ys) = (if str_le x y then x # y # ys else y # insert_str x ys)"

definition sort_strs :: "string list \<Rightarrow> string list" where "sort_strs xs = foldr insert_str xs []"

definition real_changed_paths :: "git_query \<Rightarrow> string \<Rightarrow> string \<Rightarrow> string \<Rightarrow> string list res" where
  "real_changed_paths g cwd first second = rbind (git_raw g cwd [''-c'', ''core.quotePath=false'', ''diff'', ''--name-only'', ''-z'', first, second]) (\<lambda>raw.
     Inr (sort_strs (filter (\<lambda>n. n \<noteq> []) (split_on (CHR 0x00) raw))))"

definition require_real_commits :: "git_query \<Rightarrow> string \<Rightarrow> string list \<Rightarrow> unit res" where
  "require_real_commits g cwd shas = for_each (\<lambda>sha. rbind (git_predicate g cwd [''rev-parse'', ''--verify'', ''--quiet'', sha @ ''^{commit}''])
     (\<lambda>ok. raise_if (\<not> ok) (ResultContractError ''unknown_commit''))) (rev (remdups (rev shas)))"

definition on_first_parent_mainline :: "git_query \<Rightarrow> string \<Rightarrow> string \<Rightarrow> string \<Rightarrow> bool res" where
  "on_first_parent_mainline g cwd anchor commit = (if commit = anchor then Inr True
     else rbind (git_out g cwd [''rev-list'', ''--first-parent'', anchor @ ''..HEAD'']) (\<lambda>out. Inr (commit \<noteq> [] \<and> commit \<in> set (splitlines out))))"

definition code_if :: "bool \<Rightarrow> string \<Rightarrow> unit res" where "code_if b code = raise_if b (ResultContractError code)"

section \<open>Verification\<close>

definition verify_worker_git_topology :: "git_query \<Rightarrow> string \<Rightarrow> git_result \<Rightarrow> string \<Rightarrow> int \<Rightarrow> unit res" where
  "verify_worker_git_topology g worktree git parent n =
     rbind (code_if (expected_parent_sha git \<noteq> parent) ''parent_mismatch'') (\<lambda>_.
     rbind (code_if (resulting_head_sha git \<noteq> task_commit_sha git) ''head_mismatch'') (\<lambda>_.
     rbind (require_real_commits g worktree [resulting_head_sha git, task_commit_sha git]) (\<lambda>_.
     rbind (git_out g worktree [''rev-list'', ''--count'', parent @ ''..'' @ resulting_head_sha git]) (\<lambda>count.
     rbind (code_if (count \<noteq> dec_int n) ''commit_count_mismatch'') (\<lambda>_.
     rbind (git_out g worktree [''rev-parse'', task_commit_sha git @ ''~'' @ dec_int n]) (\<lambda>p.
     rbind (code_if (p \<noteq> parent) ''parent_mismatch'') (\<lambda>_.
     rbind (real_changed_paths g worktree parent (resulting_head_sha git)) (\<lambda>changed.
     rbind (code_if (changed \<noteq> sort_strs (changed_files git)) ''changed_files_mismatch'') (\<lambda>_.
     rbind (on_first_parent_mainline g worktree parent (resulting_head_sha git)) (\<lambda>ok.
     code_if (\<not> ok) ''unreachable_commit''))))))))))"

definition status_args :: "string list" where
  "status_args = [''status'', ''--porcelain=v1'', ''--untracked-files=all'', ''-z'']"

definition verify_worker_git_result :: "git_query \<Rightarrow> string \<Rightarrow> git_result \<Rightarrow> string \<Rightarrow> int \<Rightarrow> unit res" where
  "verify_worker_git_result g worktree git parent n =
     rbind (verify_worker_git_topology g worktree git parent n) (\<lambda>_.
     rbind (git_raw g worktree status_args) (\<lambda>status.
     rbind (code_if (status \<noteq> []) ''worktree_dirty'') (\<lambda>_.
     rbind (git_out g worktree [''rev-parse'', ''HEAD'']) (\<lambda>head.
     code_if (head \<noteq> resulting_head_sha git) ''head_mismatch''))))"

definition single_commit :: "git_query \<Rightarrow> string \<Rightarrow> git_result \<Rightarrow> string \<Rightarrow> string \<Rightarrow> unit res" where
  "single_commit g worktree git parent count =
     (if count = ''0'' then code_if (resulting_head_sha git \<noteq> parent \<or> changed_files git \<noteq> []) ''changed_files_mismatch''
      else rbind (git_out g worktree [''rev-parse'', task_commit_sha git @ ''^'']) (\<lambda>p.
        rbind (code_if (p \<noteq> parent) ''parent_mismatch'') (\<lambda>_.
        rbind (real_changed_paths g worktree parent (resulting_head_sha git)) (\<lambda>changed.
        code_if (changed \<noteq> sort_strs (changed_files git)) ''changed_files_mismatch''))))"

definition verify_optional_single_commit :: "git_query \<Rightarrow> string \<Rightarrow> git_result \<Rightarrow> string \<Rightarrow> bool \<Rightarrow> unit res" where
  "verify_optional_single_commit g worktree git parent require_current =
     rbind (code_if (expected_parent_sha git \<noteq> parent) ''parent_mismatch'') (\<lambda>_.
     rbind (require_real_commits g worktree [resulting_head_sha git, task_commit_sha git]) (\<lambda>_.
     rbind (git_predicate g worktree [''merge-base'', ''--is-ancestor'', parent, resulting_head_sha git]) (\<lambda>anc.
     rbind (code_if (\<not> anc) ''parent_mismatch'') (\<lambda>_.
     rbind (git_out g worktree [''rev-list'', ''--count'', parent @ ''..'' @ resulting_head_sha git]) (\<lambda>count.
     rbind (code_if (count \<notin> {''0'', ''1''}) ''commit_count_mismatch'') (\<lambda>_.
     rbind (single_commit g worktree git parent count) (\<lambda>_.
     rbind (on_first_parent_mainline g worktree parent (resulting_head_sha git)) (\<lambda>ok.
     rbind (code_if (\<not> ok) ''unreachable_commit'') (\<lambda>_.
     if \<not> require_current then Inr ()
     else rbind (git_out g worktree [''rev-parse'', ''HEAD'']) (\<lambda>head.
       rbind (code_if (head \<noteq> resulting_head_sha git) ''head_mismatch'') (\<lambda>_.
       rbind (git_raw g worktree status_args) (\<lambda>status. code_if (status \<noteq> []) ''worktree_dirty''))))))))))))"

end
