(* ===== verification/ResultSafety.thy ===== *)
theory ResultSafety
  imports ResultGit
begin

text \<open>
  The properties of the worker's report: what a parsed report guarantees, that the published template is
  the parser's own contract, what the parser raises, the bounds of sanitized text, and the commit
  topology the Git checks prove.
\<close>

section \<open>Safe values\<close>

lemma unsafe_list_member: "\<not> unsafe_list xs \<Longrightarrow> x \<in> set xs \<Longrightarrow> \<not> unsafe x"
  by (induction xs) auto

lemma unsafe_items_get: "\<not> unsafe_items d \<Longrightarrow> \<not> unsafe (dget d k)"
  by (induction d) (auto simp: dget_def)

lemma dget_screened: "k \<noteq> a \<Longrightarrow> k \<noteq> b \<Longrightarrow> dget (filter (\<lambda>kv. fst kv \<noteq> a \<and> fst kv \<noteq> b) d) k = dget d k"
  by (induction d) (auto simp: dget_def)

lemma unsafe_get: "\<not> unsafe v \<Longrightarrow> \<not> unsafe (dget (dict_of v) k)"
  using unsafe_items_get [of "dict_of v"] by (cases v) (auto simp: dget_def [of "[]"])

lemma unsafe_item: "\<not> unsafe v \<Longrightarrow> x \<in> set (items v) \<Longrightarrow> \<not> unsafe x"
  by (cases v) (auto dest: unsafe_list_member)

lemma unsafe_str: "\<not> unsafe v \<Longrightarrow> is_str v \<Longrightarrow> \<not> unsafe_text (str_of v)"
  by (cases v) auto

section \<open>What the parts of the parser guarantee\<close>

lemma as_mapping_Inr: "as_mapping v code = Inr d \<longleftrightarrow> v = JObj d"
  by (cases v) (auto simp: as_mapping_def)

lemma bounded_string_Inr:
  "bounded_string v m code = Inr s \<Longrightarrow> v = JStr s \<and> s \<noteq> [] \<and> length s \<le> m \<and> \<not> unsafe_text s \<and> \<not> placeholder s"
  by (cases v) (auto simp: bounded_string_def rbind_eq_Inr)

lemma parse_command_Inr: "parse_command v = Inr c \<Longrightarrow> \<not> unsafe_text (cmd_text c)"
  by (cases "dget (dict_of v) ''exit_code''") (auto simp: parse_command_def as_mapping_Inr rbind_eq_Inr dest!: bounded_string_Inr)

lemma parse_files_Inr:
  assumes "parse_files allow v = Inr fs"
  shows "v = JList (map JStr fs) \<and> distinct fs \<and> list_all (\<lambda>f. file_ok (JStr f)) fs \<and> (allow \<or> fs \<noteq> [])"
proof -
  from assms obtain xs where v: "v = JList xs" by (cases v) (auto simp: parse_files_def Let_def rbind_eq_Inr)
  with assms have x: "distinct xs" "list_all file_ok xs" "fs = map str_of xs" "allow \<or> xs \<noteq> []"
    by (auto simp: parse_files_def Let_def rbind_eq_Inr)
  then have "map (JStr \<circ> str_of) xs = xs" by (intro map_idI) (auto simp: list_all_iff file_ok_def is_str_iff)
  then have xs: "map JStr fs = xs" using x(3) by simp
  have "distinct (map JStr fs)" "list_all file_ok (map JStr fs)" "allow \<or> map JStr fs \<noteq> []" unfolding xs by (rule x)+
  then show ?thesis unfolding v xs [symmetric] by (simp add: distinct_map list_all_iff)
qed

lemma parse_git_Inr:
  assumes "parse_git allow v = Inr g"
  shows "v = JObj (dict_of v) \<and> sha_ok (expected_parent_sha g) \<and> sha_ok (resulting_head_sha g) \<and> task_commit_sha g = resulting_head_sha g
    \<and> parse_files allow (dget (dict_of v) ''changed_files'') = Inr (changed_files g)"
  using assms by (cases v) (auto simp: parse_git_def as_mapping_def Let_def rbind_eq_Inr is_str_iff)

definition passed_entry :: "json \<Rightarrow> string \<Rightarrow> bool" where
  "passed_entry v c \<longleftrightarrow> is_dict v \<and> keys_are (dict_of v) ACCEPTANCE_ENTRY_KEYS \<and> dget (dict_of v) ''status'' = JStr ''passed''
     \<and> dget (dict_of v) ''criterion'' = JStr c"

lemma parse_criterion_Inr: "parse_criterion v = Inr c \<longleftrightarrow> passed_entry v c"
  by (cases v) (auto simp: parse_criterion_def as_mapping_def exact_keys_def passed_entry_def rbind_eq_Inr is_str_iff)

lemma parse_acceptance_Inr:
  "parse_acceptance criteria v = Inr u \<longleftrightarrow> is_list v \<and> list_all2 passed_entry (items v) criteria"
  by (auto simp: parse_acceptance_def rbind_eq_Inr rmap_Inr parse_criterion_Inr dest: list_all2_lengthD)

lemma validate_delivery_Inr:
  "validate_delivery v = Inr d \<Longrightarrow> pr_url_ok (pr_url d) \<and> sha_ok (delivery_head d) \<and> \<not> unsafe_text (pr_url d) \<and> \<not> unsafe_text (delivery_branch d)
     \<and> delivery_checks d \<noteq> [] \<and> length (delivery_checks d) \<le> 50 \<and> list_all (\<lambda>c. cmd_exit c = 0 \<and> \<not> unsafe_text (cmd_text c)) (delivery_checks d)"
proof -
  assume "validate_delivery v = Inr d"
  then obtain e url branch checks where url: "bounded_string (dget e ''pr_url'') 1000 ''invalid_delivery'' = Inr url" "pr_url_ok url"
    and branch: "bounded_string (dget e ''branch'') 256 ''invalid_delivery'' = Inr branch"
    and head: "sha_ok (str_of (dget e ''head_sha''))"
    and cs: "items (dget e ''checks'') \<noteq> []" "length (items (dget e ''checks'')) \<le> 50" "rmap parse_command (items (dget e ''checks'')) = Inr checks"
      "\<not> list_ex (\<lambda>c. cmd_exit c \<noteq> 0) checks"
    and d: "d = \<lparr>pr_url = url, delivery_branch = branch, delivery_head = str_of (dget e ''head_sha''), delivery_checks = checks\<rparr>"
    by (auto simp: validate_delivery_def Let_def rbind_eq_Inr split: if_splits)
  have all: "list_all2 (\<lambda>x y. parse_command x = Inr y) (items (dget e ''checks'')) checks" using cs(3) by (simp add: rmap_Inr)
  then have "list_all (\<lambda>c. \<not> unsafe_text (cmd_text c)) checks"
    by (induction rule: list_all2_induct) (auto dest: parse_command_Inr)
  then show ?thesis
    using d head url branch cs list_all2_lengthD [OF all] by (auto simp: list_all_iff list_ex_iff dest!: bounded_string_Inr)
qed

lemma parse_report_Inr:
  assumes "parse_report tick todo step criteria allow raw = Inr r"
  shows "result_tick r = tick \<and> result_todo r = todo \<and> result_step r = step
    \<and> \<not> unsafe (dget raw ''git'') \<and> parse_git allow (dget raw ''git'') = Inr (result_git r)
    \<and> parse_acceptance criteria (dget raw ''acceptance'') = Inr ()
    \<and> (case result_delivery r of None \<Rightarrow> True | Some d \<Rightarrow> validate_delivery (dget raw ''delivery'') = Inr d)"
  using assms unsafe_items_get [of "filter (\<lambda>kv. fst kv \<noteq> ''acceptance'' \<and> fst kv \<noteq> ''review'') raw" "''git''"]
    dget_screened [of "''git''" "''acceptance''" "''review''" raw]
  by (auto simp: parse_report_def rbind_eq_Inr reject_unsafe_strings_def split: if_splits)

section \<open>The parsed report\<close>

definition envelope :: "dict \<Rightarrow> json" where
  "envelope raw = JObj [(''runs'', JList [JObj [(''status'', JStr ''done''), (''metadata'', JObj [(''tpo_result'', JObj raw)])]])]"

text \<open>The report of a payload: \<^verbatim>\<open>metadata.tpo_result\<close> of its last successful run.\<close>

definition reported :: "json \<Rightarrow> dict \<Rightarrow> bool" where
  "reported payload raw \<longleftrightarrow> (\<exists>runs. successful_runs (dict_of payload) = Inr runs
     \<and> dget (dict_of (dget (last runs) ''metadata'')) ''tpo_result'' = JObj raw)"

lemma parse_worker_result_Inr:
  "parse_worker_result payload tick todo step criteria allow = Inr r \<Longrightarrow>
     \<exists>raw. reported payload raw \<and> parse_report tick todo step criteria allow raw = Inr r"
  by (fastforce simp: parse_worker_result_def rbind_eq_Inr as_mapping_Inr reported_def)

text \<open>
  The same report said of the payload alone: a run ended well when its status or its outcome says so, or
  when it has no status and left with exit code zero; the report is the one of the last such run.
\<close>

definition ended_well :: "dict \<Rightarrow> bool" where
  "ended_well run \<longleftrightarrow> (\<exists>w. w \<in> {''success'', ''succeeded'', ''completed'', ''done''} \<and> (dget run ''status'' = JStr w \<or> dget run ''outcome'' = JStr w))
     \<or> dget run ''status'' = JNull \<and> py_eq (dget run ''exit_code'') (JInt 0)"

definition last_report :: "json \<Rightarrow> dict \<Rightarrow> bool" where
  "last_report payload raw \<longleftrightarrow> (\<exists>earlier run later. dget (dict_of payload) ''runs'' = JList (earlier @ JObj run # later)
     \<and> ended_well run \<and> (\<forall>d. JObj d \<in> set later \<longrightarrow> \<not> ended_well d)
     \<and> dget (dict_of (dget run ''metadata'')) ''tpo_result'' = JObj raw)"

lemma run_succeeded_Inr: "run_succeeded run = Inr b \<Longrightarrow> b \<longleftrightarrow> ended_well run"
proof -
  assume r: "run_succeeded run = Inr b"
  have w: "str_in v SUCCESS_WORDS \<longleftrightarrow> (\<exists>w. w \<in> {''success'', ''succeeded'', ''completed'', ''done''} \<and> v = JStr w)" for v
    by (cases v) (auto simp: SUCCESS_WORDS_def)
  have "b \<longleftrightarrow> str_in (dget run ''status'') SUCCESS_WORDS \<or> str_in (dget run ''outcome'') SUCCESS_WORDS
      \<or> dget run ''status'' = JNull \<and> py_eq (dget run ''exit_code'') (JInt 0)"
    using r by (auto simp only: run_succeeded_def Let_def split: if_splits)
  then show ?thesis unfolding w ended_well_def by blast
qed

lemma runs_succeeded_Inr:
  "runs_succeeded xs = Inr rs \<Longrightarrow> (if rs = [] then \<forall>d. JObj d \<in> set xs \<longrightarrow> \<not> ended_well d
     else \<exists>earlier later. xs = earlier @ JObj (last rs) # later \<and> ended_well (last rs) \<and> (\<forall>d. JObj d \<in> set later \<longrightarrow> \<not> ended_well d))"
proof (induction xs arbitrary: rs rule: runs_succeeded.induct)
  case (2 run runs)
  then obtain ok rs' where ok: "run_succeeded run = Inr ok" and rs': "runs_succeeded runs = Inr rs'" and rs: "rs = (if ok then run # rs' else rs')"
    by (auto simp: rbind_eq_Inr)
  note e = run_succeeded_Inr [OF ok]
  show ?case
  proof (cases "rs' = []")
    case True
    with 2(1) [OF rs'] have none: "\<forall>d. JObj d \<in> set runs \<longrightarrow> \<not> ended_well d" by simp
    show ?thesis
    proof (cases ok)
      case True
      with none rs e \<open>rs' = []\<close> have "JObj run # runs = [] @ JObj (last rs) # runs" "ended_well (last rs)" by auto
      with none True rs show ?thesis by auto
    next
      case False
      with none rs e \<open>rs' = []\<close> show ?thesis by auto
    qed
  next
    case False
    with 2(1) [OF rs'] obtain earlier later where "runs = earlier @ JObj (last rs') # later" "ended_well (last rs')"
      "\<forall>d. JObj d \<in> set later \<longrightarrow> \<not> ended_well d" by auto
    moreover have "rs \<noteq> []" "last rs = last rs'" using False rs by auto
    ultimately have "JObj run # runs = (JObj run # earlier) @ JObj (last rs) # later \<and> ended_well (last rs) \<and> (\<forall>d. JObj d \<in> set later \<longrightarrow> \<not> ended_well d)" by simp
    then show ?thesis using \<open>rs \<noteq> []\<close> by (simp only: if_False) blast
  qed
qed (simp_all, (simp split: if_splits, metis append_Cons)+)

lemma reported_last: "reported payload raw \<Longrightarrow> last_report payload raw"
proof -
  assume "reported payload raw"
  then obtain runs where s: "successful_runs (dict_of payload) = Inr runs"
    and raw: "dget (dict_of (dget (last runs) ''metadata'')) ''tpo_result'' = JObj raw" by (auto simp: reported_def)
  from s obtain xs where xs: "dget (dict_of payload) ''runs'' = JList xs" and r: "runs_succeeded xs = Inr runs" "runs \<noteq> []"
    by (auto simp: successful_runs_def rbind_eq_Inr split: json.splits if_splits)
  from runs_succeeded_Inr [OF r(1)] r(2) obtain earlier later where "xs = earlier @ JObj (last runs) # later" "ended_well (last runs)"
    "\<forall>d. JObj d \<in> set later \<longrightarrow> \<not> ended_well d" by auto
  with xs raw show ?thesis unfolding last_report_def by blast
qed

lemma parse_report_identity:
  "parse_report tick todo step criteria allow raw = Inr r \<Longrightarrow>
     dget raw ''tick_id'' = JStr tick \<and> dget raw ''todo_id'' = JStr todo \<and> dget raw ''step_key'' = JStr step
     \<and> py_eq (dget raw ''schema_version'') (JInt 1) \<and> dget raw ''verdict'' = JStr ''success''
     \<and> (result_delivery r = None \<longleftrightarrow> \<not> has_key raw ''delivery'')"
  by (auto simp: parse_report_def rbind_eq_Inr RESULT_SCHEMA_VERSION_def split: if_splits)

lemma parse_git_fields:
  "parse_git allow v = Inr g \<Longrightarrow> dget (dict_of v) ''expected_parent_sha'' = JStr (expected_parent_sha g)
     \<and> dget (dict_of v) ''resulting_head_sha'' = JStr (resulting_head_sha g) \<and> dget (dict_of v) ''task_commit_sha'' = JStr (task_commit_sha g)"
  by (cases v) (auto simp: parse_git_def as_mapping_def Let_def rbind_eq_Inr is_str_iff)

lemma validate_delivery_fields:
  "validate_delivery v = Inr d \<Longrightarrow> dget (dict_of v) ''pr_url'' = JStr (pr_url d) \<and> dget (dict_of v) ''branch'' = JStr (delivery_branch d)
     \<and> dget (dict_of v) ''head_sha'' = JStr (delivery_head d)"
  by (cases v) (auto simp: validate_delivery_def Let_def as_mapping_def rbind_eq_Inr is_str_iff split: if_splits dest!: bounded_string_Inr)


section \<open>The published template\<close>

text \<open>Text in which every character satisfies \<open>f\<close> and some part of a pattern cannot match.\<close>

primrec misses :: "(char \<Rightarrow> bool) \<Rightarrow> rx \<Rightarrow> bool" where
  "misses f Eps = False"
| "misses f (Cls g) = (\<forall>c. f c \<longrightarrow> \<not> g c)"
| "misses f (Run lo hi g) = (0 < lo \<and> (\<forall>c. f c \<longrightarrow> \<not> g c))"
| "misses f (LazyRun g) = False"
| "misses f (Cat r s) = (misses f r \<or> misses f s)"
| "misses f (Or r s) = (misses f r \<and> misses f s)"
| "misses f (Ahead r) = misses f r"
| "misses f (Behind t) = (\<exists>c \<in> set t. \<not> f c)"
| "misses f WordEdge = False"
| "misses f LineStart = False"
| "misses f LineEnd = False"
| "misses f TextEnd = False"

lemma ends_keep: "list_all f (fst p) \<Longrightarrow> list_all f (snd p) \<Longrightarrow> q \<in> set (ends r p) \<Longrightarrow> list_all f (fst q) \<and> list_all f (snd q)"
proof -
  assume "list_all f (fst p)" "list_all f (snd p)" and q: "q \<in> set (ends r p)"
  then have "list_all f (text_at p)" by (simp add: text_at_def)
  then have "list_all f (text_at q)" using ends_text [OF q] by simp
  then show ?thesis by (simp add: text_at_def)
qed

lemma misses_ends: "misses f r \<Longrightarrow> list_all f (fst p) \<Longrightarrow> list_all f (snd p) \<Longrightarrow> ends r p = []"
proof (induction r arbitrary: p)
  case (Run lo hi g)
  then have "run_length hi g (snd p) = 0"
    by (cases "snd p") (auto simp: run_length_def split: option.splits)
  with Run show ?case by simp
next
  case (Cat r s)
  show ?case
  proof (cases "misses f r")
    case True
    with Cat show ?thesis by simp
  next
    case False
    with Cat.prems have "ends s q = []" if "q \<in> set (ends r p)" for q
      using that by (intro Cat.IH(2)) (auto dest: ends_keep)
    then show ?thesis by auto
  qed
next
  case (Behind t)
  then obtain c where "c \<in> set t" "\<not> f c" by auto
  then have "\<not> startswith (fst p) (rev t)"
    using Behind.prems(2) by (auto simp: startswith_def list_all_iff) (metis in_set_takeD set_rev)
  then show ?case by simp
qed (auto split: list.splits)

lemma misses_search: "misses f r \<Longrightarrow> list_all f b \<Longrightarrow> list_all f s \<Longrightarrow> \<not> search_from r b s"
  by (induction r b s rule: search_from.induct) (simp_all add: misses_ends)

text \<open>A commit name is never mistaken for a credential.\<close>

lemma hex_cases: "hex_lower c \<Longrightarrow> c \<in> set (digits @ ''abcdef'')"
  by (auto simp: hex_lower_def digits_def)

lemma misses_ci: "misses hex_lower (Cls (\<lambda>d. to_lower d = x)) = (\<not> hex_lower x)"
proof -
  have "to_lower c = c" if "hex_lower c" for c
    using hex_cases [OF that] by (auto simp: to_lower_def uppers_def digits_def)
  then show ?thesis by auto
qed

lemma misses_lit: "misses hex_lower (Cls (\<lambda>d. d = x)) = (\<not> hex_lower x)"
  by auto

lemma hex_not_secret: "misses hex_lower SECRET_RE"
  unfolding SECRET_RE_def credential_names_def dash_word_def pem_name_def ci_def lit_def Opt_def
  by (simp add: misses_ci misses_lit hex_lower_def digits_def del: misses.simps(2))

lemma sha_safe: "sha_ok s \<Longrightarrow> \<not> unsafe_text s"
proof -
  assume "sha_ok s"
  then have h: "list_all hex_lower s" by (simp add: sha_ok_def hex_of_length_def)
  have "\<not> control_char c" if "hex_lower c" for c
    using hex_cases [OF that] by (auto simp: control_char_def digits_def)
  with h have "\<not> list_ex control_char s" by (auto simp: list_ex_iff list_all_iff)
  with h misses_search [OF hex_not_secret] show ?thesis by (simp add: unsafe_text_def search_def)
qed

lemma safe_words: "list_all (\<lambda>s. \<not> unsafe_text s) [''schema_version'', ''tick_id'', ''todo_id'', ''step_key'', ''verdict'', ''git'', ''success'',
    ''expected_parent_sha'', ''resulting_head_sha'', ''task_commit_sha'', ''changed_files'']"
  by code_simp

definition passed :: "string \<Rightarrow> json" where "passed c = JObj [(''criterion'', JStr c), (''status'', JStr ''passed'')]"

lemma template_entries: "template_acceptance criteria = Inr (map passed criteria)"
proof -
  have "require_keys [(''criterion'', JStr c), (''status'', JStr ''passed'')] ACCEPTANCE_ENTRY_KEYS = Inr [(''criterion'', JStr c), (''status'', JStr ''passed'')]" for c
    by (simp add: require_keys_def ACCEPTANCE_ENTRY_KEYS_def keys_are_def)
  then show ?thesis unfolding template_acceptance_def
    by (simp add: rmap_Inr list_all2_conv_all_nth passed_def)
qed

lemma template_shape:
  assumes "published_template tick todo step criteria None branch allow = Inr t"
  shows "\<exists>git. t = [(''schema_version'', JInt 1), (''tick_id'', JStr tick), (''todo_id'', JStr todo), (''step_key'', JStr step), (''verdict'', JStr ''success''),
     (''git'', JObj git), (''acceptance'', JList (map passed criteria))]"
  using assms by (auto simp: published_template_def template_entries rbind_eq_Inr require_keys_def RESULT_SCHEMA_VERSION_def split: if_splits)

text \<open>The template with the facts of a commit in place of its placeholders.\<close>

definition filled :: "string \<Rightarrow> string \<Rightarrow> string list \<Rightarrow> dict \<Rightarrow> dict" where
  "filled parent head files t = dput ''git'' (JObj [(''expected_parent_sha'', JStr parent), (''resulting_head_sha'', JStr head),
     (''task_commit_sha'', JStr head), (''changed_files'', JList (map JStr files))]) t"

lemma utf8_append [simp]: "utf8_length (s @ t) = utf8_length s + utf8_length t"
  by (simp add: utf8_length_def)

lemma wrapped_small: "\<not> too_large [(''tpo_result'', JObj raw)] \<Longrightarrow> \<not> too_large raw"
proof -
  have "dumps utf8_style (JObj [(''tpo_result'', JObj raw)]) = (''{'' @ quote False ''tpo_result'' @ '':'') @ dumps utf8_style (JObj raw) @ ''}''"
    by (simp add: join_def utf8_style_def)
  then have "utf8_length (dumps utf8_style (JObj raw)) \<le> utf8_length (dumps utf8_style (JObj [(''tpo_result'', JObj raw)]))"
    by (simp only: utf8_append)
  then show "\<not> too_large [(''tpo_result'', JObj raw)] \<Longrightarrow> \<not> too_large raw" by (simp add: too_large_def del: dumps.simps)
qed

lemma unsafe_strs: "unsafe_list (map JStr fs) = list_ex unsafe_text fs"
  by (induction fs) simp_all

lemma files_parse:
  "distinct fs \<Longrightarrow> list_all (\<lambda>f. file_ok (JStr f)) fs \<Longrightarrow> allow \<or> fs \<noteq> [] \<Longrightarrow> parse_files allow (JList (map JStr fs)) = Inr fs"
  by (auto simp: parse_files_def Let_def list_all_iff distinct_map inj_on_def o_def)

lemma filled_parses:
  assumes "published_template tick todo step criteria None branch allow = Inr t"
    and "list_all (\<lambda>s. \<not> unsafe_text s) ([tick, todo, step] @ files)" and "sha_ok parent" and "sha_ok head"
    and "distinct files" and "list_all (\<lambda>f. file_ok (JStr f)) files" and "allow \<or> files \<noteq> []"
    and "\<not> too_large [(''tpo_result'', JObj (filled parent head files t))]"
  shows "parse_worker_result (envelope (filled parent head files t)) tick todo step criteria allow =
     Inr \<lparr>result_tick = tick, result_todo = todo, result_step = step,
       result_git = \<lparr>expected_parent_sha = parent, resulting_head_sha = head, task_commit_sha = head, changed_files = files\<rparr>, result_delivery = None\<rparr>"
proof -
  let ?git = "[(''expected_parent_sha'', JStr parent), (''resulting_head_sha'', JStr head), (''task_commit_sha'', JStr head), (''changed_files'', JList (map JStr files))]"
  let ?raw = "filled parent head files t"
  from template_shape [OF assms(1)] obtain git where t: "t = [(''schema_version'', JInt 1), (''tick_id'', JStr tick), (''todo_id'', JStr todo), (''step_key'', JStr step),
     (''verdict'', JStr ''success''), (''git'', JObj git), (''acceptance'', JList (map passed criteria))]" by blast
  then have raw: "?raw = [(''schema_version'', JInt 1), (''tick_id'', JStr tick), (''todo_id'', JStr todo), (''step_key'', JStr step),
     (''verdict'', JStr ''success''), (''git'', JObj ?git), (''acceptance'', JList (map passed criteria))]"
    by (simp add: filled_def dput_def)
  have "list_ex unsafe_text files = False" using assms(2) by (simp add: list_ex_iff list_all_iff)
  then have safe: "\<not> unsafe (JObj (filter (\<lambda>kv. fst kv \<notin> {''acceptance'', ''review''}) ?raw))"
    using safe_words assms(2) sha_safe [OF assms(3)] sha_safe [OF assms(4)] unfolding raw by (simp add: unsafe_strs)
  have keys: "set TOP_KEYS \<subseteq> fst ` set ?raw \<and> fst ` set ?raw \<subseteq> set (TOP_KEYS @ OPTIONAL_TOP_KEYS)"
    unfolding raw by (simp add: TOP_KEYS_def)
  have g: "parse_git allow (JObj ?git) = Inr \<lparr>expected_parent_sha = parent, resulting_head_sha = head, task_commit_sha = head, changed_files = files\<rparr>"
    using assms(3-7) by (simp add: parse_git_def as_mapping_def exact_keys_def GIT_KEYS_def keys_are_def dget_Cons files_parse Let_def)
  have "list_all2 passed_entry (map passed criteria) criteria"
    by (simp add: list_all2_conv_all_nth passed_entry_def passed_def ACCEPTANCE_ENTRY_KEYS_def keys_are_def dget_Cons)
  then have a: "parse_acceptance criteria (JList (map passed criteria)) = Inr ()" by (simp add: parse_acceptance_Inr)
  have "parse_report tick todo step criteria allow ?raw = Inr \<lparr>result_tick = tick, result_todo = todo, result_step = step,
       result_git = \<lparr>expected_parent_sha = parent, resulting_head_sha = head, task_commit_sha = head, changed_files = files\<rparr>, result_delivery = None\<rparr>"
    using wrapped_small [OF assms(8)] safe keys g a unfolding parse_report_def reject_unsafe_strings_def raw
    by (simp add: dget_Cons has_key_def RESULT_SCHEMA_VERSION_def)
  then show ?thesis
    using assms(8) by (simp add: parse_worker_result_def envelope_def as_mapping_def successful_runs_def run_succeeded_def SUCCESS_WORDS_def dget_Cons)
qed

text \<open>
  C34: the published template is the parser's contract.  The template of a card, with a commit's parent,
  head and changed files in place of its placeholders and published as the metadata of a completed run,
  parses to exactly those facts.
\<close>

theorem filled_template_parses:
  assumes "published_template tick todo step criteria None branch allow = Inr t"
    and "list_all (\<lambda>s. \<not> unsafe_text s) ([tick, todo, step] @ files)" and "sha_ok parent" and "sha_ok head"
    and "distinct files" and "list_all (\<lambda>f. file_ok (JStr f)) files" and "allow \<or> files \<noteq> []"
    and "\<not> too_large [(''tpo_result'', JObj (filled parent head files t))]"
  shows "parse_worker_result (envelope (filled parent head files t)) tick todo step criteria allow =
     Inr \<lparr>result_tick = tick, result_todo = todo, result_step = step,
       result_git = \<lparr>expected_parent_sha = parent, resulting_head_sha = head, task_commit_sha = head, changed_files = files\<rparr>, result_delivery = None\<rparr>"
  using assms by (rule filled_parses)

definition ex_template :: dict where
  "ex_template = (case published_template ''tick'' ''TODO-7'' ''plan'' [''it works''] None None False of Inr t \<Rightarrow> t)"

definition ex_parent :: string where "ex_parent = replicate 40 (CHR ''1'')"
definition ex_head :: string where "ex_head = replicate 40 (CHR ''2'')"

lemma ex_template_facts:
  "published_template ''tick'' ''TODO-7'' ''plan'' [''it works''] None None False = Inr ex_template"
  "list_all (\<lambda>s. \<not> unsafe_text s) ([''tick'', ''TODO-7'', ''plan''] @ [''src/a.py''])"
  "sha_ok ex_parent" "sha_ok ex_head" "distinct [''src/a.py'']" "list_all (\<lambda>f. file_ok (JStr f)) [''src/a.py'']"
  "False \<or> [''src/a.py''] \<noteq> []"
  by code_simp+

lemma ex_small: "\<not> too_large [(''tpo_result'', JObj (filled ex_parent ex_head [''src/a.py''] ex_template))]"
proof -
  have "utf8_length (dumps utf8_style (JObj [(''tpo_result'', JObj (filled ex_parent ex_head [''src/a.py''] ex_template))])) = 394" by code_simp
  then show ?thesis by (simp add: too_large_def MAX_METADATA_BYTES_def)
qed

theorem filled_template_parses_witness:
  "\<exists>r. parse_worker_result (envelope (filled ex_parent ex_head [''src/a.py''] ex_template)) ''tick'' ''TODO-7'' ''plan'' [''it works''] False = Inr r
     \<and> resulting_head_sha (result_git r) = ex_head"
  using filled_template_parses [OF ex_template_facts(1-4) ex_template_facts(5-7) ex_small] by simp


section \<open>What the parser raises\<close>

definition codes_only :: "'a res \<Rightarrow> bool" where
  "codes_only m \<longleftrightarrow> (\<forall>e. m = Inl e \<longrightarrow> (\<exists>c. e = ResultContractError c))"

lemma codes_simple: "codes_only (Inr x)" "codes_only (Inl (ResultContractError c))" "codes_only (raise_if b (ResultContractError c))"
  "codes_only (as_mapping v c)" "codes_only (exact_keys d ks c)" "codes_only (reject_unsafe_strings v)"
  by (auto simp: codes_only_def as_mapping_def exact_keys_def reject_unsafe_strings_def split: json.splits)

lemma codes_bind: "codes_only m \<Longrightarrow> (\<And>x. codes_only (f x)) \<Longrightarrow> codes_only (rbind m f)"
  by (auto simp: codes_only_def rbind_eq_Inl)

lemma codes_checks: "list_all codes_only cs \<Longrightarrow> codes_only (run_checks cs)"
  by (auto simp: codes_only_def list_all_iff dest: run_checks_Inl_mem)

lemma codes_map: "(\<And>x. codes_only (f x)) \<Longrightarrow> codes_only (rmap f xs)"
  by (auto simp: codes_only_def dest!: rmap_Inl)

lemma codes_if: "codes_only a \<Longrightarrow> codes_only b \<Longrightarrow> codes_only (if c then a else b)"
  by simp

lemmas codes_rules = codes_simple codes_bind codes_checks codes_map codes_if

lemma codes_parts: "codes_only (bounded_string v m c)" "codes_only (parse_command v)" "codes_only (parse_criterion v)"
  "codes_only (parse_acceptance cs v)" "codes_only (validate_delivery v)"
proof -
  show b: "codes_only (bounded_string v m c)" for v m c
    by (cases v) (auto simp: bounded_string_def intro!: codes_rules)
  have "codes_only (case v of JInt n \<Rightarrow> Inr (f n) | _ \<Rightarrow> Inl (ResultContractError c))" for v c and f :: "int \<Rightarrow> command_result"
    by (cases v) (simp_all add: codes_rules)
  then show c: "codes_only (parse_command v)" for v
    unfolding parse_command_def by (intro codes_rules b)
  show "codes_only (parse_criterion v)" for v
    unfolding parse_criterion_def by (intro codes_rules)
  then show "codes_only (parse_acceptance cs v)"
    unfolding parse_acceptance_def by (intro codes_rules)
  show "codes_only (validate_delivery v)"
    unfolding validate_delivery_def Let_def by (intro codes_rules b c) (simp add: codes_rules)
qed

lemma raised: "Inl e = raise_if b x \<longleftrightarrow> b \<and> e = x" "Inl e = Inr u \<longleftrightarrow> False"
  by (auto simp: raise_if_def)

lemma codes_files: "parse_files allow v = Inl e \<Longrightarrow> (\<exists>c. e = ResultContractError c) \<or> (e = TypeErr \<and> \<not> list_all hashable (items v))"
  by (auto simp: parse_files_def Let_def rbind_eq_Inl raised list_all_iff dest!: run_checks_Inl_mem)

lemma codes_git:
  assumes "parse_git allow v = Inl e"
  shows "(\<exists>c. e = ResultContractError c) \<or> (e = TypeErr \<and> \<not> list_all hashable (items (dget (dict_of v) ''changed_files'')))"
proof (cases v)
  case (JObj d)
  with assms consider "\<exists>c. e = ResultContractError c" | "parse_files allow (dget d ''changed_files'') = Inl e"
    by (auto simp: parse_git_def as_mapping_def Let_def rbind_eq_Inl exact_keys_def raised dest!: run_checks_Inl_mem)
  then show ?thesis using codes_files JObj by cases auto
qed (use assms in \<open>auto simp: parse_git_def as_mapping_def\<close>)

lemma codes_report:
  assumes "parse_report tick todo step criteria allow raw = Inl e"
  shows "(\<exists>c. e = ResultContractError c) \<or> (e = TypeErr \<and> \<not> list_all hashable (items (dget (dict_of (dget raw ''git'')) ''changed_files'')))"
proof -
  have a: "\<exists>c. e = ResultContractError c" if "parse_acceptance criteria (dget raw ''acceptance'') = Inl e"
    using codes_parts(4) that by (auto simp: codes_only_def)
  have d: "\<exists>c. e = ResultContractError c" if "validate_delivery (dget raw ''delivery'') = Inl e"
    using codes_parts(5) that by (auto simp: codes_only_def)
  from assms consider "\<exists>c. e = ResultContractError c" | "parse_git allow (dget raw ''git'') = Inl e"
    unfolding parse_report_def rbind_eq_Inl
    by (auto simp: reject_unsafe_strings_def rbind_eq_Inl raised split: if_splits dest!: run_checks_Inl_mem intro: a d)
  then show ?thesis using codes_git by cases blast+
qed

definition run_hashable :: "json \<Rightarrow> bool" where
  "run_hashable run \<longleftrightarrow> \<not> is_dict run \<or> (hashable (dget (dict_of run) ''status'') \<and> hashable (dget (dict_of run) ''outcome''))"

lemma runs_errors: "runs_succeeded runs = Inl e \<Longrightarrow> e = TypeErr \<and> list_ex (\<lambda>r. \<not> run_hashable r) runs"
  by (induction runs rule: runs_succeeded.induct)
    (auto simp: rbind_eq_Inl run_succeeded_def run_hashable_def Let_def split: if_splits)

lemma codes_runs:
  "successful_runs env = Inl e \<Longrightarrow> (\<exists>c. e = ResultContractError c) \<or> (e = TypeErr \<and> list_ex (\<lambda>r. \<not> run_hashable r) (items (dget env ''runs'')))"
  by (cases "dget env ''runs''") (auto simp: successful_runs_def rbind_eq_Inl split: if_splits dest!: runs_errors)

text \<open>
  C35: the parser fails closed with a contract error, with one exception.  Whatever the payload, an error
  is a \<^verbatim>\<open>ResultContractError\<close>, unless the worker put a list or an object where a run's status or outcome,
  or a changed file, belongs: the set lookups then raise \<^verbatim>\<open>TypeError\<close>.
\<close>

theorem parse_errors:
  assumes "parse_worker_result payload tick todo step criteria allow = Inl e"
  shows "(\<exists>c. e = ResultContractError c) \<or> (e = TypeErr \<and> (list_ex (\<lambda>r. \<not> run_hashable r) (items (dget (dict_of payload) ''runs''))
     \<or> (\<exists>raw. reported payload raw \<and> \<not> list_all hashable (items (dget (dict_of (dget raw ''git'')) ''changed_files'')))))"
proof (cases payload)
  case (JObj env)
  show ?thesis
  proof (cases "successful_runs env")
    case (Inl x)
    with assms JObj have "e = x" by (simp add: parse_worker_result_def as_mapping_def)
    with codes_runs [OF Inl] JObj show ?thesis by auto
  next
    case (Inr runs)
    with assms JObj consider "\<exists>c. e = ResultContractError c"
      | raw where "dget (dict_of (dget (last runs) ''metadata'')) ''tpo_result'' = JObj raw" "parse_report tick todo step criteria allow raw = Inl e"
      unfolding parse_worker_result_def as_mapping_def by (auto simp: rbind_eq_Inl raised  split: json.splits)
    then show ?thesis
    proof cases
      case 2
      with Inr JObj have "reported payload raw" by (simp add: reported_def)
      with codes_report [OF 2(2)] show ?thesis by blast
    qed blast
  qed
qed (use assms in \<open>auto simp: parse_worker_result_def as_mapping_def\<close>)

theorem parse_errors_witness:
  "parse_worker_result (JObj [(''runs'', JList [JObj [(''status'', JList [])]])]) ''tick'' ''TODO-7'' ''plan'' [] False = Inl TypeErr
   \<and> list_ex (\<lambda>r. \<not> run_hashable r) [JObj [(''status'', JList [])]]"
proof -
  have p: "parse_worker_result (JObj [(''runs'', JList [JObj [(''status'', JList [])]])]) ''tick'' ''TODO-7'' ''plan'' [] False = Inl TypeErr"
    by (simp add: parse_worker_result_def as_mapping_def successful_runs_def dget_Cons run_succeeded_def)
  have n: "\<not> reported (JObj [(''runs'', JList [JObj [(''status'', JList [])]])]) raw" for raw
    by (simp add: reported_def successful_runs_def dget_Cons run_succeeded_def)
  from parse_errors [OF p] have "list_ex (\<lambda>r. \<not> run_hashable r) [JObj [(''status'', JList [])]]"
    by (auto simp: n dget_Cons)
  with p show ?thesis by blast
qed

section \<open>Sanitized text\<close>

lemma sub_unmatched: "\<not> search_from r b s \<Longrightarrow> sub_from r new b s = s"
  by (induction r b s rule: search_from.induct) (simp_all add: sub_from.simps)

text \<open>A class is gone from text in which its runs were replaced.\<close>

lemma run_first: "g c \<Longrightarrow> \<exists>ps. ends (Run 1 None g) (b, c # cs) = advance (length (takeWhile g (c # cs))) (b, c # cs) # ps"
  by (simp add: run_length_def)

lemma run_none: "\<not> g c \<Longrightarrow> ends (Run 1 None g) (b, c # cs) = []"
  by (simp add: run_length_def)

lemma sub_run_clears: "list_all (\<lambda>c. \<not> g c) new \<Longrightarrow> list_all (\<lambda>c. \<not> g c) (sub_from (Run 1 None g) new b s)"
proof (induction "length s" arbitrary: b s rule: less_induct)
  case less
  show ?case
  proof (cases s)
    case (Cons c cs)
    show ?thesis
    proof (cases "g c")
      case True
      let ?q = "advance (length (takeWhile g (c # cs))) (b, c # cs)"
      obtain ps where e: "ends (Run 1 None g) (b, s) = ?q # ps" unfolding Cons using run_first [of g c, OF True] by blast
      have short: "length (snd ?q) < length s" using Cons True by (simp add: advance_def)
      then have "sub_from (Run 1 None g) new b s = new @ sub_from (Run 1 None g) new (fst ?q) (snd ?q)"
        using e unfolding Cons by (subst sub_from.simps) (simp del: ends.simps One_nat_def)
      then show ?thesis using less short by simp
    next
      case False
      then have "sub_from (Run 1 None g) new b s = c # sub_from (Run 1 None g) new (c # b) cs"
        unfolding Cons by (subst sub_from.simps) (simp add: run_none del: ends.simps One_nat_def)
      then show ?thesis using less Cons False by simp
    qed
  qed (simp add: sub_from.simps)
qed

lemma all_both_take: "list_all f s \<Longrightarrow> list_all g s \<Longrightarrow> list_all (\<lambda>c. f c \<and> g c) (take n s)"
  by (auto simp: list_all_iff dest: in_set_takeD)

text \<open>
  C36: sanitized text is bounded and fit for display.  It is at most as long as allowed and holds no
  control character and no line break, and text the screen accepts passes as it stands, cut to the bound.
\<close>

theorem sanitized_text:
  "length (sanitize_result_text v m) \<le> m \<and> list_all (\<lambda>c. \<not> control_char c \<and> \<not> break_char c) (sanitize_result_text v m)
   \<and> (unsafe_text v \<or> list_ex break_char v \<or> sanitize_result_text v m = take m v)"
proof -
  let ?a = "filter (\<lambda>c. \<not> control_char c) v" and ?red = "''[REDACTED]''"
  let ?b = "sub (Run 1 None break_char) '' '' ?a"
  have words: "list_all (\<lambda>c. \<not> control_char c) '' ''" "list_all (\<lambda>c. \<not> break_char c) '' ''"
    "list_all (\<lambda>c. \<not> control_char c) ?red" "list_all (\<lambda>c. \<not> break_char c) ?red"
    by (simp_all add: control_char_def break_char_def)
  have "list_all (\<lambda>c. \<not> control_char c) ?a" by (simp add: list_all_iff)
  then have b: "list_all (\<lambda>c. \<not> control_char c) ?b" "list_all (\<lambda>c. \<not> break_char c) ?b"
    unfolding sub_def using sub_from_all [OF _ words(1)] sub_run_clears [OF words(2)] by blast+
  have "list_all (\<lambda>c. \<not> control_char c) (sub SECRET_RE ?red ?b)" "list_all (\<lambda>c. \<not> break_char c) (sub SECRET_RE ?red ?b)"
    unfolding sub_def by (rule sub_from_all [OF b(1) [unfolded sub_def] words(3)] sub_from_all [OF b(2) [unfolded sub_def] words(4)])+
  then have clean: "list_all (\<lambda>c. \<not> control_char c \<and> \<not> break_char c) (sanitize_result_text v m)"
    unfolding sanitize_result_text_def by (rule all_both_take)
  have "sanitize_result_text v m = take m v" if "\<not> unsafe_text v" "\<not> list_ex break_char v"
  proof -
    from that have "?a = v" by (auto simp: unsafe_text_def list_ex_iff filter_id_conv)
    moreover have "misses (\<lambda>c. \<not> break_char c) (Run 1 None break_char)" by simp
    then have "\<not> search_from (Run 1 None break_char) [] v"
      using that(2) by (intro misses_search [where f = "\<lambda>c. \<not> break_char c"]) (auto simp: list_ex_iff list_all_iff)
    ultimately show ?thesis
      using that(1) by (simp add: sanitize_result_text_def sub_def sub_unmatched unsafe_text_def search_def)
  qed
  moreover have "length (sanitize_result_text v m) \<le> m" by (simp add: sanitize_result_text_def)
  ultimately show ?thesis using clean by blast
qed

end
