(* ===== verification/ResultTopology.thy ===== *)
theory ResultTopology
  imports ResultSafety
begin

text \<open>
  What the Git topology checks prove of the repository: over a graph of commits and Git's documented
  answers about it, the reported commits are exactly the new ones and lie on one line of first parents.
\<close>

section \<open>The commit graph\<close>

type_synonym commits = "string \<rightharpoonup> string list"

definition edges :: "commits \<Rightarrow> (string \<times> string) set" where
  "edges G = {(c, p). \<exists>ps. G c = Some ps \<and> p \<in> set ps}"

definition reach :: "commits \<Rightarrow> string \<Rightarrow> string set" where
  "reach G c = {d. (c, d) \<in> (edges G)\<^sup>*}"

text \<open>\<open>c~n\<close> and the commits on the way to it.\<close>

primrec walk :: "commits \<Rightarrow> string \<Rightarrow> nat \<Rightarrow> string option" where
  "walk G c 0 = Some c"
| "walk G c (Suc n) = (case G c of Some (p # _) \<Rightarrow> walk G p n | _ \<Rightarrow> None)"

primrec mainline :: "commits \<Rightarrow> string \<Rightarrow> nat \<Rightarrow> string list" where
  "mainline G c 0 = []"
| "mainline G c (Suc n) = c # (case G c of Some (p # _) \<Rightarrow> mainline G p n | _ \<Rightarrow> [])"

lemma reach_refl: "c \<in> reach G c" by (simp add: reach_def)

lemma reach_parent: "G c = Some (p # ps) \<Longrightarrow> d \<in> reach G p \<Longrightarrow> d \<in> reach G c"
  by (auto simp: reach_def edges_def intro: converse_rtrancl_into_rtrancl)

lemma reach_trans: "b \<in> reach G a \<Longrightarrow> c \<in> reach G b \<Longrightarrow> c \<in> reach G a"
  by (auto simp: reach_def)

lemma walk_reach: "walk G c n = Some a \<Longrightarrow> a \<in> reach G c"
  by (induction n arbitrary: c) (auto simp: reach_refl split: option.splits list.splits intro: reach_parent)

lemma no_way_back: "acyclic (edges G) \<Longrightarrow> G c = Some (p # ps) \<Longrightarrow> c \<notin> reach G p"
proof
  assume a: "acyclic (edges G)" and g: "G c = Some (p # ps)" and "c \<in> reach G p"
  then have "(c, p) \<in> edges G" "(p, c) \<in> (edges G)\<^sup>*" by (auto simp: edges_def reach_def)
  then have "(c, c) \<in> (edges G)\<^sup>+" by (rule rtrancl_into_trancl2)
  with a show False by (simp add: acyclic_def)
qed

lemma mainline_new:
  assumes "acyclic (edges G)" "walk G c n = Some a"
  shows "distinct (mainline G c n) \<and> length (mainline G c n) = n \<and> set (mainline G c n) \<subseteq> reach G c - reach G a"
  using assms(2)
proof (induction n arbitrary: c)
  case (Suc n)
  from Suc.prems obtain p ps where g: "G c = Some (p # ps)" "walk G p n = Some a" by (auto split: option.splits list.splits)
  note i = Suc.IH [OF g(2)]
  have c: "c \<notin> reach G p" by (rule no_way_back [of G, OF assms(1) g(1)])
  moreover have "a \<in> reach G p" using g(2) by (rule walk_reach)
  ultimately have "c \<notin> reach G a" using reach_trans [of a G p c] by blast
  with i c g reach_parent [of G c p ps] show ?case by (auto simp: reach_refl)
qed simp

lemma count_fixes_history:
  assumes "acyclic (edges G)" "walk G c n = Some a" "card (reach G c - reach G a) = n"
  shows "set (mainline G c n) = reach G c - reach G a"
proof (cases "n = 0")
  case False
  note m = mainline_new [OF assms(1,2)]
  have "card (set (mainline G c n)) = n" using m by (simp add: distinct_card)
  moreover have "finite (reach G c - reach G a)" using assms(3) False by (metis card.infinite)
  ultimately show ?thesis using m assms(3) by (intro card_subset_eq) auto
qed (use assms in auto)

section \<open>Git's answers\<close>

text \<open>
  What \<^verbatim>\<open>git rev-parse\<close> and \<^verbatim>\<open>git rev-list\<close> document of a query that exits with zero, for full commit names.
\<close>

definition git_reads :: "commits \<Rightarrow> git_query \<Rightarrow> string \<Rightarrow> bool" where
  "git_reads G g cwd \<longleftrightarrow>
     (\<forall>a b out. sha_ok a \<longrightarrow> sha_ok b \<longrightarrow> g cwd [''rev-list'', ''--count'', a @ ''..'' @ b] = Inr (0, out) \<longrightarrow>
        out = dec (card (reach G b - reach G a)) @ [newline])
   \<and> (\<forall>c n out. sha_ok c \<longrightarrow> g cwd [''rev-parse'', c @ ''~'' @ dec n] = Inr (0, out) \<longrightarrow>
        (\<exists>p. walk G c n = Some p \<and> sha_ok p \<and> out = p @ [newline]))"

lemma strip_sha_line: "s \<noteq> [] \<Longrightarrow> list_all (\<lambda>c. \<not> is_space c) s \<Longrightarrow> strip (s @ [newline]) = s"
proof -
  assume s: "s \<noteq> []" "list_all (\<lambda>c. \<not> is_space c) s"
  then obtain c cs where c: "s = c # cs" "\<not> is_space c" by (cases s) auto
  obtain d ds where d: "rev s = d # ds" using s(1) by (cases "rev s") auto
  then have "d \<in> set s" by (metis list.set_intros(1) set_rev)
  with s(2) have "\<not> is_space d" by (simp add: list_all_iff)
  moreover have "is_space newline" by (simp add: is_space_def newline_def)
  ultimately have "dropWhile is_space (rev (s @ [newline])) = rev s" using d by simp
  moreover have "dropWhile is_space (s @ [newline]) = s @ [newline]" using c by simp
  ultimately show ?thesis by (simp add: strip_def rstrip_while_def)
qed

lemma digit_not_space: "is_digit c \<Longrightarrow> \<not> is_space c"
  by (auto simp: is_digit_def is_space_def Let_def)

lemma hex_not_space: "hex_lower c \<Longrightarrow> \<not> is_space c"
  using hex_cases [of c] by (auto simp: is_space_def digits_def)

lemma strip_dec: "strip (dec n @ [newline]) = dec n"
  using dec_digits [of n] digit_not_space by (intro strip_sha_line) (auto simp: list_all_iff)

lemma strip_sha: "sha_ok p \<Longrightarrow> strip (p @ [newline]) = p"
  using hex_not_space by (intro strip_sha_line) (auto simp: sha_ok_def hex_of_length_def list_all_iff)

lemma git_out_Inr: "git_out g cwd args = Inr s \<Longrightarrow> \<exists>out. g cwd args = Inr (0, out) \<and> s = strip out"
  by (auto simp: git_out_def query_def rbind_eq_Inr split: sum.splits if_splits)

lemma dec_int_dec: "dec_int n = dec m \<longleftrightarrow> n = int m"
  using dec_hd [of m] by (auto simp: dec_int_def is_digit_def)

lemma topology_Inr:
  "verify_worker_git_topology g cwd git parent n = Inr u \<Longrightarrow> expected_parent_sha git = parent \<and> task_commit_sha git = resulting_head_sha git
    \<and> git_out g cwd [''rev-list'', ''--count'', parent @ ''..'' @ resulting_head_sha git] = Inr (dec_int n)
    \<and> git_out g cwd [''rev-parse'', resulting_head_sha git @ ''~'' @ dec_int n] = Inr parent"
  by (auto simp: verify_worker_git_topology_def rbind_eq_Inr code_if_def)

lemma report_shas: "parse_worker_result payload tick todo step criteria allow = Inr r \<Longrightarrow>
    sha_ok (expected_parent_sha (result_git r)) \<and> sha_ok (resulting_head_sha (result_git r))"
  by (metis parse_git_Inr parse_report_Inr parse_worker_result_Inr)

text \<open>
  C37: a verified report names exactly the new history.  If a parsed report passes the topology check for
  \<open>n\<close> commits, then walking \<open>n\<close> first parents from its head ends at the anchor, the \<open>n\<close> commits on the
  way are distinct, and they are all the commits reachable from the head and not from the anchor: no
  side branch brought anything else in.
\<close>

theorem topology_is_mainline:
  assumes "acyclic (edges G)" and "git_reads G g cwd"
    and "parse_worker_result payload tick todo step criteria allow = Inr r"
    and "verify_worker_git_topology g cwd (result_git r) parent n = Inr ()"
  shows "0 \<le> n \<and> walk G (resulting_head_sha (result_git r)) (nat n) = Some parent
    \<and> distinct (mainline G (resulting_head_sha (result_git r)) (nat n)) \<and> length (mainline G (resulting_head_sha (result_git r)) (nat n)) = nat n
    \<and> set (mainline G (resulting_head_sha (result_git r)) (nat n)) = reach G (resulting_head_sha (result_git r)) - reach G parent"
proof -
  let ?head = "resulting_head_sha (result_git r)"
  note t = topology_Inr [OF assms(4)]
  have shas: "sha_ok parent" "sha_ok ?head" using report_shas [OF assms(3)] t by auto
  from t obtain out where out: "g cwd [''rev-list'', ''--count'', parent @ ''..'' @ ?head] = Inr (0, out)" "dec_int n = strip out"
    using git_out_Inr by blast
  with assms(2) shas have "dec_int n = dec (card (reach G ?head - reach G parent))"
    unfolding git_reads_def by (metis strip_dec)
  then have n: "n = int (card (reach G ?head - reach G parent))" by (simp add: dec_int_dec)
  then have d: "dec_int n = dec (nat n)" by (simp add: dec_int_def)
  from t obtain out2 where out2: "g cwd [''rev-parse'', ?head @ ''~'' @ dec (nat n)] = Inr (0, out2)" "parent = strip out2"
    unfolding d using git_out_Inr by blast
  with assms(2) shas obtain p where p: "walk G ?head (nat n) = Some p" "sha_ok p" "out2 = p @ [newline]"
    unfolding git_reads_def by meson
  then have w: "walk G ?head (nat n) = Some parent" using out2(2) by (simp add: strip_sha)
  show ?thesis
    using mainline_new [OF assms(1) w] count_fixes_history [OF assms(1) w] w n by simp
qed

section \<open>A repository of two commits\<close>

definition ex_graph :: commits where "ex_graph = [ex_head \<mapsto> [ex_parent], ex_parent \<mapsto> []]"

definition ex_git :: git_query where
  "ex_git cwd args = (let last_arg = last args; known = (\<lambda>c. c = ex_head \<or> c = ex_parent) in
     if butlast args = [''rev-parse'', ''--verify'', ''--quiet''] then Inr (if known (take 40 last_arg) then 0 else 1, [])
     else if butlast args = [''rev-list'', ''--count''] then
       (let a = take 40 last_arg; b = drop 42 last_arg in
        if \<not> known a \<or> \<not> known b then Inr (128, []) else Inr (0, dec (if a = ex_parent \<and> b = ex_head then 1 else 0) @ [newline]))
     else if butlast args = [''rev-parse''] then
       (case walk ex_graph (take 40 last_arg) (undec (drop 41 last_arg)) of Some p \<Rightarrow> Inr (0, p @ [newline]) | None \<Rightarrow> Inr (128, []))
     else if butlast args = [''rev-list'', ''--first-parent''] then Inr (0, ex_head @ [newline])
     else Inr (0, ''src/a.py'' @ [CHR 0x00]))"

lemma ex_distinct: "ex_head \<noteq> ex_parent" "sha_ok ex_parent" "sha_ok ex_head"
  by code_simp+

lemma ex_edges: "edges ex_graph = {(ex_head, ex_parent)}"
  using ex_distinct by (auto simp: edges_def ex_graph_def split: if_splits)

lemma ex_acyclic: "acyclic (edges ex_graph)"
  using ex_distinct by (simp add: ex_edges acyclic_def trancl_insert)

lemma ex_reach: "reach ex_graph ex_head = {ex_head, ex_parent}" "reach ex_graph ex_parent = {ex_parent}"
proof -
  have p: "d = ex_parent" if "(ex_parent, d) \<in> {(ex_head, ex_parent)}\<^sup>*" for d
    using that ex_distinct by (cases rule: converse_rtranclE) auto
  then show "reach ex_graph ex_parent = {ex_parent}" by (auto simp: reach_def ex_edges)
  have "d = ex_head \<or> d = ex_parent" if "(ex_head, d) \<in> {(ex_head, ex_parent)}\<^sup>*" for d
    using that by (cases rule: converse_rtranclE) (auto dest: p)
  then show "reach ex_graph ex_head = {ex_head, ex_parent}" by (auto simp: reach_def ex_edges)
qed

lemma ex_walk: "sha_ok c \<Longrightarrow> walk ex_graph c n = Some p \<Longrightarrow> sha_ok p"
proof (induction n arbitrary: c)
  case (Suc n)
  then show ?case using Suc.IH [OF ex_distinct(2)] by (auto simp: ex_graph_def split: if_splits)
qed auto

lemma sha_length: "sha_ok a \<Longrightarrow> length a = 40"
  by (simp add: sha_ok_def hex_of_length_def)

lemma ex_git_reads: "git_reads ex_graph ex_git cwd"
  unfolding git_reads_def
proof (intro conjI allI impI)
  fix a b out assume s: "sha_ok a" "sha_ok b" and q: "ex_git cwd [''rev-list'', ''--count'', a @ ''..'' @ b] = Inr (0, out)"
  then have "(a = ex_head \<or> a = ex_parent) \<and> (b = ex_head \<or> b = ex_parent) \<and> out = dec (if a = ex_parent \<and> b = ex_head then 1 else 0) @ [newline]"
    by (auto simp: ex_git_def Let_def sha_length split: if_splits)
  then show "out = dec (card (reach ex_graph b - reach ex_graph a)) @ [newline]"
    using ex_distinct by (auto simp: ex_reach insert_Diff_if)
next
  fix c n out assume "sha_ok c" "ex_git cwd [''rev-parse'', c @ ''~'' @ dec n] = Inr (0, out)"
  then show "\<exists>p. walk ex_graph c n = Some p \<and> sha_ok p \<and> out = p @ [newline]"
    by (auto simp: ex_git_def Let_def sha_length ex_walk split: option.splits)
qed

definition ex_result :: worker_result where
  "ex_result = \<lparr>result_tick = ''tick'', result_todo = ''TODO-7'', result_step = ''plan'',
     result_git = \<lparr>expected_parent_sha = ex_parent, resulting_head_sha = ex_head, task_commit_sha = ex_head, changed_files = [''src/a.py'']\<rparr>, result_delivery = None\<rparr>"

theorem topology_is_mainline_witness:
  "verify_worker_git_topology ex_git ''/wt'' (result_git ex_result) ex_parent 1 = Inr ()
   \<and> set (mainline ex_graph ex_head 1) = reach ex_graph ex_head - reach ex_graph ex_parent"
proof -
  have p: "parse_worker_result (envelope (filled ex_parent ex_head [''src/a.py''] ex_template)) ''tick'' ''TODO-7'' ''plan'' [''it works''] False = Inr ex_result"
    unfolding ex_result_def by (rule filled_parses [OF ex_template_facts(1-4) ex_template_facts(5-7) ex_small])
  have v: "verify_worker_git_topology ex_git ''/wt'' (result_git ex_result) ex_parent 1 = Inr ()" by code_simp
  from topology_is_mainline [OF ex_acyclic ex_git_reads p v] v show ?thesis by (simp add: ex_result_def)
qed

end
