(* ===== verification/PhaseProfile.thy ===== *)
theory PhaseProfile
  imports ResultContract
begin

text \<open>
  The phases of a profile: \<^verbatim>\<open>hermes_pipeline/phases.py\<close> (the loaders of a profile and of its prerequisites,
  the strict prompt templates and the rendered prompt) and the definitions of
  \<^verbatim>\<open>hermes_pipeline/phase_schedule.py\<close> with the selections from them.

  A file read by \<^verbatim>\<open>yaml.safe_load\<close> is the value it holds.  An error that names a file or a value carries its
  message without that name.
\<close>

section \<open>Phases\<close>

record phase =
  def_key :: string
  def_name :: string
  def_prompt :: string
  def_tools :: string
  def_turns :: int
  def_timeout :: int
  def_terminal :: bool
  def_gate :: bool
  def_kind :: "string option"
  def_compile :: bool
  def_role :: string

text \<open>The fields of the dataclass in their order, with the defaults of those that have one.\<close>

definition PHASE_DEFAULTS :: "(string \<times> json option) list" where
  "PHASE_DEFAULTS = [(''phase_key'', None), (''name'', None), (''prompt'', Some (JStr [])), (''tools'', Some (JStr [])), (''turns'', Some (JInt 0)),
     (''timeout'', Some (JInt 1800)), (''terminal'', Some (JBool False)), (''gate'', Some (JBool False)), (''kind'', Some JNull),
     (''compile_plan_tasks'', Some (JBool False)), (''role'', Some (JStr ''worker''))]"

definition PHASE_FIELDS :: "string list" where "PHASE_FIELDS = map fst PHASE_DEFAULTS"
definition PHASE_KINDS :: "string list" where "PHASE_KINDS = [''worker'', ''controller_gate'', ''human_gate'']"
definition PHASE_ROLES :: "string list" where "PHASE_ROLES = [''worker'', ''implementation'', ''review'', ''delivery'']"

text \<open>\<^verbatim>\<open>Phase(**fields)\<close>: the arguments are not checked, only that the names fit; the rest takes its default.\<close>

definition phase_fields :: "json \<Rightarrow> dict res" where
  "phase_fields v = (if \<not> is_dict v \<or> \<not> set (map fst (dict_of v)) \<subseteq> set PHASE_FIELDS \<or> \<not> has_key (dict_of v) ''phase_key'' \<or> \<not> has_key (dict_of v) ''name''
     then Inl TypeErr
     else Inr (map (\<lambda>(k, dv). (k, if has_key (dict_of v) k then dget (dict_of v) k else the dv)) PHASE_DEFAULTS))"

text \<open>The fields of a phase whose types have been checked.\<close>

definition phase_of :: "dict \<Rightarrow> phase" where
  "phase_of d = \<lparr>def_key = str_of (dget d ''phase_key''), def_name = str_of (dget d ''name''), def_prompt = str_of (dget d ''prompt''),
     def_tools = str_of (dget d ''tools''), def_turns = int_of (dget d ''turns''), def_timeout = int_of (dget d ''timeout''),
     def_terminal = truthy (dget d ''terminal''), def_gate = truthy (dget d ''gate''),
     def_kind = (if dget d ''kind'' = JNull then None else Some (str_of (dget d ''kind''))),
     def_compile = truthy (dget d ''compile_plan_tasks''), def_role = str_of (dget d ''role'')\<rparr>"

section \<open>Checked definitions\<close>

definition bad_fields :: "dict \<Rightarrow> bool" where
  "bad_fields d \<longleftrightarrow> list_ex (\<lambda>k. \<not> is_str (dget d k)) [''name'', ''prompt'', ''tools''] \<or> str_of (dget d ''name'') = []
     \<or> \<not> is_bool (dget d ''gate'') \<or> \<not> is_bool (dget d ''terminal'') \<or> \<not> is_bool (dget d ''compile_plan_tasks'')
     \<or> \<not> is_int (dget d ''timeout'') \<or> int_of (dget d ''timeout'') \<le> 0 \<or> \<not> is_int (dget d ''turns'') \<or> int_of (dget d ''turns'') < 0
     \<or> (dget d ''kind'' \<noteq> JNull \<and> \<not> str_in (dget d ''kind'') PHASE_KINDS)"

text \<open>The loop over the phases with the keys and roles seen so far.\<close>

fun validate_from :: "string list \<Rightarrow> string list \<Rightarrow> dict list \<Rightarrow> unit res" where
  "validate_from ks roles [] = Inr ()"
| "validate_from ks roles (d # ds) = (let key = dget d ''phase_key''; role = dget d ''role'' in
     rbind (run_checks [
       raise_if (\<not> is_str key \<or> str_of key = [] \<or> str_of key \<in> set ks) (ValueErr ''phase keys must be nonempty and unique''),
       raise_if (bad_fields d) (ValueErr ''invalid phase definition fields''),
       raise_if (\<not> str_in role PHASE_ROLES) (ValueErr ''unknown phase role''),
       raise_if (role \<noteq> JStr ''worker'' \<and> (truthy (dget d ''gate'') \<or> str_of role \<in> set roles)) (ValueErr ''phase roles must name a unique worker'')]) (\<lambda>_.
     validate_from (str_of key # ks) (if role \<noteq> JStr ''worker'' then str_of role # roles else roles) ds))"

definition validate_definitions :: "dict list \<Rightarrow> unit res" where
  "validate_definitions phases = (if phases = [] then Inl (ValueErr ''phase definitions missing'') else validate_from [] [] phases)"

definition decode_definitions :: "json \<Rightarrow> phase list res" where
  "decode_definitions raw = rbind (run_checks [
       raise_if (\<not> is_list raw \<or> items raw = []) (ValueErr ''phase definitions missing''),
       raise_if (list_ex (\<lambda>p. \<not> is_dict p \<or> \<not> keys_are (dict_of p) PHASE_FIELDS) (items raw)) (ValueErr ''invalid pinned phase definition''),
       validate_definitions (map dict_of (items raw))]) (\<lambda>_.
     Inr (map (\<lambda>p. phase_of (dict_of p)) (items raw)))"

section \<open>Selections\<close>

fun worker_phases :: "phase list \<Rightarrow> phase list" where
  "worker_phases [] = []"
| "worker_phases (p # ps) = (if def_gate p then (if def_terminal p then [] else worker_phases ps) else p # worker_phases ps)"

definition phase_tools :: "phase \<Rightarrow> string \<Rightarrow> string \<Rightarrow> string" where
  "phase_tools p profile client =
     (if profile = ''native-sdd'' \<and> client = ''claude'' \<and> def_role p = ''implementation'' \<and> ''Agent'' \<notin> set (split_on (CHR '','') (def_tools p))
      then def_tools p @ '',Agent'' else def_tools p)"

definition IMPLEMENTATION_KEY :: string where "IMPLEMENTATION_KEY = ''phase_4_development''"

definition role_key :: "phase list \<Rightarrow> string \<Rightarrow> string option" where
  "role_key phases role = (if phases \<noteq> [] then map_option def_key (find (\<lambda>p. def_role p = role) (worker_phases phases))
     else map_of [(''implementation'', IMPLEMENTATION_KEY), (''review'', ''review:0''), (''delivery'', ''finish'')] role)"

definition phase_role :: "phase list \<Rightarrow> string \<Rightarrow> string" where
  "phase_role phases key = (let role = (if phases \<noteq> [] then map_option def_role (find (\<lambda>p. def_key p = key) (worker_phases phases))
       else find (\<lambda>r. role_key phases r = Some key) [''implementation'', ''review'', ''delivery''])
     in case role of None \<Rightarrow> ''worker'' | Some r \<Rightarrow> r)"

text \<open>\<^verbatim>\<open>tuple(dict.fromkeys(...))\<close>: each key once, where it first occurs.\<close>

definition firsts :: "string list \<Rightarrow> string list" where "firsts xs = rev (remdups (rev xs))"

definition execution_keys :: "phase list \<Rightarrow> string list \<Rightarrow> string list" where
  "execution_keys phases step_keys = (if phases \<noteq> [] then step_keys else firsts (step_keys @ [''review:0'', ''finish'']))"

section \<open>Profiles\<close>

record phase_profile =
  profile_phases :: "phase list"
  requires_plan :: bool
  deprecated :: bool

definition flag_of :: "json \<Rightarrow> string \<Rightarrow> json" where
  "flag_of data key = (if is_dict data \<and> has_key (dict_of data) key then dget (dict_of data) key else JBool False)"

definition checked_phase :: "json \<Rightarrow> dict res" where
  "checked_phase raw = rbind (phase_fields raw) (\<lambda>d.
     if \<not> is_int (dget d ''timeout'') \<or> int_of (dget d ''timeout'') \<le> 0 then Inl (ValueErr ''timeout must be a positive integer'') else Inr d)"

definition load_phase_profile :: "json \<Rightarrow> phase_profile res" where
  "load_phase_profile data = (let plan = flag_of data ''requires_plan''; old = flag_of data ''deprecated''; raw = (if is_dict data then dget (dict_of data) ''phases'' else JNull) in
     rbind (run_checks [
       raise_if (\<not> is_bool plan) (ValueErr ''requires_plan must be a boolean''),
       raise_if (\<not> is_bool old) (ValueErr ''deprecated must be a boolean''),
       raise_if (\<not> is_list raw \<or> items raw = []) (ValueErr ''phases must contain at least one phase'')]) (\<lambda>_.
     rbind (rmap checked_phase (items raw)) (\<lambda>phases.
     rbind (validate_definitions phases) (\<lambda>_.
     Inr \<lparr>profile_phases = map phase_of phases, requires_plan = truthy plan, deprecated = truthy old\<rparr>))))"

section \<open>Prerequisites of a profile\<close>

record client_prerequisite =
  discovery_root :: "string option"
  invocation :: "string option"

record skill_prerequisite =
  skill_id :: string
  distribution_owner :: string
  skill_support :: string
  skill_clients :: "(string \<times> client_prerequisite) list"

definition CLIENT_VOCABULARY :: "(string \<times> (string \<times> string) list) list" where
  "CLIENT_VOCABULARY = [
     (''claude'', [(''agent_product'', ''Claude Code''), (''skill_prefix'', ''/''), (''superpowers_skill_prefix'', ''/'')]),
     (''codex'', [(''agent_product'', ''Codex''), (''skill_prefix'', ''$''), (''superpowers_skill_prefix'', ''$superpowers:'')])]"

definition invalid :: "string \<Rightarrow> string \<Rightarrow> exn" where "invalid field detail = ValueErr (''invalid '' @ field @ '': '' @ detail)"

definition filled_str :: "json \<Rightarrow> bool" where "filled_str v \<longleftrightarrow> is_str v \<and> strip (str_of v) \<noteq> []"

definition opt_str :: "json \<Rightarrow> string option" where "opt_str v = (if is_str v then Some (str_of v) else None)"

definition field_ok :: "string \<Rightarrow> string \<Rightarrow> json \<Rightarrow> unit res" where
  "field_ok path support v = (if support = ''Conditional'' then raise_if (\<not> filled_str v) (invalid path ''must be non-null for Conditional'')
     else raise_if (v \<noteq> JNull) (invalid path ''must be null for Unverified''))"

definition client_of :: "string \<Rightarrow> string \<Rightarrow> dict \<Rightarrow> string \<Rightarrow> (string \<times> client_prerequisite) res" where
  "client_of prefix support raw_clients client = (let raw = dget raw_clients client; path = prefix @ ''.clients.'' @ client in
     rbind (run_checks [
       raise_if (\<not> is_dict raw \<or> \<not> keys_are (dict_of raw) [''discovery_root'', ''invocation'']) (invalid path ''expected exactly discovery_root and invocation''),
       field_ok (path @ ''.discovery_root'') support (dget (dict_of raw) ''discovery_root''),
       field_ok (path @ ''.invocation'') support (dget (dict_of raw) ''invocation'')]) (\<lambda>_.
     Inr (client, \<lparr>discovery_root = opt_str (dget (dict_of raw) ''discovery_root''), invocation = opt_str (dget (dict_of raw) ''invocation'')\<rparr>)))"

definition skill_of :: "string \<Rightarrow> string list \<Rightarrow> json \<Rightarrow> skill_prerequisite res" where
  "skill_of prefix seen raw = (let d = dict_of raw; sid = dget d ''skill_id''; owner = dget d ''distribution_owner''; sup = dget d ''support''; raw_clients = dget d ''clients'' in
     rbind (run_checks [
       raise_if (\<not> is_dict raw) (invalid prefix ''expected a mapping''),
       raise_if (\<not> filled_str sid) (invalid (prefix @ ''.skill_id'') ''expected a non-empty string''),
       raise_if (str_of sid \<in> set seen) (invalid (prefix @ ''.skill_id'') ''duplicate value''),
       raise_if (\<not> filled_str owner) (invalid (prefix @ ''.distribution_owner'') ''expected a non-empty string''),
       raise_if (\<not> str_in sup [''Conditional'', ''Unverified'']) (invalid (prefix @ ''.support'') ''expected Conditional or Unverified''),
       raise_if (\<not> is_dict raw_clients \<or> \<not> keys_are (dict_of raw_clients) (map fst CLIENT_VOCABULARY)) (invalid (prefix @ ''.clients'') ''expected exactly claude and codex'')]) (\<lambda>_.
     rbind (rmap (client_of prefix (str_of sup) (dict_of raw_clients)) (map fst CLIENT_VOCABULARY)) (\<lambda>clients.
     Inr \<lparr>skill_id = str_of sid, distribution_owner = str_of owner, skill_support = str_of sup, skill_clients = clients\<rparr>)))"

fun skills_from :: "nat \<Rightarrow> string list \<Rightarrow> json list \<Rightarrow> skill_prerequisite list res" where
  "skills_from i seen [] = Inr []"
| "skills_from i seen (raw # raws) = rbind (skill_of (''skills['' @ dec i @ '']'') seen raw) (\<lambda>s.
     rbind (skills_from (Suc i) (skill_id s # seen) raws) (\<lambda>ss. Inr (s # ss)))"

definition load_profile_prerequisites :: "json res \<Rightarrow> string \<Rightarrow> skill_prerequisite list res" where
  "load_profile_prerequisites file_read profile = (case file_read of
       Inl e \<Rightarrow> if is_os_error e \<or> e = ValueErr ''yaml'' then Inl (invalid ''metadata'' ''unreadable'') else Inl e
     | Inr raw \<Rightarrow> rbind (run_checks [
         raise_if (\<not> is_dict raw) (invalid ''metadata'' ''expected a mapping''),
         raise_if (dget (dict_of raw) ''schema_version'' \<noteq> JInt 1) (invalid ''schema_version'' ''expected 1''),
         raise_if (dget (dict_of raw) ''profile'' \<noteq> JStr profile) (invalid ''profile'' ''expected the profile's name''),
         raise_if (\<not> is_list (dget (dict_of raw) ''skills'')) (invalid ''skills'' ''expected a list'')]) (\<lambda>_.
       skills_from 0 [] (items (dget (dict_of raw) ''skills''))))"

end
