(* ===== verification/PhasePrompt.thy ===== *)
theory PhasePrompt
  imports PhaseProfile
begin

text \<open>
  The rendered prompt of a phase (\<^verbatim>\<open>hermes_pipeline/phases.py\<close>): the strict template grammar over
  \<^verbatim>\<open>string.Formatter().parse\<close>, the context header, and the refusal of prompts that declare an agent policy.
\<close>

section \<open>Format strings\<close>

text \<open>
  \<^verbatim>\<open>string.Formatter().parse\<close>: literal text, then a field with its specification and conversion;
  \<^const>\<open>None\<close> where it raises \<^verbatim>\<open>ValueError\<close>.
\<close>

record fmt_field =
  field_name :: string
  field_spec :: string
  field_conv :: "char option"

type_synonym fmt_piece = "string \<times> fmt_field option"

definition brace :: "char \<Rightarrow> bool" where "brace c \<longleftrightarrow> c = CHR ''{'' \<or> c = CHR ''}''"

text \<open>A field name up to what ends it; what stands between brackets does not.\<close>

fun scan_name :: "bool \<Rightarrow> string \<Rightarrow> (string \<times> char \<times> string) option" where
  "scan_name b [] = None"
| "scan_name True (c # s) = map_option (\<lambda>(n, r). (c # n, r)) (scan_name (c \<noteq> CHR '']'') s)"
| "scan_name False (c # s) =
     (if c = CHR ''{'' then None
      else if c \<in> set ''}:!'' then Some ([], c, s)
      else map_option (\<lambda>(n, r). (c # n, r)) (scan_name (c = CHR ''['') s))"

text \<open>A specification up to the brace that closes the field.\<close>

fun scan_spec :: "nat \<Rightarrow> string \<Rightarrow> (string \<times> string) option" where
  "scan_spec n [] = None"
| "scan_spec n (c # s) =
     (if c = CHR ''}'' \<and> n = 0 then Some ([], s)
      else map_option (\<lambda>(t, r). (c # t, r)) (scan_spec (if c = CHR ''{'' then Suc n else if c = CHR ''}'' then n - 1 else n) s))"

definition scan_field :: "string \<Rightarrow> (fmt_field \<times> string) option" where
  "scan_field s = (case scan_name False s of
       None \<Rightarrow> None
     | Some (name, c, r) \<Rightarrow>
         let plain = (\<lambda>conv rest. Some (\<lparr>field_name = name, field_spec = [], field_conv = conv\<rparr>, rest));
             with_spec = (\<lambda>conv rest. map_option (\<lambda>(t, r'). (\<lparr>field_name = name, field_spec = t, field_conv = conv\<rparr>, r')) (scan_spec 0 rest))
         in if c = CHR ''}'' then plain None r
            else if c = CHR '':'' then with_spec None r
            else (case r of [] \<Rightarrow> None
              | conv # r1 \<Rightarrow> (case r1 of [] \<Rightarrow> None
                  | d # r2 \<Rightarrow> if d = CHR ''}'' then plain (Some conv) r2 else if d = CHR '':'' then with_spec (Some conv) r2 else None)))"

lemma scan_name_length: "scan_name b s = Some (n, c, r) \<Longrightarrow> length r < length s"
  by (induction b s arbitrary: n rule: scan_name.induct) (auto split: if_splits simp: less_SucI)

lemma scan_spec_length: "scan_spec n s = Some (t, r) \<Longrightarrow> length r < length s"
  by (induction n s arbitrary: t rule: scan_spec.induct) (auto split: if_splits simp: less_SucI)

lemma scan_field_length: "scan_field s = Some (f, r) \<Longrightarrow> length r < length s"
  by (auto simp: scan_field_def Let_def split: option.splits if_splits list.splits dest!: scan_name_length scan_spec_length)

lemma tail_length: "dropWhile P s = c # r \<Longrightarrow> length r < length s"
  using length_dropWhile_le [of P s] by simp

function fmt_parse :: "string \<Rightarrow> fmt_piece list option" where
  "fmt_parse s = (if s = [] then Some []
     else let text = takeWhile (\<lambda>c. \<not> brace c) s in
       case dropWhile (\<lambda>c. \<not> brace c) s of
         [] \<Rightarrow> Some [(text, None)]
       | c # r \<Rightarrow> (case r of [] \<Rightarrow> None
           | d # r1 \<Rightarrow>
               if d = c then map_option (\<lambda>ps. (text @ [c], None) # ps) (fmt_parse r1)
               else if c = CHR ''}'' then None
               else (case scan_field r of None \<Rightarrow> None
                  | Some (f, r2) \<Rightarrow> map_option (\<lambda>ps. (text, Some f) # ps) (fmt_parse r2))))"
  by pat_completeness auto
termination
  by (relation "measure length") (auto dest!: tail_length scan_field_length)

declare fmt_parse.simps [simp del]

section \<open>The template grammar\<close>

definition ALLOWED_PROMPT_FIELDS :: "string list" where
  "ALLOWED_PROMPT_FIELDS = [''todo_id'', ''tick_id'', ''project_slug'', ''plan_path'', ''agent_product'', ''skill_prefix'', ''superpowers_skill_prefix'']"

definition prompt_error :: "string \<Rightarrow> string \<Rightarrow> exn" where "prompt_error source m = PhasePromptRenderError (source @ '': '' @ m)"

definition field_check :: "string \<Rightarrow> fmt_field \<Rightarrow> string \<Rightarrow> unit res" where
  "field_check source f probed_spec = (let name = field_name f in run_checks [
     raise_if (list_all (\<lambda>c. c \<in> set digits) name) (prompt_error source ''positional field is not allowed''),
     raise_if (list_ex (\<lambda>c. c \<in> set ''.[]'') name) (prompt_error source ''attribute/index traversal is not allowed''),
     raise_if (name \<notin> set ALLOWED_PROMPT_FIELDS) (prompt_error source ''unknown field''),
     raise_if (field_conv f \<noteq> None) (prompt_error source ''conversion is not allowed''),
     raise_if (field_spec f \<noteq> [] \<or> probed_spec \<noteq> [])
       (prompt_error source (if CHR ''{'' \<in> set (field_spec f) then ''nested replacement field is not allowed'' else ''format specification is not allowed''))])"

fun pieces_check :: "string \<Rightarrow> fmt_piece list \<Rightarrow> fmt_piece list \<Rightarrow> unit res" where
  "pieces_check source [] [] = Inr ()"
| "pieces_check source (p # ps) (q # qs) = rbind (case snd p of None \<Rightarrow> Inr ()
     | Some f \<Rightarrow> field_check source f (case snd q of None \<Rightarrow> [] | Some g \<Rightarrow> field_spec g)) (\<lambda>_. pieces_check source ps qs)"
| "pieces_check source _ _ = Inl (ValueErr ''zip'')"

definition validate_prompt_template :: "string \<Rightarrow> string \<Rightarrow> unit res" where
  "validate_prompt_template template source =
     (case (fmt_parse template, fmt_parse (sub (lit '':}'') '':__format_spec__}'' template)) of
        (Some parsed, Some probed) \<Rightarrow> pieces_check source parsed probed
      | _ \<Rightarrow> Inl (prompt_error source ''malformed braces''))"

text \<open>\<^verbatim>\<open>template.format(**values)\<close> of a template that passed.\<close>

definition format_pieces :: "(string \<times> string) list \<Rightarrow> fmt_piece list \<Rightarrow> string res" where
  "format_pieces values ps = rbind (rmap (\<lambda>p. case snd p of None \<Rightarrow> Inr (fst p)
     | Some f \<Rightarrow> (case map_of values (field_name f) of None \<Rightarrow> Inl (KeyErr (field_name f)) | Some v \<Rightarrow> Inr (fst p @ v))) ps) (\<lambda>ts. Inr (concat ts))"

section \<open>Policy declarations\<close>

text \<open>
  One step of unwrapping a line: surrounding space and quote marks, and a code span that is the whole
  line.  (The byte order mark is beyond the characters of the model.)
\<close>

fun find_from :: "nat \<Rightarrow> string \<Rightarrow> string \<Rightarrow> nat option" where
  "find_from i p [] = (if p = [] then Some i else None)"
| "find_from i p (c # s) = (if startswith (c # s) p then Some i else find_from (Suc i) p s)"

definition backtick :: char where "backtick = CHR ''`''"

definition unwrap :: "string \<Rightarrow> string" where
  "unwrap s = (let t = dropWhile (\<lambda>c. c = CHR ''>'') (strip (strip s));
       width = length (takeWhile (\<lambda>c. c = backtick) t) in
     if width > 0 \<and> 2 * width \<le> length t \<and> find_from width (replicate width backtick) (drop width t) = Some (length t - width)
     then take (length t - 2 * width) (drop width t) else t)"

text \<open>\<^verbatim>\<open>while True\<close>, until a step changes nothing.\<close>

partial_function (option) unwrapped :: "string \<Rightarrow> string option" where
  "unwrapped s = (if unwrap s = s then Some s else unwrapped (unwrap s))"

definition policy_declared :: "string \<Rightarrow> bool" where
  "policy_declared = matches (Cat (lit ''AGENT-POLICY-MODE'') (alts [
     cat [space_run 0, Cls (\<lambda>c. c \<in> set '':='')],
     cat [space_run 1, Run 1 None not_space, space_run 0, TextEnd],
     cat [space_run 0, TextEnd]]))"

section \<open>The prompt\<close>

record prompt_input =
  in_todo :: string
  in_tick :: string
  in_slug :: string
  in_plan_path :: "string option"
  in_plan_hash :: "string option"
  in_spec_path :: "string option"
  in_references :: "string list"
  in_client :: string
  in_source :: "string option"
  in_decisions :: "(string \<times> string) list"
  in_facts :: "(string \<times> string) list"
  in_profile :: "string option"
  in_policy :: string

definition set_str :: "string option \<Rightarrow> string option" where
  "set_str v = (if v = Some [] then None else v)"

definition fact_lines :: "(string \<times> string) list \<Rightarrow> string" where
  "fact_lines kvs = concat (map (\<lambda>(k, v). ''- '' @ sanitize_result_text k 80 @ '': '' @ sanitize_result_text v 200 @ [newline]) kvs)"

definition context_header :: "prompt_input \<Rightarrow> string" where
  "context_header i = ''Pipeline context:'' @ [newline] @ ''- todo_id: '' @ in_todo i @ [newline] @ ''- tick_id: '' @ in_tick i @ [newline]
     @ ''- project_slug: '' @ in_slug i @ [newline] @ fact_lines (in_facts i)
     @ ''Work on '' @ in_todo i @ '' ONLY. Do not pick a different TODO.'' @ [newline, newline]"

definition reference_block :: "prompt_input \<Rightarrow> string" where
  "reference_block i =
     (case set_str (in_plan_path i) of None \<Rightarrow> [] | Some p \<Rightarrow> ''Plan (execution authority): '' @ p @ [newline]
        @ (case set_str (in_plan_hash i) of None \<Rightarrow> [] | Some h \<Rightarrow> ''Plan SHA-256: '' @ h @ [newline]
             @ ''Before using the Plan, verify its SHA-256 matches exactly; fail closed on drift.'' @ [newline]))
     @ (case set_str (in_spec_path i) of None \<Rightarrow> [] | Some p \<Rightarrow> ''Spec (authoritative): '' @ p @ [newline])
     @ (if in_references i = [] then [] else ''Reference material: '' @ join '', '' (in_references i) @ [newline])"

definition prompt_header :: "prompt_input \<Rightarrow> string" where
  "prompt_header i = context_header i
     @ (if reference_block i = [] then [] else reference_block i @ [newline])
     @ (if in_decisions i = [] then [] else ''Decisions:'' @ [newline] @ fact_lines (in_decisions i) @ [newline])"

definition prompt_values :: "prompt_input \<Rightarrow> (string \<times> string) list \<Rightarrow> (string \<times> string) list" where
  "prompt_values i vocabulary = [(''todo_id'', in_todo i), (''tick_id'', in_tick i), (''project_slug'', in_slug i),
     (''plan_path'', case in_plan_path i of None \<Rightarrow> [] | Some p \<Rightarrow> p)] @ vocabulary"

definition check_line :: "string \<Rightarrow> unit res" where
  "check_line line = (case unwrapped line of None \<Rightarrow> Inl RuntimeErr
     | Some t \<Rightarrow> raise_if (policy_declared t) (PhasePromptRenderError ''agent_policy_declaration_conflict''))"

definition with_policy :: "prompt_input \<Rightarrow> string \<Rightarrow> string res" where
  "with_policy i rendered =
     (if in_profile i \<noteq> Some ''native-sdd'' then Inr rendered
      else rbind (raise_if (in_policy i \<notin> {''inherit'', ''delegated''}) (PhasePromptRenderError ''invalid_agent_policy_mode'')) (\<lambda>_.
        rbind (for_each check_line (splitlines rendered)) (\<lambda>_.
        Inr (if in_policy i = ''delegated'' then ''AGENT-POLICY-MODE: delegated'' @ [newline, newline] @ rendered else rendered))))"

definition render_phase_prompt :: "prompt_input \<Rightarrow> string \<Rightarrow> string res" where
  "render_phase_prompt i template = (let source = (case set_str (in_source i) of None \<Rightarrow> ''<phase prompt>'' | Some s \<Rightarrow> s) in
     case map_of CLIENT_VOCABULARY (in_client i) of
       None \<Rightarrow> Inl (prompt_error source ''prompt_client must be one of the known clients'')
     | Some vocabulary \<Rightarrow>
         rbind (validate_prompt_template template source) (\<lambda>_.
         rbind (format_pieces (prompt_values i vocabulary) (the (fmt_parse template))) (\<lambda>body.
         with_policy i (prompt_header i @ body))))"

end
