(* ===== verification/ProfileSafety.thy ===== *)
theory ProfileSafety
  imports PhasePrompt ResultSafety
begin

text \<open>
  The properties of phase definitions and prompts: which definitions decode, and that rendering ends,
  raises only \<^verbatim>\<open>ValueError\<close> and lets no policy declaration through.
\<close>

section \<open>Typed definitions\<close>

text \<open>What a phase record looks like in a registration.\<close>

definition phase_dict :: "phase \<Rightarrow> dict" where
  "phase_dict p = [(''phase_key'', JStr (def_key p)), (''name'', JStr (def_name p)), (''prompt'', JStr (def_prompt p)), (''tools'', JStr (def_tools p)),
     (''turns'', JInt (def_turns p)), (''timeout'', JInt (def_timeout p)), (''terminal'', JBool (def_terminal p)), (''gate'', JBool (def_gate p)),
     (''kind'', case def_kind p of None \<Rightarrow> JNull | Some k \<Rightarrow> JStr k), (''compile_plan_tasks'', JBool (def_compile p)), (''role'', JStr (def_role p))]"

definition describes :: "json \<Rightarrow> phase \<Rightarrow> bool" where
  "describes v p \<longleftrightarrow> is_dict v \<and> keys_are (dict_of v) PHASE_FIELDS \<and> list_all (\<lambda>k. dget (dict_of v) k = dget (phase_dict p) k) PHASE_FIELDS"

text \<open>A well-formed phase, and a well-formed profile: distinct keys, and special roles that name one worker each.\<close>

definition phase_ok :: "phase \<Rightarrow> bool" where
  "phase_ok p \<longleftrightarrow> def_key p \<noteq> [] \<and> def_name p \<noteq> [] \<and> 0 < def_timeout p \<and> 0 \<le> def_turns p
     \<and> (case def_kind p of None \<Rightarrow> True | Some k \<Rightarrow> k \<in> set PHASE_KINDS)
     \<and> def_role p \<in> set PHASE_ROLES \<and> (def_role p = ''worker'' \<or> \<not> def_gate p)"

definition special_roles :: "phase list \<Rightarrow> string list" where
  "special_roles ps = filter (\<lambda>r. r \<noteq> ''worker'') (map def_role ps)"

definition phases_ok :: "phase list \<Rightarrow> bool" where
  "phases_ok ps \<longleftrightarrow> list_all phase_ok ps \<and> distinct (map def_key ps) \<and> distinct (special_roles ps)"

lemma field_names: "PHASE_FIELDS = [''phase_key'', ''name'', ''prompt'', ''tools'', ''turns'', ''timeout'', ''terminal'', ''gate'', ''kind'', ''compile_plan_tasks'', ''role'']"
  by (simp add: PHASE_FIELDS_def PHASE_DEFAULTS_def)

text \<open>The fields of a phase have the types of the record.\<close>

definition typed :: "dict \<Rightarrow> bool" where
  "typed d \<longleftrightarrow> list_all (\<lambda>k. is_str (dget d k)) [''phase_key'', ''name'', ''prompt'', ''tools'', ''role''] \<and> is_int (dget d ''turns'') \<and> is_int (dget d ''timeout'')
     \<and> list_all (\<lambda>k. is_bool (dget d k)) [''terminal'', ''gate'', ''compile_plan_tasks''] \<and> (dget d ''kind'' = JNull \<or> is_str (dget d ''kind''))"

lemma is_bool_iff: "is_bool v \<longleftrightarrow> (\<exists>b. v = JBool b)" by (cases v) auto

lemma typed_describes: "keys_are d PHASE_FIELDS \<Longrightarrow> describes (JObj d) p \<longleftrightarrow> typed d \<and> p = phase_of d"
  unfolding describes_def typed_def field_names
  by (cases p) (auto simp: phase_dict_def phase_of_def dget_Cons is_str_iff is_int_iff is_bool_iff split: option.splits)

definition new_phase :: "string list \<Rightarrow> string list \<Rightarrow> dict \<Rightarrow> bool" where
  "new_phase ks roles d \<longleftrightarrow> typed d \<and> phase_ok (phase_of d) \<and> def_key (phase_of d) \<notin> set ks
     \<and> (def_role (phase_of d) = ''worker'' \<or> def_role (phase_of d) \<notin> set roles)"

lemma validate_step:
  "validate_from ks roles (d # ds) = Inr () \<longleftrightarrow> new_phase ks roles d
     \<and> validate_from (def_key (phase_of d) # ks) (if def_role (phase_of d) \<noteq> ''worker'' then def_role (phase_of d) # roles else roles) ds = Inr ()"
proof -
  have k: "dget d ''kind'' \<noteq> JNull \<and> \<not> str_in (dget d ''kind'') PHASE_KINDS \<longleftrightarrow>
     \<not> ((dget d ''kind'' = JNull \<or> is_str (dget d ''kind'')) \<and> (case def_kind (phase_of d) of None \<Rightarrow> True | Some k \<Rightarrow> k \<in> set PHASE_KINDS))"
    by (auto simp: phase_of_def str_in_iff is_str_iff)
  have r: "str_in (dget d ''role'') PHASE_ROLES \<longleftrightarrow> is_str (dget d ''role'') \<and> def_role (phase_of d) \<in> set PHASE_ROLES"
    by (auto simp: phase_of_def str_in_iff is_str_iff)
  have w: "is_str (dget d ''role'') \<Longrightarrow> dget d ''role'' = JStr ''worker'' \<longleftrightarrow> def_role (phase_of d) = ''worker''"
    by (auto simp: phase_of_def is_str_iff)
  show ?thesis
    using w unfolding validate_from.simps Let_def new_phase_def typed_def phase_ok_def bad_fields_def k r
    by (auto simp: rbind_eq_Inr phase_of_def)
qed

lemma validate_from_iff:
  "validate_from ks roles ds = Inr () \<longleftrightarrow> list_all typed ds \<and> list_all phase_ok (map phase_of ds)
     \<and> distinct (map def_key (map phase_of ds)) \<and> set (map def_key (map phase_of ds)) \<inter> set ks = {}
     \<and> distinct (special_roles (map phase_of ds)) \<and> set (special_roles (map phase_of ds)) \<inter> set roles = {}"
proof (induction ds arbitrary: ks roles)
  case (Cons d ds)
  show ?case unfolding validate_step Cons.IH new_phase_def by (auto simp: special_roles_def)
qed (simp add: special_roles_def)

text \<open>
  C38: what decodes is exactly what the type of phases promises.  The pinned definitions decode to a list
  of phases if and only if they are a non-empty list of objects with the fields of a phase, in which each
  field has its type and value of the phase, keys and names are not empty, timeouts are positive, kinds and
  roles are known, keys are distinct, and each role other than worker names at most one phase, no gate.
\<close>

theorem decode_definitions_typed:
  "decode_definitions raw = Inr ps \<longleftrightarrow> is_list raw \<and> ps \<noteq> [] \<and> list_all2 describes (items raw) ps \<and> phases_ok ps"
proof -
  let ?obj = "\<lambda>v. is_dict v \<and> keys_are (dict_of v) PHASE_FIELDS"
  have m: "list_all2 describes vs ps \<longleftrightarrow> list_all ?obj vs \<and> list_all typed (map dict_of vs) \<and> ps = map phase_of (map dict_of vs)" for vs
  proof (induction vs arbitrary: ps)
    case (Cons v vs)
    have "describes v p \<longleftrightarrow> ?obj v \<and> typed (dict_of v) \<and> p = phase_of (dict_of v)" for p
      using typed_describes [of "dict_of v" p] by (cases v) (auto simp: describes_def)
    then show ?case by (auto simp: list_all2_Cons1 Cons.IH)
  qed auto
  show ?thesis
    by (auto simp: decode_definitions_def validate_definitions_def validate_from_iff phases_ok_def m rbind_eq_Inr list_all_iff list_ex_iff o_def)
qed

section \<open>Unwrapping ends\<close>

text \<open>A part of a text: what is left when something is cut off its ends.\<close>

definition part_of :: "string \<Rightarrow> string \<Rightarrow> bool" where
  "part_of t s \<longleftrightarrow> (\<exists>a b. s = a @ t @ b)"

lemma part_refl: "part_of s s"
  unfolding part_of_def by (intro exI [of _ "[]"]) simp

lemma part_trans: "part_of r t \<Longrightarrow> part_of t s \<Longrightarrow> part_of r s"
  unfolding part_of_def by (metis append.assoc)

lemma part_drop: "part_of (drop n s) s"
  unfolding part_of_def by (intro exI [of _ "take n s"] exI [of _ "[]"]) simp

lemma part_take: "part_of (take n s) s"
  unfolding part_of_def by (intro exI [of _ "[]"] exI [of _ "drop n s"]) simp

lemma part_dropWhile: "part_of (dropWhile f s) s"
  unfolding part_of_def by (intro exI [of _ "takeWhile f s"] exI [of _ "[]"]) simp

lemma part_strip: "part_of (strip s) s"
proof -
  have "part_of (rev (dropWhile f (rev t))) t" for f :: "char \<Rightarrow> bool" and t
    unfolding part_of_def by (intro exI [of _ "[]"] exI [of _ "rev (takeWhile f (rev t))"]) (simp flip: rev_append)
  then show ?thesis unfolding strip_def rstrip_while_def using part_dropWhile part_trans by blast
qed

lemma part_unwrap: "part_of (unwrap s) s"
proof -
  let ?t = "dropWhile (\<lambda>c. c = CHR ''>'') (strip (strip s))"
  have t: "part_of ?t s" using part_dropWhile part_strip part_trans by blast
  moreover have "part_of (take m (drop n ?t)) s" for m n using part_take part_drop part_trans t by blast
  ultimately show ?thesis by (simp add: unwrap_def Let_def)
qed

lemma part_length: "part_of t s \<Longrightarrow> length t \<le> length s \<and> (length t = length s \<longrightarrow> t = s)"
  by (auto simp: part_of_def)

lemma unwrapped_ends: "\<exists>t. unwrapped s = Some t \<and> unwrap t = t \<and> part_of t s"
proof (induction "length s" arbitrary: s rule: less_induct)
  case less
  show ?case
  proof (cases "unwrap s = s")
    case True
    then show ?thesis by (subst unwrapped.simps) (auto intro: part_refl)
  next
    case False
    then have "length (unwrap s) < length s" using part_length [OF part_unwrap [of s]] by linarith
    from less [OF this] obtain t where "unwrapped (unwrap s) = Some t" "unwrap t = t" "part_of t (unwrap s)" by blast
    with False show ?thesis by (subst unwrapped.simps) (auto intro: part_trans part_unwrap)
  qed
qed

section \<open>Rendering\<close>

lemma pieces_allowed:
  "pieces_check source ps qs = Inr () \<Longrightarrow> list_all (\<lambda>p. case snd p of None \<Rightarrow> True | Some f \<Rightarrow> field_name f \<in> set ALLOWED_PROMPT_FIELDS) ps"
  by (induction source ps qs rule: pieces_check.induct) (auto simp: rbind_eq_Inr field_check_def Let_def split: option.splits)

lemma template_allowed:
  "validate_prompt_template template source = Inr () \<Longrightarrow> \<exists>ps. fmt_parse template = Some ps
     \<and> list_all (\<lambda>p. case snd p of None \<Rightarrow> True | Some f \<Rightarrow> field_name f \<in> set ALLOWED_PROMPT_FIELDS) ps"
  by (auto simp: validate_prompt_template_def split: option.splits dest: pieces_allowed)

lemma vocabulary_complete: "map_of CLIENT_VOCABULARY client = Some vocabulary \<Longrightarrow> name \<in> set ALLOWED_PROMPT_FIELDS \<Longrightarrow>
    map_of (prompt_values i vocabulary) name \<noteq> None"
proof -
  assume v: "map_of CLIENT_VOCABULARY client = Some vocabulary" and n: "name \<in> set ALLOWED_PROMPT_FIELDS"
  from v have "map fst vocabulary = [''agent_product'', ''skill_prefix'', ''superpowers_skill_prefix'']"
    unfolding CLIENT_VOCABULARY_def by (auto split: if_splits)
  then have "map fst (prompt_values i vocabulary) = ALLOWED_PROMPT_FIELDS"
    by (simp add: prompt_values_def ALLOWED_PROMPT_FIELDS_def)
  with n show ?thesis by (metis list.set_map map_of_eq_None_iff)
qed

lemma format_returns:
  assumes "list_all (\<lambda>p. case snd p of None \<Rightarrow> True | Some f \<Rightarrow> map_of values (field_name f) \<noteq> None) ps"
  shows "\<exists>t. format_pieces values ps = Inr t"
proof -
  have "\<exists>ts. rmap (\<lambda>p. case snd p of None \<Rightarrow> Inr (fst p)
     | Some f \<Rightarrow> (case map_of values (field_name f) of None \<Rightarrow> Inl (KeyErr (field_name f)) | Some v \<Rightarrow> Inr (fst p @ v))) ps = Inr ts"
    using assms by (induction ps) (auto split: option.splits)
  then show ?thesis by (auto simp: format_pieces_def)
qed

lemma for_each_Inl: "for_each f xs = Inl e \<Longrightarrow> \<exists>x \<in> set xs. f x = Inl e"
  unfolding for_each_def by (drule run_checks_Inl_mem) (auto dest: sym)

lemma field_errors: "field_check source f t = Inl e \<Longrightarrow> is_value_error e"
  unfolding field_check_def Let_def prompt_error_def by (drule run_checks_Inl_mem) (auto simp: raised)

lemma pieces_errors: "pieces_check source ps qs = Inl e \<Longrightarrow> is_value_error e"
proof (induction source ps qs rule: pieces_check.induct)
  case (2 source p ps q qs)
  then show ?case unfolding pieces_check.simps rbind_eq_Inl by (auto split: option.splits dest: field_errors)
qed auto

lemma template_errors: "validate_prompt_template template source = Inl e \<Longrightarrow> is_value_error e"
  by (auto simp: validate_prompt_template_def prompt_error_def split: option.splits dest: pieces_errors)

text \<open>Text in which no line unwraps to a policy declaration.\<close>

definition undeclared :: "string \<Rightarrow> bool" where
  "undeclared text_lines \<longleftrightarrow> list_all (\<lambda>l. case unwrapped l of None \<Rightarrow> False | Some t \<Rightarrow> \<not> policy_declared t) (splitlines text_lines)"

lemma check_line_errors: "check_line l = Inl e \<Longrightarrow> is_value_error e"
  using unwrapped_ends [of l] by (auto simp: check_line_def)

lemma check_line_Inr: "check_line l = Inr () \<longleftrightarrow> (case unwrapped l of None \<Rightarrow> False | Some t \<Rightarrow> \<not> policy_declared t)"
  by (auto simp: check_line_def split: option.splits)

lemma policy_errors: "with_policy i rendered = Inl e \<Longrightarrow> is_value_error e"
  by (auto simp: with_policy_def rbind_eq_Inl split: if_splits dest!: for_each_Inl dest: check_line_errors)

text \<open>What rendering lets through under a profile and a policy mode.\<close>

definition guarded :: "prompt_input \<Rightarrow> string \<Rightarrow> string \<Rightarrow> bool" where
  "guarded i rendered out \<longleftrightarrow> (if in_profile i \<noteq> Some ''native-sdd'' then out = rendered
     else undeclared rendered \<and> out = (if in_policy i = ''delegated'' then ''AGENT-POLICY-MODE: delegated'' @ [newline, newline] @ rendered else rendered))"

lemma policy_guards: "with_policy i rendered = Inr out \<Longrightarrow> guarded i rendered out"
  by (auto simp: with_policy_def guarded_def undeclared_def list_all_iff rbind_eq_Inr check_line_Inr split: if_splits)

text \<open>
  C39: rendering a prompt ends and is guarded.  For each line the unwrapping loop ends, at a part of the
  line that nothing unwraps further; so rendering returns or raises \<^verbatim>\<open>ValueError\<close>, never a \<^verbatim>\<open>KeyError\<close> for a
  placeholder, and what it returns is the context header and the body, in which, under the profile
  native-sdd, no line unwraps to a policy declaration; only a delegated run carries the one in front.
\<close>

theorem rendering_ends:
  "(\<exists>t. unwrapped line = Some t \<and> unwrap t = t \<and> part_of t line)
   \<and> (case render_phase_prompt i template of Inl e \<Rightarrow> is_value_error e
      | Inr out \<Rightarrow> \<exists>body. guarded i (prompt_header i @ body) out)"
proof (cases "map_of CLIENT_VOCABULARY (in_client i)")
  case (Some vocabulary)
  let ?source = "case set_str (in_source i) of None \<Rightarrow> ''<phase prompt>'' | Some s \<Rightarrow> s"
  show ?thesis
  proof (cases "validate_prompt_template template ?source")
    case (Inl e)
    with Some template_errors [OF Inl] unwrapped_ends show ?thesis by (simp add: render_phase_prompt_def Let_def)
  next
    case (Inr u)
    then obtain ps where ps: "fmt_parse template = Some ps"
      "list_all (\<lambda>p. case snd p of None \<Rightarrow> True | Some f \<Rightarrow> field_name f \<in> set ALLOWED_PROMPT_FIELDS) ps"
      using template_allowed by (cases u) blast
    then have "list_all (\<lambda>p. case snd p of None \<Rightarrow> True | Some f \<Rightarrow> map_of (prompt_values i vocabulary) (field_name f) \<noteq> None) ps"
      using vocabulary_complete [OF Some] by (auto simp: list_all_iff split: option.splits)
    from format_returns [OF this] obtain body where body: "format_pieces (prompt_values i vocabulary) ps = Inr body" by blast
    have "render_phase_prompt i template = with_policy i (prompt_header i @ body)"
      using Some Inr ps body by (simp add: render_phase_prompt_def Let_def)
    then show ?thesis using unwrapped_ends [of line] by (auto split: sum.splits dest: policy_errors policy_guards)
  qed
qed (auto simp: render_phase_prompt_def Let_def prompt_error_def unwrapped_ends)

end
