(* ===== verification/PlanManifest.thy ===== *)
theory PlanManifest
  imports Regex JsonText
begin

text \<open>
  \<^verbatim>\<open>hermes_pipeline/plan_manifest.py\<close>: the machine-readable block of a Plan document, the Plan embedded in
  an issue body, and the validation of Plan paths.

  The file system is a parameter: what \<^verbatim>\<open>Path.resolve\<close> gives with and without \<^verbatim>\<open>strict\<close>, whether a path is a
  regular file, what opening or reading it gives.
\<close>

section \<open>Constants\<close>

definition MAX_PLAN_TASKS :: nat where "MAX_PLAN_TASKS = 50"
definition MAX_MANIFEST_BYTES :: nat where "MAX_MANIFEST_BYTES = 64 * 1024"
definition MAX_TASK_ID_LENGTH :: nat where "MAX_TASK_ID_LENGTH = 64"
definition MAX_TITLE_LENGTH :: nat where "MAX_TITLE_LENGTH = 256"
definition MAX_INSTRUCTIONS_LENGTH :: nat where "MAX_INSTRUCTIONS_LENGTH = 10000"
definition MAX_CRITERION_LENGTH :: nat where "MAX_CRITERION_LENGTH = 2000"
definition MAX_VERIFICATION_LENGTH :: nat where "MAX_VERIFICATION_LENGTH = 500"
definition MAX_COMMIT_MESSAGE_LENGTH :: nat where "MAX_COMMIT_MESSAGE_LENGTH = 256"
definition MAX_LIST_ITEMS :: nat where "MAX_LIST_ITEMS = 50"
definition MAX_EMBEDDED_PLAN_CHARS :: nat where "MAX_EMBEDDED_PLAN_CHARS = 65536"

definition EMBEDDED_SUMMARY :: string where "EMBEDDED_SUMMARY = ''<summary>Implementation Plan</summary>''"
definition EMBEDDED_PLAN_OPEN :: string where
  "EMBEDDED_PLAN_OPEN = ''<details>'' @ [newline] @ EMBEDDED_SUMMARY @ [newline] @ ''---'' @ [newline]"
definition EMBEDDED_PLAN_CLOSE :: string where "EMBEDDED_PLAN_CLOSE = ''---'' @ [newline] @ ''</details>'' @ [newline]"

definition MANIFEST_KEYS :: "string list" where "MANIFEST_KEYS = [''schema_version'', ''todo_id'', ''tasks'']"
definition TASK_KEYS :: "string list" where
  "TASK_KEYS = [''id'', ''title'', ''instructions'', ''acceptance_criteria'', ''verification'', ''commit_message'']"

section \<open>Patterns\<close>

definition blank :: "char \<Rightarrow> bool" where "blank c \<longleftrightarrow> c = CHR '' '' \<or> c = CHR 0x09"
definition is_sp :: "char \<Rightarrow> bool" where "is_sp c \<longleftrightarrow> c = CHR '' ''"
definition fence_word :: rx where "fence_word = lit ''```json tpo-plan''"
definition blanks :: rx where "blanks = Run 0 None blank"

definition MANIFEST_OPEN_RE :: rx where
  "MANIFEST_OPEN_RE = cat [LineStart, Run 0 (Some 3) is_sp, fence_word, blanks, Opt (lit [CHR 0x0D]), lit [newline]]"
definition MANIFEST_CLOSE_RE :: rx where
  "MANIFEST_CLOSE_RE = cat [LineStart, Run 0 (Some 3) is_sp, lit ''```'', blanks, LineEnd]"
definition MANIFEST_START_RE :: rx where "MANIFEST_START_RE = cat [LineStart, Run 0 (Some 3) is_sp, fence_word, blanks, LineEnd]"
definition PSEUDO_MANIFEST_START_RE :: rx where "PSEUDO_MANIFEST_START_RE = cat [LineStart, blanks, fence_word, blanks, LineEnd]"

text \<open>The group of the first match of \<open>pre (.*?) suf\<close>, where the dot also matches newlines.\<close>

definition groups_at :: "rx \<Rightarrow> rx \<Rightarrow> pos \<Rightarrow> string list" where
  "groups_at pre suf p = concat (map (\<lambda>q. concat (map (\<lambda>k. map (\<lambda>_. take k (snd q)) (ends suf (advance k q))) [0 ..< Suc (length (snd q))])) (ends pre p))"

fun first_group :: "rx \<Rightarrow> rx \<Rightarrow> string \<Rightarrow> string \<Rightarrow> string option" where
  "first_group pre suf b [] = (case groups_at pre suf (b, []) of [] \<Rightarrow> None | g # _ \<Rightarrow> Some g)"
| "first_group pre suf b (c # s) = (case groups_at pre suf (b, c # s) of [] \<Rightarrow> first_group pre suf (c # b) s | g # _ \<Rightarrow> Some g)"

text \<open>\<^verbatim>\<open>len(re.findall(...))\<close>\<close>

function match_count :: "rx \<Rightarrow> string \<Rightarrow> string \<Rightarrow> nat" where
  "match_count r b s = (case ends r (b, s) of
       p # _ \<Rightarrow> if length (snd p) < length s then Suc (match_count r (fst p) (snd p))
                else (case s of [] \<Rightarrow> 1 | c # t \<Rightarrow> Suc (match_count r (c # b) t))
     | [] \<Rightarrow> (case s of [] \<Rightarrow> 0 | c # t \<Rightarrow> match_count r (c # b) t))"
  by pat_completeness auto
termination by (relation "measure (\<lambda>(r, b, s). length s)") auto

declare match_count.simps [simp del]

section \<open>Tasks\<close>

record plan_task =
  task_id :: string
  task_title :: string
  task_instructions :: string
  task_criteria :: "string list"
  task_verification :: "string list"
  task_commit_message :: string

record plan_manifest =
  manifest_todo :: string
  manifest_tasks :: "plan_task list"

definition bad_plan :: "string \<Rightarrow> exn" where "bad_plan code = PlanManifestValidationError code"

definition plan_string :: "nat \<Rightarrow> string \<Rightarrow> json \<Rightarrow> string res" where
  "plan_string maximum code v = (if \<not> is_str v \<or> strip (str_of v) = [] \<or> maximum < length (str_of v) \<or> list_ex control_char (str_of v)
     then Inl (bad_plan code) else Inr (strip (str_of v)))"

definition plan_strings :: "nat \<Rightarrow> string \<Rightarrow> json \<Rightarrow> string list res" where
  "plan_strings maximum code v = (if \<not> is_list v \<or> items v = [] \<or> MAX_LIST_ITEMS < length (items v) then Inl (bad_plan code)
     else rmap (plan_string maximum code) (items v))"

definition task_id_pattern :: "string \<Rightarrow> bool" where
  "task_id_pattern s = (case s of [] \<Rightarrow> False | c # cs \<Rightarrow> alnum c \<and> list_all (\<lambda>d. alnum d \<or> d \<in> set ''_-'') cs)"

definition parse_task :: "json \<Rightarrow> plan_task res" where
  "parse_task v = (let d = dict_of v; bad = ''invalid_task'' in
     rbind (run_checks [raise_if (\<not> is_dict v) (bad_plan bad), raise_if (\<not> keys_are d TASK_KEYS) (bad_plan ''unknown_keys'')]) (\<lambda>_.
     rbind (plan_string MAX_TASK_ID_LENGTH bad (dget d ''id'')) (\<lambda>tid.
     rbind (raise_if (\<not> task_id_pattern tid) (bad_plan ''unsafe_task_id'')) (\<lambda>_.
     rbind (plan_string MAX_TITLE_LENGTH bad (dget d ''title'')) (\<lambda>title.
     rbind (plan_string MAX_INSTRUCTIONS_LENGTH bad (dget d ''instructions'')) (\<lambda>instructions.
     rbind (plan_strings MAX_CRITERION_LENGTH bad (dget d ''acceptance_criteria'')) (\<lambda>criteria.
     rbind (plan_strings MAX_VERIFICATION_LENGTH bad (dget d ''verification'')) (\<lambda>verification.
     rbind (plan_string MAX_COMMIT_MESSAGE_LENGTH bad (dget d ''commit_message'')) (\<lambda>message.
     Inr \<lparr>task_id = tid, task_title = title, task_instructions = instructions, task_criteria = criteria,
       task_verification = verification, task_commit_message = message\<rparr>)))))))))"

section \<open>Strict JSON\<close>

text \<open>
  \<^verbatim>\<open>json.loads(..., object_pairs_hook=_json_object)\<close>: an object that repeats a key raises when its brace is
  read, before anything behind it is.
\<close>

definition no_json :: exn where "no_json = ValueErr ''json''"

definition json_object :: "dict \<Rightarrow> json res" where
  "json_object ms = (if \<not> distinct (map fst ms) then Inl (bad_plan ''duplicate_json_key'') else Inr (JObj ms))"

function (sequential) strict_value :: "string \<Rightarrow> (json \<times> string) res"
  and strict_elements :: "string \<Rightarrow> (json list \<times> string) res"
  and strict_members :: "string \<Rightarrow> (dict \<times> string) res" where
  "strict_value [] = Inl no_json"
| "strict_value (c # r) =
     (if c = CHR ''{'' then
        (case skip_ws r of
           [] \<Rightarrow> Inl no_json
         | d # r' \<Rightarrow> if d = CHR ''}'' then Inr (JObj [], r')
             else (case strict_members (skip_ws r) of Inl e \<Rightarrow> Inl e
                | Inr (ms, r'') \<Rightarrow> (case json_object ms of Inl e \<Rightarrow> Inl e | Inr v \<Rightarrow> Inr (v, r''))))
      else if c = CHR ''['' then
        (case skip_ws r of
           [] \<Rightarrow> Inl no_json
         | d # r' \<Rightarrow> if d = CHR '']'' then Inr (JList [], r')
             else (case strict_elements (skip_ws r) of Inl e \<Rightarrow> Inl e | Inr (xs, r'') \<Rightarrow> Inr (JList xs, r'')))
      else (case parse_value (c # r) of None \<Rightarrow> Inl no_json | Some vr \<Rightarrow> Inr vr))"
| "strict_elements s =
     (case strict_value s of
        Inl e \<Rightarrow> Inl e
      | Inr (v, r) \<Rightarrow>
          (case skip_ws r of
             [] \<Rightarrow> Inl no_json
           | d # r' \<Rightarrow> if d = CHR '']'' then Inr ([v], r')
               else if d = CHR '','' \<and> length (skip_ws r') < length s then
                 (case strict_elements (skip_ws r') of Inl e \<Rightarrow> Inl e | Inr (vs, r'') \<Rightarrow> Inr (v # vs, r''))
               else Inl no_json))"
| "strict_members s =
     (case s of
        [] \<Rightarrow> Inl no_json
      | c # t \<Rightarrow> if c \<noteq> CHR 0x22 then Inl no_json else
         (case parse_string t of
            None \<Rightarrow> Inl no_json
          | Some (k, r) \<Rightarrow>
              (case skip_ws r of
                 [] \<Rightarrow> Inl no_json
               | d # r1 \<Rightarrow> if d \<noteq> CHR '':'' \<or> \<not> length (skip_ws r1) < length s then Inl no_json else
                  (case strict_value (skip_ws r1) of
                     Inl e \<Rightarrow> Inl e
                   | Inr (v, r2) \<Rightarrow>
                       (case skip_ws r2 of
                          [] \<Rightarrow> Inl no_json
                        | e # r3 \<Rightarrow> if e = CHR ''}'' then Inr ([(k, v)], r3)
                            else if e = CHR '','' \<and> length (skip_ws r3) < length s then
                              (case strict_members (skip_ws r3) of Inl e \<Rightarrow> Inl e | Inr (ms, r4) \<Rightarrow> Inr ((k, v) # ms, r4))
                            else Inl no_json)))))"
  by pat_completeness auto

termination
  by (relation "measures [\<lambda>x. case x of Inl s \<Rightarrow> length s | Inr (Inl s) \<Rightarrow> length s | Inr (Inr s) \<Rightarrow> length s,
      \<lambda>x. case x of Inl s \<Rightarrow> 0 | Inr _ \<Rightarrow> 1]")
    (auto simp: le_imp_less_Suc skip_ws_length dest: skip_ws_hd)

declare strict_elements.simps [simp del] strict_members.simps [simp del]

definition strict_loads :: "string \<Rightarrow> json res" where
  "strict_loads s = (case strict_value (skip_ws s) of Inl e \<Rightarrow> Inl e | Inr (v, r) \<Rightarrow> if skip_ws r = [] then Inr v else Inl no_json)"

section \<open>The manifest\<close>

definition manifest_of :: "string \<Rightarrow> json \<Rightarrow> plan_manifest res" where
  "manifest_of expected_todo_id v = (let d = dict_of v; tasks = dget d ''tasks'' in
     rbind (run_checks [
       raise_if (\<not> is_dict v) (bad_plan ''invalid_manifest''),
       raise_if (\<not> keys_are d MANIFEST_KEYS) (bad_plan ''unknown_keys''),
       raise_if (dget d ''schema_version'' \<noteq> JInt 1) (bad_plan ''schema_version'')]) (\<lambda>_.
     rbind (plan_string 64 ''invalid_todo_id'' (dget d ''todo_id'')) (\<lambda>todo.
     rbind (run_checks [
       raise_if (todo \<noteq> expected_todo_id) (bad_plan ''todo_id_mismatch''),
       raise_if (\<not> is_list tasks \<or> items tasks = [] \<or> MAX_PLAN_TASKS < length (items tasks)) (bad_plan ''task_count'')]) (\<lambda>_.
     rbind (rmap parse_task (items tasks)) (\<lambda>ts.
     if \<not> distinct (map task_id ts) then Inl (bad_plan ''duplicate_task_id'') else Inr \<lparr>manifest_todo = todo, manifest_tasks = ts\<rparr>)))))"

definition parse_plan_manifest :: "string \<Rightarrow> string \<Rightarrow> plan_manifest option res" where
  "parse_plan_manifest expected_todo_id document = (let markers = match_count PSEUDO_MANIFEST_START_RE [] document in
     rbind (run_checks [
       raise_if (1 < markers) (bad_plan ''duplicate_manifest''),
       raise_if (0 < markers \<and> \<not> search MANIFEST_START_RE document) (bad_plan ''malformed_fence'')]) (\<lambda>_.
     case first_group MANIFEST_OPEN_RE MANIFEST_CLOSE_RE [] document of
       None \<Rightarrow> if 0 < markers then Inl (bad_plan ''malformed_fence'') else Inr None
     | Some block \<Rightarrow>
         if MAX_MANIFEST_BYTES < utf8_length block then Inl (bad_plan ''manifest_too_large'')
         else rbind (case strict_loads block of Inl (ValueErr _) \<Rightarrow> Inl (bad_plan ''invalid_json'') | r \<Rightarrow> r) (\<lambda>v.
           rbind (manifest_of expected_todo_id v) (\<lambda>m. Inr (Some m)))))"

section \<open>Embedded Plans\<close>

text \<open>\<^verbatim>\<open>replace("\r\n", "\n").replace("\r", "\n")\<close>, and \<^verbatim>\<open>splitlines(keepends=True)\<close>.\<close>

fun unix_newlines :: "string \<Rightarrow> string" where
  "unix_newlines [] = []"
| "unix_newlines (c # s) = (if c = CHR 0x0D then newline # unix_newlines (if s \<noteq> [] \<and> hd s = newline then tl s else s) else c # unix_newlines s)"

fun lines_keep :: "string \<Rightarrow> string list" where
  "lines_keep [] = []"
| "lines_keep (c # s) =
     (if line_break c \<and> \<not> (c = CHR 0x0D \<and> s \<noteq> [] \<and> hd s = newline) then [c] # lines_keep s
      else (case lines_keep s of [] \<Rightarrow> [[c]] | l # ls \<Rightarrow> (c # l) # ls))"

definition rstrip_newlines :: "string \<Rightarrow> string" where "rstrip_newlines = rstrip_while (\<lambda>c. c = newline)"

definition normalized_document :: "string \<Rightarrow> string" where
  "normalized_document d = rstrip_newlines (unix_newlines d) @ [newline]"

text \<open>\<^verbatim>\<open>^ {0,3}(`{3,}|~{3,})(.*)$\<close> on a line: the fence's character and length, and what follows it.\<close>

definition fence_of :: "string \<Rightarrow> (char \<times> nat \<times> string) option" where
  "fence_of line = (let n = length (takeWhile is_sp line); s = drop n line in
     case s of [] \<Rightarrow> None
     | c # _ \<Rightarrow> (let k = length (takeWhile (\<lambda>d. d = c) s) in
         if n \<le> 3 \<and> c \<in> set ''`~'' \<and> 3 \<le> k then Some (c, k, drop k s) else None))"

definition closes :: "char \<times> nat \<Rightarrow> char \<times> nat \<times> string \<Rightarrow> bool" where
  "closes f m \<longleftrightarrow> fst m = fst f \<and> snd f \<le> fst (snd m) \<and> strip (snd (snd m)) = []"

text \<open>\<^verbatim>\<open>s.split(sep, 1)[1]\<close> of a text that contains \<^verbatim>\<open>sep\<close>.\<close>

fun after_first :: "string \<Rightarrow> string \<Rightarrow> string" where
  "after_first p [] = []"
| "after_first p (c # s) = (if startswith (c # s) p then drop (length p) (c # s) else after_first p s)"

definition opens_comment :: "string \<Rightarrow> bool" where
  "opens_comment l \<longleftrightarrow> contains l ''<!--'' \<and> \<not> contains (after_first ''<!--'' l) ''-->''"

definition plain_line :: "string \<Rightarrow> string" where
  "plain_line l = (if l \<noteq> [] \<and> last l = newline then butlast l else l)"

record scan_state =
  scan_offset :: nat
  scan_fence :: "(char \<times> nat) option"
  scan_comment :: bool
  scan_starts :: "nat list"
  scan_summaries :: "nat list"

definition scan_fenced :: "string \<Rightarrow> string list \<Rightarrow> scan_state \<Rightarrow> scan_state" where
  "scan_fenced shown rest st = (case (scan_fence st, fence_of shown) of
       (None, Some m) \<Rightarrow> st\<lparr>scan_fence := Some (fst m, fst (snd m))\<rparr>
     | (Some f, m) \<Rightarrow> (case m of Some x \<Rightarrow> if closes f x then st\<lparr>scan_fence := None\<rparr> else st | None \<Rightarrow> st)
     | (None, None) \<Rightarrow>
         st\<lparr>scan_summaries := scan_summaries st @ (if shown = EMBEDDED_SUMMARY then [scan_offset st] else []),
            scan_starts := scan_starts st @ (if shown = ''<details>'' \<and> rest \<noteq> [] \<and> plain_line (hd rest) = EMBEDDED_SUMMARY then [scan_offset st] else [])\<rparr>)"

definition scan_line :: "string \<Rightarrow> string list \<Rightarrow> scan_state \<Rightarrow> scan_state" where
  "scan_line line rest st = (let shown = plain_line line; opened = scan_comment st \<or> opens_comment shown;
       st1 = (if \<not> opened then scan_fenced shown rest st else st)
     in st1\<lparr>scan_comment := (if contains shown ''-->'' then False else opened), scan_offset := scan_offset st + length line\<rparr>)"

fun scan_lines :: "string list \<Rightarrow> scan_state \<Rightarrow> scan_state" where
  "scan_lines [] st = st"
| "scan_lines (l # ls) st = scan_lines ls (scan_line l ls st)"

definition scan_start :: scan_state where
  "scan_start = \<lparr>scan_offset = 0, scan_fence = None, scan_comment = False, scan_starts = [], scan_summaries = []\<rparr>"

definition embedded_structure :: "string \<Rightarrow> nat list \<times> nat list" where
  "embedded_structure body = (let st = scan_lines (lines_keep (unix_newlines body)) scan_start in (scan_starts st, scan_summaries st))"

definition embedded_plan_candidate_start :: "string \<Rightarrow> nat option" where
  "embedded_plan_candidate_start body = (case fst (embedded_structure body) of [] \<Rightarrow> None | i # _ \<Rightarrow> Some i)"

definition bad_todo_plan :: "string \<Rightarrow> exn" where "bad_todo_plan code = TodoPlanValidationError code"

text \<open>What is made of the text from the candidate on.\<close>

definition embedded_document :: "string \<Rightarrow> string option res" where
  "embedded_document suffix = (let document = drop (length EMBEDDED_PLAN_OPEN) (take (length suffix - length EMBEDDED_PLAN_CLOSE) suffix) in
     rbind (run_checks [
       raise_if (\<not> startswith suffix EMBEDDED_PLAN_OPEN) (bad_todo_plan ''malformed_embedded_plan''),
       raise_if (\<not> endswith suffix EMBEDDED_PLAN_CLOSE)
         (bad_todo_plan (if contains suffix EMBEDDED_PLAN_CLOSE then ''misplaced_embedded_plan'' else ''malformed_embedded_plan'')),
       raise_if (strip document = []) (bad_todo_plan ''empty_embedded_plan''),
       raise_if (MAX_EMBEDDED_PLAN_CHARS < length document) (bad_todo_plan ''embedded_plan_too_large''),
       raise_if (\<not> search PSEUDO_MANIFEST_START_RE (normalized_document document)) (bad_todo_plan ''manifest_required'')]) (\<lambda>_.
     Inr (Some (normalized_document document))))"

definition extract_embedded_plan :: "string \<Rightarrow> string option res" where
  "extract_embedded_plan body = (let text = unix_newlines body; (starts, summaries) = embedded_structure text in
     if summaries = [] then Inr None
     else if 1 < length summaries \<or> 1 < length starts then Inl (bad_todo_plan ''duplicate_embedded_plan'')
     else (case starts of [] \<Rightarrow> Inl (bad_todo_plan ''malformed_embedded_plan'') | start # _ \<Rightarrow> embedded_document (drop start text)))"

text \<open>What a rendered Plan may not contain: the markup of the block around it.\<close>

definition FORBIDDEN_STRUCTURE :: "rx list" where
  "FORBIDDEN_STRUCTURE = [
     cat [lit ''<'', Opt (lit ''/''), ci ''details'', Cls (\<lambda>c. is_space c \<or> c = CHR ''>'')],
     cat [ci ''<summary'', Run 0 None is_space, lit ''>'', Run 0 None is_space, ci ''implementation plan'', Run 0 None is_space, ci ''</summary'', Run 0 None is_space, lit ''>''],
     cat [lit ''<!--'', Run 0 None is_space, ci ''tpo-create:''],
     cat [lit ''<'', Opt (lit ''/''), ci ''proposed_plan'', Cls (\<lambda>c. is_space c \<or> c = CHR ''>'')]]"

definition as_todo_error :: "plan_manifest option res \<Rightarrow> plan_manifest res" where
  "as_todo_error r = (case r of Inl (PlanManifestValidationError code) \<Rightarrow> Inl (bad_todo_plan code) | Inl e \<Rightarrow> Inl e
     | Inr None \<Rightarrow> Inl (bad_todo_plan ''manifest_required'') | Inr (Some m) \<Rightarrow> Inr m)"

definition render_embedded_plan :: "string \<Rightarrow> string \<Rightarrow> string res" where
  "render_embedded_plan expected_todo_id document = (let text = normalized_document document in
     rbind (run_checks [
       raise_if (strip text = []) (bad_todo_plan ''empty_embedded_plan''),
       raise_if (list_ex (\<lambda>r. search r text) FORBIDDEN_STRUCTURE) (bad_todo_plan ''forbidden_plan_structure'')]) (\<lambda>_.
     rbind (as_todo_error (parse_plan_manifest expected_todo_id text)) (\<lambda>_. Inr (EMBEDDED_PLAN_OPEN @ text @ EMBEDDED_PLAN_CLOSE))))"

section \<open>Sources\<close>

record plan_source =
  source_kind :: string
  source_document :: string
  source_hash :: string
  source_manifest :: "plan_manifest option"
  source_path :: "string option"

definition embedded_plan_source :: "(string \<Rightarrow> string) \<Rightarrow> string \<Rightarrow> string \<Rightarrow> plan_source option res" where
  "embedded_plan_source hash_of expected_todo_id body = rbind (extract_embedded_plan body) (\<lambda>found. case found of None \<Rightarrow> Inr None
     | Some document \<Rightarrow> rbind (as_todo_error (parse_plan_manifest expected_todo_id document)) (\<lambda>m.
         Inr (Some \<lparr>source_kind = ''embedded'', source_document = document, source_hash = hash_of document, source_manifest = Some m, source_path = None\<rparr>)))"

text \<open>The file system below a project, as far as a Plan path is concerned; paths are lists of components.\<close>

record plan_files =
  resolved :: "string list \<Rightarrow> string list"
  resolved_strict :: "string list \<Rightarrow> string list res"
  regular_file :: "string list \<Rightarrow> bool"
  open_error :: "string list \<Rightarrow> exn option"
  file_text :: "string list \<Rightarrow> string res"

definition pure_parts :: "string \<Rightarrow> string list" where
  "pure_parts p = filter (\<lambda>x. x \<noteq> [] \<and> x \<noteq> ''.'') (split_on (CHR ''/'') p)"

definition as_posix :: "string \<Rightarrow> string" where
  "as_posix p = (if pure_parts p = [] then ''.'' else join ''/'' (pure_parts p))"

definition inside :: "string list \<Rightarrow> string list \<Rightarrow> bool" where "inside base p \<longleftrightarrow> take (length base) p = base"

definition validate_plan_path :: "plan_files \<Rightarrow> string list \<Rightarrow> string \<Rightarrow> string res" where
  "validate_plan_path fs project plan_path = (let base = resolved fs project; candidate = project @ pure_parts plan_path in
     rbind (run_checks [
       raise_if (startswith plan_path ''/'') (bad_todo_plan ''absolute''),
       raise_if (\<not> inside base (resolved fs candidate)) (bad_todo_plan ''outside_repository'')]) (\<lambda>_.
     rbind (case resolved_strict fs candidate of Inr p \<Rightarrow> Inr p
        | Inl e \<Rightarrow> Inl (if e = FileNotFound then bad_todo_plan ''missing_file'' else if is_os_error e then bad_todo_plan ''unreadable'' else e)) (\<lambda>p.
     rbind (run_checks [
       raise_if (\<not> inside base p) (bad_todo_plan ''outside_repository''),
       raise_if (\<not> regular_file fs p) (bad_todo_plan ''not_regular_file''),
       (case open_error fs p of None \<Rightarrow> Inr () | Some e \<Rightarrow> Inl (if is_os_error e then bad_todo_plan ''unreadable'' else e))]) (\<lambda>_.
     Inr (as_posix plan_path)))))"

definition validate_plan_candidate :: "plan_files \<Rightarrow> string list \<Rightarrow> string \<Rightarrow> string \<Rightarrow> plan_manifest option res" where
  "validate_plan_candidate fs project expected_todo_id plan_path = rbind (validate_plan_path fs project plan_path) (\<lambda>p.
     rbind (file_text fs (project @ pure_parts p)) (parse_plan_manifest expected_todo_id))"

definition legacy_plan_source :: "(string \<Rightarrow> string) \<Rightarrow> plan_files \<Rightarrow> string list \<Rightarrow> string \<Rightarrow> string \<Rightarrow> plan_source res" where
  "legacy_plan_source hash_of fs project expected_todo_id plan_path = rbind (validate_plan_path fs project plan_path) (\<lambda>p.
     rbind (file_text fs (project @ pure_parts p)) (\<lambda>document.
     rbind (parse_plan_manifest expected_todo_id document) (\<lambda>m.
     Inr \<lparr>source_kind = ''legacy_path'', source_document = document, source_hash = hash_of document, source_manifest = m, source_path = Some p\<rparr>)))"

text \<open>A reference to a source; \<open>artifact\<close> is the verified reading of the file a run registered.\<close>

definition validate_plan_reference :: "(string \<Rightarrow> string) \<Rightarrow> plan_files \<Rightarrow> (string \<Rightarrow> string \<Rightarrow> string res) \<Rightarrow> string \<Rightarrow> plan_source \<Rightarrow> string \<Rightarrow> unit res" where
  "validate_plan_reference hash_of fs artifact reference src expected_todo_id = (let bad = bad_todo_plan ''invalid_plan_reference'' in
     rbind (if source_kind src = ''embedded'' then
         (if source_path src \<noteq> None \<or> \<not> startswith reference ''/'' \<or> pure_parts reference = [] \<or> last (pure_parts reference) \<noteq> ''plan.md''
             \<or> pure_parts reference \<noteq> resolved fs (pure_parts reference) then Inl bad
          else (case artifact reference (source_hash src) of Inr d \<Rightarrow> Inr d
             | Inl (RunRegistrationError c) \<Rightarrow> Inl bad | Inl (ValueErr c) \<Rightarrow> Inl (if c = ''unicode'' then bad else ValueErr c) | Inl e \<Rightarrow> Inl e))
       else if source_kind src = ''legacy_path'' then
         (if source_path src \<in> {None, Some []} \<or> Some reference \<noteq> source_path src then Inl bad else Inr (source_document src))
       else Inl bad) (\<lambda>document.
     rbind (raise_if (hash_of document \<noteq> source_hash src) bad) (\<lambda>_.
     rbind (parse_plan_manifest expected_todo_id document) (\<lambda>m. raise_if (m \<noteq> source_manifest src) bad))))"

end
