(* ===== verification/IssueBody.thy ===== *)
theory IssueBody
  imports PlanManifest
begin

text \<open>
  The pure half of \<^verbatim>\<open>hermes_pipeline/github_issues.py\<close>: labels, the sections of an issue body, the canonical
  snapshot that a registration pins, issues as TODO entries, their eligibility and their rendering for the
  selector.
\<close>

section \<open>Text\<close>

text \<open>\<^verbatim>\<open>str.lower\<close> on code points below 256.\<close>

definition lower_char :: "char \<Rightarrow> char" where
  "lower_char c = (let n = of_char c :: nat in if (65 \<le> n \<and> n \<le> 90) \<or> (192 \<le> n \<and> n \<le> 222 \<and> n \<noteq> 215) then char_of (n + 32) else c)"

definition lower :: "string \<Rightarrow> string" where "lower = map lower_char"

definition slug_char :: "char \<Rightarrow> bool" where "slug_char c \<longleftrightarrow> c \<in> set (lowers @ digits)"

definition strip_dashes :: "string \<Rightarrow> string" where
  "strip_dashes s = rstrip_while (\<lambda>c. c = CHR ''-'') (dropWhile (\<lambda>c. c = CHR ''-'') s)"

text \<open>\<^verbatim>\<open>re.sub(r"[^a-z0-9]+", "-", s).strip("-")\<close>\<close>

definition slug_of :: "string \<Rightarrow> string" where
  "slug_of s = strip_dashes (sub (Run 1 None (\<lambda>c. \<not> slug_char c)) ''-'' s)"

text \<open>\<^verbatim>\<open>s.split(sep, n)\<close> for a one-character separator.\<close>

fun split_max :: "nat \<Rightarrow> char \<Rightarrow> string \<Rightarrow> string list" where
  "split_max 0 d s = [s]"
| "split_max n d [] = [[]]"
| "split_max (Suc n) d (c # s) = (if c = d then [] # split_max n d s
     else (case split_max (Suc n) d s of [] \<Rightarrow> [[c]] | w # ws \<Rightarrow> (c # w) # ws))"

text \<open>\<^verbatim>\<open>repr\<close> and \<^verbatim>\<open>str\<close> of a JSON value.\<close>

definition repr_hex :: "nat \<Rightarrow> char" where "repr_hex n = (if n < 10 then char_of (48 + n) else char_of (87 + n))"

definition repr_char :: "char \<Rightarrow> char \<Rightarrow> string" where
  "repr_char q c = (let n = of_char c :: nat in
     if c = q \<or> c = backslash then [backslash, c] else if n = 10 then [backslash, CHR ''n''] else if n = 13 then [backslash, CHR ''r'']
     else if n = 9 then [backslash, CHR ''t''] else if n < 32 \<or> (127 \<le> n \<and> n \<le> 160) \<or> n = 173 then [backslash, CHR ''x'', repr_hex (n div 16), repr_hex (n mod 16)]
     else [c])"

definition repr_str :: "string \<Rightarrow> string" where
  "repr_str s = (let q = (if CHR 0x27 \<in> set s \<and> CHR 0x22 \<notin> set s then CHR 0x22 else CHR 0x27) in [q] @ concat (map (repr_char q) s) @ [q])"

fun py_repr :: "json \<Rightarrow> string" and repr_list :: "json list \<Rightarrow> string list" and repr_items :: "dict \<Rightarrow> string list" where
  "py_repr JNull = ''None''"
| "py_repr (JBool b) = (if b then ''True'' else ''False'')"
| "py_repr (JInt i) = dec_int i"
| "py_repr (JFloat (Finite q t)) = t"
| "py_repr (JFloat PosInf) = ''inf''"
| "py_repr (JFloat NegInf) = ''-inf''"
| "py_repr (JFloat NaN) = ''nan''"
| "py_repr (JStr s) = repr_str s"
| "py_repr (JList xs) = ''['' @ join '', '' (repr_list xs) @ '']''"
| "py_repr (JObj d) = ''{'' @ join '', '' (repr_items d) @ ''}''"
| "repr_list [] = []"
| "repr_list (x # xs) = py_repr x # repr_list xs"
| "repr_items [] = []"
| "repr_items (kv # d) = (repr_str (fst kv) @ '': '' @ py_repr (snd kv)) # repr_items d"

definition py_str :: "json \<Rightarrow> string" where "py_str v = (if is_str v then str_of v else py_repr v)"

text \<open>\<^verbatim>\<open>str(v or "")\<close>\<close>

definition str_or_empty :: "json \<Rightarrow> string" where "str_or_empty v = (if truthy v then py_str v else [])"

section \<open>Labels and sections\<close>

definition TODO_LABEL :: string where "TODO_LABEL = ''tpo:todo''"
definition READY_LABEL :: string where "READY_LABEL = ''ready-for-agent''"
definition ON_HOLD_LABEL :: string where "ON_HOLD_LABEL = ''tpo:on-hold''"
definition IN_PROGRESS_LABEL :: string where "IN_PROGRESS_LABEL = ''tpo:in-progress''"
definition TRIAGE_PENDING_LABELS :: "string list" where "TRIAGE_PENDING_LABELS = [''needs-triage'', ''needs-info'', ''ready-for-human'', ''wontfix'']"
definition MAX_ISSUE_BODY_CHARS :: nat where "MAX_ISSUE_BODY_CHARS = 65536"
definition MAX_ISSUE_SNAPSHOT_CHARS :: nat where "MAX_ISSUE_SNAPSHOT_CHARS = MAX_ISSUE_BODY_CHARS + 4096"
definition REGISTRATION_SCHEMA_VERSION :: int where "REGISTRATION_SCHEMA_VERSION = 6"
definition SUPPORTED_REGISTRATION_SCHEMA_VERSIONS :: "int list" where "SUPPORTED_REGISTRATION_SCHEMA_VERSIONS = [2, 3, 4, 5, 6]"
definition SNAPSHOT_HEADER :: string where "SNAPSHOT_HEADER = ''tpo-issue-snapshot/1''"
definition SELECTION_BODY_MAX_CHARS :: nat where "SELECTION_BODY_MAX_CHARS = 4000"
definition NO_RESPONSE :: string where "NO_RESPONSE = ''_No response_''"

definition KNOWN_SECTIONS :: "string list" where
  "KNOWN_SECTIONS = [''Summary'', ''What'', ''Why'', ''Pros'', ''Cons'', ''Context'', ''Assumptions'', ''Plan'', ''Spec'', ''Reference'', ''Branch'',
     ''Priority'', ''Effort'', ''Phase'', ''Test Coverage'', ''Security Review'', ''UI Review'', ''Legacy ID'']"

definition DECISION_SECTIONS :: "string list" where
  "DECISION_SECTIONS = [''Priority'', ''Effort'', ''Phase'', ''Test Coverage'', ''Security Review'', ''UI Review'']"

definition PHASE_OPTIONS :: "string list" where
  "PHASE_OPTIONS = [''2 (Design)'', ''3 (Writing Plan)'', ''4 (Development)'', ''5 (Code Review)'', ''6.1 (CSO Security Review)'', ''6.2 (QA)'',
     ''7 (Document Release)'', ''8 (Finish Branch)'']"

definition phase_label :: "string \<Rightarrow> string res" where
  "phase_label v = (let s = slug_of (lower (strip v)) in if s = [] then Inl (ValueErr ''phase value has no label slug'') else Inr (''phase:'' @ s))"

definition LABEL_VOCABULARY :: "(string \<times> string \<times> string) list" where
  "LABEL_VOCABULARY = [
     (TODO_LABEL, ''1d76db'', ''Managed TODO entry for todo-pipeline-orchestrator''),
     (ON_HOLD_LABEL, ''e4e669'', ''TODO is paused and must not be selected''),
     (IN_PROGRESS_LABEL, ''fbca04'', ''TODO is claimed by an active pipeline run''),
     (''needs-triage'', ''ededed'', ''Maintainer needs to evaluate this issue''),
     (''needs-info'', ''d4c5f9'', ''Waiting on reporter for more information''),
     (READY_LABEL, ''0e8a16'', ''Fully specified, ready for an AFK agent''),
     (''ready-for-human'', ''5319e7'', ''Requires human implementation''),
     (''wontfix'', ''ffffff'', ''Will not be actioned''),
     (''priority:P0'', ''b60205'', ''Priority P0''), (''priority:P1'', ''d93f0b'', ''Priority P1''),
     (''priority:P2'', ''fbca04'', ''Priority P2''), (''priority:P3'', ''c2e0c6'', ''Priority P3''),
     (''effort:S'', ''c5def5'', ''Effort: small''), (''effort:M'', ''bfd4f2'', ''Effort: medium''), (''effort:L'', ''9ecbff'', ''Effort: large''),
     (''test-coverage:required'', ''0e8a16'', ''Test coverage required''), (''test-coverage:not-required'', ''e6e6e6'', ''Test coverage not required''),
     (''security-review:required'', ''b60205'', ''Security review required''), (''security-review:not-required'', ''e6e6e6'', ''Security review not required''),
     (''ui-review:required'', ''5319e7'', ''UI review required''), (''ui-review:not-required'', ''e6e6e6'', ''UI review not required'')]
     @ map (\<lambda>p. (case phase_label p of Inr l \<Rightarrow> l | Inl _ \<Rightarrow> [], ''c5def5'', ''Phase '' @ p)) PHASE_OPTIONS"

definition legacy_id_label :: "string \<Rightarrow> string" where "legacy_id_label todo_id = ''legacy-id:'' @ todo_id"

section \<open>Issue bodies\<close>

type_synonym sections = "(string \<times> string list) list"

definition section_values :: "sections \<Rightarrow> string \<Rightarrow> string list" where
  "section_values s k = (case map_of s k of None \<Rightarrow> [] | Some vs \<Rightarrow> vs)"

text \<open>The heading of a line \<^verbatim>\<open>### (.+?)\s*\<close>.\<close>

definition heading_of :: "string \<Rightarrow> string option" where
  "heading_of line = (if startswith line ''### '' \<and> 4 < length line then Some (strip (drop 4 line)) else None)"

definition flush :: "string option \<Rightarrow> string list \<Rightarrow> sections \<Rightarrow> sections" where
  "flush current buffer s = (case current of None \<Rightarrow> s
     | Some k \<Rightarrow> (let v = strip (join [newline] buffer) in
         if v = [] \<or> v = NO_RESPONSE then s else AList.update k (section_values s k @ [v]) s))"

fun body_lines :: "string list \<Rightarrow> (char \<times> nat) option \<Rightarrow> string option \<Rightarrow> string list \<Rightarrow> sections \<Rightarrow> sections" where
  "body_lines [] fence current buffer s = flush current buffer s"
| "body_lines (line # lines) fence current buffer s =
     (let keep = (\<lambda>f. body_lines lines f current (if current = None then buffer else buffer @ [line]) s) in
      case fence of
        None \<Rightarrow> (case fence_of line of
            Some m \<Rightarrow> keep (Some (fst m, fst (snd m)))
          | None \<Rightarrow> (case heading_of line of
              Some h \<Rightarrow> body_lines lines None (if h \<in> set KNOWN_SECTIONS then Some h else None) [] (flush current buffer s)
            | None \<Rightarrow> keep None))
      | Some f \<Rightarrow> keep (case fence_of line of Some m \<Rightarrow> if closes f m then None else fence | None \<Rightarrow> fence))"

text \<open>The body without the embedded Plan, or a candidate for one.\<close>

definition body_above_plan :: "string \<Rightarrow> string" where
  "body_above_plan body = (case embedded_plan_candidate_start body of None \<Rightarrow> body | Some i \<Rightarrow> take i body)"

definition parse_issue_body :: "string \<Rightarrow> sections" where
  "parse_issue_body body = body_lines (split_on newline (body_above_plan (unix_newlines body))) None None [] []"

definition render_issue_body :: "(string \<Rightarrow> string option option) \<Rightarrow> string list \<Rightarrow> bool \<Rightarrow> string res" where
  "render_issue_body given keys include_empty =
     (if \<not> set keys \<subseteq> set KNOWN_SECTIONS then Inl (ValueErr ''unknown issue sections'')
      else rbind (rmap (\<lambda>name. let v = strip (unix_newlines (case given name of Some (Some t) \<Rightarrow> t | _ \<Rightarrow> [])) in
         if name = ''Plan'' \<and> given name = None then Inr []
         else if search (cat [LineStart, lit ''### '']) v then Inl (ValueErr ''section values must not contain H3 headings'')
         else if v = [] \<and> \<not> include_empty then Inr []
         else Inr [''### '' @ name @ [newline, newline] @ (if v = [] then NO_RESPONSE else v) @ [newline]]) KNOWN_SECTIONS) (\<lambda>blocks.
       Inr (join [newline] (concat blocks))))"

section \<open>Snapshots\<close>

definition normalize_body :: "string \<Rightarrow> string" where "normalize_body body = rstrip_newlines (unix_newlines body)"

definition snapshot_text :: "string \<Rightarrow> nat \<Rightarrow> string \<Rightarrow> string \<Rightarrow> string" where
  "snapshot_text repo number title body = SNAPSHOT_HEADER @ [newline] @ ''repo: '' @ repo @ [newline] @ ''number: '' @ dec number @ [newline]
     @ ''title: '' @ strip title @ [newline, newline] @ body @ [newline]"

definition canonical_issue_snapshot :: "string \<Rightarrow> json \<Rightarrow> string \<Rightarrow> string \<Rightarrow> string res" where
  "canonical_issue_snapshot repo number title body = rbind (run_checks [
       raise_if (\<not> is_int number \<or> int_of number < 0) (SnapshotFormatError ''issue number must be a non-negative integer''),
       raise_if (list_ex (\<lambda>c. c = newline \<or> c = CHR 0x0D) (repo @ title)) (SnapshotFormatError ''repo and title must be single-line'')]) (\<lambda>_.
     Inr (snapshot_text repo (nat (int_of number)) title (normalize_body body)))"

definition snapshot_field :: "string \<Rightarrow> string \<Rightarrow> string res" where
  "snapshot_field line prefix = (if startswith line prefix then Inr (drop (length prefix) line) else Inl (SnapshotFormatError ''expected field''))"

definition snapshot_number_ok :: "string \<Rightarrow> bool" where
  "snapshot_number_ok s \<longleftrightarrow> s = ''0'' \<or> (s \<noteq> [] \<and> hd s \<noteq> CHR ''0'' \<and> list_all (\<lambda>c. c \<in> set digits) s)"

definition split_canonical_snapshot :: "string \<Rightarrow> (string \<times> nat \<times> string \<times> string) res" where
  "split_canonical_snapshot snapshot =
     (if snapshot = [] \<or> last snapshot \<noteq> newline then Inl (SnapshotFormatError ''snapshot must end with a newline'')
      else let parts = split_max 5 newline (butlast snapshot) in
        if length parts < 5 \<or> parts ! 0 \<noteq> SNAPSHOT_HEADER \<or> parts ! 4 \<noteq> [] then Inl (SnapshotFormatError ''malformed snapshot header'')
        else rbind (snapshot_field (parts ! 1) ''repo: '') (\<lambda>repo.
          rbind (snapshot_field (parts ! 2) ''number: '') (\<lambda>number.
          rbind (snapshot_field (parts ! 3) ''title: '') (\<lambda>title.
          if \<not> snapshot_number_ok number then Inl (SnapshotFormatError ''issue number must be an integer'')
          else Inr (repo, undec number, title, if length parts = 6 then parts ! 5 else [])))))"

definition snapshot_hash :: "(string \<Rightarrow> string) \<Rightarrow> string \<Rightarrow> string" where "snapshot_hash hash_of s = hash_of s"

definition rstrip :: "string \<Rightarrow> string" where "rstrip = rstrip_while is_space"

definition legacy_v2_snapshot_hash :: "(string \<Rightarrow> string) \<Rightarrow> string \<Rightarrow> string res" where
  "legacy_v2_snapshot_hash hash_of snapshot = rbind (split_canonical_snapshot snapshot) (\<lambda>(repo, number, title, body).
     let lines = rev (dropWhile (\<lambda>l. l = []) (rev (map rstrip (split_on newline body)))) in
     Inr (snapshot_hash hash_of (snapshot_text repo number title (join [newline] lines))))"

section \<open>Issues as TODO entries\<close>

record issue_todo =
  issue_number :: int
  issue_todo_id :: string
  issue_title :: string
  issue_body :: string
  issue_state :: string
  issue_labels :: "json list"
  issue_assignees :: "json list"
  issue_url :: string
  issue_repo :: string
  blocked_by_open :: "int option"
  issue_spec :: "string option"
  issue_references :: "string list"
  plan_values :: "string list"
  branch_values :: "string list"
  issue_snapshot :: string
  entry_hash :: string
  issue_plan_source :: "plan_source option"
  plan_error :: "string option"
  state_reason :: "string option"

text \<open>\<^verbatim>\<open>(`+)([^`]+)\1\.?\<close> with \<^verbatim>\<open>fullmatch\<close>.\<close>

definition reference_path :: "string \<Rightarrow> string" where
  "reference_path value = (let path = strip value; tick = (\<lambda>c. c = CHR ''`''); n = length (takeWhile tick path); rest = drop n path;
       inner = takeWhile (\<lambda>c. \<not> tick c) rest; tail = drop (length inner) rest
     in if 0 < n \<and> inner \<noteq> [] \<and> (tail = replicate n (CHR ''`'') \<or> tail = replicate n (CHR ''`'') @ ''.'') then inner else path)"

definition first_line :: "string \<Rightarrow> string" where
  "first_line v = (case filter (\<lambda>l. l \<noteq> []) (map strip (split_on newline v)) of [] \<Rightarrow> [] | l # _ \<Rightarrow> l)"

definition first_lines :: "string list \<Rightarrow> string list" where
  "first_lines vs = filter (\<lambda>l. l \<noteq> []) (map first_line vs)"

definition DECISION_LABEL_PREFIX :: "(string \<times> string) list" where
  "DECISION_LABEL_PREFIX = [(''Priority'', ''priority:''), (''Effort'', ''effort:''), (''Test Coverage'', ''test-coverage:''),
     (''Security Review'', ''security-review:''), (''UI Review'', ''ui-review:'')]"

definition decision_is_valid :: "string \<Rightarrow> string \<Rightarrow> bool" where
  "decision_is_valid name value = (if name = ''Phase'' then value \<in> set PHASE_OPTIONS
     else the (map_of DECISION_LABEL_PREFIX name) @ value \<in> fst ` set LABEL_VOCABULARY)"

definition issue_decisions :: "string \<Rightarrow> (string \<times> string) list" where
  "issue_decisions body = (let s = parse_issue_body body in
     concat (map (\<lambda>name. case first_lines (section_values s name) of [] \<Rightarrow> []
       | v # _ \<Rightarrow> [(name, if decision_is_valid name v then v else ''unrecognized'')]) DECISION_SECTIONS))"

definition subscript :: "string \<Rightarrow> json \<Rightarrow> json res" where
  "subscript key v = (if \<not> is_dict v then Inl TypeErr else if \<not> has_key (dict_of v) key then Inl (KeyErr key) else Inr (dget (dict_of v) key))"

definition blocked_count :: "dict \<Rightarrow> int option res" where
  "blocked_count payload = (let summary = dget payload ''issue_dependencies_summary''; b = dget (dict_of summary) ''blocked_by'' in
     if is_dict summary \<and> b \<noteq> JNull then (if is_int b then Inr (Some (int_of b)) else Inl (ValueErr ''blocked_by must be an integer'')) else Inr None)"

definition plan_of_body :: "(string \<Rightarrow> string) \<Rightarrow> string \<Rightarrow> string \<Rightarrow> string list \<Rightarrow> (plan_source option \<times> string option) res" where
  "plan_of_body hash_of todo_id body values = (case embedded_plan_source hash_of todo_id body of
       Inl (TodoPlanValidationError code) \<Rightarrow> Inr (None, Some code)
     | Inl e \<Rightarrow> Inl e
     | Inr src \<Rightarrow> Inr (if src \<noteq> None \<and> values \<noteq> [] then (None, Some ''dual_plan_source'') else (src, None)))"

definition issue_from_api :: "(string \<Rightarrow> string) \<Rightarrow> string \<Rightarrow> dict \<Rightarrow> issue_todo res" where
  "issue_from_api hash_of repo payload = (let number = dget payload ''number''; title = dget payload ''title''; labels = dget payload ''labels'' in
     rbind (run_checks [
       raise_if (has_key payload ''pull_request'') NotAnIssueError,
       raise_if (number = JNull) (ValueErr ''issue payload missing number''),
       raise_if (title = JNull) (ValueErr ''issue payload missing title''),
       raise_if (\<not> is_int number) (ValueErr ''issue number must be an integer''),
       raise_if (\<not> is_str title) (ValueErr ''issue title must be a string''),
       raise_if (labels \<noteq> JNull \<and> \<not> is_list labels) (ValueErr ''issue labels must be a list'')]) (\<lambda>_.
     rbind (blocked_count payload) (\<lambda>blocked.
     let raw_body = dget payload ''body''; body = (if truthy raw_body then str_of raw_body else []); todo = ''TODO-'' @ dec_int (int_of number) in
     rbind (raise_if (truthy raw_body \<and> \<not> is_str raw_body) AttrErr) (\<lambda>_.
     let secs = parse_issue_body body; plans = first_lines (section_values secs ''Plan''); specs = first_lines (section_values secs ''Spec'') in
     rbind (plan_of_body hash_of todo body plans) (\<lambda>(src, perror).
     rbind (canonical_issue_snapshot repo number (strip (str_of title)) body) (\<lambda>snapshot.
     rbind (rmap (\<lambda>l. if is_str l then Inr l else subscript ''name'' l) (items labels)) (\<lambda>names.
     let users = dget payload ''assignees'' in
     rbind (if \<not> truthy users then Inr [] else if \<not> is_list users then Inl TypeErr else rmap (subscript ''login'') (items users)) (\<lambda>logins.
     Inr \<lparr>issue_number = int_of number, issue_todo_id = todo, issue_title = strip (str_of title), issue_body = body,
       issue_state = str_or_empty (dget payload ''state''), issue_labels = names, issue_assignees = logins, issue_url = str_or_empty (dget payload ''html_url''),
       issue_repo = repo, blocked_by_open = blocked, issue_spec = (if specs = [] then None else Some (hd specs)),
       issue_references = map reference_path (filter (\<lambda>t. strip t \<noteq> []) (concat (map (split_on (CHR '','')) (section_values secs ''Reference'')))),
       plan_values = plans, branch_values = first_lines (section_values secs ''Branch''), issue_snapshot = snapshot, entry_hash = snapshot_hash hash_of snapshot,
       issue_plan_source = src, plan_error = perror,
       state_reason = (if dget payload ''state_reason'' = JNull then None else Some (py_str (dget payload ''state_reason'')))\<rparr>))))))))"

section \<open>Eligibility\<close>

record eligible_todo =
  entry :: issue_todo
  eligible_path :: "string option"
  eligible_kind :: "string option"
  eligible_source :: "plan_source option"

definition canonical_relative_path :: "string \<Rightarrow> bool" where
  "canonical_relative_path v \<longleftrightarrow> list_all (\<lambda>c. let n = of_char c :: nat in 32 \<le> n \<and> n \<noteq> 127) v
     \<and> \<not> startswith v ''./'' \<and> \<not> contains v ''//'' \<and> \<not> endswith v ''/'' \<and> list_all (\<lambda>x. x \<notin> {''.'', ''..''}) (split_on (CHR ''/'') v)"

definition resolve_plan_source :: "(string \<Rightarrow> string) \<Rightarrow> plan_files \<Rightarrow> string list \<Rightarrow> issue_todo \<Rightarrow> plan_source res" where
  "resolve_plan_source hash_of fs project issue = (case plan_error issue of Some code \<Rightarrow> Inl (bad_todo_plan code)
     | None \<Rightarrow> (case issue_plan_source issue of
         Some src \<Rightarrow> if plan_values issue \<noteq> [] then Inl (bad_todo_plan ''dual_plan_source'') else Inr src
       | None \<Rightarrow> (case plan_values issue of
           [] \<Rightarrow> Inl (bad_todo_plan ''missing'')
         | [v] \<Rightarrow> if \<not> canonical_relative_path v then Inl (bad_todo_plan ''non_canonical'')
             else rbind (validate_plan_path fs project v) (\<lambda>p. legacy_plan_source hash_of fs project (issue_todo_id issue) p)
         | _ \<Rightarrow> Inl (bad_todo_plan ''duplicate''))))"

definition has_label :: "issue_todo \<Rightarrow> string \<Rightarrow> bool" where "has_label issue l \<longleftrightarrow> JStr l \<in> set (issue_labels issue)"

definition status_reason :: "string list \<Rightarrow> int list \<Rightarrow> bool \<Rightarrow> issue_todo \<Rightarrow> string option" where
  "status_reason in_flight active kanban_available issue =
     (if issue_state issue \<noteq> ''open'' then Some ''status_closed''
      else if has_label issue ON_HOLD_LABEL then Some ''status_on_hold''
      else (case find (has_label issue) TRIAGE_PENDING_LABELS of Some l \<Rightarrow> Some (''triage_pending:'' @ l)
        | None \<Rightarrow>
          if issue_number issue \<in> set active then Some ''in_flight''
          else if \<not> has_label issue READY_LABEL then Some ''not_ready''
          else if issue_todo_id issue \<in> set in_flight then Some ''in_flight''
          else if has_label issue IN_PROGRESS_LABEL then Some (if \<not> kanban_available then ''in_progress_unverified'' else ''in_progress_stale'')
          else (case blocked_by_open issue of None \<Rightarrow> Some ''dependency_unknown''
            | Some n \<Rightarrow> if 0 < n then Some (''dependency_incomplete:'' @ dec_int n) else None)))"

text \<open>\<^verbatim>\<open>sorted(issues, key=number)\<close>, which keeps the order of equal keys.\<close>

fun insert_issue :: "issue_todo \<Rightarrow> issue_todo list \<Rightarrow> issue_todo list" where
  "insert_issue i [] = [i]"
| "insert_issue i (j # js) = (if issue_number i \<le> issue_number j then i # j # js else j # insert_issue i js)"

definition sort_issues :: "issue_todo list \<Rightarrow> issue_todo list" where "sort_issues js = foldr insert_issue js []"

definition plan_reason :: "(string \<Rightarrow> string) \<Rightarrow> plan_files \<Rightarrow> string list \<Rightarrow> issue_todo \<Rightarrow> (plan_source option \<times> string option) res" where
  "plan_reason hash_of fs project issue = (case resolve_plan_source hash_of fs project issue of
       Inr src \<Rightarrow> Inr (Some src, None)
     | Inl (TodoPlanValidationError code) \<Rightarrow> Inr (None, Some (''plan_invalid:'' @ code))
     | Inl (PlanManifestValidationError code) \<Rightarrow> Inr (None, Some (''plan_invalid:'' @ code))
     | Inl e \<Rightarrow> if is_os_error e \<or> is_value_error e then Inr (None, Some ''plan_invalid:unreadable'') else Inl e)"

definition judge_issue :: "(string \<Rightarrow> string) \<Rightarrow> plan_files \<Rightarrow> string list \<Rightarrow> string list \<Rightarrow> int list \<Rightarrow> bool \<Rightarrow> bool \<Rightarrow> issue_todo \<Rightarrow> (eligible_todo + string) res" where
  "judge_issue hash_of fs project in_flight active kanban_available requires_plan issue =
     (case status_reason in_flight active kanban_available issue of Some r \<Rightarrow> Inr (Inr r)
      | None \<Rightarrow> rbind (if requires_plan then plan_reason hash_of fs project issue else Inr (None, None)) (\<lambda>(src, reason).
          Inr (case reason of Some r \<Rightarrow> Inr r
             | None \<Rightarrow> if length (branch_values issue) \<noteq> 1 then Inr ''branch_invalid''
                 else Inl \<lparr>entry = issue, eligible_path = (case src of None \<Rightarrow> None | Some p \<Rightarrow> source_path p),
                   eligible_kind = (case src of None \<Rightarrow> None | Some p \<Rightarrow> Some (if source_manifest p \<noteq> None then ''manifest'' else ''legacy'')),
                   eligible_source = src\<rparr>)))"

fun judge_issues :: "(issue_todo \<Rightarrow> (eligible_todo + string) res) \<Rightarrow> issue_todo list \<Rightarrow> eligible_todo list \<Rightarrow> (string \<times> string) list
    \<Rightarrow> (eligible_todo list \<times> (string \<times> string) list) res" where
  "judge_issues judge [] cs blocked = Inr (cs, blocked)"
| "judge_issues judge (i # js) cs blocked = rbind (judge i) (\<lambda>r. case r of
       Inr reason \<Rightarrow> judge_issues judge js cs (AList.update (issue_todo_id i) reason blocked)
     | Inl c \<Rightarrow> judge_issues judge js (cs @ [c]) blocked)"

definition compile_eligible_issues :: "(string \<Rightarrow> string) \<Rightarrow> plan_files \<Rightarrow> string list \<Rightarrow> string list \<Rightarrow> int list \<Rightarrow> bool \<Rightarrow> bool \<Rightarrow> issue_todo list
    \<Rightarrow> (eligible_todo list \<times> (string \<times> string) list) res" where
  "compile_eligible_issues hash_of fs project in_flight active kanban_available requires_plan issues =
     judge_issues (judge_issue hash_of fs project in_flight active kanban_available requires_plan) (sort_issues issues) [] []"

section \<open>Rendering for the selector\<close>

definition any_space :: rx where "any_space = Run 0 None is_space"

definition HOSTILE_SELECTION_LINE_RE :: rx where
  "HOSTILE_SELECTION_LINE_RE = Cat any_space (alts [
     cat [lit ''<'', Opt (lit ''/''), alts [ci ''candidate_todos'', ci ''todos_md_content''], any_space, lit ''>''],
     cat [Cls (\<lambda>c. c \<in> set ''-*+''), any_space, lit ''['', Cls (\<lambda>c. c \<in> set '' x~''), lit '']'', any_space, lit ''**TODO-'', Run 1 None (\<lambda>c. c \<in> set digits)]])"

definition escape_hostile_selection_lines :: "string \<Rightarrow> string" where
  "escape_hostile_selection_lines t = join [newline] (map (\<lambda>l. if matches HOSTILE_SELECTION_LINE_RE l then backslash # l else l) (split_on newline t))"

text \<open>The checklist; \<open>dash\<close> and \<open>dots\<close> stand for the characters U+2014 and U+2026.\<close>

definition selection_entry :: "string \<Rightarrow> string \<Rightarrow> issue_todo \<Rightarrow> string res" where
  "selection_entry dash dots issue =
     (if list_ex (\<lambda>l. \<not> is_str l) (issue_labels issue) then Inl TypeErr
      else let full = normalize_body (issue_body issue); truncated = SELECTION_BODY_MAX_CHARS < length full;
             body = (if truncated then rstrip (take SELECTION_BODY_MAX_CHARS full) else full) in
        Inr (join [newline] ([
            ''- [ ] **'' @ issue_todo_id issue @ '': '' @ issue_title issue @ ''** '' @ dash @ '' #'' @ dec_int (issue_number issue) @ '' '' @ issue_url issue,
            ''  - labels: '' @ (if issue_labels issue = [] then ''(none)'' else join '', '' (map str_of (issue_labels issue))),
            ''  - open blockers: '' @ (case blocked_by_open issue of None \<Rightarrow> ''unknown'' | Some n \<Rightarrow> dec_int n)]
          @ (if body = [] then [] else map (\<lambda>l. if l = [] then [] else ''  '' @ l) (split_on newline (escape_hostile_selection_lines body)))
          @ (if truncated then [''  '' @ dots @ '' (truncated)''] else [])) @ [newline]))"

definition render_selection_markdown :: "string \<Rightarrow> string \<Rightarrow> issue_todo list \<Rightarrow> string res" where
  "render_selection_markdown dash dots issues = rbind (rmap (selection_entry dash dots) issues) (\<lambda>es. Inr (join [newline] es))"

end
