(* ===== verification/IssueClient.thy ===== *)
theory IssueClient
  imports IssueBody ResultGit
begin

text \<open>
  The client half of \<^verbatim>\<open>hermes_pipeline/github_issues.py\<close>: every call of the \<^verbatim>\<open>gh\<close> command line, the
  classification of its failures, and the drift of an issue from its registration.

  The command line is a parameter: it takes the arguments and the text of a body file, if one is passed,
  and what GitHub holds is its state.  \<open>git_origin\<close> is the outcome of \<^verbatim>\<open>git remote get-url origin\<close>.
\<close>

section \<open>Commands\<close>

datatype gh_outcome =
    GhExit int string string   \<comment> \<open>exit code, output, error output\<close>
  | GhTimeout string           \<comment> \<open>what was printed before\<close>
  | GhMissing
  | GhFailed                   \<comment> \<open>\<^verbatim>\<open>OSError\<close> or \<^verbatim>\<open>UnicodeError\<close>\<close>

record 'g gh_world =
  gh_command :: "string list \<Rightarrow> string option \<Rightarrow> 'g \<Rightarrow> gh_outcome \<times> 'g"
  git_origin :: "'g \<Rightarrow> gh_outcome"
  text_hash :: "string \<Rightarrow> string"

text \<open>The attributes of a \<^verbatim>\<open>GitHubIssuesError\<close> that callers read.\<close>

record gh_error =
  err_code :: string
  err_verb :: string
  err_partial :: string
  err_returncode :: "int option"
  err_blank :: bool
  err_created :: "string list"

definition gh_error_of :: "string \<Rightarrow> string \<Rightarrow> gh_error" where
  "gh_error_of code verb = \<lparr>err_code = code, err_verb = verb, err_partial = [], err_returncode = None, err_blank = False, err_created = []\<rparr>"

definition gh_fail :: "string \<Rightarrow> exn" where "gh_fail code = GitHubIssuesError code"

definition MIN_GH_VERSION :: "nat list" where "MIN_GH_VERSION = [2, 44]"
definition LABEL_LIST_LIMIT :: nat where "LABEL_LIST_LIMIT = 1000"

definition gh_verb :: "string list \<Rightarrow> string" where
  "gh_verb args = (case args of [] \<Rightarrow> [] | a # rest \<Rightarrow> if a \<in> {''issue'', ''label'', ''auth''} \<and> rest \<noteq> [] then a @ '' '' @ hd rest else a)"

definition VERSION_STDERR_RE :: rx where "VERSION_STDERR_RE = alts [ci ''unknown flag'', ci ''unknown command'']"
definition RATE_LIMIT_RE :: rx where "RATE_LIMIT_RE = alts [ci ''rate limit exceeded'', ci ''secondary rate limit'', ci ''http 429'']"
definition AUTH_RE :: rx where
  "AUTH_RE = alts [ci ''gh auth login'', ci ''http 401'', ci ''not logged in'', ci ''http 403'', ci ''resource not accessible'']"
definition NOT_FOUND_RE :: rx where "NOT_FOUND_RE = alts [ci ''http 404'', ci ''could not resolve'']"
definition REJECTED_RE :: rx where
  "REJECTED_RE = alts [cat [ci ''http 4'', alts [lit ''00'', lit ''09'', lit ''22'']], ci ''validation failed'',
     cat [ci ''could not '', alts [ci ''add'', ci ''remove''], ci '' label'']]"

definition classify_stderr :: "string \<Rightarrow> string" where
  "classify_stderr e = (if search VERSION_STDERR_RE e then ''gh_version'' else if search RATE_LIMIT_RE e then ''gh_rate_limited''
     else if search AUTH_RE e then ''gh_auth'' else if search NOT_FOUND_RE e then ''gh_not_found''
     else if search REJECTED_RE e then ''gh_rejected'' else ''gh_unavailable'')"

definition positive_number :: "json \<Rightarrow> int res" where
  "positive_number v = (if \<not> is_int v \<or> int_of v \<le> 0 then Inl (ValueErr ''issue number must be a positive integer'') else Inr (int_of v))"

text \<open>\<^verbatim>\<open>_gh\<close> with the attributes of its error, and as an operation that raises it.\<close>

definition gh_try :: "'g gh_world \<Rightarrow> string list \<Rightarrow> string option \<Rightarrow> 'g \<Rightarrow> (gh_error + string) \<times> 'g" where
  "gh_try w args body g = (case gh_command w args body g of (r, g') \<Rightarrow> let verb = gh_verb args in
     (case r of
        GhMissing \<Rightarrow> Inl (gh_error_of ''gh_missing'' verb)
      | GhFailed \<Rightarrow> Inl (gh_error_of ''gh_unavailable'' verb)
      | GhTimeout out \<Rightarrow> Inl ((gh_error_of ''gh_unavailable'' verb)\<lparr>err_partial := out\<rparr>)
      | GhExit code out err \<Rightarrow> if code = 0 then Inr out
          else Inl ((gh_error_of (classify_stderr err) verb)\<lparr>err_returncode := Some code, err_blank := (strip err = [])\<rparr>), g'))"

definition gh_with :: "'g gh_world \<Rightarrow> string list \<Rightarrow> string option \<Rightarrow> ('g, string) op" where
  "gh_with w args body g = (case gh_try w args body g of (Inl e, g') \<Rightarrow> (Inl (gh_fail (err_code e)), g') | (Inr out, g') \<Rightarrow> (Inr out, g'))"

definition gh :: "'g gh_world \<Rightarrow> string list \<Rightarrow> ('g, string) op" where "gh w args = gh_with w args None"

definition gh_api :: "'g gh_world \<Rightarrow> string list \<Rightarrow> ('g, string) op" where
  "gh_api w args = gh w ([''api'', ''-H'', ''Accept: application/vnd.github+json''] @ args)"

definition decode_json :: "json option \<Rightarrow> string \<Rightarrow> json res" where
  "decode_json fallback out = (if strip out = [] then (case fallback of Some v \<Rightarrow> Inr v | None \<Rightarrow> Inl (gh_fail ''gh_invalid''))
     else (case loads out of None \<Rightarrow> Inl (gh_fail ''gh_invalid'') | Some v \<Rightarrow> Inr v))"

definition flatten_pages :: "json \<Rightarrow> json list res" where
  "flatten_pages data = (if \<not> is_list data \<or> list_ex (\<lambda>p. \<not> is_list p) (items data) then Inl (gh_fail ''gh_invalid'') else Inr (concat (map items (items data))))"

fun is_key_error :: "exn \<Rightarrow> bool" where
  "is_key_error (KeyErr _) = True" | "is_key_error _ = False"

definition issue_from_payload :: "(string \<Rightarrow> string) \<Rightarrow> string \<Rightarrow> json \<Rightarrow> issue_todo res" where
  "issue_from_payload hash_of repo payload = (if \<not> is_dict payload then Inl (gh_fail ''gh_invalid'')
     else (case issue_from_api hash_of repo (dict_of payload) of Inr i \<Rightarrow> Inr i
       | Inl e \<Rightarrow> if e = NotAnIssueError then Inl (gh_fail ''not_an_issue'')
           else if is_value_error e \<or> e = TypeErr \<or> is_key_error e then Inl (gh_fail ''gh_invalid'') else Inl e))"

section \<open>Repositories\<close>

definition seg_char :: "char \<Rightarrow> bool" where "seg_char c \<longleftrightarrow> alnum c \<or> c \<in> set ''_.-''"

definition segment :: "string \<Rightarrow> bool" where "segment s \<longleftrightarrow> s \<noteq> [] \<and> list_all seg_char s"

definition valid_segments :: "string list \<Rightarrow> bool" where
  "valid_segments ss \<longleftrightarrow> list_all (\<lambda>s. s \<notin> {''.'', ''..'', ''.git''} \<and> \<not> contains s ''..'') ss"

text \<open>What follows the host in a GitHub remote URL; the part before an at sign may stand before the host.\<close>

definition after_host :: "string \<Rightarrow> string option" where
  "after_host url = (let tail = (\<lambda>p s. if startswith s p then Some (drop (length p) s) else None);
       web = (\<lambda>s. let user = takeWhile (\<lambda>c. c \<notin> set ''@/'' \<and> not_space c) s; rest = drop (length user) s in
         case tail ''github.com/'' s of Some t \<Rightarrow> Some t
         | None \<Rightarrow> if user \<noteq> [] \<and> startswith rest ''@'' then tail ''github.com/'' (tl rest) else None)
     in case tail ''https://'' url of Some s \<Rightarrow> web s
        | None \<Rightarrow> (case tail ''http://'' url of Some s \<Rightarrow> web s
            | None \<Rightarrow> (case tail ''ssh://git@github.com/'' url of Some s \<Rightarrow> Some s | None \<Rightarrow> tail ''git@github.com:'' url)))"

definition parse_github_remote :: "string \<Rightarrow> string option" where
  "parse_github_remote url = (case after_host (strip url) of None \<Rightarrow> None
     | Some s \<Rightarrow>
         let owner = takeWhile seg_char s; r = drop (length owner) s; t = tl r;
             u = (if endswith t ''/'' then butlast t else t);
             name = (if endswith u ''.git'' \<and> 4 < length u then take (length u - 4) u else u)
         in if owner = [] \<or> \<not> startswith r ''/'' \<or> \<not> segment name \<or> \<not> valid_segments [owner, name] then None else Some (owner @ ''/'' @ name))"

definition validate_repo :: "string \<Rightarrow> string res" where
  "validate_repo repo = (let owner = takeWhile seg_char repo; r = drop (length owner) repo in
     if owner = [] \<or> \<not> startswith r ''/'' \<or> \<not> segment (tl r) \<or> \<not> valid_segments (split_on (CHR ''/'') repo)
     then Inl (gh_fail ''origin_identity_invalid'') else Inr repo)"

definition repository_identity :: "'g gh_world \<Rightarrow> 'g \<Rightarrow> string res" where
  "repository_identity w g = (case git_origin w g of
       GhExit code out err \<Rightarrow> (case (if code = 0 then parse_github_remote out else None) of
           None \<Rightarrow> Inl (gh_fail ''origin_identity_invalid'') | Some repo \<Rightarrow> Inr repo)
     | _ \<Rightarrow> Inl (gh_fail ''origin_identity_invalid''))"

definition repo_or_origin :: "'g gh_world \<Rightarrow> string option \<Rightarrow> ('g, string) op" where
  "repo_or_origin w repo = (case repo of None \<Rightarrow> reads (repository_identity w) | Some r \<Rightarrow> lift_res (validate_repo r))"

section \<open>Reading\<close>

text \<open>One malformed issue is skipped; a response of which nothing can be used raises.\<close>

fun collect_issues :: "(json \<Rightarrow> issue_todo res) \<Rightarrow> json list \<Rightarrow> issue_todo list \<Rightarrow> nat \<Rightarrow> (issue_todo list \<times> nat) res" where
  "collect_issues f [] acc skipped = Inr (acc, skipped)"
| "collect_issues f (p # ps) acc skipped =
     (if is_dict p \<and> has_key (dict_of p) ''pull_request'' then collect_issues f ps acc skipped
      else (case f p of Inr i \<Rightarrow> collect_issues f ps (acc @ [i]) skipped
        | Inl (GitHubIssuesError _) \<Rightarrow> collect_issues f ps acc (Suc skipped)
        | Inl e \<Rightarrow> if is_value_error e then collect_issues f ps acc (Suc skipped) else Inl e))"

definition list_issues :: "'g gh_world \<Rightarrow> string \<Rightarrow> string \<Rightarrow> ('g, issue_todo list) op" where
  "list_issues w repo params = bind_op (gh_api w [''--paginate'', ''--slurp'', ''repos/'' @ repo @ ''/issues?'' @ params]) (\<lambda>out.
     lift_res (rbind (decode_json (Some (JList [])) out) (\<lambda>data.
       rbind (flatten_pages data) (\<lambda>ps.
       rbind (collect_issues (issue_from_payload (text_hash w) repo) ps [] 0) (\<lambda>(found, skipped).
       if 0 < skipped \<and> found = [] then Inl (gh_fail ''gh_invalid'') else Inr (sort_issues found))))))"

text \<open>\<^verbatim>\<open>urllib.parse.quote(s, safe="")\<close>, over the UTF-8 bytes.\<close>

definition upper_hex :: "nat \<Rightarrow> char" where "upper_hex n = (if n < 10 then char_of (48 + n) else char_of (55 + n))"

definition percent :: "nat \<Rightarrow> string" where "percent n = [CHR 0x25, upper_hex (n div 16), upper_hex (n mod 16)]"

definition quote_char :: "char \<Rightarrow> string" where
  "quote_char c = (let n = of_char c :: nat in if alnum c \<or> c \<in> set ''_.-~'' then [c] else if n < 128 then percent n
     else percent (192 + n div 64) @ percent (128 + n mod 64))"

definition find_issues_by_label :: "'g gh_world \<Rightarrow> string \<Rightarrow> string \<Rightarrow> string option \<Rightarrow> ('g, issue_todo list) op" where
  "find_issues_by_label w label state repo = then_op (lift_res (raise_if (state \<notin> {''open'', ''closed'', ''all''}) (ValueErr ''state must be one of: open, closed, all'')))
     (bind_op (repo_or_origin w repo) (\<lambda>r. list_issues w r (''state='' @ state @ ''&labels='' @ concat (map quote_char label) @ ''&per_page=100'')))"

definition list_todo_issues :: "'g gh_world \<Rightarrow> string option \<Rightarrow> ('g, issue_todo list) op" where
  "list_todo_issues w repo = find_issues_by_label w TODO_LABEL ''open'' repo"

definition list_all_issues :: "'g gh_world \<Rightarrow> string option \<Rightarrow> ('g, issue_todo list) op" where
  "list_all_issues w repo = bind_op (repo_or_origin w repo) (\<lambda>r. list_issues w r ''state=all&per_page=100'')"

definition issue_path :: "string \<Rightarrow> int \<Rightarrow> string" where "issue_path repo n = ''repos/'' @ repo @ ''/issues/'' @ dec_int n"

definition fetch_issue :: "'g gh_world \<Rightarrow> json \<Rightarrow> string option \<Rightarrow> ('g, issue_todo) op" where
  "fetch_issue w number repo = bind_op (lift_res (positive_number number)) (\<lambda>n. bind_op (repo_or_origin w repo) (\<lambda>r.
     bind_op (gh_api w [issue_path r n]) (\<lambda>out. lift_res (rbind (decode_json None out) (issue_from_payload (text_hash w) r)))))"

text \<open>The drift of a live issue from the hash a registration pins.\<close>

definition issue_drift :: "'g gh_world \<Rightarrow> dict \<Rightarrow> bool \<Rightarrow> issue_todo \<Rightarrow> string option" where
  "issue_drift w payload allow_closed live = (let pinned = str_of (dget payload ''selected_entry_hash'') in
     if lower (issue_url live) \<noteq> lower (str_of (dget payload ''issue_url'')) then Some ''issue_identity_mismatch''
     else if issue_state live \<noteq> ''open'' \<and> (\<not> allow_closed \<or> issue_state live \<noteq> ''closed'') then Some ''issue_closed''
     else if issue_state live \<noteq> ''open'' \<and> state_reason live = Some ''not_planned'' then Some ''issue_not_planned''
     else if has_label live ON_HOLD_LABEL \<or> has_label live ''wontfix'' then Some ''issue_on_hold''
     else if entry_hash live = pinned \<or> (py_eq (dget payload ''schema_version'') (JInt 2) \<and> legacy_v2_snapshot_hash (text_hash w) (issue_snapshot live) = Inr pinned)
     then None else Some ''issue_drift'')"

definition check_issue_drift :: "'g gh_world \<Rightarrow> dict \<Rightarrow> string option \<Rightarrow> issue_todo option \<Rightarrow> bool \<Rightarrow> ('g, string option) op" where
  "check_issue_drift w payload repo live allow_closed = (let number = dget payload ''issue_number'' in
     if \<not> is_int number \<or> int_of number \<le> 0 \<or> \<not> is_str (dget payload ''selected_entry_hash'') \<or> \<not> is_str (dget payload ''issue_url'')
     then ret (Some ''issue_unavailable:registration_invalid'')
     else (case live of Some i \<Rightarrow> ret (issue_drift w payload allow_closed i)
       | None \<Rightarrow> catch_op (bind_op (fetch_issue w number repo) (\<lambda>i. ret (issue_drift w payload allow_closed i)))
           (\<lambda>e. case e of GitHubIssuesError code \<Rightarrow> ret (Some (''issue_unavailable:'' @ code)) | _ \<Rightarrow> raise e)))"

definition comment_of :: "json \<Rightarrow> (string \<times> string) res" where
  "comment_of c = (if \<not> is_dict c then Inl (gh_fail ''gh_invalid'')
     else let user = dget (dict_of c) ''user'' in
       Inr (if is_dict user then str_or_empty (dget (dict_of user) ''login'') else [], str_or_empty (dget (dict_of c) ''body'')))"

definition list_comments :: "'g gh_world \<Rightarrow> json \<Rightarrow> string option \<Rightarrow> ('g, (string \<times> string) list) op" where
  "list_comments w number repo = bind_op (lift_res (positive_number number)) (\<lambda>n. bind_op (repo_or_origin w repo) (\<lambda>r.
     bind_op (gh_api w [''--paginate'', ''--slurp'', issue_path r n @ ''/comments'']) (\<lambda>out.
       lift_res (rbind (decode_json (Some (JList [])) out) (\<lambda>data. rbind (flatten_pages data) (rmap comment_of))))))"

definition list_comment_bodies :: "'g gh_world \<Rightarrow> json \<Rightarrow> string option \<Rightarrow> ('g, string list) op" where
  "list_comment_bodies w number repo = bind_op (list_comments w number repo) (\<lambda>cs. ret (map snd cs))"

definition current_login :: "'g gh_world \<Rightarrow> ('g, string) op" where
  "current_login w = bind_op (gh_api w [''user'', ''--jq'', ''.login'']) (\<lambda>out. let login = strip out in
     if login = [] \<or> newline \<in> set login then raise (gh_fail ''gh_invalid'') else ret login)"

text \<open>\<^verbatim>\<open>gh version (\d+)\.(\d+)(?:\.(\d+))?\<close>: the numbers of its first match.\<close>

definition version_at :: "string \<Rightarrow> nat list option" where
  "version_at s = (let num = takeWhile is_digit; t = drop 11 s; a = num t; u = drop (length a) t; b = num (tl u); v = drop (length b) (tl u); c = num (tl v) in
     if startswith s ''gh version '' \<and> a \<noteq> [] \<and> startswith u ''.'' \<and> b \<noteq> []
     then Some (map undec ([a, b] @ (if startswith v ''.'' \<and> c \<noteq> [] then [c] else []))) else None)"

fun find_version :: "string \<Rightarrow> nat list option" where
  "find_version [] = None"
| "find_version (c # s) = (case version_at (c # s) of Some v \<Rightarrow> Some v | None \<Rightarrow> find_version s)"

fun tuple_less :: "nat list \<Rightarrow> nat list \<Rightarrow> bool" where
  "tuple_less [] ys = (ys \<noteq> [])"
| "tuple_less (x # xs) [] = False"
| "tuple_less (x # xs) (y # ys) = (x < y \<or> (x = y \<and> tuple_less xs ys))"

definition check_auth :: "'g gh_world \<Rightarrow> ('g, unit) op" where
  "check_auth w g = (case gh_try w [''auth'', ''status'', ''--hostname'', ''github.com''] None g of
       (Inl e, g1) \<Rightarrow> (Inl (gh_fail (if err_code e = ''gh_unavailable'' \<and> err_returncode e \<noteq> None \<and> err_blank e then ''gh_auth'' else err_code e)), g1)
     | (Inr _, g1) \<Rightarrow> bind_op (gh w [''--version'']) (\<lambda>out.
         case find_version out of Some v \<Rightarrow> if tuple_less v MIN_GH_VERSION then raise (gh_fail ''gh_version'') else ret ()
         | None \<Rightarrow> raise (gh_fail ''gh_version'')) g1)"

definition list_labels :: "'g gh_world \<Rightarrow> string option \<Rightarrow> ('g, string list) op" where
  "list_labels w repo = bind_op (repo_or_origin w repo) (\<lambda>r.
     bind_op (gh w [''label'', ''list'', ''--repo'', r, ''--json'', ''name'', ''--limit'', dec LABEL_LIST_LIMIT]) (\<lambda>out.
     lift_res (rbind (decode_json (Some (JList [])) out) (\<lambda>data.
       if \<not> is_list data \<or> list_ex (\<lambda>x. \<not> is_dict x \<or> \<not> is_str (dget (dict_of x) ''name'')) (items data) then Inl (gh_fail ''gh_invalid'')
       else if LABEL_LIST_LIMIT \<le> length (items data) then Inl (gh_fail ''gh_truncated'')
       else Inr (map (\<lambda>x. str_of (dget (dict_of x) ''name'')) (items data))))))"

section \<open>Writing\<close>

definition on_issue :: "'g gh_world \<Rightarrow> json \<Rightarrow> string option \<Rightarrow> (string \<Rightarrow> int \<Rightarrow> string list) \<Rightarrow> string option \<Rightarrow> ('g, unit) op" where
  "on_issue w number repo args body = bind_op (lift_res (positive_number number)) (\<lambda>n.
     then_op (lift_res (raise_if (case body of None \<Rightarrow> False | Some t \<Rightarrow> MAX_ISSUE_BODY_CHARS < length t) (ValueErr ''issue body exceeds 65536 characters'')))
     (bind_op (repo_or_origin w repo) (\<lambda>r. bind_op (gh_with w (args r n) body) (\<lambda>_. ret ()))))"

definition BODY_FILE :: string where "BODY_FILE = ''<body file>''"

definition add_label :: "'g gh_world \<Rightarrow> json \<Rightarrow> string \<Rightarrow> string option \<Rightarrow> ('g, unit) op" where
  "add_label w number label repo = on_issue w number repo (\<lambda>r n. [''issue'', ''edit'', dec_int n, ''--repo'', r, ''--add-label'', label]) None"

definition remove_label :: "'g gh_world \<Rightarrow> json \<Rightarrow> string \<Rightarrow> string option \<Rightarrow> ('g, unit) op" where
  "remove_label w number label repo = on_issue w number repo (\<lambda>r n. [''issue'', ''edit'', dec_int n, ''--repo'', r, ''--remove-label'', label]) None"

definition update_issue_body :: "'g gh_world \<Rightarrow> json \<Rightarrow> string \<Rightarrow> string option \<Rightarrow> ('g, unit) op" where
  "update_issue_body w number body repo = on_issue w number repo (\<lambda>r n. [''issue'', ''edit'', dec_int n, ''--repo'', r, ''--body-file'', BODY_FILE]) (Some body)"

definition add_comment :: "'g gh_world \<Rightarrow> json \<Rightarrow> string \<Rightarrow> string option \<Rightarrow> ('g, unit) op" where
  "add_comment w number body repo = on_issue w number repo (\<lambda>r n. [''issue'', ''comment'', dec_int n, ''--repo'', r, ''--body-file'', BODY_FILE]) (Some body)"

definition close_issue :: "'g gh_world \<Rightarrow> json \<Rightarrow> string option \<Rightarrow> ('g, unit) op" where
  "close_issue w number repo = on_issue w number repo (\<lambda>r n. [''issue'', ''close'', dec_int n, ''--repo'', r, ''--reason'', ''completed'']) None"

text \<open>The loop that creates missing labels; its failure carries what was created before.\<close>

fun create_labels :: "'g gh_world \<Rightarrow> string \<Rightarrow> (string \<times> string \<times> string) list \<Rightarrow> string list \<Rightarrow> string list \<Rightarrow> 'g \<Rightarrow> (gh_error + string list) \<times> 'g" where
  "create_labels w repo [] existing created g = (Inr (sort_strs created), g)"
| "create_labels w repo ((name, color, description) # ls) existing created g =
     (if lower name \<in> set existing then create_labels w repo ls existing created g
      else (case gh_try w [''label'', ''create'', ''--repo'', repo, ''--color'', color, ''--description'', description, ''--force'', ''--'', name] None g of
          (Inl e, g1) \<Rightarrow> (Inl (e\<lparr>err_created := sort_strs created\<rparr>), g1)
        | (Inr _, g1) \<Rightarrow> create_labels w repo ls (lower name # existing) (created @ [name]) g1))"

definition ensure_labels :: "'g gh_world \<Rightarrow> string option \<Rightarrow> (string \<times> string \<times> string) list \<Rightarrow> ('g, gh_error + string list) op" where
  "ensure_labels w repo extra = bind_op (repo_or_origin w repo) (\<lambda>r. bind_op (list_labels w (Some r)) (\<lambda>names.
     (\<lambda>g. case create_labels w r (LABEL_VOCABULARY @ extra) (map lower names) [] g of (x, g1) \<Rightarrow> (Inr x, g1))))"

text \<open>\<^verbatim>\<open>https://github\.com/(owner/name)/issues/(\d+)/?\s*$\<close> at the start of a text, and its first match in one.\<close>

definition issue_url_at :: "string \<Rightarrow> (string \<times> nat) option" where
  "issue_url_at s = (let t = drop 19 s; owner = takeWhile seg_char t; u = drop (length owner) t; name = takeWhile seg_char (tl u); v = drop (length name) (tl u);
       ds = takeWhile is_digit (drop 8 v); r = drop (length ds) (drop 8 v); r' = (if startswith r ''/'' then tl r else r)
     in if startswith s ''https://github.com/'' \<and> owner \<noteq> [] \<and> startswith u ''/'' \<and> name \<noteq> [] \<and> startswith v ''/issues/'' \<and> ds \<noteq> [] \<and> list_all is_space r'
        then Some (owner @ ''/'' @ name, undec ds) else None)"

fun find_issue_url :: "string \<Rightarrow> (string \<times> nat) option" where
  "find_issue_url [] = None"
| "find_issue_url (c # s) = (case issue_url_at (c # s) of Some v \<Rightarrow> Some v | None \<Rightarrow> find_issue_url s)"

definition issue_number_from_url :: "string \<Rightarrow> string \<Rightarrow> int option" where
  "issue_number_from_url out repo = (case find_issue_url out of None \<Rightarrow> None
     | Some (r, n) \<Rightarrow> if lower r \<noteq> lower repo then None else Some (int n))"

definition create_issue :: "'g gh_world \<Rightarrow> string \<Rightarrow> string \<Rightarrow> string list \<Rightarrow> string option \<Rightarrow> ('g, int) op" where
  "create_issue w title body labels repo =
     then_op (lift_res (raise_if (MAX_ISSUE_BODY_CHARS < length body) (ValueErr ''issue body exceeds 65536 characters'')))
     (bind_op (repo_or_origin w repo) (\<lambda>r g.
       case gh_try w ([''issue'', ''create'', ''--repo'', r, ''--title'', title, ''--body-file'', BODY_FILE] @ concat (map (\<lambda>l. [''--label'', l]) labels)) (Some body) g of
         (Inr out, g1) \<Rightarrow> ((case issue_number_from_url out r of Some n \<Rightarrow> Inr n | None \<Rightarrow> Inl (gh_fail ''gh_invalid'')), g1)
       | (Inl e, g1) \<Rightarrow> ((case (if err_code e = ''gh_unavailable'' \<and> err_partial e \<noteq> [] then issue_number_from_url (err_partial e) r else None) of
             Some n \<Rightarrow> Inr n | None \<Rightarrow> Inl (gh_fail (err_code e))), g1)))"

definition add_blocked_by :: "'g gh_world \<Rightarrow> json \<Rightarrow> json \<Rightarrow> string option \<Rightarrow> ('g, unit) op" where
  "add_blocked_by w number blocker repo = bind_op (lift_res (positive_number number)) (\<lambda>n. bind_op (lift_res (positive_number blocker)) (\<lambda>b.
     bind_op (repo_or_origin w repo) (\<lambda>r. bind_op (gh_api w [issue_path r b]) (\<lambda>out.
     bind_op (lift_res (decode_json None out)) (\<lambda>payload.
       if \<not> is_dict payload then raise (gh_fail ''gh_invalid'')
       else if has_key (dict_of payload) ''pull_request'' then raise (gh_fail ''not_an_issue'')
       else if \<not> is_int (dget (dict_of payload) ''id'') then raise (gh_fail ''gh_invalid'')
       else catch_op (bind_op (gh_api w [''--method'', ''POST'', issue_path r n @ ''/dependencies/blocked_by'', ''-F'', ''issue_id='' @ dec_int (int_of (dget (dict_of payload) ''id''))]) (\<lambda>_. ret ()))
         (\<lambda>e. if e = gh_fail ''gh_rejected'' then ret () else raise e))))))"

end
