(* ===== verification/RunAuthority.thy ===== *)
theory RunAuthority
  imports IssueClient PhaseProfile
begin

text \<open>
  \<^verbatim>\<open>load_validated_registration\<close> of \<^verbatim>\<open>hermes_pipeline/result_contract.py\<close>: the registration of a run, checked
  against its worktree, its Plan and the issue snapshot it pins.

  Bytes are strings of 8-bit characters.  Git is the query of \<^theory_text>\<open>ResultGit\<close>; the verified reading of a Plan
  artifact and the identity of the origin are parameters of a call.
\<close>

section \<open>UTF-8\<close>

definition utf8_encode :: "string \<Rightarrow> string" where
  "utf8_encode s = concat (map (\<lambda>c. let n = of_char c :: nat in if n < 128 then [c] else [char_of (192 + n div 64), char_of (128 + n mod 64)]) s)"

text \<open>\<^const>\<open>None\<close>: \<^verbatim>\<open>UnicodeDecodeError\<close> (or a character above 255).\<close>

fun utf8_decode :: "string \<Rightarrow> string option" where
  "utf8_decode [] = Some []"
| "utf8_decode (c # s) = (let n = of_char c :: nat in
     if n < 128 then map_option (\<lambda>t. c # t) (utf8_decode s)
     else (case s of [] \<Rightarrow> None
       | d # t \<Rightarrow> (let m = of_char d :: nat in
           if n \<in> {194, 195} \<and> 128 \<le> m \<and> m < 192 then map_option (\<lambda>u. char_of ((n - 192) * 64 + (m - 128)) # u) (utf8_decode t) else None)))"

section \<open>Registrations\<close>

record run_registration =
  run_todo :: string
  run_repository :: "string list"
  run_base_sha :: string
  run_issue_number :: int
  run_issue_url :: string
  run_plan_path :: "string option"
  run_branch :: string
  run_worktree :: "string list"
  run_step_keys :: "string list"
  run_manifest :: "plan_manifest option"
  run_assignee :: string
  run_review_assignee :: "string option"
  run_client :: string
  run_plan_hash :: string
  run_plan_kind :: string
  run_plan_reference :: string
  run_plan_source :: plan_source
  run_profile :: string
  run_policy_mode :: string
  run_supervised :: bool
  run_phases :: "phase list"
  run_snapshot :: string

definition BASE_KEYS :: "string list" where
  "BASE_KEYS = [''schema_version'', ''tick_id'', ''todo_id'', ''repository'', ''base_sha'', ''issue_number'', ''issue_url'', ''issue_snapshot'',
     ''selected_entry_hash'', ''plan_path'', ''plan_hash'', ''branch'', ''worktree'', ''profile'', ''prompt_client'', ''assignee'', ''review_assignee'', ''step_keys'']"

definition V3_KEYS :: "string list" where "V3_KEYS = BASE_KEYS @ [''plan_source_kind'', ''plan_artifact'']"
definition V4_KEYS :: "string list" where "V4_KEYS = V3_KEYS @ [''agent_policy_mode'']"

definition keys_of_version :: "int \<Rightarrow> string list" where
  "keys_of_version v = (if v = 2 then BASE_KEYS else if v = 3 then V3_KEYS else if v \<le> 5 then V4_KEYS else V4_KEYS @ [''phase_definitions''])"

definition STRING_KEYS :: "string list" where
  "STRING_KEYS = [''todo_id'', ''repository'', ''base_sha'', ''issue_url'', ''issue_snapshot'', ''selected_entry_hash'', ''plan_hash'', ''branch'', ''worktree'',
     ''profile'', ''prompt_client'', ''assignee'']"

record run_world =
  path_resolve :: "string \<Rightarrow> string list"
  run_git_query :: git_query
  bytes_hash :: "string \<Rightarrow> string"
  read_artifact :: "string list \<Rightarrow> string \<Rightarrow> string res"
  origin_identity :: "string res"

definition bad_registration :: exn where "bad_registration = ResultContractError ''registration_invalid''"

definition reject :: "bool \<Rightarrow> unit res" where "reject b = raise_if b bad_registration"

definition full_str :: "json \<Rightarrow> bool" where "full_str v \<longleftrightarrow> is_str v \<and> str_of v \<noteq> []"

definition version_of :: "dict \<Rightarrow> int" where "version_of d = int_of (dget d ''schema_version'')"

text \<open>The agent policy mode of a registration.\<close>

definition policy_ok :: "dict \<Rightarrow> bool" where
  "policy_ok d \<longleftrightarrow> (let mode = dget d ''agent_policy_mode''; native = dget d ''profile'' = JStr ''native-sdd'' in
     if version_of d < 4 then True
     else if version_of d = 4 then mode = JStr ''delegated'' \<and> native
     else mode = JStr ''inherit'' \<or> (mode = JStr ''delegated'' \<and> native))"

definition policy_mode :: "dict \<Rightarrow> string" where
  "policy_mode d = (if version_of d < 4 then ''inherit'' else str_of (dget d ''agent_policy_mode''))"

definition kind_of :: "dict \<Rightarrow> string" where
  "kind_of d = (if version_of d = 2 then ''legacy_path'' else str_of (dget d ''plan_source_kind''))"

definition plan_fields_ok :: "dict \<Rightarrow> bool" where
  "plan_fields_ok d \<longleftrightarrow> (let path = dget d ''plan_path'' in
     if version_of d = 2 then full_str path
     else str_in (dget d ''plan_source_kind'') [''embedded'', ''legacy_path'']
       \<and> (if kind_of d = ''embedded'' then path = JNull \<and> dget d ''plan_artifact'' = JStr ''plan.md'' else full_str path \<and> dget d ''plan_artifact'' = JNull))"

definition profile_name_ok :: "string \<Rightarrow> bool" where
  "profile_name_ok = first_then slug_char (\<lambda>c. slug_char c \<or> c \<in> set ''._-'') 63"

definition steps_ok :: "json \<Rightarrow> bool" where
  "steps_ok v \<longleftrightarrow> is_list v \<and> items v \<noteq> [] \<and> length (items v) \<le> 200 \<and> list_all (\<lambda>x. is_str x \<and> str_of x \<noteq> [] \<and> length (str_of x) \<le> 256) (items v)
     \<and> distinct (items v)"

text \<open>The checks on the fields of a registration alone.\<close>

definition registration_fields :: "string \<Rightarrow> dict \<Rightarrow> unit res" where
  "registration_fields tick_id d = run_checks [
     reject (\<not> is_int (dget d ''schema_version'') \<or> version_of d \<notin> set SUPPORTED_REGISTRATION_SCHEMA_VERSIONS),
     exact_keys d (keys_of_version (version_of d)) ''registration_invalid'',
     reject (\<not> policy_ok d),
     reject_unsafe_strings (JObj (filter (\<lambda>kv. fst kv \<noteq> ''issue_snapshot'') d)),
     reject (\<not> is_str (dget d ''issue_snapshot'') \<or> MAX_ISSUE_SNAPSHOT_CHARS < length (str_of (dget d ''issue_snapshot''))),
     reject (dget d ''tick_id'' \<noteq> JStr tick_id),
     reject (list_ex (\<lambda>k. \<not> full_str (dget d k)) STRING_KEYS),
     reject (\<not> plan_fields_ok d),
     reject (\<not> is_int (dget d ''issue_number'') \<or> int_of (dget d ''issue_number'') \<le> 0),
     reject (dget d ''review_assignee'' \<noteq> JNull \<and> \<not> full_str (dget d ''review_assignee'')),
     reject (\<not> profile_name_ok (str_of (dget d ''profile''))),
     reject (\<not> sha_ok (str_of (dget d ''base_sha'')) \<or> \<not> hex_of_length 64 (str_of (dget d ''selected_entry_hash'')) \<or> \<not> hex_of_length 64 (str_of (dget d ''plan_hash''))),
     reject (\<not> steps_ok (dget d ''step_keys''))]"

definition slashed :: "string list \<Rightarrow> string" where
  "slashed parts = (if parts = [] then ''/'' else concat (map (\<lambda>p. ''/'' @ p) parts))"

text \<open>The worktree is the repository's, under its directory of worktrees, on the pinned branch.\<close>

definition worktree_checks :: "run_world \<Rightarrow> string list \<Rightarrow> dict \<Rightarrow> unit res" where
  "worktree_checks w project d = (let repository = path_resolve w (str_of (dget d ''repository'')); worktree = path_resolve w (str_of (dget d ''worktree'')) in
     rbind (reject (repository \<noteq> project \<or> butlast worktree \<noteq> repository @ [''.worktrees''])) (\<lambda>_.
     rbind (git_out (run_git_query w) (slashed worktree) [''rev-parse'', ''--path-format=absolute'', ''--git-common-dir'']) (\<lambda>common.
     rbind (git_out (run_git_query w) (slashed worktree) [''branch'', ''--show-current'']) (\<lambda>branch.
     reject (path_resolve w common \<noteq> path_resolve w (slashed (repository @ [''.git''])) \<or> branch \<noteq> str_of (dget d ''branch''))))))"

definition plan_bytes :: "run_world \<Rightarrow> string list \<Rightarrow> dict \<Rightarrow> string res" where
  "plan_bytes w run_dir d = (let repository = path_resolve w (str_of (dget d ''repository'')); path = str_of (dget d ''plan_path'') in
     if kind_of d = ''embedded'' then
       (case read_artifact w (run_dir @ [''plan.md'']) (str_of (dget d ''plan_hash'')) of Inr b \<Rightarrow> Inr b
        | Inl (RunRegistrationError _) \<Rightarrow> Inl bad_registration | Inl e \<Rightarrow> Inl e)
     else rbind (reject (startswith path ''/'' \<or> ''..'' \<in> set (path_segments path) \<or> backslash \<in> set path)) (\<lambda>_.
       case git_raw (run_git_query w) (slashed repository) [''show'', str_of (dget d ''base_sha'') @ '':'' @ path] of Inr b \<Rightarrow> Inr b
       | Inl (ResultContractError _) \<Rightarrow> Inl bad_registration | Inl e \<Rightarrow> Inl e))"

definition text_digest :: "run_world \<Rightarrow> string \<Rightarrow> string" where "text_digest w t = bytes_hash w (utf8_encode t)"

definition pinned_manifest :: "run_world \<Rightarrow> dict \<Rightarrow> string \<Rightarrow> (string \<times> plan_manifest option) res" where
  "pinned_manifest w d bytes = rbind (reject (bytes_hash w bytes \<noteq> str_of (dget d ''plan_hash''))) (\<lambda>_.
     case utf8_decode bytes of None \<Rightarrow> Inl bad_registration
     | Some t \<Rightarrow> (case parse_plan_manifest (str_of (dget d ''todo_id'')) t of Inr m \<Rightarrow> Inr (t, m)
         | Inl e \<Rightarrow> if is_value_error e then Inl bad_registration else Inl e))"

text \<open>The issue that the snapshot describes is the one the registration names, and its Plan the pinned one.\<close>

definition issue_url_of :: "string \<Rightarrow> nat \<Rightarrow> string" where
  "issue_url_of repo number = ''https://github.com/'' @ repo @ ''/issues/'' @ dec number"

definition snapshot_parts :: "run_world \<Rightarrow> dict \<Rightarrow> (string \<times> nat \<times> string \<times> string) res" where
  "snapshot_parts w d = (let snapshot = str_of (dget d ''issue_snapshot'') in
     rbind (reject (text_digest w snapshot \<noteq> str_of (dget d ''selected_entry_hash''))) (\<lambda>_.
     case split_canonical_snapshot snapshot of Inr p \<Rightarrow> Inr p | Inl _ \<Rightarrow> Inl bad_registration))"

definition repo_of_run :: "run_world \<Rightarrow> string option \<Rightarrow> string res" where
  "repo_of_run w repo = (case repo of Some r \<Rightarrow> Inr r
     | None \<Rightarrow> (case origin_identity w of Inr r \<Rightarrow> Inr r | Inl (GitHubIssuesError _) \<Rightarrow> Inl failed_query | Inl e \<Rightarrow> Inl e))"

definition issue_identity_ok :: "dict \<Rightarrow> string \<Rightarrow> string \<Rightarrow> nat \<Rightarrow> bool" where
  "issue_identity_ok d repo snapshot_repo number \<longleftrightarrow> lower snapshot_repo = lower repo \<and> JInt (int number) = dget d ''issue_number''
     \<and> dget d ''todo_id'' = JStr (''TODO-'' @ dec number) \<and> lower (str_of (dget d ''issue_url'')) = lower (issue_url_of snapshot_repo number)"

definition embedded_authority :: "run_world \<Rightarrow> dict \<Rightarrow> string \<Rightarrow> string \<Rightarrow> unit res" where
  "embedded_authority w d bytes body = (if kind_of d \<noteq> ''embedded'' then Inr ()
     else (case embedded_plan_source (text_digest w) (str_of (dget d ''todo_id'')) (body @ [newline]) of
         Inl e \<Rightarrow> if is_value_error e then Inl bad_registration else Inl e
       | Inr None \<Rightarrow> Inl bad_registration
       | Inr (Some src) \<Rightarrow> reject (source_hash src \<noteq> str_of (dget d ''plan_hash'') \<or> utf8_encode (source_document src) \<noteq> bytes)))"

definition worktree_name :: "nat \<Rightarrow> string \<Rightarrow> string" where
  "worktree_name number title = rstrip_while (\<lambda>c. c = CHR ''-'') (take 100 (''todo-'' @ dec number @ ''-'' @ slug_of (lower title)))"

definition issue_fields_ok :: "run_world \<Rightarrow> dict \<Rightarrow> nat \<Rightarrow> string \<Rightarrow> string \<Rightarrow> bool" where
  "issue_fields_ok w d number title body \<longleftrightarrow> (let repository = path_resolve w (str_of (dget d ''repository'')); worktree = path_resolve w (str_of (dget d ''worktree''));
       s = parse_issue_body body in
     worktree = path_resolve w (slashed (repository @ [''.worktrees'', worktree_name number title]))
     \<and> (kind_of d = ''legacy_path'' \<longrightarrow> first_lines (section_values s ''Plan'') = [str_of (dget d ''plan_path'')])
     \<and> first_lines (section_values s ''Branch'') = [str_of (dget d ''branch'')])"

definition implementer :: "phase list \<Rightarrow> bool" where
  "implementer phases \<longleftrightarrow> list_ex (\<lambda>p. def_role p = ''implementation'') (worker_phases phases)"

definition pinned_phases :: "dict \<Rightarrow> plan_manifest option \<Rightarrow> phase list res" where
  "pinned_phases d manifest = (let steps = map str_of (items (dget d ''step_keys'')) in
     if version_of d \<ge> 6 then
       rbind (case decode_definitions (dget d ''phase_definitions'') of Inr p \<Rightarrow> Inr p
          | Inl e \<Rightarrow> if e = TypeErr \<or> is_value_error e then Inl bad_registration else Inl e) (\<lambda>phases.
       rbind (reject (steps \<noteq> map def_key (worker_phases phases))) (\<lambda>_.
       rbind (reject (manifest \<noteq> None \<and> \<not> implementer phases)) (\<lambda>_. Inr phases)))
     else rbind (reject (manifest \<noteq> None \<and> IMPLEMENTATION_KEY \<notin> set steps)) (\<lambda>_. Inr []))"

definition make_run :: "run_world \<Rightarrow> string list \<Rightarrow> dict \<Rightarrow> string \<Rightarrow> plan_manifest option \<Rightarrow> phase list \<Rightarrow> run_registration" where
  "make_run w run_dir d text manifest phases = (let path = (if kind_of d = ''embedded'' then None else Some (str_of (dget d ''plan_path''))) in
     \<lparr>run_todo = str_of (dget d ''todo_id''), run_repository = path_resolve w (str_of (dget d ''repository'')), run_base_sha = str_of (dget d ''base_sha''),
      run_issue_number = int_of (dget d ''issue_number''), run_issue_url = str_of (dget d ''issue_url''), run_plan_path = path,
      run_branch = str_of (dget d ''branch''), run_worktree = path_resolve w (str_of (dget d ''worktree'')), run_step_keys = map str_of (items (dget d ''step_keys'')),
      run_manifest = manifest, run_assignee = str_of (dget d ''assignee''),
      run_review_assignee = (if dget d ''review_assignee'' = JNull then None else Some (str_of (dget d ''review_assignee''))),
      run_client = str_of (dget d ''prompt_client''), run_plan_hash = str_of (dget d ''plan_hash''), run_plan_kind = kind_of d,
      run_plan_reference = (case path of None \<Rightarrow> slashed (path_resolve w (slashed (run_dir @ [''plan.md'']))) | Some p \<Rightarrow> p),
      run_plan_source = \<lparr>source_kind = kind_of d, source_document = text, source_hash = str_of (dget d ''plan_hash''), source_manifest = manifest, source_path = path\<rparr>,
      run_profile = str_of (dget d ''profile''), run_policy_mode = policy_mode d, run_supervised = (version_of d \<ge> 5), run_phases = phases,
      run_snapshot = str_of (dget d ''issue_snapshot'')\<rparr>)"

text \<open>The value of \<^verbatim>\<open>registration.json\<close> of the run in \<open>run_dir\<close>, or why it cannot be read.\<close>

definition load_validated_registration :: "run_world \<Rightarrow> string list \<Rightarrow> string list \<Rightarrow> string \<Rightarrow> string option \<Rightarrow> json res \<Rightarrow> run_registration res" where
  "load_validated_registration w project run_dir tick_id repo raw =
     rbind (case raw of Inr v \<Rightarrow> Inr v | Inl e \<Rightarrow> if is_os_error e \<or> is_value_error e then Inl bad_registration else Inl e) (\<lambda>v.
     rbind (as_mapping v ''registration_invalid'') (\<lambda>d.
     rbind (registration_fields tick_id d) (\<lambda>_.
     rbind (worktree_checks w project d) (\<lambda>_.
     rbind (plan_bytes w run_dir d) (\<lambda>bytes.
     rbind (pinned_manifest w d bytes) (\<lambda>(text, manifest).
     rbind (snapshot_parts w d) (\<lambda>(snapshot_repo, number, title, body).
     rbind (repo_of_run w repo) (\<lambda>r.
     rbind (reject (\<not> issue_identity_ok d r snapshot_repo number)) (\<lambda>_.
     rbind (embedded_authority w d bytes body) (\<lambda>_.
     rbind (reject (\<not> issue_fields_ok w d number title body)) (\<lambda>_.
     rbind (pinned_phases d manifest) (\<lambda>phases.
     Inr (make_run w run_dir d text manifest phases)))))))))))))"

end
