(* ===== verification/Supervision.thy ===== *)
theory Supervision
  imports PhaseRecovery RunAuthority
begin

text \<open>
  \<^verbatim>\<open>hermes_pipeline/authority_result.py\<close>: the gate between what a worker claims and what the supervisor
  accepted, with the parts of \<^verbatim>\<open>_agent_supervisor.py\<close> (identities, \<^verbatim>\<open>validate_registration\<close>),
  \<^verbatim>\<open>agent_authority.py\<close> and \<^verbatim>\<open>phase_schedule.py\<close> (the chain of promoted results) it is built from.

  A context manager is an operation around the operation of its block.  The files of a run are texts of
  the board's state, the files of an execution those of its store.
\<close>

section \<open>The world\<close>

record 'b sched_world =
  tick_env :: "'b tick_world"
  run_env :: run_world
  account_home :: "string option"
  config_value :: "string \<Rightarrow> json res option"

definition exec_of :: "'b sched_world \<Rightarrow> world" where "exec_of w = exec_world (tick_env w)"
definition board_of :: "'b sched_world \<Rightarrow> 'b bw" where "board_of w = board_world (tick_env w)"
definition query_of :: "'b sched_world \<Rightarrow> git_query" where "query_of w = run_git_query (run_env w)"
definition real_path :: "'b sched_world \<Rightarrow> string \<Rightarrow> string list" where "real_path w = path_resolve (run_env w)"

definition join_path :: "string \<Rightarrow> string \<Rightarrow> string" where
  "join_path base p = (if startswith p ''/'' then p else base @ ''/'' @ p)"

text \<open>\<^verbatim>\<open>d[key]\<close>, and \<^verbatim>\<open>Path(d[key])\<close>.\<close>

definition need :: "string \<Rightarrow> dict \<Rightarrow> json res" where
  "need key d = (if has_key d key then Inr (dget d key) else Inl (KeyErr key))"

definition need_str :: "string \<Rightarrow> dict \<Rightarrow> string res" where
  "need_str key d = rbind (need key d) (\<lambda>v. if is_str v then Inr (str_of v) else Inl TypeErr)"

text \<open>\<^verbatim>\<open>_safe_read\<close> of a file of a run, and \<^verbatim>\<open>json.loads\<close> of a text.\<close>

definition read_run_file :: "'b sched_world \<Rightarrow> string \<Rightarrow> 'b tick_state \<Rightarrow> string res" where
  "read_run_file w path s = rbind (read_text (board_of w) path (cards s)) (\<lambda>t.
     if MAX_RECORD_BYTES < length (utf8_encode t) then Inl (ExecutionError ''execution record exceeds size limit'') else Inr t)"

definition parse_json :: "string \<Rightarrow> json res" where
  "parse_json t = (case loads t of None \<Rightarrow> Inl (ValueErr ''json'') | Some v \<Rightarrow> Inr v)"

section \<open>Identities and roots\<close>

definition execution_id :: "'b sched_world \<Rightarrow> string \<Rightarrow> string \<Rightarrow> string" where
  "execution_id w tick_id phase = sha256 (exec_of w) (utf8_encode (tick_id @ [CHR 0x00] @ phase))"

definition bad_profile :: exn where "bad_profile = ExecutionError ''profile_authority_config_invalid''"

definition configured_state :: "string \<Rightarrow> json res \<Rightarrow> string res" where
  "configured_state home source = (case source of
       Inl e \<Rightarrow> if is_os_error e \<or> is_value_error e then Inl bad_profile else Inl e
     | Inr raw \<Rightarrow> if raw = JNull then Inr (home @ ''/.hermes'')
         else if \<not> is_dict raw then Inl bad_profile
         else let v = dget (dict_of raw) ''state_dir'' in
           if v = JNull then (if has_key (dict_of raw) ''state_dir'' then Inl bad_profile else Inr (home @ ''/.hermes''))
           else if \<not> is_str v \<or> str_of v = [] then Inl bad_profile
           else let state = (if startswith (str_of v) ''~/'' then join_path home (drop 2 (str_of v)) else str_of v) in
             if \<not> is_absolute state then Inl bad_profile else Inr state)"

definition profile_root :: "'b sched_world \<Rightarrow> string \<Rightarrow> string res" where
  "profile_root w project_dir = (case account_home w of
       None \<Rightarrow> Inl (ExecutionError ''profile_authority_unconfirmed'')
     | Some home \<Rightarrow> if \<not> is_absolute home then Inl (ExecutionError ''profile_authority_unconfirmed'')
         else let sources = map (\<lambda>p. config_value w (home @ p)) [''/.config/tpo/config.yaml'', ''/.tpo/config.yaml'', ''/.hermes/tpo.yaml''] in
           rbind (case find (\<lambda>v. v \<noteq> None) sources of Some (Some v) \<Rightarrow> configured_state home v | _ \<Rightarrow> Inr (home @ ''/.hermes'')) (\<lambda>state.
           Inr (state @ ''/agent-executions/'' @ sha256 (exec_of w) (utf8_encode (slashed (real_path w project_dir))))))"

section \<open>The pinned registration of an execution\<close>

definition contract_of :: "dict \<Rightarrow> dict" where "contract_of pinned = dict_of (dget pinned ''result_contract'')"

definition stored_registration :: "'b sched_world \<Rightarrow> string \<Rightarrow> string \<Rightarrow> 'b tick_state \<Rightarrow> json res" where
  "stored_registration w state_dir tick_id s = rbind (read_text (board_of w) (run_path state_dir tick_id ''registration.json'') (cards s)) parse_json"

definition validated_run :: "'b sched_world \<Rightarrow> string \<Rightarrow> string \<Rightarrow> string \<Rightarrow> string option \<Rightarrow> 'b tick_state \<Rightarrow> run_registration res" where
  "validated_run w project_dir state_dir tick_id repo s =
     load_validated_registration (run_env w) (real_path w project_dir) (path_parts state_dir @ [''runs'', tick_id]) tick_id repo (stored_registration w state_dir tick_id s)"

definition check_identity :: "'b sched_world \<Rightarrow> string \<Rightarrow> dict \<Rightarrow> unit res" where
  "check_identity w identity pinned = (let c = contract_of pinned; bad = ExecutionError ''execution_identity_mismatch'' in
     rbind (need ''tick_id'' c) (\<lambda>tick. rbind (raise_if (tick \<noteq> dget pinned ''registration_id'') bad) (\<lambda>_.
     rbind (need ''phase'' c) (\<lambda>phase. raise_if (phase \<noteq> dget pinned ''phase'' \<or> execution_id w (str_of tick) (str_of phase) \<noteq> identity) bad))))"

definition check_profile_root :: "'b sched_world \<Rightarrow> dict \<Rightarrow> 'b tick_state \<Rightarrow> unit res" where
  "check_profile_root w c s = rbind (need_str ''project_dir'' c) (\<lambda>project_dir. rbind (profile_root w project_dir) (\<lambda>root.
     raise_if (real_path w (store_root (execs s)) \<noteq> real_path w root) (ExecutionError ''profile_authority_root_unconfirmed'')))"

definition check_run :: "'b sched_world \<Rightarrow> dict \<Rightarrow> 'b tick_state \<Rightarrow> unit res" where
  "check_run w pinned s = (let c = contract_of pinned; tick = str_of (dget pinned ''registration_id'') in
     rbind (need_str ''state_dir'' c) (\<lambda>state_dir. rbind (need_str ''project_dir'' c) (\<lambda>project_dir.
     rbind (raise_if (real_path w (store_root (execs s)) \<noteq> real_path w (project_dir @ ''/.hermes/agent-executions'')
         \<or> real_path w state_dir \<noteq> real_path w (project_dir @ ''/.hermes'')) (ExecutionError ''registration_root_mismatch'')) (\<lambda>_.
     rbind (read_run_file w (run_path state_dir tick ''registration.json'') s) (\<lambda>t.
     rbind (need ''registration_sha256'' c) (\<lambda>sha.
     rbind (raise_if (JStr (sha256 (exec_of w) (utf8_encode t)) \<noteq> sha) (ExecutionError ''registration_drift'')) (\<lambda>_.
     rbind (validated_run w project_dir state_dir tick None s) (\<lambda>v.
     rbind (raise_if (slashed (run_worktree v) \<noteq> str_of (dget pinned ''worktree'') \<or> run_branch v \<noteq> str_of (dget pinned ''branch'')
         \<or> run_plan_hash v \<noteq> str_of (dget pinned ''plan_identity'') \<or> JStr (run_client v) \<noteq> dget (dict_of (dget pinned ''client'')) ''name'')
         (ExecutionError ''registration_drift'')) (\<lambda>_.
     raise_if (str_of (dget pinned ''phase'') \<notin> set (execution_keys (run_phases v) (run_step_keys v))) (ExecutionError ''phase_identity_mismatch''))))))))))"

text \<open>\<^verbatim>\<open>validate_registration\<close> of the supervisor.\<close>

definition validate_pinned :: "'b sched_world \<Rightarrow> string \<Rightarrow> 'b tick_state \<Rightarrow> unit res" where
  "validate_pinned w identity s = rbind (load (exec_of w) identity (execs s)) (\<lambda>r.
     let pinned = registration_of r; c = contract_of pinned; worktree = str_of (dget pinned ''worktree'') in
     rbind (validate_git_metadata (git_world (tick_env w)) pinned) (\<lambda>_.
     rbind (raise_if (\<not> hashable (dget c ''kind'')) TypeErr) (\<lambda>_.
     rbind (raise_if (\<not> str_in (dget c ''kind'') [''registered'', ''profile'']) (ExecutionError ''registration_invalid'')) (\<lambda>_.
     rbind (check_identity w identity pinned) (\<lambda>_.
     rbind (outside_worktree (exec_of w) (execs s) worktree) (\<lambda>_.
     rbind (if dget c ''kind'' = JStr ''profile'' then check_profile_root w c s else Inr ()) (\<lambda>_.
     rbind (git_out (query_of w) worktree [''branch'', ''--show-current'']) (\<lambda>branch.
     rbind (raise_if (branch \<noteq> str_of (dget pinned ''branch'')) (ExecutionError ''branch_drift'')) (\<lambda>_.
     if dget c ''kind'' = JStr ''registered'' then check_run w pinned s else Inr ())))))))))"

section \<open>Run authority\<close>

definition MARKER :: string where "MARKER = ''supervisor-required.json''"
definition MARKER_CONTENT :: json where "MARKER_CONTENT = JObj [(''version'', JInt 1), (''authority'', JStr ''agent-executions'')]"
definition unconfirmed :: exn where "unconfirmed = ResultContractError ''supervisor_result_unconfirmed''"

definition mark_supervised_run :: "'b sched_world \<Rightarrow> string \<Rightarrow> string \<Rightarrow> ('b tick_state, unit) op" where
  "mark_supervised_run w state_dir tick_id = on_cards (write_text (board_of w) (run_path state_dir tick_id MARKER) (dumps default_style MARKER_CONTENT))"

definition enrolled :: "'b sched_world \<Rightarrow> bool \<Rightarrow> string \<Rightarrow> string \<Rightarrow> 'b tick_state \<Rightarrow> bool res" where
  "enrolled w fallback state_dir tick_id s = (case read_run_file w (run_path state_dir tick_id MARKER) s of
       Inl e \<Rightarrow> if e = FileNotFound then Inr fallback else Inl e
     | Inr t \<Rightarrow> rbind (parse_json t) (\<lambda>v.
         if \<not> is_dict v \<or> \<not> is_int (dget (dict_of v) ''version'') \<or> \<not> py_eq v MARKER_CONTENT then Inl (ExecutionError ''invalid supervisor enrollment'') else Inr True))"

definition supervisor_required :: "'b sched_world \<Rightarrow> run_registration \<Rightarrow> string \<Rightarrow> string \<Rightarrow> string list \<Rightarrow> 'b tick_state \<Rightarrow> bool res" where
  "supervisor_required w reg state_dir tick_id phases s = rbind (enrolled w (run_supervised reg) state_dir tick_id s) (\<lambda>required.
     Inr (required \<or> list_ex (\<lambda>p. map_of (dirs (execs s)) (execution_id w tick_id p) \<noteq> None) phases))"

text \<open>\<^verbatim>\<open>with store.locked(identity)\<close> around a block over the whole state.\<close>

definition locked_tick :: "'b sched_world \<Rightarrow> string \<Rightarrow> ('b tick_state, 'a) op \<Rightarrow> ('b tick_state, 'a) op" where
  "locked_tick w identity body s = (case open_directory (exec_of w) identity True (execs s) of
      (Inl e, x) \<Rightarrow> ((case e of OSErr n \<Rightarrow> Inl (LockUnconfirmed (Some n)) | FileNotFound \<Rightarrow> Inl (LockUnconfirmed (Some 2)) | _ \<Rightarrow> Inl e), s\<lparr>execs := x\<rparr>)
    | (Inr _, x) \<Rightarrow>
        if identity \<in> set (held x) then body (s\<lparr>execs := x\<rparr>)
        else (case flock (exec_of w) identity of
            Some n \<Rightarrow> (Inl (LockUnconfirmed (Some n)), s\<lparr>execs := x\<rparr>)
          | None \<Rightarrow> (let (r, s') = body (s\<lparr>execs := x\<lparr>held := identity # held x\<rparr>\<rparr>)
              in (r, s'\<lparr>execs := (execs s')\<lparr>held := remove1 identity (held (execs s'))\<rparr>\<rparr>))))"

lemma locked_tick_execs: "on_execs (locked (exec_of w) identity m) = locked_tick w identity (on_execs m)"
  by (rule ext) (auto simp: on_execs_def locked_def locked_tick_def Let_def split: prod.splits sum.splits option.splits exn.splits)

definition root_checked :: "'b sched_world \<Rightarrow> run_registration \<Rightarrow> string \<Rightarrow> unit res" where
  "root_checked w reg state_dir = raise_if (real_path w state_dir \<noteq> real_path w (slashed (run_repository reg) @ ''/.hermes'')) (ExecutionError ''registration_root_mismatch'')"

definition run_lock :: "'b sched_world \<Rightarrow> run_registration \<Rightarrow> string" where
  "run_lock w reg = ''worktree-'' @ sha256 (exec_of w) (utf8_encode (slashed (real_path w (slashed (run_worktree reg)))))"

definition authority_error :: "exn \<Rightarrow> exn" where
  "authority_error e = (case e of
       LockUnconfirmed cause \<Rightarrow> if cause = Some EAGAIN then RunAuthorityBusy else unconfirmed
     | _ \<Rightarrow> if is_execution_error e \<or> is_os_error e \<or> is_value_error e \<or> is_key_error e \<or> e = TypeErr then unconfirmed else e)"

definition locked_run_authority :: "'b sched_world \<Rightarrow> run_registration \<Rightarrow> string \<Rightarrow> string \<Rightarrow> ('b tick_state, 'a) op \<Rightarrow> ('b tick_state, 'a) op" where
  "locked_run_authority w reg state_dir tick_id body = catch_op
     (bind_op (reads (supervisor_required w reg state_dir tick_id (execution_keys (run_phases reg) (run_step_keys reg)))) (\<lambda>required.
        if \<not> required then body
        else then_op (lift_res (root_checked w reg state_dir)) (locked_tick w (run_lock w reg) body)))
     (\<lambda>e. raise (authority_error e))"

section \<open>Accepted results\<close>

text \<open>What a phase reports: the raw object of a phase result, or the parsed report of a worker.\<close>

datatype phase_result = PhaseResult json | WorkerReport worker_result

definition is_raw :: "dict \<Rightarrow> bool" where "is_raw contract \<longleftrightarrow> dget contract ''result_kind'' = JStr ''phase''"

definition result_file :: "int \<Rightarrow> string" where "result_file generation = ''result-'' @ dec_int generation @ ''.json''"

text \<open>The envelope in which a promoted report is parsed, for the criteria its contract pins.\<close>

definition parse_promoted :: "run_registration \<Rightarrow> string \<Rightarrow> string \<Rightarrow> dict \<Rightarrow> json \<Rightarrow> worker_result res" where
  "parse_promoted reg tick_id key contract payload = rbind (need ''acceptance'' contract) (\<lambda>acceptance. if \<not> is_list acceptance then Inl TypeErr
     else rbind (need ''expected_commits'' contract) (\<lambda>commits. rbind (parse_worker_result payload tick_id (run_todo reg) key (map str_of (items acceptance)) (\<not> truthy commits)) (\<lambda>r.
       if list_all is_str (items acceptance) then Inr r else Inl (ResultContractError ''invalid_acceptance''))))"

definition promoted_payload :: "json \<Rightarrow> json" where
  "promoted_payload raw = JObj [(''runs'', JList [JObj [(''status'', JStr ''completed''), (''metadata'', JObj [(''tpo_result'', raw)])]])]"

definition promoted_result :: "'b sched_world \<Rightarrow> run_registration \<Rightarrow> string \<Rightarrow> string \<Rightarrow> 'b tick_state \<Rightarrow> (phase_result \<times> dict) res" where
  "promoted_result w reg tick_id key s = (let identity = execution_id w tick_id key in
     rbind (load (exec_of w) identity (execs s)) (\<lambda>r.
     if attempts_of r = [] then Inl IndexErr
     else let contract = contract_of (registration_of r); generation = int_of (afield (last (attempts_of r)) ''generation'') in
       rbind (read_json (exec_of w) identity (result_file generation) (execs s)) (\<lambda>raw.
       rbind (need ''result_kind'' contract) (\<lambda>_.
       if is_raw contract then Inr (PhaseResult raw, contract)
       else rbind (parse_promoted reg tick_id key contract (promoted_payload raw)) (\<lambda>result. Inr (WorkerReport result, contract))))))"

definition result_head :: "phase_result \<Rightarrow> string res" where
  "result_head r = (case r of PhaseResult raw \<Rightarrow> if is_dict raw then need_str ''head_sha'' (dict_of raw) else Inl AttrErr
     | WorkerReport result \<Rightarrow> Inr (resulting_head_sha (result_git result)))"

definition accepted_identity :: "run_registration \<Rightarrow> string \<Rightarrow> string \<Rightarrow> dict \<Rightarrow> unit res" where
  "accepted_identity reg tick_id key pinned = (let c = contract_of pinned; bad = ExecutionError ''supervisor identity mismatch'' in
     rbind (raise_if (dget pinned ''registration_id'' \<noteq> JStr tick_id \<or> dget pinned ''phase'' \<noteq> JStr key
         \<or> dget pinned ''plan_identity'' \<noteq> JStr (run_plan_hash reg) \<or> dget pinned ''worktree'' \<noteq> JStr (slashed (run_worktree reg))) bad) (\<lambda>_.
     rbind (need ''todo_id'' c) (\<lambda>todo. rbind (raise_if (todo \<noteq> JStr (run_todo reg)) bad) (\<lambda>_.
     rbind (need ''result_kind'' c) (\<lambda>kind. rbind (raise_if (\<not> hashable kind) TypeErr) (\<lambda>_.
     raise_if (\<not> str_in kind [''worker'', ''phase'']) bad))))))"

definition completed_attempt :: "dict \<Rightarrow> json res" where
  "completed_attempt r = (let a = last (attempts_of r) in
     if attempts_of r = [] \<or> afield a ''status'' \<noteq> JStr ''exited'' \<or> afield a ''exit_code'' \<noteq> JInt 0 \<or> afield a ''exit_signal'' \<noteq> JNull
       \<or> afield a ''cleanup'' \<noteq> JStr ''confirmed''
     then Inl (ExecutionError ''supervisor completion not authorized'') else Inr a)"

definition promoted_raw :: "'b sched_world \<Rightarrow> string \<Rightarrow> int \<Rightarrow> 'b tick_state \<Rightarrow> json res" where
  "promoted_raw w identity generation s = rbind (safe_read (exec_of w) identity (result_file generation) (execs s)) (\<lambda>f.
     case f of File n v \<Rightarrow> if MAX_METADATA_BYTES < n then Inl (ExecutionError ''promoted result size limit'')
       else (case v of None \<Rightarrow> Inl (ValueErr ''json'') | Some raw \<Rightarrow> Inr raw))"

definition expected_raw :: "run_registration \<Rightarrow> string \<Rightarrow> string \<Rightarrow> string \<Rightarrow> int \<Rightarrow> json \<Rightarrow> json" where
  "expected_raw reg identity tick_id key generation head = JObj [(''schema_version'', JInt 1), (''execution_id'', JStr identity), (''generation'', JInt generation),
     (''tick_id'', JStr tick_id), (''todo_id'', JStr (run_todo reg)), (''step_key'', JStr key), (''verdict'', JStr ''success''), (''head_sha'', head)]"

definition authorize_raw :: "'b sched_world \<Rightarrow> run_registration \<Rightarrow> string \<Rightarrow> string \<Rightarrow> string \<Rightarrow> phase_result \<Rightarrow> dict \<Rightarrow> int \<Rightarrow> json \<Rightarrow> unit res" where
  "authorize_raw w reg identity tick_id key result contract generation raw = (if \<not> is_dict raw then Inl AttrErr
     else let d = dict_of raw; head = dget d ''head_sha'' in
       rbind (raise_if (\<not> py_eq raw (expected_raw reg identity tick_id key generation head)
           \<or> (case result of PhaseResult v \<Rightarrow> \<not> py_eq raw v | WorkerReport _ \<Rightarrow> True)
           \<or> \<not> is_int (dget d ''generation'') \<or> \<not> is_int (dget d ''schema_version'')) (ExecutionError ''supervisor result mismatch'')) (\<lambda>_.
       rbind (need_str ''base_sha'' contract) (\<lambda>base. rbind (if is_str head then Inr (str_of head) else Inl TypeErr) (\<lambda>h.
       rbind (git_out (query_of w) (slashed (run_worktree reg)) [''merge-base'', ''--is-ancestor'', base, h]) (\<lambda>_. Inr ())))))"

text \<open>The accepted Plan tasks of the execution must end at the reported head.\<close>

definition checkpoint_evidence :: "'b sched_world \<Rightarrow> string \<Rightarrow> dict \<Rightarrow> int \<Rightarrow> string \<Rightarrow> 'b tick_state \<Rightarrow> unit res" where
  "checkpoint_evidence w identity pinned generation head s =
     rbind (load_journal (exec_of w) (git_world (tick_env w)) identity (execs s)) (\<lambda>journal.
     let accepted = items (dget journal ''accepted''); manifest = dget pinned ''manifest'' in
     if manifest = JNull then Inr ()
     else rbind (need ''tasks'' (dict_of manifest)) (\<lambda>tasks.
       raise_if (length accepted \<noteq> length (items tasks) \<or> accepted = [] \<or> dget (dict_of (last accepted)) ''commit'' \<noteq> JStr head
           \<or> list_ex (\<lambda>e. num_less (num (JInt generation)) (num (dget (dict_of e) ''generation''))) accepted)
         (ExecutionError ''checkpoint evidence incomplete'')))"

definition authorize_report :: "'b sched_world \<Rightarrow> run_registration \<Rightarrow> string \<Rightarrow> string \<Rightarrow> string \<Rightarrow> phase_result \<Rightarrow> dict \<Rightarrow> int \<Rightarrow> json \<Rightarrow> 'b tick_state \<Rightarrow> unit res" where
  "authorize_report w reg identity tick_id key result pinned generation raw s = (let contract = contract_of pinned in
     rbind (parse_promoted reg tick_id key contract (promoted_payload raw)) (\<lambda>promoted.
     rbind (raise_if (result \<noteq> WorkerReport promoted) (ExecutionError ''supervisor result mismatch'')) (\<lambda>_.
     rbind (checkpoint_evidence w identity pinned generation (resulting_head_sha (result_git promoted)) s) (\<lambda>_.
     rbind (need ''base_sha'' contract) (\<lambda>base.
     if \<not> is_str base then Inl (ResultContractError ''parent_mismatch'')
     else if truthy (dget contract ''expected_commits'')
     then verify_worker_git_topology (query_of w) (slashed (run_worktree reg)) (result_git promoted) (str_of base) (int_of (dget contract ''expected_commits''))
     else verify_optional_single_commit (query_of w) (slashed (run_worktree reg)) (result_git promoted) (str_of base) False)))))"

text \<open>The reads between taking the execution's lock and the block.\<close>

definition authorized :: "'b sched_world \<Rightarrow> run_registration \<Rightarrow> string \<Rightarrow> string \<Rightarrow> phase_result \<Rightarrow> 'b tick_state \<Rightarrow> unit res" where
  "authorized w reg tick_id key result s = (let identity = execution_id w tick_id key in
     rbind (validate_pinned w identity s) (\<lambda>_.
     rbind (load (exec_of w) identity (execs s)) (\<lambda>r. let pinned = registration_of r in
     rbind (accepted_identity reg tick_id key pinned) (\<lambda>_.
     rbind (completed_attempt r) (\<lambda>a. let generation = int_of (afield a ''generation'') in
     rbind (promoted_raw w identity generation s) (\<lambda>raw.
     if is_raw (contract_of pinned) then authorize_raw w reg identity tick_id key result (contract_of pinned) generation raw
     else authorize_report w reg identity tick_id key result pinned generation raw s))))))"

definition acceptance_error :: "exn \<Rightarrow> exn" where
  "acceptance_error e = (if is_execution_error e \<or> is_os_error e \<or> is_value_error e \<or> is_key_error e \<or> e = TypeErr \<or> e = IndexErr then unconfirmed else e)"

definition require_authorized_result :: "'b sched_world \<Rightarrow> run_registration \<Rightarrow> string \<Rightarrow> string \<Rightarrow> string \<Rightarrow> phase_result \<Rightarrow> ('b tick_state, 'a) op \<Rightarrow> ('b tick_state, 'a) op" where
  "require_authorized_result w reg state_dir tick_id key result body = (let identity = execution_id w tick_id key in catch_op
     (bind_op (reads (supervisor_required w reg state_dir tick_id [key])) (\<lambda>required.
        if \<not> required then body
        else then_op (lift_res (root_checked w reg state_dir))
          (bind_op (reads (\<lambda>s. load (exec_of w) identity (execs s))) (\<lambda>_.
             locked_tick w identity (then_op (reads (authorized w reg tick_id key result)) body)))))
     (\<lambda>e. raise (acceptance_error e)))"

section \<open>The chain of accepted results\<close>

definition link_head :: "string \<Rightarrow> phase_result \<times> dict \<Rightarrow> string res" where
  "link_head head p = rbind (need ''base_sha'' (snd p)) (\<lambda>base.
     rbind (raise_if (base \<noteq> JStr head) (ResultContractError ''phase_parent_mismatch'')) (\<lambda>_. result_head (fst p)))"

fun predecessor_head :: "'b sched_world \<Rightarrow> run_registration \<Rightarrow> string \<Rightarrow> string \<Rightarrow> string option \<Rightarrow> phase list \<Rightarrow> string \<Rightarrow> ('b tick_state, string) op" where
  "predecessor_head w reg state_dir tick_id stop [] head = ret head"
| "predecessor_head w reg state_dir tick_id stop (p # ps) head = (if Some (def_key p) = stop then ret head
     else bind_op (reads (promoted_result w reg tick_id (def_key p))) (\<lambda>rc.
       bind_op (require_authorized_result w reg state_dir tick_id (def_key p) (fst rc) (lift_res (link_head head rc))) (\<lambda>head'.
       predecessor_head w reg state_dir tick_id stop ps head')))"

definition validated_predecessor_head :: "'b sched_world \<Rightarrow> run_registration \<Rightarrow> string \<Rightarrow> string \<Rightarrow> string option \<Rightarrow> ('b tick_state, string) op" where
  "validated_predecessor_head w reg state_dir tick_id stop =
     predecessor_head w reg state_dir tick_id stop (worker_phases (run_phases reg)) (run_base_sha reg)"

text \<open>The two fixed phases of a run whose registration pins no definitions.\<close>

definition legacy_link :: "'b sched_world \<Rightarrow> run_registration \<Rightarrow> string \<Rightarrow> string \<Rightarrow> string \<Rightarrow> string \<Rightarrow> ('b tick_state, string) op" where
  "legacy_link w reg state_dir tick_id key parent = (let identity = execution_id w tick_id key in
     bind_op (reads (\<lambda>s. rbind (load (exec_of w) identity (execs s)) (\<lambda>r.
         if attempts_of r = [] then Inl IndexErr
         else rbind (read_json (exec_of w) identity (result_file (int_of (afield (last (attempts_of r)) ''generation''))) (execs s)) (\<lambda>raw.
           parse_promoted reg tick_id key (contract_of (registration_of r)) (promoted_payload raw))))) (\<lambda>result.
     require_authorized_result w reg state_dir tick_id key (WorkerReport result) (lift_res (
       if expected_parent_sha (result_git result) \<noteq> parent then Inl (ExecutionError ''supervisor prerequisite chain mismatch'')
       else Inr (resulting_head_sha (result_git result))))))"

definition REVIEW_KEY :: string where "REVIEW_KEY = ''review:0''"

definition require_accepted_review :: "'b sched_world \<Rightarrow> run_registration \<Rightarrow> string \<Rightarrow> string \<Rightarrow> string \<Rightarrow> ('b tick_state, unit) op" where
  "require_accepted_review w reg state_dir tick_id accepted_head =
     (if run_phases reg \<noteq> [] then
        bind_op (validated_predecessor_head w reg state_dir tick_id (role_key (run_phases reg) ''delivery'')) (\<lambda>parent.
        lift_res (raise_if (parent \<noteq> accepted_head) unconfirmed))
      else catch_op (bind_op (reads (supervisor_required w reg state_dir tick_id [IMPLEMENTATION_KEY, REVIEW_KEY])) (\<lambda>required.
          if \<not> required then ret ()
          else bind_op (legacy_link w reg state_dir tick_id IMPLEMENTATION_KEY (run_base_sha reg)) (\<lambda>h.
            bind_op (legacy_link w reg state_dir tick_id REVIEW_KEY h) (\<lambda>parent.
            lift_res (raise_if (parent \<noteq> accepted_head) (ExecutionError ''supervisor accepted head mismatch''))))))
        (\<lambda>e. raise (acceptance_error e)))"

end
