(* ===== verification/CardCreation.thy ===== *)
theory CardCreation
  imports Supervision Registration PhasePrompt
begin

text \<open>
  How one worker card of a registered run comes to be: \<^verbatim>\<open>register_execution\<close> of \<^verbatim>\<open>_agent_supervisor.py\<close>, which
  pins prompt, contract and Plan of the phase before anything is published, and \<^verbatim>\<open>_create_task\<close> of
  \<^verbatim>\<open>review_reconciliation.py\<close>, which publishes the thin card that runs it, with the rendering of its prompt.

  The location of the installed supervisor, bundled profiles, the file system below the repository and
  programs run in a worktree are parameters.
\<close>

record 'b flow_world =
  sched :: "'b sched_world"
  issues_env :: "'b gh_world"
  program :: "string list \<Rightarrow> string \<Rightarrow> 'b \<Rightarrow> gh_outcome \<times> 'b"
  entrypoint :: "string res"
  profile_file :: "string \<Rightarrow> (string \<times> json) res"
  plan_world :: plan_files
  today :: string
  run_directory :: "string \<Rightarrow> 'b \<Rightarrow> bool"
  run_names :: "string \<Rightarrow> 'b \<Rightarrow> string list res"

definition boardw :: "'b flow_world \<Rightarrow> 'b bw" where "boardw w = board_of (sched w)"
definition execw :: "'b flow_world \<Rightarrow> world" where "execw w = exec_of (sched w)"
definition gitw_of :: "'b flow_world \<Rightarrow> gitw" where "gitw_of w = git_world (tick_env (sched w))"

definition on_remote :: "('b, 'a) op \<Rightarrow> ('b tick_state, 'a) op" where
  "on_remote m s = (case m (remote (cards s)) of (r, b) \<Rightarrow> (r, s\<lparr>cards := (cards s)\<lparr>remote := b\<rparr>\<rparr>))"

definition run_program :: "'b flow_world \<Rightarrow> string list \<Rightarrow> string \<Rightarrow> ('b tick_state, gh_outcome) op" where
  "run_program w args cwd = on_remote (\<lambda>b. case program w args cwd b of (r, b') \<Rightarrow> (Inr r, b'))"

section \<open>The ceiling of a card\<close>

definition seconds_of :: "json \<Rightarrow> rat" where
  "seconds_of v = (case num v of Finite q _ \<Rightarrow> q | _ \<Rightarrow> 0)"

definition collection_budget :: "rat \<Rightarrow> rat" where "collection_budget timeout = min 600 (timeout / 10)"

definition wait_ceiling_tail :: "dict \<Rightarrow> rat" where
  "wait_ceiling_tail reg = (if dget reg ''manifest'' \<noteq> JNull then 60 + collection_budget (seconds_of (dget reg ''timeout'')) + 60 else 60)"

definition card_max_runtime :: "dict \<Rightarrow> int" where
  "card_max_runtime reg = \<lceil>seconds_of (dget reg ''timeout'') + wait_ceiling_tail reg\<rceil>"

section \<open>Instructions of the dispatcher\<close>

definition shell_safe :: "char \<Rightarrow> bool" where "shell_safe c \<longleftrightarrow> alnum c \<or> c \<in> set ''_@%+=:,./-''"

definition shell_quote :: "string \<Rightarrow> string" where
  "shell_quote s = (if s = [] then [CHR 0x27, CHR 0x27] else if list_all shell_safe s then s
     else [CHR 0x27] @ concat (map (\<lambda>c. if c = CHR 0x27 then [CHR 0x27, CHR 0x22, CHR 0x27, CHR 0x22, CHR 0x27] else [c]) s) @ [CHR 0x27])"

definition DISPATCHER_TEXT :: string where
  "DISPATCHER_TEXT = concat [
     ''Use only this installed interface. A missing supervisor blocks dispatch. '',
     ''Automatic worker retry reconnects to the same generation; never authorize a new attempt. '',
     ''The supervisor owns monitoring, deadline, cleanup and result validation. '',
     ''Await this command until it finishes. While it runs it prints one JSON status line per minute with \"final\": false; '',
     ''if the terminal tool returns a background session, poll that session until a line with \"final\": true appears and act only on that line; '',
     ''never block, comment, or transition the card on a non-final line. '',
     ''If the session ends without a final line, run the same command again to reconnect. Do not end the worker while it runs. '',
     ''Never use kanban_block for running_detached or waiting_for_admission. '',
     ''If its bounded wait returns either status, reconnect using the same command without changing card state. '',
     ''waiting_for_admission is not a terminal failure: the command owns bounded '',
     ''admission retries without allocating an attempt or refreshing its execution budget. '',
     ''For terminal outcomes, refresh this card '',
     ''through supported Kanban worker tools and check its registered execution and generation. '',
     ''Do not overwrite a completed card, a newer attempt, or an unrelated/manual block. '',
     ''Require HERMES_KANBAN_TASK to identify this card and a valid HERMES_KANBAN_RUN_ID '',
     ''before any worker transition. If either is unavailable, report and leave card state unchanged. '',
     ''Only when completion_allowed is true, use the kanban_complete worker tool (which binds '',
     ''the current worker run identity; never the unguarded CLI) and set its metadata argument to the entire returned report.metadata object: '',
     ''metadata={\"tpo_result\": <validated result>}. '',
     ''Keep the nested tpo_result unchanged. Never pass report.metadata.tpo_result alone as the metadata argument. '',
     ''Otherwise report its structured status through Kanban '',
     ''kanban_comment and kanban_block worker tools; retain interrupted, timed_out, cleanup_unconfirmed, lock_unconfirmed, '',
     ''recovery_invalidated, and admission_failed as distinct reasons. recovery_invalidated and admission_failed are terminal for this worker: '',
     ''report them with kanban_comment and kanban_block, retaining the reason. Automatic worker retry reconnects to the same generation; '',
     ''the worker never authorizes a new attempt itself, but a pipeline-tick approval may start the next generation automatically through this same command. '',
     ''Never infer completion from zero exit or missing processes.'', [newline]]"

definition worker_instructions :: "'b flow_world \<Rightarrow> string \<Rightarrow> string \<Rightarrow> string res" where
  "worker_instructions w identity base = rbind (entrypoint w) (\<lambda>tool. Inr (
     ''You are the Hermes dispatcher. Invoke or reconnect to this registered execution:'' @ [newline]
     @ join '' '' (map shell_quote [tool, ''run'', ''--wait'', ''--root'', base, ''--execution'', identity]) @ [newline] @ DISPATCHER_TEXT))"

section \<open>Registering an execution\<close>

definition manifest_criteria :: "plan_manifest \<Rightarrow> string list" where
  "manifest_criteria m = concat (map task_criteria (manifest_tasks m))"

definition strings :: "string list \<Rightarrow> json" where "strings xs = JList (map JStr xs)"

definition task_json :: "plan_task \<Rightarrow> json" where
  "task_json t = JObj [(''id'', JStr (task_id t)), (''title'', JStr (task_title t)), (''instructions'', JStr (task_instructions t)),
     (''acceptance_criteria'', strings (task_criteria t)), (''verification'', strings (task_verification t)), (''commit_message'', JStr (task_commit_message t))]"

definition manifest_json :: "plan_manifest \<Rightarrow> json" where
  "manifest_json m = JObj [(''schema_version'', JInt 1), (''todo_id'', JStr (manifest_todo m)), (''tasks'', JList (map task_json (manifest_tasks m)))]"

text \<open>The registered run, if the execution belongs to one, after the checks of its roots.\<close>

definition registered_run :: "'b flow_world \<Rightarrow> string \<Rightarrow> string \<Rightarrow> string \<Rightarrow> string \<Rightarrow> string \<Rightarrow> 'b tick_state \<Rightarrow> run_registration option res" where
  "registered_run w project_dir state_dir tick_id client worktree s = (let real = real_path (sched w); base = store_root (execs s) in
     if path_exists (cards s) (run_path state_dir tick_id ''registration.json'') then
       rbind (validated_run (sched w) project_dir state_dir tick_id None s) (\<lambda>reg.
       rbind (raise_if (run_worktree reg \<noteq> real worktree \<or> run_client reg \<noteq> client) (ExecutionError ''registration_drift'')) (\<lambda>_.
       rbind (raise_if (real base \<noteq> real (project_dir @ ''/.hermes/agent-executions'') \<or> real state_dir \<noteq> real (project_dir @ ''/.hermes''))
         (ExecutionError ''registration_root_mismatch'')) (\<lambda>_. Inr (Some reg))))
     else rbind (profile_root (sched w) project_dir) (\<lambda>trusted.
       rbind (raise_if (real base \<noteq> real trusted) (ExecutionError ''profile_authority_root_unconfirmed: use trusted conventional configuration'')) (\<lambda>_. Inr None)))"

definition role_of_phase :: "run_registration option \<Rightarrow> string \<Rightarrow> string \<Rightarrow> string res" where
  "role_of_phase reg phase role = (case reg of None \<Rightarrow> Inr role
     | Some r \<Rightarrow> if phase \<notin> set (execution_keys (run_phases r) (run_step_keys r)) then Inl (ExecutionError ''phase_identity_mismatch'')
         else Inr (phase_role (run_phases r) phase))"

definition manifest_of_run :: "run_registration option \<Rightarrow> plan_manifest option" where
  "manifest_of_run reg = (case reg of None \<Rightarrow> None | Some r \<Rightarrow> run_manifest r)"

text \<open>The contract already pinned, or the commit the phase starts from.\<close>

definition existing_contract :: "'b flow_world \<Rightarrow> string \<Rightarrow> 'b tick_state \<Rightarrow> dict option res" where
  "existing_contract w identity s = (if has_record (execs s) identity
     then rbind (load (execw w) identity (execs s)) (\<lambda>r. Inr (Some (contract_of (registration_of r)))) else Inr None)"

definition contract_base :: "'b flow_world \<Rightarrow> run_registration option \<Rightarrow> string \<Rightarrow> string \<Rightarrow> dict option \<Rightarrow> json res" where
  "contract_base w reg role worktree existing = (case existing of Some c \<Rightarrow> need ''base_sha'' c
     | None \<Rightarrow> (case reg of
           Some r \<Rightarrow> if run_manifest r \<noteq> None \<and> role = ''implementation'' \<and> run_phases r = [] then Inr (JStr (run_base_sha r))
             else rbind (git_out (query_of (sched w)) worktree [''rev-parse'', ''HEAD'']) (\<lambda>h. Inr (JStr h))
         | None \<Rightarrow> rbind (git_out (query_of (sched w)) worktree [''rev-parse'', ''HEAD'']) (\<lambda>h. Inr (JStr h))))"

definition phase_template :: "string \<Rightarrow> string \<Rightarrow> string \<Rightarrow> string \<Rightarrow> string" where
  "phase_template identity tick_id todo_id phase = ''Write this bounded phase result, replacing placeholders:'' @ [newline]
     @ dumps default_style (sort_keys (JObj [(''schema_version'', JInt 1), (''execution_id'', JStr identity), (''generation'', JStr ''integer from TPO_ATTEMPT_GENERATION''),
         (''tick_id'', JStr tick_id), (''todo_id'', JStr todo_id), (''step_key'', JStr phase), (''verdict'', JStr ''success''), (''head_sha'', JStr ''actual Git HEAD SHA'')]))"

definition reports_worker :: "run_registration option \<Rightarrow> string \<Rightarrow> bool" where
  "reports_worker reg role \<longleftrightarrow> manifest_of_run reg \<noteq> None \<and> role \<in> {''implementation'', ''review'', ''delivery''}"

definition criteria_of :: "run_registration option \<Rightarrow> string \<Rightarrow> string list" where
  "criteria_of reg role = (case manifest_of_run reg of Some m \<Rightarrow> if role = ''implementation'' then manifest_criteria m else [] | None \<Rightarrow> [])"

definition contract_template :: "run_registration option \<Rightarrow> string \<Rightarrow> string \<Rightarrow> string \<Rightarrow> string \<Rightarrow> string \<Rightarrow> string option \<Rightarrow> string res" where
  "contract_template reg role identity tick_id todo_id phase template = (let criteria = criteria_of reg role in
     rbind (case template of Some t \<Rightarrow> if t \<noteq> [] then Inr t else render_result_template tick_id todo_id phase criteria None None (criteria = [])
        | None \<Rightarrow> render_result_template tick_id todo_id phase criteria None None (criteria = [])) (\<lambda>t.
     Inr (if reports_worker reg role then t else phase_template identity tick_id todo_id phase)))"

definition make_contract :: "'b flow_world \<Rightarrow> run_registration option \<Rightarrow> string \<Rightarrow> string \<Rightarrow> string \<Rightarrow> string \<Rightarrow> string \<Rightarrow> string \<Rightarrow> json \<Rightarrow> json \<Rightarrow> json \<Rightarrow> dict option \<Rightarrow> string \<Rightarrow> dict" where
  "make_contract w reg project_dir state_dir tick_id todo_id phase role base sha git_metadata existing template = (let criteria = criteria_of reg role in
     [(''kind'', JStr (if reg \<noteq> None then ''registered'' else ''profile'')), (''project_dir'', JStr (slashed (real_path (sched w) project_dir))),
      (''state_dir'', JStr (slashed (real_path (sched w) state_dir))), (''todo_id'', JStr todo_id), (''tick_id'', JStr tick_id), (''phase'', JStr phase)]
     @ (case existing of Some c \<Rightarrow> if has_key c ''phase_role'' then [(''phase_role'', JStr role)] else [] | None \<Rightarrow> [(''phase_role'', JStr role)])
     @ [(''base_sha'', base), (''acceptance'', strings criteria), (''registration_sha256'', sha),
        (''expected_commits'', if criteria = [] then JNull else JInt (int (length (manifest_tasks (the (manifest_of_run reg)))))),
        (''result_kind'', JStr (if reports_worker reg role then ''worker'' else ''phase'')), (''progress_version'', JInt 1),
        (''git_metadata'', git_metadata), (''result_template'', JStr template)])"

definition checkpoint_text :: "string \<Rightarrow> string \<Rightarrow> string" where
  "checkpoint_text identity plan_hash = ''After each complete task commit, write checkpoint-TASK_ID.json in TPO_CHECKPOINT_DIR with exactly this JSON schema, substituting the task ID and actual commit SHA: ''
     @ dumps default_style (sort_keys (JObj [(''version'', JInt 1), (''execution_id'', JStr identity), (''generation'', JStr ''integer from TPO_ATTEMPT_GENERATION''),
         (''plan_identity'', JStr plan_hash), (''task_id'', JStr ''manifest task ID''), (''commit'', JStr ''actual full commit SHA'')]))
     @ ''. These are submissions only; skip tasks only when recovery context lists them as accepted. The supervisor runs pinned argv verification commands and independent review before acceptance.'' @ [newline]"

definition full_prompt :: "run_registration option \<Rightarrow> string \<Rightarrow> string \<Rightarrow> string \<Rightarrow> string \<Rightarrow> string" where
  "full_prompt reg role identity prompt_text template = prompt_text @ [newline, newline] @ ''Supervisor result delivery:'' @ [newline]
     @ ''Write the filled tpo_result object from this template as JSON to the absolute path in environment variable TPO_RESULT_PATH. Do not publish provider output. ''
     @ ''TPO_CHECKPOINT_DIR is the only additional writable submission directory. If TPO_RECOVERY_CONTEXT_PATH is set, read it before working and preserve partial work.'' @ [newline]
     @ template @ [newline]
     @ (case reg of Some r \<Rightarrow> if run_manifest r \<noteq> None \<and> role = ''implementation'' then checkpoint_text identity (run_plan_hash r) else [] | None \<Rightarrow> [])"

definition client_json :: "string \<Rightarrow> string \<Rightarrow> json" where
  "client_json client tools = JObj [(''name'', JStr client), (''tools'', strings (filter (\<lambda>t. t \<noteq> []) (map strip (split_on (CHR '','') tools))))]"

text \<open>What is pinned: read before anything is written.\<close>

definition pinned_execution :: "'b flow_world \<Rightarrow> string \<Rightarrow> string \<Rightarrow> string \<Rightarrow> string \<Rightarrow> string \<Rightarrow> string \<Rightarrow> string \<Rightarrow> string \<Rightarrow> json \<Rightarrow> string \<Rightarrow> string option \<Rightarrow> string
    \<Rightarrow> 'b tick_state \<Rightarrow> (run_registration option \<times> dict) res" where
  "pinned_execution w project_dir state_dir tick_id phase prompt_text client tools worktree timeout todo_id template role s = (let identity = execution_id (sched w) tick_id phase in
     rbind (entrypoint w) (\<lambda>_.
     rbind (metadata_identity (gitw_of w) worktree) (\<lambda>git_metadata.
     rbind (registered_run w project_dir state_dir tick_id client worktree s) (\<lambda>reg.
     rbind (role_of_phase reg phase role) (\<lambda>role'.
     rbind (git_out (query_of (sched w)) worktree [''branch'', ''--show-current'']) (\<lambda>branch.
     rbind (existing_contract w identity s) (\<lambda>existing.
     rbind (contract_base w reg role' worktree existing) (\<lambda>base.
     rbind (if reg = None then Inr JNull else rbind (read_run_file (sched w) (run_path state_dir tick_id ''registration.json'') s) (\<lambda>t.
         Inr (JStr (sha256 (execw w) (utf8_encode t))))) (\<lambda>sha.
     rbind (contract_template reg role' identity tick_id todo_id phase template) (\<lambda>shown.
     let full = utf8_encode (full_prompt reg role' identity prompt_text shown) in
     Inr (reg, make_registration (execw w) tick_id (case reg of Some r \<Rightarrow> run_plan_hash r | None \<Rightarrow> sha256 (execw w) full) phase full (client_json client tools)
       (slashed (real_path (sched w) worktree)) branch
       (JObj (make_contract w reg project_dir state_dir tick_id todo_id phase role' base sha git_metadata existing shown)) timeout
       (case manifest_of_run reg of Some m \<Rightarrow> if role' = ''implementation'' then manifest_json m else JNull | None \<Rightarrow> JNull))))))))))))"

definition register_execution :: "'b flow_world \<Rightarrow> string \<Rightarrow> string \<Rightarrow> string \<Rightarrow> string \<Rightarrow> string \<Rightarrow> string \<Rightarrow> string \<Rightarrow> string \<Rightarrow> json \<Rightarrow> string \<Rightarrow> string option \<Rightarrow> string
    \<Rightarrow> ('b tick_state, string) op" where
  "register_execution w project_dir state_dir tick_id phase prompt_text client tools worktree timeout todo_id template role =
     bind_op (reads (pinned_execution w project_dir state_dir tick_id phase prompt_text client tools worktree timeout todo_id template role)) (\<lambda>(reg, pinned).
     let identity = execution_id (sched w) tick_id phase in
     then_op (if reg = None then ret () else mark_supervised_run (sched w) state_dir tick_id)
     (bind_op (on_execs (register (execw w) identity pinned)) (\<lambda>_.
      bind_op (on_execs (initialize (execw w) (gitw_of w) identity)) (\<lambda>_. ret identity))))"

section \<open>Prompts of a run\<close>

definition MAX_REFERENCE_PATHS :: nat where "MAX_REFERENCE_PATHS = 10"

fun contained_from :: "'b flow_world \<Rightarrow> string \<Rightarrow> string list \<Rightarrow> string list \<Rightarrow> ('b tick_state, string list) op" where
  "contained_from w project_dir [] kept = ret (take MAX_REFERENCE_PATHS kept)"
| "contained_from w project_dir (p # ps) kept = (case validate_plan_path (plan_world w) (path_parts project_dir) p of
       Inl e \<Rightarrow> if is_value_error e \<or> is_os_error e \<or> e = SubprocessErr then contained_from w project_dir ps kept else raise e
     | Inr path \<Rightarrow> if list_ex (\<lambda>seg. startswith seg ''.'') (split_on (CHR ''/'') path) then contained_from w project_dir ps kept
         else bind_op (run_program w [''git'', ''cat-file'', ''-e'', ''HEAD:'' @ path] project_dir) (\<lambda>r.
           contained_from w project_dir ps (case r of GhExit code _ _ \<Rightarrow> if code = 0 \<and> path \<notin> set kept then kept @ [path] else kept | _ \<Rightarrow> kept)))"

definition contained_paths :: "'b flow_world \<Rightarrow> string \<Rightarrow> string list \<Rightarrow> ('b tick_state, string list) op" where
  "contained_paths w project_dir paths = contained_from w project_dir (filter (\<lambda>p. p \<noteq> []) paths) []"

definition plain_context :: "run_registration \<Rightarrow> phase \<Rightarrow> string \<Rightarrow> string \<Rightarrow> string \<Rightarrow> (string \<times> string) list \<Rightarrow> prompt_input" where
  "plain_context reg p source tick_id tenant facts =
     \<lparr>in_todo = run_todo reg, in_tick = tick_id, in_slug = tenant, in_plan_path = Some (run_plan_reference reg), in_plan_hash = Some (run_plan_hash reg),
      in_spec_path = None, in_references = [], in_client = run_client reg, in_source = Some (source @ '':'' @ def_key p), in_decisions = [],
      in_facts = facts, in_profile = Some (run_profile reg), in_policy = run_policy_mode reg\<rparr>"

definition issue_context :: "'b flow_world \<Rightarrow> run_registration \<Rightarrow> prompt_input \<Rightarrow> ('b tick_state, prompt_input) op" where
  "issue_context w reg base = (if run_phases reg = [] \<or> run_snapshot reg = [] then ret base
     else bind_op (lift_res (rbind (split_canonical_snapshot (run_snapshot reg)) (\<lambda>(repo, number, title, body).
         issue_from_api (text_hash (issues_env w)) repo [(''number'', JInt (int number)), (''title'', JStr title), (''body'', JStr body), (''labels'', JList [])]))) (\<lambda>issue.
       let project = slashed (run_repository reg) in
       bind_op (contained_paths w project (case issue_spec issue of None \<Rightarrow> [] | Some p \<Rightarrow> [p])) (\<lambda>specs.
       bind_op (contained_paths w project (issue_references issue)) (\<lambda>refs.
       ret (base\<lparr>in_spec_path := (case specs of [] \<Rightarrow> None | p # _ \<Rightarrow> Some p), in_references := refs, in_decisions := issue_decisions (issue_body issue)\<rparr>)))))"

definition render_profile_prompt :: "'b flow_world \<Rightarrow> run_registration \<Rightarrow> phase \<Rightarrow> string \<Rightarrow> string \<Rightarrow> string \<Rightarrow> (string \<times> string) list \<Rightarrow> ('b tick_state, string) op" where
  "render_profile_prompt w reg p source tick_id tenant facts =
     bind_op (issue_context w reg (plain_context reg p source tick_id tenant facts)) (\<lambda>i. lift_res (render_phase_prompt i (def_prompt p)))"

definition profile_phase :: "'b flow_world \<Rightarrow> run_registration \<Rightarrow> string \<Rightarrow> (string \<times> phase) res" where
  "profile_phase w reg key = (let missing = ResultContractError ''profile_phase_missing'' in
     if run_phases reg \<noteq> [] then (case find (\<lambda>p. def_key p = key) (run_phases reg) of None \<Rightarrow> Inl missing | Some p \<Rightarrow> Inr (''pinned-profile'', p))
     else rbind (case rbind (profile_file w (run_profile reg)) (\<lambda>(path, data). rbind (load_phase_profile data) (\<lambda>pp. Inr (path, profile_phases pp))) of
          Inr x \<Rightarrow> Inr x
        | Inl (ContractSchemaError m) \<Rightarrow> Inl (ResultContractError ''profile_unavailable'')
        | Inl e \<Rightarrow> if (is_value_error e \<and> e \<noteq> ValueErr ''yaml'') \<or> is_os_error e then Inl (ResultContractError ''profile_unavailable'') else Inl e) (\<lambda>(path, phases).
       case find (\<lambda>p. def_key p = key) phases of None \<Rightarrow> Inl missing | Some p \<Rightarrow> Inr (path, p)))"

section \<open>The card\<close>

record card_request =
  req_key :: string
  req_title :: string
  req_prompt :: string
  req_template :: string
  req_assignee :: "string option"
  req_parent :: "string option"
  req_tools :: string
  req_turns :: int
  req_timeout :: int
  req_generation :: int
  req_identity :: "string option"

definition pending_create_path :: "string \<Rightarrow> string \<Rightarrow> string" where
  "pending_create_path project_dir tick_id = run_path (project_dir @ ''/.hermes'') tick_id ''pending-review-create.json''"

definition pending_create :: "string \<Rightarrow> string \<Rightarrow> json" where
  "pending_create tick_id key = JObj [(''schema_version'', JInt 1), (''tick_id'', JStr tick_id), (''step_key'', JStr key)]"

definition persist_pending_create :: "'b bw \<Rightarrow> string \<Rightarrow> string \<Rightarrow> string \<Rightarrow> ('b board, unit) op" where
  "persist_pending_create w project_dir tick_id key =
     write_text w (pending_create_path project_dir tick_id) (dumps default_style (pending_create tick_id key) @ [newline])"

definition clear_pending_create :: "'b bw \<Rightarrow> string \<Rightarrow> string \<Rightarrow> string \<Rightarrow> ('b board, unit) op" where
  "clear_pending_create w project_dir tick_id key = (let path = pending_create_path project_dir tick_id in
     catch_op (bind_op (reads (read_text w path)) (\<lambda>t. case loads t of None \<Rightarrow> ret ()
         | Some v \<Rightarrow> if py_eq v (pending_create tick_id key) then unlink w False path else ret ()))
       (\<lambda>e. if is_os_error e then ret () else raise e))"

definition card_body :: "string \<Rightarrow> string \<Rightarrow> string \<Rightarrow> string \<Rightarrow> int \<Rightarrow> string \<Rightarrow> string \<Rightarrow> string" where
  "card_body tick_id key todo_id tenant generation identity task_prompt =
     dumps default_style (sort_keys (JObj (dput ''execution_id'' (JStr identity)
       (case loads (build_json_header tick_id key todo_id tenant generation) of Some v \<Rightarrow> dict_of v | None \<Rightarrow> [])))) @ [newline] @ task_prompt"

definition card_command :: "run_registration \<Rightarrow> string \<Rightarrow> card_request \<Rightarrow> string \<Rightarrow> string \<Rightarrow> int \<Rightarrow> string list" where
  "card_command reg tenant q body ikey runtime = [''hermes'', ''kanban'', ''create'', ''--tenant'', tenant, req_title q, ''--body'', body,
     ''--workspace'', ''dir:'' @ slashed (run_worktree reg), ''--idempotency-key'', ikey,
     ''--assignee'', (case req_assignee q of Some a \<Rightarrow> if a \<noteq> [] then a else ''default'' | None \<Rightarrow> ''default''), ''--json'',
     ''--max-runtime'', dec_int runtime, ''--max-retries'', ''1'', ''--goal'', ''--goal-max-turns'', dec_int (req_turns q)]
     @ (case req_parent q of None \<Rightarrow> [] | Some p \<Rightarrow> [''--parent'', p])"

text \<open>The pinned registration of the execution the card runs: fresh, or that of a reissued generation.\<close>

definition card_execution :: "'b flow_world \<Rightarrow> run_registration \<Rightarrow> string \<Rightarrow> string \<Rightarrow> card_request \<Rightarrow> ('b tick_state, string) op" where
  "card_execution w reg project_dir tick_id q = (case req_identity q of Some identity \<Rightarrow> ret identity
     | None \<Rightarrow> register_execution w project_dir (project_dir @ ''/.hermes'') tick_id (req_key q) (req_prompt q) (run_client reg) (req_tools q)
         (slashed (run_worktree reg)) (JInt (req_timeout q)) (run_todo reg) (Some (req_template q)) ''worker'')"

definition publish_card :: "'b bw \<Rightarrow> string \<Rightarrow> string \<Rightarrow> string \<Rightarrow> string \<Rightarrow> int \<Rightarrow> string list \<Rightarrow> ('b board, string) op" where
  "publish_card w project_dir tenant tick_id key generation cmd =
     then_op (persist_pending_create w project_dir tick_id key)
     (bind_op (find_task_id_in_snapshot w tenant tick_id key generation) (\<lambda>found.
      bind_op (case found of Some i \<Rightarrow> ret (Some i)
        | None \<Rightarrow> catch_op (bind_op (hermes w cmd) (\<lambda>r. ret (if fst r = 0 then parse_task_id (snd r) else None)))
            (\<lambda>e. if command_failed e then raise RetryableReviewRegistration else raise e)) (\<lambda>created.
      case created of None \<Rightarrow> raise RetryableReviewRegistration
      | Some i \<Rightarrow> then_op (clear_pending_create w project_dir tick_id key) (ret i))))"

definition create_task :: "'b flow_world \<Rightarrow> run_registration \<Rightarrow> string \<Rightarrow> string \<Rightarrow> string \<Rightarrow> card_request \<Rightarrow> ('b tick_state, string) op" where
  "create_task w reg project_dir tenant tick_id q =
     bind_op (card_execution w reg project_dir tick_id q) (\<lambda>identity.
     bind_op (reads (\<lambda>s. case load (execw w) identity (execs s) of Inr r \<Rightarrow> Inr (registration_of r)
        | Inl e \<Rightarrow> if is_execution_error e \<or> is_os_error e \<or> is_key_error e then Inl RetryableReviewRegistration else Inl e)) (\<lambda>pinned.
     bind_op (lift_res (rbind (worker_instructions w identity (project_dir @ ''/.hermes/agent-executions'')) (\<lambda>t.
         rbind (phase_idempotency_key tick_id (req_key q) (req_generation q)) (\<lambda>k. Inr (t, k))))) (\<lambda>(task_prompt, ikey).
     let body = card_body tick_id (req_key q) (run_todo reg) tenant (req_generation q) identity task_prompt in
     on_cards (publish_card (boardw w) project_dir tenant tick_id (req_key q) (req_generation q)
       (card_command reg tenant q body ikey (card_max_runtime pinned))))))"

end
