(* ===== verification/RunState.thy ===== *)
theory RunState
  imports CardCreation
begin

text \<open>
  The state of registered runs, \<^verbatim>\<open>hermes_pipeline/run_registration.py\<close>: which registrations are active, which
  still need execution recovery, and the label of an issue in progress.

  The names in the directory of runs (or what listing it raises) and whether one is a directory are
  parameters; a file of a run is a text.
\<close>

definition run_file :: "string \<Rightarrow> string \<Rightarrow> string \<Rightarrow> 'b tick_state \<Rightarrow> bool" where
  "run_file state_dir tick_id name s \<longleftrightarrow> path_exists (cards s) (run_path state_dir tick_id name)"

definition registration_state :: "string \<Rightarrow> string \<Rightarrow> 'b tick_state \<Rightarrow> string" where
  "registration_state state_dir tick_id s = (if run_file state_dir tick_id ''issue-closed'' s then ''delivered''
     else if run_file state_dir tick_id ''abandoned'' s then ''abandoned'' else ''active'')"

definition registration_issue_number :: "json \<Rightarrow> int option" where
  "registration_issue_number v = (let n = dget (dict_of v) ''issue_number'' in if is_dict v \<and> is_int n \<and> int_of n > 0 then Some (int_of n) else None)"

definition supported_version :: "json \<Rightarrow> bool res" where
  "supported_version v = (if \<not> hashable v then Inl TypeErr else Inr (list_ex (\<lambda>n. py_eq v (JInt n)) SUPPORTED_REGISTRATION_SCHEMA_VERSIONS))"

text \<open>The issue of one run, if its registration is active and readable.\<close>

definition active_issue :: "'b flow_world \<Rightarrow> string \<Rightarrow> string \<Rightarrow> 'b tick_state \<Rightarrow> int option res" where
  "active_issue w state_dir tick_id s = (if registration_state state_dir tick_id s \<noteq> ''active'' then Inr None
     else (case rbind (read_text (boardw w) (run_path state_dir tick_id ''registration.json'') (cards s)) parse_json of
         Inl e \<Rightarrow> if is_os_error e \<or> e = ValueErr ''unicode'' \<or> e = ValueErr ''json'' then Inr None else Inl e
       | Inr v \<Rightarrow> if \<not> is_dict v then Inr None
           else rbind (supported_version (dget (dict_of v) ''schema_version'')) (\<lambda>ok. Inr (if ok then registration_issue_number v else None))))"

definition registered_names :: "'b flow_world \<Rightarrow> string \<Rightarrow> 'b tick_state \<Rightarrow> string list" where
  "registered_names w state_dir s = (case run_names w (state_dir @ ''/runs'') (remote (cards s)) of Inl _ \<Rightarrow> []
     | Inr names \<Rightarrow> filter (\<lambda>n. run_file state_dir n ''registration.json'' s) (sort_strs names))"

fun active_among :: "'b flow_world \<Rightarrow> string \<Rightarrow> string list \<Rightarrow> 'b tick_state \<Rightarrow> (string \<times> int) list res" where
  "active_among w state_dir [] s = Inr []"
| "active_among w state_dir (t # ts) s = rbind (active_issue w state_dir t s) (\<lambda>n. rbind (active_among w state_dir ts s) (\<lambda>rest.
     Inr (case n of None \<Rightarrow> rest | Some i \<Rightarrow> (t, i) # rest)))"

definition active_registrations :: "'b flow_world \<Rightarrow> string \<Rightarrow> 'b tick_state \<Rightarrow> (string \<times> int) list res" where
  "active_registrations w state_dir s = active_among w state_dir (registered_names w state_dir s) s"

definition active_registration_issue_numbers :: "'b flow_world \<Rightarrow> string \<Rightarrow> 'b tick_state \<Rightarrow> int list res" where
  "active_registration_issue_numbers w state_dir s = rbind (active_registrations w state_dir s) (\<lambda>rs. Inr (map snd rs))"

definition active_runs_for_issue :: "'b flow_world \<Rightarrow> string \<Rightarrow> int \<Rightarrow> 'b tick_state \<Rightarrow> string list res" where
  "active_runs_for_issue w state_dir number s = rbind (active_registrations w state_dir s) (\<lambda>rs. Inr (map fst (filter (\<lambda>r. snd r = number) rs)))"

text \<open>\<^verbatim>\<open>path.stat()\<close>, where only a missing file is an answer.\<close>

definition probe_path :: "'b flow_world \<Rightarrow> string \<Rightarrow> 'b tick_state \<Rightarrow> bool res" where
  "probe_path w path s = (case read_error (boardw w) path (remote (cards s)) of Some e \<Rightarrow> if e = FileNotFound then Inr False else Inl e
     | None \<Rightarrow> Inr (path_exists (cards s) path))"

definition unresolved_run :: "'b flow_world \<Rightarrow> string \<Rightarrow> string \<Rightarrow> 'b tick_state \<Rightarrow> bool res" where
  "unresolved_run w state_dir t s = (let file = (\<lambda>name. probe_path w (run_path state_dir t name) s) in
     if \<not> run_directory w (state_dir @ ''/runs/'' @ t) (remote (cards s)) then Inr False
     else rbind (file ''registration.json'') (\<lambda>registered. if \<not> registered then Inr False
     else rbind (file ''issue-closed'') (\<lambda>closed. if closed then Inr False
     else rbind (file ''abandoned'') (\<lambda>abandoned. if abandoned then Inr False
     else rbind (file ''finish-verified'') (\<lambda>finished. Inr (\<not> finished))))))"

fun unresolved_among :: "'b flow_world \<Rightarrow> string \<Rightarrow> string option \<Rightarrow> string list \<Rightarrow> 'b tick_state \<Rightarrow> string list res" where
  "unresolved_among w state_dir current [] s = Inr []"
| "unresolved_among w state_dir current (t # ts) s = (if Some t = current then unresolved_among w state_dir current ts s
     else rbind (unresolved_run w state_dir t s) (\<lambda>u. rbind (unresolved_among w state_dir current ts s) (\<lambda>rest. Inr (if u then t # rest else rest))))"

definition unresolved_execution_runs :: "'b flow_world \<Rightarrow> string \<Rightarrow> string option \<Rightarrow> 'b tick_state \<Rightarrow> string list res" where
  "unresolved_execution_runs w state_dir current s = (case run_names w (state_dir @ ''/runs'') (remote (cards s)) of
       Inl e \<Rightarrow> if e = FileNotFound then Inr [] else Inl e
     | Inr names \<Rightarrow> unresolved_among w state_dir current (sort_strs names) s)"

definition ensure_in_progress_label :: "'b flow_world \<Rightarrow> json \<Rightarrow> string option \<Rightarrow> issue_todo option \<Rightarrow> ('b tick_state, bool) op" where
  "ensure_in_progress_label w payload repo live = (case registration_issue_number payload of None \<Rightarrow> ret False
     | Some n \<Rightarrow> catch_op
         (bind_op (case live of Some i \<Rightarrow> ret i | None \<Rightarrow> on_remote (fetch_issue (issues_env w) (JInt n) repo)) (\<lambda>issue.
          if has_label issue IN_PROGRESS_LABEL then ret False
          else then_op (on_remote (add_label (issues_env w) (JInt n) IN_PROGRESS_LABEL repo)) (ret True)))
         (\<lambda>e. case e of GitHubIssuesError _ \<Rightarrow> ret False | _ \<Rightarrow> raise e))"

end
