(* ===== verification/Delivery.thy ===== *)
theory Delivery
  imports RunState
begin

text \<open>
  \<^verbatim>\<open>hermes_pipeline/todos_completion.py\<close>: the handoff of a finished run to a pull request and the closing of
  its issue.  Programs run in the worktree (\<^verbatim>\<open>git\<close>, \<^verbatim>\<open>gh\<close>) and the GitHub client share the state behind the
  board; whether the directory of a run exists and today's date are parameters.
\<close>

section \<open>Programs in the worktree\<close>

definition failure :: "string \<Rightarrow> exn" where "failure code = ResultContractError code"

text \<open>A run of a program: its exit code and output, or the failure that stands for whatever kept it from running.\<close>

definition probe :: "'b flow_world \<Rightarrow> string list \<Rightarrow> string \<Rightarrow> string \<Rightarrow> ('b tick_state, int \<times> string \<times> string) op" where
  "probe w args cwd code = bind_op (run_program w args cwd) (\<lambda>r. case r of GhExit n out err \<Rightarrow> ret (n, out, err) | _ \<Rightarrow> raise (failure code))"

definition delivery_git :: "'b flow_world \<Rightarrow> string \<Rightarrow> string list \<Rightarrow> ('b tick_state, string) op" where
  "delivery_git w worktree args = bind_op (probe w (''git'' # args) worktree ''git_verification_failed'') (\<lambda>(n, out, _).
     if n \<noteq> 0 then raise (failure ''git_verification_failed'') else ret (strip out))"

definition pr_view :: "'b flow_world \<Rightarrow> string \<Rightarrow> string \<Rightarrow> ('b tick_state, dict) op" where
  "pr_view w worktree url = bind_op (probe w [''gh'', ''pr'', ''view'', url, ''--json'', ''state,url,headRefName,headRefOid,baseRefName,headRepository,isCrossRepository'']
       worktree ''pr_unavailable'') (\<lambda>(n, out, _).
     if n \<noteq> 0 then raise (failure ''pr_missing'')
     else (case loads out of Some (JObj d) \<Rightarrow> ret d | _ \<Rightarrow> raise (failure ''pr_invalid'')))"

definition remote_head :: "'b flow_world \<Rightarrow> string \<Rightarrow> string \<Rightarrow> ('b tick_state, string) op" where
  "remote_head w worktree branch = bind_op (probe w [''git'', ''ls-remote'', ''--heads'', ''origin'', ''refs/heads/'' @ branch] worktree ''remote_unavailable'') (\<lambda>(n, out, _).
     if n \<noteq> 0 \<or> strip out = [] then raise (failure ''remote_branch_missing'') else ret (hd (words_of out)))"

section \<open>Checks of a pull request\<close>

definition CHECKS_GREEN :: "string list" where "CHECKS_GREEN = [''SUCCESS'', ''SKIPPED'', ''NEUTRAL'']"
definition CHECKS_RED :: "string list" where
  "CHECKS_RED = [''ERROR'', ''FAILURE'', ''TIMED_OUT'', ''ACTION_REQUIRED'', ''CANCELLED'', ''STALE'', ''STARTUP_FAILURE'']"
definition CHECKS_TRANSIENT :: "string list" where
  "CHECKS_TRANSIENT = [''EXPECTED'', ''REQUESTED'', ''WAITING'', ''QUEUED'', ''PENDING'', ''IN_PROGRESS'', '''']"
definition NO_CHECKS_PREFIX :: string where "NO_CHECKS_PREFIX = ''no checks reported on the '' @ [CHR 0x27]"
definition CHECK_SUITES_JQ :: string where
  "CHECK_SUITES_JQ = ''{total: .total_count, suites: [.check_suites[] | {runs: .latest_check_runs_count, conclusion: .conclusion, status: .status, app: .app.slug}]}''"
definition ACTIONS_APP_SLUG :: string where "ACTIONS_APP_SLUG = ''github-actions''"

definition no_evidence :: exn where "no_evidence = failure ''checks_unavailable''"

definition classify_check_states :: "string list \<Rightarrow> string res" where
  "classify_check_states states = (if states = [] \<or> \<not> set states \<subseteq> set (CHECKS_GREEN @ CHECKS_RED @ CHECKS_TRANSIENT) then Inl no_evidence
     else if set states \<inter> set CHECKS_RED \<noteq> {} then Inr ''failed''
     else if set states \<inter> set CHECKS_TRANSIENT \<noteq> {} then Inr ''pending'' else Inr ''passed'')"

definition corroborating_api :: "'b flow_world \<Rightarrow> string \<Rightarrow> string \<Rightarrow> string \<Rightarrow> ('b tick_state, string) op" where
  "corroborating_api w worktree endpoint jq = bind_op (probe w [''gh'', ''api'', endpoint, ''--jq'', jq] worktree ''checks_unavailable'') (\<lambda>(n, out, _).
     if n \<noteq> 0 then raise no_evidence else ret out)"

text \<open>The suites one by one: unreadable evidence raises, a suite that ran, concluded or may still run refutes.\<close>

fun suites_silent :: "json list \<Rightarrow> bool res" where
  "suites_silent [] = Inr True"
| "suites_silent (v # vs) = (let d = dict_of v; runs = dget d ''runs''; conclusion = dget d ''conclusion''; app = dget d ''app'' in
     if \<not> is_dict v \<or> \<not> is_int runs \<or> (conclusion \<noteq> JNull \<and> \<not> is_str conclusion) then Inl no_evidence
     else if runs \<noteq> JInt 0 \<or> conclusion \<noteq> JNull then Inr False
     else if \<not> is_str app \<or> app = JStr ACTIONS_APP_SLUG then Inr False
     else suites_silent vs)"

definition suites_empty :: "string \<Rightarrow> bool res" where
  "suites_empty raw = (case loads raw of None \<Rightarrow> Inl no_evidence
     | Some v \<Rightarrow> if \<not> is_dict v then Inl no_evidence
         else let suites = dget (dict_of v) ''suites''; total = dget (dict_of v) ''total'' in
           if \<not> is_list suites \<or> \<not> is_int total then Inl no_evidence
           else if total \<noteq> JInt (int (length (items suites))) then Inr False else suites_silent (items suites))"

text \<open>\<^verbatim>\<open>int(s)\<close>\<close>

fun separated :: "string \<Rightarrow> bool" where
  "separated [] = False"
| "separated [c] = is_digit c"
| "separated (c # d # s) = (is_digit c \<and> (if d = CHR ''_'' then separated s else separated (d # s)))"

definition py_int :: "string \<Rightarrow> int option" where
  "py_int s = (let t = strip s; u = (if startswith t ''-'' \<or> startswith t ''+'' then tl t else t); ds = filter is_digit u in
     if separated u \<and> length ds \<le> 4300 then Some (if startswith t ''-'' then - int (undec ds) else int (undec ds)) else None)"

definition rollup_is_honestly_empty :: "'b flow_world \<Rightarrow> string \<Rightarrow> string \<Rightarrow> string \<Rightarrow> ('b tick_state, bool) op" where
  "rollup_is_honestly_empty w worktree repo head_sha =
     bind_op (corroborating_api w worktree (''repos/'' @ repo @ ''/commits/'' @ head_sha @ ''/check-suites?per_page=100'') CHECK_SUITES_JQ) (\<lambda>raw.
     bind_op (lift_res (suites_empty raw)) (\<lambda>silent.
     if \<not> silent then ret False
     else bind_op (corroborating_api w worktree (''repos/'' @ repo @ ''/commits/'' @ head_sha @ ''/status'') ''.total_count'') (\<lambda>statuses.
       case py_int (strip statuses) of None \<Rightarrow> raise no_evidence | Some n \<Rightarrow> ret (n = 0))))"

definition check_states :: "json list \<Rightarrow> string list res" where
  "check_states checks = rmap (\<lambda>v. let state = (if is_dict v then dget (dict_of v) ''state'' else JNull) in if is_str state then Inr (str_of state) else Inl no_evidence) checks"

definition if_proven_empty :: "'b flow_world \<Rightarrow> string \<Rightarrow> string \<Rightarrow> string \<Rightarrow> ('b tick_state, string) op" where
  "if_proven_empty w worktree repo head_sha = bind_op (rollup_is_honestly_empty w worktree repo head_sha) (\<lambda>e. if e then ret ''passed'' else raise no_evidence)"

definition check_state :: "'b flow_world \<Rightarrow> string \<Rightarrow> string \<Rightarrow> string \<Rightarrow> string \<Rightarrow> ('b tick_state, string) op" where
  "check_state w worktree url repo head_sha = bind_op (probe w [''gh'', ''pr'', ''checks'', url, ''--json'', ''state''] worktree ''checks_unavailable'') (\<lambda>(n, out, err).
     if n \<noteq> 0 then
       (if strip out \<noteq> [] \<or> \<not> startswith (dropWhile is_space err) NO_CHECKS_PREFIX then raise no_evidence
        else if_proven_empty w worktree repo head_sha)
     else (case loads out of None \<Rightarrow> raise no_evidence
       | Some v \<Rightarrow> if \<not> is_list v then raise no_evidence
           else if items v = [] then if_proven_empty w worktree repo head_sha
           else lift_res (rbind (check_states (items v)) classify_check_states)))"

section \<open>Identity of the pull request and of the delivery\<close>

definition github_identity :: "'b flow_world \<Rightarrow> string \<Rightarrow> ('b tick_state, string \<times> string) op" where
  "github_identity w worktree = bind_op (delivery_git w worktree [''remote'', ''get-url'', ''origin'']) (\<lambda>url.
     case parse_github_remote url of None \<Rightarrow> raise (failure ''origin_identity_invalid'')
     | Some repository \<Rightarrow> bind_op (delivery_git w worktree [''symbolic-ref'', ''refs/remotes/origin/HEAD'']) (\<lambda>symbolic.
         if \<not> startswith symbolic ''refs/remotes/origin/'' then raise (failure ''base_branch_invalid'')
         else ret (repository, drop 20 symbolic)))"

definition name_with_owner :: "json \<Rightarrow> string option" where
  "name_with_owner v = (let n = (if is_dict v then dget (dict_of v) ''nameWithOwner'' else v) in if is_str n then Some (str_of n) else None)"

definition verify_pr_identity :: "'b flow_world \<Rightarrow> string \<Rightarrow> dict \<Rightarrow> string \<Rightarrow> string \<Rightarrow> ('b tick_state, unit) op" where
  "verify_pr_identity w worktree view branch repo = bind_op (github_identity w worktree) (\<lambda>(repository, base_branch).
     lift_res (raise_if (dget view ''headRefName'' \<noteq> JStr branch \<or> dget view ''baseRefName'' \<noteq> JStr base_branch
       \<or> (case name_with_owner (dget view ''headRepository'') of None \<Rightarrow> True | Some h \<Rightarrow> lower h \<noteq> lower repository)
       \<or> dget view ''isCrossRepository'' \<noteq> JBool False \<or> lower repository \<noteq> lower repo) (failure ''pr_identity_mismatch'')))"

definition accepted_head_path :: "string \<Rightarrow> string \<Rightarrow> string" where "accepted_head_path state_dir tick_id = run_path state_dir tick_id ''accepted-review-head''"

definition is_unicode_error :: "exn \<Rightarrow> bool" where "is_unicode_error e \<longleftrightarrow> e = ValueErr ''unicode''"

definition accepted_head :: "'b bw \<Rightarrow> string \<Rightarrow> string \<Rightarrow> 'b board \<Rightarrow> string res" where
  "accepted_head w state_dir tick_id s = (case read_text w (accepted_head_path state_dir tick_id) s of
       Inl e \<Rightarrow> Inl (if is_os_error e \<or> is_unicode_error e then failure ''accepted_review_head_missing'' else e)
     | Inr t \<Rightarrow> if hex_of_length 40 (strip t) then Inr (strip t) else Inl (failure ''accepted_review_head_invalid''))"

definition delivery_authority_path :: "string \<Rightarrow> string \<Rightarrow> string" where "delivery_authority_path state_dir tick_id = run_path state_dir tick_id ''delivery-authority.json''"

definition AUTHORITY_KEYS :: "string list" where "AUTHORITY_KEYS = [''origin_repository'', ''base_branch'']"

definition decode_authority :: "json \<Rightarrow> (string \<times> string) res" where
  "decode_authority v = (let bad = Inl (failure ''delivery_authority_invalid''); d = dict_of v in
     if is_dict v then
       (if \<not> keys_are d AUTHORITY_KEYS \<or> list_ex (\<lambda>kv. \<not> is_str (snd kv) \<or> str_of (snd kv) = []) d then bad
        else Inr (str_of (dget d ''origin_repository''), str_of (dget d ''base_branch'')))
     else if is_list v then
       (if \<not> list_all hashable (items v) then Inl TypeErr else if set (items v) = set (map JStr AUTHORITY_KEYS) then Inl AttrErr else bad)
     else if is_str v then bad else Inl TypeErr)"

definition same_repo :: "string \<Rightarrow> string option \<Rightarrow> bool res" where
  "same_repo a repo = (case repo of None \<Rightarrow> Inl AttrErr | Some r \<Rightarrow> Inr (lower a = lower r))"

definition pin_authority :: "'b flow_world \<Rightarrow> string \<Rightarrow> string \<Rightarrow> string \<Rightarrow> string option \<Rightarrow> ('b tick_state, unit) op" where
  "pin_authority w state_dir tick_id worktree repo = bind_op (github_identity w worktree) (\<lambda>(repository, base_branch).
     bind_op (lift_res (same_repo repository repo)) (\<lambda>same.
     if \<not> same then raise (failure ''delivery_authority_drift'')
     else on_cards (write_text (boardw w) (delivery_authority_path state_dir tick_id)
       (dumps default_style (sort_keys (JObj [(''origin_repository'', JStr repository), (''base_branch'', JStr base_branch)])) @ [newline]))))"

definition delivery_authority :: "'b flow_world \<Rightarrow> string \<Rightarrow> string \<Rightarrow> string \<Rightarrow> string option \<Rightarrow> bool \<Rightarrow> ('b tick_state, string \<times> string) op" where
  "delivery_authority w state_dir tick_id worktree repo create s = (let path = delivery_authority_path state_dir tick_id in
     then_op (if create \<and> \<not> path_exists (cards s) path then pin_authority w state_dir tick_id worktree repo else ret ())
     (bind_op (reads (\<lambda>s. case read_text (boardw w) path (cards s) of
           Inl e \<Rightarrow> Inl (if is_os_error e \<or> is_unicode_error e then failure ''delivery_authority_invalid'' else e)
         | Inr t \<Rightarrow> (case loads t of None \<Rightarrow> Inl (failure ''delivery_authority_invalid'') | Some v \<Rightarrow> decode_authority v))) (\<lambda>a.
      bind_op (lift_res (same_repo (fst a) repo)) (\<lambda>same.
      if \<not> same then raise (failure ''delivery_authority_drift'') else ret a))) s)"

definition verify_finish :: "'b flow_world \<Rightarrow> string \<Rightarrow> worker_result \<Rightarrow> string \<Rightarrow> bool \<Rightarrow> unit res" where
  "verify_finish w worktree result head require_current =
     (case verify_optional_single_commit (query_of (sched w)) worktree (result_git result) head require_current of
        Inl (ResultContractError code) \<Rightarrow> Inl (failure (if code = ''git_verification_failed'' then code else ''finish_review_head_mismatch''))
      | r \<Rightarrow> r)"

text \<open>\<^verbatim>\<open>https://github\.com/([^/]+/[^/]+)/pull/(\d+)\<close> with \<^verbatim>\<open>fullmatch\<close>.\<close>

definition pr_of_url :: "string \<Rightarrow> (string \<times> nat) option" where
  "pr_of_url url = (if \<not> startswith url ''https://github.com/'' then None
     else (case split_on (CHR ''/'') (drop 19 url) of
         [a, b, c, d] \<Rightarrow> if a \<noteq> [] \<and> b \<noteq> [] \<and> c = ''pull'' \<and> d \<noteq> [] \<and> list_all is_digit d then Some (a @ ''/'' @ b, undec d) else None
       | _ \<Rightarrow> None))"

section \<open>Closing the issue\<close>

definition CLOSE_STARTED :: string where "CLOSE_STARTED = ''issue-close-started''"
definition COMMENTED :: string where "COMMENTED = ''issue-commented''"
definition CLOSED :: string where "CLOSED = ''issue-closed''"

definition completion_marker :: "string \<Rightarrow> nat \<Rightarrow> string" where
  "completion_marker tick_id pr = ''<!-- tpo-completed tick='' @ tick_id @ '' pr='' @ dec pr @ '' -->''"

text \<open>\<^verbatim>\<open>findall\<close>: the captures of the matches, each after the one before; \<open>f\<close> matches at the start of a text.\<close>

function find_all :: "(string \<Rightarrow> ('a \<times> string) option) \<Rightarrow> string \<Rightarrow> 'a list" where
  "find_all f [] = []"
| "find_all f (c # s) = (case f (c # s) of None \<Rightarrow> find_all f s
     | Some (x, rest) \<Rightarrow> if length rest \<le> length s then x # find_all f rest else find_all f s)"
  by pat_completeness auto
termination by (relation "measure (\<lambda>(_, s). length s)") auto

definition marker_at :: "(char \<Rightarrow> bool) \<Rightarrow> string \<Rightarrow> ((string \<times> string) \<times> string) option" where
  "marker_at tick_char s = (let t = drop 24 s; tick = takeWhile tick_char t; u = drop (length tick) t; v = drop 4 u; ds = takeWhile is_digit v; r = drop (length ds) v in
     if startswith s ''<!-- tpo-completed tick='' \<and> tick \<noteq> [] \<and> startswith u '' pr='' \<and> ds \<noteq> [] \<and> startswith r '' -->'' then Some ((tick, ds), drop 4 r) else None)"

definition marked_prs :: "string \<Rightarrow> nat list" where
  "marked_prs body = map (\<lambda>(tick, ds). undec ds) (find_all (marker_at (\<lambda>c. \<not> is_space c)) body)"

definition marked_ticks :: "string \<Rightarrow> string list" where
  "marked_ticks body = map fst (find_all (marker_at (\<lambda>c. alnum c \<or> c \<in> set ''_-'')) body)"

definition has_run :: "'b flow_world \<Rightarrow> string \<Rightarrow> string \<Rightarrow> 'b tick_state \<Rightarrow> bool" where
  "has_run w state_dir tick_id s \<longleftrightarrow> run_directory w (state_dir @ ''/runs/'' @ tick_id) (remote (cards s))"

definition recorded_login :: "'b flow_world \<Rightarrow> string \<Rightarrow> string \<Rightarrow> 'b tick_state \<Rightarrow> string option res" where
  "recorded_login w state_dir tick_id s = (case read_text (boardw w) (run_path state_dir tick_id COMMENTED) (cards s) of
       Inl e \<Rightarrow> if is_os_error e \<or> is_unicode_error e then Inr None else Inl e
     | Inr t \<Rightarrow> Inr (if strip t = [] \<or> startswith (strip t) ''pr='' then None else Some (strip t)))"

fun owns_tick :: "'b flow_world \<Rightarrow> string \<Rightarrow> string \<Rightarrow> string list \<Rightarrow> 'b tick_state \<Rightarrow> bool res" where
  "owns_tick w state_dir author [] s = Inr False"
| "owns_tick w state_dir author (tick # ticks) s = (if \<not> has_run w state_dir tick s then owns_tick w state_dir author ticks s
     else rbind (recorded_login w state_dir tick s) (\<lambda>r. if r = None \<or> r = Some author then Inr True else owns_tick w state_dir author ticks s))"

text \<open>The login of the token, asked for once: \<^const>\<open>None\<close> in the cache means not asked yet.\<close>

type_synonym login_cache = "string option option"

definition login_of_token :: "'b flow_world \<Rightarrow> login_cache \<Rightarrow> ('b tick_state, string option) op" where
  "login_of_token w cache = (case cache of Some l \<Rightarrow> ret l
     | None \<Rightarrow> catch_op (bind_op (on_remote (current_login (issues_env w))) (\<lambda>l. ret (Some l)))
         (\<lambda>e. if e = GitHubIssuesError ''gh_auth'' then ret None else raise e))"

fun own_bodies :: "'b flow_world \<Rightarrow> string \<Rightarrow> (string \<times> string) list \<Rightarrow> login_cache \<Rightarrow> ('b tick_state, string list \<times> login_cache) op" where
  "own_bodies w state_dir [] cache = ret ([], cache)"
| "own_bodies w state_dir ((author, body) # cs) cache = (let ticks = marked_ticks body in
     if ticks = [] then own_bodies w state_dir cs cache
     else bind_op (reads (owns_tick w state_dir author ticks)) (\<lambda>owned.
       bind_op (if owned then ret (True, cache) else if author = [] then ret (False, cache)
                else bind_op (login_of_token w cache) (\<lambda>l. ret (l = Some author, Some l))) (\<lambda>(mine, cache').
       bind_op (own_bodies w state_dir cs cache') (\<lambda>(bodies, cache''). ret (if mine then body # bodies else bodies, cache'')))))"

definition marker_present :: "'b flow_world \<Rightarrow> string \<Rightarrow> string \<Rightarrow> nat \<Rightarrow> (string \<times> string) list \<Rightarrow> login_cache \<Rightarrow> ('b tick_state, bool \<times> login_cache) op" where
  "marker_present w state_dir tick_id pr comments cache s =
     (if has_run w state_dir tick_id s \<and> path_exists (cards s) (run_path state_dir tick_id COMMENTED) then ret (True, cache) s
      else bind_op (own_bodies w state_dir comments cache) (\<lambda>(bodies, cache'). ret (list_ex (\<lambda>b. contains b (completion_marker tick_id pr)) bodies, cache')) s)"

definition mark_run :: "'b flow_world \<Rightarrow> string \<Rightarrow> string \<Rightarrow> bool \<Rightarrow> string \<Rightarrow> string \<Rightarrow> ('b tick_state, unit) op" where
  "mark_run w state_dir tick_id known name text = (if known then on_cards (write_text (boardw w) (run_path state_dir tick_id name) (text @ [newline])) else ret ())"

definition check_conflict :: "nat \<Rightarrow> string list \<Rightarrow> unit res" where
  "check_conflict pr bodies = raise_if (list_ex (\<lambda>b. list_ex (\<lambda>n. n \<noteq> pr) (marked_prs b)) bodies) (GitHubIssuesError ''completion_conflict'')"

definition comment_once :: "'b flow_world \<Rightarrow> string \<Rightarrow> string \<Rightarrow> bool \<Rightarrow> int \<Rightarrow> nat \<Rightarrow> string \<Rightarrow> string \<Rightarrow> string option \<Rightarrow> bool \<Rightarrow> login_cache \<Rightarrow> ('b tick_state, login_cache) op" where
  "comment_once w state_dir tick_id known number pr url repo date present cache = (if present then ret cache
     else let when = (case date of Some d \<Rightarrow> if d \<noteq> [] then d else today w | None \<Rightarrow> today w) in
       then_op (on_remote (add_comment (issues_env w) (JInt number)
         (''Completed: PR #'' @ dec pr @ '' '' @ url @ '', '' @ when @ [newline] @ completion_marker tick_id pr) (Some repo)))
       (if \<not> known then ret cache
        else bind_op (login_of_token w cache) (\<lambda>l.
          then_op (mark_run w state_dir tick_id True COMMENTED (case l of None \<Rightarrow> [] | Some n \<Rightarrow> n)) (ret (Some l)))))"

definition labelled :: "issue_todo \<Rightarrow> bool" where "labelled live \<longleftrightarrow> has_label live IN_PROGRESS_LABEL"

definition confirm_closed :: "'b flow_world \<Rightarrow> string \<Rightarrow> string \<Rightarrow> bool \<Rightarrow> int \<Rightarrow> nat \<Rightarrow> string \<Rightarrow> login_cache \<Rightarrow> ('b tick_state, string) op" where
  "confirm_closed w state_dir tick_id known number pr repo cache =
     bind_op (on_remote (fetch_issue (issues_env w) (JInt number) (Some repo))) (\<lambda>live.
     bind_op (on_remote (list_comments (issues_env w) (JInt number) (Some repo))) (\<lambda>comments.
     bind_op (marker_present w state_dir tick_id pr comments cache) (\<lambda>(present, _).
     if issue_state live = ''open'' \<or> \<not> present \<or> labelled live then ret ''pending''
     else then_op (mark_run w state_dir tick_id known CLOSED (''pr='' @ dec pr)) (ret ''closed''))))"

definition close_issue_for_delivery :: "'b flow_world \<Rightarrow> string \<Rightarrow> string \<Rightarrow> int \<Rightarrow> nat \<Rightarrow> string \<Rightarrow> string \<Rightarrow> string option \<Rightarrow> bool \<Rightarrow> ('b tick_state, string) op" where
  "close_issue_for_delivery w state_dir tick_id number pr url repo date force s = (let known = has_run w state_dir tick_id s; env = issues_env w; n = JInt number; r = Some repo in
     bind_op (on_remote (fetch_issue env n r)) (\<lambda>live.
     then_op (if issue_state live = ''closed'' \<and> state_reason live = Some ''not_planned'' then raise (GitHubIssuesError ''issue_not_planned'') else ret ())
     (bind_op (on_remote (list_comments env n r)) (\<lambda>comments.
      bind_op (if force then ret None
               else bind_op (own_bodies w state_dir comments None) (\<lambda>(bodies, cache). then_op (lift_res (check_conflict pr bodies)) (ret cache))) (\<lambda>cache.
      then_op (mark_run w state_dir tick_id known CLOSE_STARTED (''pr='' @ dec pr))
      (bind_op (marker_present w state_dir tick_id pr comments cache) (\<lambda>(present, cache').
       bind_op (comment_once w state_dir tick_id known number pr url repo date present cache') (\<lambda>cache''.
       then_op (if issue_state live = ''open'' then on_remote (close_issue env n r) else ret ())
       (then_op (if labelled live then on_remote (remove_label env n IN_PROGRESS_LABEL r) else ret ())
         (confirm_closed w state_dir tick_id known number pr repo cache''))))))))) s)"

section \<open>Reconciling the delivery\<close>

definition FINISH_KEY :: string where "FINISH_KEY = ''finish''"
definition FINISH_PHASE_KEY :: string where "FINISH_PHASE_KEY = ''phase_8_finish_branch''"

text \<open>\<^verbatim>\<open>_blocked\<close> reports the stall and returns \<^verbatim>\<open>False\<close>; a block of code that catches contract errors so.\<close>

definition blocked_on :: "(exn \<Rightarrow> bool) \<Rightarrow> ('b tick_state, bool + 'a) op \<Rightarrow> ('b tick_state, bool + 'a) op" where
  "blocked_on caught m = catch_op m (\<lambda>e. if caught e then ret (Inl False) else raise e)"

fun is_contract_error :: "exn \<Rightarrow> bool" where
  "is_contract_error (ResultContractError _) = True" | "is_contract_error _ = False"

fun is_issues_error :: "exn \<Rightarrow> bool" where
  "is_issues_error (GitHubIssuesError _) = True" | "is_issues_error _ = False"

text \<open>A block that either returned early or goes on.\<close>

definition go_on :: "('b tick_state, bool + 'a) op \<Rightarrow> ('a \<Rightarrow> ('b tick_state, bool) op) \<Rightarrow> ('b tick_state, bool) op" where
  "go_on m k = bind_op m (\<lambda>r. case r of Inl b \<Rightarrow> ret b | Inr x \<Rightarrow> k x)"

definition continues :: "('b tick_state, 'a) op \<Rightarrow> ('b tick_state, bool + 'a) op" where
  "continues m = bind_op m (\<lambda>x. ret (Inr x))"

text \<open>The card of the finish phase of a run whose registration pins no definitions.\<close>

definition finish_request :: "phase \<Rightarrow> string \<Rightarrow> string \<Rightarrow> run_registration \<Rightarrow> card_request" where
  "finish_request p prompt_text template reg = \<lparr>req_key = FINISH_KEY, req_title = def_name p, req_prompt = prompt_text, req_template = template,
     req_assignee = Some (run_assignee reg), req_parent = None, req_tools = def_tools p, req_turns = def_turns p, req_timeout = def_timeout p,
     req_generation = 1, req_identity = None\<rparr>"

definition create_finish :: "'b flow_world \<Rightarrow> run_registration \<Rightarrow> string \<Rightarrow> string \<Rightarrow> string \<Rightarrow> string \<Rightarrow> string \<Rightarrow> ('b tick_state, bool) op" where
  "create_finish w reg project_dir tenant tick_id finish_key head =
     bind_op (lift_res (profile_phase w reg FINISH_PHASE_KEY)) (\<lambda>(source, p).
     catch_op
       (bind_op (render_profile_prompt w reg p source tick_id tenant [(''accepted_review_head_sha'', head), (''branch'', run_branch reg)]) (\<lambda>prompt_text.
        bind_op (lift_res (render_result_template tick_id (run_todo reg) finish_key [] (Some ''delivery'') (Some (run_branch reg)) True)) (\<lambda>template.
        bind_op (create_task w reg project_dir tenant tick_id (finish_request p prompt_text template reg)) (\<lambda>_. ret True))))
       (\<lambda>e. case e of PhasePromptRenderError _ \<Rightarrow> ret False | RetryableReviewRegistration \<Rightarrow> ret True | _ \<Rightarrow> raise e))"

definition finish_verified_path :: "string \<Rightarrow> string \<Rightarrow> string" where "finish_verified_path state_dir tick_id = run_path state_dir tick_id ''finish-verified''"

definition start_finish :: "'b flow_world \<Rightarrow> run_registration \<Rightarrow> string \<Rightarrow> string \<Rightarrow> string \<Rightarrow> string \<Rightarrow> string \<Rightarrow> string option \<Rightarrow> ('b tick_state, bool) op" where
  "start_finish w reg project_dir state_dir tenant tick_id finish_key repo s =
     (if path_exists (cards s) (finish_verified_path state_dir tick_id) then (Inr False, s)
      else (case accepted_head (boardw w) state_dir tick_id (cards s) of
          Inl e \<Rightarrow> (if is_contract_error e then Inr True else Inl e, s)
        | Inr head \<Rightarrow> then_op (require_accepted_review (sched w) reg state_dir tick_id head)
            (bind_op (delivery_authority w state_dir tick_id (slashed (run_worktree reg)) repo True) (\<lambda>_.
              create_finish w reg project_dir tenant tick_id finish_key head)) s))"

text \<open>What the finish phase delivered, and the number of its pull request.\<close>

definition delivered_head :: "'b flow_world \<Rightarrow> run_registration \<Rightarrow> string \<Rightarrow> string \<Rightarrow> string \<Rightarrow> ('b tick_state, string) op" where
  "delivered_head w reg state_dir tick_id finish_key =
     (if run_phases reg \<noteq> [] then validated_predecessor_head (sched w) reg state_dir tick_id (Some finish_key)
      else on_cards (reads (accepted_head (boardw w) state_dir tick_id)))"

definition pr_number_of :: "string \<Rightarrow> string option \<Rightarrow> nat res" where
  "pr_number_of url repo = (case pr_of_url url of None \<Rightarrow> Inl (failure ''pr_identity_mismatch'')
     | Some (r, n) \<Rightarrow> rbind (same_repo r repo) (\<lambda>same. if same then Inr n else Inl (failure ''pr_identity_mismatch'')))"

definition finish_checks :: "'b flow_world \<Rightarrow> run_registration \<Rightarrow> string \<Rightarrow> string \<Rightarrow> string \<Rightarrow> string option \<Rightarrow> worker_result \<Rightarrow> ('b tick_state, delivery_evidence \<times> nat) op" where
  "finish_checks w reg state_dir tick_id finish_key repo payload = (let worktree = slashed (run_worktree reg); verified = finish_verified_path state_dir tick_id in
     case result_delivery payload of None \<Rightarrow> raise (failure ''invalid_delivery'')
     | Some d \<Rightarrow> if delivery_branch d \<noteq> run_branch reg then raise (failure ''invalid_delivery'')
       else bind_op (delivered_head w reg state_dir tick_id finish_key) (\<lambda>head.
         then_op (require_accepted_review (sched w) reg state_dir tick_id head)
         (then_op (reads (\<lambda>s. verify_finish w worktree payload head (\<not> path_exists (cards s) verified)))
         (then_op (lift_res (raise_if (delivery_head d \<noteq> resulting_head_sha (result_git payload)) (failure ''delivery_head_mismatch'')))
         (bind_op (delivery_authority w state_dir tick_id worktree repo False) (\<lambda>authority.
          bind_op (github_identity w worktree) (\<lambda>identity.
          then_op (lift_res (raise_if (identity \<noteq> authority) (failure ''delivery_authority_drift'')))
          (bind_op (lift_res (pr_number_of (pr_url d) repo)) (\<lambda>pr.
           then_op (\<lambda>s. if path_exists (cards s) verified then ret () s else on_cards (write_text (boardw w) verified (head @ [newline])) s)
             (ret (d, pr)))))))))))"

definition the_repo :: "string option \<Rightarrow> string" where "the_repo repo = (case repo of Some r \<Rightarrow> r | None \<Rightarrow> [])"

definition view_checks :: "'b flow_world \<Rightarrow> run_registration \<Rightarrow> string option \<Rightarrow> delivery_evidence \<Rightarrow> ('b tick_state, dict) op" where
  "view_checks w reg repo d = (let worktree = slashed (run_worktree reg) in
     bind_op (pr_view w worktree (pr_url d)) (\<lambda>view. let state = dget view ''state'' in
     then_op (lift_res (raise_if (dget view ''url'' \<noteq> JStr (pr_url d)) (failure ''pr_identity_mismatch'')))
     (then_op (verify_pr_identity w worktree view (run_branch reg) (the_repo repo))
     (then_op (lift_res (run_checks [
        raise_if (state \<noteq> JStr ''MERGED'' \<and> (state \<noteq> JStr ''OPEN'' \<or> dget view ''headRefName'' \<noteq> JStr (run_branch reg))) (failure ''pull_request_closed_or_drifted''),
        raise_if (dget view ''headRefOid'' \<noteq> JStr (delivery_head d)) (failure ''pr_head_drift'')]))
     (then_op (if state \<noteq> JStr ''OPEN'' then ret () else bind_op (remote_head w worktree (run_branch reg)) (\<lambda>h.
        lift_res (raise_if (h \<noteq> delivery_head d) (failure ''remote_head_drift''))))
      (ret view))))))"

text \<open>The exception of a block, as a value: the context around it decides what becomes of it.\<close>

definition capture :: "('s, 'a) op \<Rightarrow> ('s, 'a res) op" where "capture m s = (case m s of (r, s') \<Rightarrow> (Inr r, s'))"

definition bind_sum :: "('s, bool + 'a) op \<Rightarrow> ('a \<Rightarrow> ('s, bool + 'c) op) \<Rightarrow> ('s, bool + 'c) op" where
  "bind_sum m k = bind_op m (\<lambda>r. case r of Inl b \<Rightarrow> ret (Inl b) | Inr x \<Rightarrow> k x)"

definition delivery_block :: "'b flow_world \<Rightarrow> run_registration \<Rightarrow> string \<Rightarrow> string \<Rightarrow> string \<Rightarrow> string option \<Rightarrow> worker_result
    \<Rightarrow> ('b tick_state, bool + delivery_evidence \<times> nat \<times> dict) op" where
  "delivery_block w reg state_dir tick_id finish_key repo payload =
     bind_sum (blocked_on is_contract_error (continues (finish_checks w reg state_dir tick_id finish_key repo payload))) (\<lambda>(d, pr).
     bind_sum (blocked_on is_contract_error (continues (view_checks w reg repo d))) (\<lambda>view. ret (Inr (d, pr, view))))"

text \<open>
  The report of the finish card and the block under its execution's lock.  What entering the context
  raises is caught; an exception of the block leaves it as the context translates it.
\<close>

definition guarded_delivery :: "'b flow_world \<Rightarrow> run_registration \<Rightarrow> string \<Rightarrow> string \<Rightarrow> string \<Rightarrow> string option \<Rightarrow> task_info
    \<Rightarrow> ('b tick_state, bool + delivery_evidence \<times> nat \<times> dict) op" where
  "guarded_delivery w reg state_dir tick_id finish_key repo fcard =
     bind_sum (blocked_on is_contract_error (continues (bind_op (on_cards (show_task_payload (boardw w) (info_task fcard))) (\<lambda>shown.
         lift_res (parse_worker_result (case shown of None \<Rightarrow> JNull | Some d \<Rightarrow> JObj d) tick_id (run_todo reg) finish_key [] True))))) (\<lambda>payload.
     bind_sum (blocked_on is_contract_error (continues (require_authorized_result (sched w) reg state_dir tick_id finish_key (WorkerReport payload)
         (capture (delivery_block w reg state_dir tick_id finish_key repo payload))))) (\<lambda>r.
     case r of Inl e \<Rightarrow> raise (acceptance_error e) | Inr x \<Rightarrow> ret x))"

definition final_chain :: "'b flow_world \<Rightarrow> run_registration \<Rightarrow> string \<Rightarrow> string \<Rightarrow> string \<Rightarrow> ('b tick_state, bool + unit) op" where
  "final_chain w reg state_dir tick_id head =
     blocked_on (\<lambda>e. is_runtime_error e \<or> is_os_error e \<or> is_value_error e \<or> is_key_error e \<or> e = IndexErr)
       (bind_op (validated_predecessor_head (sched w) reg state_dir tick_id None) (\<lambda>final.
        if final \<noteq> head then ret (Inl False)
        else bind_op (delivery_git w (slashed (run_worktree reg)) [''rev-parse'', ''HEAD'']) (\<lambda>h. ret (if h \<noteq> head then Inl False else Inr ()))))"

definition phases_done :: "run_registration \<Rightarrow> (string \<times> task_info) list \<Rightarrow> bool" where
  "phases_done reg tasks \<longleftrightarrow> run_phases reg = []
     \<or> list_all (\<lambda>k. case map_of tasks k of None \<Rightarrow> False | Some c \<Rightarrow> info_status c = ''done'') (run_step_keys reg)"

definition pinned_payload :: "'b flow_world \<Rightarrow> string \<Rightarrow> string \<Rightarrow> 'b tick_state \<Rightarrow> (bool + dict) res" where
  "pinned_payload w state_dir tick_id s = (case rbind (read_text (boardw w) (run_path state_dir tick_id ''registration.json'') (cards s)) parse_json of
       Inl e \<Rightarrow> if is_os_error e \<or> is_unicode_error e \<or> e = ValueErr ''json'' then Inr (Inl False) else Inl e
     | Inr v \<Rightarrow> Inr (if is_dict v then Inr (dict_of v) else Inl False))"

definition close_delivered :: "'b flow_world \<Rightarrow> run_registration \<Rightarrow> string \<Rightarrow> string \<Rightarrow> string option \<Rightarrow> delivery_evidence \<Rightarrow> nat \<Rightarrow> ('b tick_state, bool) op" where
  "close_delivered w reg state_dir tick_id repo d pr = go_on (reads (pinned_payload w state_dir tick_id)) (\<lambda>pinned.
     bind_op (on_remote (check_issue_drift (issues_env w) pinned repo None True)) (\<lambda>drift.
     if drift \<noteq> None then ret False
     else go_on (blocked_on is_issues_error (continues (close_issue_for_delivery w state_dir tick_id (run_issue_number reg) pr (pr_url d) (the_repo repo) None False)))
       (\<lambda>_. ret True)))"

definition after_delivery :: "'b flow_world \<Rightarrow> run_registration \<Rightarrow> string \<Rightarrow> string \<Rightarrow> string option \<Rightarrow> bool \<Rightarrow> (string \<times> task_info) list \<Rightarrow> delivery_evidence \<times> nat \<times> dict
    \<Rightarrow> ('b tick_state, bool) op" where
  "after_delivery w reg state_dir tick_id repo allow_close tasks r = (case r of (d, pr, view) \<Rightarrow>
     go_on (if run_phases reg \<noteq> [] \<and> phases_done reg tasks then final_chain w reg state_dir tick_id (delivery_head d) else ret (Inr ())) (\<lambda>_.
     go_on (blocked_on is_contract_error (continues (check_state w (slashed (run_worktree reg)) (pr_url d) (the_repo repo) (delivery_head d)))) (\<lambda>checks.
     if checks = ''failed'' then ret False
     else if checks = ''pending'' \<or> dget view ''state'' \<noteq> JStr ''MERGED'' then ret True
     else if \<not> allow_close \<or> \<not> phases_done reg tasks then ret True
     else close_delivered w reg state_dir tick_id repo d pr)))"

definition reconcile_completion_locked :: "'b flow_world \<Rightarrow> run_registration \<Rightarrow> string \<Rightarrow> string \<Rightarrow> string \<Rightarrow> string \<Rightarrow> string option \<Rightarrow> bool \<Rightarrow> ('b tick_state, bool) op" where
  "reconcile_completion_locked w reg project_dir state_dir tenant tick_id repo allow_close =
     bind_op (on_cards (get_todo_kanban_tasks (boardw w) tenant tick_id)) (\<lambda>tasks.
     case role_key (run_phases reg) ''delivery'' of None \<Rightarrow> ret True
     | Some finish_key \<Rightarrow> (case map_of tasks finish_key of
           None \<Rightarrow> if run_phases reg \<noteq> [] then ret True else start_finish w reg project_dir state_dir tenant tick_id finish_key repo
         | Some fcard \<Rightarrow> if info_status fcard \<noteq> ''done'' then ret True
             else go_on (guarded_delivery w reg state_dir tick_id finish_key repo fcard) (after_delivery w reg state_dir tick_id repo allow_close tasks)))"

definition reconcile_todo_completion :: "'b flow_world \<Rightarrow> string \<Rightarrow> string \<Rightarrow> string \<Rightarrow> string \<Rightarrow> string \<Rightarrow> ('b tick_state, bool) op" where
  "reconcile_todo_completion w project_dir state_dir tenant tick_id repo s =
     (if \<not> run_file state_dir tick_id ''registration.json'' s then (Inr True, s)
      else bind_op (reads (validated_run (sched w) project_dir state_dir tick_id (Some repo))) (\<lambda>reg.
        if run_manifest reg = None then ret True
        else catch_op (locked_run_authority (sched w) reg state_dir tick_id (reconcile_completion_locked w reg project_dir state_dir tenant tick_id (Some repo) True))
          (\<lambda>e. if e = RunAuthorityBusy then ret True else if is_contract_error e then ret False else raise e)) s)"

text \<open>Handoffs of earlier runs: a failure of one does not keep the others from being tried.\<close>

fun deliver_each :: "'b flow_world \<Rightarrow> string \<Rightarrow> string \<Rightarrow> string \<Rightarrow> string option \<Rightarrow> string option \<Rightarrow> string list \<Rightarrow> ('b tick_state, unit) op" where
  "deliver_each w project_dir state_dir tenant current repo [] = ret ()"
| "deliver_each w project_dir state_dir tenant current repo (t # ts) = bind_op (reads (active_issue w state_dir t)) (\<lambda>n s.
     if n = None \<or> Some t = current \<or> \<not> run_file state_dir t ''finish-verified'' s then deliver_each w project_dir state_dir tenant current repo ts s
     else bind_op (capture (case repo of Some r \<Rightarrow> ret r | None \<Rightarrow> on_remote (reads (repository_identity (issues_env w))))) (\<lambda>found.
       case found of Inl _ \<Rightarrow> deliver_each w project_dir state_dir tenant current repo ts
       | Inr r \<Rightarrow> bind_op (capture (reconcile_todo_completion w project_dir state_dir tenant t r)) (\<lambda>_.
           deliver_each w project_dir state_dir tenant current (Some r) ts)) s)"

definition reconcile_pending_deliveries :: "'b flow_world \<Rightarrow> string \<Rightarrow> string \<Rightarrow> string \<Rightarrow> string option \<Rightarrow> ('b tick_state, unit) op" where
  "reconcile_pending_deliveries w project_dir state_dir tenant current s = deliver_each w project_dir state_dir tenant current None (registered_names w state_dir s) s"

end
