(* ===== verification/Schedule.thy ===== *)
theory Schedule
  imports Delivery
begin

text \<open>
  The reconcilers of a registered run: \<^verbatim>\<open>reconcile_schedule\<close> of \<^verbatim>\<open>phase_schedule.py\<close>, which walks the pinned
  phases and admits at most one worker, \<^verbatim>\<open>reconcile_reviews\<close> of \<^verbatim>\<open>review_reconciliation.py\<close> for runs whose
  registration pins no phases, and \<^verbatim>\<open>reconcile_plan_task_results\<close> of \<^verbatim>\<open>kanban_tasks.py\<close>, which chooses.

  A handler reports the phase it was at when an exception left the loop, so the loop never raises here:
  it returns its current key beside its answer or its exception.
\<close>

section \<open>The accepted head\<close>

definition recorded_head :: "'b bw \<Rightarrow> string \<Rightarrow> string \<Rightarrow> 'b board \<Rightarrow> string res" where
  "recorded_head w state_dir tick_id s = (case read_text w (accepted_head_path state_dir tick_id) s of
       Inl e \<Rightarrow> if is_os_error e \<or> is_unicode_error e then Inr [] else Inl e | Inr t \<Rightarrow> Inr (strip t))"

definition persist_accepted_head :: "'b bw \<Rightarrow> string \<Rightarrow> string \<Rightarrow> string \<Rightarrow> ('b board, unit) op" where
  "persist_accepted_head w state_dir tick_id head = bind_op (reads (recorded_head w state_dir tick_id)) (\<lambda>recorded.
     if recorded \<noteq> [] then lift_res (raise_if (recorded \<noteq> head) (failure ''accepted_review_head_conflict''))
     else write_text w (accepted_head_path state_dir tick_id) (head @ [newline]))"

section \<open>The card of a phase\<close>

definition reviewer_of :: "run_registration \<Rightarrow> string" where
  "reviewer_of reg = (case run_review_assignee reg of Some a \<Rightarrow> if a \<noteq> [] then a else run_assignee reg | None \<Rightarrow> run_assignee reg)"

definition phase_criteria :: "run_registration \<Rightarrow> phase \<Rightarrow> string list" where
  "phase_criteria reg p = (case run_manifest reg of Some m \<Rightarrow> if def_role p = ''implementation'' then manifest_criteria m else [] | None \<Rightarrow> [])"

definition delivers :: "run_registration \<Rightarrow> phase \<Rightarrow> bool" where
  "delivers reg p \<longleftrightarrow> def_role p = ''delivery'' \<and> run_manifest reg \<noteq> None"

definition result_form :: "run_registration \<Rightarrow> string \<Rightarrow> phase \<Rightarrow> string res" where
  "result_form reg tick_id p = (let criteria = phase_criteria reg p; extra = delivers reg p in
     render_result_template tick_id (run_todo reg) (def_key p) criteria
       (if extra then Some ''delivery'' else None) (if extra then Some (run_branch reg) else None) (criteria = []))"

definition head_facts :: "run_registration \<Rightarrow> string \<Rightarrow> (string \<times> string) list" where
  "head_facts reg head = [(''branch'', run_branch reg), (''reviewed_head_sha'', head), (''accepted_review_head_sha'', head)]"

definition phase_request :: "run_registration \<Rightarrow> phase \<Rightarrow> string \<Rightarrow> string \<Rightarrow> string option \<Rightarrow> int \<Rightarrow> string option \<Rightarrow> card_request" where
  "phase_request reg p prompt_text template parent generation identity = \<lparr>req_key = def_key p, req_title = def_name p, req_prompt = prompt_text,
     req_template = template, req_assignee = Some (if def_role p = ''review'' then reviewer_of reg else run_assignee reg), req_parent = parent,
     req_tools = phase_tools p (run_profile reg) (run_client reg), req_turns = def_turns p, req_timeout = def_timeout p,
     req_generation = generation, req_identity = identity\<rparr>"

text \<open>\<^verbatim>\<open>create_card\<close>: the head the phase starts from travels in the facts of its prompt.\<close>

definition create_card :: "'b flow_world \<Rightarrow> run_registration \<Rightarrow> string \<Rightarrow> string \<Rightarrow> string \<Rightarrow> phase \<Rightarrow> string \<Rightarrow> string option \<Rightarrow> int \<Rightarrow> string option
    \<Rightarrow> ('b tick_state, unit) op" where
  "create_card w reg project_dir tenant tick_id p head parent generation identity =
     bind_op (render_profile_prompt w reg p ''pinned-profile'' tick_id tenant (head_facts reg head)) (\<lambda>prompt_text.
     bind_op (lift_res (result_form reg tick_id p)) (\<lambda>template.
     bind_op (create_task w reg project_dir tenant tick_id (phase_request reg p prompt_text template parent generation identity)) (\<lambda>_. ret ())))"

section \<open>One phase of the schedule\<close>

type_synonym 'b phase_answer = "('b tick_state, bool + string \<times> string) op"

text \<open>The card of a phase that is missing or not done: later phases must have none, and a recorded attempt owns it.\<close>

definition await_phase :: "'b flow_world \<Rightarrow> run_registration \<Rightarrow> string \<Rightarrow> string \<Rightarrow> string \<Rightarrow> string \<Rightarrow> (string \<times> task_info) list \<Rightarrow> phase \<Rightarrow> phase list
    \<Rightarrow> string \<Rightarrow> string option \<Rightarrow> ('b tick_state, bool + unit) op" where
  "await_phase w reg project_dir state_dir tenant tick_id tasks p later head parent = (let identity = execution_id (sched w) tick_id (def_key p) in
     then_op (lift_res (raise_if (list_ex (\<lambda>q. map_of tasks (def_key q) \<noteq> None) later) (failure ''phase_order_mismatch'')))
     (bind_op (route_recovery (tick_env (sched w)) identity state_dir tenant tick_id (def_key p) (map_of tasks (def_key p))
         (\<lambda>generation. create_card w reg project_dir tenant tick_id p head parent generation (Some identity))) (\<lambda>outcome.
      if outcome = REFUSED then ret (Inl False)
      else then_op (if outcome = REISSUED then on_cards (clear_validation_blocked (boardw w) state_dir tick_id) else ret ())
        (ret (if outcome \<noteq> PROCEED then Inl True else Inr ())))))"

definition admit_phase :: "'b flow_world \<Rightarrow> run_registration \<Rightarrow> string \<Rightarrow> string \<Rightarrow> string \<Rightarrow> string \<Rightarrow> string option \<Rightarrow> phase \<Rightarrow> string \<Rightarrow> string option
    \<Rightarrow> ('b tick_state, bool) op" where
  "admit_phase w reg project_dir state_dir tenant tick_id repo p head parent = (let worktree = slashed (run_worktree reg) in
     bind_op (lift_res (git_out (query_of (sched w)) worktree [''rev-parse'', ''HEAD''])) (\<lambda>current.
     then_op (lift_res (raise_if (current \<noteq> head) (failure ''head_mismatch'')))
     (then_op (if delivers reg p then bind_op (delivery_authority w state_dir tick_id worktree repo True) (\<lambda>_. ret ()) else ret ())
     (then_op (create_card w reg project_dir tenant tick_id p head parent 1 None) (ret True)))))"

definition confirm_report :: "'b flow_world \<Rightarrow> run_registration \<Rightarrow> string \<Rightarrow> string \<Rightarrow> string \<Rightarrow> phase_result \<times> dict \<Rightarrow> ('b tick_state, unit) op" where
  "confirm_report w reg tick_id key task rc = (if dget (snd rc) ''result_kind'' \<noteq> JStr ''worker'' then ret ()
     else bind_op (on_cards (show_task_payload (boardw w) task)) (\<lambda>shown.
       lift_res (rbind (parse_promoted reg tick_id key (snd rc) (case shown of None \<Rightarrow> JNull | Some d \<Rightarrow> JObj d)) (\<lambda>reported.
         raise_if (fst rc \<noteq> WorkerReport reported) unconfirmed))))"

definition accept_head :: "'b flow_world \<Rightarrow> run_registration \<Rightarrow> string \<Rightarrow> string \<Rightarrow> phase \<Rightarrow> string \<Rightarrow> phase_result \<times> dict \<Rightarrow> ('b tick_state, string) op" where
  "accept_head w reg state_dir tick_id p head rc = bind_op (lift_res (link_head head rc)) (\<lambda>head'.
     then_op (if def_role p = ''review'' \<and> run_manifest reg \<noteq> None then on_cards (persist_accepted_head (boardw w) state_dir tick_id head') else ret ())
       (ret head'))"

definition finish_phase :: "'b flow_world \<Rightarrow> run_registration \<Rightarrow> string \<Rightarrow> string \<Rightarrow> string \<Rightarrow> string \<Rightarrow> string option \<Rightarrow> phase \<Rightarrow> ('b tick_state, bool + unit) op" where
  "finish_phase w reg project_dir state_dir tenant tick_id repo p = (if \<not> delivers reg p then ret (Inr ())
     else bind_op (reconcile_completion_locked w reg project_dir state_dir tenant tick_id repo False) (\<lambda>ok s.
       if \<not> ok then (Inr (Inl False), s)
       else if \<not> path_exists (cards s) (finish_verified_path state_dir tick_id) then (Inr (Inl True), s) else (Inr (Inr ()), s)))"

definition accept_phase :: "'b flow_world \<Rightarrow> run_registration \<Rightarrow> string \<Rightarrow> string \<Rightarrow> string \<Rightarrow> string \<Rightarrow> string option \<Rightarrow> phase \<Rightarrow> string \<Rightarrow> string \<Rightarrow> 'b phase_answer" where
  "accept_phase w reg project_dir state_dir tenant tick_id repo p task head = (let key = def_key p in
     bind_op (reads (promoted_result (sched w) reg tick_id key)) (\<lambda>rc.
     then_op (confirm_report w reg tick_id key task rc)
     (bind_op (require_authorized_result (sched w) reg state_dir tick_id key (fst rc) (accept_head w reg state_dir tick_id p head rc)) (\<lambda>head'.
      bind_sum (finish_phase w reg project_dir state_dir tenant tick_id repo p) (\<lambda>_. ret (Inr (head', task)))))))"

definition schedule_phase :: "'b flow_world \<Rightarrow> run_registration \<Rightarrow> string \<Rightarrow> string \<Rightarrow> string \<Rightarrow> string \<Rightarrow> string option \<Rightarrow> (string \<times> task_info) list \<Rightarrow> phase \<Rightarrow> phase list
    \<Rightarrow> string \<Rightarrow> string option \<Rightarrow> 'b phase_answer" where
  "schedule_phase w reg project_dir state_dir tenant tick_id repo tasks p later head parent = (let await = await_phase w reg project_dir state_dir tenant tick_id tasks p later head parent in
     case map_of tasks (def_key p) of
       None \<Rightarrow> bind_sum await (\<lambda>_. bind_op (admit_phase w reg project_dir state_dir tenant tick_id repo p head parent) (\<lambda>b. ret (Inl b)))
     | Some c \<Rightarrow> if info_status c \<noteq> ''done'' then bind_sum await (\<lambda>_. ret (Inl True))
         else accept_phase w reg project_dir state_dir tenant tick_id repo p (info_task c) head)"

section \<open>The schedule\<close>

text \<open>The current key, with the answer of the loop: an early return, or the end.\<close>

fun schedule_phases :: "'b flow_world \<Rightarrow> run_registration \<Rightarrow> string \<Rightarrow> string \<Rightarrow> string \<Rightarrow> string \<Rightarrow> string option \<Rightarrow> (string \<times> task_info) list \<Rightarrow> phase list
    \<Rightarrow> string \<Rightarrow> string \<Rightarrow> string option \<Rightarrow> ('b tick_state, string \<times> (bool + unit) res) op" where
  "schedule_phases w reg project_dir state_dir tenant tick_id repo tasks [] key head parent = ret (key, Inr (Inr ()))"
| "schedule_phases w reg project_dir state_dir tenant tick_id repo tasks (p # ps) key head parent =
     bind_op (capture (schedule_phase w reg project_dir state_dir tenant tick_id repo tasks p ps head parent)) (\<lambda>r. case r of
         Inl e \<Rightarrow> ret (def_key p, Inl e)
       | Inr (Inl b) \<Rightarrow> ret (def_key p, Inr (Inl b))
       | Inr (Inr (head', task)) \<Rightarrow> schedule_phases w reg project_dir state_dir tenant tick_id repo tasks ps (def_key p) head' (Some task))"

definition schedule_end :: "'b flow_world \<Rightarrow> run_registration \<Rightarrow> string \<Rightarrow> string \<Rightarrow> string \<Rightarrow> string \<Rightarrow> string option \<Rightarrow> ('b tick_state, bool) op" where
  "schedule_end w reg project_dir state_dir tenant tick_id repo =
     bind_op (if run_manifest reg \<noteq> None \<and> role_key (run_phases reg) ''delivery'' \<noteq> None
         then reconcile_completion_locked w reg project_dir state_dir tenant tick_id repo True else ret True) (\<lambda>ok.
     if \<not> ok then ret False else then_op (on_cards (clear_validation_blocked (boardw w) state_dir tick_id)) (ret True))"

definition schedule_locked :: "'b flow_world \<Rightarrow> run_registration \<Rightarrow> string \<Rightarrow> string \<Rightarrow> string \<Rightarrow> string \<Rightarrow> string option \<Rightarrow> ('b tick_state, string \<times> bool res) op" where
  "schedule_locked w reg project_dir state_dir tenant tick_id repo = bind_op (capture (on_cards (get_todo_kanban_tasks (boardw w) tenant tick_id))) (\<lambda>r.
     case r of Inl e \<Rightarrow> ret ([], Inl e)
     | Inr tasks \<Rightarrow> bind_op (schedule_phases w reg project_dir state_dir tenant tick_id repo tasks (worker_phases (run_phases reg)) [] (run_base_sha reg) None) (\<lambda>(key, a).
         case a of Inl e \<Rightarrow> ret (key, Inl e) | Inr (Inl b) \<Rightarrow> ret (key, Inr b)
         | Inr (Inr _) \<Rightarrow> bind_op (capture (schedule_end w reg project_dir state_dir tenant tick_id repo)) (\<lambda>x. ret (key, x))))"

fun error_code :: "exn \<Rightarrow> string option" where
  "error_code (ResultContractError c) = Some c" | "error_code (GitHubIssuesError c) = Some c" | "error_code (RunRegistrationError c) = Some c"
| "error_code (PlanManifestValidationError c) = Some c" | "error_code (TodoPlanValidationError c) = Some c" | "error_code (TodoCreateError c) = Some c"
| "error_code _ = None"

definition schedule_error :: "'b flow_world \<Rightarrow> string \<Rightarrow> string \<Rightarrow> string \<Rightarrow> exn \<Rightarrow> ('b tick_state, bool) op" where
  "schedule_error w state_dir tick_id key e = (let code = (case error_code e of Some c \<Rightarrow> c | None \<Rightarrow> ''phase_result_unconfirmed'') in
     if e = RunAuthorityBusy \<or> e = RetryableReviewRegistration then ret True
     else if is_runtime_error e \<or> is_os_error e \<or> is_value_error e \<or> is_key_error e \<or> e = IndexErr
     then then_op (on_cards (record_validation_blocked (boardw w) state_dir tick_id key code code)) (ret False)
     else raise e)"

definition reconcile_schedule :: "'b flow_world \<Rightarrow> run_registration \<Rightarrow> string \<Rightarrow> string \<Rightarrow> string \<Rightarrow> string \<Rightarrow> string option \<Rightarrow> ('b tick_state, bool) op" where
  "reconcile_schedule w reg project_dir state_dir tenant tick_id repo =
     bind_op (capture (locked_run_authority (sched w) reg state_dir tick_id (schedule_locked w reg project_dir state_dir tenant tick_id repo))) (\<lambda>r.
     case r of Inl e \<Rightarrow> schedule_error w state_dir tick_id [] e
     | Inr (key, Inl e) \<Rightarrow> schedule_error w state_dir tick_id key (authority_error e)
     | Inr (key, Inr b) \<Rightarrow> ret b)"

section \<open>The implementation of a run without pinned phases\<close>

definition implementation_criteria :: "run_registration \<Rightarrow> string list" where
  "implementation_criteria reg = (case run_manifest reg of Some m \<Rightarrow> manifest_criteria m | None \<Rightarrow> [])"

definition planned_commits :: "run_registration \<Rightarrow> int" where
  "planned_commits reg = (case run_manifest reg of Some m \<Rightarrow> int (length (manifest_tasks m)) | None \<Rightarrow> 0)"

text \<open>The report on a card, parsed for a step.\<close>

definition card_report :: "'b flow_world \<Rightarrow> run_registration \<Rightarrow> string \<Rightarrow> string \<Rightarrow> string \<Rightarrow> string list \<Rightarrow> bool \<Rightarrow> ('b tick_state, worker_result) op" where
  "card_report w reg tick_id task key criteria allow_no_changes = bind_op (on_cards (show_task_payload (boardw w) task)) (\<lambda>shown.
     lift_res (parse_worker_result (case shown of None \<Rightarrow> JNull | Some d \<Rightarrow> JObj d) tick_id (run_todo reg) key criteria allow_no_changes))"

definition implementation_head :: "'b flow_world \<Rightarrow> run_registration \<Rightarrow> string \<Rightarrow> (string \<times> task_info) list \<Rightarrow> ('b tick_state, string) op" where
  "implementation_head w reg tick_id tasks = (let missing = raise (failure ''review_prerequisite_incomplete'') in case map_of tasks IMPLEMENTATION_KEY of None \<Rightarrow> missing
     | Some c \<Rightarrow> if info_status c \<noteq> ''done'' then missing
         else bind_op (card_report w reg tick_id (info_task c) IMPLEMENTATION_KEY (implementation_criteria reg) False) (\<lambda>result.
           require_authorized_result (sched w) reg (slashed (run_repository reg) @ ''/.hermes'') tick_id IMPLEMENTATION_KEY (WorkerReport result)
             (then_op (lift_res (verify_worker_git_topology (query_of (sched w)) (slashed (run_worktree reg)) (result_git result) (run_base_sha reg) (planned_commits reg)))
               (ret (resulting_head_sha (result_git result))))))"

section \<open>Reviews\<close>

definition REVIEW_PHASE_KEY :: string where "REVIEW_PHASE_KEY = ''phase_5_review''"

definition review_request :: "run_registration \<Rightarrow> phase \<Rightarrow> string \<Rightarrow> string \<Rightarrow> string \<Rightarrow> card_request" where
  "review_request reg p prompt_text template parent = \<lparr>req_key = REVIEW_KEY, req_title = def_name p, req_prompt = prompt_text, req_template = template,
     req_assignee = Some (reviewer_of reg), req_parent = Some parent, req_tools = def_tools p, req_turns = def_turns p, req_timeout = def_timeout p,
     req_generation = 1, req_identity = None\<rparr>"

definition ensure_initial_review :: "'b flow_world \<Rightarrow> run_registration \<Rightarrow> string \<Rightarrow> string \<Rightarrow> string \<Rightarrow> (string \<times> task_info) list \<Rightarrow> ('b tick_state, unit) op" where
  "ensure_initial_review w reg project_dir tenant tick_id tasks = (case map_of tasks IMPLEMENTATION_KEY of None \<Rightarrow> ret ()
     | Some c \<Rightarrow> if info_status c \<noteq> ''done'' then ret ()
         else bind_op (implementation_head w reg tick_id tasks) (\<lambda>head.
           if map_of tasks REVIEW_KEY \<noteq> None then ret ()
           else bind_op (lift_res (profile_phase w reg REVIEW_PHASE_KEY)) (\<lambda>(source, p).
             bind_op (render_profile_prompt w reg p source tick_id tenant [(''reviewed_head_sha'', head), (''branch'', run_branch reg)]) (\<lambda>prompt_text.
             bind_op (lift_res (render_result_template tick_id (run_todo reg) REVIEW_KEY [] None None True)) (\<lambda>template.
             bind_op (create_task w reg project_dir tenant tick_id (review_request reg p prompt_text template (info_task c))) (\<lambda>_. ret ()))))))"

definition LEGACY_ROUND_PREFIXES :: "string list" where "LEGACY_ROUND_PREFIXES = [''review-fix:'', ''re-review:'', ''fix-validation:'']"

definition assert_no_legacy_review_rounds :: "(string \<times> task_info) list \<Rightarrow> unit res" where
  "assert_no_legacy_review_rounds tasks = raise_if (list_ex (\<lambda>kv. list_ex (startswith (fst kv)) LEGACY_ROUND_PREFIXES) tasks) (failure ''review_round_upgrade_discontinuity'')"

definition accept_review :: "'b flow_world \<Rightarrow> run_registration \<Rightarrow> string \<Rightarrow> string \<Rightarrow> (string \<times> task_info) list \<Rightarrow> ('b tick_state, bool) op" where
  "accept_review w reg state_dir tick_id tasks = then_op (lift_res (assert_no_legacy_review_rounds tasks)) (case map_of tasks REVIEW_KEY of None \<Rightarrow> ret True
     | Some c \<Rightarrow> if info_status c \<noteq> ''done'' then ret True
         else bind_op (implementation_head w reg tick_id tasks) (\<lambda>parent.
           bind_op (card_report w reg tick_id (info_task c) REVIEW_KEY [] True) (\<lambda>result.
           require_authorized_result (sched w) reg state_dir tick_id REVIEW_KEY (WorkerReport result)
             (then_op (reads (\<lambda>s. verify_optional_single_commit (query_of (sched w)) (slashed (run_worktree reg)) (result_git result) parent
                 (\<not> path_exists (cards s) (accepted_head_path state_dir tick_id))))
               (then_op (on_cards (persist_accepted_head (boardw w) state_dir tick_id (resulting_head_sha (result_git result)))) (ret True))))))"

definition reconcile_reviews_locked :: "'b flow_world \<Rightarrow> run_registration \<Rightarrow> string \<Rightarrow> string \<Rightarrow> string \<Rightarrow> string \<Rightarrow> ('b tick_state, bool) op" where
  "reconcile_reviews_locked w reg project_dir state_dir tenant tick_id = (let board = on_cards (get_todo_kanban_tasks (boardw w) tenant tick_id) in
     bind_op board (\<lambda>tasks.
     go_on (catch_op (continues (ensure_initial_review w reg project_dir tenant tick_id tasks))
         (\<lambda>e. case e of RetryableReviewRegistration \<Rightarrow> ret (Inl True) | PhasePromptRenderError _ \<Rightarrow> ret (Inl False) | _ \<Rightarrow> raise e)) (\<lambda>_.
     bind_op board (\<lambda>tasks'.
     catch_op (accept_review w reg state_dir tick_id tasks') (\<lambda>e. if is_runtime_error e \<or> is_os_error e then ret False else raise e)))))"

definition reconcile_reviews :: "'b flow_world \<Rightarrow> string \<Rightarrow> string \<Rightarrow> string \<Rightarrow> string \<Rightarrow> string option \<Rightarrow> ('b tick_state, bool) op" where
  "reconcile_reviews w project_dir state_dir tenant tick_id repo s = (if \<not> run_file state_dir tick_id ''registration.json'' s then (Inr True, s)
     else bind_op (reads (validated_run (sched w) project_dir state_dir tick_id repo)) (\<lambda>reg.
       if run_phases reg \<noteq> [] \<or> run_manifest reg = None then ret True
       else catch_op (locked_run_authority (sched w) reg state_dir tick_id (reconcile_reviews_locked w reg project_dir state_dir tenant tick_id))
         (\<lambda>e. if e = RunAuthorityBusy then ret True else if is_contract_error e then ret False else raise e)) s)"

section \<open>Results of the Plan\<close>

definition CHAIN_WIRING_INCOMPLETE_CODE :: string where "CHAIN_WIRING_INCOMPLETE_CODE = ''chain_wiring_incomplete''"
definition INITIAL_REVIEW_KEY :: string where "INITIAL_REVIEW_KEY = ''review:0''"

definition stalled :: "'b flow_world \<Rightarrow> string \<Rightarrow> string \<Rightarrow> string \<Rightarrow> string \<Rightarrow> string \<Rightarrow> ('b tick_state, bool) op" where
  "stalled w state_dir tick_id step_key code reason = then_op (on_cards (record_validation_blocked (boardw w) state_dir tick_id step_key code reason)) (ret False)"

text \<open>The report of the implementation card; once a review exists the commits need no longer be the current head.\<close>

definition check_implementation :: "'b flow_world \<Rightarrow> run_registration \<Rightarrow> string \<Rightarrow> string \<Rightarrow> string \<Rightarrow> bool \<Rightarrow> ('b tick_state, unit) op" where
  "check_implementation w reg state_dir tick_id task review_started = (let verify = (if review_started then verify_worker_git_topology else verify_worker_git_result) in
     bind_op (card_report w reg tick_id task IMPLEMENTATION_KEY (implementation_criteria reg) False) (\<lambda>result.
     require_authorized_result (sched w) reg state_dir tick_id IMPLEMENTATION_KEY (WorkerReport result)
       (lift_res (verify (query_of (sched w)) (slashed (run_worktree reg)) (result_git result) (run_base_sha reg) (planned_commits reg)))))"

text \<open>\<open>describe\<close> is \<^verbatim>\<open>str\<close> of an exception: the text of a contract error may carry a detail after its code.\<close>

definition reconcile_fixed_run :: "(exn \<Rightarrow> string) \<Rightarrow> 'b flow_world \<Rightarrow> run_registration \<Rightarrow> string \<Rightarrow> string \<Rightarrow> string \<Rightarrow> ('b tick_state, bool) op" where
  "reconcile_fixed_run describe w reg state_dir tenant tick_id = bind_op (on_cards (get_todo_kanban_tasks (boardw w) tenant tick_id)) (\<lambda>tasks.
     if IMPLEMENTATION_KEY \<notin> set (run_step_keys reg)
     then stalled w state_dir tick_id IMPLEMENTATION_KEY CHAIN_WIRING_INCOMPLETE_CODE ''step key is not registered for this run''
     else (case map_of tasks IMPLEMENTATION_KEY of
         None \<Rightarrow> stalled w state_dir tick_id IMPLEMENTATION_KEY CHAIN_WIRING_INCOMPLETE_CODE ''no card for this step key on the board''
       | Some c \<Rightarrow> if info_status c \<noteq> ''done'' then ret True
           else bind_op (capture (check_implementation w reg state_dir tick_id (info_task c) (map_of tasks INITIAL_REVIEW_KEY \<noteq> None))) (\<lambda>r. case r of
               Inr _ \<Rightarrow> then_op (on_cards (clear_validation_blocked (boardw w) state_dir tick_id)) (ret True)
             | Inl (ResultContractError code) \<Rightarrow> stalled w state_dir tick_id IMPLEMENTATION_KEY (sanitize_result_text code 200)
                 (sanitize_result_text (describe (ResultContractError code)) 1000)
             | Inl e \<Rightarrow> raise e)))"

definition reconcile_plan_task_results :: "(exn \<Rightarrow> string) \<Rightarrow> 'b flow_world \<Rightarrow> string \<Rightarrow> string \<Rightarrow> string \<Rightarrow> string \<Rightarrow> string option \<Rightarrow> ('b tick_state, bool) op" where
  "reconcile_plan_task_results describe w project_dir state_dir tenant tick_id repo s =
     (if \<not> run_file state_dir tick_id ''registration.json'' s then (Inr True, s)
      else (case validated_run (sched w) project_dir state_dir tick_id repo s of
          Inl e \<Rightarrow> (if \<not> is_contract_error e \<and> (is_os_error e \<or> is_key_error e \<or> e = TypeErr \<or> is_value_error e) then Inr False else Inl e, s)
        | Inr reg \<Rightarrow> (if run_phases reg \<noteq> [] then reconcile_schedule w reg project_dir state_dir tenant tick_id repo
            else if run_manifest reg = None then ret True
            else reconcile_fixed_run describe w reg state_dir tenant tick_id) s))"

end
