(* ===== verification/ScheduleSafety.thy ===== *)
theory ScheduleSafety
  imports Schedule PhaseRouting
begin

text \<open>
  The schedule against the chain of accepted results: walking past phases whose cards are done unmoved
  everything the chain is proved from, so the head a phase is reached with is the head
  \<^verbatim>\<open>validated_predecessor_head\<close> re-proves on the state the walk started from.
\<close>

section \<open>What a walk unmoved\<close>

text \<open>The executions, and the JSON files of the run: its registration, its enrollment.\<close>

definition unmoved :: "'b tick_state \<Rightarrow> 'b tick_state \<Rightarrow> bool" where
  "unmoved s s' \<longleftrightarrow> execs s' = execs s \<and> (\<forall>path. endswith path ''.json'' \<longrightarrow> texts (cards s') path = texts (cards s) path)"

interpretation kp: op_relation "unmoved"
  by unfold_locales (auto simp: unmoved_def)

named_theorems kept "operations that keep the executions and the JSON files"

lemmas [kept] = kp.obeys_simple

lemma kept_bind [kept]: "kp.obeys m \<Longrightarrow> (\<And>x. kp.obeys (f x)) \<Longrightarrow> kp.obeys (bind_op m f)"
  by (rule kp.obeys_bind)

lemma kept_then [kept]: "kp.obeys m \<Longrightarrow> kp.obeys k \<Longrightarrow> kp.obeys (then_op m k)"
  by (rule kp.obeys_then)

lemma kept_catch [kept]: "kp.obeys m \<Longrightarrow> (\<And>e. kp.obeys (h e)) \<Longrightarrow> kp.obeys (catch_op m h)"
  by (rule kp.obeys_catch)

lemma kept_remote [kept]: "kp.obeys (on_remote m)"
  by (rule kp.obeysI) (auto simp: on_remote_def unmoved_def split: prod.splits)

lemma kept_capture [kept]: "kp.obeys m \<Longrightarrow> kp.obeys (capture m)"
  by (rule kp.obeysI) (auto simp: capture_def dest: kp.obeysD split: prod.splits)

lemma kept_sum [kept]: "kp.obeys m \<Longrightarrow> (\<And>x. kp.obeys (k x)) \<Longrightarrow> kp.obeys (bind_sum m k)"
  unfolding bind_sum_def by (rule kp.obeys_bind) (auto simp: kp.obeys_simple split: sum.split)

lemma kept_go_on [kept]: "kp.obeys m \<Longrightarrow> (\<And>x. kp.obeys (k x)) \<Longrightarrow> kp.obeys (go_on m k)"
  unfolding go_on_def by (rule kp.obeys_bind) (auto simp: kp.obeys_simple split: sum.split)

lemma kept_blocked [kept]: "kp.obeys m \<Longrightarrow> kp.obeys (blocked_on c m)"
  unfolding blocked_on_def by (rule kp.obeys_catch) (auto simp: kp.obeys_simple)

lemma kept_continues [kept]: "kp.obeys m \<Longrightarrow> kp.obeys (continues m)"
  unfolding continues_def by (intro kept)

lemma kept_write: "\<not> endswith path ''.json'' \<Longrightarrow> kp.obeys (on_cards (write_text w path t))"
  by (rule kp.obeysI) (auto simp: on_cards_def write_text_def unmoved_def split: prod.splits option.splits)

lemma run_file_not_json: "length name \<ge> 5 \<Longrightarrow> endswith (run_path d t name) ''.json'' \<longleftrightarrow> endswith name ''.json''"
proof -
  assume "length name \<ge> 5"
  moreover have "run_path d t name = (d @ ''/runs/'' @ t @ ''/'') @ name" by (simp add: run_path_def)
  ultimately show ?thesis by (simp only: endswith_def length_append drop_append) (auto simp: eval_nat_numeral)
qed

lemma kept_verified [kept]: "kp.obeys (on_cards (write_text w (finish_verified_path d t) x))"
  by (rule kept_write) (simp add: finish_verified_path_def run_file_not_json, simp add: endswith_def)

lemma kept_accepted [kept]: "kp.obeys (on_cards (write_text w (accepted_head_path d t) x))"
  by (rule kept_write) (simp add: accepted_head_path_def run_file_not_json, simp add: endswith_def)

text \<open>Operations of the board that only call \<^verbatim>\<open>hermes\<close>.\<close>

lemma kept_board: "txs.obeys m \<Longrightarrow> kp.obeys (on_cards m)"
  by (rule kp.obeysI) (auto simp: on_cards_def unmoved_def dest: txs.obeysD split: prod.splits)

lemma kept_show [kept]: "kp.obeys (on_cards (show_task_payload w i))"
  by (intro kept_board client_runs)

lemma kept_tasks [kept]: "kp.obeys (on_cards (get_todo_kanban_tasks w tenant t))"
  unfolding get_todo_kanban_tasks_def list_tasks_def by (intro kept_board texts_kept)

lemma kept_on_reads [kept]: "kp.obeys (on_cards (reads f))"
  by (rule kp.obeysI) (auto simp: on_cards_def reads_def unmoved_def)

lemma kept_unless [kept]: "kp.obeys m \<Longrightarrow> kp.obeys (\<lambda>s. if c s then ret x s else m s)"
  by (rule kp.obeysI) (auto simp: unmoved_def dest: kp.obeysD split: if_splits)

section \<open>Locks and accepted results\<close>

lemma open_existing: "identifier_ok i \<Longrightarrow> map_of (dirs s) i \<noteq> None \<Longrightarrow> open_directory w i True s = ((case dir_errno w i of None \<Rightarrow> Inr () | Some e \<Rightarrow> Inl (OSErr e)), s)"
  by (auto simp: open_directory_def Let_def split: option.splits)

lemma loaded_exists: "load w i s = Inr r \<Longrightarrow> identifier_ok i \<and> map_of (dirs s) i \<noteq> None"
  by (auto simp: load_def read_json_def safe_read_def open_directory_def Let_def split: sum.splits if_splits option.splits)

lemma kept_locked:
  assumes b: "kp.obeys body" and l: "load (exec_of w) i (execs s) = Inr r" and run: "locked_tick w i body s = (x, s')"
  shows "unmoved s s'"
proof -
  have 0: "open_directory (exec_of w) i True (execs s) = ((case dir_errno (exec_of w) i of None \<Rightarrow> Inr () | Some e \<Rightarrow> Inl (OSErr e)), execs s)"
    using loaded_exists [OF l] by (intro open_existing) auto
  have 1: "unmoved s2 s3" if "body s2 = (x, s3)" for x s2 s3
    using b that by (rule kp.obeysD)
  show ?thesis
    using run 1 by (auto simp: locked_tick_def 0 unmoved_def Let_def split: prod.splits option.splits if_splits)
qed

lemma kept_require [kept]:
  assumes "kp.obeys body"
  shows "kp.obeys (require_authorized_result w reg state_dir tick_id key result body)"
proof (rule kp.obeysI)
  fix s x s' assume r: "require_authorized_result w reg state_dir tick_id key result body s = (x, s')"
  have b: "kp.obeys (then_op (reads (authorized w reg tick_id key result)) body)" by (intro kept assms)
  from r show "unmoved s s'"
    using kp.obeysD [OF assms] kept_locked [OF b]
    by (auto simp: require_authorized_result_def Let_def catch_op_def bind_op_def then_op_def reads_def lift_res_def kp.rel_refl raise_def
        split: sum.splits prod.splits if_splits)
qed

lemma kept_chain [kept]: "kp.obeys (predecessor_head w reg state_dir tick_id stop ps head)"
  by (induction ps arbitrary: head) (auto intro!: kept)

lemma kept_validated [kept]: "kp.obeys (validated_predecessor_head w reg state_dir tick_id stop)"
  unfolding validated_predecessor_head_def by (rule kept_chain)

lemma kept_review [kept]: "run_phases reg \<noteq> [] \<Longrightarrow> kp.obeys (require_accepted_review w reg state_dir tick_id head)"
  unfolding require_accepted_review_def by simp (intro kept)

section \<open>The delivery of a phase\<close>

lemma kept_option [kept]: "kp.obeys a \<Longrightarrow> (\<And>x. kp.obeys (f x)) \<Longrightarrow> kp.obeys (case v of None \<Rightarrow> a | Some x \<Rightarrow> f x)"
  by (rule kp.obeys_option)

lemma kept_if [kept]: "kp.obeys a \<Longrightarrow> kp.obeys b \<Longrightarrow> kp.obeys (if c then a else b)"
  by simp

lemma kept_prod [kept]: "(\<And>a b. kp.obeys (f a b)) \<Longrightarrow> kp.obeys (case p of (a, b) \<Rightarrow> f a b)"
  by (cases p) simp

lemma kept_either [kept]: "(\<And>a. kp.obeys (f a)) \<Longrightarrow> (\<And>b. kp.obeys (g b)) \<Longrightarrow> kp.obeys (case v of Inl a \<Rightarrow> f a | Inr b \<Rightarrow> g b)"
  by (cases v) simp_all

lemma kept_probe [kept]: "kp.obeys (probe w args cwd code)"
  unfolding probe_def run_program_def by (rule kept_bind) (auto intro: kept split: gh_outcome.split)

lemma kept_git [kept]: "kp.obeys (delivery_git w worktree args)"
  unfolding delivery_git_def by (intro kept)

lemma kept_identity [kept]: "kp.obeys (github_identity w worktree)"
  unfolding github_identity_def by (intro kept)

lemma kept_pr_identity [kept]: "kp.obeys (verify_pr_identity w worktree view branch repo)"
  unfolding verify_pr_identity_def by (intro kept)

lemma kept_view [kept]: "kp.obeys (pr_view w worktree url)"
  unfolding pr_view_def by (rule kept_bind) (auto intro!: kept split: option.split json.split)

lemma kept_remote_head [kept]: "kp.obeys (remote_head w worktree branch)"
  unfolding remote_head_def by (intro kept)

lemma kept_corroborating [kept]: "kp.obeys (corroborating_api w worktree e jq)"
  unfolding corroborating_api_def by (intro kept)

lemma kept_checks [kept]: "kp.obeys (check_state w worktree url repo head)"
  unfolding check_state_def if_proven_empty_def rollup_is_honestly_empty_def by (intro kept)

lemma kept_authority [kept]: "kp.obeys (delivery_authority w state_dir tick_id worktree repo False)"
  unfolding delivery_authority_def Let_def by (simp add: then_op_def bind_op_def [of "ret ()"]) (intro kept)

lemma kept_finish_checks [kept]:
  "run_phases reg \<noteq> [] \<Longrightarrow> kp.obeys (finish_checks w reg state_dir tick_id key repo payload)"
  unfolding finish_checks_def Let_def delivered_head_def by simp (intro kept; assumption)

lemma kept_view_checks [kept]: "kp.obeys (view_checks w reg repo d)"
  unfolding view_checks_def Let_def by (intro kept)

lemma kept_guarded [kept]: "run_phases reg \<noteq> [] \<Longrightarrow> kp.obeys (guarded_delivery w reg state_dir tick_id key repo c)"
  unfolding guarded_delivery_def delivery_block_def by (intro kept; assumption)

lemma kept_after [kept]: "kp.obeys (after_delivery w reg state_dir tick_id repo False tasks r)"
  unfolding after_delivery_def final_chain_def by (cases r) (auto intro!: kept)

lemma kept_completion [kept]: "run_phases reg \<noteq> [] \<Longrightarrow> kp.obeys (reconcile_completion_locked w reg project_dir state_dir tenant tick_id repo False)"
  unfolding reconcile_completion_locked_def by (rule kept_bind, rule kept_tasks) (auto intro!: kept split: option.split)

lemma kept_finish [kept]: "run_phases reg \<noteq> [] \<Longrightarrow> kp.obeys (finish_phase w reg project_dir state_dir tenant tick_id repo p)"
  unfolding finish_phase_def
  by (intro kept_if kept_bind kept_completion) (auto intro!: kp.obeysI simp: kp.rel_refl ret_def split: if_splits)

lemma kept_persist [kept]: "kp.obeys (on_cards (persist_accepted_head w state_dir tick_id head))"
proof (rule kp.obeysI)
  fix s r s' assume "on_cards (persist_accepted_head w state_dir tick_id head) s = (r, s')"
  moreover have "unmoved s (s\<lparr>cards := x\<rparr>)" if "write_text w (accepted_head_path state_dir tick_id) t (cards s) = (q, x)" for t q x
  proof -
    have "on_cards (write_text w (accepted_head_path state_dir tick_id) t) s = (q, s\<lparr>cards := x\<rparr>)" using that by (simp add: on_cards_def)
    then show ?thesis by (rule kp.obeysD [OF kept_accepted])
  qed
  ultimately show "unmoved s s'"
    by (auto simp: on_cards_def persist_accepted_head_def bind_op_def reads_def lift_res_def kp.rel_refl split: sum.splits prod.splits if_splits)
qed

lemma kept_accept [kept]: "run_phases reg \<noteq> [] \<Longrightarrow> kp.obeys (accept_phase w reg project_dir state_dir tenant tick_id repo p task head)"
  unfolding accept_phase_def confirm_report_def accept_head_def Let_def by (intro kept; assumption)

section \<open>Agreement with the chain\<close>

text \<open>Whether a file of a run can be read does not depend on what the board's commands did.\<close>

definition stable_reads :: "'b flow_world \<Rightarrow> bool" where
  "stable_reads w \<longleftrightarrow> (\<forall>path b b'. read_error (boardw w) path b = read_error (boardw w) path b')"

lemma read_agrees: "unmoved s t \<Longrightarrow> stable_reads w \<Longrightarrow> endswith path ''.json'' \<Longrightarrow> read_text (board_of (sched w)) path (cards t) = read_text (board_of (sched w)) path (cards s)"
  unfolding unmoved_def stable_reads_def read_text_def boardw_def by metis

lemma registration_json: "endswith (run_path d t ''registration.json'') ''.json''" "endswith (run_path d t MARKER) ''.json''"
  by (simp_all add: run_file_not_json MARKER_def) (simp_all add: endswith_def)

lemma stored_agrees:
  assumes "unmoved s t" and "stable_reads w"
  shows "read_run_file (sched w) (run_path d i ''registration.json'') t = read_run_file (sched w) (run_path d i ''registration.json'') s"
    and "read_run_file (sched w) (run_path d i MARKER) t = read_run_file (sched w) (run_path d i MARKER) s"
    and "validated_run (sched w) project_dir d i repo t = validated_run (sched w) project_dir d i repo s"
  unfolding read_run_file_def validated_run_def stored_registration_def
  by (simp_all add: read_agrees [OF assms] registration_json)

lemma required_agrees:
  "unmoved s t \<Longrightarrow> stable_reads w \<Longrightarrow> supervisor_required (sched w) reg d i keys t = supervisor_required (sched w) reg d i keys s"
  unfolding supervisor_required_def enrolled_def by (simp only: stored_agrees) (simp add: unmoved_def)

lemma pinned_agrees:
  assumes k: "unmoved s t" and w: "stable_reads w"
  shows "validate_pinned (sched w) identity t = validate_pinned (sched w) identity s"
proof -
  have e: "execs t = execs s" using k by (simp add: unmoved_def)
  show ?thesis unfolding validate_pinned_def check_run_def check_profile_root_def Let_def stored_agrees [OF k w] e by (rule refl)
qed

lemma authorized_agrees:
  assumes k: "unmoved s t" and w: "stable_reads w"
  shows "authorized (sched w) reg i key result t = authorized (sched w) reg i key result s"
proof -
  have e: "execs t = execs s" using k by (simp add: unmoved_def)
  show ?thesis unfolding authorized_def authorize_report_def checkpoint_evidence_def promoted_raw_def pinned_agrees [OF k w] e by (rule refl)
qed

lemma promoted_agrees: "execs t = execs s \<Longrightarrow> promoted_result w reg i key t = promoted_result w reg i key s"
  unfolding promoted_result_def by (erule ssubst) (rule refl)

lemma handler_returns: "catch_op m (\<lambda>e. raise (f e)) s = (Inr x, s') \<longleftrightarrow> m s = (Inr x, s')"
  by (auto simp: catch_op_def raise_def split: prod.splits sum.splits)

definition held_by :: "string \<Rightarrow> 'b tick_state \<Rightarrow> 'b tick_state" where
  "held_by i s = s\<lparr>execs := (execs s)\<lparr>held := i # held (execs s)\<rparr>\<rparr>"

lemma held_agrees: "unmoved s t \<Longrightarrow> unmoved (held_by i s) (held_by i t)"
  by (simp add: unmoved_def held_by_def)

text \<open>A lock taken around a block that returns is also taken around one that returns the same without effect.\<close>

lemma locked_agrees:
  assumes run: "locked_tick w i body t = (Inr x, t')" and k: "unmoved s t" and l: "load (exec_of w) i (execs s) = Inr r"
    and body: "\<And>t1 s1 t2. unmoved s1 t1 \<Longrightarrow> body t1 = (Inr x, t2) \<Longrightarrow> still s1 = (Inr x, s1)"
  shows "locked_tick w i still s = (Inr x, s)"
proof -
  have e: "execs t = execs s" using k by (simp add: unmoved_def)
  have same: "t\<lparr>execs := execs s\<rparr> = t" unfolding e [symmetric] by simp
  have opened: "open_directory (exec_of w) i True (execs s) = ((case dir_errno (exec_of w) i of None \<Rightarrow> Inr () | Some e \<Rightarrow> Inl (OSErr e)), execs s)"
    using loaded_exists [OF l] by (intro open_existing) auto
  have d: "dir_errno (exec_of w) i = None"
    using run by (cases "dir_errno (exec_of w) i") (simp_all add: locked_tick_def e opened)
  show ?thesis
  proof (cases "i \<in> set (held (execs s))")
    case True
    then have "body t = (Inr x, t')" using run d by (simp add: locked_tick_def e opened same)
    with k True d show ?thesis by (simp add: locked_tick_def opened body)
  next
    case False
    with run d obtain t2 where "flock (exec_of w) i = None" "body (held_by i t) = (Inr x, t2)"
      by (auto simp: locked_tick_def e opened held_by_def split: option.splits prod.splits)
    moreover from this have "still (held_by i s) = (Inr x, held_by i s)" using body held_agrees [OF k] by blast
    ultimately show ?thesis using False d by (simp add: locked_tick_def opened held_by_def)
  qed
qed

lemma require_agrees:
  assumes run: "require_authorized_result (sched w) reg d i key result body t = (Inr x, t')" and k: "unmoved s t" and w: "stable_reads w"
    and body: "\<And>t1 s1 t2. body t1 = (Inr x, t2) \<Longrightarrow> still s1 = (Inr x, s1)"
  shows "require_authorized_result (sched w) reg d i key result still s = (Inr x, s)"
proof -
  note defs = require_authorized_result_def Let_def handler_returns bind_op_def then_op_def reads_def lift_res_def
  from run obtain b where b: "supervisor_required (sched w) reg d i [key] s = Inr b"
    by (auto simp: defs required_agrees [OF k w] split: sum.splits)
  show ?thesis
  proof (cases b)
    case False
    with run b show ?thesis using body by (simp add: defs required_agrees [OF k w])
  next
    case True
    let ?i = "execution_id (sched w) i key"
    let ?run = "\<lambda>m. bind_op (reads (authorized (sched w) reg i key result)) (\<lambda>_. m)"
    from run True b obtain r where 1: "root_checked (sched w) reg d = Inr ()" "load (exec_of (sched w)) ?i (execs t) = Inr r"
      and 2: "locked_tick (sched w) ?i (?run body) t = (Inr x, t')"
      by (auto simp: defs required_agrees [OF k w] split: sum.splits)
    have e: "execs t = execs s" using k by (simp add: unmoved_def)
    have "locked_tick (sched w) ?i (?run still) s = (Inr x, s)"
    proof (rule locked_agrees [OF 2 k])
      show "load (exec_of (sched w)) ?i (execs s) = Inr r" using 1 e by simp
      show "?run still s1 = (Inr x, s1)" if "unmoved s1 t1" "?run body t1 = (Inr x, t2)" for t1 s1 t2
        using that body by (simp add: bind_op_def reads_def authorized_agrees [OF that(1) w] split: sum.splits)
    qed
    with True b 1 e show ?thesis by (simp add: defs)
  qed
qed

section \<open>The walk\<close>

lemma bind_sum_returns: "bind_sum m k s = (Inr (Inr x), s') \<longleftrightarrow> (\<exists>y s1. m s = (Inr (Inr y), s1) \<and> k y s1 = (Inr (Inr x), s'))"
  by (auto simp: bind_sum_def bind_op_def ret_def split: prod.splits sum.splits)

text \<open>One accepted phase: the chain re-proves the same head, and leaves its own state untouched.\<close>

lemma accept_agrees:
  assumes run: "accept_phase w reg project_dir d tenant i repo p task h t = (Inr (Inr (h', task')), t')" and k: "unmoved s t" and w: "stable_reads w"
  obtains rc where "promoted_result (sched w) reg i (def_key p) s = Inr rc"
    "require_authorized_result (sched w) reg d i (def_key p) (fst rc) (lift_res (link_head h rc)) s = (Inr h', s)"
proof -
  from run obtain rc t1 t2 where rc: "promoted_result (sched w) reg i (def_key p) t = Inr rc"
    and c: "confirm_report w reg i (def_key p) task rc t = (Inr (), t1)"
    and a: "require_authorized_result (sched w) reg d i (def_key p) (fst rc) (accept_head w reg d i p h rc) t1 = (Inr h', t2)"
    by (auto simp: accept_phase_def Let_def bind_sum_returns bind_op_returns then_op_returns reads_def)
  have "kp.obeys (confirm_report w reg i (def_key p) task rc)" unfolding confirm_report_def by (intro kept)
  then have "unmoved t t1" using c by (rule kp.obeysD)
  with k have k1: "unmoved s t1" by (rule kp.rel_trans)
  have 1: "promoted_result (sched w) reg i (def_key p) s = Inr rc" using rc k promoted_agrees [of t s] unfolding unmoved_def by metis
  have link: "lift_res (link_head h rc) s1 = (Inr h', s1)" if "accept_head w reg d i p h rc u = (Inr h', u')" for u u' and s1 :: "'a tick_state"
    using that by (auto simp: accept_head_def bind_op_returns then_op_returns lift_res_def)
  have 2: "require_authorized_result (sched w) reg d i (def_key p) (fst rc) (lift_res (link_head h rc)) s = (Inr h', s)"
    by (rule require_agrees [OF a k1 w]) (erule link)
  show thesis by (rule that [OF 1 2])
qed

lemma schedule_returns_key:
  "schedule_phases w reg project_dir d tenant i repo tasks ps key h parent s = (Inr (k, a), s') \<Longrightarrow> ps \<noteq> [] \<Longrightarrow> k \<in> def_key ` set ps"
proof (induction ps arbitrary: key h parent s)
  case (Cons p ps)
  from Cons.prems Cons.IH show ?case
    by (cases "ps = []") (auto simp: bind_op_def capture_def ret_def split: sum.splits prod.splits)
qed simp

definition loop_answer :: "(bool + string \<times> string) res \<Rightarrow> (bool + unit) res" where
  "loop_answer r = (case r of Inl e \<Rightarrow> Inl e | Inr (Inl b) \<Rightarrow> Inr (Inl b) | Inr (Inr _) \<Rightarrow> Inr (Inr ()))"

lemma accepted_phase:
  "schedule_phase w reg project_dir d tenant i repo tasks p later h parent s = (Inr (Inr (h', t)), s') \<Longrightarrow>
    \<exists>task. accept_phase w reg project_dir d tenant i repo p task h s = (Inr (Inr (h', t)), s')"
  by (auto simp: schedule_phase_def Let_def bind_sum_returns bind_op_returns split: option.splits if_splits)

lemma walk_agrees:
  assumes "schedule_phases w reg project_dir d tenant i repo tasks (pre @ p # post) key h parent t = (Inr (def_key p, a), t')"
    and "distinct (map def_key (pre @ p # post))" and "unmoved s t" and "stable_reads w" and "run_phases reg \<noteq> []"
  shows "\<exists>h1 parent1 t1 r. predecessor_head (sched w) reg d i (Some (def_key p)) (pre @ p # post) h s = (Inr h1, s) \<and> unmoved s t1
    \<and> schedule_phase w reg project_dir d tenant i repo tasks p post h1 parent1 t1 = (r, t') \<and> a = loop_answer r"
  using assms
proof (induction pre arbitrary: key h parent t)
  case Nil
  obtain r t1 where r: "schedule_phase w reg project_dir d tenant i repo tasks p post h parent t = (r, t1)" by fastforce
  have "post = [] \<or> def_key p \<notin> def_key ` set post" using Nil.prems by auto
  then have "t1 = t' \<and> a = loop_answer r"
    using Nil.prems(1) r schedule_returns_key
    by (cases "post = []") (fastforce simp: bind_op_def capture_def ret_def loop_answer_def split: sum.splits)+
  with r Nil.prems show ?case by (auto simp: ret_def)
next
  case (Cons q pre)
  obtain r t1 where r: "schedule_phase w reg project_dir d tenant i repo tasks q (pre @ p # post) h parent t = (r, t1)" by fastforce
  have ne: "def_key q \<noteq> def_key p" using Cons.prems(2) by auto
  with Cons.prems(1) r obtain h1 task where r1: "r = Inr (Inr (h1, task))"
    and rest: "schedule_phases w reg project_dir d tenant i repo tasks (pre @ p # post) (def_key q) h1 (Some task) t1 = (Inr (def_key p, a), t')"
    by (auto simp: bind_op_def capture_def ret_def split: sum.splits)
  from r r1 obtain c where acc: "accept_phase w reg project_dir d tenant i repo q c h t = (Inr (Inr (h1, task)), t1)"
    by (auto dest: accepted_phase)
  from accept_agrees [OF acc Cons.prems(3,4)] obtain rc where
    1: "promoted_result (sched w) reg i (def_key q) s = Inr rc" and
    2: "require_authorized_result (sched w) reg d i (def_key q) (fst rc) (lift_res (link_head h rc)) s = (Inr h1, s)" by blast
  have "unmoved s t1" using Cons.prems(3) kp.obeysD [OF kept_accept [OF Cons.prems(5)] acc] by (rule kp.rel_trans)
  from Cons.IH [OF rest _ this Cons.prems(4,5)] Cons.prems(2) 1 2 ne
  show ?case by (auto simp: bind_op_def reads_def)
qed

section \<open>A concrete walk\<close>

text \<open>
  A run of three phases whose first one finished: its execution, its promoted result, and a repository in
  which the reported head descends from the base.
\<close>

definition wx_id :: string where "wx_id = replicate 64 (CHR ''a'')"
definition wx_metadata :: json where "wx_metadata = JObj [(''worktree_git_dir'', JStr ''/p/.git''), (''common_dir'', JStr ''/p/.git'')]"

definition wx_contract :: dict where
  "wx_contract = [(''kind'', JStr ''profile''), (''project_dir'', JStr ''/p''), (''todo_id'', JStr ''TODO-1''), (''tick_id'', JStr ''T1''), (''phase'', JStr ''plan''),
     (''base_sha'', JStr c0), (''result_kind'', JStr ''phase''), (''git_metadata'', wx_metadata)]"

definition wx_registration :: dict where
  "wx_registration = make_registration ex_world ''T1'' (replicate 64 (CHR ''0'')) ''plan'' ''do it'' (JObj [(''name'', JStr ''claude''), (''tools'', JList [])])
     ''/w'' ''main'' (JObj wx_contract) (JInt 60) JNull"

definition wx_change :: dict where
  "wx_change = [(''status'', JStr ''exited''), (''exit_code'', JInt 0), (''exit_signal'', JNull), (''cleanup'', JStr ''confirmed'')]"

definition wx_attempt :: dict where "wx_attempt = dupdate (dict_of (new_attempt ex_world 0 JNull JNull)) wx_change"

definition wx_record :: dict where
  "wx_record = dput ''execution_id'' (JStr wx_id) (dput ''registration'' (JObj wx_registration) (updated_record ex_record1 wx_change))"

definition wx_reg :: run_registration where
  "wx_reg = \<lparr>run_todo = ''TODO-1'', run_repository = [''p''], run_base_sha = c0, run_issue_number = 1, run_issue_url = [], run_plan_path = None, run_branch = ''main'',
     run_worktree = [''w''], run_step_keys = [''plan'', ''build'', ''ship''], run_manifest = None, run_assignee = ''a'', run_review_assignee = None, run_client = ''claude'',
     run_plan_hash = replicate 64 (CHR ''0''), run_plan_kind = [], run_plan_reference = [],
     run_plan_source = \<lparr>source_kind = [], source_document = [], source_hash = [], source_manifest = None, source_path = None\<rparr>,
     run_profile = ''p'', run_policy_mode = ''inherit'', run_supervised = False,
     run_phases = map (\<lambda>k. \<lparr>def_key = k, def_name = k, def_prompt = [], def_tools = [], def_turns = 0, def_timeout = 60, def_terminal = False, def_gate = False,
       def_kind = None, def_compile = False, def_role = ''worker''\<rparr>) [''plan'', ''build'', ''ship''], run_snapshot = []\<rparr>"

definition wx_raw :: json where "wx_raw = expected_raw wx_reg wx_id ''T1'' ''plan'' 1 (JStr c1)"

definition wx_root :: string where "wx_root = ''/h/.hermes/agent-executions/'' @ wx_id"

definition wx_store :: "string list \<Rightarrow> store" where
  "wx_store h = \<lparr>store_root = wx_root, dirs = [(wx_id, [(RECORD, File 900 (Some (JObj wx_record))), (''result-1.json'', File 300 (Some wx_raw))])], held = h\<rparr>"

definition wx_sched :: "nat sched_world" where
  "wx_sched = \<lparr>tick_env = rt_world\<lparr>git_world := pj_git\<lparr>metadata_identity := \<lambda>_. Inr wx_metadata\<rparr>\<rparr>,
     run_env = \<lparr>path_resolve = path_parts, run_git_query = (\<lambda>_ args. Inr (0, if args = [''branch'', ''--show-current''] then ''main'' else c1)),
       bytes_hash = (\<lambda>_. []), read_artifact = (\<lambda>_ _. Inl FileNotFound), origin_identity = Inl RuntimeErr\<rparr>,
     account_home = Some ''/h'', config_value = (\<lambda>_. None)\<rparr>"

definition wx_state :: "string list \<Rightarrow> nat tick_state" where "wx_state h = \<lparr>execs = wx_store h, cards = ex_empty\<rparr>"

lemma wx_fields: "exec_of wx_sched = ex_world" "board_of wx_sched = ex_maker" "execs (wx_state h) = wx_store h" "cards (wx_state h) = ex_empty"
  "execution_id wx_sched t k = wx_id" "store_root (wx_store h) = wx_root"
  by (simp_all add: exec_of_def board_of_def wx_sched_def rt_world_def wx_state_def execution_id_def ex_world_def wx_id_def wx_store_def)

lemma wx_attempt: "validate_attempt 3 1 (JObj wx_attempt) = Inr ()"
proof -
  let ?a = "[(''generation'', JInt 1), (''status'', JStr ''exited''), (''host'', JStr ''host''), (''boot_id'', JStr ''boot''),
      (''supervisor'', JNull), (''client_process'', JNull), (''started_monotonic'', JNull),
      (''deadline_monotonic'', JNull), (''exit_code'', JInt 0), (''exit_signal'', JNull),
      (''cleanup'', JStr ''confirmed''), (''reason'', JNull), (''recovery_event'', JNull),
      (''recovery_context'', JNull), (''owned_processes'', JList []), (''owned_cgroups'', JList []),
      (''direct_processes'', JList [])]"
  have a: "wx_attempt = ?a"
    by (simp add: wx_attempt_def new_attempt_def wx_change_def dupdate_def dput_def ex_world_def)
  have "attempt_checks (dget ?a) (JList []) (JList []) = Inr ()"
    by (auto simp: attempt_checks_def Let_def dget_def for_each_def STATUSES_def TERMINAL_def CLEANUPS_def validate_identity_def)
  moreover have "keys_are ?a (attempt_fields 3)"
    unfolding keys_are_def attempt_fields_sets(1) by (simp add: ATTEMPT_FIELDS_def insert_commute)
  ultimately show ?thesis
    unfolding a by (simp add: validate_attempt_def dget_def get_list_def has_key_def Let_def)
qed

lemma wx_attempts: "attempts_of wx_record = [JObj wx_attempt]"
  using ex_attempts(2) by (simp add: wx_record_def wx_attempt_def updated_record_def attempts_of_def)

lemma wx_registration_valid: "validate_registration ex_world (JObj wx_registration) = Inr ()" by code_simp

lemma wx_id: "identifier_ok wx_id" "check_identifier (JStr wx_id) = Inr ()" by code_simp+

lemma wx_valid: "validate ex_world (JObj wx_record) = Inr ()"
proof -
  have "keys_are wx_record RECORD_FIELDS"
    using ex_valid1 unfolding wx_record_def updated_record_def by (auto simp: validate_iff RECORD_FIELDS_def intro!: keys_are_dput)
  moreover have "is_list (dget wx_record ''attempts'')" by (simp add: wx_record_def updated_record_def)
  ultimately show ?thesis
    using ex_valid1 ex_rec(1) [of ex_record1] wx_registration_valid wx_id wx_attempt
    by (simp add: validate_iff wx_attempts SCHEMA_VERSION_def) (simp add: wx_record_def updated_get)
qed

lemma wx_record_get: "dget wx_record ''version'' = JInt SCHEMA_VERSION" "dget wx_record ''execution_id'' = JStr wx_id" "registration_of wx_record = wx_registration"
  using ex_rec(1) [of ex_record1] by (simp_all add: wx_record_def updated_get registration_of_def)

lemma wx_outside: "store_root s = wx_root \<Longrightarrow> outside_worktree ex_world s ''/w'' = Inr ()"
proof -
  have "outside_worktree ex_world (empty_store wx_root) ''/w'' = Inr ()" by code_simp
  then show "store_root s = wx_root \<Longrightarrow> ?thesis" using outside_worktree_cong [of s "empty_store wx_root"] by (simp add: empty_store_def)
qed

lemma wx_pinned: "dget wx_registration ''worktree'' = JStr ''/w''" "dget wx_registration ''branch'' = JStr ''main''" "contract_of wx_registration = wx_contract"
  by code_simp+

lemma wx_files: "read_json ex_world wx_id RECORD (wx_store h) = Inr (JObj wx_record)" "safe_read ex_world wx_id ''result-1.json'' (wx_store h) = Inr (File 300 (Some wx_raw))"
  using wx_id by (simp_all add: read_json_returns wx_store_def safe_read_def open_directory_def ex_ids RECORD_def MAX_RECORD_BYTES_def)

lemma wx_load: "load ex_world wx_id (wx_store h) = Inr wx_record"
proof -
  have "worktree_of wx_record = ''/w''" by (simp add: worktree_of_def wx_record_get wx_pinned)
  then show ?thesis using wx_files(1) wx_valid wx_record_get by (simp add: load_returns accept_record_returns upgrade_current wx_outside wx_fields)
qed

lemma wx_last: "afield (last (attempts_of wx_record)) ''generation'' = JInt 1" "completed_attempt wx_record = Inr (last (attempts_of wx_record))" "result_file 1 = ''result-1.json''"
proof -
  have "afield (JObj wx_attempt) ''generation'' = JInt 1" by code_simp
  then show "afield (last (attempts_of wx_record)) ''generation'' = JInt 1" by (simp add: wx_attempts)
  have "afield (JObj wx_attempt) ''status'' = JStr ''exited'' \<and> afield (JObj wx_attempt) ''exit_code'' = JInt 0 \<and> afield (JObj wx_attempt) ''exit_signal'' = JNull
    \<and> afield (JObj wx_attempt) ''cleanup'' = JStr ''confirmed''" by code_simp
  then show "completed_attempt wx_record = Inr (last (attempts_of wx_record))" by (simp add: completed_attempt_def wx_attempts Let_def)
  show "result_file 1 = ''result-1.json''" by code_simp
qed

lemma wx_raw_kind: "need ''result_kind'' wx_contract = Inr (JStr ''phase'')" "is_raw wx_contract" by code_simp+

lemma wx_promoted: "promoted_result wx_sched wx_reg ''T1'' ''plan'' (wx_state h) = Inr (PhaseResult wx_raw, wx_contract)"
proof -
  have "read_json ex_world wx_id ''result-1.json'' (wx_store h) = Inr wx_raw" using wx_files(2) by (simp add: read_json_def)
  then show ?thesis using wx_last wx_raw_kind by (simp add: promoted_result_def Let_def wx_fields wx_load wx_record_get wx_pinned wx_attempts)
qed

lemma wx_authorize: "accepted_identity wx_reg ''T1'' ''plan'' wx_registration = Inr ()"
    "authorize_raw wx_sched wx_reg wx_id ''T1'' ''plan'' (PhaseResult wx_raw) wx_contract 1 wx_raw = Inr ()"
  by code_simp+

lemma wx_profile: "check_identity wx_sched wx_id wx_registration = Inr ()" "check_profile_root wx_sched wx_contract (wx_state h) = Inr ()"
    "validate_git_metadata (git_world (tick_env wx_sched)) wx_registration = Inr ()" "git_out (query_of wx_sched) ''/w'' [''branch'', ''--show-current''] = Inr ''main''"
    "dget wx_contract ''kind'' = JStr ''profile''"
  by code_simp+

lemma wx_authorized: "authorized wx_sched wx_reg ''T1'' ''plan'' (PhaseResult wx_raw) (wx_state h) = Inr ()"
proof -
  have "validate_pinned wx_sched wx_id (wx_state h) = Inr ()"
    using wx_profile by (simp add: validate_pinned_def Let_def wx_fields wx_load wx_record_get wx_pinned wx_outside raise_if_def)
  moreover have "promoted_raw wx_sched wx_id 1 (wx_state h) = Inr wx_raw" using wx_files(2) wx_last(3) by (simp add: promoted_raw_def wx_fields MAX_METADATA_BYTES_def)
  ultimately show ?thesis using wx_authorize wx_last wx_raw_kind by (simp add: authorized_def Let_def wx_fields wx_load wx_record_get wx_pinned)
qed

definition wx_flow :: "nat flow_world" where
  "wx_flow = \<lparr>sched = wx_sched, issues_env = \<lparr>gh_command = (\<lambda>_ _ n. (GhMissing, n)), git_origin = (\<lambda>_. GhMissing), text_hash = (\<lambda>_. [])\<rparr>,
     program = (\<lambda>_ _ n. (GhMissing, n)), entrypoint = Inr ''/bin/tpo'', profile_file = (\<lambda>_. Inl FileNotFound),
     plan_world = \<lparr>resolved = (\<lambda>p. p), resolved_strict = (\<lambda>p. Inr p), regular_file = (\<lambda>_. False), open_error = (\<lambda>_. None), file_text = (\<lambda>_. Inl FileNotFound)\<rparr>,
     today = ''2026-01-01'', run_directory = (\<lambda>_ _. False), run_names = (\<lambda>_ _. Inr [])\<rparr>"

definition wx_card :: "string \<Rightarrow> string \<Rightarrow> task_info" where
  "wx_card k st = \<lparr>info_task = ''t_00000001'', info_phase = k, info_status = st, info_todo = ''TODO-1'', info_generation = 1\<rparr>"

definition wx_tasks :: "(string \<times> task_info) list" where
  "wx_tasks = [(''plan'', wx_card ''plan'' ''done''), (''ship'', wx_card ''ship'' ''todo'')]"

lemma wx_sched_of: "sched wx_flow = wx_sched" by (simp add: wx_flow_def)

lemma wx_required: "supervisor_required wx_sched wx_reg ''/p/.hermes'' ''T1'' [''plan''] (wx_state h) = Inr True"
  by (simp add: supervisor_required_def enrolled_def read_run_file_def read_text_def wx_fields ex_empty_def ex_maker_def) (simp add: wx_reg_def wx_store_def)

lemma wx_update: "wx_state h\<lparr>execs := wx_store h'\<rparr> = wx_state h'" "wx_store h\<lparr>held := h'\<rparr> = wx_store h'" "held (wx_store h) = h"
  by (simp_all add: wx_state_def wx_store_def)

lemma wx_accept: "require_authorized_result wx_sched wx_reg ''/p/.hermes'' ''T1'' ''plan'' (PhaseResult wx_raw)
    (accept_head wx_flow wx_reg ''/p/.hermes'' ''T1'' p c0 (PhaseResult wx_raw, wx_contract)) (wx_state []) = (Inr c1, wx_state [])"
proof -
  have root: "root_checked wx_sched wx_reg ''/p/.hermes'' = Inr ()" by code_simp
  have link: "link_head c0 (PhaseResult wx_raw, wx_contract) = Inr c1" by code_simp
  have "accept_head wx_flow wx_reg ''/p/.hermes'' ''T1'' p c0 (PhaseResult wx_raw, wx_contract) (wx_state h) = (Inr c1, wx_state h)" for h
    using link by (simp add: accept_head_def bind_op_def then_op_def lift_res_def wx_reg_def)
  moreover have "open_directory ex_world wx_id True (wx_store h) = (Inr (), wx_store h)" for h
    using wx_id by (simp add: open_directory_def wx_store_def ex_ids)
  ultimately show ?thesis
    using wx_authorized root
    by (simp add: require_authorized_result_def locked_tick_def Let_def wx_required catch_op_def bind_op_def then_op_def reads_def lift_res_def wx_fields wx_load ex_ids wx_update)
qed

definition wx_phases :: "phase list" where "wx_phases = worker_phases (run_phases wx_reg)"

lemma wx_phases: "map def_key wx_phases = [''plan'', ''build'', ''ship'']" "wx_phases = [wx_phases ! 0, wx_phases ! 1, wx_phases ! 2]"
  "\<not> delivers wx_reg p"
  by (simp_all add: wx_phases_def wx_reg_def delivers_def)

lemma wx_first: "schedule_phase wx_flow wx_reg ''/p'' ''/p/.hermes'' ''board'' ''T1'' None wx_tasks (wx_phases ! 0) later c0 None (wx_state [])
   = (Inr (Inr (c1, ''t_00000001'')), wx_state [])"
proof -
  have "dget wx_contract ''result_kind'' = JStr ''phase''" by code_simp
  moreover have "def_key (wx_phases ! 0) = ''plan''" using wx_phases(1) by (simp add: wx_phases_def wx_reg_def)
  ultimately show ?thesis
    by (simp add: schedule_phase_def wx_tasks_def wx_card_def accept_phase_def Let_def wx_sched_of bind_op_def then_op_def bind_sum_def reads_def wx_promoted
        confirm_report_def wx_accept finish_phase_def wx_phases(3))
qed

lemma wx_second: "schedule_phase wx_flow wx_reg ''/p'' ''/p/.hermes'' ''board'' ''T1'' None wx_tasks (wx_phases ! 1) [wx_phases ! 2] c1 parent s
   = (Inl (failure ''phase_order_mismatch''), s)"
  by (simp add: schedule_phase_def wx_tasks_def await_phase_def Let_def bind_op_def then_op_def bind_sum_def lift_res_def wx_phases_def wx_reg_def)

lemma wx_walk: "schedule_phases wx_flow wx_reg ''/p'' ''/p/.hermes'' ''board'' ''T1'' None wx_tasks wx_phases [] c0 None (wx_state [])
   = (Inr (''build'', Inl (failure ''phase_order_mismatch'')), wx_state [])"
proof -
  have "def_key (wx_phases ! 1) = ''build''" by (simp add: wx_phases_def wx_reg_def)
  then show ?thesis
    by (subst wx_phases(2)) (simp add: bind_op_def capture_def wx_first wx_second [unfolded One_nat_def])
qed

section \<open>The schedule and the chain\<close>

text \<open>
  C40: \<^verbatim>\<open>reconcile_schedule\<close> walks the pinned phases forward, carrying the head of the last accepted one,
  while \<^verbatim>\<open>validated_predecessor_head\<close> re-proves the chain from the base up to a phase.  The two agree:
  whenever the walk stops at a phase, whatever it answers or raises there, it arrived with the very head
  the chain proves for that phase on the state the walk started from.  In between nothing has touched an
  execution, although accepted heads and deliveries were recorded, and the chain proves it without an
  effect on the state.  Readability of the run's files must not depend on the board's commands.
\<close>

theorem schedule_head_is_proved:
  assumes phases: "worker_phases (run_phases reg) = pre @ p # post" and uniq: "distinct (map def_key (pre @ p # post))" and w: "stable_reads w"
    and run: "schedule_phases w reg project_dir state_dir tenant tick_id repo tasks (worker_phases (run_phases reg)) [] (run_base_sha reg) None s
        = (Inr (def_key p, a), s')"
  shows "\<exists>head parent t r. validated_predecessor_head (sched w) reg state_dir tick_id (Some (def_key p)) s = (Inr head, s) \<and> execs t = execs s
    \<and> schedule_phase w reg project_dir state_dir tenant tick_id repo tasks p post head parent t = (r, s') \<and> a = loop_answer r"
proof -
  have "run_phases reg \<noteq> []" using phases by (cases "run_phases reg") auto
  from walk_agrees [OF run [unfolded phases] uniq kp.rel_refl w this] show ?thesis
    unfolding validated_predecessor_head_def phases by (auto simp: unmoved_def)
qed

theorem schedule_head_is_proved_witness:
  "\<exists>head parent t r. validated_predecessor_head wx_sched wx_reg ''/p/.hermes'' ''T1'' (Some ''build'') (wx_state []) = (Inr head, wx_state []) \<and> execs t = wx_store []
    \<and> schedule_phase wx_flow wx_reg ''/p'' ''/p/.hermes'' ''board'' ''T1'' None wx_tasks (wx_phases ! 1) [wx_phases ! 2] head parent t = (r, wx_state [])
    \<and> Inl (failure ''phase_order_mismatch'') = loop_answer r"
proof -
  have 1: "worker_phases (run_phases wx_reg) = [wx_phases ! 0] @ wx_phases ! 1 # [wx_phases ! 2]" using wx_phases(2) by (simp add: wx_phases_def)
  have 2: "distinct (map def_key ([wx_phases ! 0] @ wx_phases ! 1 # [wx_phases ! 2]))" and key: "def_key (wx_phases ! 1) = ''build''"
    by (simp_all add: wx_phases_def wx_reg_def)
  have base: "run_base_sha wx_reg = c0" by (simp add: wx_reg_def)
  have 3: "stable_reads wx_flow" by (simp add: stable_reads_def boardw_def wx_sched_of wx_fields ex_maker_def)
  have 4: "schedule_phases wx_flow wx_reg ''/p'' ''/p/.hermes'' ''board'' ''T1'' None wx_tasks (worker_phases (run_phases wx_reg)) [] (run_base_sha wx_reg) None (wx_state [])
      = (Inr (def_key (wx_phases ! 1), Inl (failure ''phase_order_mismatch'')), wx_state [])"
    using wx_walk by (simp only: key base wx_phases_def [symmetric])
  show ?thesis using schedule_head_is_proved [OF 1 2 3 4] by (simp only: wx_sched_of wx_fields key)
qed

end
