(* ===== verification/Circuit.thy ===== *)
theory Circuit
  imports TickStatus IssueBody
begin

text \<open>
  The circuit breaker, \<^verbatim>\<open>hermes_pipeline/circuit.py\<close>: how many ticks in a row made no progress, and the
  alert when they are too many, with \<^verbatim>\<open>slack.py\<close> that sends it.  The clock is a parameter.
\<close>

record clock =
  seconds_since :: "string \<Rightarrow> rat res"   \<comment> \<open>from an ISO stamp that ends in \<^verbatim>\<open>Z\<close> until now\<close>
  now_stamp :: string
  float_succ :: "json \<Rightarrow> json"           \<comment> \<open>a float and one\<close>

section \<open>Slack\<close>

text \<open>\<^verbatim>\<open>^[#@]?[A-Za-z0-9][A-Za-z0-9._-]*\Z\<close>\<close>

definition valid_slack_channel :: "string \<Rightarrow> bool" where
  "valid_slack_channel channel = (let t = (case channel of [] \<Rightarrow> [] | c # cs \<Rightarrow> if c \<in> set ''#@'' then cs else channel) in
     t \<noteq> [] \<and> alnum (hd t) \<and> list_all (\<lambda>c. alnum c \<or> c \<in> set ''._-'') t)"

definition notify :: "'b bw \<Rightarrow> string \<Rightarrow> string \<Rightarrow> ('b board, unit) op" where
  "notify w channel message = (if \<not> valid_slack_channel channel then ret ()
     else catch_op (bind_op (hermes w [''hermes'', ''send'', ''--to'', ''slack:'' @ channel, ''--'', message]) (\<lambda>_. ret ())) (\<lambda>_. ret ()))"

section \<open>The state of the breaker\<close>

record breaker =
  state_path :: string
  no_progress_threshold :: int
  alert_dedup_hours :: int
  slack_channel :: string

definition COUNT :: string where "COUNT = ''consecutive_no_progress''"

definition load_breaker :: "'b bw \<Rightarrow> breaker \<Rightarrow> 'b board \<Rightarrow> json res" where
  "load_breaker w b s = (if \<not> path_exists s (state_path b) then Inr (JObj [(COUNT, JInt 0), (''last_alert_at'', JNull)])
     else rbind (read_text w (state_path b) s) (\<lambda>t. case loads t of None \<Rightarrow> Inl (ValueErr ''json'') | Some v \<Rightarrow> Inr v))"

definition save_breaker :: "'b bw \<Rightarrow> breaker \<Rightarrow> json \<Rightarrow> ('b board, unit) op" where
  "save_breaker w b st = write_text w (state_path b) (dumps default_style (sort_keys st))"

text \<open>\<^verbatim>\<open>st[key]\<close> and \<^verbatim>\<open>st[key] = v\<close> on any value.\<close>

definition item_of :: "json \<Rightarrow> string \<Rightarrow> json res" where
  "item_of st key = (if \<not> is_dict st then Inl TypeErr else if has_key (dict_of st) key then Inr (dget (dict_of st) key) else Inl (KeyErr key))"

definition set_item :: "json \<Rightarrow> string \<Rightarrow> json \<Rightarrow> json res" where
  "set_item st key v = (if is_dict st then Inr (JObj (dput key v (dict_of st))) else Inl TypeErr)"

definition one_more :: "clock \<Rightarrow> json \<Rightarrow> json res" where
  "one_more k v = (case v of JInt n \<Rightarrow> Inr (JInt (n + 1)) | JBool x \<Rightarrow> Inr (JInt (if x then 2 else 1)) | JFloat _ \<Rightarrow> Inr (float_succ k v) | _ \<Rightarrow> Inl TypeErr)"

definition alert_due :: "clock \<Rightarrow> breaker \<Rightarrow> json \<Rightarrow> bool res" where
  "alert_due k b st = (let last_alert = dget (dict_of st) ''last_alert_at'' in
     if \<not> truthy last_alert then Inr True
     else if \<not> is_str last_alert then Inl AttrErr
     else rbind (seconds_since k (str_of last_alert)) (\<lambda>age. Inr (\<not> age < of_int (alert_dedup_hours b * 3600))))"

definition alert_text :: "json \<Rightarrow> string \<Rightarrow> string" where
  "alert_text n detail = ''pipeline-tick: '' @ py_str n @ '' consecutive no-progress ticks''
     @ (if detail = [] then [] else '' ('' @ detail @ '')'')"

definition alert :: "'b bw \<Rightarrow> clock \<Rightarrow> breaker \<Rightarrow> string \<Rightarrow> json \<Rightarrow> ('b board, json) op" where
  "alert w k b detail st = bind_op (lift_res (alert_due k b st)) (\<lambda>due.
     if \<not> due \<or> \<not> valid_slack_channel (slack_channel b) then ret st
     else then_op (notify w (slack_channel b) (alert_text (dget (dict_of st) COUNT) detail))
       (lift_res (set_item st ''last_alert_at'' (JStr (now_stamp k)))))"

text \<open>One tick's verdict.\<close>

definition observe :: "'b bw \<Rightarrow> clock \<Rightarrow> breaker \<Rightarrow> string option \<Rightarrow> bool \<Rightarrow> string \<Rightarrow> ('b board, unit) op" where
  "observe w k b picked counts detail = bind_op (reads (load_breaker w b)) (\<lambda>st.
     if picked \<noteq> None then bind_op (lift_res (set_item st COUNT (JInt 0))) (save_breaker w b)
     else if \<not> counts then save_breaker w b st
     else bind_op (lift_res (rbind (item_of st COUNT) (\<lambda>n. rbind (one_more k n) (set_item st COUNT)))) (\<lambda>st'.
       bind_op (if num_le (num (JInt (no_progress_threshold b))) (num (dget (dict_of st') COUNT)) then alert w k b detail st' else ret st')
         (save_breaker w b)))"

section \<open>The verdict of an outcome log\<close>

fun logged :: "string list \<Rightarrow> json list res" where
  "logged [] = Inr []"
| "logged (l # ls) = (if strip l = [] then logged ls
     else (case loads (strip l) of None \<Rightarrow> Inl (ValueErr ''json'') | Some v \<Rightarrow> rbind (logged ls) (\<lambda>vs. Inr (v # vs))))"

definition outcome_of :: "json \<Rightarrow> string res" where
  "outcome_of v = (if \<not> is_dict v then Inl AttrErr else let name = dget_or (dict_of v) ''outcome'' (JStr []) in if is_str name then Inr (str_of name) else Inl AttrErr)"

datatype log_verdict = Stalled | Progressed | Waiting

definition verdict_of :: "string list \<Rightarrow> log_verdict" where
  "verdict_of outcomes = (let done = list_ex (\<lambda>x. x \<in> {''phase_complete'', ''all_phases_complete''}) outcomes;
       failed = list_ex startswith_failed outcomes; none = ''picked_none'' \<in> set outcomes in
     if ''tick_started'' \<in> set outcomes \<and> \<not> (done \<or> failed \<or> none) then Stalled
     else if done then Progressed else if failed then Stalled else Waiting)"

definition logged_verdict :: "string \<Rightarrow> log_verdict res" where
  "logged_verdict content = (if strip content = [] then Inr Waiting
     else rbind (logged (split_on newline (strip content))) (\<lambda>vs. rbind (rmap outcome_of vs) (\<lambda>os. Inr (verdict_of os))))"

definition reset_breaker :: "'b bw \<Rightarrow> breaker \<Rightarrow> ('b board, unit) op" where
  "reset_breaker w b = bind_op (reads (load_breaker w b)) (\<lambda>st. bind_op (lift_res (set_item st COUNT (JInt 0))) (save_breaker w b))"

definition observe_from_outcomes :: "'b bw \<Rightarrow> clock \<Rightarrow> breaker \<Rightarrow> string \<Rightarrow> string \<Rightarrow> ('b board, unit) op" where
  "observe_from_outcomes w k b state_dir prior_tick_id s = (let path = outcomes_path state_dir prior_tick_id in
     if \<not> path_exists s path then observe w k b None True [] s
     else bind_op (reads (\<lambda>s. rbind (read_text w path s) logged_verdict)) (\<lambda>v. case v of
         Stalled \<Rightarrow> observe w k b None True [] | Progressed \<Rightarrow> reset_breaker w b | Waiting \<Rightarrow> observe w k b None False []) s)"

end
