(* ===== verification/Selection.thy ===== *)
theory Selection
  imports Circuit ResultGit
begin

text \<open>
  Selection, \<^verbatim>\<open>hermes_pipeline/decision/\<close>: the context of a tick, the prompt with its fenced untrusted
  regions, the reply of the model and its parsing, what of it is believed, and the decisions on file; and
  \<^verbatim>\<open>hermes_adapter.py\<close> as far as a one-shot query goes.

  A snapshot that is the JSON value \<^verbatim>\<open>null\<close> is the missing one, as in the code.  The settings have the types
  their annotations say.  Timeouts of subprocesses and the worker environment that is kept from them do not
  appear.  Listing a directory and hashing are parameters, and so is the zero-width space, a character beyond
  those of a \<^typ>\<open>char\<close>.
\<close>

section \<open>World and settings\<close>

record 'b select_world =
  shell :: "'b bw"
  plain_files :: "string \<Rightarrow> 'b board \<Rightarrow> string list res"   \<comment> \<open>names of the files of a directory\<close>
  hex_digest :: "string \<Rightarrow> string"                        \<comment> \<open>SHA-256 of a text\<close>
  iso_now :: string
  zero_width :: char

record selection_config =
  sel_model :: string
  max_tokens :: int
  prompt_path :: string                 \<comment> \<open>the configured one, or that of the bundled prompt\<close>
  expected_prompt_sha :: "string option"
  alert_channel :: string

record selection_context =
  selection_markdown :: string
  candidate_ids :: "string list"
  in_flight :: "json list"
  recent_decisions :: "json list"
  kanban_snapshot :: json
  project_slug :: string

record decision =
  tick_of :: string
  stamp :: string
  model_of :: string
  prompt_sha :: string
  considered :: "json list"
  picked :: "string option"
  rationale :: string
  blocked_reasons :: "(string \<times> string) list"
  flying :: "json list"

section \<open>The board of a project\<close>

definition board_query :: "string \<Rightarrow> string list" where
  "board_query slug = [''hermes'', ''kanban'', ''list'', ''--tenant'', slug, ''--json'']"

definition snapshot_of :: "int \<times> string \<Rightarrow> json" where
  "snapshot_of r = (if fst r \<noteq> 0 then JNull else if strip (snd r) = [] then JObj [(''tasks'', JList [])]
     else case loads (snd r) of None \<Rightarrow> JNull | Some v \<Rightarrow> v)"

definition fetch_kanban_snapshot :: "'b bw \<Rightarrow> string \<Rightarrow> ('b board, json) op" where
  "fetch_kanban_snapshot w slug = catch_op (bind_op (hermes w (board_query slug)) (\<lambda>r. ret (snapshot_of r)))
     (\<lambda>e. if e = SubprocessErr \<or> e = FileNotFound then ret JNull else raise e)"

definition NO_SNAPSHOT :: json where
  "NO_SNAPSHOT = JObj [(''columns'', JList []), (''_error'', JStr ''kanban snapshot unavailable'')]"

text \<open>What iterating over a value gives.\<close>

definition elements :: "json \<Rightarrow> json list res" where
  "elements v = (case v of JList xs \<Rightarrow> Inr xs | JObj d \<Rightarrow> Inr (map (\<lambda>kv. JStr (fst kv)) d) | JStr s \<Rightarrow> Inr (map (\<lambda>c. JStr [c]) s) | _ \<Rightarrow> Inl TypeErr)"

definition flying_id :: "json \<Rightarrow> json option res" where
  "flying_id task = (if \<not> is_dict task then Inl AttrErr
     else if \<not> str_in (dget (dict_of task) ''status'') [''created'', ''ready'', ''running''] then Inr None
     else let body = dget_or (dict_of task) ''body'' (JStr []) in
       if \<not> is_str body then Inl AttrErr
       else (case loads (takeWhile (\<lambda>c. c \<noteq> newline) (str_of body)) of None \<Rightarrow> Inr None
         | Some h \<Rightarrow> if \<not> is_dict h then Inl AttrErr
             else let todo = dget (dict_of h) ''todo_id'' in
               if \<not> truthy todo then Inr None else if hashable todo then Inr (Some todo) else Inl TypeErr))"

definition extract_in_flight_ids :: "json \<Rightarrow> json list res" where
  "extract_in_flight_ids snapshot = rbind (if is_list snapshot then Inr snapshot else if is_dict snapshot then Inr (dget_or (dict_of snapshot) ''tasks'' (JList [])) else Inl AttrErr) (\<lambda>tasks.
     rbind (elements tasks) (\<lambda>ts. rbind (rmap flying_id ts) (\<lambda>ids. Inr (List.map_filter id ids))))"

text \<open>\<^verbatim>\<open>sorted(set(ids))\<close>: texts, or numbers; texts and numbers do not compare.\<close>

fun distinct_by_value :: "json list \<Rightarrow> json list" where
  "distinct_by_value [] = []"
| "distinct_by_value (x # xs) = x # filter (\<lambda>y. \<not> py_eq x y) (distinct_by_value xs)"

fun insert_number :: "json \<Rightarrow> json list \<Rightarrow> json list" where
  "insert_number x [] = [x]"
| "insert_number x (y # ys) = (if num_le (num x) (num y) then x # y # ys else y # insert_number x ys)"

definition sorted_ids :: "json list \<Rightarrow> json list res" where
  "sorted_ids ids = (let ds = distinct_by_value ids in
     if list_all is_str ds then Inr (map JStr (sort_strs (map str_of ds)))
     else if list_ex is_str ds then Inl TypeErr
     else Inr (foldr insert_number ds []))"

definition build_in_flight :: "'b bw \<Rightarrow> string option \<Rightarrow> json \<Rightarrow> ('b board, json list) op" where
  "build_in_flight w board_slug snapshot = (if snapshot \<noteq> JNull then lift_res (rbind (extract_in_flight_ids snapshot) sorted_ids)
     else case board_slug of None \<Rightarrow> ret []
       | Some slug \<Rightarrow> bind_op (fetch_kanban_snapshot w slug) (\<lambda>v. if v = JNull then ret [] else lift_res (rbind (extract_in_flight_ids v) sorted_ids)))"

section \<open>Decisions on file\<close>

definition decision_path :: "string \<Rightarrow> string \<Rightarrow> string" where "decision_path state_dir tick_id = state_dir @ ''/decisions/'' @ tick_id @ ''.json''"
definition outcome_path :: "string \<Rightarrow> string \<Rightarrow> string" where "outcome_path state_dir tick_id = state_dir @ ''/outcomes/'' @ tick_id @ ''.json''"

definition FILE_EXISTS :: exn where "FILE_EXISTS = OSErr 17"

definition write_once :: "'b bw \<Rightarrow> string \<Rightarrow> string \<Rightarrow> ('b board, unit) op" where
  "write_once w path payload s = (if path_exists s path then (Inl FILE_EXISTS, s) else write_text w path payload s)"

definition json_of_decision :: "decision \<Rightarrow> json" where
  "json_of_decision d = JObj [(''tick_id'', JStr (tick_of d)), (''timestamp'', JStr (stamp d)), (''model'', JStr (model_of d)),
     (''prompt_sha'', JStr (prompt_sha d)), (''candidates_considered'', JList (considered d)),
     (''picked'', case picked d of None \<Rightarrow> JNull | Some p \<Rightarrow> JStr p), (''rationale'', JStr (rationale d)),
     (''blocked_reasons'', JObj (map (\<lambda>(k, v). (k, JStr v)) (blocked_reasons d))), (''in_flight'', JList (flying d))]"

definition decision_text :: "decision \<Rightarrow> string" where "decision_text d = dumps_indent default_style 0 (sort_keys (json_of_decision d))"

definition persist :: "'b bw \<Rightarrow> string \<Rightarrow> decision \<Rightarrow> ('b board, unit) op" where
  "persist w state_dir d = write_once w (decision_path state_dir (tick_of d)) (decision_text d)"

definition append_outcome :: "'b bw \<Rightarrow> string \<Rightarrow> string \<Rightarrow> string \<Rightarrow> json \<Rightarrow> ('b board, unit) op" where
  "append_outcome w state_dir tick_id outcome detail = write_once w (outcome_path state_dir tick_id)
     (dumps default_style (sort_keys (JObj [(''tick_id'', JStr tick_id), (''outcome'', JStr outcome), (''detail'', detail)])))"

text \<open>The names of the decisions, in order.\<close>

definition decision_names :: "'b select_world \<Rightarrow> string \<Rightarrow> 'b board \<Rightarrow> string list res" where
  "decision_names w state_dir s = rbind (plain_files w (state_dir @ ''/decisions'') s) (\<lambda>names. Inr (sort_strs (filter (\<lambda>n. endswith n ''.json'' \<and> n \<noteq> ''.json'') names)))"

definition json_file :: "'b bw \<Rightarrow> string \<Rightarrow> 'b board \<Rightarrow> json res" where
  "json_file w path s = rbind (read_text w path s) (\<lambda>t. case loads t of None \<Rightarrow> Inl (ValueErr ''json'') | Some v \<Rightarrow> Inr v)"

definition joined :: "json \<Rightarrow> json \<Rightarrow> json \<Rightarrow> json res" where
  "joined rec outcome detail = rbind (set_item rec ''outcome'' outcome) (\<lambda>r. set_item r ''outcome_detail'' detail)"

definition recent_record :: "'b bw \<Rightarrow> string \<Rightarrow> string \<Rightarrow> 'b board \<Rightarrow> json res" where
  "recent_record w state_dir name s = rbind (json_file w (state_dir @ ''/decisions/'' @ name) s) (\<lambda>rec.
     let path = state_dir @ ''/outcomes/'' @ name in
     if path_exists s path then rbind (json_file w path s) (\<lambda>side. rbind (item_of side ''outcome'') (\<lambda>oc. joined rec oc (dget_or (dict_of side) ''detail'' (JObj []))))
     else joined rec (JStr ''in_flight'') (JObj []))"

definition load_recent :: "'b select_world \<Rightarrow> string \<Rightarrow> nat \<Rightarrow> 'b board \<Rightarrow> json list res" where
  "load_recent w state_dir n s = rbind (decision_names w state_dir s) (\<lambda>names. rmap (\<lambda>name. recent_record (shell w) state_dir name s) (take n (rev names)))"

text \<open>\<^verbatim>\<open>Path.rename\<close>\<close>

definition rename :: "'b bw \<Rightarrow> string \<Rightarrow> string \<Rightarrow> ('b board, unit) op" where
  "rename w source target = bind_op (reads (read_text w source)) (\<lambda>t. then_op (write_text w target t) (unlink w False source))"

fun archive_decisions :: "'b bw \<Rightarrow> string \<Rightarrow> string list \<Rightarrow> ('b board, unit) op" where
  "archive_decisions w state_dir [] = ret ()"
| "archive_decisions w state_dir (n # ns) = then_op (rename w (state_dir @ ''/decisions/'' @ n) (state_dir @ ''/decisions/archive/'' @ n))
     (then_op (\<lambda>s. if path_exists s (state_dir @ ''/outcomes/'' @ n) then rename w (state_dir @ ''/outcomes/'' @ n) (state_dir @ ''/outcomes/archive/'' @ n) s else (Inr (), s))
       (archive_decisions w state_dir ns))"

definition rotate_if_needed :: "'b select_world \<Rightarrow> string \<Rightarrow> nat \<Rightarrow> ('b board, unit) op" where
  "rotate_if_needed w state_dir cap = bind_op (reads (decision_names w state_dir)) (\<lambda>names. archive_decisions (shell w) state_dir (take (length names - cap) names))"

definition HOT_CAP :: nat where "HOT_CAP = 50"

definition file_decision :: "'b select_world \<Rightarrow> string \<Rightarrow> decision \<Rightarrow> ('b board, decision) op" where
  "file_decision w state_dir d = then_op (persist (shell w) state_dir d) (then_op (rotate_if_needed w state_dir HOT_CAP) (ret d))"

definition no_pick :: "'b select_world \<Rightarrow> string \<Rightarrow> string \<Rightarrow> string \<Rightarrow> (string \<times> string) list \<Rightarrow> json list \<Rightarrow> decision" where
  "no_pick w tick_id model why blocked flight = \<lparr>tick_of = tick_id, stamp = iso_now w, model_of = model, prompt_sha = [], considered = [], picked = None,
     rationale = why, blocked_reasons = blocked, flying = flight\<rparr>"

definition record_no_candidates :: "'b select_world \<Rightarrow> selection_config \<Rightarrow> string \<Rightarrow> string \<Rightarrow> selection_context \<Rightarrow> (string \<times> string) list \<Rightarrow> ('b board, decision) op" where
  "record_no_candidates w cfg state_dir tick_id ctx blocked = file_decision w state_dir (no_pick w tick_id (sel_model cfg) ''no_eligible_candidates'' blocked (in_flight ctx))"

definition record_tracker_error :: "'b select_world \<Rightarrow> string \<Rightarrow> string \<Rightarrow> string \<Rightarrow> ('b board, decision) op" where
  "record_tracker_error w state_dir tick_id code = file_decision w state_dir (no_pick w tick_id [] (''tracker_error: '' @ code) [] [])"

section \<open>The context of a tick\<close>

definition build_context :: "'b select_world \<Rightarrow> string \<Rightarrow> string \<Rightarrow> string list \<Rightarrow> string \<Rightarrow> nat \<Rightarrow> json \<Rightarrow> ('b board, selection_context) op" where
  "build_context w state_dir markdown ids slug recent snapshot =
     bind_op (if snapshot = JNull then fetch_kanban_snapshot (shell w) slug else ret snapshot) (\<lambda>snap.
     bind_op (build_in_flight (shell w) (Some slug) snap) (\<lambda>flight.
     bind_op (reads (load_recent w state_dir recent)) (\<lambda>decisions.
     ret \<lparr>selection_markdown = markdown, candidate_ids = ids, in_flight = flight, recent_decisions = decisions,
       kanban_snapshot = (if snap = JNull then NO_SNAPSHOT else snap), project_slug = slug\<rparr>)))"

section \<open>The prompt\<close>

definition FENCES :: "string list" where "FENCES = [''candidate_todos'', ''todos_md_content'', ''recent_decisions'', ''in_flight'', ''kanban_snapshot'']"

text \<open>\<^verbatim>\<open><(/\s*(?:...)\s*>)\<close> without regard to case\<close>

definition CLOSING_TAG :: rx where
  "CLOSING_TAG = cat [lit ''<'', lit ''/'', Run 0 None is_space, alts (map ci FENCES), Run 0 None is_space, lit ''>'']"

text \<open>Every closing tag of a fence gets the zero-width space behind its angle.\<close>

function fence_from :: "char \<Rightarrow> string \<Rightarrow> string \<Rightarrow> string" where
  "fence_from z b s = (case s of [] \<Rightarrow> []
     | c # cs \<Rightarrow> (case ends CLOSING_TAG (b, s) of
           p # _ \<Rightarrow> if length (snd p) < length s then [c, z] @ take (length cs - length (snd p)) cs @ fence_from z (fst p) (snd p) else c # fence_from z (c # b) cs
         | [] \<Rightarrow> c # fence_from z (c # b) cs))"
  by pat_completeness auto
termination
  by (relation "measure (\<lambda>(z, b, s). length s)") auto

declare fence_from.simps [simp del]

definition fence_safe :: "char \<Rightarrow> string \<Rightarrow> string" where "fence_safe z s = fence_from z [] s"

definition build_prompt :: "char \<Rightarrow> string \<Rightarrow> selection_context \<Rightarrow> string" where
  "build_prompt z body ctx = join [newline]
     [body, [], ''<candidate_todos>'', fence_safe z (selection_markdown ctx), ''</candidate_todos>'', [],
      ''<recent_decisions>'', fence_safe z (dumps_indent default_style 0 (sort_keys (JList (recent_decisions ctx)))), ''</recent_decisions>'', [],
      ''<in_flight>'', fence_safe z (dumps default_style (JList (in_flight ctx))), ''</in_flight>'', [],
      ''<kanban_snapshot>'', fence_safe z (dumps_indent default_style 0 (sort_keys (kanban_snapshot ctx))), ''</kanban_snapshot>'', [],
      ''project_slug: '' @ project_slug ctx]"

section \<open>The query\<close>

definition HERMES_RETRY_ATTEMPTS :: nat where "HERMES_RETRY_ATTEMPTS = 2"

text \<open>A spawn that fails is tried again; a timeout or a missing program is not.\<close>

fun attempts :: "nat \<Rightarrow> 'b bw \<Rightarrow> string list \<Rightarrow> ('b board, int \<times> string) op" where
  "attempts 0 w args = hermes w args"
| "attempts (Suc n) w args = catch_op (hermes w args) (\<lambda>e. if is_os_error e \<and> e \<noteq> FileNotFound then attempts n w args else raise e)"

definition chat_command :: "string \<Rightarrow> string \<Rightarrow> string list" where
  "chat_command model prompt = [''hermes'', ''chat'', ''-q'', prompt, ''-Q''] @ (if model \<noteq> ''auto'' then [''-m'', model] else []) @ [''-t'', ''none'', ''--source'', ''tool'']"

definition hermes_call :: "'b bw \<Rightarrow> string \<Rightarrow> string \<Rightarrow> ('b board, string) op" where
  "hermes_call w model prompt = bind_op (attempts HERMES_RETRY_ATTEMPTS w (chat_command model prompt)) (\<lambda>r.
     if fst r \<noteq> 0 then raise HermesCallError else ret (strip (snd r)))"

definition claude_call :: "'b bw \<Rightarrow> string \<Rightarrow> string \<Rightarrow> ('b board, string) op" where
  "claude_call w model prompt = bind_op (hermes w ([''claude'', ''-p'', prompt, ''--tools'', [], ''--strict-mcp-config'', ''--mcp-config'', ''{\"mcpServers\":{}}'']
       @ (if model \<noteq> ''auto'' then [''--model'', model] else []))) (\<lambda>r. if fst r \<noteq> 0 then raise ClaudeCallError else ret (strip (snd r)))"

definition api_call :: "'b bw \<Rightarrow> string \<Rightarrow> string \<Rightarrow> string \<Rightarrow> ('b board, string) op" where
  "api_call w backend model prompt = (if backend = ''claude'' then claude_call w model prompt else hermes_call w model prompt)"

definition check_hermes :: "'b bw \<Rightarrow> ('b board, string) op" where
  "check_hermes w = bind_op (catch_op (hermes w [''hermes'', ''--version'']) (\<lambda>e. if e = FileNotFound \<or> e = SubprocessErr then raise HermesDependencyError else raise e))
     (\<lambda>r. if fst r \<noteq> 0 then raise HermesDependencyError else ret (strip (snd r)))"

definition check_claude :: "'b bw \<Rightarrow> ('b board, string) op" where
  "check_claude w = bind_op (catch_op (hermes w [''claude'', ''--version'']) (\<lambda>e. if e = FileNotFound \<or> e = SubprocessErr then raise AgentClientDependencyError else raise e))
     (\<lambda>r. if fst r \<noteq> 0 then raise AgentClientDependencyError else ret (strip (snd r)))"

section \<open>The reply\<close>

record reply =
  r_considered :: "json list"
  r_picked :: json
  r_rationale :: string
  r_blocked :: "(json \<times> json) list"

text \<open>\<^verbatim>\<open>dict(v)\<close>: an object, or pairs.\<close>

definition pair_of :: "json \<Rightarrow> (json \<times> json) res" where
  "pair_of v = rbind (elements v) (\<lambda>xs. case xs of [k, x] \<Rightarrow> if hashable k then Inr (k, x) else Inl TypeErr | _ \<Rightarrow> Inl (ValueErr ''pair''))"

definition pairs_of :: "json \<Rightarrow> (json \<times> json) list res" where
  "pairs_of v = (if is_dict v then Inr (map (\<lambda>(k, x). (JStr k, x)) (dict_of v)) else rbind (elements v) (rmap pair_of))"

definition format_result :: "dict \<Rightarrow> reply res" where
  "format_result d = (let p = dget d ''picked''; p' = (if is_str p \<and> lower (strip (str_of p)) = ''null'' then JNull else p) in
     rbind (elements (dget_or d ''candidates_considered'' (JList []))) (\<lambda>cs.
     rbind (pairs_of (dget_or d ''blocked_reasons'' (JObj []))) (\<lambda>bs.
     rbind (elements (dget_or d ''in_flight'' (JList []))) (\<lambda>_.
     Inr \<lparr>r_considered = cs, r_picked = p', r_rationale = py_str (dget_or d ''rationale'' (JStr [])), r_blocked = bs\<rparr>))))"

definition PARSE_ERROR :: reply where
  "PARSE_ERROR = \<lparr>r_considered = [], r_picked = JNull, r_rationale = ''parse_error: invalid_response'', r_blocked = []\<rparr>"

text \<open>An attempt whose errors of these kinds mean: go on.\<close>

definition attempt_object :: "string \<Rightarrow> reply option res" where
  "attempt_object t = (case loads t of Some v \<Rightarrow> if is_dict v then (case format_result (dict_of v) of Inr r \<Rightarrow> Inr (Some r)
       | Inl e \<Rightarrow> if e = TypeErr \<or> is_value_error e then Inr None else Inl e) else Inr None | None \<Rightarrow> Inr None)"

text \<open>The text before the first occurrence of a text, and the text behind it.\<close>

fun cut_at :: "string \<Rightarrow> string \<Rightarrow> (string \<times> string) option" where
  "cut_at p [] = (if p = [] then Some ([], []) else None)"
| "cut_at p (c # cs) = (if startswith (c # cs) p then Some ([], drop (length p) (c # cs))
     else case cut_at p cs of None \<Rightarrow> None | Some (a, b) \<Rightarrow> Some (c # a, b))"

definition lstrip :: "string \<Rightarrow> string" where "lstrip s = dropWhile is_space s"

definition after_marker :: "string \<Rightarrow> string" where
  "after_marker inner = (let t = lstrip inner in
     if \<not> startswith (lower t) ''json'' then inner
     else case cut_at [newline] t of Some (_, rest) \<Rightarrow> rest | None \<Rightarrow> lstrip (drop 4 t))"

text \<open>The first fenced block; a third part behind it is cut off, and no fence is left inside.\<close>

definition fenced :: "string \<Rightarrow> string option" where
  "fenced body = (case cut_at ''```'' body of None \<Rightarrow> None
     | Some (_, t) \<Rightarrow> Some (after_marker (case cut_at ''```'' t of None \<Rightarrow> t | Some (inner, _) \<Rightarrow> inner)))"

text \<open>The first object of the text that nothing follows.\<close>

fun trailing_object :: "string \<Rightarrow> dict option" where
  "trailing_object [] = None"
| "trailing_object (c # cs) = (case (if c = CHR ''{'' then parse_value (c # cs) else None) of
       Some (JObj d, rest) \<Rightarrow> if strip rest = [] then Some d else trailing_object cs
     | _ \<Rightarrow> trailing_object cs)"

definition final_attempt :: "string \<Rightarrow> reply res" where
  "final_attempt t = rbind (attempt_object t) (\<lambda>r. Inr (case r of None \<Rightarrow> PARSE_ERROR | Some x \<Rightarrow> x))"

definition parse_reply :: "string \<Rightarrow> reply res" where
  "parse_reply raw = (let body = strip raw in rbind (attempt_object body) (\<lambda>r. case r of Some x \<Rightarrow> Inr x
     | None \<Rightarrow> (case fenced body of Some inner \<Rightarrow> final_attempt inner
         | None \<Rightarrow> (case trailing_object body of Some d \<Rightarrow> format_result d | None \<Rightarrow> final_attempt body))))"

section \<open>One selection\<close>

definition call_agent :: "'b select_world \<Rightarrow> selection_config \<Rightarrow> selection_context \<Rightarrow> ('b board, reply \<times> string) op" where
  "call_agent w cfg ctx = bind_op (reads (read_text (shell w) (prompt_path cfg))) (\<lambda>body.
     let actual = hex_digest w body in
     if expected_prompt_sha cfg \<noteq> None \<and> expected_prompt_sha cfg \<noteq> Some actual then raise (PromptShaMismatch (the (expected_prompt_sha cfg)) actual)
     else bind_op (api_call (shell w) ''hermes'' (sel_model cfg) (build_prompt (zero_width w) body ctx)) (\<lambda>raw.
       bind_op (lift_res (parse_reply raw)) (\<lambda>r. ret (r, actual))))"

definition api_error_code :: "exn \<Rightarrow> string" where
  "api_error_code e = (if e = HermesCallError then ''hermes_error'' else if e = ClaudeCallError then ''claude_error''
     else if e \<in> {HermesDependencyError, AgentClientDependencyError, FileNotFound} then ''dependency_error''
     else if e = SubprocessErr then ''timeout'' else if is_os_error e then ''transport_error'' else ''unexpected_error'')"

definition empty_reply :: "string \<Rightarrow> reply" where
  "empty_reply why = \<lparr>r_considered = [], r_picked = JNull, r_rationale = why, r_blocked = []\<rparr>"

definition mismatch_text :: "string \<Rightarrow> string \<Rightarrow> string \<Rightarrow> string" where
  "mismatch_text tick_id expected actual = ''[pipeline-tick '' @ tick_id @ ''] PROMPT SHA MISMATCH: expected='' @ take 12 expected @ '' actual='' @ take 12 actual
     @ ''. Selection skipped (NOT counted as no-progress). Check TPO selection prompt for drift.''"

definition sha_or_empty :: "'b select_world \<Rightarrow> selection_config \<Rightarrow> 'b board \<Rightarrow> string res" where
  "sha_or_empty w cfg s = (case read_text (shell w) (prompt_path cfg) s of Inr body \<Rightarrow> Inr (hex_digest w body) | Inl e \<Rightarrow> if is_os_error e then Inr [] else Inl e)"

definition failed_call :: "'b select_world \<Rightarrow> selection_config \<Rightarrow> string \<Rightarrow> exn \<Rightarrow> ('b board, reply \<times> string) op" where
  "failed_call w cfg tick_id e = (case e of
       PromptShaMismatch expected actual \<Rightarrow> then_op (notify (shell w) (alert_channel cfg) (mismatch_text tick_id expected actual))
         (ret (empty_reply (''prompt_sha_mismatch: expected='' @ take 12 expected @ '' actual='' @ take 12 actual), actual))
     | KeyErr _ \<Rightarrow> ret (empty_reply ''config_error: missing_setting'', [])
     | _ \<Rightarrow> bind_op (reads (sha_or_empty w cfg)) (\<lambda>sha. ret (empty_reply (''api_error: '' @ api_error_code e), sha)))"

text \<open>\<^verbatim>\<open>^TODO-\d+$\<close>; \<^verbatim>\<open>\d\<close> below code point 256 is a digit.\<close>

definition todo_shape :: "string \<Rightarrow> bool" where
  "todo_shape s = dollar (\<lambda>t. startswith t ''TODO-'' \<and> drop 5 t \<noteq> [] \<and> list_all is_digit (drop 5 t)) s"

definition repr_strs :: "string list \<Rightarrow> string" where "repr_strs xs = py_repr (JList (map JStr (sort_strs (remdups xs))))"

text \<open>Why a pick is not believed.\<close>

definition pick_refusal :: "string list \<Rightarrow> string list \<Rightarrow> json list \<Rightarrow> json \<Rightarrow> string option" where
  "pick_refusal known allowed flight p = (
     if \<not> is_str p \<or> \<not> todo_shape (str_of p) then Some (''invalid_pick_shape: picked='' @ py_repr p)
     else if str_of p \<notin> set known then Some (''pick_not_known: picked='' @ py_repr p @ '' known='' @ repr_strs known)
     else if str_of p \<notin> set allowed then Some (''pick_not_eligible: picked='' @ py_repr p @ '' eligible='' @ repr_strs allowed)
     else if list_ex (py_eq p) flight then Some (''pick_already_in_flight: picked='' @ py_repr p)
     else None)"

definition trim_tail :: "string \<Rightarrow> string" where "trim_tail = rstrip_while (\<lambda>c. c = CHR '' '' \<or> c = CHR ''|'')"

definition believed_pick :: "string list \<Rightarrow> string list \<Rightarrow> json list \<Rightarrow> reply \<Rightarrow> string option \<times> string" where
  "believed_pick known allowed flight r = (if r_picked r = JNull then (None, r_rationale r)
     else case pick_refusal known allowed flight (r_picked r) of None \<Rightarrow> (Some (str_of (r_picked r)), r_rationale r)
       | Some why \<Rightarrow> (None, trim_tail (why @ '' | '' @ r_rationale r)))"

text \<open>Reasons for candidates only, and only texts; of equal keys the last value counts.\<close>

definition believed_reasons :: "string list \<Rightarrow> (json \<times> json) list \<Rightarrow> (string \<times> string) list" where
  "believed_reasons allowed bs = (let d = fold (\<lambda>(k, v) acc. if is_str k then dput (str_of k) v acc else acc) bs [] in
     map (\<lambda>(k, v). (k, str_of v)) (filter (\<lambda>(k, v). k \<in> set allowed \<and> is_str v) d))"

definition decide :: "'b select_world \<Rightarrow> selection_config \<Rightarrow> string \<Rightarrow> selection_context \<Rightarrow> string list option \<Rightarrow> reply \<Rightarrow> string \<Rightarrow> decision" where
  "decide w cfg tick_id ctx eligible r sha = (let known = candidate_ids ctx; allowed = (case eligible of None \<Rightarrow> known | Some xs \<Rightarrow> xs);
       (p, why) = believed_pick known allowed (in_flight ctx) r in
     \<lparr>tick_of = tick_id, stamp = iso_now w, model_of = sel_model cfg, prompt_sha = sha,
      considered = (if eligible = None then r_considered r else map JStr (filter (\<lambda>t. t \<in> set allowed) known)),
      picked = p, rationale = why, blocked_reasons = believed_reasons allowed (r_blocked r), flying = in_flight ctx\<rparr>)"

definition run_selection :: "'b select_world \<Rightarrow> selection_config \<Rightarrow> string \<Rightarrow> string \<Rightarrow> selection_context \<Rightarrow> string list option \<Rightarrow> ('b board, decision) op" where
  "run_selection w cfg state_dir tick_id ctx eligible = bind_op (catch_op (call_agent w cfg ctx) (failed_call w cfg tick_id)) (\<lambda>(r, sha).
     file_decision w state_dir (decide w cfg tick_id ctx eligible r sha))"

end
