(* ===== verification/SelectionSafety.thy ===== *)
theory SelectionSafety
  imports Selection RegistrationHistory
begin

text \<open>
  Properties of \<^theory_text>\<open>Selection\<close>: no untrusted text can close a fence of the prompt, and of the model's reply only
  an eligible candidate is ever believed.
\<close>

section \<open>Patterns that only consume\<close>

primrec consumes :: "(char \<Rightarrow> bool) \<Rightarrow> rx \<Rightarrow> bool" where
  "consumes P Eps = True"
| "consumes P (Cls f) = (\<forall>c. f c \<longrightarrow> P c)"
| "consumes P (Run lo hi f) = (\<forall>c. f c \<longrightarrow> P c)"
| "consumes P (LazyRun f) = False"
| "consumes P (Cat r s) = (consumes P r \<and> consumes P s)"
| "consumes P (Or r s) = (consumes P r \<and> consumes P s)"
| "consumes P (Ahead r) = False"
| "consumes P (Behind t) = False"
| "consumes P WordEdge = False"
| "consumes P LineStart = False"
| "consumes P LineEnd = False"
| "consumes P TextEnd = False"

definition matched :: "rx \<Rightarrow> string \<Rightarrow> bool" where
  "matched r u \<longleftrightarrow> (\<forall>b t. (rev u @ b, t) \<in> set (ends r (b, u @ t)))"

lemma matched_cat: "matched r u \<Longrightarrow> matched s v \<Longrightarrow> matched (Cat r s) (u @ v)"
  unfolding matched_def by simp (metis append_assoc)

lemma run_within: "k \<le> run_length hi f s \<Longrightarrow> k \<le> length (takeWhile f s)"
  by (auto simp: run_length_def Let_def split: option.splits)

lemma run_prefix:
  assumes k: "k \<le> run_length hi f s"
  shows "list_all f (take k s) \<and> k \<le> run_length hi f (take k s @ t)"
proof -
  note le = run_within [OF k]
  then have all: "list_all f (take k s)"
    by (metis list_all_iff set_take_subset set_takeWhileD subsetD takeWhile_eq_take take_take min.absorb1)
  have "length (take k s) = k" using order.trans [OF le length_takeWhile_le] by simp
  moreover have "takeWhile f (take k s @ t) = take k s @ takeWhile f t" using all by (simp add: list_all_iff)
  ultimately show ?thesis using k all by (auto simp: run_length_def Let_def split: option.splits)
qed

text \<open>Such a pattern takes a prefix of the text, which it takes in any surroundings.\<close>

lemma ends_consume:
  "consumes P r \<Longrightarrow> (a, t) \<in> set (ends r (b, s)) \<Longrightarrow> \<exists>u. s = u @ t \<and> a = rev u @ b \<and> list_all P u \<and> matched r u"
proof (induction r arbitrary: a t b s)
  case Eps
  then show ?case by (intro exI [of _ "[]"]) (simp add: matched_def)
next
  case (Cls f)
  then show ?case by (intro exI [of _ "[hd s]"]) (auto simp: matched_def split: list.splits if_splits)
next
  case (Run lo hi f)
  then obtain k where k: "lo \<le> k" "k \<le> run_length hi f s" "(a, t) = advance k (b, s)" by auto
  have m: "matched (Run lo hi f) (take k s)" unfolding matched_def
  proof (intro allI)
    fix b' t'
    have l: "length (take k s) = k" using order.trans [OF run_within [OF k(2)] length_takeWhile_le] by simp
    have "advance k (b', take k s @ t') = (rev (take k s) @ b', t')" using l by (simp add: advance_def)
    moreover have "k \<le> run_length hi f (take k s @ t')" using run_prefix [OF k(2)] by blast
    ultimately have "(rev (take k s) @ b', t') = advance k (b', take k s @ t')" "k \<in> {lo ..< Suc (run_length hi f (take k s @ t'))}" using k(1) by simp_all
    then show "(rev (take k s) @ b', t') \<in> set (ends (Run lo hi f) (b', take k s @ t'))"
      unfolding ends.simps set_map set_rev set_upt snd_conv by blast
  qed
  have "list_all P (take k s)" using run_prefix [OF k(2), of "[]"] Run.prems(1) by (auto simp: list_all_iff)
  with k m show ?case by (intro exI [of _ "take k s"]) (simp add: advance_def)
next
  case (Cat r1 r2)
  then obtain a1 t1 where 1: "(a1, t1) \<in> set (ends r1 (b, s))" "(a, t) \<in> set (ends r2 (a1, t1))" by auto
  obtain u where u: "s = u @ t1" "a1 = rev u @ b" "list_all P u" "matched r1 u" using Cat.IH(1) [OF _ 1(1)] Cat.prems by auto
  obtain v where v: "t1 = v @ t" "a = rev v @ a1" "list_all P v" "matched r2 v" using Cat.IH(2) [OF _ 1(2)] Cat.prems by auto
  show ?case using u v by (intro exI [of _ "u @ v"]) (simp add: matched_cat)
next
  case (Or r1 r2)
  then consider "(a, t) \<in> set (ends r1 (b, s))" | "(a, t) \<in> set (ends r2 (b, s))" by auto
  then show ?case
  proof cases
    case 1
    then show ?thesis using Or.IH(1) [OF _ 1] Or.prems(1) unfolding matched_def by fastforce
  next
    case 2
    then show ?thesis using Or.IH(2) [OF _ 2] Or.prems(1) unfolding matched_def by fastforce
  qed
qed simp_all

section \<open>Fences\<close>

abbreviation angle :: char where "angle \<equiv> CHR ''<''"

definition TAG_REST :: rx where "TAG_REST = cat [Run 0 None is_space, alts (map ci FENCES), Run 0 None is_space, lit ''>'']"

definition closing_here :: "string \<Rightarrow> bool" where "closing_here s \<longleftrightarrow> (\<exists>u t. s = angle # CHR ''/'' # u @ t \<and> angle \<notin> set u \<and> matched TAG_REST u)"

lemma consumes_ci: "angle \<notin> set w \<Longrightarrow> consumes (\<lambda>c. c \<noteq> angle) (ci w)"
proof (induction w)
  case (Cons c w)
  have one: "consumes (\<lambda>c. c \<noteq> angle) (Cls (\<lambda>d. to_lower d = c))" using Cons.prems by (auto simp: to_lower_def uppers_def)
  then show ?case using Cons by (cases w) (simp_all add: ci_def)
qed (simp add: ci_def)

lemma tag_rest_consumes: "consumes (\<lambda>c. c \<noteq> angle) TAG_REST"
proof -
  have "consumes (\<lambda>c. c \<noteq> angle) (ci w)" if "w \<in> set FENCES" for w
    using that by (intro consumes_ci) (auto simp: FENCES_def)
  moreover have "\<not> is_space angle" by (simp add: is_space_def)
  ultimately show ?thesis by (auto simp: TAG_REST_def FENCES_def lit_def)
qed

lemma ends_closing:
  "ends CLOSING_TAG (b, s) = (case s of c # d # t \<Rightarrow> if c = angle \<and> d = CHR ''/'' then ends TAG_REST (d # c # b, t) else [] | _ \<Rightarrow> [])"
  by (cases s; cases "tl s") (auto simp: CLOSING_TAG_def TAG_REST_def lit_def FENCES_def)

lemma closing_ends:
  assumes "p \<in> set (ends CLOSING_TAG (b, s))"
  shows "\<exists>u. s = angle # CHR ''/'' # u @ snd p \<and> angle \<notin> set u \<and> matched TAG_REST u"
proof -
  obtain t where t: "s = angle # CHR ''/'' # t" "p \<in> set (ends TAG_REST (CHR ''/'' # angle # b, t))"
    using assms unfolding ends_closing by (auto split: list.splits if_splits)
  then show ?thesis using ends_consume [OF tag_rest_consumes, of "fst p" "snd p" "CHR ''/'' # angle # b" t] by (auto simp: list_all_iff)
qed

lemma closing_iff: "ends CLOSING_TAG (b, s) \<noteq> [] \<longleftrightarrow> closing_here s"
proof
  assume "ends CLOSING_TAG (b, s) \<noteq> []"
  then obtain p where "p \<in> set (ends CLOSING_TAG (b, s))" by (cases "ends CLOSING_TAG (b, s)") auto
  then show "closing_here s" unfolding closing_here_def using closing_ends by fastforce
next
  assume "closing_here s"
  then obtain u t where s: "s = angle # CHR ''/'' # u @ t" and m: "matched TAG_REST u" unfolding closing_here_def by blast
  have "(rev u @ CHR ''/'' # angle # b, t) \<in> set (ends TAG_REST (CHR ''/'' # angle # b, u @ t))" using m unfolding matched_def by blast
  then show "ends CLOSING_TAG (b, s) \<noteq> []" unfolding ends_closing s by fastforce
qed

text \<open>One step of the replacement.\<close>

lemma fence_cases:
  obtains (none) "s = []" "fence_from z b s = []"
  | (keep) c cs where "s = c # cs" "\<not> closing_here s" "fence_from z b s = c # fence_from z (c # b) cs"
  | (tag) u t b' where "s = angle # CHR ''/'' # u @ t" "angle \<notin> set u" "fence_from z b s = angle # z # CHR ''/'' # u @ fence_from z b' t" "length t < length s"
proof (cases s)
  case Nil
  show thesis by (rule none [OF Nil], unfold Nil, subst fence_from.simps) simp
next
  case (Cons c cs)
  show thesis
  proof (cases "ends CLOSING_TAG (b, s)")
    case none: Nil
    have "fence_from z b s = c # fence_from z (c # b) cs" using Cons none by (subst fence_from.simps) simp
    then show thesis using keep [OF Cons] closing_iff [of b s] none by blast
  next
    case (Cons p ps)
    then have "p \<in> set (ends CLOSING_TAG (b, s))" by simp
    then obtain u where u: "s = angle # CHR ''/'' # u @ snd p" "angle \<notin> set u" using closing_ends by blast
    have f: "fence_from z b s = angle # z # CHR ''/'' # u @ fence_from z (fst p) (snd p)"
      using Cons u(1) by (subst fence_from.simps) (simp only: list.case, simp)
    show thesis by (rule tag [OF u f]) (simp add: u(1))
  qed
qed

lemma fence_until_angle: "takeWhile (\<lambda>c. c \<noteq> angle) (fence_from z b s) = takeWhile (\<lambda>c. c \<noteq> angle) s"
proof (induction "length s" arbitrary: b s rule: less_induct)
  case less
  show ?case
  proof (cases rule: fence_cases [of s z b])
    case (keep c cs)
    then show ?thesis using less [of cs "c # b"] by simp
  qed simp_all
qed

lemma closing_upto:
  assumes "closing_here (c # out)" and "takeWhile (\<lambda>c. c \<noteq> angle) out = takeWhile (\<lambda>c. c \<noteq> angle) cs"
  shows "closing_here (c # cs)"
proof -
  obtain u t where u: "c # out = angle # CHR ''/'' # u @ t" "angle \<notin> set u" "matched TAG_REST u" using assms(1) unfolding closing_here_def by blast
  have "takeWhile (\<lambda>c. c \<noteq> angle) out = CHR ''/'' # u @ takeWhile (\<lambda>c. c \<noteq> angle) t" using u by (auto simp: takeWhile_append)
  then have "cs = CHR ''/'' # u @ takeWhile (\<lambda>c. c \<noteq> angle) t @ dropWhile (\<lambda>c. c \<noteq> angle) cs"
    using assms(2) takeWhile_dropWhile_id [of "\<lambda>c. c \<noteq> angle" cs] by simp
  then show ?thesis using u unfolding closing_here_def by blast
qed

lemma no_closing_after:
  assumes "z \<noteq> angle" "z \<noteq> CHR ''/''" and "fence_from z b s = pre @ suf"
  shows "\<not> closing_here suf"
  using assms(3)
proof (induction "length s" arbitrary: b s pre rule: less_induct)
  case less
  show ?case
  proof (cases rule: fence_cases [of s z b])
    case none
    then show ?thesis using less.prems by (simp add: closing_here_def)
  next
    case (keep c cs)
    show ?thesis
    proof (cases pre)
      case Nil
      then have "suf = c # fence_from z (c # b) cs" using keep less.prems by simp
      then show ?thesis using keep(1,2) closing_upto [of c "fence_from z (c # b) cs" cs] fence_until_angle [of z "c # b" cs] by blast
    next
      case (Cons d pre')
      then have "fence_from z (c # b) cs = pre' @ suf" using keep(3) less.prems by (simp only: append_Cons list.inject)
      then show ?thesis by (rule less.hyps [rotated]) (simp add: keep(1))
    qed
  next
    case (tag u t b')
    show ?thesis
    proof (cases "length (angle # z # CHR ''/'' # u) \<le> length pre")
      case True
      let ?n = "length (angle # z # CHR ''/'' # u)"
      have "drop ?n (pre @ suf) = drop ?n ((angle # z # CHR ''/'' # u) @ fence_from z b' t)" using tag(3) less.prems by simp
      then have "fence_from z b' t = drop ?n pre @ suf" using True by (simp only: drop_append) simp
      then show ?thesis using less.hyps tag(4) by blast
    next
      case False
      let ?h = "angle # z # CHR ''/'' # u"
      have e: "?h @ fence_from z b' t = pre @ suf" using tag(3) less.prems by simp
      then obtain v where v: "?h = pre @ v" "suf = v @ fence_from z b' t"
        unfolding append_eq_append_conv2 using False by fastforce
      then have "v \<noteq> []" using False by fastforce
      note v = v(1) this v(2)
      show ?thesis
      proof (cases pre)
        case Nil
        then show ?thesis using v assms(2) by (auto simp: closing_here_def)
      next
        case (Cons d pre')
        then have "hd v \<in> set (z # CHR ''/'' # u)" using v by (cases v) auto
        then have "hd v \<noteq> angle" using assms(1) tag(2) by auto
        then show ?thesis using v by (cases v) (auto simp: closing_here_def)
      qed
    qed
  qed
qed

lemma search_closing: "search_from CLOSING_TAG b s \<Longrightarrow> \<exists>pre suf. s = pre @ suf \<and> closing_here suf"
proof (induction s arbitrary: b)
  case Nil
  then show ?case using closing_iff [of b "[]"] by auto
next
  case (Cons c cs)
  then have "ends CLOSING_TAG (b, c # cs) \<noteq> [] \<or> search_from CLOSING_TAG (c # b) cs" by (simp only: search_from.simps)
  then consider "closing_here (c # cs)" | "search_from CLOSING_TAG (c # b) cs" unfolding closing_iff by blast
  then show ?case
  proof cases
    case 1
    then show ?thesis by (metis append_Nil)
  next
    case 2
    then obtain pre suf where "cs = pre @ suf" "closing_here suf" using Cons.IH by blast
    then show ?thesis by (metis append_Cons)
  qed
qed

lemma fence_keeps_text: "filter (\<lambda>c. c \<noteq> z) (fence_from z b s) = filter (\<lambda>c. c \<noteq> z) s"
proof (induction "length s" arbitrary: b s rule: less_induct)
  case less
  show ?case
  proof (cases rule: fence_cases [of s z b])
    case (keep c cs)
    then have "filter (\<lambda>c. c \<noteq> z) (fence_from z (c # b) cs) = filter (\<lambda>c. c \<noteq> z) cs" using less [of cs "c # b"] by simp
    then show ?thesis unfolding keep(1) keep(3) [unfolded keep(1)] by (simp only: filter.simps)
  next
    case (tag u t b')
    then show ?thesis using less [of t b'] by simp
  qed simp
qed

section \<open>Closing tags, written out\<close>

text \<open>The closing tag of a fence in any case and spacing, and text in which one of them stands.\<close>

definition closing_tag :: "string \<Rightarrow> string \<Rightarrow> bool" where
  "closing_tag name tag \<longleftrightarrow> (\<exists>before w after. tag = ''</'' @ before @ w @ after @ ''>'' \<and> list_all is_space before \<and> map to_lower w = name \<and> list_all is_space after)"

definition closed_in :: "string list \<Rightarrow> string \<Rightarrow> bool" where
  "closed_in names t \<longleftrightarrow> (\<exists>pre tag suf. t = pre @ tag @ suf \<and> list_ex (\<lambda>n. closing_tag n tag) names)"

lemma matched_one: "f c \<Longrightarrow> matched (Cls f) [c]"
  by (simp add: matched_def)

lemma matched_cats: "list_all2 matched rs us \<Longrightarrow> matched (cat rs) (concat us)"
proof (induction rs arbitrary: us rule: cat.induct)
  case (3 r r' rs)
  then obtain u us' where "us = u # us'" "matched r u" "list_all2 matched (r' # rs) us'" by (auto simp: list_all2_Cons1)
  with 3(1) matched_cat show ?case by (metis cat.simps(3) concat.simps(2))
qed (auto simp: list_all2_Cons1 matched_def)

lemma matched_alts: "r \<in> set rs \<Longrightarrow> matched r u \<Longrightarrow> matched (alts rs) u"
  by (induction rs rule: alts.induct) (auto simp: matched_def)

lemma matched_ci: "map to_lower w = n \<Longrightarrow> matched (ci n) w"
proof -
  assume n: "map to_lower w = n"
  have "list_all2 matched (map (\<lambda>c. Cls (\<lambda>d. to_lower d = c)) n) (map (\<lambda>c. [c]) w)"
    unfolding n [symmetric] by (induction w) (simp_all add: matched_one)
  from matched_cats [OF this] show ?thesis unfolding ci_def by (simp add: concat_map_singleton)
qed

lemma matched_run: "list_all f u \<Longrightarrow> matched (Run 0 None f) u"
  unfolding matched_def
proof (intro allI)
  fix b t assume "list_all f u"
  then have "length u \<le> run_length None f (u @ t)" by (induction u) (simp_all add: run_length_def)
  moreover have "advance (length u) (b, u @ t) = (rev u @ b, t)" by (simp add: advance_def)
  ultimately show "(rev u @ b, t) \<in> set (ends (Run 0 None f) (b, u @ t))"
    unfolding ends.simps set_map set_rev set_upt snd_conv by (intro image_eqI [of _ _ "length u"]) simp_all
qed

lemma closing_tag_here:
  assumes "n \<in> set FENCES" and "closing_tag n tag"
  shows "closing_here (tag @ suf)"
proof -
  from assms(2) obtain x w y where t: "tag = ''</'' @ x @ w @ y @ ''>''" and sp: "list_all is_space x" "list_all is_space y" and w: "map to_lower w = n"
    unfolding closing_tag_def by blast
  have "matched (lit ''>'') ''>''" using matched_one [of "\<lambda>d. d = CHR ''>''"] by (simp add: lit_def)
  moreover have "matched (alts (map ci FENCES)) w" using assms(1) matched_alts [OF _ matched_ci [OF w]] by auto
  ultimately have m: "matched TAG_REST (x @ w @ y @ ''>'')"
    unfolding TAG_REST_def using matched_cats [of "[Run 0 None is_space, alts (map ci FENCES), Run 0 None is_space, lit ''>'']" "[x, w, y, ''>'']"]
      matched_run [OF sp(1)] matched_run [OF sp(2)] by simp
  have "\<not> is_space angle" by (simp add: is_space_def)
  then have "angle \<notin> set x" "angle \<notin> set y" using sp by (auto simp: list_all_iff)
  moreover have "angle \<notin> set n" using assms(1) by (auto simp: FENCES_def)
  then have "angle \<notin> set w" using w by (auto simp: to_lower_def uppers_def)
  ultimately have "angle \<notin> set (x @ w @ y @ ''>'')" by simp
  then show ?thesis unfolding closing_here_def using m by (intro exI [of _ "x @ w @ y @ ''>''"] exI [of _ suf]) (simp add: t)
qed

lemma fenced_open:
  assumes "z \<noteq> angle" and "z \<noteq> CHR ''/''"
  shows "\<not> closed_in [''candidate_todos'', ''recent_decisions'', ''in_flight'', ''kanban_snapshot'', ''todos_md_content''] (fence_safe z s)"
proof
  assume "closed_in [''candidate_todos'', ''recent_decisions'', ''in_flight'', ''kanban_snapshot'', ''todos_md_content''] (fence_safe z s)"
  then obtain pre tag suf n where t: "fence_from z [] s = pre @ tag @ suf" and n: "n \<in> set FENCES" "closing_tag n tag"
    unfolding closed_in_def fence_safe_def by (auto simp: FENCES_def)
  from no_closing_after [OF assms t] closing_tag_here [OF n] show False by blast
qed

text \<open>
  C24: fences stay closed.  The selection prompt consists of the operator's text and of four fenced regions, for the candidate
  TODOs, the recent decisions, the TODOs in flight and the snapshot of the board, and whatever text stands there, no
  closing tag of any of these fences (or of the older one) is left in a region, in any case or spacing;
  apart from the inserted character each region is the text it shows.
\<close>

theorem fences_stay_closed:
  assumes "z \<noteq> CHR ''<''" and "z \<noteq> CHR ''/''"
  shows "\<exists>todos decisions flight board. build_prompt z body ctx = join [newline]
      [body, [], ''<candidate_todos>'', todos, ''</candidate_todos>'', [], ''<recent_decisions>'', decisions, ''</recent_decisions>'', [],
       ''<in_flight>'', flight, ''</in_flight>'', [], ''<kanban_snapshot>'', board, ''</kanban_snapshot>'', [], ''project_slug: '' @ project_slug ctx]
    \<and> list_all (\<lambda>t. \<not> closed_in [''candidate_todos'', ''recent_decisions'', ''in_flight'', ''kanban_snapshot'', ''todos_md_content''] t) [todos, decisions, flight, board]
    \<and> filter (\<lambda>c. c \<noteq> z) todos = filter (\<lambda>c. c \<noteq> z) (selection_markdown ctx)
    \<and> filter (\<lambda>c. c \<noteq> z) decisions = filter (\<lambda>c. c \<noteq> z) (dumps_indent default_style 0 (sort_keys (JList (recent_decisions ctx))))
    \<and> filter (\<lambda>c. c \<noteq> z) flight = filter (\<lambda>c. c \<noteq> z) (dumps default_style (JList (in_flight ctx)))
    \<and> filter (\<lambda>c. c \<noteq> z) board = filter (\<lambda>c. c \<noteq> z) (dumps_indent default_style 0 (sort_keys (kanban_snapshot ctx)))"
proof -
  note k = fence_keeps_text [of z "[]", folded fence_safe_def]
  show ?thesis unfolding build_prompt_def
    by (intro exI conjI, rule refl) (simp only: list.pred_inject fenced_open [OF assms] simp_thms, rule k, rule k, rule k, rule k)
qed

definition fence_context :: selection_context where
  "fence_context = \<lparr>selection_markdown = ''x</ in_FLIGHT >y'', candidate_ids = [], in_flight = [], recent_decisions = [], kanban_snapshot = JNull, project_slug = ''s''\<rparr>"

lemma fence_context_closes: "closed_in [''in_flight''] (selection_markdown fence_context)"
proof -
  have w: "map to_lower ''in_FLIGHT'' = ''in_flight''" by code_simp
  have b: "list_all is_space '' ''" by (simp add: is_space_def)
  have "closing_tag ''in_flight'' (''</'' @ '' '' @ ''in_FLIGHT'' @ '' '' @ ''>'')" unfolding closing_tag_def
    by (intro exI conjI, rule refl, rule b, rule w, rule b)
  then have "list_ex (\<lambda>n. closing_tag n (''</'' @ '' '' @ ''in_FLIGHT'' @ '' '' @ ''>'')) [''in_flight'']" unfolding list_ex_iff by (intro bexI [of _ "''in_flight''"]) simp_all
  moreover have "selection_markdown fence_context = ''x'' @ (''</'' @ '' '' @ ''in_FLIGHT'' @ '' '' @ ''>'') @ ''y''" by (simp add: fence_context_def)
  ultimately show ?thesis unfolding closed_in_def by blast
qed

theorem fences_stay_closed_witness:
  "closed_in [''in_flight''] (selection_markdown fence_context)
    \<and> (\<exists>todos rest. build_prompt (CHR 0x07) ''p'' fence_context = ''p'' @ [newline, newline] @ ''<candidate_todos>'' @ [newline] @ todos @ [newline] @ ''</candidate_todos>'' @ rest
         \<and> \<not> closed_in [''candidate_todos'', ''recent_decisions'', ''in_flight'', ''kanban_snapshot'', ''todos_md_content''] todos)"
proof -
  obtain todos decisions flight board where b: "build_prompt (CHR 0x07) ''p'' fence_context = join [newline]
      [''p'', [], ''<candidate_todos>'', todos, ''</candidate_todos>'', [], ''<recent_decisions>'', decisions, ''</recent_decisions>'', [],
       ''<in_flight>'', flight, ''</in_flight>'', [], ''<kanban_snapshot>'', board, ''</kanban_snapshot>'', [], ''project_slug: '' @ project_slug fence_context]"
    and o: "\<not> closed_in [''candidate_todos'', ''recent_decisions'', ''in_flight'', ''kanban_snapshot'', ''todos_md_content''] todos"
    using fences_stay_closed [of "CHR 0x07" "''p''" fence_context] by auto
  have "\<exists>rest. build_prompt (CHR 0x07) ''p'' fence_context = ''p'' @ [newline, newline] @ ''<candidate_todos>'' @ [newline] @ todos @ [newline] @ ''</candidate_todos>'' @ rest"
    unfolding b by (simp add: join_def)
  with o fence_context_closes show ?thesis by blast
qed

section \<open>What is believed\<close>

text \<open>Asking the model changes no file.\<close>

lemma attempts_texts: "txs.obeys (attempts n w args)"
  by (induction n) (auto intro!: texts_kept)

lemma notify_texts: "txs.obeys (notify w ch msg)"
  unfolding notify_def by (intro texts_kept)

lemma api_call_texts: "txs.obeys (api_call w backend model p)"
  unfolding api_call_def hermes_call_def claude_call_def by (intro texts_kept attempts_texts)

lemma call_agent_texts: "txs.obeys (call_agent w cfg ctx)"
  unfolding call_agent_def Let_def by (intro texts_kept api_call_texts)

lemma failed_call_texts: "txs.obeys (failed_call w cfg tick e)"
  by (cases e) (auto simp: failed_call_def intro!: texts_kept notify_texts)

lemma file_decision_result:
  assumes "file_decision w dir d s = (Inr d', s')"
  shows "d' = d \<and> texts s (decision_path dir (tick_of d)) = None"
  using assms by (auto simp: file_decision_def persist_def write_once_def path_exists_def then_op_def bind_op_def ret_def split: prod.splits sum.splits if_splits)

lemma believed_pick_ok:
  "fst (believed_pick known allowed flight r) = Some p \<Longrightarrow>
     todo_shape p \<and> p \<in> set known \<and> p \<in> set allowed \<and> (\<forall>f \<in> set flight. \<not> py_eq (JStr p) f)"
  by (cases "r_picked r") (auto simp: believed_pick_def pick_refusal_def list_ex_iff split: if_splits option.splits)

lemma believed_reasons_ok: "fst ` set (believed_reasons allowed bs) \<subseteq> set allowed"
  by (auto simp: believed_reasons_def Let_def)

section \<open>Where a decision is kept\<close>

definition archived_decision_path :: "string \<Rightarrow> string \<Rightarrow> string" where
  "archived_decision_path dir tick = dir @ ''/decisions/archive/'' @ tick @ ''.json''"

lemma rename_moves:
  assumes "rename w source target s = (Inr u, s')"
  shows "\<exists>t. texts s source = Some t \<and> texts s' = (texts s)(target := Some t, source := None)"
proof -
  from assms obtain t where t: "read_text w source s = Inr t" and r: "then_op (write_text w target t) (unlink w False source) s = (Inr u, s')"
    by (auto simp: rename_def bind_op_returns reads_def)
  from r obtain s1 where "write_text w target t s = (Inr (), s1)" "unlink w False source s1 = (Inr u, s')"
    by (auto simp: then_op_def bind_op_returns)
  then have "texts s' = (texts s)(target := Some t, source := None)"
    by (auto simp: write_text_def unlink_def split: option.splits if_splits)
  moreover have "texts s source = Some t" using t by (auto simp: read_text_def split: option.splits)
  ultimately show ?thesis by blast
qed

lemma path_parts:
  assumes "CHR ''/'' \<notin> set n" and "CHR ''/'' \<notin> set tick"
  shows "dir @ ''/decisions/'' @ n \<noteq> archived_decision_path dir tick" "dir @ ''/decisions/archive/'' @ n \<noteq> decision_path dir tick"
    "dir @ ''/outcomes/'' @ n \<noteq> archived_decision_path dir tick" "dir @ ''/outcomes/'' @ n \<noteq> decision_path dir tick"
    "dir @ ''/outcomes/archive/'' @ n \<noteq> archived_decision_path dir tick" "dir @ ''/outcomes/archive/'' @ n \<noteq> decision_path dir tick"
    "dir @ ''/decisions/'' @ n = decision_path dir tick \<longleftrightarrow> n = tick @ ''.json''"
    "dir @ ''/decisions/archive/'' @ n = archived_decision_path dir tick \<longleftrightarrow> n = tick @ ''.json''"
proof -
  have "CHR ''/'' \<in> set (''archive/'' @ m)" for m by simp
  moreover have "CHR ''/'' \<notin> set (tick @ ''.json'')" using assms(2) by simp
  ultimately have "n \<noteq> ''archive/'' @ tick @ ''.json''" "''archive/'' @ n \<noteq> tick @ ''.json''" using assms(1) by metis+
  then show "dir @ ''/decisions/'' @ n \<noteq> archived_decision_path dir tick" "dir @ ''/decisions/archive/'' @ n \<noteq> decision_path dir tick"
    by (simp_all add: archived_decision_path_def decision_path_def)
qed (simp_all add: archived_decision_path_def decision_path_def)

text \<open>Rotation moves the decision of a tick when it is listed, and keeps it where it is otherwise.\<close>

lemma archive_step:
  assumes "archive_decisions w dir (n # ns) s = (Inr u, s')"
  shows "\<exists>t s2. texts s (dir @ ''/decisions/'' @ n) = Some t \<and> archive_decisions w dir ns s2 = (Inr u, s')
    \<and> (\<forall>p. p \<noteq> dir @ ''/outcomes/'' @ n \<longrightarrow> p \<noteq> dir @ ''/outcomes/archive/'' @ n
       \<longrightarrow> texts s2 p = ((texts s)(dir @ ''/decisions/archive/'' @ n := Some t, dir @ ''/decisions/'' @ n := None)) p)"
proof -
  obtain s1 s2 where 1: "rename w (dir @ ''/decisions/'' @ n) (dir @ ''/decisions/archive/'' @ n) s = (Inr (), s1)"
    and 2: "(if path_exists s1 (dir @ ''/outcomes/'' @ n) then rename w (dir @ ''/outcomes/'' @ n) (dir @ ''/outcomes/archive/'' @ n) s1 else (Inr (), s1)) = (Inr (), s2)"
    and 3: "archive_decisions w dir ns s2 = (Inr u, s')"
    using assms by (auto simp: then_op_def bind_op_returns)
  from rename_moves [OF 1] obtain t where t: "texts s (dir @ ''/decisions/'' @ n) = Some t"
    "texts s1 = (texts s)(dir @ ''/decisions/archive/'' @ n := Some t, dir @ ''/decisions/'' @ n := None)" by blast
  have "texts s2 p = texts s1 p" if "p \<noteq> dir @ ''/outcomes/'' @ n" "p \<noteq> dir @ ''/outcomes/archive/'' @ n" for p
    using 2 that by (auto split: if_splits dest!: rename_moves)
  with t 3 show ?thesis by (intro exI [of _ t] exI [of _ s2]) simp
qed

lemma archived_stays:
  assumes "archive_decisions w dir ns s = (Inr u, s')" and "\<forall>n \<in> set ns. CHR ''/'' \<notin> set n" and "CHR ''/'' \<notin> set tick"
    and "texts s (archived_decision_path dir tick) = Some T" and "texts s (decision_path dir tick) = None"
  shows "texts s' (archived_decision_path dir tick) = Some T"
  using assms
proof (induction ns arbitrary: s)
  case (Cons n ns)
  then have n: "CHR ''/'' \<notin> set n" by simp
  note pp = path_parts [OF n Cons.prems(3), of dir]
  from archive_step [OF Cons.prems(1)] obtain t s2 where t: "texts s (dir @ ''/decisions/'' @ n) = Some t" and r: "archive_decisions w dir ns s2 = (Inr u, s')"
    and all: "\<forall>p. p \<noteq> dir @ ''/outcomes/'' @ n \<longrightarrow> p \<noteq> dir @ ''/outcomes/archive/'' @ n
       \<longrightarrow> texts s2 p = ((texts s)(dir @ ''/decisions/archive/'' @ n := Some t, dir @ ''/decisions/'' @ n := None)) p" by (elim exE conjE)
  note e = all [rule_format]
  have "n \<noteq> tick @ ''.json''" using t Cons.prems(5) pp(7) by auto
  then have "texts s2 (archived_decision_path dir tick) = Some T" "texts s2 (decision_path dir tick) = None"
    using e [OF pp(3) [symmetric] pp(5) [symmetric]] e [OF pp(4) [symmetric] pp(6) [symmetric]] pp Cons.prems(4,5) by auto
  with Cons.IH [OF r] Cons.prems show ?case by simp
qed simp

lemma archive_places:
  assumes "archive_decisions w dir ns s = (Inr u, s')" and "\<forall>n \<in> set ns. CHR ''/'' \<notin> set n" and "CHR ''/'' \<notin> set tick"
    and "texts s (decision_path dir tick) = Some T"
  shows "texts s' (if tick @ ''.json'' \<in> set ns then archived_decision_path dir tick else decision_path dir tick) = Some T"
  using assms
proof (induction ns arbitrary: s)
  case (Cons n ns)
  then have n: "CHR ''/'' \<notin> set n" by simp
  note pp = path_parts [OF n Cons.prems(3), of dir]
  from archive_step [OF Cons.prems(1)] obtain t s2 where t: "texts s (dir @ ''/decisions/'' @ n) = Some t" and r: "archive_decisions w dir ns s2 = (Inr u, s')"
    and all: "\<forall>p. p \<noteq> dir @ ''/outcomes/'' @ n \<longrightarrow> p \<noteq> dir @ ''/outcomes/archive/'' @ n
       \<longrightarrow> texts s2 p = ((texts s)(dir @ ''/decisions/archive/'' @ n := Some t, dir @ ''/decisions/'' @ n := None)) p" by (elim exE conjE)
  note e = all [rule_format]
  note ea = e [OF pp(3) [symmetric] pp(5) [symmetric]] and ed = e [OF pp(4) [symmetric] pp(6) [symmetric]]
  show ?case
  proof (cases "n = tick @ ''.json''")
    case True
    then have "dir @ ''/decisions/'' @ n = decision_path dir tick" "dir @ ''/decisions/archive/'' @ n = archived_decision_path dir tick" using pp(7,8) by simp_all
    then have "texts s2 (archived_decision_path dir tick) = Some T" "texts s2 (decision_path dir tick) = None"
      using ea ed t pp(1,2) Cons.prems(4) by auto
    from archived_stays [OF r _ Cons.prems(3) this] Cons.prems(2) True show ?thesis by simp
  next
    case False
    then have "texts s2 (decision_path dir tick) = Some T" using ed pp(2,7) Cons.prems(4) by auto
    with Cons.IH [OF r] Cons.prems False show ?thesis by auto
  qed
qed simp

lemma sort_strs_set: "set (sort_strs xs) = set xs"
proof -
  have "set (insert_str x ys) = insert x (set ys)" for x ys by (induction ys) auto
  then show ?thesis by (induction xs) (simp_all add: sort_strs_def)
qed

lemma filed_decision:
  assumes "file_decision w dir d s = (Inr d', s')" and "CHR ''/'' \<notin> set (tick_of d)"
    and listed: "\<forall>t names. plain_files w (dir @ ''/decisions'') t = Inr names \<longrightarrow> list_all (\<lambda>n. CHR ''/'' \<notin> set n) names"
  shows "\<exists>s1 names. texts s1 = (texts s)(decision_path dir (tick_of d) := Some (decision_text d)) \<and> decision_names w dir s1 = Inr names
    \<and> texts s' (if tick_of d @ ''.json'' \<in> set (take (length names - 50) names) then archived_decision_path dir (tick_of d) else decision_path dir (tick_of d)) = Some (decision_text d)"
proof -
  from assms(1) obtain s1 where p: "persist (shell w) dir d s = (Inr (), s1)" and r: "rotate_if_needed w dir HOT_CAP s1 = (Inr (), s')"
    by (auto simp: file_decision_def then_op_def bind_op_returns ret_def)
  have t: "texts s1 = (texts s)(decision_path dir (tick_of d) := Some (decision_text d))"
    using p by (auto simp: persist_def write_once_def write_text_def split: if_splits option.splits)
  from r obtain names where n: "decision_names w dir s1 = Inr names" and a: "archive_decisions (shell w) dir (take (length names - 50) names) s1 = (Inr (), s')"
    by (auto simp: rotate_if_needed_def HOT_CAP_def bind_op_returns reads_def)
  from n obtain ns where "plain_files w (dir @ ''/decisions'') s1 = Inr ns" "set names \<subseteq> set ns"
    by (auto simp: decision_names_def rbind_eq_Inr sort_strs_set)
  with listed have "\<forall>n \<in> set (take (length names - 50) names). CHR ''/'' \<notin> set n" by (auto simp: list_all_iff dest!: in_set_takeD)
  from archive_places [OF a this assms(2)] t n show ?thesis by (intro exI conjI) simp_all
qed

text \<open>
  C7: only candidates are believed.  Whatever the model replies, and whatever the call raises, a decision that is made names at most one todo, of
  the right form, known, eligible and not in flight; it lists as considered exactly the eligible candidates and
  gives reasons for eligible ones only.  It is made only where none is on file for the tick, and when it is
  returned its text has been filed for the tick and is still on file: in its own place, unless the rotation listed
  it behind the newest fifty, and then in the archive.  (Names of listed files and tick ids hold no slash.)
\<close>

theorem selection_believes_only_candidates:
  assumes "run_selection w cfg dir tick ctx (Some eligible) s = (Inr d, s')" and "CHR ''/'' \<notin> set tick"
    and "\<forall>t names. plain_files w (dir @ ''/decisions'') t = Inr names \<longrightarrow> list_all (\<lambda>n. CHR ''/'' \<notin> set n) names"
  shows "(\<forall>p. picked d = Some p \<longrightarrow> todo_shape p \<and> p \<in> set (candidate_ids ctx) \<and> p \<in> set eligible
            \<and> (\<forall>f \<in> set (in_flight ctx). \<not> py_eq (JStr p) f))
         \<and> considered d = map JStr (filter (\<lambda>t. t \<in> set eligible) (candidate_ids ctx))
         \<and> fst ` set (blocked_reasons d) \<subseteq> set eligible
         \<and> tick_of d = tick \<and> texts s (decision_path dir tick) = None
         \<and> (\<exists>s1 names. texts s1 = (texts s)(decision_path dir tick := Some (decision_text d)) \<and> decision_names w dir s1 = Inr names
              \<and> texts s' (if tick @ ''.json'' \<in> set (take (length names - 50) names) then archived_decision_path dir tick else decision_path dir tick)
                 = Some (decision_text d))"
proof -
  obtain r sha s1 where call: "catch_op (call_agent w cfg ctx) (failed_call w cfg tick) s = (Inr (r, sha), s1)"
    and f: "file_decision w dir (decide w cfg tick ctx (Some eligible) r sha) s1 = (Inr d, s')"
    using assms(1) by (auto simp: run_selection_def bind_op_def split: prod.splits sum.splits)
  have t: "texts s1 = texts s" using txs.obeysD [OF txs.obeys_catch [OF call_agent_texts failed_call_texts] call] .
  note d = file_decision_result [OF f]
  have e: "picked d = fst (believed_pick (candidate_ids ctx) eligible (in_flight ctx) r)" "tick_of d = tick"
    "considered d = map JStr (filter (\<lambda>t. t \<in> set eligible) (candidate_ids ctx))" "blocked_reasons d = believed_reasons eligible (r_blocked r)"
    using d by (simp_all add: decide_def Let_def split: prod.splits)
  have "file_decision w dir d s1 = (Inr d, s')" using f d by simp
  from filed_decision [OF this _ assms(3), unfolded e(2) t, OF assms(2)]
  have "\<exists>s1 names. texts s1 = (texts s)(decision_path dir tick := Some (decision_text d)) \<and> decision_names w dir s1 = Inr names
      \<and> texts s' (if tick @ ''.json'' \<in> set (take (length names - 50) names) then archived_decision_path dir tick else decision_path dir tick) = Some (decision_text d)" .
  then show ?thesis using d e t believed_pick_ok [of "candidate_ids ctx" eligible "in_flight ctx" r] believed_reasons_ok [of eligible "r_blocked r"]
    by (intro conjI) auto
qed

definition reply_world :: "string \<Rightarrow> unit select_world" where
  "reply_world out = \<lparr>shell = \<lparr>command = (\<lambda>args b. (Inr (0, out), b)), read_error = (\<lambda>_ _. None), write_error = (\<lambda>_ _. None)\<rparr>,
     plain_files = (\<lambda>_ _. Inr []), hex_digest = (\<lambda>_. ''d''), iso_now = ''now'', zero_width = CHR 0x07\<rparr>"

definition small_config :: selection_config where
  "small_config = \<lparr>sel_model = ''auto'', max_tokens = 1, prompt_path = ''p'', expected_prompt_sha = None, alert_channel = []\<rparr>"

definition small_context :: selection_context where
  "small_context = \<lparr>selection_markdown = [], candidate_ids = [''TODO-1'', ''TODO-7''], in_flight = [], recent_decisions = [], kanban_snapshot = JNull, project_slug = ''s''\<rparr>"

definition small_board :: "unit board" where "small_board = \<lparr>remote = (), texts = [''p'' \<mapsto> ''q'']\<rparr>"

theorem selection_believes_only_candidates_witness:
  "\<exists>d s'. run_selection (reply_world ''{\"picked\":\"TODO-7\"}'') small_config ''x'' ''t1'' small_context (Some [''TODO-7'']) small_board = (Inr d, s')
     \<and> picked d = Some ''TODO-7'' \<and> considered d = [JStr ''TODO-7''] \<and> blocked_reasons d = [] \<and> todo_shape ''TODO-7''
     \<and> texts s' (decision_path ''x'' ''t1'') = Some (decision_text d)"
proof -
  let ?w = "reply_world ''{\"picked\":\"TODO-7\"}''"
  let ?run = "run_selection ?w small_config ''x'' ''t1'' small_context (Some [''TODO-7'']) small_board"
  have "case fst ?run of Inr d \<Rightarrow> picked d = Some ''TODO-7'' \<and> blocked_reasons d = [] | Inl _ \<Rightarrow> False" by code_simp
  then obtain d s' where d: "?run = (Inr d, s')" "picked d = Some ''TODO-7''" "blocked_reasons d = []"
    by (cases ?run) (auto split: sum.splits)
  have "CHR ''/'' \<notin> set ''t1''" "\<forall>t names. plain_files ?w (''x'' @ ''/decisions'') t = Inr names \<longrightarrow> list_all (\<lambda>n. CHR ''/'' \<notin> set n) names"
    by (simp_all add: reply_world_def)
  note c = selection_believes_only_candidates [OF d(1) this]
  have "decision_names ?w ''x'' t = Inr []" for t by (simp add: decision_names_def reply_world_def sort_strs_def)
  then have "texts s' (decision_path ''x'' ''t1'') = Some (decision_text d)" using c by auto
  then show ?thesis using c d by (auto simp: small_context_def)
qed

end
