(* ===== verification/ShipGate.thy ===== *)
theory ShipGate
  imports Circuit Delivery
begin

text \<open>
  The ship gate, \<^verbatim>\<open>hermes_pipeline/ship.py\<close>: detecting that a run waits for its merge, and the deterministic
  path of an approval from its guards over the version bump to the squash merge.

  A refusal (\<^verbatim>\<open>ApproveRefused\<close>) is a value beside the summary.  Files of the project are texts by path; the
  version a \<^verbatim>\<open>pyproject.toml\<close> declares, the time and whether the approval's lock is free are parameters.
\<close>

record 'b ship_world =
  flow :: "'b flow_world"
  declared_version :: "string \<Rightarrow> json res option"   \<comment> \<open>\<^verbatim>\<open>tomllib\<close> on a text; \<^const>\<open>None\<close> when it does not parse\<close>
  timestamp :: string
  approve_busy :: bool
  em_dash :: string   \<comment> \<open>a character beyond those of a \<^typ>\<open>char\<close>\<close>

definition shipb :: "'b ship_world \<Rightarrow> 'b bw" where "shipb w = boardw (flow w)"

section \<open>The sidecar\<close>

definition SHIP_SIDECAR_SUFFIX :: string where "SHIP_SIDECAR_SUFFIX = ''-ship.json''"
definition GATE_PHASE_KEY :: string where "GATE_PHASE_KEY = ''phase_9_ship''"
definition PHASE_8_KEY :: string where "PHASE_8_KEY = ''phase_8_finish_branch''"

text \<open>The fields of the dataclass with the defaults of those that have one; no field is checked.\<close>

definition SIDECAR_REQUIRED :: "string list" where
  "SIDECAR_REQUIRED = [''tick_id'', ''todo_id'', ''pr_number'', ''pr_head_sha'', ''base_branch'', ''work_branch'']"

definition SIDECAR_DEFAULTS :: dict where "SIDECAR_DEFAULTS = [(''phase_8_task_id'', JNull), (''bump_version'', JNull)]"

type_synonym sidecar = dict

definition make_sidecar :: "json \<Rightarrow> sidecar res" where
  "make_sidecar v = (let d = dict_of v; fields = SIDECAR_REQUIRED @ map fst SIDECAR_DEFAULTS in
     if \<not> is_dict v \<or> \<not> fst ` set d \<subseteq> set fields \<or> \<not> set SIDECAR_REQUIRED \<subseteq> fst ` set d then Inl TypeErr
     else Inr (map (\<lambda>k. (k, dget_or d k (dget SIDECAR_DEFAULTS k))) fields))"

definition sidecar_path :: "string \<Rightarrow> string \<Rightarrow> string" where
  "sidecar_path state_dir tick_id = state_dir @ ''/outcomes/'' @ tick_id @ SHIP_SIDECAR_SUFFIX"

definition write_sidecar :: "'b bw \<Rightarrow> string \<Rightarrow> sidecar \<Rightarrow> ('b board, unit) op" where
  "write_sidecar w state_dir sc = write_text w (sidecar_path state_dir (py_str (dget sc ''tick_id''))) (dumps default_style (sort_keys (JObj sc)))"

definition parsed_sidecar :: "string \<Rightarrow> sidecar res" where
  "parsed_sidecar t = (case loads t of None \<Rightarrow> Inl (ValueErr ''json'') | Some v \<Rightarrow> make_sidecar v)"

definition sidecar_or_none :: "string \<Rightarrow> sidecar option res" where
  "sidecar_or_none t = (case parsed_sidecar t of Inr sc \<Rightarrow> Inr (Some sc) | Inl e \<Rightarrow> if e = TypeErr \<or> e = ValueErr ''json'' then Inr None else Inl e)"

definition read_sidecar :: "'b bw \<Rightarrow> string \<Rightarrow> string \<Rightarrow> 'b board \<Rightarrow> sidecar option res" where
  "read_sidecar w state_dir tick_id s = (let path = sidecar_path state_dir tick_id in
     if \<not> path_exists s path then Inr None else rbind (read_text w path s) sidecar_or_none)"

fun matching_sidecars :: "'b bw \<Rightarrow> string list \<Rightarrow> int \<Rightarrow> 'b board \<Rightarrow> sidecar list res" where
  "matching_sidecars w [] todo s = Inr []"
| "matching_sidecars w (p # ps) todo s = rbind (rbind (read_text w p s) sidecar_or_none) (\<lambda>sc. rbind (matching_sidecars w ps todo s) (\<lambda>rest.
     Inr (case sc of Some c \<Rightarrow> if py_eq (dget c ''todo_id'') (JInt todo) then c # rest else rest | None \<Rightarrow> rest)))"

definition find_ship_sidecar :: "'b ship_world \<Rightarrow> string \<Rightarrow> int \<Rightarrow> 'b tick_state \<Rightarrow> sidecar option res" where
  "find_ship_sidecar w state_dir todo s = (let dir = state_dir @ ''/outcomes'' in
     case run_names (flow w) dir (remote (cards s)) of Inl _ \<Rightarrow> Inr None
     | Inr names \<Rightarrow> rbind (matching_sidecars (shipb w) (map (\<lambda>n. dir @ ''/'' @ n) (filter (\<lambda>n. endswith n SHIP_SIDECAR_SUFFIX) (sort_strs names))) todo (cards s)) (\<lambda>found.
         Inr (if found = [] then None else Some (last found))))"

definition delete_sidecar :: "'b bw \<Rightarrow> string \<Rightarrow> string \<Rightarrow> ('b board, unit) op" where
  "delete_sidecar w state_dir tick_id = catch_op (unlink w False (sidecar_path state_dir tick_id)) (\<lambda>e. if e = FileNotFound then ret () else raise e)"

definition resolve_ship_task :: "'b bw \<Rightarrow> string \<Rightarrow> string \<Rightarrow> ('b board, task_info option) op" where
  "resolve_ship_task w slug tick_id = bind_op (get_todo_kanban_tasks w slug tick_id) (\<lambda>tasks. ret (map_of tasks GATE_PHASE_KEY))"

section \<open>Commands\<close>

text \<open>\<^verbatim>\<open>subprocess.run\<close> whose exceptions nobody translates; no handler tells the failures of \<^const>\<open>GhFailed\<close> apart.\<close>

definition run_raw :: "'b flow_world \<Rightarrow> string list \<Rightarrow> string \<Rightarrow> ('b tick_state, int \<times> string) op" where
  "run_raw w args cwd = bind_op (run_program w args cwd) (\<lambda>r. case r of GhExit n out _ \<Rightarrow> ret (n, out) | GhTimeout _ \<Rightarrow> raise SubprocessErr
     | GhMissing \<Rightarrow> raise FileNotFound | GhFailed \<Rightarrow> raise (OSErr 5))"

definition ship_error :: exn where "ship_error = ShipError ''command''"

definition GH_PR_VIEW_FIELDS :: string where "GH_PR_VIEW_FIELDS = ''number,state,headRefOid,baseRefName,headRefName,statusCheckRollup''"

definition gh_pr_view :: "'b flow_world \<Rightarrow> string \<Rightarrow> string \<Rightarrow> ('b tick_state, json) op" where
  "gh_pr_view w branch cwd = bind_op (run_raw w [''gh'', ''pr'', ''view'', branch, ''--json'', GH_PR_VIEW_FIELDS] cwd) (\<lambda>(n, out).
     if n \<noteq> 0 then raise ship_error else (case loads out of None \<Rightarrow> raise ship_error | Some v \<Rightarrow> ret v))"

definition gh_pr_merge_squash :: "'b flow_world \<Rightarrow> string \<Rightarrow> string \<Rightarrow> string \<Rightarrow> ('b tick_state, unit) op" where
  "gh_pr_merge_squash w branch head cwd = bind_op (run_raw w [''gh'', ''pr'', ''merge'', branch, ''--squash'', ''--match-head-commit'', head] cwd) (\<lambda>(n, _).
     if n \<noteq> 0 then raise ship_error else ret ())"

definition git_tree_clean :: "'b flow_world \<Rightarrow> string \<Rightarrow> ('b tick_state, bool) op" where
  "git_tree_clean w cwd = bind_op (run_raw w [''git'', ''status'', ''--porcelain''] cwd) (\<lambda>(n, out). ret (n = 0 \<and> strip out = []))"

definition ship_git :: "'b flow_world \<Rightarrow> string list \<Rightarrow> string \<Rightarrow> ('b tick_state, string) op" where
  "ship_git w args cwd = bind_op (run_raw w (''git'' # args) cwd) (\<lambda>(n, out). if n \<noteq> 0 then raise ship_error else ret (strip out))"

text \<open>\<^verbatim>\<open>view.get(key)\<close> of any value.\<close>

definition attr_get :: "json \<Rightarrow> string \<Rightarrow> json res" where
  "attr_get v key = (if is_dict v then Inr (dget (dict_of v) key) else Inl AttrErr)"

text \<open>\<^verbatim>\<open>upper()\<close> below code point 256, as far as the result can be below it.\<close>

definition upper_char :: "char \<Rightarrow> string" where
  "upper_char c = (let n = of_char c :: nat in
     if (97 \<le> n \<and> n \<le> 122) \<or> (224 \<le> n \<and> n \<le> 254 \<and> n \<noteq> 247) then [char_of (n - 32)] else if n = 223 then ''SS'' else [c])"

definition upper :: "string \<Rightarrow> string" where "upper s = concat (map upper_char s)"

text \<open>\<^verbatim>\<open>(v or "").upper()\<close>\<close>

definition upper_of :: "json \<Rightarrow> string res" where
  "upper_of v = (if \<not> truthy v then Inr [] else if is_str v then Inr (upper (str_of v)) else Inl AttrErr)"

section \<open>Checks\<close>

definition check_green :: "json \<Rightarrow> bool res" where
  "check_green v = rbind (attr_get v ''state'') (\<lambda>st. rbind (upper_of st) (\<lambda>state.
     if state \<noteq> [] then Inr (state = ''SUCCESS'')
     else rbind (upper_of (dget (dict_of v) ''status'')) (\<lambda>status. rbind (upper_of (dget (dict_of v) ''conclusion'')) (\<lambda>conclusion.
       Inr (status = ''COMPLETED'' \<and> conclusion \<in> {''SUCCESS'', ''NEUTRAL'', ''SKIPPED''})))))"

fun all_green :: "json list \<Rightarrow> bool res" where
  "all_green [] = Inr True"
| "all_green (v # vs) = rbind (check_green v) (\<lambda>g. if g then all_green vs else Inr False)"

text \<open>\<^const>\<open>None\<close> when the rollup is empty: the predicate cannot tell.\<close>

definition ci_is_green :: "json \<Rightarrow> bool option res" where
  "ci_is_green checks = (if \<not> truthy checks then Inr None
     else if is_list checks then rbind (all_green (items checks)) (\<lambda>g. Inr (Some g))
     else Inl (if is_dict checks \<or> is_str checks then AttrErr else TypeErr))"

text \<open>Whether the head commit itself has no gate to pass; every way of not knowing is \<^const>\<open>False\<close>.\<close>

definition corroborate_empty_rollup :: "'b flow_world \<Rightarrow> string \<Rightarrow> dict \<Rightarrow> string \<Rightarrow> ('b tick_state, bool \<times> string) op" where
  "corroborate_empty_rollup w project_dir view head = (let rollup = dget view ''headRefOid'' in
     if \<not> is_str rollup \<or> str_of rollup = [] \<or> str_of rollup \<noteq> head then ret (False, [])
     else bind_op (capture (on_remote (reads (repository_identity (issues_env w))))) (\<lambda>r. case r of
         Inl e \<Rightarrow> if is_issues_error e then ret (False, []) else raise e
       | Inr repo \<Rightarrow> bind_op (capture (rollup_is_honestly_empty w project_dir repo head)) (\<lambda>p. case p of
             Inl e \<Rightarrow> if is_contract_error e then ret (False, []) else raise e
           | Inr proven \<Rightarrow> ret (proven, repo))))"

section \<open>The version bump\<close>

definition py_digit :: "char \<Rightarrow> bool" where "py_digit c \<longleftrightarrow> is_digit c \<or> of_char c \<in> {178, 179, 185 :: nat}"

definition bumped :: "string \<Rightarrow> string res" where
  "bumped current = (let parts = split_on (CHR ''.'') current in
     if length parts \<noteq> 3 \<or> \<not> list_all (\<lambda>p. p \<noteq> [] \<and> list_all py_digit p) parts then Inl ship_error
     else if list_ex (\<lambda>p. \<not> list_all is_digit p \<or> 4300 < length p) parts then Inl (ValueErr ''int'')
     else Inr (dec (undec (parts ! 0)) @ ''.'' @ dec (undec (parts ! 1)) @ ''.'' @ dec (undec (parts ! 2) + 1)))"

definition manifest_version :: "'b ship_world \<Rightarrow> string \<Rightarrow> 'b board \<Rightarrow> string option res" where
  "manifest_version w project_dir s = (let path = project_dir @ ''/pyproject.toml'' in
     if \<not> path_exists s path then Inr None
     else rbind (read_text (shipb w) path s) (\<lambda>t. case declared_version w t of None \<Rightarrow> Inl ship_error
       | Some r \<Rightarrow> rbind r (\<lambda>v. if is_str v then Inr (Some (str_of v)) else Inl ship_error)))"

definition file_version :: "'b ship_world \<Rightarrow> string \<Rightarrow> 'b board \<Rightarrow> string option res" where
  "file_version w project_dir s = (let path = project_dir @ ''/VERSION'' in
     if \<not> path_exists s path then Inr None else rbind (read_text (shipb w) path s) (\<lambda>t. Inr (Some (strip t))))"

definition has_version :: "string option \<Rightarrow> bool" where "has_version v \<longleftrightarrow> v \<noteq> None \<and> v \<noteq> Some []"

definition bump_version :: "'b ship_world \<Rightarrow> string \<Rightarrow> 'b board \<Rightarrow> string res" where
  "bump_version w project_dir s = rbind (manifest_version w project_dir s) (\<lambda>p. rbind (file_version w project_dir s) (\<lambda>f.
     if has_version p \<and> has_version f \<and> p \<noteq> f then Inl ship_error
     else (case (if has_version p then p else f) of None \<Rightarrow> Inl ship_error | Some current \<Rightarrow> bumped current)))"

text \<open>\<^verbatim>\<open>(?m)^(version\s*=\s*)"[^"]*"\s*$\<close>, replaced once: what comes before the match, its first group, and the rest.\<close>

definition VERSION_HEAD :: rx where
  "VERSION_HEAD = cat [LineStart, lit ''version'', Run 0 None is_space, lit ''='', Run 0 None is_space]"

definition VERSION_TAIL :: rx where
  "VERSION_TAIL = cat [lit [CHR 0x22], Run 0 None (\<lambda>c. c \<noteq> CHR 0x22), lit [CHR 0x22], Run 0 None is_space, LineEnd]"

definition version_at_pos :: "pos \<Rightarrow> (pos \<times> pos) option" where
  "version_at_pos p = (case concat (map (\<lambda>h. map (\<lambda>e. (h, e)) (ends VERSION_TAIL h)) (ends VERSION_HEAD p)) of [] \<Rightarrow> None | x # _ \<Rightarrow> Some x)"

fun replace_version :: "string \<Rightarrow> string \<Rightarrow> string \<Rightarrow> string option" where
  "replace_version new b s = (case version_at_pos (b, s) of
       Some (h, e) \<Rightarrow> Some (rev (fst h) @ [CHR 0x22] @ new @ [CHR 0x22] @ snd e)
     | None \<Rightarrow> (case s of [] \<Rightarrow> None | c # cs \<Rightarrow> replace_version new (c # b) cs))"

definition rewrite_manifest :: "'b ship_world \<Rightarrow> string \<Rightarrow> string \<Rightarrow> ('b tick_state, string list) op" where
  "rewrite_manifest w project_dir new s = (let path = project_dir @ ''/pyproject.toml''; lock = project_dir @ ''/uv.lock'' in
     if \<not> path_exists (cards s) path then (Inr [], s)
     else bind_op (on_cards (reads (read_text (shipb w) path))) (\<lambda>t. case replace_version new [] t of None \<Rightarrow> raise ship_error
       | Some t' \<Rightarrow> then_op (on_cards (write_text (shipb w) path t')) (\<lambda>s.
           if \<not> path_exists (cards s) lock then (Inr [''pyproject.toml''], s)
           else bind_op (run_raw (flow w) [''uv'', ''lock''] project_dir) (\<lambda>(n, _).
             if n \<noteq> 0 then raise SubprocessErr else ret [''pyproject.toml'', ''uv.lock'']) s)) s)"

definition changelog_entry :: "'b ship_world \<Rightarrow> string \<Rightarrow> string \<Rightarrow> string" where
  "changelog_entry w new todo = [newline] @ ''## ['' @ new @ ''] - '' @ timestamp w @ [newline] @ ''- Ship TODO-'' @ todo @ '': bump to '' @ new @ [newline]"

definition write_changelog :: "'b ship_world \<Rightarrow> string \<Rightarrow> string \<Rightarrow> ('b board, unit) op" where
  "write_changelog w project_dir added s = (let path = project_dir @ ''/CHANGELOG.md'' in
     if path_exists s path then bind_op (reads (read_text (shipb w) path)) (\<lambda>t. write_text (shipb w) path (added @ [newline] @ t)) s
     else write_text (shipb w) path (''# Changelog'' @ [newline] @ added) s)"

definition bump_steps :: "'b ship_world \<Rightarrow> string \<Rightarrow> string \<Rightarrow> string \<Rightarrow> ('b tick_state, string \<times> string) op" where
  "bump_steps w project_dir branch todo = (let git = (\<lambda>args. ship_git (flow w) args project_dir) in
     bind_op (git [''checkout'', branch]) (\<lambda>_.
     bind_op (on_cards (reads (bump_version w project_dir))) (\<lambda>new.
     bind_op (\<lambda>s. if path_exists (cards s) (project_dir @ ''/VERSION'')
         then then_op (on_cards (write_text (shipb w) (project_dir @ ''/VERSION'') (new @ [newline]))) (ret [''VERSION'']) s else (Inr [], s)) (\<lambda>staged.
     bind_op (rewrite_manifest w project_dir new) (\<lambda>more.
     then_op (on_cards (write_changelog w project_dir (changelog_entry w new todo)))
     (bind_op (git ([''add''] @ staged @ more @ [''CHANGELOG.md''])) (\<lambda>_.
      bind_op (git [''commit'', ''-m'', ''chore: bump to '' @ new @ '' for TODO-'' @ todo]) (\<lambda>_.
      bind_op (git [''push'', ''origin'', branch]) (\<lambda>_.
      bind_op (git [''rev-parse'', ''HEAD'']) (\<lambda>sha. ret (new, sha)))))))))))"

fun is_ship_error :: "exn \<Rightarrow> bool" where
  "is_ship_error (ShipError _) = True" | "is_ship_error _ = False"

text \<open>The original branch is restored however the steps end; only a failure of another kind replaces theirs.\<close>

definition bump_in_pr :: "'b ship_world \<Rightarrow> string \<Rightarrow> string \<Rightarrow> string \<Rightarrow> ('b tick_state, string \<times> string) op" where
  "bump_in_pr w project_dir branch todo = bind_op (ship_git (flow w) [''rev-parse'', ''--abbrev-ref'', ''HEAD''] project_dir) (\<lambda>orig.
     bind_op (capture (bump_steps w project_dir branch todo)) (\<lambda>r.
     then_op (catch_op (bind_op (ship_git (flow w) [''checkout'', orig] project_dir) (\<lambda>_. ret ())) (\<lambda>e. if is_ship_error e then ret () else raise e))
       (lift_res r)))"

section \<open>Approval\<close>

datatype refusal = TreeDirty | HeadChanged | Undetermined | NotGreen | NoPendingShip | NoGate | ApproveBusy

definition audit :: "'b ship_world \<Rightarrow> string \<Rightarrow> string \<Rightarrow> ('b board, unit) op" where
  "audit w state_dir message s = (let path = state_dir @ ''/approve_audit.log'' in
     write_text (shipb w) path ((case texts s path of None \<Rightarrow> [] | Some t \<Rightarrow> t) @ timestamp w @ '' '' @ message @ [newline]) s)"

definition bypass_text :: "sidecar \<Rightarrow> json \<Rightarrow> string" where
  "bypass_text sc live = ''force-bypass SHA guard for TODO-'' @ py_str (dget sc ''todo_id'') @ '': reviewed='' @ py_str (dget sc ''pr_head_sha'') @ '' live='' @ py_str live"

definition check_ship_guards :: "'b ship_world \<Rightarrow> string \<Rightarrow> string \<Rightarrow> sidecar \<Rightarrow> json \<Rightarrow> nat \<Rightarrow> ('b tick_state, refusal + unit) op" where
  "check_ship_guards w project_dir state_dir sc live force = bind_op (git_tree_clean (flow w) project_dir) (\<lambda>clean.
     if \<not> clean then ret (Inl TreeDirty)
     else if dget sc ''bump_version'' \<noteq> JNull \<or> py_eq live (dget sc ''pr_head_sha'') then ret (Inr ())
     else if 2 \<le> force then then_op (on_cards (audit w state_dir (bypass_text sc live))) (ret (Inr ()))
     else ret (Inl HeadChanged))"

text \<open>Command lines take texts; a sidecar that holds another value there cannot be executed.\<close>

definition text_field :: "sidecar \<Rightarrow> string \<Rightarrow> string res" where
  "text_field sc k = (if is_str (dget sc k) then Inr (str_of (dget sc k)) else Inl TypeErr)"

definition rebaselined :: "'b ship_world \<Rightarrow> string \<Rightarrow> string \<Rightarrow> sidecar \<Rightarrow> ('b tick_state, sidecar) op" where
  "rebaselined w project_dir state_dir sc = (if dget sc ''bump_version'' \<noteq> JNull then ret sc
     else bind_op (lift_res (text_field sc ''work_branch'')) (\<lambda>branch.
       bind_op (bump_in_pr w project_dir branch (py_str (dget sc ''todo_id''))) (\<lambda>(new, sha).
       let sc' = dput ''pr_head_sha'' (JStr sha) (dput ''bump_version'' (JStr new) sc) in
       then_op (on_cards (write_sidecar (shipb w) state_dir sc')) (ret sc'))))"

definition no_gate_text :: "sidecar \<Rightarrow> string \<Rightarrow> string \<Rightarrow> string" where
  "no_gate_text sc repo head = ''merging TODO-'' @ py_str (dget sc ''todo_id'') @ '' on '' @ py_str (dget sc ''work_branch'')
     @ '' with no CI gate: the empty rollup is corroborated -- '' @ repo @ ''@'' @ head
     @ '' has no check suite that produced a run, no suite carrying a conclusion, no github-actions suite and no commit statuses''"

definition gate_on_ci :: "'b ship_world \<Rightarrow> string \<Rightarrow> string \<Rightarrow> sidecar \<Rightarrow> json \<Rightarrow> string \<Rightarrow> ('b tick_state, refusal + unit) op" where
  "gate_on_ci w project_dir state_dir sc view head = bind_op (lift_res (rbind (attr_get view ''statusCheckRollup'') ci_is_green)) (\<lambda>green. case green of
       Some g \<Rightarrow> ret (if g then Inr () else Inl NotGreen)
     | None \<Rightarrow> bind_op (corroborate_empty_rollup (flow w) project_dir (dict_of view) head) (\<lambda>(proven, repo).
         if \<not> proven then ret (Inl Undetermined)
         else then_op (on_cards (audit w state_dir (no_gate_text sc repo head))) (ret (Inr ()))))"

text \<open>Run \<open>k\<close> unless there was a refusal.\<close>

definition unless_refused :: "('s, 'e + 'a) op \<Rightarrow> ('a \<Rightarrow> ('s, 'e + 'c) op) \<Rightarrow> ('s, 'e + 'c) op" where
  "unless_refused m k = bind_op m (\<lambda>r. case r of Inl e \<Rightarrow> ret (Inl e) | Inr x \<Rightarrow> k x)"

definition bump_and_merge :: "'b ship_world \<Rightarrow> string \<Rightarrow> string \<Rightarrow> sidecar \<Rightarrow> ('b tick_state, refusal + sidecar) op" where
  "bump_and_merge w project_dir state_dir sc = bind_op (rebaselined w project_dir state_dir sc) (\<lambda>sc'.
     bind_op (lift_res (text_field sc' ''work_branch'')) (\<lambda>branch.
     bind_op (gh_pr_view (flow w) branch project_dir) (\<lambda>view.
     unless_refused (gate_on_ci w project_dir state_dir sc' view (str_of (dget sc' ''pr_head_sha''))) (\<lambda>_.
       bind_op (lift_res (text_field sc' ''pr_head_sha'')) (\<lambda>head.
       then_op (gh_pr_merge_squash (flow w) branch head project_dir) (ret (Inr sc')))))))"

definition complete_gate_task :: "'b bw \<Rightarrow> string \<Rightarrow> ('b board, unit) op" where
  "complete_gate_task w task = bind_op (hermes w [''hermes'', ''kanban'', ''complete'', task]) (\<lambda>r. if fst r \<noteq> 0 then raise ship_error else ret ())"

definition finish_gate :: "'b ship_world \<Rightarrow> string \<Rightarrow> string \<Rightarrow> sidecar \<Rightarrow> ('b tick_state, unit) op" where
  "finish_gate w state_dir task sc = then_op (on_cards (complete_gate_task (shipb w) task)) (on_cards (delete_sidecar (shipb w) state_dir (py_str (dget sc ''tick_id''))))"

definition approve_pending :: "'b ship_world \<Rightarrow> string \<Rightarrow> string \<Rightarrow> sidecar \<Rightarrow> task_info \<Rightarrow> nat \<Rightarrow> ('b tick_state, refusal + sidecar) op" where
  "approve_pending w project_dir state_dir sc gate force = bind_op (lift_res (text_field sc ''work_branch'')) (\<lambda>branch.
     bind_op (gh_pr_view (flow w) branch project_dir) (\<lambda>view.
     bind_op (lift_res (rbind (attr_get view ''state'') upper_of)) (\<lambda>state.
     if state = ''MERGED'' then then_op (finish_gate w state_dir (info_task gate) sc) (ret (Inr sc))
     else unless_refused (check_ship_guards w project_dir state_dir sc (dget_or (dict_of view) ''headRefOid'' (JStr [])) force) (\<lambda>_.
       unless_refused (bump_and_merge w project_dir state_dir sc) (\<lambda>sc'.
         then_op (finish_gate w state_dir (info_task gate) sc') (ret (Inr sc')))))))"

definition approve_ship :: "'b ship_world \<Rightarrow> string \<Rightarrow> string \<Rightarrow> string \<Rightarrow> int \<Rightarrow> nat \<Rightarrow> ('b tick_state, refusal + sidecar) op" where
  "approve_ship w project_dir slug state_dir todo force = (if approve_busy w then ret (Inl ApproveBusy)
     else bind_op (reads (find_ship_sidecar w state_dir todo)) (\<lambda>found. case found of None \<Rightarrow> ret (Inl NoPendingShip)
       | Some sc \<Rightarrow> bind_op (on_cards (resolve_ship_task (shipb w) slug (py_str (dget sc ''tick_id'')))) (\<lambda>gate. case gate of None \<Rightarrow> ret (Inl NoGate)
           | Some g \<Rightarrow> approve_pending w project_dir state_dir sc g force)))"

section \<open>Readiness\<close>

text \<open>\<^verbatim>\<open>int(v)\<close>\<close>

definition int_of_json :: "json \<Rightarrow> int res" where
  "int_of_json v = (case v of JInt n \<Rightarrow> Inr n | JBool b \<Rightarrow> Inr (if b then 1 else 0)
     | JStr s \<Rightarrow> (case py_int s of Some n \<Rightarrow> Inr n | None \<Rightarrow> Inl (ValueErr ''int''))
     | JFloat (Finite q _) \<Rightarrow> Inr (if q < 0 then \<lceil>q\<rceil> else \<lfloor>q\<rfloor>) | JFloat NaN \<Rightarrow> Inl (ValueErr ''int'') | JFloat _ \<Rightarrow> Inl OverflowErr | _ \<Rightarrow> Inl TypeErr)"

definition todo_number :: "string \<Rightarrow> int res" where
  "todo_number todo = int_of_json (JStr (if startswith todo ''TODO-'' then drop 5 todo else todo))"

definition all_work_done :: "(string \<times> task_info) list \<Rightarrow> bool" where
  "all_work_done tasks \<longleftrightarrow> (let work = filter (\<lambda>kv. fst kv \<noteq> GATE_PHASE_KEY) tasks in work \<noteq> [] \<and> list_all (\<lambda>kv. info_status (snd kv) \<in> set COMPLETION_STATUSES) work)"

definition new_sidecar :: "string \<Rightarrow> int \<Rightarrow> int \<Rightarrow> dict \<Rightarrow> string \<Rightarrow> (string \<times> task_info) list \<Rightarrow> sidecar" where
  "new_sidecar tick_id todo number view branch tasks = [(''tick_id'', JStr tick_id), (''todo_id'', JInt todo), (''pr_number'', JInt number),
     (''pr_head_sha'', dget_or view ''headRefOid'' (JStr [])), (''base_branch'', dget_or view ''baseRefName'' (JStr ''main'')), (''work_branch'', JStr branch),
     (''phase_8_task_id'', case map_of tasks PHASE_8_KEY of None \<Rightarrow> JNull | Some c \<Rightarrow> JStr (info_task c)), (''bump_version'', JNull)]"

definition ready_text :: "'b ship_world \<Rightarrow> string \<Rightarrow> int \<Rightarrow> int \<Rightarrow> string" where
  "ready_text w slug todo number = '':rocket: '' @ slug @ '' TODO-'' @ dec_int todo @ '' is ready to ship '' @ em_dash w @ '' PR #'' @ dec_int number
     @ '' passed all phases. Run: tpo approve '' @ slug @ '' --todo TODO-'' @ dec_int todo"

definition note_ready :: "'b ship_world \<Rightarrow> string \<Rightarrow> string \<Rightarrow> string \<Rightarrow> string \<Rightarrow> string \<Rightarrow> (string \<times> task_info) list \<Rightarrow> task_info \<Rightarrow> string \<Rightarrow> ('b tick_state, unit) op" where
  "note_ready w project_dir slug tick_id state_dir channel tasks gate branch = bind_op (gh_pr_view (flow w) branch project_dir) (\<lambda>view.
     bind_op (lift_res (todo_number (info_todo gate))) (\<lambda>todo.
     bind_op (lift_res (rbind (attr_get view ''number'') (\<lambda>_. int_of_json (dget_or (dict_of view) ''number'' (JInt 0))))) (\<lambda>number.
     then_op (on_cards (write_sidecar (shipb w) state_dir (new_sidecar tick_id todo number (dict_of view) branch tasks)))
       (on_cards (notify (shipb w) channel (ready_text w slug todo number))))))"

text \<open>The branch a run works on; a missing file and an empty one are the same to the caller.\<close>

definition pipeline_branch :: "'b bw \<Rightarrow> string \<Rightarrow> 'b board \<Rightarrow> string res" where
  "pipeline_branch w state_dir s = (let path = state_dir @ ''/pipeline_branch.txt'' in
     if \<not> path_exists s path then Inr [] else rbind (read_text w path s) (\<lambda>t. Inr (strip t)))"

definition detect_ready :: "'b ship_world \<Rightarrow> string \<Rightarrow> string \<Rightarrow> string \<Rightarrow> string \<Rightarrow> string \<Rightarrow> ('b tick_state, unit) op" where
  "detect_ready w project_dir slug tick_id state_dir channel = bind_op (on_cards (reads (read_sidecar (shipb w) state_dir tick_id))) (\<lambda>known.
     if known \<noteq> None then ret ()
     else bind_op (on_cards (get_todo_kanban_tasks (shipb w) slug tick_id)) (\<lambda>tasks. case map_of tasks GATE_PHASE_KEY of None \<Rightarrow> ret ()
       | Some gate \<Rightarrow> if info_status gate \<noteq> ''blocked'' \<or> \<not> all_work_done tasks then ret ()
         else bind_op (on_cards (reads (pipeline_branch (shipb w) state_dir))) (\<lambda>branch.
           if branch = [] then ret () else note_ready w project_dir slug tick_id state_dir channel tasks gate branch)))"

text \<open>Whatever fails, the tick goes on.\<close>

definition maybe_ship_ready :: "'b ship_world \<Rightarrow> string \<Rightarrow> string \<Rightarrow> string \<Rightarrow> string \<Rightarrow> string \<Rightarrow> ('b tick_state, unit) op" where
  "maybe_ship_ready w project_dir slug tick_id state_dir channel = catch_op (detect_ready w project_dir slug tick_id state_dir channel) (\<lambda>_. ret ())"

end
