(* ===== verification/ShipSafety.thy ===== *)
theory ShipSafety
  imports ShipGate ScheduleSafety
begin

text \<open>
  Safety of \<^theory_text>\<open>ShipGate\<close>: an approval merges only behind its guards and its checks, and merges what it checked.
\<close>

section \<open>What only a merge changes\<close>

text \<open>\<open>merges\<close> is whatever of the outside only \<^verbatim>\<open>gh pr merge\<close> changes.\<close>

definition merge_command :: "string list \<Rightarrow> bool" where
  "merge_command args \<longleftrightarrow> take 3 args = [''gh'', ''pr'', ''merge'']"

definition only_merge_merges :: "('b \<Rightarrow> 'm) \<Rightarrow> 'b ship_world \<Rightarrow> bool" where
  "only_merge_merges merges w \<longleftrightarrow> (\<forall>args cwd b. \<not> merge_command args \<longrightarrow> merges (snd (program (flow w) args cwd b)) = merges b)
     \<and> (\<forall>args b. merges (snd (command (shipb w) args b)) = merges b)"

definition unmerged :: "('b \<Rightarrow> 'm) \<Rightarrow> 'b tick_state \<Rightarrow> 'b tick_state \<Rightarrow> bool" where
  "unmerged merges s s' \<longleftrightarrow> merges (remote (cards s')) = merges (remote (cards s))"

interpretation mg: op_relation "unmerged merges :: 'b tick_state \<Rightarrow> 'b tick_state \<Rightarrow> bool" for merges :: "'b \<Rightarrow> 'm"
  by unfold_locales (auto simp: unmerged_def)

abbreviation merges_nothing :: "('b \<Rightarrow> 'm) \<Rightarrow> ('b tick_state, 'a) op \<Rightarrow> bool" where
  "merges_nothing merges \<equiv> op_relation.obeys (unmerged merges)"

named_theorems unmerging "operations that merge nothing"

lemmas [unmerging] = mg.obeys_simple mg.obeys_bind mg.obeys_then mg.obeys_catch mg.obeys_if mg.obeys_option

lemma unmerging_sum [unmerging]: "(\<And>a. merges_nothing m (f a)) \<Longrightarrow> (\<And>b. merges_nothing m (g b)) \<Longrightarrow> merges_nothing m (case v of Inl a \<Rightarrow> f a | Inr b \<Rightarrow> g b)"
  by (cases v) simp_all

lemma unmerging_prod [unmerging]: "(\<And>a b. merges_nothing m (f a b)) \<Longrightarrow> merges_nothing m (case p of (a, b) \<Rightarrow> f a b)"
  by (cases p) simp

lemma unmerging_capture [unmerging]: "merges_nothing m k \<Longrightarrow> merges_nothing m (capture k)"
  by (rule mg.obeysI) (auto simp: capture_def dest: mg.obeysD split: prod.splits)

lemma unmerging_state [unmerging]: "merges_nothing m a \<Longrightarrow> merges_nothing m b \<Longrightarrow> merges_nothing m (\<lambda>s. if c s then a s else b s)"
  by (rule mg.obeysI) (auto dest: mg.obeysD split: if_splits)

lemma unmerging_board [unmerging]:
  "merges_nothing m (on_cards (reads f))" "merges_nothing m (on_cards (write_text w' p t))" "merges_nothing m (on_cards (unlink w' b p))" "merges_nothing m (on_remote (reads g))"
  by (auto intro!: mg.obeysI simp: on_cards_def on_remote_def write_text_def unlink_def reads_def unmerged_def split: prod.splits option.splits if_splits)

lemma unmerging_pure [unmerging]: "merges_nothing m (\<lambda>s. (Inr x, s))"
  by (rule mg.obeysI) (auto simp: unmerged_def)

lemma unmerging_cards: "merges_nothing m (on_cards (audit w d msg))" "merges_nothing m (on_cards (write_sidecar w' d sc))" "merges_nothing m (on_cards (write_changelog w d t))"
  "merges_nothing m (on_cards (delete_sidecar w' d t))"
  by (auto intro!: mg.obeysI simp: audit_def write_sidecar_def write_changelog_def delete_sidecar_def on_cards_def write_text_def unlink_def reads_def bind_op_def
      catch_op_def ret_def raise_def unmerged_def Let_def split: prod.splits option.splits if_splits sum.splits)

declare unmerging_cards [unmerging]

lemma unmerging_program:
  assumes w: "only_merge_merges m w" and a: "\<not> merge_command args"
  shows "merges_nothing m (run_program (flow w) args cwd)"
proof (rule mg.obeysI)
  fix s r s' assume r: "run_program (flow w) args cwd s = (r, s')"
  have "m (snd (program (flow w) args cwd (remote (cards s)))) = m (remote (cards s))" using w a unfolding only_merge_merges_def by blast
  with r show "unmerged m s s'" by (auto simp: run_program_def on_remote_def unmerged_def split: prod.splits)
qed

lemma unmerging_outcome [unmerging]: "(\<And>n out err. merges_nothing m (f n out err)) \<Longrightarrow> (\<And>t. merges_nothing m (g t)) \<Longrightarrow> merges_nothing m a \<Longrightarrow> merges_nothing m b
    \<Longrightarrow> merges_nothing m (case r of GhExit n out err \<Rightarrow> f n out err | GhTimeout t \<Rightarrow> g t | GhMissing \<Rightarrow> a | GhFailed \<Rightarrow> b)"
  by (cases r) simp_all

lemma unmerging_run:
  assumes "only_merge_merges m w" and "\<not> merge_command args"
  shows "merges_nothing m (run_raw (flow w) args cwd)" "merges_nothing m (probe (flow w) args cwd code)"
  unfolding run_raw_def probe_def by (intro unmerging unmerging_program [OF assms])+

lemma unmerging_hermes: "only_merge_merges m w \<Longrightarrow> merges_nothing m (on_cards (hermes (shipb w) args))"
proof (rule mg.obeysI)
  fix s r s' assume w: "only_merge_merges m w" and r: "on_cards (hermes (shipb w) args) s = (r, s')"
  have "m (snd (command (shipb w) args (remote (cards s)))) = m (remote (cards s))" using w unfolding only_merge_merges_def by blast
  with r show "unmerged m s s'" by (auto simp: on_cards_def hermes_def unmerged_def split: prod.splits)
qed

text \<open>The commands of an approval other than the merge.\<close>

lemma plain_commands: "\<not> merge_command (''git'' # args)" "\<not> merge_command (''uv'' # args)" "\<not> merge_command (''gh'' # ''pr'' # ''view'' # args)"
  "\<not> merge_command (''gh'' # ''api'' # args)"
  by (simp_all add: merge_command_def)

lemma unmerging_commands:
  assumes w: "only_merge_merges m w"
  shows "merges_nothing m (git_tree_clean (flow w) dir)" "merges_nothing m (ship_git (flow w) args dir)" "merges_nothing m (gh_pr_view (flow w) branch dir)"
proof -
  note r = unmerging_run [OF w]
  show "merges_nothing m (git_tree_clean (flow w) dir)" "merges_nothing m (ship_git (flow w) args dir)" "merges_nothing m (gh_pr_view (flow w) branch dir)"
    unfolding git_tree_clean_def ship_git_def gh_pr_view_def by (intro unmerging r plain_commands)+
qed

lemma unmerging_bump:
  assumes w: "only_merge_merges m w"
  shows "merges_nothing m (rebaselined w dir sd sc)"
proof -
  have rw: "merges_nothing m (rewrite_manifest w dir new)" for new unfolding rewrite_manifest_def Let_def
    by (intro unmerging unmerging_run [OF w] plain_commands)
  have "merges_nothing m (bump_steps w dir branch todo)" for branch todo unfolding bump_steps_def Let_def
    by (intro unmerging unmerging_commands [OF w] rw)
  then show ?thesis unfolding rebaselined_def bump_in_pr_def Let_def
    by (intro unmerging unmerging_commands [OF w])
qed

lemma unmerging_corroborate:
  assumes w: "only_merge_merges m w"
  shows "merges_nothing m (corroborate_empty_rollup (flow w) dir view head)"
  unfolding corroborate_empty_rollup_def rollup_is_honestly_empty_def corroborating_api_def Let_def
  by (intro unmerging unmerging_run [OF w] plain_commands)

lemma unmerging_finish:
  assumes w: "only_merge_merges m w"
  shows "merges_nothing m (finish_gate w sd task sc)"
proof -
  have "on_cards (complete_gate_task (shipb w) task) = bind_op (on_cards (hermes (shipb w) [''hermes'', ''kanban'', ''complete'', task])) (\<lambda>r. if fst r \<noteq> 0 then raise ship_error else ret ())"
    by (rule ext) (auto simp: complete_gate_task_def on_cards_def bind_op_def hermes_def raise_def ret_def split: prod.splits sum.splits)
  then show ?thesis unfolding finish_gate_def by (simp only:) (intro unmerging unmerging_hermes [OF w])
qed

lemma unmerging_task:
  assumes w: "only_merge_merges m w"
  shows "merges_nothing m (on_cards (resolve_ship_task (shipb w) slug t))"
proof (rule mg.obeysI)
  fix s r s' assume r: "on_cards (resolve_ship_task (shipb w) slug t) s = (r, s')"
  have "m (snd (command (shipb w) (list_command slug) (remote (cards s)))) = m (remote (cards s))" using w unfolding only_merge_merges_def by blast
  with r show "unmerged m s s'"
    by (auto simp: on_cards_def resolve_ship_task_def get_todo_kanban_tasks_def list_tasks_def bind_op_def catch_op_def hermes_def ret_def raise_def unmerged_def
        split: prod.splits sum.splits if_splits)
qed

section \<open>Where a merge can happen\<close>

lemma merging_step:
  assumes "bind_op k f s = (r, s')" and "merges_nothing m k" and "\<not> unmerged m s s'"
  obtains x s1 where "k s = (Inr x, s1)" "f x s1 = (r, s')" "\<not> unmerged m s1 s'" "unmerged m s s1"
proof (cases "k s")
  case (Pair q s1)
  have u: "unmerged m s s1" by (rule mg.obeysD [OF assms(2) Pair])
  then show ?thesis using assms(1,3) that Pair mg.rel_trans [OF u] by (cases q) (auto simp: bind_op_def)
qed

lemma merging_pure:
  assumes "bind_op (lift_res x) f s = (r, s')" and "\<not> unmerged m s s'"
  obtains y where "x = Inr y" "f y s = (r, s')"
  using assms by (cases x) (auto simp: bind_op_def lift_res_def unmerged_def)

lemma merging_unless:
  assumes "unless_refused k f s = (r, s')" and "merges_nothing m k" and "\<not> unmerged m s s'"
  obtains x s1 where "k s = (Inr (Inr x), s1)" "f x s1 = (r, s')" "\<not> unmerged m s1 s'" "unmerged m s s1"
proof (rule merging_step [OF assms(1) [unfolded unless_refused_def] assms(2,3)])
  fix x s1 assume a: "k s = (Inr x, s1)" "(case x of Inl e \<Rightarrow> ret (Inl e) | Inr y \<Rightarrow> f y) s1 = (r, s')" "\<not> unmerged m s1 s'" "unmerged m s s1"
  then show thesis using that by (cases x) (auto simp: ret_def unmerged_def)
qed

text \<open>What must have passed: the rollup is green, or it is empty and the head commit itself has no gate.\<close>

definition checks_passed :: "'b ship_world \<Rightarrow> string \<Rightarrow> string \<Rightarrow> json \<Rightarrow> 'b tick_state \<Rightarrow> bool" where
  "checks_passed w dir head view t \<longleftrightarrow> (let green = rbind (attr_get view ''statusCheckRollup'') ci_is_green in
     green = Inr (Some True) \<or> (green = Inr None \<and> dget (dict_of view) ''headRefOid'' = JStr head
       \<and> (\<exists>repo t'. corroborate_empty_rollup (flow w) dir (dict_of view) head t = (Inr (True, repo), t'))))"

lemma corroborated_head: "corroborate_empty_rollup w dir view head t = (Inr (True, repo), t') \<Longrightarrow> dget view ''headRefOid'' = JStr head"
  by (cases "dget view ''headRefOid''") (auto simp: corroborate_empty_rollup_def ret_def Let_def split: if_splits)

lemma gate_passed:
  assumes g: "gate_on_ci w dir sd sc view head s = (Inr (Inr x), s')"
  shows "checks_passed w dir head view s"
proof -
  let ?green = "rbind (attr_get view ''statusCheckRollup'') ci_is_green"
  obtain g1 where 1: "?green = Inr g1" using g by (cases ?green) (auto simp: gate_on_ci_def bind_op_def lift_res_def)
  show ?thesis
  proof (cases g1)
    case None
    obtain q t where c: "corroborate_empty_rollup (flow w) dir (dict_of view) head s = (q, t)" by (cases "corroborate_empty_rollup (flow w) dir (dict_of view) head s")
    obtain repo where "q = Inr (True, repo)"
      using g 1 None c by (cases q) (auto simp: gate_on_ci_def bind_op_def lift_res_def ret_def split: if_splits)
    then show ?thesis using 1 None c corroborated_head unfolding checks_passed_def Let_def by blast
  next
    case (Some b)
    then show ?thesis using g 1 by (auto simp: gate_on_ci_def bind_op_def lift_res_def ret_def checks_passed_def split: if_splits)
  qed
qed

lemma unmerging_gate:
  assumes w: "only_merge_merges m w"
  shows "merges_nothing m (gate_on_ci w dir sd sc view head)"
  unfolding gate_on_ci_def by (intro unmerging unmerging_corroborate [OF w])

lemma unmerging_guards:
  assumes w: "only_merge_merges m w"
  shows "merges_nothing m (check_ship_guards w dir sd sc live force)"
  unfolding check_ship_guards_def by (intro unmerging unmerging_commands [OF w])

text \<open>The head the forge shows is the reviewed one, or the bump has moved it; or two \<^verbatim>\<open>--force\<close> say so, and the audit log tells.\<close>

definition head_settled :: "'b ship_world \<Rightarrow> string \<Rightarrow> sidecar \<Rightarrow> json \<Rightarrow> nat \<Rightarrow> 'b tick_state \<Rightarrow> 'b tick_state \<Rightarrow> bool" where
  "head_settled w sd sc live force t t' \<longleftrightarrow> (t' = t \<and> (dget sc ''bump_version'' \<noteq> JNull \<or> py_eq live (dget sc ''pr_head_sha'')))
     \<or> (2 \<le> force \<and> on_cards (audit w sd (bypass_text sc live)) t = (Inr (), t'))"

lemma guards_passed:
  assumes "check_ship_guards w dir sd sc live force s = (Inr (Inr x), s')"
  shows "\<exists>t. git_tree_clean (flow w) dir s = (Inr True, t) \<and> head_settled w sd sc live force t s'"
  using assms by (auto simp: head_settled_def check_ship_guards_def bind_op_def then_op_def ret_def split: prod.splits sum.splits if_splits)

lemma text_field_some: "text_field sc k = Inr t \<Longrightarrow> dget sc k = JStr t"
  by (cases "dget sc k") (auto simp: text_field_def split: if_splits)

lemma merge_behind_checks:
  assumes w: "only_merge_merges m w" and b: "bump_and_merge w dir sd sc s = (r, s')" and c: "\<not> unmerged m s s'"
  obtains sc' branch view head t1 t2 t3 where "rebaselined w dir sd sc s = (Inr sc', t1)" "dget sc' ''work_branch'' = JStr branch" "dget sc' ''pr_head_sha'' = JStr head"
    "gh_pr_view (flow w) branch dir t1 = (Inr view, t2)" "checks_passed w dir head view t2" "gate_on_ci w dir sd sc' view head t2 = (Inr (Inr ()), t3)" "unmerged m s t3"
    "snd (gh_pr_merge_squash (flow w) branch head dir t3) = s'"
proof -
  obtain sc' t1 where 1: "rebaselined w dir sd sc s = (Inr sc', t1)" "\<not> unmerged m t1 s'" "unmerged m s t1"
    and r1: "bind_op (lift_res (text_field sc' ''work_branch'')) (\<lambda>branch. bind_op (gh_pr_view (flow w) branch dir) (\<lambda>view.
        unless_refused (gate_on_ci w dir sd sc' view (str_of (dget sc' ''pr_head_sha''))) (\<lambda>_. bind_op (lift_res (text_field sc' ''pr_head_sha'')) (\<lambda>head.
          then_op (gh_pr_merge_squash (flow w) branch head dir) (ret (Inr sc')))))) t1 = (r, s')"
    by (rule merging_step [OF b [unfolded bump_and_merge_def] unmerging_bump [OF w] c]) (rule that)
  obtain branch where 2: "text_field sc' ''work_branch'' = Inr branch" and r2: "bind_op (gh_pr_view (flow w) branch dir) (\<lambda>view.
        unless_refused (gate_on_ci w dir sd sc' view (str_of (dget sc' ''pr_head_sha''))) (\<lambda>_. bind_op (lift_res (text_field sc' ''pr_head_sha'')) (\<lambda>head.
          then_op (gh_pr_merge_squash (flow w) branch head dir) (ret (Inr sc'))))) t1 = (r, s')"
    by (rule merging_pure [OF r1 1(2)]) (rule that)
  obtain view t2 where 3: "gh_pr_view (flow w) branch dir t1 = (Inr view, t2)" "\<not> unmerged m t2 s'" "unmerged m t1 t2" and r3: "unless_refused (gate_on_ci w dir sd sc' view (str_of (dget sc' ''pr_head_sha'')))
       (\<lambda>_. bind_op (lift_res (text_field sc' ''pr_head_sha'')) (\<lambda>head. then_op (gh_pr_merge_squash (flow w) branch head dir) (ret (Inr sc')))) t2 = (r, s')"
    by (rule merging_step [OF r2 unmerging_commands(3) [OF w] 1(2)]) (rule that)
  obtain t3 x where 4: "gate_on_ci w dir sd sc' view (str_of (dget sc' ''pr_head_sha'')) t2 = (Inr (Inr x), t3)" "\<not> unmerged m t3 s'" "unmerged m t2 t3"
    and r4: "bind_op (lift_res (text_field sc' ''pr_head_sha'')) (\<lambda>head. then_op (gh_pr_merge_squash (flow w) branch head dir) (ret (Inr sc'))) t3 = (r, s')"
    by (rule merging_unless [OF r3 unmerging_gate [OF w] 3(2)]) (rule that)
  obtain head where 5: "text_field sc' ''pr_head_sha'' = Inr head" and r5: "then_op (gh_pr_merge_squash (flow w) branch head dir) (ret (Inr sc')) t3 = (r, s')"
    by (rule merging_pure [OF r4 4(2)]) (rule that)
  have "snd (gh_pr_merge_squash (flow w) branch head dir t3) = s'" using r5
    by (cases "gh_pr_merge_squash (flow w) branch head dir t3") (auto simp: then_op_def bind_op_def ret_def split: sum.splits)
  moreover have "unmerged m s t3" using 1(3) 3(3) 4(3) by (simp add: unmerged_def)
  ultimately show thesis using that [OF 1(1) text_field_some [OF 2] text_field_some [OF 5] 3(1)] gate_passed [OF 4(1)] text_field_some [OF 5] 4(1) by simp
qed

section \<open>The approval\<close>

lemma approval_starts:
  assumes run: "approve_ship w dir slug sd todo force s = (r, s')" and c: "\<not> unmerged m s s'" and w: "only_merge_merges m w"
  obtains sc gate t where "\<not> approve_busy w" "find_ship_sidecar w sd todo s = Inr (Some sc)"
    "on_cards (resolve_ship_task (shipb w) slug (py_str (dget sc ''tick_id''))) s = (Inr (Some gate), t)" "approve_pending w dir sd sc gate force t = (r, s')"
    "\<not> unmerged m t s'" "unmerged m s t"
proof -
  have free: "\<not> approve_busy w" using run c by (auto simp: approve_ship_def ret_def unmerged_def)
  obtain found t1 where 1: "reads (find_ship_sidecar w sd todo) s = (Inr found, t1)" "\<not> unmerged m t1 s'" "unmerged m s t1"
    and r1: "(case found of None \<Rightarrow> ret (Inl NoPendingShip) | Some sc \<Rightarrow> bind_op (on_cards (resolve_ship_task (shipb w) slug (py_str (dget sc ''tick_id''))))
       (\<lambda>gate. case gate of None \<Rightarrow> ret (Inl NoGate) | Some g \<Rightarrow> approve_pending w dir sd sc g force)) t1 = (r, s')"
    using run free by (simp add: approve_ship_def) (rule merging_step [OF _ _ c], assumption, rule unmerging, rule that)
  obtain sc where sc: "found = Some sc" using r1 1(2) by (cases found) (auto simp: ret_def unmerged_def)
  have t1: "t1 = s" using 1(1) by (simp add: reads_def)
  obtain gate t2 where 2: "\<not> unmerged m t2 s'" "unmerged m t1 t2" "on_cards (resolve_ship_task (shipb w) slug (py_str (dget sc ''tick_id''))) t1 = (Inr gate, t2)" and r2: "(case gate of None \<Rightarrow> ret (Inl NoGate) | Some g \<Rightarrow> approve_pending w dir sd sc g force) t2 = (r, s')"
    by (rule merging_step [OF r1 [unfolded sc option.case] unmerging_task [OF w] 1(2)]) (rule that)
  obtain g where g: "gate = Some g" using r2 2(1) by (cases gate) (auto simp: ret_def unmerged_def)
  have "find_ship_sidecar w sd todo s = Inr (Some sc)" using 1(1) sc by (auto simp: reads_def)
  then show thesis using that free r2 g 2 1(3) t1 by (simp add: unmerged_def)
qed

text \<open>
  C11: no merge without its guards.  An approval that merges does it behind its guards, each on the state the one before left: the
  approval's lock was free and a sidecar of the TODO on file; the pull request of its branch was fetched, and then
  the working tree was clean; the head the forge showed was the reviewed one, or the bump had moved it already, or
  two \<^verbatim>\<open>--force\<close> overrode the difference and the audit log says so; after the version bump the pull
  request was fetched again and the checks passed on that view; and the merge is the one of the sidecar's branch
  pinned to the sidecar's head.  Before it nothing was merged, and after it nothing more.
\<close>

theorem merge_only_behind_guards:
  assumes w: "only_merge_merges m w" and run: "approve_ship w dir slug sd todo force s = (r, s')"
    and merged: "m (remote (cards s')) \<noteq> m (remote (cards s))"
  shows "\<exists>sc gate view sc' branch branch' head view' t1 t2 t3 t4 t5 t6 t7. \<not> approve_busy w \<and> find_ship_sidecar w sd todo s = Inr (Some sc)
    \<and> on_cards (resolve_ship_task (shipb w) slug (py_str (dget sc ''tick_id''))) s = (Inr (Some gate), t1)
    \<and> dget sc ''work_branch'' = JStr branch \<and> gh_pr_view (flow w) branch dir t1 = (Inr view, t2)
    \<and> git_tree_clean (flow w) dir t2 = (Inr True, t3)
    \<and> head_settled w sd sc (dget_or (dict_of view) ''headRefOid'' (JStr [])) force t3 t4
    \<and> rebaselined w dir sd sc t4 = (Inr sc', t5) \<and> dget sc' ''work_branch'' = JStr branch' \<and> dget sc' ''pr_head_sha'' = JStr head
    \<and> gh_pr_view (flow w) branch' dir t5 = (Inr view', t6) \<and> checks_passed w dir head view' t6
    \<and> gate_on_ci w dir sd sc' view' head t6 = (Inr (Inr ()), t7) \<and> m (remote (cards t7)) = m (remote (cards s))
    \<and> m (remote (cards s')) = m (remote (cards (snd (gh_pr_merge_squash (flow w) branch' head dir t7))))"
proof -
  have c: "\<not> unmerged m s s'" using merged by (simp add: unmerged_def)
  obtain sc gate t where 0: "\<not> approve_busy w" "find_ship_sidecar w sd todo s = Inr (Some sc)"
    "on_cards (resolve_ship_task (shipb w) slug (py_str (dget sc ''tick_id''))) s = (Inr (Some gate), t)" "approve_pending w dir sd sc gate force t = (r, s')"
    "\<not> unmerged m t s'" "unmerged m s t" by (rule approval_starts [OF run c w]) (rule that)
  obtain branch0 where b0: "text_field sc ''work_branch'' = Inr branch0" and r1: "bind_op (gh_pr_view (flow w) branch0 dir) (\<lambda>view. bind_op (lift_res (rbind (attr_get view ''state'') upper_of)) (\<lambda>state.
       if state = ''MERGED'' then then_op (finish_gate w sd (info_task gate) sc) (ret (Inr sc))
       else unless_refused (check_ship_guards w dir sd sc (dget_or (dict_of view) ''headRefOid'' (JStr [])) force) (\<lambda>_.
         unless_refused (bump_and_merge w dir sd sc) (\<lambda>sc'. then_op (finish_gate w sd (info_task gate) sc') (ret (Inr sc')))))) t = (r, s')"
    by (rule merging_pure [OF 0(4) [unfolded approve_pending_def] 0(5)]) (rule that)
  obtain view t1 where 1: "gh_pr_view (flow w) branch0 dir t = (Inr view, t1)" "\<not> unmerged m t1 s'" "unmerged m t t1" and r2: "bind_op (lift_res (rbind (attr_get view ''state'') upper_of)) (\<lambda>state.
       if state = ''MERGED'' then then_op (finish_gate w sd (info_task gate) sc) (ret (Inr sc))
       else unless_refused (check_ship_guards w dir sd sc (dget_or (dict_of view) ''headRefOid'' (JStr [])) force) (\<lambda>_.
         unless_refused (bump_and_merge w dir sd sc) (\<lambda>sc'. then_op (finish_gate w sd (info_task gate) sc') (ret (Inr sc'))))) t1 = (r, s')"
    by (rule merging_step [OF r1 unmerging_commands(3) [OF w] 0(5)]) (rule that)
  let ?live = "dget_or (dict_of view) ''headRefOid'' (JStr [])"
  obtain state where r3: "(if state = ''MERGED'' then then_op (finish_gate w sd (info_task gate) sc) (ret (Inr sc))
       else unless_refused (check_ship_guards w dir sd sc ?live force) (\<lambda>_.
         unless_refused (bump_and_merge w dir sd sc) (\<lambda>sc'. then_op (finish_gate w sd (info_task gate) sc') (ret (Inr sc'))))) t1 = (r, s')"
    by (rule merging_pure [OF r2 1(2)]) (rule that)
  have finish: "merges_nothing m (then_op (finish_gate w sd (info_task gate) z) (ret (Inr z)))" for z
    by (intro unmerging unmerging_finish [OF w])
  then have "state \<noteq> ''MERGED''" using r3 1(2) mg.obeysD [OF finish, of sc t1 r s'] by auto
  with r3 have r4: "unless_refused (check_ship_guards w dir sd sc ?live force) (\<lambda>_.
         unless_refused (bump_and_merge w dir sd sc) (\<lambda>sc'. then_op (finish_gate w sd (info_task gate) sc') (ret (Inr sc')))) t1 = (r, s')" by simp
  obtain x t2 where 2: "check_ship_guards w dir sd sc ?live force t1 = (Inr (Inr x), t2)" "\<not> unmerged m t2 s'" "unmerged m t1 t2"
    and r5: "unless_refused (bump_and_merge w dir sd sc) (\<lambda>sc'. then_op (finish_gate w sd (info_task gate) sc') (ret (Inr sc'))) t2 = (r, s')"
    by (rule merging_unless [OF r4 unmerging_guards [OF w] 1(2)]) (rule that)
  obtain q t6 where b: "bump_and_merge w dir sd sc t2 = (q, t6)" by (cases "bump_and_merge w dir sd sc t2")
  have same: "unmerged m t6 s'" using r5 b mg.obeysD [OF finish]
    by (auto simp: unless_refused_def bind_op_def ret_def mg.rel_refl split: sum.splits)
  then have "\<not> unmerged m t2 t6" using 2(2) by (auto simp: unmerged_def)
  from merge_behind_checks [OF w b this] obtain sc' branch head view' t3 t4 t5 where
    3: "rebaselined w dir sd sc t2 = (Inr sc', t3)" "dget sc' ''work_branch'' = JStr branch" "dget sc' ''pr_head_sha'' = JStr head"
      "gh_pr_view (flow w) branch dir t3 = (Inr view', t4)" "checks_passed w dir head view' t4" "gate_on_ci w dir sd sc' view' head t4 = (Inr (Inr ()), t5)" "unmerged m t2 t5"
      "snd (gh_pr_merge_squash (flow w) branch head dir t5) = t6" by metis
  have "m (remote (cards t5)) = m (remote (cards s))" using 0(6) 1(3) 2(3) 3(7) by (simp add: unmerged_def)
  moreover have "m (remote (cards s')) = m (remote (cards (snd (gh_pr_merge_squash (flow w) branch head dir t5))))" using same 3(8) by (simp add: unmerged_def)
  moreover obtain t0 where "git_tree_clean (flow w) dir t1 = (Inr True, t0)" "head_settled w sd sc ?live force t0 t2" using guards_passed [OF 2(1)] by blast
  ultimately show ?thesis using 0(1-3) text_field_some [OF b0] 1(1) 3(1-6) by blast
qed

section \<open>A merge\<close>

definition sx_board :: "nat bw" where
  "sx_board = \<lparr>command = (\<lambda>args n. (Inr (0, dumps default_style (JList [JObj [(''id'', JStr ''t_00000001''), (''status'', JStr ''blocked''),
       (''body'', JStr ''{\"tick_id\":\"T1\",\"phase_key\":\"phase_9_ship\",\"todo_id\":\"TODO-7\"}'')]])), n)),
     read_error = (\<lambda>_ _. None), write_error = (\<lambda>_ _. None)\<rparr>"

definition sx_program :: "string list \<Rightarrow> string \<Rightarrow> nat \<Rightarrow> gh_outcome \<times> nat" where
  "sx_program args cwd n = (if merge_command args then (GhExit 0 [] [], Suc n)
     else if hd args = ''gh'' then (GhExit 0 ''{\"state\":\"OPEN\",\"headRefOid\":\"h\",\"statusCheckRollup\":[{\"state\":\"SUCCESS\"}]}'' [], n)
     else (GhExit 0 [] [], n))"

definition sx_world :: "nat ship_world" where
  "sx_world = \<lparr>flow = wx_flow\<lparr>sched := wx_sched\<lparr>tick_env := rt_world\<lparr>board_world := sx_board\<rparr>\<rparr>, program := sx_program, run_names := (\<lambda>_ _. Inr [''T1-ship.json''])\<rparr>,
     declared_version = (\<lambda>_. None), timestamp = ''now'', approve_busy = False, em_dash = ''-''\<rparr>"

definition sx_sidecar :: string where
  "sx_sidecar = ''{\"tick_id\":\"T1\",\"todo_id\":7,\"pr_number\":1,\"pr_head_sha\":\"h\",\"base_branch\":\"main\",\"work_branch\":\"b\",\"bump_version\":\"1.0.1\"}''"

definition sx_state :: "nat tick_state" where
  "sx_state = \<lparr>execs = empty_store [], cards = \<lparr>remote = 0, texts = [''/x/outcomes/T1-ship.json'' \<mapsto> sx_sidecar]\<rparr>\<rparr>"

lemma sx_shell: "shipb sx_world = sx_board" "program (flow sx_world) = sx_program" "run_names (flow sx_world) = (\<lambda>_ _. Inr [''T1-ship.json''])"
  by (simp_all add: shipb_def boardw_def board_of_def sx_world_def)

lemma sx_only: "only_merge_merges (\<lambda>n. n) sx_world"
  by (simp add: only_merge_merges_def sx_shell) (simp add: sx_program_def sx_board_def)

lemma sx_merges: "remote (cards (snd (approve_ship sx_world ''/p'' ''s'' ''/x'' 7 0 sx_state))) = 1"
  by code_simp

theorem merge_only_behind_guards_witness:
  "\<exists>view t1 t2 t7. gh_pr_view (flow sx_world) ''b'' ''/p'' t1 = (Inr view, t2) \<and> py_eq (dget_or (dict_of view) ''headRefOid'' (JStr [])) (JStr ''h'')
    \<and> remote (cards t7) = remote (cards sx_state)
    \<and> remote (cards (snd (approve_ship sx_world ''/p'' ''s'' ''/x'' 7 0 sx_state))) = remote (cards (snd (gh_pr_merge_squash (flow sx_world) ''b'' ''h'' ''/p'' t7)))"
proof -
  have "remote (cards (snd (approve_ship sx_world ''/p'' ''s'' ''/x'' 7 0 sx_state))) \<noteq> remote (cards sx_state)"
    using sx_merges by (simp add: sx_state_def)
  then obtain sc gate view sc' branch branch' head view' t1 t2 t3 t4 t5 t6 t7 where
    a: "find_ship_sidecar sx_world ''/x'' 7 sx_state = Inr (Some sc)" "dget sc ''work_branch'' = JStr branch" "gh_pr_view (flow sx_world) branch ''/p'' t1 = (Inr view, t2)"
      "remote (cards t7) = remote (cards sx_state)" "rebaselined sx_world ''/p'' ''/x'' sc t4 = (Inr sc', t5)" "dget sc' ''work_branch'' = JStr branch'" "dget sc' ''pr_head_sha'' = JStr head"
      "remote (cards (snd (approve_ship sx_world ''/p'' ''s'' ''/x'' 7 0 sx_state))) = remote (cards (snd (gh_pr_merge_squash (flow sx_world) branch' head ''/p'' t7)))"
    using merge_only_behind_guards [OF sx_only, of "''/p''" "''s''" "''/x''" 7 0 sx_state "fst (approve_ship sx_world ''/p'' ''s'' ''/x'' 7 0 sx_state)"
      "snd (approve_ship sx_world ''/p'' ''s'' ''/x'' 7 0 sx_state)"] by auto
  have "(case find_ship_sidecar sx_world ''/x'' 7 sx_state of Inr (Some c) \<Rightarrow> dget c ''work_branch'' = JStr ''b'' \<and> dget c ''pr_head_sha'' = JStr ''h'' \<and> dget c ''bump_version'' \<noteq> JNull | _ \<Rightarrow> False)"
    by code_simp
  then have sc: "branch = ''b''" "dget sc ''pr_head_sha'' = JStr ''h''" "dget sc ''bump_version'' \<noteq> JNull" using a(1,2) by simp_all
  then have "sc' = sc" using a(5) by (simp add: rebaselined_def ret_def)
  have "fst (gh_pr_view (flow sx_world) ''b'' ''/p'' sx_state) = fst (gh_pr_view (flow sx_world) ''b'' ''/p'' t1)"
    by (simp add: gh_pr_view_def run_raw_def run_program_def on_remote_def bind_op_def sx_shell sx_program_def merge_command_def ret_def raise_def split: option.splits)
  moreover have "(case fst (gh_pr_view (flow sx_world) ''b'' ''/p'' sx_state) of Inr v \<Rightarrow> py_eq (dget_or (dict_of v) ''headRefOid'' (JStr [])) (JStr ''h'') | Inl _ \<Rightarrow> False)" by code_simp
  ultimately have "py_eq (dget_or (dict_of view) ''headRefOid'' (JStr [])) (JStr ''h'')" using a(3) sc(1) by simp
  then show ?thesis using a sc \<open>sc' = sc\<close> by auto
qed

end
