(* ===== verification/Configuration.thy ===== *)
theory Configuration
  imports ShipGate PhaseProfile
begin

text \<open>
  Settings: \<^verbatim>\<open>hermes_pipeline/config.py\<close>, \<^verbatim>\<open>config_loader.py\<close>, \<^verbatim>\<open>contract.py\<close> (the execution contract of a
  project and the capabilities it grants), \<^verbatim>\<open>project_config.py\<close> and \<^verbatim>\<open>profile_prerequisites.py\<close>.

  What a TOML or YAML text holds is the value a parser parameter gives for it, \<^const>\<open>None\<close> when it does not
  parse.  A path is the text of it; expanding a leading tilde is a parameter.
\<close>

type_synonym parser = "string \<Rightarrow> json option"

section \<open>Names\<close>

definition validate_project_slug :: "string \<Rightarrow> bool" where
  "validate_project_slug slug \<longleftrightarrow> \<not> contains slug ''..'' \<and> 2 \<le> length slug \<and> alnum (hd slug) \<and> list_all (\<lambda>c. alnum c \<or> c \<in> set ''._-'') (tl slug)"

text \<open>\<^verbatim>\<open>^[a-z0-9](?:[a-z0-9-]{0,62}[a-z0-9])?$\<close>\<close>

definition contract_profile_ok :: "string \<Rightarrow> bool" where
  "contract_profile_ok = dollar (\<lambda>s. s \<noteq> [] \<and> length s \<le> 64 \<and> list_all (\<lambda>c. slug_char c \<or> c = CHR ''-'') s \<and> slug_char (hd s) \<and> slug_char (last s))"

section \<open>Settings of a project\<close>

definition SELECTION_DEFAULTS :: dict where
  "SELECTION_DEFAULTS = [(''model'', JStr ''auto''), (''max_tokens'', JInt 4000), (''auto_execute'', JBool False), (''prompt_path'', JNull), (''expected_prompt_sha'', JNull)]"

definition BREAKER_DEFAULTS :: dict where
  "BREAKER_DEFAULTS = [(''no_progress_threshold'', JInt 3), (''alert_dedup_hours'', JInt 24), (''max_phase_timeout_min'', JInt 120), (''max_tick_duration_min'', JInt 10)]"

text \<open>Fields that a class does not have are dropped, values are taken as they are.\<close>

definition coerce_section :: "dict \<Rightarrow> json \<Rightarrow> dict res" where
  "coerce_section defaults v = (if \<not> is_dict v then Inl AttrErr else Inr (map (\<lambda>(k, d). (k, dget_or (dict_of v) k d)) defaults))"

definition load_toml_overlay :: "parser \<Rightarrow> string res \<Rightarrow> (dict \<times> dict) res" where
  "load_toml_overlay toml file_read = rbind file_read (\<lambda>t. case toml t of None \<Rightarrow> Inl (ValueErr ''malformed TOML'')
     | Some data \<Rightarrow> rbind (coerce_section SELECTION_DEFAULTS (dget_or (dict_of data) ''selection'' (JObj []))) (\<lambda>sel.
         rbind (coerce_section BREAKER_DEFAULTS (dget_or (dict_of data) ''circuit_breaker'' (JObj []))) (\<lambda>cb. Inr (sel, cb))))"

section \<open>The execution contract\<close>

record pipeline_contract =
  contract_version :: int
  assignee :: string
  capabilities :: "string list"
  contract_profile :: string
  review_assignee :: "string option"
  profile_declared :: bool

definition CONTRACT_SCHEMA_VERSION :: int where "CONTRACT_SCHEMA_VERSION = 3"
definition DEFAULT_CAPABILITIES :: "string list" where "DEFAULT_CAPABILITIES = [''Read'', ''Write'', ''Edit'', ''Bash'']"
definition DEFAULT_PROFILE :: string where "DEFAULT_PROFILE = ''native-sdd''"
definition LEGACY_IMPLICIT_PROFILE :: string where "LEGACY_IMPLICIT_PROFILE = ''gstack''"

definition default_contract :: pipeline_contract where
  "default_contract = \<lparr>contract_version = CONTRACT_SCHEMA_VERSION, assignee = ''default'', capabilities = DEFAULT_CAPABILITIES,
     contract_profile = DEFAULT_PROFILE, review_assignee = None, profile_declared = True\<rparr>"

text \<open>\<^verbatim>\<open>isinstance(v, int)\<close>, which holds of booleans.\<close>

definition int_like :: "json \<Rightarrow> bool" where "int_like v \<longleftrightarrow> is_int v \<or> is_bool v"

definition check_contract :: "dict \<Rightarrow> unit res" where
  "check_contract data = (let version = dget data ''schema_version''; who = dget_or data ''assignee'' (JStr ''default''); reviewer = dget data ''review_assignee'';
       caps = dget_or data ''capabilities'' (JList (map JStr DEFAULT_CAPABILITIES)); profile = dget_or data ''profile'' (JStr LEGACY_IMPLICIT_PROFILE) in
     run_checks [
       raise_if (\<not> has_key data ''schema_version'') (ContractSchemaError ''missing schema_version''),
       raise_if (\<not> int_like version) (ContractSchemaError ''schema_version''),
       raise_if (int_of version \<notin> {2, CONTRACT_SCHEMA_VERSION}) ContractVersionMismatchError,
       raise_if (\<not> is_str who \<or> str_of who = []) (ContractSchemaError ''assignee''),
       raise_if (int_of version \<noteq> 2 \<and> (\<not> is_str reviewer \<or> str_of reviewer = [])) (ContractSchemaError ''review_assignee''),
       raise_if (\<not> is_list caps \<or> \<not> list_all is_str (items caps)) (ContractSchemaError ''capabilities''),
       raise_if (\<not> is_str profile \<or> \<not> contract_profile_ok (str_of profile)) (ContractSchemaError ''profile'')])"

definition contract_of_toml :: "dict \<Rightarrow> pipeline_contract" where
  "contract_of_toml data = \<lparr>contract_version = int_of (dget data ''schema_version''), assignee = str_of (dget_or data ''assignee'' (JStr ''default'')),
     capabilities = map str_of (items (dget_or data ''capabilities'' (JList (map JStr DEFAULT_CAPABILITIES)))),
     contract_profile = str_of (dget_or data ''profile'' (JStr LEGACY_IMPLICIT_PROFILE)),
     review_assignee = (if int_of (dget data ''schema_version'') = 2 then None else Some (str_of (dget data ''review_assignee''))),
     profile_declared = has_key data ''profile''\<rparr>"

definition contract_path :: "string \<Rightarrow> string" where "contract_path project_state = project_state @ ''/pipeline.toml''"

definition load_contract :: "parser \<Rightarrow> 'b bw \<Rightarrow> string \<Rightarrow> 'b board \<Rightarrow> pipeline_contract res" where
  "load_contract toml w project_state s = (if \<not> path_exists s (contract_path project_state) then Inl ContractMissingError
     else rbind (read_text w (contract_path project_state) s) (\<lambda>t. case toml t of None \<Rightarrow> Inl (ContractSchemaError ''malformed TOML'')
       | Some data \<Rightarrow> rbind (check_contract (dict_of data)) (\<lambda>_. Inr (contract_of_toml (dict_of data)))))"

definition required_capabilities :: "phase list \<Rightarrow> string list" where
  "required_capabilities phases = remdups (filter (\<lambda>t. t \<noteq> []) (concat (map (\<lambda>p. if def_gate p then [] else map strip (split_on (CHR '','') (def_tools p))) phases)))"

definition missing_capabilities :: "pipeline_contract \<Rightarrow> phase list \<Rightarrow> string list" where
  "missing_capabilities c phases = filter (\<lambda>t. t \<notin> set (capabilities c)) (required_capabilities phases)"

definition quoted :: "string \<Rightarrow> string" where "quoted s = [CHR 0x22] @ s @ [CHR 0x22]"

definition CONTRACT_HEAD :: "string \<Rightarrow> string" where
  "CONTRACT_HEAD dash = ''# Pipeline execution contract '' @ dash @ '' read at tick start.'' @ [newline] @ ''# See docs/tutorial-getting-started.md and `tpo doctor --help`.'' @ [newline]"

definition toml_lines :: "string \<Rightarrow> int \<Rightarrow> string \<Rightarrow> string \<Rightarrow> string list \<Rightarrow> string \<Rightarrow> string" where
  "toml_lines dash version who reviewer caps profile = CONTRACT_HEAD dash @ ''schema_version = '' @ dec_int version @ [newline]
     @ ''assignee = '' @ quoted who @ [newline] @ ''review_assignee = '' @ quoted reviewer @ [newline]
     @ ''capabilities = ['' @ join '', '' (map quoted caps) @ '']'' @ [newline] @ ''profile = '' @ quoted profile @ [newline]"

definition render_contract_toml :: "string \<Rightarrow> pipeline_contract \<Rightarrow> string" where
  "render_contract_toml dash c = toml_lines dash (contract_version c) (assignee c)
     (case review_assignee c of None \<Rightarrow> assignee c | Some r \<Rightarrow> if r = [] then assignee c else r) (capabilities c) (contract_profile c)"

definition render_default_contract_toml :: "string \<Rightarrow> phase list \<Rightarrow> string \<Rightarrow> string" where
  "render_default_contract_toml dash phases profile = toml_lines dash CONTRACT_SCHEMA_VERSION ''default'' ''default'' (sort_strs (required_capabilities phases)) profile"

definition write_default_contract :: "'b ship_world \<Rightarrow> string \<Rightarrow> phase list \<Rightarrow> string \<Rightarrow> ('b board, bool) op" where
  "write_default_contract w project_state phases profile s = (if path_exists s (contract_path project_state) then (Inr False, s)
     else then_op (write_text (shipb w) (contract_path project_state) (render_default_contract_toml (em_dash w) phases profile)) (ret True) s)"

section \<open>Prerequisites\<close>

definition unverified_prerequisite_ids :: "skill_prerequisite list \<Rightarrow> string \<Rightarrow> string list res" where
  "unverified_prerequisite_ids skills client = (let un = filter (\<lambda>p. skill_support p = ''Unverified'') skills in
     if list_ex (\<lambda>p. map_of (skill_clients p) client = None) un then Inl (KeyErr client) else Inr (map skill_id un))"

section \<open>Per-project settings\<close>

text \<open>A file that cannot be read or parsed counts as missing.\<close>

definition read_project_toml :: "parser \<Rightarrow> 'b bw \<Rightarrow> string \<Rightarrow> 'b board \<Rightarrow> dict option res" where
  "read_project_toml toml w project_dir s = (let path = project_dir @ ''/.hermes/project.toml'' in
     if \<not> path_exists s path then Inr None
     else (case read_text w path s of Inr t \<Rightarrow> Inr (case toml t of None \<Rightarrow> None | Some v \<Rightarrow> Some (dict_of v))
       | Inl e \<Rightarrow> if is_os_error e \<or> is_value_error e then Inr None else Inl e))"

definition is_enabled :: "dict option \<Rightarrow> bool res" where
  "is_enabled toml_data = (case toml_data of None \<Rightarrow> Inr True
     | Some d \<Rightarrow> let active = dget_or d ''active'' (JObj []) in if is_dict active then Inr (truthy (dget_or (dict_of active) ''enabled'' (JBool True))) else Inl AttrErr)"

definition toml_channel :: "dict option \<Rightarrow> string res" where
  "toml_channel toml_data = (case toml_data of None \<Rightarrow> Inr []
     | Some d \<Rightarrow> let n = dget_or d ''notifications'' (JObj []) in if \<not> is_dict n then Inl AttrErr
         else let c = dget_or (dict_of n) ''slack_channel'' (JStr []) in
           if \<not> truthy c then Inr [] else if is_str c then Inr (str_of c) else Inl TypeErr)"

definition resolve_slack_channel :: "string \<Rightarrow> dict option \<Rightarrow> string res" where
  "resolve_slack_channel env_channel toml_data = rbind (toml_channel toml_data) (\<lambda>c. Inr (
     if valid_slack_channel c then c else if valid_slack_channel env_channel then env_channel else []))"

text \<open>One entry of the projects' directory: its name, whether it is a link, and whether it is a directory.\<close>

fun discovered :: "parser \<Rightarrow> 'b bw \<Rightarrow> string \<Rightarrow> (string \<times> bool \<times> bool) list \<Rightarrow> 'b board \<Rightarrow> (string \<times> dict option) list res" where
  "discovered toml w dir [] s = Inr []"
| "discovered toml w dir ((name, link, directory) # es) s = (let project = dir @ ''/'' @ name in
     if link \<or> \<not> directory \<or> \<not> validate_project_slug name \<or> \<not> path_exists s (project @ ''/.hermes/pipeline.toml'') then discovered toml w dir es s
     else rbind (read_project_toml toml w project s) (\<lambda>data. rbind (is_enabled data) (\<lambda>on.
       rbind (discovered toml w dir es s) (\<lambda>rest. Inr (if on then (project, data) # rest else rest)))))"

fun insert_entry :: "string \<times> 'x \<Rightarrow> (string \<times> 'x) list \<Rightarrow> (string \<times> 'x) list" where
  "insert_entry e [] = [e]"
| "insert_entry e (f # fs) = (if str_le (fst e) (fst f) then e # f # fs else f # insert_entry e fs)"

definition discover_projects :: "parser \<Rightarrow> 'b bw \<Rightarrow> string \<Rightarrow> (string \<times> bool \<times> bool) list option \<Rightarrow> 'b board \<Rightarrow> (string \<times> dict option) list res" where
  "discover_projects toml w dir entries s = (case entries of None \<Rightarrow> Inr [] | Some es \<Rightarrow> discovered toml w dir (foldr insert_entry es []) s)"

section \<open>Global settings\<close>

datatype setting_type = PathSetting | IntSetting | TextSetting | OneOf "string list"

definition SETTINGS :: "(string \<times> setting_type) list" where
  "SETTINGS = [(''projects_dir'', PathSetting), (''state_dir'', PathSetting), (''log_file_subpath'', TextSetting), (''log_retention_days'', IntSetting),
     (''slack_channel'', TextSetting), (''prompt_client'', OneOf [''claude'', ''codex'']), (''agent_policy_mode'', OneOf [''inherit'', ''delegated''])]"

definition LEGACY_CONFIG_KEYS :: "string list" where
  "LEGACY_CONFIG_KEYS = [''lock_dir'', ''claude_cmd'', ''checkpoint_subdir'', ''ready_for_review_subdir'', ''counter_file_subpath'', ''default_timeout'',
     ''kanban_adapter'', ''kanban_outbox_cap'']"

definition default_settings :: "string \<Rightarrow> dict" where
  "default_settings home = [(''projects_dir'', JStr (home @ ''/projects'')), (''state_dir'', JStr (home @ ''/.hermes'')), (''log_file_subpath'', JStr ''pipeline.log''),
     (''log_retention_days'', JInt 7), (''slack_channel'', JStr []), (''prompt_client'', JStr ''claude''), (''agent_policy_mode'', JStr ''inherit'')]"

definition coerce_value :: "(string \<Rightarrow> string) \<Rightarrow> json \<Rightarrow> setting_type \<Rightarrow> json res" where
  "coerce_value expand v ty = (case ty of
       PathSetting \<Rightarrow> if v = JNull then Inl (ValueErr ''null'') else Inr (JStr (expand (py_str v)))
     | IntSetting \<Rightarrow> rbind (int_of_json v) (\<lambda>n. Inr (JInt n))
     | TextSetting \<Rightarrow> if v = JNull then Inl (ValueErr ''null'') else Inr (JStr (py_str v))
     | OneOf valid \<Rightarrow> if v = JNull \<or> py_str v \<notin> set valid then Inl (ValueErr ''choice'') else Inr (JStr (py_str v)))"

text \<open>What each key of the file gives: nothing, a value, or one error more; \<^const>\<open>OverflowErr\<close> is not caught.\<close>

fun overrides :: "(string \<Rightarrow> string) \<Rightarrow> dict \<Rightarrow> (dict \<times> nat) res" where
  "overrides expand [] = Inr ([], 0)"
| "overrides expand ((k, v) # raw) = (
     if startswith k ''_'' \<or> (map_of SETTINGS k = None \<and> k \<in> set LEGACY_CONFIG_KEYS) then overrides expand raw
     else (case map_of SETTINGS k of None \<Rightarrow> rbind (overrides expand raw) (\<lambda>(os, n). Inr (os, Suc n))
       | Some ty \<Rightarrow> (case coerce_value expand v ty of Inr x \<Rightarrow> rbind (overrides expand raw) (\<lambda>(os, n). Inr ((k, x) # os, n))
           | Inl e \<Rightarrow> if e = TypeErr \<or> is_value_error e then rbind (overrides expand raw) (\<lambda>(os, n). Inr (os, Suc n)) else Inl e)))"

definition coerce_config :: "(string \<Rightarrow> string) \<Rightarrow> string \<Rightarrow> dict \<Rightarrow> (dict \<times> string list) res" where
  "coerce_config expand home raw = rbind (overrides expand raw) (\<lambda>(os, n).
     if n \<noteq> 0 then Inl (ValueErr ''configuration'') else Inr (map (\<lambda>(k, d). (k, dget_or os k d)) (default_settings home), map fst os))"

definition search_paths :: "(string \<Rightarrow> string option) \<Rightarrow> string \<Rightarrow> string list" where
  "search_paths env home = (case env ''TPO_CONFIG_FILE'' of Some p \<Rightarrow> [p]
     | None \<Rightarrow> [(case env ''XDG_CONFIG_DIR'' of Some x \<Rightarrow> x | None \<Rightarrow> home @ ''/.config'') @ ''/tpo/config.yaml'', home @ ''/.tpo/config.yaml'',
         (case env ''HERMES_HOME'' of Some h \<Rightarrow> h | None \<Rightarrow> home @ ''/.hermes'') @ ''/tpo.yaml''])"

definition find_config_file :: "(string \<Rightarrow> string option) \<Rightarrow> string \<Rightarrow> 'b board \<Rightarrow> string option" where
  "find_config_file env home s = find (path_exists s) (search_paths env home)"

definition load_global_config :: "parser \<Rightarrow> (string \<Rightarrow> bool) \<Rightarrow> (string \<Rightarrow> string) \<Rightarrow> (string \<Rightarrow> string option) \<Rightarrow> string \<Rightarrow> 'b bw \<Rightarrow> 'b board \<Rightarrow> (dict \<times> string list) res" where
  "load_global_config yaml is_link expand env home w s = (case find_config_file env home s of None \<Rightarrow> Inr (default_settings home, [])
     | Some path \<Rightarrow> if is_link path then Inl (ValueErr ''symlink'')
         else rbind (read_text w path s) (\<lambda>t. case yaml t of None \<Rightarrow> Inl (ValueErr ''yaml'')
           | Some raw \<Rightarrow> if raw = JNull then Inr (default_settings home, [])
               else if is_dict raw then coerce_config expand home (dict_of raw) else Inl (ValueErr ''mapping'')))"

text \<open>The environment names the projects' directory unless the file does.\<close>

definition from_env :: "(string \<Rightarrow> string option) \<Rightarrow> (string \<Rightarrow> string) \<Rightarrow> dict \<times> string list \<Rightarrow> dict" where
  "from_env env expand loaded = (case env ''PIPELINE_PROJECTS_DIR'' of None \<Rightarrow> fst loaded
     | Some d \<Rightarrow> if ''projects_dir'' \<in> set (snd loaded) then fst loaded else dput ''projects_dir'' (JStr (expand d)) (fst loaded))"

definition format_value :: "json \<Rightarrow> string" where
  "format_value v = (case v of JBool b \<Rightarrow> if b then ''true'' else ''false''
     | JStr t \<Rightarrow> if lower t \<in> {''null'', ''true'', ''false'', ''yes'', ''no''} \<or> t = [] \<or> hd t = CHR ''~''
           \<or> list_ex (\<lambda>c. c \<in> set '':#{}[]%&*!|>@`'' \<or> c = CHR 0x27 \<or> c = CHR 0x22) t
         then quoted (concat (map (\<lambda>c. if c = backslash \<or> c = CHR 0x22 then [backslash, c] else [c]) t)) else t
     | _ \<Rightarrow> py_str v)"

end
