(* ===== verification/TickResume.thy ===== *)
theory TickResume
  imports Configuration Selection Schedule
begin

text \<open>
  The first half of a project's tick, \<^verbatim>\<open>_tick_project\<close> of \<^verbatim>\<open>hermes_pipeline/cli.py\<close> up to the point where it may
  select: pending board state, deliveries of earlier runs, the run the pointer names with its handoff, its
  issue's drift and its three reconcilers, the circuit breaker, and what is unresolved from before.

  An operation answers whether the tick goes on.  What the sweep of supervised processes does is a parameter,
  and so is what the store of another root holds, in which runs without a registration are pinned.
\<close>

record 'b cycle_world =
  shipping :: "'b ship_world"
  choosing :: "'b select_world"
  breaker_clock :: clock
  toml_parser :: parser
  describe_error :: "exn \<Rightarrow> string"
  sweep_processes :: "('b tick_state, unit) op"
  error_name :: "exn \<Rightarrow> string"          \<comment> \<open>of the class\<close>
  foreign_execution :: "string \<Rightarrow> 'b tick_state \<Rightarrow> dict res option"   \<comment> \<open>\<^const>\<open>None\<close> when it has no directory\<close>

record tick_settings =
  env_channel :: string
  breaker_threshold :: int
  breaker_hours :: int

definition cycle_flow :: "'b cycle_world \<Rightarrow> 'b flow_world" where "cycle_flow w = flow (shipping w)"
definition cycle_board :: "'b cycle_world \<Rightarrow> 'b bw" where "cycle_board w = boardw (cycle_flow w)"
definition selecting :: "'b cycle_world \<Rightarrow> 'b select_world" where "selecting w = (choosing w)\<lparr>shell := cycle_board w\<rparr>"

section \<open>The pointer\<close>

definition tick_pointer :: "string \<Rightarrow> string" where "tick_pointer state_dir = state_dir @ ''/current_tick_id.txt''"
definition branch_pointer :: "string \<Rightarrow> string" where "branch_pointer state_dir = state_dir @ ''/pipeline_branch.txt''"

text \<open>\<^verbatim>\<open>[0-9A-Z]{2,26}\<close>\<close>

definition tick_id_ok :: "string \<Rightarrow> bool" where "tick_id_ok = class_between (\<lambda>c. c \<in> set (digits @ uppers)) 2 26"

definition read_prior_tick_id :: "'b bw \<Rightarrow> string \<Rightarrow> 'b board \<Rightarrow> string option res" where
  "read_prior_tick_id w state_dir s = (if \<not> path_exists s (tick_pointer state_dir) then Inr None
     else rbind (read_text w (tick_pointer state_dir) s) (\<lambda>t. Inr (if tick_id_ok (strip t) then Some (strip t) else None)))"

definition persist_tick_id :: "'b bw \<Rightarrow> string \<Rightarrow> string \<Rightarrow> bool \<Rightarrow> ('b board, unit) op" where
  "persist_tick_id w state_dir tick_id sentinel = then_op (write_text w (tick_pointer state_dir) tick_id)
     (if \<not> sentinel then ret ()
      else catch_op (write_text w (outcomes_path state_dir tick_id) (''{\"outcome\": \"tick_started\"}'' @ [newline])) (\<lambda>e. if is_os_error e then ret () else raise e))"

section \<open>A handed-off pull request\<close>

datatype handoff = Merged | Waits bool   \<comment> \<open>whether the wait counts as no progress\<close>

text \<open>A command whose absence or timeout is an answer.\<close>

definition answered :: "'b flow_world \<Rightarrow> string list \<Rightarrow> string \<Rightarrow> ('b tick_state, (int \<times> string) option) op" where
  "answered w args cwd = bind_op (run_program w args cwd) (\<lambda>r. case r of GhExit n out _ \<Rightarrow> ret (Some (n, out)) | GhTimeout _ \<Rightarrow> ret None
     | GhMissing \<Rightarrow> ret None | GhFailed \<Rightarrow> raise (OSErr 5))"

fun succeed_all :: "'b flow_world \<Rightarrow> string \<Rightarrow> string list list \<Rightarrow> ('b tick_state, bool) op" where
  "succeed_all w cwd [] = ret True"
| "succeed_all w cwd (c # cs) = bind_op (answered w c cwd) (\<lambda>r. case r of None \<Rightarrow> ret False
     | Some (n, _) \<Rightarrow> if n \<noteq> 0 then ret False else succeed_all w cwd cs)"

definition sync_project_to_base :: "'b flow_world \<Rightarrow> string \<Rightarrow> string \<Rightarrow> ('b tick_state, bool) op" where
  "sync_project_to_base w project_dir base = bind_op (answered w [''git'', ''status'', ''--porcelain''] project_dir) (\<lambda>r. case r of None \<Rightarrow> ret False
     | Some (n, out) \<Rightarrow> if n \<noteq> 0 \<or> strip out \<noteq> [] then ret False
         else succeed_all w project_dir [[''git'', ''fetch'', ''origin'', base], [''git'', ''checkout'', base], [''git'', ''merge'', ''--ff-only'', ''origin/'' @ base]])"

definition unlink_quietly :: "'b bw \<Rightarrow> string \<Rightarrow> ('b board, unit) op" where
  "unlink_quietly w path = catch_op (unlink w True path) (\<lambda>e. if is_os_error e then ret () else raise e)"

definition clear_pr_handoff_state :: "'b bw \<Rightarrow> string \<Rightarrow> ('b board, unit) op" where
  "clear_pr_handoff_state w state_dir = then_op (unlink_quietly w (branch_pointer state_dir)) (unlink_quietly w (tick_pointer state_dir))"

definition merged_handoff :: "'b flow_world \<Rightarrow> string \<Rightarrow> string \<Rightarrow> json \<Rightarrow> ('b tick_state, handoff) op" where
  "merged_handoff w project_dir state_dir base = (if truthy base \<and> \<not> is_str base then raise TypeErr
     else bind_op (sync_project_to_base w project_dir (if truthy base then str_of base else ''main'')) (\<lambda>synced.
       if synced then then_op (on_cards (clear_pr_handoff_state (boardw w) state_dir)) (ret Merged) else ret (Waits True)))"

definition judge_handoff :: "'b flow_world \<Rightarrow> string \<Rightarrow> string \<Rightarrow> string \<Rightarrow> json \<Rightarrow> ('b tick_state, handoff) op" where
  "judge_handoff w project_dir state_dir branch view = bind_op (lift_res (rbind (attr_get view ''state'') upper_of)) (\<lambda>state.
     let head = dget (dict_of view) ''headRefName'' in
     if \<not> is_str head \<or> str_of head \<noteq> branch then ret (Waits True)
     else if state = ''MERGED'' then merged_handoff w project_dir state_dir (dget (dict_of view) ''baseRefName'')
     else ret (Waits (state \<noteq> ''OPEN'')))"

text \<open>The branch given, or the one on file; whatever cannot be verified leaves the project in handoff.\<close>

definition handoff_branch :: "'b bw \<Rightarrow> string \<Rightarrow> json \<Rightarrow> 'b board \<Rightarrow> json res" where
  "handoff_branch w state_dir given s = (if given \<noteq> JNull then Inr given
     else if \<not> path_exists s (branch_pointer state_dir) then Inr (JStr [])
     else rbind (read_text w (branch_pointer state_dir) s) (\<lambda>t. Inr (JStr (strip t))))"

definition has_pending_pr_handoff :: "'b flow_world \<Rightarrow> string \<Rightarrow> string \<Rightarrow> json \<Rightarrow> ('b tick_state, handoff) op" where
  "has_pending_pr_handoff w project_dir state_dir given = bind_op (on_cards (reads (handoff_branch (boardw w) state_dir given))) (\<lambda>branch.
     if \<not> truthy branch then ret (Waits True)
     else if \<not> is_str branch then raise TypeErr
     else bind_op (answered w [''gh'', ''pr'', ''view'', str_of branch, ''--json'', ''state,baseRefName,headRefName''] project_dir) (\<lambda>r. case r of None \<Rightarrow> ret (Waits True)
       | Some (n, out) \<Rightarrow> if n \<noteq> 0 then ret (Waits True)
           else (case loads out of None \<Rightarrow> ret (Waits True) | Some view \<Rightarrow> judge_handoff w project_dir state_dir (str_of branch) view)))"

section \<open>The delivery of a run\<close>

definition LEGACY_DELIVERIES :: "string list" where "LEGACY_DELIVERIES = [''phase_8_finish_branch'', ''phase_7_ship'']"

definition legacy_delivery :: "string list \<Rightarrow> string option" where
  "legacy_delivery ks = find (\<lambda>k. k \<in> set ks) LEGACY_DELIVERIES"

definition identity_ok :: "'b flow_world \<Rightarrow> string \<Rightarrow> string \<Rightarrow> string \<Rightarrow> string \<Rightarrow> dict \<Rightarrow> bool" where
  "identity_ok w project_dir state_dir tick_id key pinned \<longleftrightarrow> (let c = contract_of pinned in
     dget pinned ''registration_id'' = JStr tick_id \<and> dget pinned ''phase'' = JStr key \<and> dget c ''kind'' = JStr ''profile''
     \<and> dget c ''tick_id'' = JStr tick_id \<and> dget c ''phase'' = JStr key
     \<and> dget c ''project_dir'' = JStr (slashed (real_path (sched w) project_dir)) \<and> dget c ''state_dir'' = JStr (slashed (real_path (sched w) state_dir)))"

fun handoff_records :: "'b cycle_world \<Rightarrow> string \<Rightarrow> string \<Rightarrow> string \<Rightarrow> string list \<Rightarrow> 'b tick_state \<Rightarrow> (string \<times> dict) list res" where
  "handoff_records w project_dir state_dir tick_id [] s = Inr []"
| "handoff_records w project_dir state_dir tick_id (k # ks) s = (case foreign_execution w (execution_id (sched (cycle_flow w)) tick_id k) s of
       None \<Rightarrow> handoff_records w project_dir state_dir tick_id ks s
     | Some r \<Rightarrow> rbind r (\<lambda>pinned. if \<not> identity_ok (cycle_flow w) project_dir state_dir tick_id k pinned then Inl (ExecutionError ''handoff_execution_identity_mismatch'')
         else rbind (handoff_records w project_dir state_dir tick_id ks s) (\<lambda>rest. Inr ((k, pinned) # rest))))"

definition roles_of :: "(string \<times> dict) list \<Rightarrow> json list" where
  "roles_of records = map (\<lambda>r. dget (contract_of (snd r)) ''phase_role'') records"

definition pinned_delivery :: "(string \<times> dict) list \<Rightarrow> string list \<Rightarrow> (string option \<times> json) res" where
  "pinned_delivery records ks = (let branch = dget (snd (hd records)) ''branch''; roles = roles_of records;
       deliveries = map fst (filter (\<lambda>(r, role). role = JStr ''delivery'') (zip (map fst records) roles)) in
     if length records \<noteq> length ks then Inl (ExecutionError ''handoff_execution_authority_missing'')
     else if list_ex (\<lambda>r. dget (snd r) ''branch'' \<noteq> branch) records then Inl (ExecutionError ''handoff_execution_branch_mismatch'')
     else if list_all (\<lambda>role. role = JNull) roles then Inr (legacy_delivery ks, branch)
     else case find (\<lambda>role. \<not> str_in role PHASE_ROLES) roles of Some bad \<Rightarrow> Inl (if hashable bad then ExecutionError ''handoff_execution_role_invalid'' else TypeErr)
     | None \<Rightarrow> if 1 < length deliveries then Inl (ExecutionError ''handoff_execution_delivery_ambiguous'')
     else Inr (case deliveries of [] \<Rightarrow> None | k # _ \<Rightarrow> Some k, branch))"

text \<open>The key of the delivering phase and its branch, \<^const>\<open>JNull\<close> when no authority names one.\<close>

definition registered_delivery :: "run_registration \<Rightarrow> string option \<times> json" where
  "registered_delivery reg = (if run_phases reg \<noteq> [] then (role_key (run_phases reg) ''delivery'', JStr (run_branch reg))
     else if run_manifest reg \<noteq> None then (Some ''finish'', JStr (run_branch reg))
     else (legacy_delivery (run_step_keys reg), JStr (run_branch reg)))"

definition pr_handoff_authority :: "'b cycle_world \<Rightarrow> string \<Rightarrow> string \<Rightarrow> string \<Rightarrow> (string \<times> string) list \<Rightarrow> run_registration option \<Rightarrow> 'b tick_state \<Rightarrow> (string option \<times> json) res" where
  "pr_handoff_authority w project_dir state_dir tick_id status_map pinned_run s = (case pinned_run of Some reg \<Rightarrow> Inr (registered_delivery reg)
     | None \<Rightarrow> if run_file state_dir tick_id ''registration.json'' s
         then rbind (validated_run (sched (cycle_flow w)) project_dir state_dir tick_id None s) (\<lambda>reg. Inr (registered_delivery reg))
         else rbind (profile_root (sched (cycle_flow w)) project_dir) (\<lambda>_. rbind (handoff_records w project_dir state_dir tick_id (map fst status_map) s) (\<lambda>records.
           if records = [] then Inr (legacy_delivery (map fst status_map), JNull) else pinned_delivery records (map fst status_map))))"

definition successful_pr_handoff :: "(string \<times> string) list \<Rightarrow> string option \<Rightarrow> bool" where
  "successful_pr_handoff status_map key \<longleftrightarrow> (case key of None \<Rightarrow> False | Some k \<Rightarrow> map_of status_map k = Some ''done'')"

section \<open>Runs from before\<close>

definition merged_view :: "run_registration \<Rightarrow> json \<Rightarrow> bool" where
  "merged_view reg view \<longleftrightarrow> is_dict view \<and> dget (dict_of view) ''headRefName'' = JStr (run_branch reg) \<and> dget (dict_of view) ''state'' = JStr ''MERGED''"

definition legacy_complete :: "'b cycle_world \<Rightarrow> string \<Rightarrow> string \<Rightarrow> string \<Rightarrow> string \<Rightarrow> ('b tick_state, bool) op" where
  "legacy_complete w project_dir state_dir tenant tick_id = bind_op (reads (validated_run (sched (cycle_flow w)) project_dir state_dir tick_id None)) (\<lambda>reg.
     if run_manifest reg \<noteq> None then ret False
     else bind_op (on_cards (get_todo_kanban_status (cycle_board w) tenant tick_id)) (\<lambda>statuses.
       if statuses = [] \<or> \<not> set (run_step_keys reg) \<subseteq> fst ` set statuses \<or> list_ex (\<lambda>kv. snd kv \<notin> set COMPLETION_STATUSES) statuses then ret False
       else bind_op (reads (pr_handoff_authority w project_dir state_dir tick_id statuses (Some reg))) (\<lambda>(key, branch).
         if \<not> successful_pr_handoff statuses key then ret True
         else bind_op (gh_pr_view (cycle_flow w) (str_of branch) project_dir) (\<lambda>view. ret (merged_view reg view)))))"

definition historical_legacy_execution_complete :: "'b cycle_world \<Rightarrow> string \<Rightarrow> string \<Rightarrow> string \<Rightarrow> string \<Rightarrow> ('b tick_state, bool) op" where
  "historical_legacy_execution_complete w project_dir state_dir tenant tick_id = catch_op (legacy_complete w project_dir state_dir tenant tick_id) (\<lambda>_. ret False)"

fun still_unresolved :: "'b cycle_world \<Rightarrow> string \<Rightarrow> string \<Rightarrow> string \<Rightarrow> string list \<Rightarrow> ('b tick_state, string list) op" where
  "still_unresolved w project_dir state_dir tenant [] = ret []"
| "still_unresolved w project_dir state_dir tenant (t # ts) = bind_op (historical_legacy_execution_complete w project_dir state_dir tenant t) (\<lambda>complete.
     bind_op (still_unresolved w project_dir state_dir tenant ts) (\<lambda>rest. ret (if complete then rest else t # rest)))"

section \<open>The run the pointer names\<close>

definition breaker_of :: "tick_settings \<Rightarrow> string \<Rightarrow> string \<Rightarrow> breaker" where
  "breaker_of c state_dir channel = \<lparr>state_path = state_dir @ ''/circuit.json'', no_progress_threshold = breaker_threshold c,
     alert_dedup_hours = breaker_hours c, slack_channel = channel\<rparr>"

text \<open>One project in one tick.\<close>

record 'b project_tick =
  pt_world :: "'b cycle_world"
  pt_project :: string
  pt_slug :: string
  pt_state :: string
  pt_breaker :: breaker

definition stalls :: "'b project_tick \<Rightarrow> bool \<Rightarrow> string \<Rightarrow> ('b tick_state, bool) op" where
  "stalls t counts detail = then_op (on_cards (observe (cycle_board (pt_world t)) (breaker_clock (pt_world t)) (pt_breaker t) None counts detail)) (ret False)"

definition pt_flow :: "'b project_tick \<Rightarrow> 'b flow_world" where "pt_flow t = cycle_flow (pt_world t)"
definition pt_board :: "'b project_tick \<Rightarrow> 'b bw" where "pt_board t = cycle_board (pt_world t)"

text \<open>\<^const>\<open>None\<close>: the sidecar of the ship gate does not decide; otherwise whether its pull request is merged.\<close>

definition ship_gate_handoff :: "'b project_tick \<Rightarrow> string \<Rightarrow> ('b tick_state, handoff option) op" where
  "ship_gate_handoff t prior = then_op (maybe_ship_ready (shipping (pt_world t)) (pt_project t) (pt_slug t) prior (pt_state t) (slack_channel (pt_breaker t)))
     (bind_op (on_cards (reads (read_sidecar (pt_board t) (pt_state t) prior))) (\<lambda>sc. case sc of None \<Rightarrow> ret None
       | Some c \<Rightarrow> bind_op (has_pending_pr_handoff (pt_flow t) (pt_project t) (pt_state t) (dget c ''work_branch'')) (\<lambda>h. ret (Some h))))"

definition pinned_object :: "'b project_tick \<Rightarrow> string \<Rightarrow> 'b tick_state \<Rightarrow> dict res" where
  "pinned_object t prior s = (case stored_registration (sched (pt_flow t)) (pt_state t) prior s of
       Inr v \<Rightarrow> Inr (dict_of v)
     | Inl e \<Rightarrow> if is_os_error e \<or> e = ValueErr ''unicode'' \<or> e = ValueErr ''json'' then Inr [] else Inl e)"

text \<open>The pinned issue, read once, and how it differs from its pin.\<close>

definition live_drift :: "'b project_tick \<Rightarrow> dict \<Rightarrow> string option \<Rightarrow> ('b tick_state, issue_todo option \<times> string option) op" where
  "live_drift t pinned repo = (let n = dget pinned ''issue_number''; env = issues_env (pt_flow t) in
     bind_op (capture (if is_int n \<and> int_of n > 0 then bind_op (on_remote (fetch_issue env n repo)) (\<lambda>i. ret (Some i)) else ret None)) (\<lambda>r. case r of
         Inl e \<Rightarrow> (case e of GitHubIssuesError code \<Rightarrow> ret (None, Some (''issue_unavailable:'' @ code)) | _ \<Rightarrow> raise e)
       | Inr live \<Rightarrow> bind_op (on_remote (check_issue_drift env pinned repo live False)) (\<lambda>drift. ret (live, drift))))"

definition flag_issue_drift :: "'b project_tick \<Rightarrow> string \<Rightarrow> string \<Rightarrow> string option \<Rightarrow> ('b tick_state, unit) op" where
  "flag_issue_drift t prior code repo = bind_op (reads (validated_run (sched (pt_flow t)) (pt_project t) (pt_state t) prior repo)) (\<lambda>_.
     catch_op (bind_op (on_cards (record_tracker_error (selecting (pt_world t)) (pt_state t) (prior @ ''-issue-drift'') (''issue_drift:'' @ code))) (\<lambda>_. ret ()))
       (\<lambda>e. if e = FILE_EXISTS then ret () else raise e))"

definition closeout_begun :: "'b project_tick \<Rightarrow> string \<Rightarrow> 'b tick_state \<Rightarrow> bool" where
  "closeout_begun t prior s \<longleftrightarrow> run_file (pt_state t) prior CLOSE_STARTED s \<or> run_file (pt_state t) prior ''finish-verified'' s"

text \<open>What the drift of the issue leaves to reconcile: everything, only the delivery, or nothing.\<close>

datatype drift_gate = AllPhases | DeliveryOnly | Blocked

definition issue_gate :: "'b project_tick \<Rightarrow> string \<Rightarrow> string option \<Rightarrow> ('b tick_state, drift_gate) op" where
  "issue_gate t prior repo = bind_op (reads (pinned_object t prior)) (\<lambda>pinned. bind_op (live_drift t pinned repo) (\<lambda>(live, drift) s. case drift of
       None \<Rightarrow> bind_op (ensure_in_progress_label (pt_flow t) (JObj pinned) repo live) (\<lambda>_. ret AllPhases) s
     | Some code \<Rightarrow> if code = ''issue_closed'' \<and> closeout_begun t prior s then (Inr DeliveryOnly, s)
         else if startswith code ''issue_unavailable:'' then (Inr AllPhases, s)
         else then_op (catch_op (flag_issue_drift t prior code repo) (\<lambda>_. ret ())) (ret Blocked) s))"

text \<open>A reconciler that raises a contract error or does not succeed ends the tick.\<close>

definition reconciled_by :: "'b project_tick \<Rightarrow> string \<Rightarrow> string \<Rightarrow> ('b tick_state, bool) op \<Rightarrow> ('b tick_state, bool) op" where
  "reconciled_by t prior label m = bind_op (capture m) (\<lambda>r. case r of
       Inl e \<Rightarrow> if is_contract_error e then stalls t True [] else raise e
     | Inr ok \<Rightarrow> if ok then ret True
         else bind_op (on_cards (reads (validation_blocked_summary (pt_board t) (pt_state t) prior))) (\<lambda>stalled.
           stalls t True (label @ '' reconciliation blocked'' @ (if stalled = [] then [] else '': '' @ stalled))))"

definition and_then :: "('s, bool) op \<Rightarrow> ('s, bool) op \<Rightarrow> ('s, bool) op" where
  "and_then m k = bind_op m (\<lambda>on. if on then k else ret False)"

definition reconcile_run :: "'b project_tick \<Rightarrow> string \<Rightarrow> string option \<Rightarrow> bool \<Rightarrow> ('b tick_state, bool) op" where
  "reconcile_run t prior repo delivery_only = (let w = pt_flow t; p = pt_project t; d = pt_state t; tenant = pt_slug t;
       delivery = reconciled_by t prior ''delivery'' (reconcile_todo_completion w p d tenant prior (the_repo repo)) in
     if delivery_only then delivery
     else and_then (reconciled_by t prior ''result'' (reconcile_plan_task_results (describe_error (pt_world t)) w p d tenant prior repo))
       (and_then (reconciled_by t prior ''review'' (reconcile_reviews w p d tenant prior repo)) delivery))"

text \<open>Identity of the repository, drift of the issue, reconcilers.\<close>

definition reconcile_prior :: "'b project_tick \<Rightarrow> string \<Rightarrow> ('b tick_state, bool) op" where
  "reconcile_prior t prior s = (if \<not> run_file (pt_state t) prior ''registration.json'' s then reconcile_run t prior None False s
     else bind_op (capture (on_remote (reads (repository_identity (issues_env (pt_flow t)))))) (\<lambda>r. case r of
         Inl e \<Rightarrow> if is_issues_error e then stalls t True [] else raise e
       | Inr repo \<Rightarrow> (\<lambda>s. if registration_state (pt_state t) prior s \<noteq> ''active'' then reconcile_run t prior (Some repo) False s
           else bind_op (issue_gate t prior (Some repo)) (\<lambda>g. case g of Blocked \<Rightarrow> stalls t True []
             | AllPhases \<Rightarrow> reconcile_run t prior (Some repo) False | DeliveryOnly \<Rightarrow> reconcile_run t prior (Some repo) True) s)) s)"

definition blocked_cards_text :: "(string \<times> string) list \<Rightarrow> string" where
  "blocked_cards_text status_map = ''blocked kanban phases: '' @ join '', '' (map fst (filter (\<lambda>kv. snd kv = ''blocked'') status_map))"

text \<open>Cards that are not all done: blocked, none at all, or at work.\<close>

definition unfinished_prior :: "'b project_tick \<Rightarrow> string \<Rightarrow> ('b tick_state, bool) op" where
  "unfinished_prior t prior = bind_op (on_cards (get_todo_kanban_status (pt_board t) (pt_slug t) prior)) (\<lambda>status_map.
     if list_ex (\<lambda>kv. snd kv = ''blocked'') status_map
     then then_op (on_cards (observe_outcomes (pt_board t) (pt_state t) prior status_map)) (stalls t True (blocked_cards_text status_map))
     else if status_map = [] then stalls t True [] else ret False)"

definition awaits_handoff :: "'b project_tick \<Rightarrow> json \<Rightarrow> ('b tick_state, bool) op" where
  "awaits_handoff t branch = bind_op (has_pending_pr_handoff (pt_flow t) (pt_project t) (pt_state t) branch) (\<lambda>h. case h of Merged \<Rightarrow> ret True | Waits counts \<Rightarrow> stalls t counts [])"

definition observe_prior :: "'b project_tick \<Rightarrow> string \<Rightarrow> ('b tick_state, bool) op" where
  "observe_prior t prior = then_op (on_cards (observe_from_outcomes (pt_board t) (breaker_clock (pt_world t)) (pt_breaker t) (pt_state t) prior)) (ret True)"

definition finished_prior :: "'b project_tick \<Rightarrow> string \<Rightarrow> bool \<Rightarrow> ('b tick_state, bool) op" where
  "finished_prior t prior by_gate = bind_op (on_cards (get_todo_kanban_status (pt_board t) (pt_slug t) prior)) (\<lambda>status_map.
     then_op (on_cards (observe_outcomes (pt_board t) (pt_state t) prior status_map))
       (if by_gate then observe_prior t prior
        else bind_op (reads (pr_handoff_authority (pt_world t) (pt_project t) (pt_state t) prior status_map None)) (\<lambda>(key, branch).
          and_then (if successful_pr_handoff status_map key then awaits_handoff t branch else ret True) (observe_prior t prior))))"

text \<open>Whatever breaks while a finished run is observed ends the tick as no progress.\<close>

definition close_prior :: "'b project_tick \<Rightarrow> string \<Rightarrow> bool \<Rightarrow> ('b tick_state, bool) op" where
  "close_prior t prior by_gate = catch_op (finished_prior t prior by_gate) (\<lambda>_. stalls t True [])"

definition settle_prior :: "'b project_tick \<Rightarrow> string \<Rightarrow> ('b tick_state, bool) op" where
  "settle_prior t prior = bind_op (ship_gate_handoff t prior) (\<lambda>h. case h of
       Some (Waits counts) \<Rightarrow> stalls t counts []
     | Some Merged \<Rightarrow> close_prior t prior True
     | None \<Rightarrow> and_then (reconcile_prior t prior)
         (bind_op (on_cards (all_phases_complete (pt_board t) (pt_slug t) prior (Some (pt_state t)))) (\<lambda>complete.
           if complete then close_prior t prior False else unfinished_prior t prior)))"

section \<open>Up to selection\<close>

definition check_history :: "'b project_tick \<Rightarrow> string option \<Rightarrow> ('b tick_state, bool) op" where
  "check_history t prior = bind_op (capture (bind_op (reads (unresolved_execution_runs (pt_flow t) (pt_state t) prior))
       (still_unresolved (pt_world t) (pt_project t) (pt_state t) (pt_slug t)))) (\<lambda>r. case r of
       Inl e \<Rightarrow> if is_os_error e then stalls t True (''historical registration state unavailable: '' @ error_name (pt_world t) e) else raise e
     | Inr left \<Rightarrow> if left = [] then ret True else stalls t True (''unresolved historical execution runs: '' @ join '', '' left))"

text \<open>A run that was explicitly ended releases the pointer.\<close>

definition held_pointer :: "string \<Rightarrow> string option \<Rightarrow> 'b tick_state \<Rightarrow> string option" where
  "held_pointer state_dir prior s = (case prior of None \<Rightarrow> None
     | Some p \<Rightarrow> if run_file state_dir p ''registration.json'' s \<and> registration_state state_dir p s \<noteq> ''active'' then None else Some p)"

definition resume_with :: "'b project_tick \<Rightarrow> ('b tick_state, bool) op" where
  "resume_with t = bind_op (on_cards (reads (read_prior_tick_id (pt_board t) (pt_state t)))) (\<lambda>pointer.
     then_op (reconcile_pending_deliveries (pt_flow t) (pt_project t) (pt_state t) (pt_slug t) pointer)
       (\<lambda>s. let prior = held_pointer (pt_state t) pointer s in
         and_then (case prior of None \<Rightarrow> ret True | Some p \<Rightarrow> settle_prior t p) (check_history t prior) s))"

definition project_channel :: "'b cycle_world \<Rightarrow> tick_settings \<Rightarrow> string \<Rightarrow> dict option \<Rightarrow> 'b board \<Rightarrow> string res" where
  "project_channel w c project_dir toml_data s = rbind (if toml_data = None then read_project_toml (toml_parser w) (cycle_board w) project_dir s else Inr toml_data)
     (resolve_slack_channel (env_channel c))"

definition project_tick_of :: "'b cycle_world \<Rightarrow> tick_settings \<Rightarrow> string \<Rightarrow> string \<Rightarrow> string \<Rightarrow> string \<Rightarrow> 'b project_tick" where
  "project_tick_of w c project_dir slug state_dir channel = \<lparr>pt_world = w, pt_project = project_dir, pt_slug = slug, pt_state = state_dir, pt_breaker = breaker_of c state_dir channel\<rparr>"

definition resume :: "'b cycle_world \<Rightarrow> tick_settings \<Rightarrow> string \<Rightarrow> string \<Rightarrow> string \<Rightarrow> dict option \<Rightarrow> ('b tick_state, bool) op" where
  "resume w c project_dir slug state_dir toml_data = then_op (sweep_processes w)
     (and_then (on_cards (reconcile_pending_task_create (cycle_board w) project_dir False))
       (bind_op (on_cards (reads (project_channel w c project_dir toml_data))) (\<lambda>channel. resume_with (project_tick_of w c project_dir slug state_dir channel))))"

end
