(* ===== verification/ResumeSafety.thy ===== *)
theory ResumeSafety
  imports TickResume ShipSafety
begin

text \<open>
  Safety of \<^theory_text>\<open>TickResume\<close>: a tick that goes on to select has settled the run before it and leaves nothing
  unresolved behind.
\<close>

section \<open>What it means to go on\<close>

lemma stalls_end: "stalls t counts detail s \<noteq> (Inr True, s')"
  by (auto simp: stalls_def then_op_def bind_op_def ret_def split: prod.splits sum.splits)

lemma bind_goes_on:
  assumes "bind_op m f s = (Inr r, s')"
  obtains x s1 where "m s = (Inr x, s1)" "f x s1 = (Inr r, s')"
  using assms by (cases "m s"; cases "fst (m s)") (auto simp: bind_op_def)

lemma and_then_on:
  assumes "and_then m k s = (Inr True, s')"
  obtains s1 where "m s = (Inr True, s1)" "k s1 = (Inr True, s')"
  using assms unfolding and_then_def by (elim bind_goes_on) (auto simp: ret_def split: if_splits)

lemma on_cards_reads: "on_cards (reads f) s = (Inr x, s') \<longleftrightarrow> f (cards s) = Inr x \<and> s' = s"
  by (auto simp: on_cards_def reads_def split: prod.splits)

section \<open>What settles a run\<close>

definition ran_ok :: "'b flow_world \<Rightarrow> string list \<Rightarrow> string \<Rightarrow> 'b tick_state \<Rightarrow> 'b tick_state \<Rightarrow> bool" where
  "ran_ok w args cwd s s' \<longleftrightarrow> (\<exists>out err. run_program w args cwd s = (Inr (GhExit 0 out err), s'))"

text \<open>The project has no changes of its own and was taken to the newest commit of a base.\<close>

definition base_synced :: "'b flow_world \<Rightarrow> string \<Rightarrow> string \<Rightarrow> 'b tick_state \<Rightarrow> 'b tick_state \<Rightarrow> bool" where
  "base_synced w project base s s' \<longleftrightarrow> (\<exists>out err s1 s2 s3. run_program w [''git'', ''status'', ''--porcelain''] project s = (Inr (GhExit 0 out err), s1)
     \<and> strip out = [] \<and> ran_ok w [''git'', ''fetch'', ''origin'', base] project s1 s2 \<and> ran_ok w [''git'', ''checkout'', base] project s2 s3
     \<and> ran_ok w [''git'', ''merge'', ''--ff-only'', ''origin/'' @ base] project s3 s')"

text \<open>
  From \<open>s\<close> to \<open>s'\<close> the pull request of a branch (the one given, or the one on file) was seen merged for that
  very branch, the project was taken to its base and the pointers were released.
\<close>

definition branch_merged :: "'b project_tick \<Rightarrow> json \<Rightarrow> 'b tick_state \<Rightarrow> 'b tick_state \<Rightarrow> bool" where
  "branch_merged t branch s s' \<longleftrightarrow> (\<exists>b out err s1 view st s2. b \<noteq> [] \<and> handoff_branch (boardw (pt_flow t)) (pt_state t) branch (cards s) = Inr (JStr b)
     \<and> run_program (pt_flow t) [''gh'', ''pr'', ''view'', b, ''--json'', ''state,baseRefName,headRefName''] (pt_project t) s = (Inr (GhExit 0 out err), s1)
     \<and> loads out = Some (JObj view) \<and> dget view ''state'' = JStr st \<and> upper st = ''MERGED'' \<and> dget view ''headRefName'' = JStr b
     \<and> base_synced (pt_flow t) (pt_project t) (if truthy (dget view ''baseRefName'') then str_of (dget view ''baseRefName'') else ''main'') s1 s2
     \<and> on_cards (clear_pr_handoff_state (boardw (pt_flow t)) (pt_state t)) s2 = (Inr (), s'))"

text \<open>The status of the cards was read and logged.\<close>

definition status_logged :: "'b project_tick \<Rightarrow> string \<Rightarrow> (string \<times> string) list \<Rightarrow> 'b tick_state \<Rightarrow> 'b tick_state \<Rightarrow> bool" where
  "status_logged t p status s s' \<longleftrightarrow> (\<exists>s1. on_cards (get_todo_kanban_status (pt_board t) (pt_slug t) p) s = (Inr status, s1)
     \<and> on_cards (observe_outcomes (pt_board t) (pt_state t) p status) s1 = (Inr (), s'))"

text \<open>
  Every card of the run is done or failed (without cards the log says that nothing was picked), and when the
  card that delivers is done by the status read after that, its branch is merged.
\<close>

definition cards_settled :: "'b project_tick \<Rightarrow> string \<Rightarrow> 'b tick_state \<Rightarrow> 'b tick_state \<Rightarrow> bool" where
  "cards_settled t p s s' \<longleftrightarrow> (\<exists>u1 m u2 status u3 key branch u4. reconcile_prior t p s = (Inr True, u1)
     \<and> on_cards (get_todo_kanban_status (pt_board t) (pt_slug t) p) u1 = (Inr m, u2)
     \<and> (if m = [] then no_cards_complete (pt_board t) (pt_state t) p (cards u2) = Inr True else list_all (\<lambda>kv. snd kv \<in> {''done'', ''failed''}) m)
     \<and> status_logged t p status u2 u3
     \<and> pr_handoff_authority (pt_world t) (pt_project t) (pt_state t) p status None u3 = Inr (key, branch)
     \<and> (if \<exists>k. key = Some k \<and> map_of status k = Some ''done'' then branch_merged t branch u3 u4 else u4 = u3)
     \<and> observe_prior t p u4 = (Inr True, s'))"

text \<open>The branch the sidecar of the ship gate names is merged.\<close>

definition gate_settled :: "'b project_tick \<Rightarrow> string \<Rightarrow> json \<Rightarrow> 'b tick_state \<Rightarrow> 'b tick_state \<Rightarrow> bool" where
  "gate_settled t p branch s s' \<longleftrightarrow> (\<exists>u1 status u2. branch_merged t branch s u1 \<and> status_logged t p status u1 u2 \<and> observe_prior t p u2 = (Inr True, s'))"

text \<open>The ship gate first tries to ship; then its sidecar, if there is one, decides, and otherwise the cards.\<close>

definition run_settled :: "'b project_tick \<Rightarrow> string \<Rightarrow> 'b tick_state \<Rightarrow> 'b tick_state \<Rightarrow> bool" where
  "run_settled t p s s' \<longleftrightarrow> (\<exists>u s1 sc. maybe_ship_ready (shipping (pt_world t)) (pt_project t) (pt_slug t) p (pt_state t) (slack_channel (pt_breaker t)) s = (Inr u, s1)
     \<and> read_sidecar (pt_board t) (pt_state t) p (cards s1) = Inr sc
     \<and> (case sc of None \<Rightarrow> cards_settled t p s1 s' | Some d \<Rightarrow> gate_settled t p (dget d ''work_branch'') s1 s'))"

section \<open>The operations guarantee it\<close>

lemma answered_on: "answered w args cwd s = (Inr (Some (n, out)), s') \<Longrightarrow> \<exists>err. run_program w args cwd s = (Inr (GhExit n out err), s')"
  unfolding answered_def by (elim bind_goes_on) (auto simp: ret_def raise_def split: gh_outcome.splits)

lemma succeed_on:
  assumes "succeed_all w cwd (c # cs) s = (Inr True, s')"
  obtains s1 where "ran_ok w c cwd s s1" "succeed_all w cwd cs s1 = (Inr True, s')"
  using assms unfolding succeed_all.simps ran_ok_def
  by (elim bind_goes_on) (auto simp: ret_def split: option.splits if_splits dest!: answered_on)

lemma sync_on:
  assumes "sync_project_to_base w project base s = (Inr True, s')"
  shows "base_synced w project base s s'"
proof -
  obtain out err s1 where "run_program w [''git'', ''status'', ''--porcelain''] project s = (Inr (GhExit 0 out err), s1)" "strip out = []"
    and r: "succeed_all w project [[''git'', ''fetch'', ''origin'', base], [''git'', ''checkout'', base], [''git'', ''merge'', ''--ff-only'', ''origin/'' @ base]] s1 = (Inr True, s')"
    using assms unfolding sync_project_to_base_def
    by (elim bind_goes_on) (auto simp: ret_def simp del: succeed_all.simps split: option.splits if_splits dest!: answered_on)
  moreover obtain s2 s3 s4 where "ran_ok w [''git'', ''fetch'', ''origin'', base] project s1 s2" "ran_ok w [''git'', ''checkout'', base] project s2 s3"
      "ran_ok w [''git'', ''merge'', ''--ff-only'', ''origin/'' @ base] project s3 s4" "succeed_all w project [] s4 = (Inr True, s')"
    using r by (elim succeed_on)
  ultimately show ?thesis unfolding base_synced_def by (auto simp: ret_def)
qed

lemma merged_on:
  assumes "has_pending_pr_handoff (pt_flow t) (pt_project t) (pt_state t) branch s = (Inr Merged, s')"
  shows "branch_merged t branch s s'"
proof -
  obtain b out err s1 v where b: "b \<noteq> []" "handoff_branch (boardw (pt_flow t)) (pt_state t) branch (cards s) = Inr (JStr b)"
    and p: "run_program (pt_flow t) [''gh'', ''pr'', ''view'', b, ''--json'', ''state,baseRefName,headRefName''] (pt_project t) s = (Inr (GhExit 0 out err), s1)"
    and v: "loads out = Some v" and j: "judge_handoff (pt_flow t) (pt_project t) (pt_state t) b v s1 = (Inr Merged, s')"
    using assms unfolding has_pending_pr_handoff_def
    by (elim bind_goes_on) (auto simp: on_cards_reads ret_def raise_def is_str_iff split: if_splits option.splits elim!: bind_goes_on dest!: answered_on)
  obtain view st where view: "v = JObj view" "dget view ''state'' = JStr st" "upper st = ''MERGED''" "dget view ''headRefName'' = JStr b"
    and m: "merged_handoff (pt_flow t) (pt_project t) (pt_state t) (dget view ''baseRefName'') s1 = (Inr Merged, s')"
    using j unfolding judge_handoff_def Let_def
    by (elim bind_goes_on) (cases v; auto simp: lift_res_def attr_get_def upper_of_def rbind_eq_Inr ret_def is_str_iff split: if_splits sum.splits)
  obtain s2 where y: "sync_project_to_base (pt_flow t) (pt_project t) (if truthy (dget view ''baseRefName'') then str_of (dget view ''baseRefName'') else ''main'') s1 = (Inr True, s2)"
    and c: "on_cards (clear_pr_handoff_state (boardw (pt_flow t)) (pt_state t)) s2 = (Inr (), s')"
    using m unfolding merged_handoff_def then_op_def
    by (auto simp: raise_def ret_def split: if_splits elim!: bind_goes_on)
  show ?thesis unfolding branch_merged_def using b p v view sync_on [OF y] c by blast
qed

lemma awaits_on: "awaits_handoff t branch s = (Inr True, s') \<Longrightarrow> branch_merged t branch s s'"
  unfolding awaits_handoff_def
  by (elim bind_goes_on) (auto simp: stalls_end ret_def split: handoff.splits intro: merged_on)

lemma close_on:
  assumes "close_prior t p by_gate s = (Inr True, s')"
  shows "finished_prior t p by_gate s = (Inr True, s')"
  using assms by (auto simp: close_prior_def catch_op_def stalls_end split: prod.splits sum.splits)

lemma finished_on:
  assumes "finished_prior t p by_gate s = (Inr True, s')"
  shows "\<exists>status u3 u4. status_logged t p status s u3 \<and> observe_prior t p u4 = (Inr True, s')
    \<and> (if by_gate then u4 = u3 else \<exists>key branch. pr_handoff_authority (pt_world t) (pt_project t) (pt_state t) p status None u3 = Inr (key, branch)
         \<and> (if \<exists>k. key = Some k \<and> map_of status k = Some ''done'' then branch_merged t branch u3 u4 else u4 = u3))"
proof -
  obtain status s1 where 1: "on_cards (get_todo_kanban_status (pt_board t) (pt_slug t) p) s = (Inr status, s1)"
    and r1: "then_op (on_cards (observe_outcomes (pt_board t) (pt_state t) p status))
       (if by_gate then observe_prior t p else bind_op (reads (pr_handoff_authority (pt_world t) (pt_project t) (pt_state t) p status None)) (\<lambda>(key, branch).
          and_then (if successful_pr_handoff status key then awaits_handoff t branch else ret True) (observe_prior t p))) s1 = (Inr True, s')"
    using assms unfolding finished_prior_def by (elim bind_goes_on) simp
  obtain u3 where 2: "on_cards (observe_outcomes (pt_board t) (pt_state t) p status) s1 = (Inr (), u3)"
    and r2: "(if by_gate then observe_prior t p else bind_op (reads (pr_handoff_authority (pt_world t) (pt_project t) (pt_state t) p status None)) (\<lambda>(key, branch).
          and_then (if successful_pr_handoff status key then awaits_handoff t branch else ret True) (observe_prior t p))) u3 = (Inr True, s')"
    using r1 unfolding then_op_def by (elim bind_goes_on) simp
  have l: "status_logged t p status s u3" unfolding status_logged_def using 1 2 by blast
  show ?thesis
  proof (cases by_gate)
    case True
    with l r2 show ?thesis by auto
  next
    case False
    then obtain key branch where k: "pr_handoff_authority (pt_world t) (pt_project t) (pt_state t) p status None u3 = Inr (key, branch)"
      and r3: "and_then (if successful_pr_handoff status key then awaits_handoff t branch else ret True) (observe_prior t p) u3 = (Inr True, s')"
      using r2 by (auto simp: reads_def split: prod.splits elim!: bind_goes_on)
    obtain u4 where a: "(if successful_pr_handoff status key then awaits_handoff t branch else ret True) u3 = (Inr True, u4)" and o: "observe_prior t p u4 = (Inr True, s')"
      using r3 by (rule and_then_on)
    have "if \<exists>k. key = Some k \<and> map_of status k = Some ''done'' then branch_merged t branch u3 u4 else u4 = u3"
      using a awaits_on by (auto simp: successful_pr_handoff_def ret_def split: option.splits if_splits)
    with l k o False show ?thesis by (simp only: if_False) blast
  qed
qed

lemma completed_on:
  assumes "on_cards (all_phases_complete w slug p (Some d)) s = (Inr True, s')"
  shows "\<exists>m. on_cards (get_todo_kanban_status w slug p) s = (Inr m, s')
    \<and> (if m = [] then no_cards_complete w d p (cards s') = Inr True else list_all (\<lambda>kv. snd kv \<in> {''done'', ''failed''}) m)"
proof -
  from assms obtain b where b: "all_phases_complete w slug p (Some d) (cards s) = (Inr True, b)" "s' = s\<lparr>cards := b\<rparr>"
    by (auto simp: on_cards_def split: prod.splits)
  from b(1) obtain m where "get_todo_kanban_status w slug p (cards s) = (Inr m, b)" "tick_complete w (Some d) p m b = Inr True"
    unfolding all_phases_complete_def by (elim bind_goes_on) (auto simp: reads_def)
  then show ?thesis using b(2)
    by (auto simp: on_cards_def tick_complete_def rbind_eq_Inr COMPLETION_STATUSES_def split: if_splits)
qed

lemma unfinished_ends: "unfinished_prior t p s \<noteq> (Inr True, s')"
proof
  assume "unfinished_prior t p s = (Inr True, s')"
  then show False unfolding unfinished_prior_def then_op_def
    by (elim bind_goes_on) (auto simp: stalls_end ret_def split: if_splits elim!: bind_goes_on)
qed

lemma settled_on:
  assumes "settle_prior t p s = (Inr True, s')"
  shows "run_settled t p s s'"
proof -
  obtain h s1 where 1: "ship_gate_handoff t p s = (Inr h, s1)" and r1: "(case h of Some (Waits counts) \<Rightarrow> stalls t counts [] | Some Merged \<Rightarrow> close_prior t p True
       | None \<Rightarrow> and_then (reconcile_prior t p) (bind_op (on_cards (all_phases_complete (pt_board t) (pt_slug t) p (Some (pt_state t)))) (\<lambda>complete.
           if complete then close_prior t p False else unfinished_prior t p))) s1 = (Inr True, s')"
    using assms unfolding settle_prior_def by (elim bind_goes_on) simp
  obtain u s0 sc where m: "maybe_ship_ready (shipping (pt_world t)) (pt_project t) (pt_slug t) p (pt_state t) (slack_channel (pt_breaker t)) s = (Inr u, s0)"
    and sc: "read_sidecar (pt_board t) (pt_state t) p (cards s0) = Inr sc"
    and k: "(case sc of None \<Rightarrow> ret None | Some c \<Rightarrow> bind_op (has_pending_pr_handoff (pt_flow t) (pt_project t) (pt_state t) (dget c ''work_branch'')) (\<lambda>h. ret (Some h))) s0 = (Inr h, s1)"
    using 1 unfolding ship_gate_handoff_def then_op_def by (elim bind_goes_on) (auto simp: on_cards_reads)
  show ?thesis
  proof (cases sc)
    case None
    then have h: "h = None" "s1 = s0" using k by (simp_all add: ret_def)
    obtain s2 where 2: "reconcile_prior t p s0 = (Inr True, s2)" "bind_op (on_cards (all_phases_complete (pt_board t) (pt_slug t) p (Some (pt_state t)))) (\<lambda>complete.
           if complete then close_prior t p False else unfinished_prior t p) s2 = (Inr True, s')"
      using r1 h by (auto elim: and_then_on)
    then obtain complete s3 where 3: "on_cards (all_phases_complete (pt_board t) (pt_slug t) p (Some (pt_state t))) s2 = (Inr complete, s3)"
      and r2: "(if complete then close_prior t p False else unfinished_prior t p) s3 = (Inr True, s')" by (elim bind_goes_on)
    have complete using r2 unfinished_ends by (cases complete) auto
    then have f: "finished_prior t p False s3 = (Inr True, s')" and c: "on_cards (all_phases_complete (pt_board t) (pt_slug t) p (Some (pt_state t))) s2 = (Inr True, s3)"
      using r2 3 close_on by auto
    from finished_on [OF f] completed_on [OF c] have "cards_settled t p s0 s'"
      unfolding cards_settled_def if_False using 2(1) by blast
    then show ?thesis unfolding run_settled_def using m sc None by fastforce
  next
    case (Some d)
    then obtain a where h: "h = Some a" and a: "has_pending_pr_handoff (pt_flow t) (pt_project t) (pt_state t) (dget d ''work_branch'') s0 = (Inr a, s1)"
      using k by (auto simp: ret_def elim!: bind_goes_on)
    then have "a = Merged" using r1 by (cases a) (auto simp: stalls_end)
    then have b: "branch_merged t (dget d ''work_branch'') s0 s1" and "finished_prior t p True s1 = (Inr True, s')"
      using a h r1 close_on merged_on by auto
    from finished_on [OF this(2)] b have "gate_settled t p (dget d ''work_branch'') s0 s'" unfolding gate_settled_def if_True by blast
    then show ?thesis unfolding run_settled_def using m sc Some by fastforce
  qed
qed

text \<open>
  C32: a tick settles before it selects.  The tick of a project goes on to select a new TODO only when the run the pointer names
  has been settled on the way: after the ship gate had its turn, the branch of its sidecar was seen merged; or,
  without a sidecar, all its cards were done or failed (or the log says that nothing was picked) and, when the card that
  delivers is done by the status just read, the branch to be delivered was seen merged.  Merged means that GitHub shows
  the pull request of that very branch merged and the clean project was taken to its base.  After that, no
  run on file has an execution that is unresolved.
\<close>

theorem resume_needs_settled_history:
  assumes "resume_with t s = (Inr True, s')"
  shows "\<exists>pointer prior s1 s2 runs. read_prior_tick_id (pt_board t) (pt_state t) (cards s) = Inr pointer \<and> prior = held_pointer (pt_state t) pointer s1
    \<and> reconcile_pending_deliveries (pt_flow t) (pt_project t) (pt_state t) (pt_slug t) pointer s = (Inr (), s1)
    \<and> (case prior of None \<Rightarrow> s2 = s1 | Some p \<Rightarrow> run_settled t p s1 s2)
    \<and> unresolved_execution_runs (pt_flow t) (pt_state t) prior s2 = Inr runs
    \<and> still_unresolved (pt_world t) (pt_project t) (pt_state t) (pt_slug t) runs s2 = (Inr [], s')"
proof -
  obtain pointer s1 where 1: "read_prior_tick_id (pt_board t) (pt_state t) (cards s) = Inr pointer"
      "reconcile_pending_deliveries (pt_flow t) (pt_project t) (pt_state t) (pt_slug t) pointer s = (Inr (), s1)"
    and r1: "and_then (case held_pointer (pt_state t) pointer s1 of None \<Rightarrow> ret True | Some p \<Rightarrow> settle_prior t p) (check_history t (held_pointer (pt_state t) pointer s1)) s1 = (Inr True, s')"
    using assms unfolding resume_with_def then_op_def Let_def by (elim bind_goes_on) (auto simp: on_cards_reads)
  let ?prior = "held_pointer (pt_state t) pointer s1"
  obtain s2 where 2: "(case ?prior of None \<Rightarrow> ret True | Some p \<Rightarrow> settle_prior t p) s1 = (Inr True, s2)" and r2: "check_history t ?prior s2 = (Inr True, s')"
    using r1 by (rule and_then_on)
  have "case ?prior of None \<Rightarrow> s2 = s1 | Some p \<Rightarrow> run_settled t p s1 s2"
    using 2 settled_on by (auto simp: ret_def split: option.splits)
  moreover obtain runs where "unresolved_execution_runs (pt_flow t) (pt_state t) ?prior s2 = Inr runs"
      "still_unresolved (pt_world t) (pt_project t) (pt_state t) (pt_slug t) runs s2 = (Inr [], s')"
    using r2 unfolding check_history_def
    by (elim bind_goes_on) (auto simp: capture_def bind_op_def reads_def stalls_end raise_def ret_def split: prod.splits sum.splits if_splits)
  ultimately show ?thesis using 1 by blast
qed

definition rx_program :: "string list \<Rightarrow> string \<Rightarrow> nat \<Rightarrow> gh_outcome \<times> nat" where
  "rx_program args cwd n = (if hd args = ''gh'' then (GhExit 0 ''{\"state\":\"MERGED\",\"headRefName\":\"b\",\"baseRefName\":\"main\"}'' [], n) else (GhExit 0 [] [], n))"

definition rx_world :: "nat cycle_world" where
  "rx_world = \<lparr>shipping = sx_world\<lparr>flow := (flow sx_world)\<lparr>program := rx_program, run_names := (\<lambda>_ _. Inr [])\<rparr>\<rparr>,
     choosing = \<lparr>shell = sx_board, plain_files = (\<lambda>_ _. Inr []), hex_digest = (\<lambda>_. []), iso_now = [], zero_width = CHR 0x07\<rparr>,
     breaker_clock = \<lparr>seconds_since = (\<lambda>_. Inr 0), now_stamp = [], float_succ = (\<lambda>v. v)\<rparr>, toml_parser = undefined, describe_error = (\<lambda>_. []),
     sweep_processes = ret (), error_name = (\<lambda>_. []), foreign_execution = (\<lambda>_ _. None)\<rparr>"

definition rx_tick :: "nat project_tick" where
  "rx_tick = \<lparr>pt_world = rx_world, pt_project = ''/p'', pt_slug = ''s'', pt_state = ''/x'',
     pt_breaker = \<lparr>state_path = ''/x/circuit.json'', no_progress_threshold = 3, alert_dedup_hours = 1, slack_channel = []\<rparr>\<rparr>"

definition rx_state :: "nat tick_state" where
  "rx_state = \<lparr>execs = empty_store [], cards = \<lparr>remote = 0, texts = [''/x/outcomes/T1-ship.json'' \<mapsto> sx_sidecar, ''/x/current_tick_id.txt'' \<mapsto> ''T1'']\<rparr>\<rparr>"

lemma rx_resume: "fst (resume_with rx_tick rx_state) = Inr True"
  by code_simp

lemma rx_pointer: "read_prior_tick_id (pt_board rx_tick) (pt_state rx_tick) (cards rx_state) = Inr (Some ''T1'')"
  "held_pointer ''/x'' (Some ''T1'') (snd (reconcile_pending_deliveries (pt_flow rx_tick) (pt_project rx_tick) (pt_state rx_tick) (pt_slug rx_tick) (Some ''T1'') rx_state)) = Some ''T1''"
  by code_simp+

theorem resume_needs_settled_history_witness:
  "\<exists>s' s1 s2 runs. resume_with rx_tick rx_state = (Inr True, s') \<and> run_settled rx_tick ''T1'' s1 s2
    \<and> unresolved_execution_runs (pt_flow rx_tick) ''/x'' (Some ''T1'') s2 = Inr runs \<and> still_unresolved rx_world ''/p'' ''/x'' ''s'' runs s2 = (Inr [], s')"
proof -
  obtain s' where r: "resume_with rx_tick rx_state = (Inr True, s')" using rx_resume by (cases "resume_with rx_tick rx_state") auto
  have t: "pt_state rx_tick = ''/x''" "pt_project rx_tick = ''/p''" "pt_slug rx_tick = ''s''" "pt_world rx_tick = rx_world" by (simp_all add: rx_tick_def)
  from resume_needs_settled_history [OF r] obtain pointer prior s1 s2 runs where
    1: "read_prior_tick_id (pt_board rx_tick) (pt_state rx_tick) (cards rx_state) = Inr pointer" "prior = held_pointer (pt_state rx_tick) pointer s1"
      "reconcile_pending_deliveries (pt_flow rx_tick) (pt_project rx_tick) (pt_state rx_tick) (pt_slug rx_tick) pointer rx_state = (Inr (), s1)"
    and 2: "case prior of None \<Rightarrow> s2 = s1 | Some p \<Rightarrow> run_settled rx_tick p s1 s2" "unresolved_execution_runs (pt_flow rx_tick) (pt_state rx_tick) prior s2 = Inr runs"
      "still_unresolved (pt_world rx_tick) (pt_project rx_tick) (pt_state rx_tick) (pt_slug rx_tick) runs s2 = (Inr [], s')" by blast
  have "pointer = Some ''T1''" using 1(1) rx_pointer(1) by simp
  then have "prior = Some ''T1''" using 1(2,3) rx_pointer(2) t by simp
  then show ?thesis using r 2 t by auto
qed

end
