(* ===== verification/RunCreation.thy ===== *)
theory RunCreation
  imports Delivery Selection
begin

text \<open>
  The creation of a run, \<^verbatim>\<open>register_pinned_run\<close> of \<^verbatim>\<open>hermes_pipeline/run_registration.py\<close>: the issue snapshot
  and the Plan it pins, the branch and the linked worktree, and the registration that is written once.

  A registration is the dictionary of the fields of the dataclass.  File descriptors, modes and the identity of
  directories are not modelled: a file of the run is a text that is read and replaced as a whole.
\<close>

record 'b creation_world =
  creating :: "'b flow_world"
  working_dir :: "string list"

definition reg_error :: "string \<Rightarrow> exn" where "reg_error code = RunRegistrationError code"

definition text_hash :: "'b flow_world \<Rightarrow> string \<Rightarrow> string" where "text_hash w t = bytes_hash (run_env (sched w)) (utf8_encode t)"

section \<open>Git\<close>

definition reg_git :: "'b flow_world \<Rightarrow> string \<Rightarrow> string list \<Rightarrow> ('b tick_state, int \<times> string) op" where
  "reg_git w cwd args = bind_op (run_program w (''git'' # args) cwd) (\<lambda>r. case r of GhExit n out _ \<Rightarrow> ret (n, out) | GhTimeout _ \<Rightarrow> raise SubprocessErr
     | GhMissing \<Rightarrow> raise FileNotFound | GhFailed \<Rightarrow> raise (OSErr 5))"

definition checked_git :: "'b flow_world \<Rightarrow> string \<Rightarrow> string list \<Rightarrow> ('b tick_state, string) op" where
  "checked_git w cwd args = bind_op (reg_git w cwd args) (\<lambda>(n, out). if n \<noteq> 0 then raise (reg_error ''git_error'') else ret out)"

definition COMMON_DIR :: "string list" where "COMMON_DIR = [''rev-parse'', ''--path-format=absolute'', ''--git-common-dir'']"

definition repository_root :: "'b flow_world \<Rightarrow> string \<Rightarrow> ('b tick_state, string list) op" where
  "repository_root w project_dir = bind_op (checked_git w project_dir COMMON_DIR) (\<lambda>out.
     let common = real_path (sched w) (strip out) in
     if common = [] \<or> last common \<noteq> ''.git'' then raise (reg_error ''repository_invalid'') else ret (butlast common))"

definition tracked_bytes :: "'b flow_world \<Rightarrow> string \<Rightarrow> string \<Rightarrow> string \<Rightarrow> bool \<Rightarrow> ('b tick_state, string) op" where
  "tracked_bytes w project_dir base path require_unchanged = bind_op (reg_git w project_dir [''cat-file'', ''-e'', base @ '':'' @ path]) (\<lambda>(n, _).
     if n \<noteq> 0 then raise (reg_error ''authority_untracked'')
     else bind_op (if require_unchanged then reg_git w project_dir [''diff'', ''--quiet'', base, ''--'', path] else ret (0, [])) (\<lambda>(m, _).
       if m \<noteq> 0 then raise (reg_error ''authority_drift'')
       else bind_op (reg_git w project_dir [''show'', base @ '':'' @ path]) (\<lambda>(k, out). if k \<noteq> 0 then raise (reg_error ''authority_untracked'') else ret out)))"

definition removeprefix :: "string \<Rightarrow> string \<Rightarrow> string" where
  "removeprefix p s = (if startswith s p then drop (length p) s else s)"

definition default_branch :: "'b flow_world \<Rightarrow> string \<Rightarrow> ('b tick_state, string option) op" where
  "default_branch w project_dir = bind_op (reg_git w project_dir [''symbolic-ref'', ''--short'', ''refs/remotes/origin/HEAD'']) (\<lambda>(n, out).
     ret (if n \<noteq> 0 \<or> strip out = [] then None else Some (removeprefix ''origin/'' (strip out))))"

definition ref_exists :: "'b flow_world \<Rightarrow> string \<Rightarrow> string \<Rightarrow> ('b tick_state, bool) op" where
  "ref_exists w project_dir ref = bind_op (reg_git w project_dir [''show-ref'', ''--verify'', ''--quiet'', ref]) (\<lambda>(n, _). ret (n = 0))"

section \<open>The branch\<close>

definition registers_branch :: "'b flow_world \<Rightarrow> string \<Rightarrow> int \<Rightarrow> string \<Rightarrow> 'b tick_state \<Rightarrow> string \<Rightarrow> bool" where
  "registers_branch w state_dir number branch s tick_id = (case rbind (read_text (boardw w) (run_path state_dir tick_id ''registration.json'') (cards s)) parse_json of
       Inl _ \<Rightarrow> False | Inr v \<Rightarrow> is_dict v \<and> py_eq (dget (dict_of v) ''issue_number'') (JInt number) \<and> dget (dict_of v) ''branch'' = JStr branch)"

definition branch_registered_for_issue :: "'b flow_world \<Rightarrow> string \<Rightarrow> int \<Rightarrow> string \<Rightarrow> 'b tick_state \<Rightarrow> bool" where
  "branch_registered_for_issue w state_dir number branch s = list_ex (registers_branch w state_dir number branch s) (registered_names w state_dir s)"

definition branch_exists :: "'b flow_world \<Rightarrow> string \<Rightarrow> string \<Rightarrow> ('b tick_state, bool) op" where
  "branch_exists w project_dir branch = bind_op (ref_exists w project_dir (''refs/heads/'' @ branch)) (\<lambda>here.
     if here then ret True else ref_exists w project_dir (''refs/remotes/origin/'' @ branch))"

definition validate_branch :: "'b flow_world \<Rightarrow> string \<Rightarrow> string \<Rightarrow> issue_todo \<Rightarrow> ('b tick_state, string) op" where
  "validate_branch w project_dir state_dir issue = (case branch_values issue of
       [branch] \<Rightarrow> if branch = [] then raise (reg_error ''branch_invalid'')
         else bind_op (reg_git w project_dir [''check-ref-format'', ''--branch'', branch]) (\<lambda>(n, _).
           if n \<noteq> 0 \<or> startswith branch ''refs/'' \<or> startswith branch ''-'' then raise (reg_error ''branch_invalid'')
           else bind_op (default_branch w project_dir) (\<lambda>main.
             if main = Some branch \<or> (main = None \<and> branch \<in> {''main'', ''master''}) then raise (reg_error ''branch_invalid'')
             else bind_op (branch_exists w project_dir branch) (\<lambda>exists s.
               if exists \<and> \<not> branch_registered_for_issue w state_dir (issue_number issue) branch s then (Inl (reg_error ''branch_exists''), s) else (Inr branch, s))))
     | _ \<Rightarrow> raise (reg_error ''branch_invalid''))"

definition run_slug :: "issue_todo \<Rightarrow> string" where
  "run_slug issue = rstrip_while (\<lambda>c. c = CHR ''-'') (take 100 (lower (issue_todo_id issue) @ ''-'' @ slug_of (lower (issue_title issue))))"

section \<open>The authority of the issue\<close>

definition expected_issue_url :: "string \<Rightarrow> int \<Rightarrow> string" where
  "expected_issue_url repo number = ''https://github.com/'' @ repo @ ''/issues/'' @ dec_int number"

definition pinned_source :: "(string \<Rightarrow> string) \<Rightarrow> issue_todo \<Rightarrow> plan_source \<Rightarrow> plan_source res" where
  "pinned_source hash_of issue src = (case rbind (split_canonical_snapshot (issue_snapshot issue)) (\<lambda>(_, _, _, body). embedded_plan_source hash_of (issue_todo_id issue) (body @ [newline])) of
       Inl e \<Rightarrow> if is_value_error e then Inl (reg_error ''plan_invalid'') else Inl e
     | Inr got \<Rightarrow> if got = Some src then Inr src else Inl (reg_error ''plan_invalid''))"

definition legacy_or_stub :: "'b creation_world \<Rightarrow> issue_todo \<Rightarrow> string \<Rightarrow> plan_source" where
  "legacy_or_stub w issue path = (case legacy_plan_source (text_hash (creating w)) (plan_world (creating w)) (working_dir w) (issue_todo_id issue) path of
       Inr src \<Rightarrow> src | Inl _ \<Rightarrow> \<lparr>source_kind = ''legacy_path'', source_document = [], source_hash = [], source_manifest = None, source_path = Some path\<rparr>)"

definition authority_checks :: "issue_todo \<Rightarrow> string \<Rightarrow> unit res" where
  "authority_checks issue repo = rbind (run_checks [
       raise_if (lower (issue_repo issue) \<noteq> lower repo) (reg_error ''authority_repo_mismatch''),
       raise_if (MAX_ISSUE_SNAPSHOT_CHARS < length (issue_snapshot issue)) (reg_error ''authority_invalid''),
       raise_if (issue_todo_id issue \<noteq> ''TODO-'' @ dec_int (issue_number issue)) (reg_error ''authority_invalid''),
       raise_if (lower (issue_url issue) \<noteq> lower (expected_issue_url (issue_repo issue) (issue_number issue))) (reg_error ''authority_invalid'')]) (\<lambda>_.
     rbind (canonical_issue_snapshot (issue_repo issue) (JInt (issue_number issue)) (issue_title issue) (issue_body issue)) (\<lambda>snapshot.
     raise_if (issue_snapshot issue \<noteq> snapshot) (reg_error ''authority_invalid'')))"

definition validate_issue_authority :: "'b creation_world \<Rightarrow> issue_todo \<Rightarrow> string \<Rightarrow> string option \<Rightarrow> plan_source res" where
  "validate_issue_authority w issue repo plan_path = rbind (authority_checks issue repo) (\<lambda>_. case issue_plan_source issue of
       Some src \<Rightarrow> if plan_path \<noteq> None \<or> plan_values issue \<noteq> [] then Inl (reg_error ''plan_invalid'') else pinned_source (text_hash (creating w)) issue src
     | None \<Rightarrow> (case plan_path of None \<Rightarrow> Inl (reg_error ''plan_invalid'')
         | Some path \<Rightarrow> if plan_values issue \<noteq> [path] then Inl (reg_error ''plan_invalid'') else Inr (legacy_or_stub w issue path)))"

section \<open>Files of the run\<close>

definition safe_tick_id :: "string \<Rightarrow> bool" where
  "safe_tick_id t \<longleftrightarrow> t \<noteq> [] \<and> t \<noteq> ''.'' \<and> t \<noteq> ''..'' \<and> CHR ''/'' \<notin> set t \<and> backslash \<notin> set t"

definition registration_path :: "string \<Rightarrow> string \<Rightarrow> string" where "registration_path state_dir tick_id = run_path state_dir tick_id ''registration.json''"

definition load_registration :: "'b flow_world \<Rightarrow> string \<Rightarrow> string \<Rightarrow> 'b tick_state \<Rightarrow> dict option res" where
  "load_registration w state_dir tick_id s = (if \<not> safe_tick_id tick_id then Inl (reg_error ''registration_invalid'')
     else (case read_text (boardw w) (registration_path state_dir tick_id) (cards s) of
         Inl e \<Rightarrow> if e = FileNotFound then Inr None else if is_os_error e \<or> e = ValueErr ''unicode'' then Inl (reg_error ''registration_invalid'') else Inl e
       | Inr t \<Rightarrow> (case loads t of Some (JObj d) \<Rightarrow> Inr (Some d) | _ \<Rightarrow> Inl (reg_error ''registration_invalid''))))"

definition bad_artifact :: exn where "bad_artifact = reg_error ''plan_artifact_invalid''"

definition read_plan :: "'b flow_world \<Rightarrow> string \<Rightarrow> string \<Rightarrow> 'b tick_state \<Rightarrow> unit res" where
  "read_plan w path expected s = (case read_text (boardw w) path (cards s) of
       Inl e \<Rightarrow> if is_os_error e then Inl bad_artifact else Inl e
     | Inr t \<Rightarrow> raise_if (text_hash w t \<noteq> expected) bad_artifact)"

definition translated :: "exn \<Rightarrow> ('b tick_state, unit) op \<Rightarrow> ('b tick_state, unit) op" where
  "translated code m = catch_op m (\<lambda>e. if is_os_error e then raise code else raise e)"

text \<open>The artifact is written when it is missing; one that is there must be the Plan.\<close>

definition materialize_artifact :: "'b flow_world \<Rightarrow> string \<Rightarrow> string \<Rightarrow> plan_source \<Rightarrow> ('b tick_state, unit) op" where
  "materialize_artifact w state_dir tick_id src = (let path = run_path state_dir tick_id ''plan.md'' in
     if text_hash w (source_document src) \<noteq> source_hash src then raise bad_artifact
     else (\<lambda>s. if path_exists (cards s) path then (read_plan w path (source_hash src) s, s)
       else then_op (translated bad_artifact (on_cards (write_text (boardw w) path (source_document src)))) (reads (read_plan w path (source_hash src))) s))"

definition registration_text :: "dict \<Rightarrow> string" where
  "registration_text payload = dumps_indent default_style 0 (sort_keys (JObj payload)) @ [newline]"

definition write_registration :: "'b flow_world \<Rightarrow> string \<Rightarrow> string \<Rightarrow> dict \<Rightarrow> ('b tick_state, unit) op" where
  "write_registration w state_dir tick_id payload = translated (reg_error ''registration_invalid'')
     (on_cards (write_text (boardw w) (registration_path state_dir tick_id) (registration_text payload)))"

section \<open>Registrations as dictionaries\<close>

definition phase_fields_dict :: "phase \<Rightarrow> dict" where
  "phase_fields_dict p = [(''phase_key'', JStr (def_key p)), (''name'', JStr (def_name p)), (''prompt'', JStr (def_prompt p)), (''tools'', JStr (def_tools p)),
     (''turns'', JInt (def_turns p)), (''timeout'', JInt (def_timeout p)), (''terminal'', JBool (def_terminal p)), (''gate'', JBool (def_gate p)),
     (''kind'', case def_kind p of None \<Rightarrow> JNull | Some k \<Rightarrow> JStr k), (''compile_plan_tasks'', JBool (def_compile p)), (''role'', JStr (def_role p))]"

definition opt_json :: "string option \<Rightarrow> json" where "opt_json v = (case v of None \<Rightarrow> JNull | Some t \<Rightarrow> JStr t)"

definition json_payload :: "dict \<Rightarrow> dict" where
  "json_payload reg = (let v = int_of (dget reg ''schema_version'') in
     filter (\<lambda>kv. \<not> (fst kv = ''phase_definitions'' \<and> v < 6) \<and> \<not> (fst kv = ''agent_policy_mode'' \<and> v < 4)) reg)"

definition phases_json :: "phase list \<Rightarrow> json" where "phases_json ps = JList (map (\<lambda>p. JObj (phase_fields_dict p)) ps)"
definition keys_json :: "phase list \<Rightarrow> json" where "keys_json ps = JList (map (\<lambda>p. JStr (def_key p)) (worker_phases ps))"

definition step_keys_of :: "dict \<Rightarrow> json res" where
  "step_keys_of d = rbind (elements (dget_or d ''step_keys'' (JList []))) (\<lambda>ks. Inr (JList ks))"

text \<open>What of a registration on file a retry takes over before it compares the rest.\<close>

definition pinned_policy :: "dict \<Rightarrow> dict \<Rightarrow> dict" where
  "pinned_policy existing reg = (let v = int_of (dget existing ''schema_version''); mode = dget existing ''agent_policy_mode'' in
     if v = 3 \<and> \<not> has_key existing ''agent_policy_mode'' then dput ''schema_version'' (JInt 3) (dput ''agent_policy_mode'' (JStr ''inherit'') reg)
     else if v = 4 \<and> mode = JStr ''delegated'' \<and> dget existing ''profile'' = JStr ''native-sdd'' then dput ''schema_version'' (JInt 4) (dput ''agent_policy_mode'' mode reg)
     else if v = 5 \<and> str_in mode [''inherit'', ''delegated''] then dput ''schema_version'' (JInt 5) (dput ''agent_policy_mode'' mode reg)
     else reg)"

definition phases_on_file :: "dict \<Rightarrow> dict \<Rightarrow> dict res" where
  "phases_on_file existing reg = (if int_of (dget existing ''schema_version'') = 6
     then rbind (decode_definitions (dget existing ''phase_definitions'')) (\<lambda>ps. rbind (need ''agent_policy_mode'' existing) (\<lambda>mode.
       Inr (dput ''phase_definitions'' (phases_json ps) (dput ''step_keys'' (keys_json ps) (dput ''agent_policy_mode'' mode reg)))))
     else if items (dget reg ''phase_definitions'') \<noteq> [] then rbind (step_keys_of existing) (\<lambda>ks. Inr (dput ''phase_definitions'' (JList []) (dput ''step_keys'' ks reg)))
     else Inr reg)"

definition match_registration :: "dict \<Rightarrow> dict \<Rightarrow> dict res" where
  "match_registration existing reg = (if \<not> is_int (dget existing ''schema_version'') then Inl (reg_error ''registration_mismatch'')
     else rbind (phases_on_file existing (pinned_policy existing reg)) (\<lambda>reg'.
       if py_eq (JObj existing) (JObj (json_payload reg')) then Inr reg' else Inl (reg_error ''registration_mismatch'')))"

section \<open>The worktree\<close>

definition worktree_matches :: "'b flow_world \<Rightarrow> string \<Rightarrow> string \<Rightarrow> string \<Rightarrow> string \<Rightarrow> ('b tick_state, unit) op" where
  "worktree_matches w target repository branch base = bind_op (reg_git w target COMMON_DIR) (\<lambda>(n, common).
     bind_op (reg_git w target [''branch'', ''--show-current'']) (\<lambda>(m, current). bind_op (reg_git w target [''rev-parse'', ''HEAD'']) (\<lambda>(k, head).
     if n \<noteq> 0 \<or> real_path (sched w) (strip common) \<noteq> real_path (sched w) (repository @ ''/.git'') \<or> m \<noteq> 0 \<or> strip current \<noteq> branch \<or> k \<noteq> 0 \<or> strip head \<noteq> base
     then raise (reg_error ''worktree_mismatch'')
     else bind_op (reg_git w target [''status'', ''--porcelain=v1'', ''--untracked-files=all'', ''-z'']) (\<lambda>(j, out).
       if j \<noteq> 0 then raise (reg_error ''worktree_mismatch'') else if out \<noteq> [] then raise (reg_error ''worktree_dirty'') else ret ()))))"

definition add_worktree :: "'b flow_world \<Rightarrow> string \<Rightarrow> string \<Rightarrow> string list \<Rightarrow> ('b tick_state, unit) op" where
  "add_worktree w repository target args = bind_op (reg_git w repository ([''worktree'', ''add''] @ args)) (\<lambda>(n, _).
     if n \<noteq> 0 then raise (reg_error ''worktree_create_failed'') else ret ())"

definition create_worktree :: "'b flow_world \<Rightarrow> string \<Rightarrow> string \<Rightarrow> string \<Rightarrow> string \<Rightarrow> ('b tick_state, unit) op" where
  "create_worktree w target repository branch base = bind_op (reg_git w repository [''show-ref'', ''--verify'', ''refs/heads/'' @ branch]) (\<lambda>(n, out).
     if n \<noteq> 0 then add_worktree w repository target [''-b'', branch, ''--'', target, base]
     else case words_of out of [] \<Rightarrow> raise IndexErr
       | sha # _ \<Rightarrow> if sha \<noteq> base then raise (reg_error ''branch_mismatch'') else add_worktree w repository target [''--'', target, branch])"

definition ensure_worktree :: "'b flow_world \<Rightarrow> string \<Rightarrow> string \<Rightarrow> string \<Rightarrow> string \<Rightarrow> ('b tick_state, unit) op" where
  "ensure_worktree w target repository branch base s = (if run_directory w target (remote (cards s)) then worktree_matches w target repository branch base s
     else create_worktree w target repository branch base s)"

text \<open>The branch for the profile's own check, in a directory that ignores itself; no failure of it counts.\<close>

definition write_if_not :: "'b bw \<Rightarrow> string \<Rightarrow> string \<Rightarrow> ('b board, bool) op \<Rightarrow> ('b board, unit) op" where
  "write_if_not w path t already = bind_op already (\<lambda>b. if b then ret () else write_text w path t)"

definition record_worktree_branch :: "'b flow_world \<Rightarrow> string \<Rightarrow> string \<Rightarrow> ('b tick_state, unit) op" where
  "record_worktree_branch w worktree branch = (let b = boardw w; marker = worktree @ ''/.hermes/.gitignore''; path = worktree @ ''/.hermes/pipeline_branch.txt''; payload = branch @ [newline] in
     bind_op (catch_op (then_op (on_cards (write_if_not b marker (''*'' @ [newline]) (\<lambda>s. (Inr (path_exists s marker), s))))
         (then_op (on_cards (write_if_not b path payload (\<lambda>s. (if path_exists s path then rbind (read_text b path s) (\<lambda>t. Inr (t = payload)) else Inr False, s)))) (ret True)))
       (\<lambda>e. if is_os_error e \<or> e = ValueErr ''unicode'' then ret False else raise e))
     (\<lambda>ok. if ok then bind_op (reg_git w worktree [''check-ignore'', ''-q'', ''.hermes/pipeline_branch.txt'']) (\<lambda>_. ret ()) else ret ()))"

section \<open>Registration\<close>

record run_request =
  req_project :: string
  req_state :: string
  req_tick :: string
  req_issue :: issue_todo
  req_plan_path :: "string option"
  req_repo :: "string option"
  req_profile :: string
  req_client :: string
  req_assignee :: string
  req_reviewer :: "string option"
  req_step_keys :: "string list"
  req_policy :: string
  req_phases :: "phase list option"

text \<open>The phases and step keys the request stands for, once a registration on file has had its say.\<close>

definition requested_phases :: "run_request \<Rightarrow> dict option \<Rightarrow> (phase list \<times> json) res" where
  "requested_phases q prior = (let mine = (case req_phases q of None \<Rightarrow> [] | Some ps \<Rightarrow> ps); given = JList (map JStr (req_step_keys q)) in case prior of
       None \<Rightarrow> Inr (mine, given)
     | Some d \<Rightarrow> let v = dget d ''schema_version'' in
         if py_eq v (JInt 6) then rbind (decode_definitions (dget d ''phase_definitions'')) (\<lambda>ps. Inr (ps, given))
         else if \<not> hashable v then Inl TypeErr
         else if list_ex (\<lambda>n. py_eq v (JInt n)) [2, 3, 4, 5]
           then (if req_phases q = None then Inr ([], given) else rbind (step_keys_of d) (\<lambda>ks. Inr ([], ks)))
         else Inr (mine, given))"

definition settled_phases :: "run_request \<Rightarrow> dict option \<Rightarrow> (phase list \<times> json) res" where
  "settled_phases q prior = rbind (requested_phases q prior) (\<lambda>(ps, ks). if ps = [] then Inr (ps, ks)
     else rbind (validate_definitions (map phase_fields_dict ps)) (\<lambda>_. Inr (ps, keys_json ps)))"

definition prior_registration :: "'b flow_world \<Rightarrow> run_request \<Rightarrow> 'b tick_state \<Rightarrow> dict option res" where
  "prior_registration w q s = (if path_exists (cards s) (registration_path (req_state q) (req_tick q)) then load_registration w (req_state q) (req_tick q) s else Inr None)"

definition requested_repo :: "'b flow_world \<Rightarrow> run_request \<Rightarrow> ('b tick_state, string) op" where
  "requested_repo w q = (case req_repo q of Some r \<Rightarrow> ret r
     | None \<Rightarrow> catch_op (on_remote (reads (repository_identity (issues_env w)))) (\<lambda>e. case e of GitHubIssuesError code \<Rightarrow> raise (reg_error code) | _ \<Rightarrow> raise e))"

definition effective_hash :: "'b flow_world \<Rightarrow> run_request \<Rightarrow> plan_source \<Rightarrow> string \<Rightarrow> ('b tick_state, string) op" where
  "effective_hash w q src base = (if source_kind src = ''embedded'' then ret (source_hash src)
     else case req_plan_path q of None \<Rightarrow> raise AssertionErr
       | Some path \<Rightarrow> bind_op (tracked_bytes w (req_project q) base path True) (\<lambda>bytes. ret (bytes_hash (run_env (sched w)) bytes)))"

definition run_dict :: "'b flow_world \<Rightarrow> run_request \<Rightarrow> phase list \<times> json \<Rightarrow> string list \<Rightarrow> string \<Rightarrow> plan_source \<Rightarrow> string \<Rightarrow> string \<Rightarrow> dict" where
  "run_dict w q pk repository base src plan_hash branch = (let i = req_issue q in
     [(''schema_version'', JInt (if fst pk \<noteq> [] then REGISTRATION_SCHEMA_VERSION else 5)), (''tick_id'', JStr (req_tick q)), (''todo_id'', JStr (issue_todo_id i)),
      (''repository'', JStr (slashed repository)), (''base_sha'', JStr base), (''issue_number'', JInt (issue_number i)), (''issue_url'', JStr (issue_url i)),
      (''issue_snapshot'', JStr (issue_snapshot i)), (''selected_entry_hash'', JStr (snapshot_hash (text_hash w) (issue_snapshot i))),
      (''plan_source_kind'', JStr (source_kind src)), (''plan_path'', opt_json (req_plan_path q)),
      (''plan_artifact'', if source_kind src = ''embedded'' then JStr ''plan.md'' else JNull), (''plan_hash'', JStr plan_hash), (''branch'', JStr branch),
      (''worktree'', JStr (slashed (real_path (sched w) (slashed repository @ ''/.worktrees/'' @ run_slug i)))), (''profile'', JStr (req_profile q)),
      (''prompt_client'', JStr (req_client q)), (''assignee'', JStr (req_assignee q)), (''review_assignee'', opt_json (req_reviewer q)), (''step_keys'', snd pk),
      (''agent_policy_mode'', JStr (if req_profile q = ''native-sdd'' then req_policy q else ''inherit'')), (''phase_definitions'', phases_json (fst pk))])"

text \<open>The record of the run, matched against the one on file; then the artifact, and the file if there was none.\<close>

definition pin_registration :: "'b flow_world \<Rightarrow> run_request \<Rightarrow> plan_source \<Rightarrow> dict \<Rightarrow> ('b tick_state, dict) op" where
  "pin_registration w q src reg = bind_op (reads (load_registration w (req_state q) (req_tick q))) (\<lambda>existing.
     bind_op (lift_res (case existing of None \<Rightarrow> Inr reg | Some d \<Rightarrow> match_registration d reg)) (\<lambda>reg'.
     then_op (if source_kind src = ''embedded'' then materialize_artifact w (req_state q) (req_tick q) src else ret ())
       (then_op (if existing = None then write_registration w (req_state q) (req_tick q) (json_payload reg') else ret ()) (ret reg'))))"

definition prepare_registration :: "'b creation_world \<Rightarrow> run_request \<Rightarrow> phase list \<times> json \<Rightarrow> ('b tick_state, plan_source \<times> dict) op" where
  "prepare_registration cw q pk = (let w = creating cw in
     bind_op (repository_root w (req_project q)) (\<lambda>repository.
     bind_op (requested_repo w q) (\<lambda>repo.
     bind_op (lift_res (validate_issue_authority cw (req_issue q) repo (req_plan_path q))) (\<lambda>src.
     if fst pk \<noteq> [] \<and> source_manifest src \<noteq> None \<and> \<not> list_ex (\<lambda>p. def_role p = ''implementation'') (worker_phases (fst pk)) then raise (reg_error ''implementation_role_missing'')
     else bind_op (checked_git w (req_project q) [''rev-parse'', ''HEAD'']) (\<lambda>head.
       bind_op (effective_hash w q src (strip head)) (\<lambda>h.
       bind_op (validate_branch w (req_project q) (req_state q) (req_issue q)) (\<lambda>branch.
       ret (src, run_dict w q pk repository (strip head) src h branch))))))))"

definition place_worktree :: "'b flow_world \<Rightarrow> dict \<Rightarrow> ('b tick_state, dict) op" where
  "place_worktree w reg = (let f = (\<lambda>k. str_of (dget reg k)) in
     then_op (ensure_worktree w (f ''worktree'') (f ''repository'') (f ''branch'') (f ''base_sha''))
       (then_op (record_worktree_branch w (f ''worktree'') (f ''branch'')) (ret reg)))"

definition register_pinned_run :: "'b creation_world \<Rightarrow> run_request \<Rightarrow> ('b tick_state, dict) op" where
  "register_pinned_run cw q = (if req_policy q \<notin> {''inherit'', ''delegated''} then raise (reg_error ''invalid_agent_policy_mode'')
     else bind_op (reads (prior_registration (creating cw) q)) (\<lambda>prior.
       bind_op (lift_res (settled_phases q prior)) (\<lambda>pk.
       bind_op (prepare_registration cw q pk) (\<lambda>(src, reg).
       bind_op (pin_registration (creating cw) q src reg) (place_worktree (creating cw))))))"

end
