(* ===== verification/CreationSafety.thy ===== *)
theory CreationSafety
  imports RunCreation ScheduleSafety
begin

text \<open>
  Safety of \<^theory_text>\<open>RunCreation\<close>: a registration on file is never rewritten, and a retry that returns one returns
  that one.
\<close>

section \<open>What keeps a file\<close>

definition keeps_text :: "string \<Rightarrow> 'b tick_state \<Rightarrow> 'b tick_state \<Rightarrow> bool" where
  "keeps_text p s s' \<longleftrightarrow> texts (cards s') p = texts (cards s) p"

interpretation kt: op_relation "keeps_text p" for p
  by unfold_locales (auto simp: keeps_text_def)

named_theorems keeping "operations that keep a file"

lemmas [keeping] = kt.obeys_simple kt.obeys_bind kt.obeys_then kt.obeys_catch kt.obeys_if kt.obeys_option

lemma keeping_prod [keeping]: "(\<And>a b. kt.obeys p (f a b)) \<Longrightarrow> kt.obeys p (case x of (a, b) \<Rightarrow> f a b)"
  by (cases x) simp

lemma keeping_list [keeping]: "kt.obeys p a \<Longrightarrow> (\<And>x xs. kt.obeys p (f x xs)) \<Longrightarrow> kt.obeys p (case v of [] \<Rightarrow> a | x # xs \<Rightarrow> f x xs)"
  by (cases v) simp_all

lemma keeping_remote [keeping]: "kt.obeys p (on_remote m)"
  by (rule kt.obeysI) (auto simp: on_remote_def keeps_text_def split: prod.splits)

lemma keeping_pure [keeping]: "kt.obeys p (\<lambda>s. (f s, s))"
  by (rule kt.obeysI) (auto simp: keeps_text_def)

lemma keeping_state [keeping]: "kt.obeys p a \<Longrightarrow> kt.obeys p b \<Longrightarrow> kt.obeys p (\<lambda>s. if c s then a s else b s)"
  by (rule kt.obeysI) (auto dest: kt.obeysD split: if_splits)

lemma keeping_write: "q \<noteq> p \<Longrightarrow> kt.obeys p (on_cards (write_text w q t))"
  by (rule kt.obeysI) (auto simp: on_cards_def write_text_def keeps_text_def split: prod.splits option.splits)

lemma keeping_write_if: "q \<noteq> p \<Longrightarrow> (\<And>s. snd (already s) = s) \<Longrightarrow> kt.obeys p (on_cards (write_if_not w q t already))"
proof (rule kt.obeysI)
  fix s r s' assume q: "q \<noteq> p" and a: "\<And>s. snd (already s) = s" and run: "on_cards (write_if_not w q t already) s = (r, s')"
  obtain b where "already (cards s) = (b, cards s)" using a [of "cards s"] by (cases "already (cards s)") auto
  with q run show "keeps_text p s s'"
    by (cases b) (auto simp: on_cards_def write_if_not_def bind_op_def ret_def write_text_def keeps_text_def split: prod.splits option.splits if_splits)
qed

lemma keeping_git [keeping]: "kt.obeys p (reg_git w cwd args)"
proof -
  have "kt.obeys p (case r of GhExit n out e \<Rightarrow> ret (n, out) | GhTimeout t \<Rightarrow> raise SubprocessErr | GhMissing \<Rightarrow> raise FileNotFound | GhFailed \<Rightarrow> raise (OSErr 5))" for r
    by (cases r) (simp_all add: keeping)
  then show ?thesis unfolding reg_git_def run_program_def by (intro keeping)
qed

lemma keeping_checked [keeping]: "kt.obeys p (checked_git w cwd args)"
  unfolding checked_git_def by (intro keeping)

section \<open>Up to the registration\<close>

lemma keeping_prepare [keeping]: "kt.obeys p (prepare_registration cw q pk)"
proof -
  have 1: "kt.obeys p (repository_root w d)" for w d unfolding repository_root_def Let_def by (intro keeping)
  have 2: "kt.obeys p (requested_repo w q)" for w
  proof -
    have "kt.obeys p (case e of GitHubIssuesError code \<Rightarrow> raise (reg_error code) | _ \<Rightarrow> raise e)" for e by (cases e) (simp_all add: keeping)
    then show ?thesis unfolding requested_repo_def by (intro keeping)
  qed
  have 3: "kt.obeys p (effective_hash w q src base)" for w src base unfolding effective_hash_def tracked_bytes_def by (intro keeping)
  have 4: "kt.obeys p (validate_branch w d sd i)" for w d sd i
    unfolding validate_branch_def default_branch_def branch_exists_def ref_exists_def by (intro keeping)
  show ?thesis unfolding prepare_registration_def Let_def by (intro keeping 1 2 3 4)
qed

section \<open>The file of the registration\<close>

lemma last_char: "last x \<noteq> last y \<Longrightarrow> x \<noteq> y"
  by auto

lemma other_files: "run_path d t ''plan.md'' \<noteq> registration_path d t'" "worktree @ ''/.hermes/.gitignore'' \<noteq> registration_path d t"
    "worktree @ ''/.hermes/pipeline_branch.txt'' \<noteq> registration_path d t"
  by (rule last_char, simp add: registration_path_def run_path_def)+

lemma keeping_artifact [keeping]: "kt.obeys (registration_path d t') (materialize_artifact w d t src)"
proof -
  have "kt.obeys (registration_path d t') (translated e (on_cards (write_text b (run_path d t ''plan.md'') x)))" for e b x
    unfolding translated_def by (intro keeping keeping_write other_files)
  then show ?thesis unfolding materialize_artifact_def Let_def by (intro keeping)
qed

lemma keeping_place [keeping]: "kt.obeys (registration_path d t) (place_worktree w reg)"
proof -
  have 1: "kt.obeys p (ensure_worktree w target repo branch base)" for p target repo branch base
    unfolding ensure_worktree_def worktree_matches_def create_worktree_def add_worktree_def by (intro keeping)
  have 2: "kt.obeys (registration_path d t) (record_worktree_branch w worktree branch)" for worktree branch
    unfolding record_worktree_branch_def Let_def by (intro keeping keeping_write_if other_files) simp_all
  show ?thesis unfolding place_worktree_def Let_def by (intro keeping 1 2)
qed

text \<open>A file that is there is found: no error of reading it says it is missing.\<close>

lemma load_present:
  assumes "texts (cards s) (registration_path d t) = Some x" and "\<forall>b. read_error (boardw w) (registration_path d t) b \<noteq> Some FileNotFound"
  shows "load_registration w d t s \<noteq> Inr None \<and> (\<forall>e. load_registration w d t s = Inr (Some e) \<longrightarrow> loads x = Some (JObj e))"
  using assms by (auto simp: load_registration_def read_text_def split: option.splits json.splits if_splits)

lemma match_exact: "match_registration d reg = Inr reg' \<Longrightarrow> py_eq (JObj d) (JObj (json_payload reg'))"
  by (auto simp: match_registration_def rbind_eq_Inr split: if_splits)

lemma pin_on_file:
  assumes p: "pin_registration w q src reg s = (r, s')" and on_file: "texts (cards s) (registration_path (req_state q) (req_tick q)) = Some x"
    and stable: "\<forall>b. read_error (boardw w) (registration_path (req_state q) (req_tick q)) b \<noteq> Some FileNotFound"
  shows "texts (cards s') (registration_path (req_state q) (req_tick q)) = Some x
    \<and> (\<forall>reg'. r = Inr reg' \<longrightarrow> (\<exists>d. loads x = Some (JObj d) \<and> py_eq (JObj d) (JObj (json_payload reg'))))"
proof (cases "load_registration w (req_state q) (req_tick q) s")
  case (Inl e)
  then show ?thesis using p on_file by (auto simp: pin_registration_def bind_op_def reads_def)
next
  case (Inr existing)
  then obtain d where d: "existing = Some d" "loads x = Some (JObj d)" using load_present [OF on_file stable] by (cases existing) auto
  let ?rest = "bind_op (lift_res (match_registration d reg)) (\<lambda>reg'. then_op (if source_kind src = ''embedded'' then materialize_artifact w (req_state q) (req_tick q) src else ret ())
     (then_op (ret ()) (ret reg')))"
  have r: "?rest s = (r, s')" using p Inr d(1) by (simp add: pin_registration_def bind_op_def reads_def)
  have "kt.obeys (registration_path (req_state q) (req_tick q)) ?rest" by (intro keeping)
  from kt.obeysD [OF this r] have "texts (cards s') (registration_path (req_state q) (req_tick q)) = Some x" using on_file by (simp add: keeps_text_def)
  moreover have "py_eq (JObj d) (JObj (json_payload reg'))" if "r = Inr reg'" for reg'
  proof -
    have "match_registration d reg = Inr reg'" using r that
      by (cases "match_registration d reg") (auto simp: bind_op_def lift_res_def then_op_def ret_def split: prod.splits sum.splits)
    then show ?thesis by (rule match_exact)
  qed
  ultimately show ?thesis using d(2) by blast
qed

text \<open>
  C21: a registration is write-once.  When one is on file for the tick, registering the run again leaves it as it is,
  however it ends; and when it returns a registration, that is the one on file, field by field.  A file that is
  there must not be reported missing.
\<close>

theorem registration_on_file_stays:
  assumes run: "register_pinned_run cw q s = (r, s')" and on_file: "texts (cards s) (registration_path (req_state q) (req_tick q)) = Some x"
    and stable: "\<forall>b. read_error (boardw (creating cw)) (registration_path (req_state q) (req_tick q)) b \<noteq> Some FileNotFound"
  shows "texts (cards s') (registration_path (req_state q) (req_tick q)) = Some x
    \<and> (\<forall>reg. r = Inr reg \<longrightarrow> (\<exists>d. loads x = Some (JObj d) \<and> py_eq (JObj d) (JObj (json_payload reg))))"
proof -
  let ?p = "registration_path (req_state q) (req_tick q)"
  let ?front = "bind_op (reads (prior_registration (creating cw) q)) (\<lambda>prior. bind_op (lift_res (settled_phases q prior)) (\<lambda>pk. prepare_registration cw q pk))"
  have split: "register_pinned_run cw q = (if req_policy q \<notin> {''inherit'', ''delegated''} then raise (reg_error ''invalid_agent_policy_mode'')
     else bind_op ?front (\<lambda>(src, reg). bind_op (pin_registration (creating cw) q src reg) (place_worktree (creating cw))))"
    by (rule ext) (auto simp: register_pinned_run_def bind_op_def reads_def lift_res_def split: sum.splits prod.splits)
  show ?thesis
  proof (cases "req_policy q \<in> {''inherit'', ''delegated''}")
    case False
    then show ?thesis using run on_file by (auto simp: register_pinned_run_def raise_def)
  next
    case ok: True
    from ok have free: "\<not> req_policy q \<notin> {''inherit'', ''delegated''}" by simp
    note run' = run [unfolded split if_not_P [OF free]]
    obtain f s1 where f: "?front s = (f, s1)" by (cases "?front s")
    have "kt.obeys ?p ?front" by (intro keeping)
    from kt.obeysD [OF this f] have t1: "texts (cards s1) ?p = Some x" using on_file by (simp add: keeps_text_def)
    show ?thesis
    proof (cases f)
      case (Inl e)
      have "bind_op ?front k s = (Inl e, s1)" for k :: "plan_source \<times> dict \<Rightarrow> ('a tick_state, dict) op" using f Inl by (simp add: bind_op_def [of ?front])
      then show ?thesis using run' t1 by auto
    next
      case (Inr a)
      obtain src reg where a: "a = (src, reg)" by (cases a)
      obtain g s2 where g: "pin_registration (creating cw) q src reg s1 = (g, s2)" by (cases "pin_registration (creating cw) q src reg s1")
      note 2 = pin_on_file [OF g t1 stable]
      have r: "bind_op (pin_registration (creating cw) q src reg) (place_worktree (creating cw)) s1 = (r, s')"
      proof -
        have "bind_op ?front k s = k (src, reg) s1" for k :: "plan_source \<times> dict \<Rightarrow> ('a tick_state, dict) op" using f Inr a by (simp add: bind_op_def [of ?front])
        then show ?thesis using run' by simp
      qed
      show ?thesis
      proof (cases g)
        case (Inl e)
        then show ?thesis using r g 2 by (auto simp: bind_op_def)
      next
        case (Inr reg')
        then have p: "place_worktree (creating cw) reg' s2 = (r, s')" using r g by (simp add: bind_op_def)
        have "r = Inr z \<Longrightarrow> z = reg'" for z using p by (auto simp: place_worktree_def then_op_def bind_op_def ret_def Let_def split: prod.splits sum.splits)
        moreover have "texts (cards s') ?p = Some x" using kt.obeysD [OF keeping_place p] 2 by (simp add: keeps_text_def)
        ultimately show ?thesis using 2 Inr by blast
      qed
    qed
  qed
qed

section \<open>A retry\<close>

definition cx_program :: "string list \<Rightarrow> string \<Rightarrow> nat \<Rightarrow> gh_outcome \<times> nat" where
  "cx_program args cwd n = (if args = ''git'' # COMMON_DIR then (GhExit 0 ''/p/.git'' [], n)
     else if args = [''git'', ''rev-parse'', ''HEAD''] then (GhExit 0 ''c'' [], n)
     else if args = [''git'', ''symbolic-ref'', ''--short'', ''refs/remotes/origin/HEAD''] then (GhExit 0 ''origin/main'' [], n)
     else if take 2 args = [''git'', ''show-ref''] then (GhExit 1 [] [], n)
     else (GhExit 0 [] [], Suc n))"

definition cx_world :: "nat creation_world" where
  "cx_world = \<lparr>creating = wx_flow\<lparr>program := cx_program\<rparr>, working_dir = []\<rparr>"

definition cx_issue :: issue_todo where
  "cx_issue = \<lparr>issue_number = 7, issue_todo_id = ''TODO-7'', issue_title = ''t'', issue_body = ''b'', issue_state = ''open'', issue_labels = [], issue_assignees = [],
     issue_url = ''https://github.com/o/r/issues/7'', issue_repo = ''o/r'', blocked_by_open = None, issue_spec = None, issue_references = [], plan_values = [''p''],
     branch_values = [''b''], issue_snapshot = snapshot_text ''o/r'' 7 ''t'' (normalize_body ''b''), entry_hash = [], issue_plan_source = None, plan_error = None, state_reason = None\<rparr>"

definition cx_request :: run_request where
  "cx_request = \<lparr>req_project = ''/p'', req_state = ''/x'', req_tick = ''T1'', req_issue = cx_issue, req_plan_path = Some ''p'', req_repo = Some ''o/r'', req_profile = ''g'',
     req_client = ''codex'', req_assignee = ''a'', req_reviewer = None, req_step_keys = [''k''], req_policy = ''inherit'', req_phases = None\<rparr>"

text \<open>A comparison with a large number is one of integers when it is evaluated.\<close>

lemma snapshot_bound [code_unfold]: "MAX_ISSUE_SNAPSHOT_CHARS < n \<longleftrightarrow> 69632 < int n"
  by (simp add: MAX_ISSUE_SNAPSHOT_CHARS_def MAX_ISSUE_BODY_CHARS_def)

definition cx_reg :: dict where
  "cx_reg = [(''schema_version'', JInt 5), (''tick_id'', JStr ''T1''), (''todo_id'', JStr ''TODO-7''), (''repository'', JStr ''/p''), (''base_sha'', JStr ''c''),
     (''issue_number'', JInt 7), (''issue_url'', JStr ''https://github.com/o/r/issues/7''), (''issue_snapshot'', JStr (issue_snapshot cx_issue)),
     (''selected_entry_hash'', JStr []), (''plan_source_kind'', JStr ''legacy_path''), (''plan_path'', JStr ''p''), (''plan_artifact'', JNull), (''plan_hash'', JStr []),
     (''branch'', JStr ''b''), (''worktree'', JStr ''/p/.worktrees/todo-7-t''), (''profile'', JStr ''g''), (''prompt_client'', JStr ''codex''), (''assignee'', JStr ''a''),
     (''review_assignee'', JNull), (''step_keys'', JList [JStr ''k'']), (''agent_policy_mode'', JStr ''inherit''), (''phase_definitions'', JList [])]"

definition cx_text :: string where "cx_text = dumps default_style (JObj (json_payload cx_reg))"

definition cx_kept :: "nat tick_state" where
  "cx_kept = \<lparr>execs = empty_store [], cards = \<lparr>remote = 0, texts = [''/x/runs/T1/registration.json'' \<mapsto> cx_text]\<rparr>\<rparr>"

lemma cx_loads: "loads cx_text = Some (JObj (json_payload cx_reg))"
proof -
  have "plain (JObj (json_payload cx_reg))" by code_simp
  then show ?thesis unfolding cx_text_def by (rule loads_dumps [OF _ default_ok(1)])
qed

lemma cx_match: "match_registration (json_payload cx_reg) cx_reg = Inr cx_reg"
proof -
  let ?d = "json_payload cx_reg"
  have f: "dget ?d ''schema_version'' = JInt 5" "dget ?d ''agent_policy_mode'' = JStr ''inherit''" by code_simp+
  have "pinned_policy ?d cx_reg = cx_reg"
    unfolding pinned_policy_def Let_def f by (simp add: cx_reg_def dput_def)
  moreover have "phases_on_file ?d cx_reg = Inr cx_reg"
    unfolding phases_on_file_def f by (simp add: cx_reg_def dget_def)
  moreover have "py_eq (JObj ?d) (JObj ?d)" by (rule py_eq_refl) (simp add: cx_reg_def json_payload_def dget_def)
  ultimately show ?thesis unfolding match_registration_def f by simp
qed

definition cx_prepared :: "(plan_source \<times> dict) res \<times> nat tick_state" where
  "cx_prepared = prepare_registration cx_world cx_request ([], JList [JStr ''k'']) cx_kept"

lemma cx_prepares: "map_sum id (\<lambda>(src, reg). (source_kind src, reg)) (fst cx_prepared) = Inr (''legacy_path'', cx_reg)"
  by code_simp

lemma cx_places: "map_sum id (\<lambda>r. ()) (fst (place_worktree (creating cx_world) cx_reg (snd cx_prepared))) = Inr ()"
  by code_simp

lemma cx_load: "texts (cards s) ''/x/runs/T1/registration.json'' = Some cx_text \<Longrightarrow> load_registration (creating cx_world) ''/x'' ''T1'' s = Inr (Some (json_payload cx_reg))"
proof -
  assume t: "texts (cards s) ''/x/runs/T1/registration.json'' = Some cx_text"
  have "boardw (creating cx_world) = ex_maker" "safe_tick_id ''T1''" "registration_path ''/x'' ''T1'' = ''/x/runs/T1/registration.json''"
    by (simp_all add: boardw_def cx_world_def wx_sched_of wx_fields safe_tick_id_def registration_path_def run_path_def backslash_def)
  then show ?thesis by (simp add: load_registration_def read_text_def ex_maker_def t cx_loads)
qed

lemma cx_register: "fst (register_pinned_run cx_world cx_request cx_kept) = Inr cx_reg"
proof -
  have path: "registration_path ''/x'' ''T1'' = ''/x/runs/T1/registration.json''" by (simp add: registration_path_def run_path_def)
  obtain src where p1: "fst cx_prepared = Inr (src, cx_reg)" "source_kind src = ''legacy_path''"
    using cx_prepares by (cases "fst cx_prepared") (auto split: prod.splits)
  then have p: "prepare_registration cx_world cx_request ([], JList [JStr ''k'']) cx_kept = (Inr (src, cx_reg), snd cx_prepared)"
    by (simp add: cx_prepared_def prod_eq_iff)
  have t: "texts (cards (snd cx_prepared)) ''/x/runs/T1/registration.json'' = Some cx_text"
    using kt.obeysD [OF keeping_prepare p] by (simp add: keeps_text_def cx_kept_def)
  have "prior_registration (creating cx_world) cx_request cx_kept = Inr (Some (json_payload cx_reg))"
    using cx_load [of cx_kept] by (simp add: prior_registration_def cx_request_def path path_exists_def) (simp add: cx_kept_def)
  moreover have "settled_phases cx_request (Some (json_payload cx_reg)) = Inr ([], JList [JStr ''k''])" by code_simp
  moreover have "pin_registration (creating cx_world) cx_request src cx_reg (snd cx_prepared) = (Inr cx_reg, snd cx_prepared)"
    using cx_load [OF t] p1(2) cx_match by (simp add: pin_registration_def cx_request_def bind_op_def reads_def lift_res_def then_op_def ret_def)
  moreover obtain z where "fst (place_worktree (creating cx_world) cx_reg (snd cx_prepared)) = Inr z"
    using cx_places by (cases "fst (place_worktree (creating cx_world) cx_reg (snd cx_prepared))") auto
  moreover from this have "z = cx_reg"
    by (auto simp: place_worktree_def then_op_def bind_op_def ret_def Let_def split: prod.splits sum.splits)
  moreover have "req_policy cx_request = ''inherit''" by (simp add: cx_request_def)
  ultimately show ?thesis using p by (simp add: register_pinned_run_def bind_op_def reads_def lift_res_def)
qed

theorem registration_on_file_stays_witness:
  "\<exists>s'. register_pinned_run cx_world cx_request cx_kept = (Inr cx_reg, s') \<and> texts (cards s') ''/x/runs/T1/registration.json'' = Some cx_text
     \<and> (\<exists>d. loads cx_text = Some (JObj d) \<and> py_eq (JObj d) (JObj (json_payload cx_reg)))"
proof -
  obtain s' where r: "register_pinned_run cx_world cx_request cx_kept = (Inr cx_reg, s')"
    using cx_register by (cases "register_pinned_run cx_world cx_request cx_kept") auto
  have q: "registration_path (req_state cx_request) (req_tick cx_request) = ''/x/runs/T1/registration.json''"
    by (simp add: cx_request_def registration_path_def run_path_def)
  have 1: "texts (cards cx_kept) (registration_path (req_state cx_request) (req_tick cx_request)) = Some cx_text" unfolding q by (simp add: cx_kept_def)
  have 2: "\<forall>b. read_error (boardw (creating cx_world)) (registration_path (req_state cx_request) (req_tick cx_request)) b \<noteq> Some FileNotFound"
    by (simp add: boardw_def cx_world_def wx_sched_of wx_fields ex_maker_def)
  show ?thesis using r registration_on_file_stays [OF r 1 2] unfolding q by blast
qed

end
