(* ===== verification/TickLock.thy ===== *)
theory TickLock
  imports Prelude
begin

text \<open>
  The lock of a tick, \<^verbatim>\<open>hermes_pipeline/tick.py\<close>: a directory that exactly one of several processes can
  create, with a file in it that names the holder, and the removal of a lock whose file is too old.

  Every call into the file system is one step, and the steps of processes interleave.  Making an entry in a
  directory sets the time of the directory.  Only what a process does next depends on it, so the whole of a
  process is its program counter; the ghost \<open>taken_over\<close> tells that a sweep removed something.
\<close>

section \<open>Processes and the lock\<close>

datatype pc =
    Outside
  | SeesDir         \<comment> \<open>\<^verbatim>\<open>mkdir\<close> failed; \<^verbatim>\<open>lock_dir.exists()\<close> comes\<close>
  | SeesHolder      \<comment> \<open>\<^verbatim>\<open>holder.exists()\<close> comes\<close>
  | BareAge         \<comment> \<open>the age of the directory comes\<close>
  | BareRemove
  | HolderAge
  | HolderUnlink
  | DirRemove
  | Retry           \<comment> \<open>the second \<^verbatim>\<open>mkdir\<close> comes\<close>
  | Made            \<comment> \<open>the directory is ours; the holder file comes\<close>
  | Inside
  | Leaving         \<comment> \<open>the holder file is gone; \<^verbatim>\<open>rmdir\<close> comes\<close>
  | Finished
  | Refused         \<comment> \<open>\<^verbatim>\<open>TickLockHeld\<close>\<close>
  | Failed          \<comment> \<open>another \<^verbatim>\<open>OSError\<close> left the function\<close>

record tick_lock =
  lock_dir :: "nat option"                 \<comment> \<open>its time of modification\<close>
  holder :: "(string \<times> nat) option"
  time :: nat
  pcs :: "string \<Rightarrow> pc"
  taken_over :: bool

definition goes :: "string \<Rightarrow> pc \<Rightarrow> tick_lock \<Rightarrow> tick_lock" where
  "goes p c s = s\<lparr>pcs := (pcs s)(p := c)\<rparr>"

text \<open>\<^verbatim>\<open>rmdir\<close>, whose failure on a missing or filled directory is ignored.\<close>

definition rmdir :: "tick_lock \<Rightarrow> tick_lock" where
  "rmdir s = (if holder s = None then s\<lparr>lock_dir := None\<rparr> else s)"

definition too_old :: "nat \<Rightarrow> nat \<Rightarrow> tick_lock \<Rightarrow> bool" where
  "too_old age t s \<longleftrightarrow> age < time s - t"

definition make_dir :: "string \<Rightarrow> pc \<Rightarrow> tick_lock \<Rightarrow> tick_lock" where
  "make_dir p otherwise s = (if lock_dir s = None then goes p Made (s\<lparr>lock_dir := Some (time s)\<rparr>) else goes p otherwise s)"

text \<open>The next step of a process that takes the lock, with the age in the unit of the clock.\<close>

definition proceed :: "nat \<Rightarrow> string \<Rightarrow> tick_lock \<Rightarrow> tick_lock" where
  "proceed age p s = (case pcs s p of
     Outside \<Rightarrow> make_dir p SeesDir s
   | SeesDir \<Rightarrow> goes p (if lock_dir s = None then Retry else SeesHolder) s
   | SeesHolder \<Rightarrow> goes p (if holder s = None then BareAge else HolderAge) s
   | BareAge \<Rightarrow> (case lock_dir s of None \<Rightarrow> goes p Failed s | Some t \<Rightarrow> goes p (if too_old age t s then BareRemove else Retry) s)
   | BareRemove \<Rightarrow> goes p Retry (rmdir (s\<lparr>taken_over := True\<rparr>))
   | HolderAge \<Rightarrow> (case holder s of None \<Rightarrow> goes p Failed s | Some (_, t) \<Rightarrow> goes p (if too_old age t s then HolderUnlink else Retry) s)
   | HolderUnlink \<Rightarrow> (case holder s of None \<Rightarrow> goes p Failed s | Some _ \<Rightarrow> goes p DirRemove (s\<lparr>holder := None, taken_over := True\<rparr>))
   | DirRemove \<Rightarrow> goes p Retry (rmdir s)
   | Retry \<Rightarrow> make_dir p Refused s
   | Made \<Rightarrow> (case lock_dir s of None \<Rightarrow> goes p Failed s
       | Some t \<Rightarrow> goes p Inside (s\<lparr>lock_dir := Some (if holder s = None then time s else t), holder := Some (p, time s)\<rparr>))
   | Inside \<Rightarrow> goes p Leaving (s\<lparr>holder := None\<rparr>)
   | Leaving \<Rightarrow> goes p Finished (rmdir s)
   | Finished \<Rightarrow> s | Refused \<Rightarrow> s | Failed \<Rightarrow> s)"

definition unlocked :: "nat \<Rightarrow> tick_lock" where
  "unlocked t = \<lparr>lock_dir = None, holder = None, time = t, pcs = (\<lambda>_. Outside), taken_over = False\<rparr>"

inductive reachable :: "nat \<Rightarrow> nat \<Rightarrow> tick_lock \<Rightarrow> bool" for age start where
  begin_lock: "reachable age start (unlocked start)"
| wait: "reachable age start s \<Longrightarrow> reachable age start (s\<lparr>time := time s + d\<rparr>)"
| go: "reachable age start s \<Longrightarrow> reachable age start (proceed age p s)"

text \<open>Between having made the directory and having left.\<close>

definition holds_lock :: "tick_lock \<Rightarrow> string \<Rightarrow> bool" where
  "holds_lock s p \<longleftrightarrow> pcs s p \<in> {Made, Inside, Leaving}"

section \<open>Invariants\<close>

text \<open>No mark in the file system is older than the start, so nobody finds a lock too old before its age has passed.\<close>

definition young :: "nat \<Rightarrow> nat \<Rightarrow> tick_lock \<Rightarrow> bool" where
  "young age start s \<longleftrightarrow> (\<forall>t. lock_dir s = Some t \<longrightarrow> start \<le> t) \<and> (\<forall>h t. holder s = Some (h, t) \<longrightarrow> start \<le> t) \<and> start \<le> time s
     \<and> (taken_over s \<or> (\<exists>p. pcs s p \<in> {BareRemove, HolderUnlink}) \<longrightarrow> start + age < time s)"

definition exclusive :: "tick_lock \<Rightarrow> bool" where
  "exclusive s \<longleftrightarrow> (\<forall>p. pcs s p = DirRemove \<longrightarrow> taken_over s) \<and> (\<not> taken_over s \<longrightarrow>
     (\<forall>p q. holds_lock s p \<longrightarrow> holds_lock s q \<longrightarrow> p = q) \<and> (\<forall>p. holds_lock s p \<longrightarrow> lock_dir s \<noteq> None))"

lemmas lock_defs = goes_def rmdir_def make_dir_def too_old_def holds_lock_def

lemma young_go: "young age start s \<Longrightarrow> young age start (proceed age p s)"
  unfolding young_def proceed_def
  by (cases "pcs s p") (auto simp: lock_defs split: option.splits if_splits)

lemma exclusive_go: "exclusive s \<Longrightarrow> exclusive (proceed age p s)"
  unfolding exclusive_def proceed_def
  by (cases "pcs s p") (auto simp: lock_defs split: option.splits if_splits)

lemma reachable_young: "reachable age start s \<Longrightarrow> young age start s"
  by (induction rule: reachable.induct) (auto simp: young_go, auto simp: young_def unlocked_def)

lemma reachable_exclusive: "reachable age start s \<Longrightarrow> exclusive s"
  by (induction rule: reachable.induct) (auto simp: exclusive_go, auto simp: exclusive_def unlocked_def holds_lock_def)

text \<open>A sweep that found an old lock may remove a fresh one: what it measured is not what it unlinks.\<close>

definition steps :: "nat \<Rightarrow> string list \<Rightarrow> tick_lock \<Rightarrow> tick_lock" where
  "steps age ps s = fold (proceed age) ps s"

lemma reachable_steps: "reachable age start s \<Longrightarrow> reachable age start (steps age ps s)"
  unfolding steps_def by (induction ps arbitrary: s) (auto intro: reachable.intros)

definition race :: tick_lock where
  "race = (let old = steps 10 [''a'', ''a''] (unlocked 0);
       measured = steps 10 (replicate 4 ''b'') (old\<lparr>time := time old + 20\<rparr>);
       fresh = steps 10 [''a'', ''a'', ''c'', ''c''] measured
     in steps 10 (replicate 4 ''b'') fresh)"

lemma race_reachable: "reachable 10 0 race"
  unfolding race_def Let_def by (intro reachable_steps reachable.wait reachable.begin_lock)

lemma sweep_removes_a_fresh_lock: "pcs race ''b'' = Inside \<and> pcs race ''c'' = Inside \<and> time race = 20"
  by code_simp

text \<open>
  C25: the lock excludes.  As long as no lock can have reached the age at which it is swept, at most one process
  is between having made the directory and having left, and no sweep has removed anything.
\<close>

theorem tick_lock_excludes:
  assumes "reachable age start s" and "time s \<le> start + age"
  shows "\<not> taken_over s \<and> (holds_lock s p \<longrightarrow> holds_lock s q \<longrightarrow> p = q)"
  using reachable_young [OF assms(1)] reachable_exclusive [OF assms(1)] assms(2)
  unfolding young_def exclusive_def by auto

definition two_ticks :: tick_lock where
  "two_ticks = steps 10 [''a'', ''b'', ''a'', ''b'', ''b'', ''b'', ''b''] (unlocked 3)"

theorem tick_lock_excludes_witness:
  "(reachable 10 3 two_ticks \<and> pcs two_ticks ''a'' = Inside \<and> pcs two_ticks ''b'' = Refused) \<and> \<not> taken_over two_ticks
     \<and> holds_lock two_ticks ''a'' \<and> \<not> holds_lock two_ticks ''b''"
proof -
  have r: "reachable 10 3 two_ticks" unfolding two_ticks_def by (intro reachable_steps reachable.begin_lock)
  have t: "time two_ticks \<le> 3 + 10" and p: "pcs two_ticks ''a'' = Inside \<and> pcs two_ticks ''b'' = Refused" by code_simp+
  then have "holds_lock two_ticks ''a''" by (simp add: holds_lock_def)
  then show ?thesis using r p tick_lock_excludes [OF r t, of "''b''" "''a''"] by auto
qed

end
