(* ===== verification/PhaseBinding.thy ===== *)
theory PhaseBinding
  imports RunCreation PhasePrompt Registration
begin

text \<open>
  The cards of a new run before the board knows them, \<^verbatim>\<open>kanban_tasks.py\<close>: rendering every phase of a TODO
  (\<^verbatim>\<open>prepare_todo_phases\<close>) and pinning an execution for each (\<^verbatim>\<open>bind_prepared_executions\<close>).

  What the phases file of a request holds is part of the request.
\<close>

section \<open>Rendering\<close>

record rendering_request =
  ph_todo :: string
  ph_tick :: string
  ph_slug :: string
  ph_path :: "string option"              \<comment> \<open>of the phases file\<close>
  ph_file :: "json res"                   \<comment> \<open>what it holds\<close>
  ph_client :: string
  ph_plan_path :: "string option"
  ph_plan_source :: "plan_source option"
  ph_reference :: "(string \<times> plan_source) option"
  ph_spec :: "string option"
  ph_references :: "string list"
  ph_project :: "string option"
  ph_decisions :: "(string \<times> string) list"
  ph_profile :: "string option"
  ph_policy :: string
  ph_definitions :: "phase list option"

text \<open>\<^verbatim>\<open>re.fullmatch(r"TODO-\d+", ...)\<close>\<close>

definition todo_id_ok :: "string \<Rightarrow> bool" where
  "todo_id_ok s \<longleftrightarrow> startswith s ''TODO-'' \<and> drop 5 s \<noteq> [] \<and> list_all is_digit (drop 5 s)"

definition file_profile :: "rendering_request \<Rightarrow> phase_profile res" where "file_profile q = rbind (ph_file q) load_phase_profile"

definition bad_reference :: exn where "bad_reference = bad_todo_plan ''invalid_plan_reference''"

definition artifact_text :: "'b flow_world \<Rightarrow> string \<Rightarrow> string \<Rightarrow> string res" where
  "artifact_text w path expected = rbind (read_artifact (run_env (sched w)) (path_parts path) expected) (\<lambda>b.
     case utf8_decode b of None \<Rightarrow> Inl (ValueErr ''unicode'') | Some t \<Rightarrow> Inr t)"

text \<open>The manifest of the Plan and how the prompts name the Plan.\<close>

definition request_plan :: "'b flow_world \<Rightarrow> rendering_request \<Rightarrow> bool \<Rightarrow> (plan_manifest option \<times> string option) res" where
  "request_plan w q requires = (if \<not> requires then Inr (None, ph_plan_path q)
     else case ph_plan_source q of
       Some src \<Rightarrow> (case ph_reference q of None \<Rightarrow> Inl bad_reference
         | Some (reference, of_source) \<Rightarrow> if of_source \<noteq> src then Inl bad_reference
             else rbind (validate_plan_reference (RunCreation.text_hash w) (plan_world w) (artifact_text w) reference of_source (ph_todo q)) (\<lambda>_.
               Inr (source_manifest src, Some reference)))
     | None \<Rightarrow> (case set_str (ph_plan_path q) of None \<Rightarrow> Inl (bad_todo_plan ''missing'')
         | Some path \<Rightarrow> if ph_reference q \<noteq> None then Inl bad_reference
             else (case ph_project q of None \<Rightarrow> Inr (None, Some path)
               | Some d \<Rightarrow> rbind (validate_plan_candidate (plan_world w) (path_parts d) (ph_todo q) path) (\<lambda>m. Inr (m, Some path)))))"

definition paths_within :: "'b flow_world \<Rightarrow> string option \<Rightarrow> string list \<Rightarrow> ('b tick_state, string list) op" where
  "paths_within w project paths = (if filter (\<lambda>p. p \<noteq> []) paths = [] then ret []
     else case project of None \<Rightarrow> raise (ValueErr ''project_dir is required to validate Spec/Reference paths'') | Some d \<Rightarrow> contained_paths w d paths)"

definition request_prompt :: "rendering_request \<Rightarrow> string option \<Rightarrow> string list \<Rightarrow> string list \<Rightarrow> phase \<Rightarrow> prompt_input" where
  "request_prompt q plan specs refs p = \<lparr>in_todo = ph_todo q, in_tick = ph_tick q, in_slug = ph_slug q, in_plan_path = plan,
     in_plan_hash = map_option source_hash (ph_plan_source q), in_spec_path = (case specs of [] \<Rightarrow> None | s # _ \<Rightarrow> Some s), in_references = refs,
     in_client = ph_client q, in_source = Some ((case set_str (ph_path q) of None \<Rightarrow> ''gstack'' | Some f \<Rightarrow> f) @ '':'' @ def_key p),
     in_decisions = ph_decisions q, in_facts = [], in_profile = ph_profile q, in_policy = ph_policy q\<rparr>"

definition PENDING_TEXT :: string where
  "PENDING_TEXT = ''Execution registration pending; this preview is not dispatchable.'' @ [newline]"

definition phase_template_text :: "rendering_request \<Rightarrow> plan_manifest option \<Rightarrow> phase \<Rightarrow> string option res" where
  "phase_template_text q manifest p = (case manifest of None \<Rightarrow> Inr None
     | Some m \<Rightarrow> if def_role p \<noteq> ''implementation'' then Inr None
         else rbind (render_result_template (ph_tick q) (ph_todo q) (def_key p) (manifest_criteria m) None None False) (\<lambda>t. Inr (Some t)))"

definition prepare_phase :: "rendering_request \<Rightarrow> plan_manifest option \<Rightarrow> string option \<Rightarrow> string list \<Rightarrow> string list \<Rightarrow> phase \<Rightarrow> prepared_phase res" where
  "prepare_phase q manifest plan specs refs p = rbind (render_phase_prompt (request_prompt q plan specs refs p) (def_prompt p)) (\<lambda>shown.
     rbind (phase_template_text q manifest p) (\<lambda>template.
     Inr \<lparr>phase_key = def_key p, phase_name = def_name p,
       phase_body = build_json_header (ph_tick q) (def_key p) (ph_todo q) (ph_slug q) 1 @ [newline] @ PENDING_TEXT,
       phase_turns = def_turns p, phase_timeout = def_timeout p, rendered_prompt = shown, prompt_client = ph_client q,
       phase_tools_text = phase_tools p (case ph_profile q of None \<Rightarrow> [] | Some n \<Rightarrow> n) (ph_client q), result_template = template,
       bound_execution = None, prepared_role = def_role p, max_runtime = None\<rparr>))"

definition request_phases :: "rendering_request \<Rightarrow> phase list res" where
  "request_phases q = (case ph_definitions q of Some ps \<Rightarrow> Inr ps | None \<Rightarrow> rbind (file_profile q) (\<lambda>pp. Inr (profile_phases pp)))"

definition request_requires :: "rendering_request \<Rightarrow> bool res" where
  "request_requires q = (case ph_definitions q of Some _ \<Rightarrow> Inr (ph_plan_source q \<noteq> None) | None \<Rightarrow> rbind (file_profile q) (\<lambda>pp. Inr (requires_plan pp)))"

definition prepare_todo_phases :: "'b flow_world \<Rightarrow> rendering_request \<Rightarrow> ('b tick_state, prepared_phase list) op" where
  "prepare_todo_phases w q = (if \<not> todo_id_ok (ph_todo q) then raise (ValueErr ''invalid todo_id format'')
     else bind_op (lift_res (rbind (request_requires q) (request_plan w q))) (\<lambda>(manifest, plan).
     bind_op (paths_within w (ph_project q) (case ph_spec q of None \<Rightarrow> [] | Some p \<Rightarrow> [p])) (\<lambda>specs.
     bind_op (paths_within w (ph_project q) (ph_references q)) (\<lambda>refs.
     lift_res (rbind (request_phases q) (\<lambda>ps. rmap (prepare_phase q manifest plan specs refs) (worker_phases ps)))))))"

section \<open>Pinning\<close>

text \<open>Of a registered run: the first phase when its phases are pinned too, otherwise those it has steps for.\<close>

definition phases_to_bind :: "'b flow_world \<Rightarrow> string \<Rightarrow> string \<Rightarrow> string \<Rightarrow> prepared_phase list \<Rightarrow> 'b tick_state \<Rightarrow> prepared_phase list res" where
  "phases_to_bind w project_dir state_dir tick_id phs s = (if \<not> path_exists (cards s) (run_path state_dir tick_id ''registration.json'') then Inr phs
     else rbind (validated_run (sched w) project_dir state_dir tick_id None s) (\<lambda>reg.
       Inr (if run_phases reg \<noteq> [] then take 1 phs else filter (\<lambda>p. phase_key p \<in> set (run_step_keys reg)) phs)))"

definition bound_header :: "prepared_phase \<Rightarrow> string \<Rightarrow> json res" where
  "bound_header p identity = (case loads (takeWhile (\<lambda>c. c \<noteq> newline) (phase_body p)) of None \<Rightarrow> Inl (ValueErr ''json'')
     | Some h \<Rightarrow> set_item h ''execution_id'' (JStr identity))"

definition bound_phase :: "'b flow_world \<Rightarrow> string \<Rightarrow> prepared_phase \<Rightarrow> string \<Rightarrow> 'b tick_state \<Rightarrow> prepared_phase res" where
  "bound_phase w base p identity s = rbind (bound_header p identity) (\<lambda>h.
     rbind (load (execw w) identity (execs s)) (\<lambda>r.
     rbind (worker_instructions w identity base) (\<lambda>orders.
     Inr (p\<lparr>bound_execution := Some identity, max_runtime := Some (card_max_runtime (registration_of r)),
       phase_body := dumps default_style (sort_keys h) @ [newline] @ orders\<rparr>))))"

fun bind_phases :: "'b flow_world \<Rightarrow> string \<Rightarrow> string \<Rightarrow> string \<Rightarrow> string \<Rightarrow> string \<Rightarrow> prepared_phase list \<Rightarrow> ('b tick_state, prepared_phase list) op" where
  "bind_phases w project_dir state_dir tick_id worktree todo_id [] = ret []"
| "bind_phases w project_dir state_dir tick_id worktree todo_id (p # ps) =
     bind_op (register_execution w project_dir state_dir tick_id (phase_key p) (rendered_prompt p) (prompt_client p) (phase_tools_text p) worktree
         (JInt (phase_timeout p)) todo_id (result_template p) (prepared_role p)) (\<lambda>identity.
     bind_op (\<lambda>s. (bound_phase w (store_root (execs s)) p identity s, s)) (\<lambda>b.
     bind_op (bind_phases w project_dir state_dir tick_id worktree todo_id ps) (\<lambda>bs. ret (b # bs))))"

definition bind_prepared_executions :: "'b flow_world \<Rightarrow> string \<Rightarrow> string \<Rightarrow> string \<Rightarrow> string \<Rightarrow> string \<Rightarrow> prepared_phase list \<Rightarrow> ('b tick_state, prepared_phase list) op" where
  "bind_prepared_executions w project_dir state_dir tick_id worktree todo_id phs =
     bind_op (reads (phases_to_bind w project_dir state_dir tick_id phs)) (bind_phases w project_dir state_dir tick_id worktree todo_id)"

end
