(* ===== verification/TickLaunch.thy ===== *)
theory TickLaunch
  imports TickResume PhaseBinding
begin

text \<open>
  The second half of a project's tick, \<^verbatim>\<open>_tick_project\<close> of \<^verbatim>\<open>hermes_pipeline/cli.py\<close> from the profile of the
  project on: the eligible issues, the selection, and the run of the TODO that was picked.

  Executions of a registered run are pinned in the project's store, others in one of the account; the second
  store is a component of the state beside the tick's own.  Log lines do not appear.
\<close>

record 'b launch =
  resumed :: "'b project_tick"
  launch_id :: string                                \<comment> \<open>the tick's own identifier\<close>
  launch_dir :: "string list"                        \<comment> \<open>working directory\<close>
  launch_client :: string
  launch_policy :: string
  prerequisites_file :: "string \<Rightarrow> json res"      \<comment> \<open>of a profile\<close>
  bundled_prompt :: string
  ellipsis :: string                                 \<comment> \<open>a character beyond those of a \<^typ>\<open>char\<close>\<close>

definition lflow :: "'b launch \<Rightarrow> 'b flow_world" where "lflow l = pt_flow (resumed l)"
definition lboard :: "'b launch \<Rightarrow> 'b bw" where "lboard l = pt_board (resumed l)"
definition lstate :: "'b launch \<Rightarrow> string" where "lstate l = pt_state (resumed l)"
definition lproject :: "'b launch \<Rightarrow> string" where "lproject l = pt_project (resumed l)"
definition lslug :: "'b launch \<Rightarrow> string" where "lslug l = pt_slug (resumed l)"
definition lenv :: "'b launch \<Rightarrow> 'b gh_world" where "lenv l = issues_env (lflow l)"
definition lselect :: "'b launch \<Rightarrow> 'b select_world" where "lselect l = selecting (pt_world (resumed l))"

section \<open>Verdicts\<close>

definition concludes :: "'b launch \<Rightarrow> string option \<Rightarrow> bool \<Rightarrow> ('b tick_state, unit) op" where
  "concludes l pick counts = on_cards (observe (lboard l) (breaker_clock (pt_world (resumed l))) (pt_breaker (resumed l)) pick counts [])"

definition TRACKER_CONFIG_FAULT_CODES :: "string list" where
  "TRACKER_CONFIG_FAULT_CODES = [''gh_missing'', ''gh_auth'', ''gh_version'', ''gh_not_found'', ''git_unavailable'', ''origin_identity_invalid'']"

definition tracker_failed :: "'b launch \<Rightarrow> exn \<Rightarrow> ('b tick_state, unit) op" where
  "tracker_failed l e = (case e of
       GitHubIssuesError code \<Rightarrow> bind_op (on_cards (record_tracker_error (lselect l) (lstate l) (launch_id l) code)) (\<lambda>_.
         concludes l None (code \<notin> set TRACKER_CONFIG_FAULT_CODES))
     | _ \<Rightarrow> raise e)"

definition failed_to_spawn :: "'b launch \<Rightarrow> string \<Rightarrow> exn \<Rightarrow> string \<Rightarrow> ('b tick_state, unit) op" where
  "failed_to_spawn l todo e reason = catch_op (on_cards (append_outcome (lboard l) (lstate l) (launch_id l) ''failed_to_spawn''
       (JObj [(''todo_id'', JStr todo), (''reason'', JStr reason), (''error_type'', JStr (error_name (pt_world (resumed l)) e))]))) (\<lambda>_. ret ())"

definition abandon_run :: "'b launch \<Rightarrow> string \<Rightarrow> ('b tick_state, unit) op" where
  "abandon_run l reason = bind_op (on_cards (abandon_run_if_registered (lboard l) (lstate l) (launch_id l) reason)) (\<lambda>_. ret ())"

text \<open>Faults of the issue's own text: it is taken out of the queue.\<close>

definition CONTENT_REGISTRATION_CODES :: "string list" where "CONTENT_REGISTRATION_CODES = [''plan_invalid'', ''branch_invalid'', ''branch_exists'']"

definition demote_issue :: "'b launch \<Rightarrow> issue_todo \<Rightarrow> string \<Rightarrow> ('b tick_state, unit) op" where
  "demote_issue l issue repo = (let n = JInt (issue_number issue) in
     catch_op (on_remote (then_op (remove_label (lenv l) n READY_LABEL (Some repo)) (add_label (lenv l) n ''needs-info'' (Some repo))))
       (\<lambda>e. if is_issues_error e then ret () else raise e))"

definition demote_for :: "'b launch \<Rightarrow> issue_todo \<Rightarrow> string \<Rightarrow> string \<Rightarrow> ('b tick_state, unit) op" where
  "demote_for l issue repo code = (if code \<in> set CONTENT_REGISTRATION_CODES then demote_issue l issue repo else ret ())"

section \<open>The profile\<close>

record tick_profile =
  tp_contract :: pipeline_contract
  tp_path :: string
  tp_profile :: phase_profile
  tp_skills :: "skill_prerequisite list"

definition implicit_contract :: "phase list \<Rightarrow> pipeline_contract" where
  "implicit_contract phases = \<lparr>contract_version = CONTRACT_SCHEMA_VERSION, assignee = ''pipeline'', capabilities = sort_strs (required_capabilities phases),
     contract_profile = LEGACY_IMPLICIT_PROFILE, review_assignee = None, profile_declared = False\<rparr>"

definition profile_named :: "'b launch \<Rightarrow> string \<Rightarrow> (phase_profile \<Rightarrow> pipeline_contract) \<Rightarrow> tick_profile res" where
  "profile_named l name contract = rbind (profile_file (lflow l) name) (\<lambda>(path, data).
     rbind (load_phase_profile data) (\<lambda>pp.
     rbind (load_profile_prerequisites (prerequisites_file l name) name) (\<lambda>skills.
     Inr \<lparr>tp_contract = contract pp, tp_path = path, tp_profile = pp, tp_skills = skills\<rparr>)))"

text \<open>Whether the implicit assignee is known is asked for a warning only.\<close>

definition implicit_profile :: "'b launch \<Rightarrow> ('b tick_state, tick_profile) op" where
  "implicit_profile l = bind_op (lift_res (profile_named l LEGACY_IMPLICIT_PROFILE (\<lambda>pp. implicit_contract (profile_phases pp)))) (\<lambda>tp.
     bind_op (catch_op (on_cards (hermes (lboard l) [''hermes'', ''profile'', ''show'', assignee (tp_contract tp)]))
       (\<lambda>e. if e = FileNotFound then ret (127, []) else raise e)) (\<lambda>_. ret tp))"

definition live_profile :: "'b launch \<Rightarrow> ('b tick_state, tick_profile) op" where
  "live_profile l s = (case load_contract (toml_parser (pt_world (resumed l))) (lboard l) (lstate l) (cards s) of
       Inr c \<Rightarrow> (profile_named l (contract_profile c) (\<lambda>_. c), s)
     | Inl e \<Rightarrow> if e = ContractMissingError then implicit_profile l s else (Inl e, s))"

definition check_profile :: "'b launch \<Rightarrow> tick_profile \<Rightarrow> unit res" where
  "check_profile l tp = (if missing_capabilities (tp_contract tp) (profile_phases (tp_profile tp)) \<noteq> [] then Inl CapabilityMismatchError
     else rbind (unverified_prerequisite_ids (tp_skills tp) (launch_client l)) (\<lambda>un. raise_if (un \<noteq> []) RuntimeErr))"

definition tick_profile_of :: "'b launch \<Rightarrow> ('b tick_state, tick_profile) op" where
  "tick_profile_of l = bind_op (live_profile l) (\<lambda>tp. bind_op (lift_res (check_profile l tp)) (\<lambda>_. ret tp))"

section \<open>Eligible issues\<close>

definition GIT_UNAVAILABLE :: exn where "GIT_UNAVAILABLE = GitHubIssuesError ''git_unavailable''"

definition git_succeeds :: "'b launch \<Rightarrow> string list \<Rightarrow> ('b tick_state, bool) op" where
  "git_succeeds l args = bind_op (run_program (lflow l) args (lproject l)) (\<lambda>r. case r of GhExit n _ _ \<Rightarrow> ret (n = 0) | _ \<Rightarrow> raise GIT_UNAVAILABLE)"

definition plan_tracked_at_head :: "'b launch \<Rightarrow> string \<Rightarrow> ('b tick_state, bool) op" where
  "plan_tracked_at_head l path = git_succeeds l [''git'', ''cat-file'', ''-e'', ''HEAD:'' @ path]"

type_synonym eligibility = "eligible_todo list \<times> (string \<times> string) list"

fun keep_tracked :: "'b launch \<Rightarrow> eligible_todo list \<Rightarrow> eligibility \<Rightarrow> ('b tick_state, eligibility) op" where
  "keep_tracked l [] e = ret e"
| "keep_tracked l (c # cs) (kept, blocked) = bind_op (case set_str (eligible_path c) of None \<Rightarrow> ret True | Some p \<Rightarrow> plan_tracked_at_head l p) (\<lambda>tracked.
     keep_tracked l cs (if tracked then (kept @ [c], blocked) else (kept, AList.update (issue_todo_id (entry c)) ''plan_invalid:untracked'' blocked)))"

definition block_untracked_plans :: "'b launch \<Rightarrow> eligibility \<Rightarrow> ('b tick_state, eligibility) op" where
  "block_untracked_plans l e = (if fst e = [] then ret e
     else bind_op (git_succeeds l [''git'', ''rev-parse'', ''--verify'', ''HEAD'']) (\<lambda>born.
       if \<not> born then raise GIT_UNAVAILABLE else keep_tracked l (fst e) ([], snd e)))"

definition tracked_issues :: "'b launch \<Rightarrow> ('b tick_state, string \<times> issue_todo list) op" where
  "tracked_issues l = on_remote (bind_op (reads (repository_identity (lenv l))) (\<lambda>repo. bind_op (list_todo_issues (lenv l) (Some repo)) (\<lambda>is. ret (repo, is))))"

definition compile_candidates :: "'b launch \<Rightarrow> bool \<Rightarrow> bool \<Rightarrow> json list \<Rightarrow> issue_todo list \<Rightarrow> 'b tick_state \<Rightarrow> eligibility res" where
  "compile_candidates l requires available flight issues s = rbind (active_registration_issue_numbers (lflow l) (lstate l) s) (\<lambda>active.
     compile_eligible_issues (RunCreation.text_hash (lflow l)) (plan_world (lflow l)) (path_parts (lproject l))
       (map str_of (filter is_str flight)) active available requires issues)"

section \<open>Selecting\<close>

definition MIN_TIMEOUT_SECONDS :: int where "MIN_TIMEOUT_SECONDS = 30"
definition MAX_TIMEOUT_SECONDS :: int where "MAX_TIMEOUT_SECONDS = 300"
definition SELECTION_TIMEOUT_RESERVE_S :: int where "SELECTION_TIMEOUT_RESERVE_S = 30"

definition selection_timeout_s :: "int \<Rightarrow> int" where
  "selection_timeout_s max_tick_duration_min = max MIN_TIMEOUT_SECONDS (min MAX_TIMEOUT_SECONDS (max_tick_duration_min * 60 - SELECTION_TIMEOUT_RESERVE_S))"

definition selection_of :: "'b launch \<Rightarrow> dict \<Rightarrow> selection_config" where
  "selection_of l sel = \<lparr>sel_model = str_of (dget sel ''model''), max_tokens = int_of (dget sel ''max_tokens''),
     prompt_path = (if truthy (dget sel ''prompt_path'') then str_of (dget sel ''prompt_path'') else bundled_prompt l),
     expected_prompt_sha = opt_str (dget sel ''expected_prompt_sha''), alert_channel = slack_channel (pt_breaker (resumed l))\<rparr>"

definition selection_settings :: "'b launch \<Rightarrow> 'b tick_state \<Rightarrow> selection_config res" where
  "selection_settings l s = (case load_toml_overlay (toml_parser (pt_world (resumed l))) (read_text (lboard l) (lstate l @ ''/config.toml'') (cards s)) of
       Inr (sel, _) \<Rightarrow> Inr (selection_of l sel)
     | Inl e \<Rightarrow> if e = FileNotFound \<or> is_value_error e then Inr (selection_of l SELECTION_DEFAULTS) else Inl e)"

definition todo_ids :: "eligible_todo list \<Rightarrow> string list" where "todo_ids cs = map (\<lambda>c. issue_todo_id (entry c)) cs"

definition select_todo :: "'b launch \<Rightarrow> json \<Rightarrow> eligibility \<Rightarrow> ('b tick_state, decision) op" where
  "select_todo l shot e = (let cs = fst e; w = lselect l in
     bind_op (lift_res (render_selection_markdown (em_dash (shipping (pt_world (resumed l)))) (ellipsis l) (map entry cs))) (\<lambda>markdown.
     bind_op (on_cards (build_context w (lstate l) markdown (todo_ids cs) (lslug l) 5 shot)) (\<lambda>ctx.
     bind_op (reads (selection_settings l)) (\<lambda>cfg.
     on_cards (if cs = [] then record_no_candidates w cfg (lstate l) (launch_id l) ctx (snd e)
       else run_selection w cfg (lstate l) (launch_id l) ctx (Some (todo_ids cs)))))))"

text \<open>The sentinel of a tick that picked nothing stands before the pointer names the tick.\<close>

definition NONE_SENTINEL :: string where "NONE_SENTINEL = ''{\"outcome\": \"picked_none\"}'' @ [newline]"

definition picked_nothing :: "'b launch \<Rightarrow> ('b tick_state, unit) op" where
  "picked_nothing l = (let b = lboard l; d = lstate l; i = launch_id l in then_op (concludes l None True)
     (bind_op (catch_op (then_op (on_cards (observe_outcomes b d i [])) (then_op (on_cards (write_text b (outcomes_path d i) NONE_SENTINEL)) (ret True))) (\<lambda>_. ret False))
       (\<lambda>written. if written then on_cards (persist_tick_id b d i False) else ret ())))"

section \<open>The run of the picked TODO\<close>

definition registered_phases :: "dict \<Rightarrow> phase list" where "registered_phases reg = map (\<lambda>p. phase_of (dict_of p)) (items (dget reg ''phase_definitions''))"

definition run_request_of :: "'b launch \<Rightarrow> tick_profile \<Rightarrow> string \<Rightarrow> issue_todo \<Rightarrow> string option \<Rightarrow> string list \<Rightarrow> run_request" where
  "run_request_of l tp repo issue plan keys = (let c = tp_contract tp in
     \<lparr>req_project = lproject l, req_state = lstate l, req_tick = launch_id l, req_issue = issue, req_plan_path = plan, req_repo = Some repo,
      req_profile = contract_profile c, req_client = launch_client l, req_assignee = assignee c, req_reviewer = review_assignee c,
      req_step_keys = keys, req_policy = launch_policy l, req_phases = Some (profile_phases (tp_profile tp))\<rparr>)"

definition register_run :: "'b launch \<Rightarrow> run_request \<Rightarrow> ('b tick_state, dict) op" where
  "register_run l q = register_pinned_run \<lparr>creating = lflow l, working_dir = launch_dir l\<rparr> q"

fun failure_code :: "exn \<Rightarrow> string option" where
  "failure_code (RunRegistrationError c) = Some c"
| "failure_code (ResultContractError c) = Some c"
| "failure_code _ = None"

text \<open>A tick that gives up: the run is retired if it may be on file, and the tick counts as no progress.\<close>

definition gives_up :: "'b launch \<Rightarrow> string \<Rightarrow> exn \<Rightarrow> string \<Rightarrow> ('b tick_state, unit) op" where
  "gives_up l todo e reason = then_op (failed_to_spawn l todo e reason) (concludes l None True)"

text \<open>The registration of an embedded Plan comes first, because it says what the prompts name.\<close>

definition register_embedded :: "'b launch \<Rightarrow> tick_profile \<Rightarrow> string \<Rightarrow> issue_todo \<Rightarrow> ('b tick_state, (dict \<times> run_registration) option) op" where
  "register_embedded l tp repo issue = bind_op (capture (bind_op (register_run l (run_request_of l tp repo issue None (map def_key (worker_phases (profile_phases (tp_profile tp))))))
       (\<lambda>reg. bind_op (reads (validated_run (sched (lflow l)) (lproject l) (lstate l) (launch_id l) (Some repo))) (\<lambda>v. ret (reg, v))))) (\<lambda>r. case r of
       Inr x \<Rightarrow> ret (Some x)
     | Inl e \<Rightarrow> (case failure_code e of None \<Rightarrow> raise e
         | Some code \<Rightarrow> then_op (abandon_run l ''run_registration_failed'') (then_op (gives_up l (issue_todo_id issue) e ''run_registration_failed'')
             (then_op (demote_for l issue repo code) (ret None)))))"

definition phase_request_of :: "'b launch \<Rightarrow> tick_profile \<Rightarrow> eligible_todo \<Rightarrow> plan_source option \<Rightarrow> (string \<times> plan_source) option \<Rightarrow> dict option \<Rightarrow> rendering_request" where
  "phase_request_of l tp c src reference reg = (let issue = entry c; live = profile_phases (tp_profile tp) in
     \<lparr>ph_todo = issue_todo_id issue, ph_tick = launch_id l, ph_slug = lslug l, ph_path = Some (tp_path tp),
      ph_file = rbind (profile_file (lflow l) (contract_profile (tp_contract tp))) (\<lambda>f. Inr (snd f)), ph_client = launch_client l,
      ph_plan_path = eligible_path c, ph_plan_source = src, ph_reference = reference, ph_spec = issue_spec issue, ph_references = issue_references issue,
      ph_project = Some (lproject l), ph_decisions = issue_decisions (issue_body issue),
      ph_profile = Some (case reg of None \<Rightarrow> contract_profile (tp_contract tp) | Some d \<Rightarrow> str_of (dget d ''profile'')),
      ph_policy = (case reg of None \<Rightarrow> launch_policy l | Some d \<Rightarrow> str_of (dget d ''agent_policy_mode'')),
      ph_definitions = Some (case reg of None \<Rightarrow> live | Some d \<Rightarrow> if registered_phases d \<noteq> [] then registered_phases d else live)\<rparr>)"

definition prepared_or_none :: "'b launch \<Rightarrow> bool \<Rightarrow> rendering_request \<Rightarrow> ('b tick_state, prepared_phase list option) op" where
  "prepared_or_none l registered q = bind_op (capture (prepare_todo_phases (lflow l) q)) (\<lambda>r. case r of
       Inr ps \<Rightarrow> ret (Some ps)
     | Inl e \<Rightarrow> then_op (if registered then abandon_run l ''phase_prompt_preparation_failed'' else ret ())
         (then_op (gives_up l (ph_todo q) e ''phase_prompt_preparation_failed'') (ret None)))"

text \<open>The phases of a registered run have the keys it was registered with.\<close>

definition registered_steps :: "dict \<Rightarrow> prepared_phase list \<Rightarrow> prepared_phase list" where
  "registered_steps reg ps = (if registered_phases reg = [] then filter (\<lambda>p. JStr (phase_key p) \<in> set (items (dget reg ''step_keys''))) ps else ps)"

definition keys_drifted :: "dict \<Rightarrow> prepared_phase list \<Rightarrow> bool" where
  "keys_drifted reg ps \<longleftrightarrow> map (\<lambda>p. JStr (phase_key p)) ps \<noteq> items (dget reg ''step_keys'')"

definition register_legacy :: "'b launch \<Rightarrow> tick_profile \<Rightarrow> string \<Rightarrow> eligible_todo \<Rightarrow> prepared_phase list \<Rightarrow> ('b tick_state, dict option) op" where
  "register_legacy l tp repo c ps = (let issue = entry c in
     bind_op (capture (register_run l (run_request_of l tp repo issue (eligible_path c) (map phase_key ps)))) (\<lambda>r. case r of
       Inr reg \<Rightarrow> ret (Some reg)
     | Inl e \<Rightarrow> (case e of RunRegistrationError code \<Rightarrow> then_op (gives_up l (issue_todo_id issue) e ''run_registration_failed'') (then_op (demote_for l issue repo code) (ret None))
         | _ \<Rightarrow> raise e)))"

text \<open>What a registration on file pins wins over what the prompts were rendered with.\<close>

definition pinned_request :: "rendering_request \<Rightarrow> dict \<Rightarrow> rendering_request" where
  "pinned_request q reg = q\<lparr>ph_profile := Some (str_of (dget reg ''profile'')), ph_policy := str_of (dget reg ''agent_policy_mode'')\<rparr>"

definition needs_rerender :: "rendering_request \<Rightarrow> dict \<Rightarrow> bool" where
  "needs_rerender q reg \<longleftrightarrow> JStr (ph_policy q) \<noteq> dget reg ''agent_policy_mode'' \<or> map_option JStr (ph_profile q) \<noteq> Some (dget reg ''profile'')"

section \<open>Dispatch\<close>

type_synonym 'b launch_state = "'b tick_state \<times> store"

definition in_project :: "('b tick_state, 'a) op \<Rightarrow> ('b launch_state, 'a) op" where
  "in_project m s = (case m (fst s) of (r, s') \<Rightarrow> (r, (s', snd s)))"

text \<open>With the store of the account in place of the project's.\<close>

definition in_account :: "('b tick_state, 'a) op \<Rightarrow> ('b launch_state, 'a) op" where
  "in_account m s = (case m ((fst s)\<lparr>execs := snd s\<rparr>) of (r, s') \<Rightarrow> (r, (s'\<lparr>execs := execs (fst s)\<rparr>, execs s')))"

definition run_root :: "'b launch \<Rightarrow> dict option \<Rightarrow> string" where
  "run_root l reg = (case reg of None \<Rightarrow> lproject l | Some d \<Rightarrow> str_of (dget d ''worktree''))"

definition bind_run :: "'b launch \<Rightarrow> string \<Rightarrow> dict option \<Rightarrow> prepared_phase list \<Rightarrow> ('b launch_state, prepared_phase list option) op" where
  "bind_run l todo reg ps = (let m = bind_prepared_executions (lflow l) (lproject l) (lstate l) (launch_id l) (run_root l reg) todo ps in
     bind_op (capture (if reg = None then in_account m else in_project m)) (\<lambda>r. case r of
       Inr bs \<Rightarrow> ret (Some bs)
     | Inl e \<Rightarrow> if is_value_error e \<or> is_runtime_error e \<or> is_os_error e
         then in_project (then_op (abandon_run l ''supervisor_registration_failed'') (then_op (gives_up l todo e ''supervisor_registration_failed'') (ret None)))
         else raise e))"

text \<open>The pointer names the tick immediately before the first change of the board.\<close>

definition create_cards :: "'b launch \<Rightarrow> tick_profile \<Rightarrow> string \<Rightarrow> dict option \<Rightarrow> prepared_phase list \<Rightarrow> ('b tick_state, unit) op" where
  "create_cards l tp todo reg ps = then_op (on_cards (persist_tick_id (lboard l) (lstate l) (launch_id l) True))
     (bind_op (capture (on_cards (create_prepared_todo_phases (lboard l) ps (launch_id l) (lslug l) (run_root l reg) (assignee (tp_contract tp)) None))) (\<lambda>r. case r of
       Inr _ \<Rightarrow> ret ()
     | Inl e \<Rightarrow> if is_runtime_error e then then_op (failed_to_spawn l todo e ''kanban_registration_failed'') (raise e) else raise e))"

definition claim_issue :: "'b launch \<Rightarrow> issue_todo \<Rightarrow> string \<Rightarrow> ('b tick_state, unit) op" where
  "claim_issue l issue repo = (if has_label issue IN_PROGRESS_LABEL then ret ()
     else catch_op (on_remote (add_label (lenv l) (JInt (issue_number issue)) IN_PROGRESS_LABEL (Some repo))) (\<lambda>e. if is_issues_error e then ret () else raise e))"

definition dispatch :: "'b launch \<Rightarrow> tick_profile \<Rightarrow> string \<Rightarrow> issue_todo \<Rightarrow> dict option \<Rightarrow> prepared_phase list \<Rightarrow> ('b tick_state, unit) op" where
  "dispatch l tp repo issue reg ps = (let todo = issue_todo_id issue in
     then_op (create_cards l tp todo reg ps) (then_op (claim_issue l issue repo) (concludes l (Some todo) False)))"

text \<open>A second rendering, where the registration pins something else.\<close>

definition pinned_prompts :: "'b launch \<Rightarrow> rendering_request \<Rightarrow> dict \<Rightarrow> prepared_phase list \<Rightarrow> ('b tick_state, prepared_phase list option) op" where
  "pinned_prompts l q reg ps = (if needs_rerender q reg then prepared_or_none l True (pinned_request q reg) else ret (Some ps))"

text \<open>From the prompts on: key drift of a run that is registered, registration of one that is not.\<close>

definition settle_registration :: "'b launch \<Rightarrow> tick_profile \<Rightarrow> string \<Rightarrow> eligible_todo \<Rightarrow> rendering_request \<Rightarrow> dict option \<Rightarrow> prepared_phase list
    \<Rightarrow> ('b tick_state, (dict option \<times> prepared_phase list) option) op" where
  "settle_registration l tp repo c q reg ps = (let todo = issue_todo_id (entry c); pinned = (\<lambda>d ps. bind_op (pinned_prompts l q d ps) (\<lambda>r. ret (map_option (Pair (Some d)) r))) in
     case reg of
       Some d \<Rightarrow> let kept = registered_steps d ps in
         if keys_drifted d kept then then_op (abandon_run l ''phase_key_drift'') (then_op (gives_up l todo RuntimeErr ''phase_prompt_preparation_failed'') (ret None))
         else pinned d kept
     | None \<Rightarrow> if \<not> requires_plan (tp_profile tp) then ret (Some (None, ps))
         else bind_op (register_legacy l tp repo c ps) (\<lambda>r. case r of None \<Rightarrow> ret None | Some d \<Rightarrow> pinned d ps))"

text \<open>What the prompts name as the Plan: a path of the repository, or the artifact of the registration.\<close>

definition is_embedded :: "plan_source option \<Rightarrow> bool" where "is_embedded src \<longleftrightarrow> map_option source_kind src = Some ''embedded''"

definition path_reference :: "plan_source option \<Rightarrow> (string \<times> plan_source) option" where
  "path_reference src = (case src of None \<Rightarrow> None
     | Some p \<Rightarrow> if source_kind p = ''legacy_path'' then map_option (\<lambda>path. (path, p)) (set_str (source_path p)) else None)"

definition prepare_run :: "'b launch \<Rightarrow> tick_profile \<Rightarrow> string \<Rightarrow> eligible_todo \<Rightarrow> rendering_request \<Rightarrow> dict option
    \<Rightarrow> ('b tick_state, (dict option \<times> prepared_phase list) option) op" where
  "prepare_run l tp repo c q reg = bind_op (prepared_or_none l (reg \<noteq> None) q) (\<lambda>r. case r of None \<Rightarrow> ret None
     | Some ps \<Rightarrow> settle_registration l tp repo c q reg ps)"

definition ready_run :: "'b launch \<Rightarrow> tick_profile \<Rightarrow> string \<Rightarrow> eligible_todo \<Rightarrow> ('b tick_state, (dict option \<times> prepared_phase list) option) op" where
  "ready_run l tp repo c = (let src = eligible_source c in
     if requires_plan (tp_profile tp) \<and> is_embedded src
     then bind_op (register_embedded l tp repo (entry c)) (\<lambda>r. case r of None \<Rightarrow> ret None
       | Some (reg, v) \<Rightarrow> prepare_run l tp repo c (phase_request_of l tp c (Some (run_plan_source v)) (Some (run_plan_reference v, run_plan_source v)) (Some reg)) (Some reg))
     else prepare_run l tp repo c (phase_request_of l tp c src (path_reference src) None) None)"

text \<open>Everything before the board changes: \<^const>\<open>None\<close> when the tick has given up.\<close>

definition bound_run :: "'b launch \<Rightarrow> tick_profile \<Rightarrow> string \<Rightarrow> eligible_todo \<Rightarrow> ('b launch_state, (dict option \<times> prepared_phase list) option) op" where
  "bound_run l tp repo c = bind_op (in_project (ready_run l tp repo c)) (\<lambda>r. case r of None \<Rightarrow> ret None
     | Some (reg, ps) \<Rightarrow> bind_op (bind_run l (issue_todo_id (entry c)) reg ps) (\<lambda>b. ret (map_option (Pair reg) b)))"

definition launch_todo :: "'b launch \<Rightarrow> tick_profile \<Rightarrow> string \<Rightarrow> eligible_todo \<Rightarrow> ('b launch_state, unit) op" where
  "launch_todo l tp repo c = bind_op (bound_run l tp repo c) (\<lambda>r. case r of None \<Rightarrow> ret ()
     | Some (reg, ps) \<Rightarrow> in_project (dispatch l tp repo (entry c) reg ps))"

section \<open>The tick\<close>

text \<open>Only a candidate that was compiled may be picked.\<close>

definition act_on :: "'b launch \<Rightarrow> tick_profile \<Rightarrow> string \<Rightarrow> eligible_todo list \<Rightarrow> decision \<Rightarrow> ('b launch_state, unit) op" where
  "act_on l tp repo cs d = (case picked d of None \<Rightarrow> in_project (picked_nothing l)
     | Some p \<Rightarrow> (case find (\<lambda>c. issue_todo_id (entry c) = p) cs of None \<Rightarrow> raise RuntimeErr | Some c \<Rightarrow> launch_todo l tp repo c))"

text \<open>The candidates with the repository, or \<^const>\<open>None\<close> when the tracker failed and that is on record.\<close>

definition unless_tracker_failed :: "'b launch \<Rightarrow> ('b tick_state, 'a) op \<Rightarrow> ('b tick_state, 'a option) op" where
  "unless_tracker_failed l m = bind_op (capture m) (\<lambda>r. case r of Inr x \<Rightarrow> ret (Some x)
     | Inl e \<Rightarrow> if is_issues_error e then then_op (tracker_failed l e) (ret None) else raise e)"

definition candidates_of :: "'b launch \<Rightarrow> tick_profile \<Rightarrow> bool \<Rightarrow> json list \<Rightarrow> ('b tick_state, (string \<times> eligibility) option) op" where
  "candidates_of l tp available flight = (let requires = requires_plan (tp_profile tp) in
     bind_op (unless_tracker_failed l (tracked_issues l)) (\<lambda>r. case r of None \<Rightarrow> ret None
     | Some (repo, issues) \<Rightarrow> bind_op (reads (compile_candidates l requires available flight issues)) (\<lambda>e.
         bind_op (if requires then unless_tracker_failed l (block_untracked_plans l e) else ret (Some e)) (\<lambda>r. ret (map_option (Pair repo) r)))))"

definition select_and_launch :: "'b launch \<Rightarrow> tick_profile \<Rightarrow> ('b launch_state, unit) op" where
  "select_and_launch l tp = bind_op (in_project (on_cards (fetch_kanban_snapshot (lboard l) (lslug l)))) (\<lambda>board.
     let shot = (if board = JNull then NO_SNAPSHOT else board) in
     bind_op (in_project (on_cards (build_in_flight (lboard l) (Some (lslug l)) shot))) (\<lambda>flight.
     bind_op (in_project (candidates_of l tp (board \<noteq> JNull) flight)) (\<lambda>r. case r of None \<Rightarrow> ret ()
       | Some (repo, e) \<Rightarrow> bind_op (in_project (select_todo l shot e)) (act_on l tp repo (fst e)))))"

definition launch_tick :: "'b launch \<Rightarrow> ('b launch_state, unit) op" where
  "launch_tick l = bind_op (in_project (tick_profile_of l)) (select_and_launch l)"

text \<open>\<^verbatim>\<open>_tick_project\<close> from the pointer on.\<close>

definition tick_from_pointer :: "'b launch \<Rightarrow> ('b launch_state, unit) op" where
  "tick_from_pointer l = bind_op (in_project (resume_with (resumed l))) (\<lambda>on. if on then launch_tick l else ret ())"

text \<open>All of it: the sweep, the pending creation of a card, the channel of the project, then the tick.\<close>

definition tick_project :: "'b cycle_world \<Rightarrow> tick_settings \<Rightarrow> string \<Rightarrow> string \<Rightarrow> string \<Rightarrow> dict option \<Rightarrow> ('b project_tick \<Rightarrow> 'b launch) \<Rightarrow> ('b launch_state, unit) op" where
  "tick_project w c project_dir slug state_dir toml_data launched = then_op (in_project (sweep_processes w))
     (bind_op (in_project (on_cards (reconcile_pending_task_create (cycle_board w) project_dir False))) (\<lambda>on.
       if \<not> on then ret ()
       else bind_op (in_project (on_cards (reads (project_channel w c project_dir toml_data)))) (\<lambda>channel.
         tick_from_pointer (launched (project_tick_of w c project_dir slug state_dir channel)))))"

end
