(* ===== verification/LaunchSafety.thy ===== *)
theory LaunchSafety
  imports TickLaunch CreationSafety ResumeSafety SelectionSafety
begin

text \<open>
  Safety of \<^theory_text>\<open>TickLaunch\<close>: what a tick picks may be worked on, a tick that picked nothing leaves the project
  free for the next one, and a tick that gives up on a run it has registered retires it.
\<close>

section \<open>What keeps a file of the board\<close>

interpretation kb: op_relation "\<lambda>s s' :: 'b board. texts s' p = texts s p" for p
  by unfold_locales auto

lemma keeping_cards [keeping]: "kb.obeys p m \<Longrightarrow> kt.obeys p (on_cards m)"
  by (rule kt.obeysI) (auto simp: on_cards_def keeps_text_def dest: kb.obeysD split: prod.splits)

lemma kb_write: "q \<noteq> p \<Longrightarrow> kb.obeys p (write_text w q t)"
  by (rule kb.obeysI) (auto simp: write_text_def split: option.splits)

lemma kb_hermes: "kb.obeys p (hermes w args)"
  by (rule kb.obeysI) (auto simp: hermes_def split: prod.splits)

lemma kb_notify: "kb.obeys p (notify w ch msg)"
  unfolding notify_def by (intro kb.obeys_rules kb_hermes)

lemma kb_observe: "state_path b \<noteq> p \<Longrightarrow> kb.obeys p (observe w k b pick counts detail)"
  unfolding observe_def save_breaker_def alert_def by (intro kb.obeys_rules kb_write kb_notify)

lemma kb_outcome: "outcome_path d i \<noteq> p \<Longrightarrow> kb.obeys p (append_outcome w d i x detail)"
  by (rule kb.obeysI) (auto simp: append_outcome_def write_once_def write_text_def split: option.splits if_splits)

lemma kb_observe_outcomes: "outcomes_path d i \<noteq> p \<Longrightarrow> kb.obeys p (observe_outcomes w d i m)"
proof -
  have "outcomes_path d i \<noteq> p \<Longrightarrow> kb.obeys p (\<lambda>s. write_text w (outcomes_path d i) (f s) s)" for f
    by (rule kb.obeys_state [of p "\<lambda>s. write_text w (outcomes_path d i) (f s)"]) (rule kb_write)
  then show "outcomes_path d i \<noteq> p \<Longrightarrow> ?thesis" unfolding observe_outcomes_def Let_def by (intro kb.obeys_rules)
qed

section \<open>Nothing picked\<close>

text \<open>The files of a project's breaker, as the tick sets it up.\<close>

definition own_breaker :: "'b launch \<Rightarrow> bool" where
  "own_breaker l \<longleftrightarrow> state_path (pt_breaker (resumed l)) = lstate l @ ''/circuit.json''"

lemma concludes_keeps: "own_breaker l \<Longrightarrow> lstate l @ ''/circuit.json'' \<noteq> p \<Longrightarrow> kt.obeys p (concludes l pick counts)"
  unfolding concludes_def own_breaker_def by (intro keeping kb_observe) simp

lemma other_names: "tick_pointer d \<noteq> outcomes_path d i" "outcomes_path d i \<noteq> tick_pointer d" "d @ ''/circuit.json'' \<noteq> tick_pointer d"
  by (simp_all add: tick_pointer_def outcomes_path_def)

lemma sentinel_read: "picked_none (split_on newline (strip NONE_SENTINEL)) = Inr True"
  by code_simp

text \<open>
  C20: a tick without a pick does not wedge the project.  When the pointer names a tick that picked nothing and did not before, the next tick finds that
  tick complete, from the sentinel alone, as long as it has no registration and the sentinel can be read.
\<close>

theorem no_pick_never_wedges:
  assumes "own_breaker l" and "picked_nothing l s = (r, s')"
    and "texts (cards s) (tick_pointer (lstate l)) \<noteq> Some (launch_id l)" and "texts (cards s') (tick_pointer (lstate l)) = Some (launch_id l)"
    and "\<not> run_file (lstate l) (launch_id l) ''registration.json'' s'" and "read_error (lboard l) (outcomes_path (lstate l) (launch_id l)) (remote (cards s')) = None"
  shows "tick_complete (lboard l) (Some (lstate l)) (launch_id l) [] (cards s') = Inr True"
proof -
  let ?d = "lstate l" let ?i = "launch_id l" let ?p = "tick_pointer ?d"
  have keeps: "kt.obeys ?p (concludes l None True)" "kt.obeys ?p (on_cards (observe_outcomes (lboard l) ?d ?i []))"
      "kt.obeys ?p (on_cards (write_text (lboard l) (outcomes_path ?d ?i) NONE_SENTINEL))"
    by (intro concludes_keeps keeping kb_observe_outcomes kb_write assms(1) other_names)+
  define m where "m = catch_op (then_op (on_cards (observe_outcomes (lboard l) ?d ?i [])) (then_op (on_cards (write_text (lboard l) (outcomes_path ?d ?i) NONE_SENTINEL)) (ret True))) (\<lambda>_. ret False)"
  have m: "kt.obeys ?p m" unfolding m_def by (intro keeping keeps)
  obtain s1 where 1: "concludes l None True s = (Inr (), s1)" and r1: "bind_op m (\<lambda>written. if written then on_cards (persist_tick_id (lboard l) ?d ?i False) else ret ()) s1 = (r, s')"
    using assms(2,3,4) keeps(1) [THEN kt.obeysD]
    by (cases "concludes l None True s"; cases "fst (concludes l None True s)") (auto simp: picked_nothing_def Let_def then_op_def m_def bind_op_def keeps_text_def)
  have p1: "texts (cards s1) ?p \<noteq> Some ?i" using kt.obeysD [OF keeps(1) 1] assms(3) by (simp add: keeps_text_def)
  obtain q s2 where 2: "m s1 = (q, s2)" by (cases "m s1") auto
  have p2: "texts (cards s2) ?p \<noteq> Some ?i" using kt.obeysD [OF m 2] p1 by (simp add: keeps_text_def)
  have q: "q = Inr True" using r1 2 p2 assms(4) by (cases q) (auto simp: bind_op_def split: if_splits)
  have sent: "texts (cards s2) (outcomes_path ?d ?i) = Some NONE_SENTINEL"
    using 2 unfolding q m_def
    by (auto simp: catch_op_def then_op_def bind_op_def ret_def on_cards_def write_text_def split: prod.splits sum.splits option.splits)
  have "s' = s2\<lparr>cards := (cards s2)\<lparr>texts := (texts (cards s2))(?p \<mapsto> ?i)\<rparr>\<rparr>"
    using r1 2 q p2 assms(4) by (auto simp: bind_op_def on_cards_def persist_tick_id_def then_op_def write_text_def ret_def split: option.splits prod.splits)
  then have "texts (cards s') (outcomes_path ?d ?i) = Some NONE_SENTINEL" using sent other_names by simp
  then show ?thesis using assms(5,6) sentinel_read
    by (simp add: tick_complete_def pinned_done_def run_file_def no_cards_complete_def path_exists_def read_text_def)
qed

text \<open>The call of the selector ends, with the reserve, before the lock of the tick may be swept.\<close>

lemma selection_within_lock: "1 \<le> m \<Longrightarrow> selection_timeout_s m + SELECTION_TIMEOUT_RESERVE_S \<le> m * 60"
  by (simp add: selection_timeout_s_def SELECTION_TIMEOUT_RESERVE_S_def MIN_TIMEOUT_SECONDS_def MAX_TIMEOUT_SECONDS_def)

section \<open>Runs that are given up\<close>

definition retired :: "'b launch \<Rightarrow> 'b tick_state \<Rightarrow> bool" where
  "retired l s \<longleftrightarrow> (run_file (lstate l) (launch_id l) ''registration.json'' s \<longrightarrow> registration_state (lstate l) (launch_id l) s \<noteq> ''active'')"

definition leaves_retired :: "'b launch \<Rightarrow> ('b tick_state, 'a option) op \<Rightarrow> bool" where
  "leaves_retired l m \<longleftrightarrow> (\<forall>s s'. m s = (Inr None, s') \<longrightarrow> retired l s')"

lemma leaves_retiredD: "leaves_retired l m \<Longrightarrow> m s = (Inr None, s') \<Longrightarrow> retired l s'"
  unfolding leaves_retired_def by blast

lemma leaves_some: "leaves_retired l (ret (Some x))" "leaves_retired l (raise e)"
  by (auto simp: leaves_retired_def)

text \<open>Marking the run is enough, when what follows keeps its files.\<close>

lemma abandon_retires:
  assumes k: "\<And>n. kt.obeys (run_path (lstate l) (launch_id l) n) k"
  shows "leaves_retired l (then_op (abandon_run l why) k)"
proof -
  have "retired l s'" if run: "then_op (abandon_run l why) k s = (Inr None, s')" for s s'
  proof -
    obtain s1 where 1: "abandon_run l why s = (Inr (), s1)" and 2: "k s1 = (Inr None, s')"
      using run by (auto simp: then_op_def bind_op_def split: prod.splits sum.splits)
    have "run_file (lstate l) (launch_id l) ''registration.json'' s1 \<longrightarrow> run_file (lstate l) (launch_id l) ''abandoned'' s1"
      using 1 by (auto simp: abandon_run_def abandon_run_if_registered_def run_file_def path_exists_def run_path_def bind_op_def then_op_def ret_def
          on_cards_def write_text_def split: prod.splits sum.splits if_splits option.splits)
    moreover have "texts (cards s') (run_path (lstate l) (launch_id l) n) = texts (cards s1) (run_path (lstate l) (launch_id l) n)" for n
      using 2 kt.obeysD [OF k] by (auto simp: keeps_text_def)
    ultimately show ?thesis by (auto simp: retired_def registration_state_def run_file_def path_exists_def)
  qed
  then show ?thesis by (auto simp: leaves_retired_def)
qed

lemma leaves_capture:
  assumes "\<And>x. leaves_retired l (f (Inr x))" and "\<And>e. leaves_retired l (f (Inl e))"
  shows "leaves_retired l (bind_op (capture m) f)"
  unfolding leaves_retired_def
proof (intro allI impI)
  fix s s' assume "bind_op (capture m) f s = (Inr None, s')"
  then obtain r s1 where "f r s1 = (Inr None, s')" by (auto simp: bind_op_def capture_def split: prod.splits)
  then show "retired l s'" using assms by (cases r) (auto dest: leaves_retiredD)
qed

lemma leaves_bind_option:
  assumes "leaves_retired l m" and "\<And>x. leaves_retired l (f x)"
  shows "leaves_retired l (bind_op m (\<lambda>r. case r of None \<Rightarrow> ret None | Some x \<Rightarrow> f x))"
  unfolding leaves_retired_def
proof (intro allI impI)
  fix s s' assume b: "bind_op m (\<lambda>r. case r of None \<Rightarrow> ret None | Some x \<Rightarrow> f x) s = (Inr None, s')"
  then obtain r s1 where m: "m s = (Inr r, s1)" by (cases "m s"; cases "fst (m s)") (auto simp: bind_op_def)
  with b assms show "retired l s'" by (cases r) (auto simp: bind_op_def dest: leaves_retiredD)
qed

lemma leaves_map: "leaves_retired l m \<Longrightarrow> leaves_retired l (bind_op m (\<lambda>r. ret (map_option f r)))"
  by (auto simp: leaves_retired_def bind_op_def split: prod.splits sum.splits)

text \<open>What a tick does after it has given up keeps the files of runs.\<close>

lemma gives_up_keeps: "own_breaker l \<Longrightarrow> kt.obeys (run_path (lstate l) i n) (gives_up l todo e reason)"
  unfolding gives_up_def failed_to_spawn_def
  by (intro keeping kb_outcome concludes_keeps) (simp_all add: outcome_path_def run_path_def)

lemma demote_keeps: "kt.obeys p (demote_for l issue repo code)"
  unfolding demote_for_def demote_issue_def Let_def by (intro keeping)

lemma prepared_retired: "own_breaker l \<Longrightarrow> leaves_retired l (prepared_or_none l True q)"
  unfolding prepared_or_none_def
  by (intro leaves_capture) (auto intro!: leaves_some abandon_retires keeping gives_up_keeps)

lemma pinned_retired: "own_breaker l \<Longrightarrow> leaves_retired l (pinned_prompts l q reg ps)"
  unfolding pinned_prompts_def by (auto intro!: leaves_some prepared_retired)

lemma settled_retired: "own_breaker l \<Longrightarrow> leaves_retired l (settle_registration l tp repo c q (Some reg) ps)"
  unfolding settle_registration_def Let_def
  by (auto intro!: leaves_map pinned_retired abandon_retires keeping gives_up_keeps)

lemma embedded_retired: "own_breaker l \<Longrightarrow> leaves_retired l (register_embedded l tp repo issue)"
proof -
  assume b: "own_breaker l"
  then have "leaves_retired l (then_op (abandon_run l why) (then_op (gives_up l todo e reason) (then_op (demote_for l issue repo code) (ret None))))" for why todo e reason code
    by (intro abandon_retires keeping gives_up_keeps demote_keeps)
  then show ?thesis unfolding register_embedded_def
    by (intro leaves_capture) (auto intro!: leaves_some split: option.splits)
qed

lemma ready_retired:
  assumes "own_breaker l" and "requires_plan (tp_profile tp)" and "is_embedded (eligible_source c)"
  shows "leaves_retired l (ready_run l tp repo c)"
proof -
  have "leaves_retired l (prepare_run l tp repo c q (Some reg))" for q reg
    unfolding prepare_run_def using assms(1) by (auto intro!: leaves_bind_option prepared_retired settled_retired)
  then have "leaves_retired l (case x of (reg, v) \<Rightarrow> prepare_run l tp repo c (q reg v) (Some reg))" for x q by (cases x) simp
  then show ?thesis using assms unfolding ready_run_def Let_def by (auto intro!: leaves_bind_option embedded_retired)
qed

text \<open>With a registration at hand every answer but giving up names it.\<close>

lemma bind_run_retires:
  assumes "own_breaker l" and "bind_run l todo reg ps so = (Inr None, so')"
  shows "retired l (fst so')"
proof -
  obtain s s' e where "in_project (then_op (abandon_run l ''supervisor_registration_failed'') (then_op (gives_up l todo e ''supervisor_registration_failed'') (ret None))) s = (Inr (None :: prepared_phase list option), so')"
    using assms(2) by (auto simp: bind_run_def Let_def bind_op_def capture_def ret_def split: prod.splits sum.splits if_splits)
  then have "then_op (abandon_run l ''supervisor_registration_failed'') (then_op (gives_up l todo e ''supervisor_registration_failed'') (ret (None :: prepared_phase list option))) (fst s) = (Inr None, fst so')"
    by (auto simp: in_project_def split: prod.splits)
  then show ?thesis by (rule leaves_retiredD [OF abandon_retires, rotated]) (intro keeping gives_up_keeps assms(1))
qed

text \<open>
  C22: a tick that gives up on a registered run retires it.  When the run of a TODO with an embedded Plan does not get as far as its cards, because of
  its registration, its prompts, its keys or its executions, no registration of it is left active.
\<close>

theorem given_up_runs_are_retired:
  assumes "own_breaker l" and "requires_plan (tp_profile tp)" and "is_embedded (eligible_source c)"
    and "bound_run l tp repo c (s, other) = (Inr None, (s', other'))"
    and "run_file (lstate l) (launch_id l) ''registration.json'' s'"
  shows "registration_state (lstate l) (launch_id l) s' \<noteq> ''active''"
proof -
  obtain r s1 o1 where 1: "ready_run l tp repo c s = (Inr r, s1)" and r: "(case r of None \<Rightarrow> ret None
     | Some (reg, ps) \<Rightarrow> bind_op (bind_run l (issue_todo_id (entry c)) reg ps) (\<lambda>b. ret (map_option (Pair reg) b))) (s1, other) = (Inr None, (s', other'))"
    using assms(4) by (auto simp: bound_run_def bind_op_def in_project_def split: prod.splits sum.splits)
  have "retired l s'"
  proof (cases r)
    case None
    then show ?thesis using 1 r leaves_retiredD [OF ready_retired [OF assms(1-3)]] by auto
  next
    case (Some x)
    then obtain reg ps where "bind_run l (issue_todo_id (entry c)) reg ps (s1, other) = (Inr None, (s', other'))"
      using r by (cases x) (auto simp: bind_op_def ret_def split: prod.splits sum.splits)
    then show ?thesis using bind_run_retires [OF assms(1)] by fastforce
  qed
  then show ?thesis using assms(5) by (simp add: retired_def)
qed

section \<open>What may be picked\<close>

text \<open>Why an issue is a candidate.\<close>

definition workable :: "'b launch \<Rightarrow> bool \<Rightarrow> json list \<Rightarrow> int list \<Rightarrow> eligible_todo \<Rightarrow> bool" where
  "workable l requires flight active c \<longleftrightarrow> (let i = entry c in
     issue_state i = ''open'' \<and> has_label i READY_LABEL \<and> \<not> has_label i ON_HOLD_LABEL \<and> \<not> has_label i IN_PROGRESS_LABEL
     \<and> (\<exists>n. blocked_by_open i = Some n \<and> n \<le> 0) \<and> JStr (issue_todo_id i) \<notin> set flight \<and> issue_number i \<notin> set active \<and> length (branch_values i) = 1
     \<and> (if requires then (\<exists>src. eligible_source c = Some src \<and> resolve_plan_source (RunCreation.text_hash (lflow l)) (plan_world (lflow l)) (path_parts (lproject l)) i = Inr src)
        else eligible_source c = None))"

lemma flying_ids: "x \<in> set (map str_of (filter is_str flight)) \<longleftrightarrow> JStr x \<in> set flight"
proof
  assume "x \<in> set (map str_of (filter is_str flight))"
  then obtain v where v: "v \<in> set flight" "is_str v" "x = str_of v" by auto
  from v(2,3) have "v = JStr x" by (cases v) auto
  with v(1) show "JStr x \<in> set flight" by simp
next
  assume "JStr x \<in> set flight"
  then show "x \<in> set (map str_of (filter is_str flight))" by (force intro: image_eqI [of _ _ "JStr x"])
qed

lemma no_reason:
  assumes "status_reason busy active available i = None"
  shows "issue_state i = ''open'' \<and> has_label i READY_LABEL \<and> \<not> has_label i ON_HOLD_LABEL \<and> \<not> has_label i IN_PROGRESS_LABEL
     \<and> (\<exists>n. blocked_by_open i = Some n \<and> n \<le> 0) \<and> issue_todo_id i \<notin> set busy \<and> issue_number i \<notin> set active"
  using assms by (auto simp: status_reason_def split: if_splits option.splits)

lemma plan_resolved: "plan_reason h fs d i = Inr (src, None) \<Longrightarrow> \<exists>p. src = Some p \<and> resolve_plan_source h fs d i = Inr p"
  by (cases "resolve_plan_source h fs d i") (auto simp: plan_reason_def split: exn.splits if_splits)

lemma judged_workable:
  assumes "judge_issue (RunCreation.text_hash (lflow l)) (plan_world (lflow l)) (path_parts (lproject l)) (map str_of (filter is_str flight)) active available requires i = Inr (Inl c)"
  shows "workable l requires flight active c"
proof -
  have none: "status_reason (map str_of (filter is_str flight)) active available i = None" using assms by (auto simp: judge_issue_def split: option.splits)
  then obtain src where plan: "(if requires then plan_reason (RunCreation.text_hash (lflow l)) (plan_world (lflow l)) (path_parts (lproject l)) i else Inr (None, None)) = Inr (src, None)"
      and c: "entry c = i" "eligible_source c = src" "length (branch_values i) = 1"
    using assms by (auto simp: judge_issue_def rbind_eq_Inr split: option.splits if_splits prod.splits)
  show ?thesis using no_reason [OF none] plan c plan_resolved flying_ids [of "issue_todo_id i" flight]
    by (auto simp: workable_def Let_def split: if_splits)
qed

lemma judged_from: "judge_issues judge js cs blocked = Inr (cs', b) \<Longrightarrow> c \<in> set cs' \<Longrightarrow> c \<in> set cs \<or> (\<exists>i \<in> set js. judge i = Inr (Inl c))"
proof (induction js arbitrary: cs blocked)
  case (Cons i js)
  then obtain r where r: "judge i = Inr r" by (auto simp: rbind_eq_Inr)
  show ?case
  proof (cases r)
    case (Inl x)
    then have "judge_issues judge js (cs @ [x]) blocked = Inr (cs', b)" using Cons.prems(1) r by simp
    from Cons.IH [OF this Cons.prems(2)] r Inl show ?thesis by auto
  next
    case (Inr why)
    then have "judge_issues judge js cs (AList.update (issue_todo_id i) why blocked) = Inr (cs', b)" using Cons.prems(1) r by simp
    from Cons.IH [OF this Cons.prems(2)] show ?thesis by auto
  qed
qed simp

lemma kept_from: "keep_tracked l cs (kept, blocked) s = (Inr e, s') \<Longrightarrow> set (fst e) \<subseteq> set kept \<union> set cs"
proof (induction cs arbitrary: kept blocked s)
  case (Cons c cs)
  then obtain tracked s1 where "keep_tracked l cs (if tracked then (kept @ [c], blocked) else (kept, AList.update (issue_todo_id (entry c)) ''plan_invalid:untracked'' blocked)) s1 = (Inr e, s')"
    by (auto simp: bind_op_def split: prod.splits sum.splits)
  then show ?case using Cons.IH by (cases tracked) fastforce+
qed (auto simp: ret_def)

lemma unblocked_from: "block_untracked_plans l e s = (Inr e', s') \<Longrightarrow> set (fst e') \<subseteq> set (fst e)"
  by (auto simp: block_untracked_plans_def bind_op_def ret_def raise_def split: if_splits prod.splits sum.splits dest: kept_from [THEN subsetD])

lemma unless_failed: "unless_tracker_failed l m s = (Inr (Some x), s') \<Longrightarrow> m s = (Inr x, s')"
  by (auto simp: unless_tracker_failed_def bind_op_def capture_def then_op_def ret_def raise_def split: prod.splits sum.splits if_splits)

lemma sort_issues_set: "set (sort_issues is) = set is"
proof -
  have "set (insert_issue i js) = insert i (set js)" for i js by (induction js) auto
  then have "set (foldr insert_issue is js) = set is \<union> set js" for js by (induction "is") auto
  then show ?thesis by (simp add: sort_issues_def)
qed

lemma judged_entry: "judge_issue h fs d busy active available requires i = Inr (Inl c) \<Longrightarrow> entry c = i"
  by (auto simp: judge_issue_def rbind_eq_Inr split: option.splits if_splits prod.splits)

lemma candidates_workable:
  assumes "candidates_of l tp available flight s = (Inr (Some (repo, e)), s')"
  shows "\<exists>issues sa active. tracked_issues l s = (Inr (repo, issues), sa) \<and> active_registration_issue_numbers (lflow l) (lstate l) sa = Inr active
    \<and> (\<forall>c \<in> set (fst e). entry c \<in> set issues \<and> workable l (requires_plan (tp_profile tp)) flight active c)"
proof -
  let ?req = "requires_plan (tp_profile tp)"
  obtain issues e0 sa where t: "unless_tracker_failed l (tracked_issues l) s = (Inr (Some (repo, issues)), sa)"
    and comp: "compile_candidates l ?req available flight issues sa = Inr e0" and sub: "set (fst e) \<subseteq> set (fst e0)"
    using assms by (auto simp: candidates_of_def Let_def bind_op_def reads_def ret_def split: prod.splits sum.splits option.splits if_splits dest!: unless_failed [of l "block_untracked_plans l _"] unblocked_from)
  obtain active where a: "active_registration_issue_numbers (lflow l) (lstate l) sa = Inr active"
    and j: "judge_issues (judge_issue (RunCreation.text_hash (lflow l)) (plan_world (lflow l)) (path_parts (lproject l)) (map str_of (filter is_str flight)) active available ?req)
      (sort_issues issues) [] [] = Inr e0"
    using comp by (auto simp: compile_candidates_def rbind_eq_Inr compile_eligible_issues_def)
  have "entry c \<in> set issues \<and> workable l ?req flight active c" if "c \<in> set (fst e0)" for c
  proof -
    from j have "judge_issues (judge_issue (RunCreation.text_hash (lflow l)) (plan_world (lflow l)) (path_parts (lproject l)) (map str_of (filter is_str flight)) active available ?req)
      (sort_issues issues) [] [] = Inr (fst e0, snd e0)" by simp
    from judged_from [OF this that] obtain i where i: "i \<in> set (sort_issues issues)"
      "judge_issue (RunCreation.text_hash (lflow l)) (plan_world (lflow l)) (path_parts (lproject l)) (map str_of (filter is_str flight)) active available ?req i = Inr (Inl c)" by auto
    show ?thesis using judged_workable [OF i(2)] judged_entry [OF i(2)] i(1) sort_issues_set by blast
  qed
  then show ?thesis using unless_failed [OF t] a sub by blast
qed

text \<open>The selector answers with a candidate or with nothing.\<close>

lemma selected_is_candidate:
  assumes "select_todo l shot e s = (Inr d, s')" and "picked d = Some p"
  shows "p \<in> set (todo_ids (fst e))"
proof -
  obtain cfg ctx sb se where run: "((if fst e = [] then record_no_candidates (lselect l) cfg (lstate l) (launch_id l) ctx (snd e)
       else run_selection (lselect l) cfg (lstate l) (launch_id l) ctx (Some (todo_ids (fst e)))) sb) = (Inr d, se)"
    using assms(1) by (auto simp: select_todo_def Let_def bind_op_def on_cards_def lift_res_def reads_def split: prod.splits sum.splits)
  show ?thesis
  proof (cases "fst e = []")
    case True
    then obtain s1 where "file_decision (lselect l) (lstate l) (no_pick (lselect l) (launch_id l) (sel_model cfg) ''no_eligible_candidates'' (snd e) (in_flight ctx)) sb = (Inr d, s1)"
      using run by (cases "record_no_candidates (lselect l) cfg (lstate l) (launch_id l) ctx (snd e) sb") (auto simp: record_no_candidates_def)
    then have "picked d = None" using file_decision_result by (fastforce simp: no_pick_def)
    then show ?thesis using assms(2) by simp
  next
    case False
    then obtain r sha s1 s2 where "file_decision (lselect l) (lstate l) (decide (lselect l) cfg (launch_id l) ctx (Some (todo_ids (fst e))) r sha) s1 = (Inr d, s2)"
      using run by (cases "run_selection (lselect l) cfg (lstate l) (launch_id l) ctx (Some (todo_ids (fst e))) sb")
        (auto simp: run_selection_def bind_op_def split: prod.splits sum.splits)
    then have "d = decide (lselect l) cfg (launch_id l) ctx (Some (todo_ids (fst e))) r sha" using file_decision_result by blast
    then have "fst (believed_pick (candidate_ids ctx) (todo_ids (fst e)) (in_flight ctx) r) = Some p" using assms(2) by (simp add: decide_def Let_def split: prod.splits)
    then show ?thesis using believed_pick_ok by blast
  qed
qed

text \<open>
  C12: what a tick picks may be worked on.  A TODO that is picked is one of the issues the tick fetched, and the issue that is then run is open, ready, not on
  hold, not in progress, free of open blockers, on no card at work, and of no run whose registration is active on file once the
  issues are fetched; it names one branch, and when the profile asks for a Plan, the one that is run is the one the
  issue resolves to.
\<close>

theorem picked_todo_is_workable:
  assumes "candidates_of l tp available flight s = (Inr (Some (repo, e)), s')" and "select_todo l shot e s1 = (Inr d, s2)" and "picked d = Some p"
  shows "\<exists>c issues sa active. tracked_issues l s = (Inr (repo, issues), sa) \<and> active_registration_issue_numbers (lflow l) (lstate l) sa = Inr active
    \<and> find (\<lambda>c. issue_todo_id (entry c) = p) (fst e) = Some c \<and> entry c \<in> set issues
    \<and> workable l (requires_plan (tp_profile tp)) flight active c"
proof -
  obtain issues sa active where a: "tracked_issues l s = (Inr (repo, issues), sa)" "active_registration_issue_numbers (lflow l) (lstate l) sa = Inr active"
    and w: "\<And>c. c \<in> set (fst e) \<Longrightarrow> entry c \<in> set issues \<and> workable l (requires_plan (tp_profile tp)) flight active c"
    using candidates_workable [OF assms(1)] by blast
  have "p \<in> set (todo_ids (fst e))" using selected_is_candidate [OF assms(2,3)] .
  then obtain c where c: "find (\<lambda>c. issue_todo_id (entry c) = p) (fst e) = Some c"
    by (cases "find (\<lambda>c. issue_todo_id (entry c) = p) (fst e)") (auto simp: todo_ids_def find_None_iff)
  then have "c \<in> set (fst e)" by (auto simp: find_Some_iff)
  then show ?thesis using a w c by blast
qed

section \<open>Ticks\<close>

definition lx_launch :: "nat launch" where
  "lx_launch = \<lparr>resumed = rx_tick, launch_id = ''T2'', launch_dir = [], launch_client = ''claude'', launch_policy = ''inherit'',
     prerequisites_file = (\<lambda>_. Inl FileNotFound), bundled_prompt = [], ellipsis = []\<rparr>"

lemma lx_fields: "own_breaker lx_launch" "lstate lx_launch = ''/x''" "launch_id lx_launch = ''T2''" "lboard lx_launch = sx_board"
  by (simp_all add: own_breaker_def lx_launch_def rx_tick_def lstate_def lboard_def pt_board_def cycle_board_def cycle_flow_def rx_world_def boardw_def board_of_def sx_world_def)

lemma lx_nothing: "map_prod id (\<lambda>s. (texts (cards s) ''/x/current_tick_id.txt'', texts (cards s) ''/x/runs/T2/registration.json'')) (picked_nothing lx_launch rx_state) = (Inr (), Some ''T2'', None)"
  by code_simp

theorem no_pick_never_wedges_witness:
  "\<exists>s'. picked_nothing lx_launch rx_state = (Inr (), s') \<and> tick_complete sx_board (Some ''/x'') ''T2'' [] (cards s') = Inr True"
proof -
  obtain s' where r: "picked_nothing lx_launch rx_state = (Inr (), s')" and t: "texts (cards s') ''/x/current_tick_id.txt'' = Some ''T2''" "texts (cards s') ''/x/runs/T2/registration.json'' = None"
    using lx_nothing by (cases "picked_nothing lx_launch rx_state") auto
  have p: "tick_pointer (lstate lx_launch) = ''/x/current_tick_id.txt''" by (simp add: lx_fields tick_pointer_def)
  have "texts (cards rx_state) (tick_pointer (lstate lx_launch)) \<noteq> Some (launch_id lx_launch)" unfolding p by (simp add: rx_state_def lx_fields)
  moreover have "texts (cards s') (tick_pointer (lstate lx_launch)) = Some (launch_id lx_launch)" unfolding p using t by (simp add: lx_fields)
  moreover have "\<not> run_file (lstate lx_launch) (launch_id lx_launch) ''registration.json'' s'" using t by (simp add: run_file_def path_exists_def run_path_def lx_fields)
  moreover have "read_error (lboard lx_launch) (outcomes_path (lstate lx_launch) (launch_id lx_launch)) (remote (cards s')) = None" by (simp add: lx_fields sx_board_def)
  ultimately have "tick_complete (lboard lx_launch) (Some (lstate lx_launch)) (launch_id lx_launch) [] (cards s') = Inr True"
    by (rule no_pick_never_wedges [OF lx_fields(1) r])
  then show ?thesis using r by (simp add: lx_fields)
qed

definition lx_source :: plan_source where
  "lx_source = \<lparr>source_kind = ''embedded'', source_document = [], source_hash = [], source_manifest = None, source_path = None\<rparr>"

definition lx_todo :: eligible_todo where
  "lx_todo = \<lparr>entry = cx_issue\<lparr>issue_plan_source := Some lx_source\<rparr>, eligible_path = None, eligible_kind = Some ''manifest'', eligible_source = Some lx_source\<rparr>"

definition lx_profile :: tick_profile where
  "lx_profile = \<lparr>tp_contract = default_contract, tp_path = ''f'', tp_profile = \<lparr>profile_phases = [], requires_plan = True, deprecated = False\<rparr>, tp_skills = []\<rparr>"

text \<open>The registration on file cannot be read.\<close>

definition lx_broken :: "nat tick_state" where
  "lx_broken = \<lparr>execs = empty_store [], cards = \<lparr>remote = 0, texts = [''/x/runs/T2/registration.json'' \<mapsto> ''x'']\<rparr>\<rparr>"

lemma lx_gives_up: "map_prod (map_sum id (map_option (\<lambda>_. ()))) (\<lambda>s. texts (cards (fst s)) ''/x/runs/T2/registration.json'')
    (bound_run lx_launch lx_profile ''o/r'' lx_todo (lx_broken, empty_store [])) = (Inr None, Some ''x'')"
  by code_simp

theorem given_up_runs_are_retired_witness:
  "\<exists>s' other. bound_run lx_launch lx_profile ''o/r'' lx_todo (lx_broken, empty_store []) = (Inr None, (s', other))
     \<and> texts (cards s') ''/x/runs/T2/registration.json'' = Some ''x'' \<and> registration_state ''/x'' ''T2'' s' \<noteq> ''active''"
proof -
  obtain s' other where r: "bound_run lx_launch lx_profile ''o/r'' lx_todo (lx_broken, empty_store []) = (Inr None, (s', other))"
      and t: "texts (cards s') ''/x/runs/T2/registration.json'' = Some ''x''"
    using lx_gives_up by (cases "bound_run lx_launch lx_profile ''o/r'' lx_todo (lx_broken, empty_store [])"; cases "fst (bound_run lx_launch lx_profile ''o/r'' lx_todo (lx_broken, empty_store []))") auto
  have "run_file (lstate lx_launch) (launch_id lx_launch) ''registration.json'' s'" using t by (simp add: run_file_def path_exists_def run_path_def lx_fields)
  moreover have "requires_plan (tp_profile lx_profile)" "is_embedded (eligible_source lx_todo)" by (simp_all add: lx_profile_def is_embedded_def lx_todo_def lx_source_def)
  ultimately have "registration_state (lstate lx_launch) (launch_id lx_launch) s' \<noteq> ''active''"
    using given_up_runs_are_retired [OF lx_fields(1) _ _ r] by blast
  then show ?thesis using r t by (simp add: lx_fields)
qed

text \<open>
  A Plan on a path of the repository is registered after its prompts, and giving up there does not retire the run:
  when only the worktree cannot be made, the registration stays active without a card.
\<close>

definition lx_program :: "string list \<Rightarrow> string \<Rightarrow> nat \<Rightarrow> gh_outcome \<times> nat" where
  "lx_program args cwd n = (if take 3 args = [''git'', ''worktree'', ''add''] then (GhExit 1 [] [], n) else cx_program args cwd n)"

definition lx_path_launch :: "nat launch" where
  "lx_path_launch = lx_launch\<lparr>resumed := rx_tick\<lparr>pt_world := rx_world\<lparr>shipping := sx_world\<lparr>flow := (creating cx_world)\<lparr>program := lx_program\<rparr>\<rparr>\<rparr>\<rparr>\<rparr>"

lemma path_plan_failure_stays_active:
  "map_prod (map_sum id (map_option (\<lambda>_. ()))) (\<lambda>s. (run_file ''/x'' ''T2'' ''registration.json'' s, registration_state ''/x'' ''T2'' s))
     (register_legacy lx_path_launch lx_profile ''o/r'' \<lparr>entry = cx_issue, eligible_path = Some ''p'', eligible_kind = Some ''legacy'', eligible_source = None\<rparr> []
       \<lparr>execs = empty_store [], cards = \<lparr>remote = 0, texts = (\<lambda>_. None)\<rparr>\<rparr>) = (Inr None, True, ''active'')"
  by code_simp

text \<open>One issue on the tracker, which the selector picks.\<close>

definition lx_issues :: json where
  "lx_issues = JList [JList [JObj [(''number'', JInt 7), (''title'', JStr ''t''), (''state'', JStr ''open''), (''body'', JStr (''### Branch'' @ [newline] @ ''b'')),
     (''labels'', JList [JStr READY_LABEL]), (''issue_dependencies_summary'', JObj [(''blocked_by'', JInt 0)])]]]"

definition lx_open_launch :: "nat launch" where
  "lx_open_launch = lx_launch\<lparr>bundled_prompt := ''p'', ellipsis := ''...'', resumed := rx_tick\<lparr>pt_world := rx_world\<lparr>shipping := sx_world\<lparr>flow := wx_flow\<lparr>
     sched := wx_sched\<lparr>tick_env := rt_world\<lparr>board_world := sx_board\<lparr>command := \<lambda>args n. (Inr (0, ''{\"picked\":\"TODO-7\"}''), n)\<rparr>\<rparr>\<rparr>,
     issues_env := \<lparr>gh_command = (\<lambda>_ _ n. (GhExit 0 (dumps default_style lx_issues) [], n)), git_origin = (\<lambda>_. GhExit 0 ''git@github.com:o/r'' []), text_hash = (\<lambda>_. [])\<rparr>\<rparr>\<rparr>\<rparr>\<rparr>\<rparr>"

definition lx_loose :: tick_profile where
  "lx_loose = lx_profile\<lparr>tp_profile := \<lparr>profile_phases = [], requires_plan = False, deprecated = False\<rparr>\<rparr>"

definition lx_start :: "nat tick_state" where
  "lx_start = \<lparr>execs = empty_store [], cards = \<lparr>remote = 0, texts = [''p'' \<mapsto> ''q'']\<rparr>\<rparr>"

definition lx_found :: "(string \<times> eligibility) option res \<times> nat tick_state" where "lx_found = candidates_of lx_open_launch lx_loose True [JStr ''TODO-1''] lx_start"

lemma lx_candidates: "(case fst lx_found of Inr (Some (repo, e)) \<Rightarrow> todo_ids (fst e) | _ \<Rightarrow> []) = [''TODO-7'']"
  by code_simp

lemma lx_picks: "(case fst lx_found of Inr (Some (repo, e)) \<Rightarrow> (case fst (select_todo lx_open_launch NO_SNAPSHOT e (snd lx_found)) of Inr d \<Rightarrow> picked d | _ \<Rightarrow> None) | _ \<Rightarrow> None) = Some ''TODO-7''"
  by code_simp

theorem picked_todo_is_workable_witness:
  "\<exists>repo e s' d s2 c. candidates_of lx_open_launch lx_loose True [JStr ''TODO-1''] lx_start = (Inr (Some (repo, e)), s')
     \<and> select_todo lx_open_launch NO_SNAPSHOT e s' = (Inr d, s2) \<and> picked d = Some ''TODO-7''
     \<and> c \<in> set (fst e) \<and> issue_state (entry c) = ''open'' \<and> has_label (entry c) READY_LABEL"
proof -
  obtain repo e where f: "fst lx_found = Inr (Some (repo, e))"
    using lx_candidates by (cases "fst lx_found") (auto split: option.splits)
  then obtain d where d: "fst (select_todo lx_open_launch NO_SNAPSHOT e (snd lx_found)) = Inr d" "picked d = Some ''TODO-7''"
    using lx_picks by (cases "fst (select_todo lx_open_launch NO_SNAPSHOT e (snd lx_found))") auto
  have c: "candidates_of lx_open_launch lx_loose True [JStr ''TODO-1''] lx_start = (Inr (Some (repo, e)), snd lx_found)"
    using f unfolding lx_found_def by (simp add: prod_eq_iff)
  obtain s2 where s: "select_todo lx_open_launch NO_SNAPSHOT e (snd lx_found) = (Inr d, s2)" using d(1) by (metis prod.collapse)
  obtain x active where x: "find (\<lambda>c. issue_todo_id (entry c) = ''TODO-7'') (fst e) = Some x"
      "workable lx_open_launch (requires_plan (tp_profile lx_loose)) [JStr ''TODO-1''] active x"
    using picked_todo_is_workable [OF c s d(2)] by blast
  then have "x \<in> set (fst e)" by (auto simp: find_Some_iff)
  then show ?thesis using c s d(2) x(2) by (auto simp: workable_def Let_def)
qed

end
