(* ===== verification/TickScan.thy ===== *)
theory TickScan
  imports TickLaunch TickLock ResultTopology TickHistory
begin

text \<open>
  One scan over the projects, \<^verbatim>\<open>tpo tick\<close> (\<^verbatim>\<open>_cmd_tick\<close> and \<^verbatim>\<open>_rotate_projects\<close> of \<^verbatim>\<open>hermes_pipeline/cli.py\<close>):
  the order of the projects, the tick of each behind its lock, and the exit code.

  The tick of a project together with its lock is an operation the scan is given; that it may find the lock
  held is one way in which it raises.
\<close>

section \<open>The order of the projects\<close>

type_synonym projects = "(string \<times> dict option) list"

definition cursor_path :: "string \<Rightarrow> string" where "cursor_path state_dir = state_dir @ ''/scan_cursor.txt''"

definition scan_cursor :: "'b bw \<Rightarrow> string \<Rightarrow> 'b board \<Rightarrow> int res" where
  "scan_cursor w state_dir s = (case read_text w (cursor_path state_dir) s of
       Inr t \<Rightarrow> Inr (case py_int (strip t) of None \<Rightarrow> 0 | Some n \<Rightarrow> n)
     | Inl e \<Rightarrow> if is_os_error e \<or> is_value_error e then Inr 0 else Inl e)"

definition rotate_projects :: "'b bw \<Rightarrow> string \<Rightarrow> projects \<Rightarrow> ('b board, projects) op" where
  "rotate_projects w state_dir ps = (if length ps \<le> 1 then ret ps
     else bind_op (reads (scan_cursor w state_dir)) (\<lambda>cursor. let offset = nat (cursor mod int (length ps)) in
       bind_op (catch_op (write_text w (cursor_path state_dir) (dec_int (cursor + 1) @ [newline])) (\<lambda>e. if is_os_error e then ret () else raise e)) (\<lambda>_.
         ret (drop offset ps @ take offset ps))))"

section \<open>The scan\<close>

definition dir_name :: "string \<Rightarrow> string" where "dir_name d = (case path_parts d of [] \<Rightarrow> [] | ps \<Rightarrow> last ps)"

text \<open>The names of the projects whose tick raised; a lock that is held is none of them.\<close>

fun scan :: "(string \<times> dict option \<Rightarrow> ('s, unit) op) \<Rightarrow> projects \<Rightarrow> ('s, string list) op" where
  "scan tick [] = ret []"
| "scan tick (p # ps) = bind_op (capture (tick p)) (\<lambda>r. bind_op (scan tick ps) (\<lambda>crashed.
     ret (case r of Inl e \<Rightarrow> if e = TickLockHeld then crashed else dir_name (fst p) # crashed | Inr _ \<Rightarrow> crashed)))"

definition exit_code :: "string list \<Rightarrow> int" where "exit_code crashed = (if crashed \<noteq> [] then 1 else 0)"

text \<open>The projects of a scan: the one named, or all that are found.  \<^const>\<open>None\<close>: a configuration error.\<close>

record 's scan_request =
  named_project :: "string option option"      \<comment> \<open>its directory, if there is one of that name\<close>
  origin_of :: "string \<Rightarrow> ('s, string) op"
  toml_of :: "string \<Rightarrow> 's \<Rightarrow> dict option res"
  projects_dir_exists :: bool
  found_projects :: "'s \<Rightarrow> projects res"

definition named_projects :: "'s scan_request \<Rightarrow> string \<Rightarrow> ('s, projects option) op" where
  "named_projects q d = bind_op (capture (origin_of q d)) (\<lambda>r. case r of
       Inl e \<Rightarrow> if is_issues_error e then ret None else raise e
     | Inr _ \<Rightarrow> bind_op (reads (toml_of q d)) (\<lambda>toml. bind_op (lift_res (is_enabled toml)) (\<lambda>on. if \<not> on then ret None
         else bind_op (reads (toml_of q d)) (\<lambda>again. ret (Some [(d, again)])))))"

definition scanned_projects :: "'s scan_request \<Rightarrow> ('s, projects option) op" where
  "scanned_projects q = (case named_project q of
       Some None \<Rightarrow> ret None
     | Some (Some d) \<Rightarrow> named_projects q d
     | None \<Rightarrow> if \<not> projects_dir_exists q then ret None else bind_op (reads (found_projects q)) (\<lambda>ps. ret (Some ps)))"

definition cmd_tick :: "'s scan_request \<Rightarrow> (projects \<Rightarrow> ('s, projects) op) \<Rightarrow> (string \<times> dict option \<Rightarrow> ('s, unit) op) \<Rightarrow> ('s, int) op" where
  "cmd_tick q reorder tick = bind_op (scanned_projects q) (\<lambda>r. case r of None \<Rightarrow> ret 2
     | Some [] \<Rightarrow> ret 0
     | Some ps \<Rightarrow> bind_op (reorder ps) (\<lambda>ps. bind_op (scan tick ps) (\<lambda>crashed. ret (exit_code crashed))))"

section \<open>No project waits for another\<close>

text \<open>The names of those whose tick raises, each in the state the ticks before it left.\<close>

fun raised :: "(string \<times> dict option \<Rightarrow> ('s, unit) op) \<Rightarrow> 's \<Rightarrow> projects \<Rightarrow> projects" where
  "raised tick s [] = []"
| "raised tick s (p # ps) = (if \<exists>e. fst (tick p s) = Inl e \<and> e \<noteq> TickLockHeld then [p] else []) @ raised tick (snd (tick p s)) ps"

lemma scan_ticks_all: "scan tick ps s = (Inr (map (\<lambda>p. dir_name (fst p)) (raised tick s ps)), foldl (\<lambda>s p. snd (tick p s)) s ps)"
  by (induction ps arbitrary: s) (auto simp: bind_op_def capture_def ret_def split: prod.splits sum.splits)

lemma scan_exit: "fst (scan tick ps s) = Inr crashed \<Longrightarrow> exit_code crashed = 0 \<longleftrightarrow> raised tick s ps = []"
  by (auto simp: scan_ticks_all exit_code_def)

section \<open>Fairness\<close>

lemma separated_digits: "ds \<noteq> [] \<Longrightarrow> list_all is_digit ds \<Longrightarrow> separated ds"
proof (induction ds rule: separated.induct)
  case (3 c d s)
  then have "d \<noteq> CHR ''_''" by (auto simp: is_digit_def)
  with 3 show ?case by simp
qed simp_all

lemma dec_int_ends: "dec_int n \<noteq> []" "\<not> is_space (hd (dec_int n))" "\<not> is_space (last (dec_int n))"
proof -
  have d: "\<not> is_space (hd (dec m))" "\<not> is_space (last (dec m))" for m
    using dec_digits(1,2) [of m] digit_not_space by (auto simp: list_all_iff)
  show "dec_int n \<noteq> []" "\<not> is_space (hd (dec_int n))" "\<not> is_space (last (dec_int n))"
    using d dec_digits(2) by (auto simp: dec_int_def is_space_def)
qed

lemma strip_dec_int: "strip (dec_int n @ [newline]) = dec_int n" "strip (dec_int n) = dec_int n"
  using strip_line [OF dec_int_ends, of "[newline]" n] strip_id [OF dec_int_ends, of n] by (simp_all add: is_space_def newline_def)

lemma py_int_dec: "length (dec_int n) \<le> 4300 \<Longrightarrow> py_int (dec_int n) = Some n"
proof -
  assume l: "length (dec_int n) \<le> 4300"
  have f: "filter is_digit (dec m) = dec m" for m using dec_digits(1) by (simp add: list_all_iff)
  have h: "hd (dec m) \<noteq> CHR ''-''" "hd (dec m) \<noteq> CHR ''+''" for m
    using dec_digits(1,2) [of m] by (cases "dec m"; auto simp: is_digit_def)+
  have st: "startswith (dec m) [c] \<longleftrightarrow> hd (dec m) = c" for m c using dec_digits(2) [of m] by (cases "dec m") (auto simp: startswith_def)
  have sep: "separated (dec m)" for m using separated_digits dec_digits by blast
  show ?thesis
  proof (cases "n < 0")
    case True
    then have "dec_int n = CHR ''-'' # dec (nat (- n))" by (simp add: dec_int_def)
    moreover from this have "strip (CHR ''-'' # dec (nat (- n))) = CHR ''-'' # dec (nat (- n))" using strip_dec_int(2) [of n] by simp
    ultimately show ?thesis using l sep f True by (simp add: py_int_def startswith_def)
  next
    case False
    then have "dec_int n = dec (nat n)" by (simp add: dec_int_def)
    moreover from this have "strip (dec (nat n)) = dec (nat n)" using strip_dec_int(2) [of n] by simp
    ultimately show ?thesis using l sep f False st h by (simp add: py_int_def)
  qed
qed

text \<open>Several scans, of which nothing is seen but the order.\<close>

fun orders :: "'b bw \<Rightarrow> string \<Rightarrow> projects \<Rightarrow> nat \<Rightarrow> ('b board, projects list) op" where
  "orders w d ps 0 = ret []"
| "orders w d ps (Suc k) = bind_op (rotate_projects w d ps) (\<lambda>ord. bind_op (orders w d ps k) (\<lambda>rest. ret (ord # rest)))"

definition usable :: "'b bw \<Rightarrow> string \<Rightarrow> 'b board \<Rightarrow> bool" where
  "usable w path s \<longleftrightarrow> read_error w path (remote s) = None \<and> write_error w path (remote s) = None"

lemma rotate_once:
  assumes "1 < length ps" and "scan_cursor w d s = Inr c" and "usable w (cursor_path d) s" and "length (dec_int (c + 1)) \<le> 4300"
  shows "\<exists>s'. rotate_projects w d ps s = (Inr (rotate (nat (c mod int (length ps))) ps), s') \<and> scan_cursor w d s' = Inr (c + 1) \<and> remote s' = remote s"
proof -
  let ?s = "s\<lparr>texts := (texts s)(cursor_path d \<mapsto> dec_int (c + 1) @ [newline])\<rparr>"
  have "nat (c mod int (length ps)) < length ps" using pos_mod_bound [of "int (length ps)" c] pos_mod_sign [of "int (length ps)" c] assms(1) by linarith
  then have "rotate_projects w d ps s = (Inr (rotate (nat (c mod int (length ps))) ps), ?s)"
    using assms(1,2,3) by (auto simp: rotate_projects_def Let_def usable_def bind_op_def catch_op_def ret_def write_text_def rotate_drop_take)
  moreover have "scan_cursor w d ?s = Inr (c + 1)"
    using assms(3) py_int_dec [OF assms(4)] by (simp add: scan_cursor_def read_text_def usable_def strip_dec_int)
  ultimately show ?thesis by auto
qed

lemma orders_from:
  assumes "1 < length ps" and "scan_cursor w d s = Inr c" and "usable w (cursor_path d) s" and "\<forall>i \<le> k. length (dec_int (c + int i)) \<le> 4300"
  shows "\<exists>s'. orders w d ps k s = (Inr (map (\<lambda>i. rotate (nat ((c + int i) mod int (length ps))) ps) [0..<k]), s')"
  using assms
proof (induction k arbitrary: s c)
  case (Suc k)
  have "length (dec_int (c + 1)) \<le> 4300" using Suc.prems(4) [rule_format, of 1] by simp
  then obtain s1 where 1: "rotate_projects w d ps s = (Inr (rotate (nat (c mod int (length ps))) ps), s1)" "scan_cursor w d s1 = Inr (c + 1)" "remote s1 = remote s"
    using rotate_once [OF Suc.prems(1,2,3)] by blast
  have "usable w (cursor_path d) s1" using Suc.prems(3) 1(3) by (simp add: usable_def)
  moreover have "\<forall>i \<le> k. length (dec_int (c + 1 + int i)) \<le> 4300" using Suc.prems(4) [rule_format, of "Suc _"] by (simp add: algebra_simps)
  ultimately obtain s2 where "orders w d ps k s1 = (Inr (map (\<lambda>i. rotate (nat ((c + 1 + int i) mod int (length ps))) ps) [0..<k]), s2)"
    using Suc.IH [OF Suc.prems(1) 1(2)] by blast
  then show ?case using 1(1) by (simp add: bind_op_def ret_def map_upt_Suc algebra_simps del: upt_Suc)
qed (simp add: ret_def)

text \<open>
  C23: scans are fair.  Among as many consecutive scans as there are projects each project comes first exactly once: the projects that come first are,
  in their order, a rotation of the list, and so is the order of every scan, as long as the cursor can be read and
  written and stays within the digits Python reads.
\<close>

theorem scans_are_fair:
  assumes "1 < length ps" and "scan_cursor w d s = Inr c" and "usable w (cursor_path d) s" and "\<forall>i \<le> length ps. length (dec_int (c + int i)) \<le> 4300"
  shows "\<exists>seen s'. orders w d ps (length ps) s = (Inr seen, s') \<and> map hd seen = rotate (nat (c mod int (length ps))) ps \<and> (\<forall>ord \<in> set seen. \<exists>k. ord = rotate k ps)"
proof -
  let ?n = "length ps"
  let ?seen = "map (\<lambda>i. rotate (nat ((c + int i) mod int ?n)) ps) [0..<?n]"
  obtain s' where o: "orders w d ps ?n s = (Inr ?seen, s')" using orders_from [OF assms] by blast
  have "map hd ?seen = rotate (nat (c mod int ?n)) ps"
  proof (rule nth_equalityI)
    fix i assume "i < length (map hd ?seen)"
    then have i: "i < ?n" and "ps \<noteq> []" by auto
    have "nat ((c + int i) mod int ?n) = (nat (c mod int ?n) + i) mod ?n"
proof -
      have "(c + int i) mod int ?n = (int (nat (c mod int ?n)) + int i) mod int ?n" 
      proof -
        have "0 < int ?n" using assms(1) by linarith
        then have "int (nat (c mod int ?n)) = c mod int ?n" by (simp only: nat_0_le pos_mod_sign)
        then show ?thesis by (simp add: mod_add_left_eq)
      qed
      also have "\<dots> = int ((nat (c mod int ?n) + i) mod ?n)" by (simp add: of_nat_mod)
      finally show ?thesis by simp
    qed
    then show "map hd ?seen ! i = rotate (nat (c mod int ?n)) ps ! i"
      using i \<open>ps \<noteq> []\<close> by (simp add: hd_rotate_conv_nth nth_rotate)
  qed simp
  then show ?thesis using o by auto
qed

definition sc_board :: "nat bw" where
  "sc_board = \<lparr>command = (\<lambda>args n. (Inr (0, []), n)), read_error = (\<lambda>_ _. None), write_error = (\<lambda>_ _. None)\<rparr>"

definition sc_state :: "nat board" where "sc_state = \<lparr>remote = 0, texts = [''/x/scan_cursor.txt'' \<mapsto> ''5'' @ [newline]]\<rparr>"

definition sc_projects :: projects where "sc_projects = [(''/p/a'', None), (''/p/b'', None), (''/p/c'', None)]"

theorem scans_are_fair_witness:
  "\<exists>seen s'. orders sc_board ''/x'' sc_projects 3 sc_state = (Inr seen, s') \<and> map (\<lambda>ord. fst (hd ord)) seen = [''/p/c'', ''/p/a'', ''/p/b'']"
proof -
  have n: "length sc_projects = 3" by (simp add: sc_projects_def)
  have "scan_cursor sc_board ''/x'' sc_state = Inr 5" by code_simp
  moreover have "usable sc_board (cursor_path ''/x'') sc_state" by (simp add: usable_def sc_board_def)
  moreover have "\<forall>i \<le> length sc_projects. length (dec_int (5 + int i)) \<le> 4300"
  proof (intro allI impI)
    fix i assume "i \<le> length sc_projects"
    then have "i = 0 \<or> i = 1 \<or> i = 2 \<or> i = 3" unfolding n by linarith
    moreover have "dec_int 5 = ''5''" "dec_int 6 = ''6''" "dec_int 7 = ''7''" "dec_int 8 = ''8''" by code_simp+
    ultimately show "length (dec_int (5 + int i)) \<le> 4300" by auto
  qed
  moreover have "1 < length sc_projects" by (simp add: n)
  ultimately obtain seen s' where o: "orders sc_board ''/x'' sc_projects (length sc_projects) sc_state = (Inr seen, s')"
      "map hd seen = rotate (nat (5 mod int (length sc_projects))) sc_projects"
    using scans_are_fair [of sc_projects sc_board "''/x''" sc_state 5] by blast
  have "map (\<lambda>ord. fst (hd ord)) seen = map fst (map hd seen)" by simp
  also have "\<dots> = [''/p/c'', ''/p/a'', ''/p/b'']" unfolding o(2) n by code_simp
  finally show ?thesis using o(1) n by auto
qed

end
