(* ===== verification/Spec2Isabelle.thy ===== *)
theory Spec2Isabelle
  imports ExecutionSafety ProgressSafety RecoverySafety TickSafety RegistrationSafety PhaseRouting ResultSafety ResultTopology
    ProfileSafety ScheduleSafety SelectionSafety ShipSafety ResumeSafety CreationSafety TickLock LaunchSafety TickScan
begin

text \<open>
  A verification library for the todo pipeline orchestrator (the Python package \<^verbatim>\<open>hermes_pipeline\<close>).

  The program drives coding agents through the phases of a TODO.  A \<^emph>\<open>tick\<close> picks a TODO, registers
  one card per phase on the Hermes task board, observes what became of the cards of earlier ticks, and
  reconciles: it validates what a worker reports against Git, admits the next phase and recovers phases
  whose worker failed.  Agent processes run under a supervisor that keeps one durable record per
  execution, a journal of the accepted Plan tasks and a file of recovery approvals.

  \<^bold>\<open>Values and text.\<close>  \<^theory_text>\<open>Prelude\<close> has the exceptions as a datatype, results as a sum of an exception and
  a value (\<open>res\<close>), and operations on a state that keep what they wrote before they raised (\<open>op\<close>, in
  which \<open>bind_op\<close>, \<open>try_op\<close> and \<open>for_each\<close> are Python's sequencing, \<^verbatim>\<open>try\<close> and loops).
  \<^theory_text>\<open>PyValues\<close> has the values \<^verbatim>\<open>json.loads\<close> builds with Python's tests on them, \<^theory_text>\<open>PyText\<close> the string
  methods, character classes and \<^verbatim>\<open>json.dumps\<close>, \<^theory_text>\<open>JsonText\<close> the reader with its round trip, \<^theory_text>\<open>Base64\<close>
  the codec of stored prompts, \<^theory_text>\<open>Regex\<close> the backtracking matcher behind \<^verbatim>\<open>re\<close>.

  \<^bold>\<open>Execution store\<close> (\<^verbatim>\<open>agent_execution.py\<close>).  \<^theory_text>\<open>ExecutionRecord\<close> is the record with its validator,
  \<^theory_text>\<open>ExecutionStore\<close> the operations of \<^verbatim>\<open>ExecutionStore\<close> over a store of directories of JSON files,
  \<^theory_text>\<open>ExecutionHistory\<close> each operation as a step on the loaded records, \<^theory_text>\<open>Durable\<close> the contract of a
  store that several processes step (a locale, interpreted with the records), \<^theory_text>\<open>ExecutionSafety\<close> the
  properties and \<^theory_text>\<open>ExecutionExample\<close> the concrete history of their witnesses.

  \<^bold>\<open>Progress journal\<close> (\<^verbatim>\<open>agent_checkpoint.py\<close>): \<^theory_text>\<open>ProgressJournal\<close>, \<^theory_text>\<open>ProgressHistory\<close>, \<^theory_text>\<open>ProgressSafety\<close>
  and \<^theory_text>\<open>ProgressExample\<close>.  Git is a function from arguments to an answer.

  \<^bold>\<open>Recovery approvals\<close> (\<^verbatim>\<open>agent_recovery.py\<close>): \<^theory_text>\<open>Recovery\<close>, \<^theory_text>\<open>RecoveryHistory\<close>, \<^theory_text>\<open>RecoverySafety\<close> and
  \<^theory_text>\<open>RecoveryExample\<close>, over the execution store and the journal.

  \<^bold>\<open>Task board\<close> (\<^verbatim>\<open>kanban_tasks.py\<close>).  \<^theory_text>\<open>Board\<close> is the client: commands, their output, card headers;
  the board itself is an arbitrary state behind one command function.  \<^theory_text>\<open>TickStatus\<close> reads the status
  of a tick, orders the cards and records outcomes; \<^theory_text>\<open>TickHistory\<close> and \<^theory_text>\<open>TickSafety\<close> its properties.
  \<^theory_text>\<open>Registration\<close> creates a chain of cards under a marker of pending state, reconciles the marker and
  cancels a tick; \<^theory_text>\<open>OpRelation\<close> is the contract of what operations may do (a locale),
  \<^theory_text>\<open>RegistrationHistory\<close>, \<^theory_text>\<open>ChainHistory\<close> and \<^theory_text>\<open>RegistrationSafety\<close> what holds however they end.

  \<^bold>\<open>Phase recovery\<close> (\<^verbatim>\<open>phase_recovery.py\<close>): \<^theory_text>\<open>PhaseRecovery\<close> routes a phase whose card is missing or
  not done over the board, the store and the approvals together; \<^theory_text>\<open>PhaseRouting\<close> its properties.

  \<^bold>\<open>Worker results\<close> (\<^verbatim>\<open>result_contract.py\<close>): \<^theory_text>\<open>ResultContract\<close> screens text and parses the report,
  \<^theory_text>\<open>ResultGit\<close> renders the template and checks a report against Git, \<^theory_text>\<open>ResultSafety\<close> has the properties
  of the parser and the template, \<^theory_text>\<open>ResultTopology\<close> reads the topology checks over a graph of commits.
  \<^theory_text>\<open>RunAuthority\<close> is the reader of a run's registration, which checks it against the worktree, the Plan and
  the pinned issue.

  \<^bold>\<open>Phases\<close> (\<^verbatim>\<open>phases.py\<close>, \<^verbatim>\<open>phase_schedule.py\<close>): \<^theory_text>\<open>PhaseProfile\<close> loads profiles, prerequisites and the
  definitions a registration pins, \<^theory_text>\<open>PhasePrompt\<close> has the template grammar and the prompt of a worker,
  \<^theory_text>\<open>ProfileSafety\<close> their properties.

  \<^bold>\<open>Plans\<close> (\<^verbatim>\<open>plan_manifest.py\<close>): \<^theory_text>\<open>PlanManifest\<close> parses the manifest of a Plan and the Plan embedded in an
  issue.

  \<^bold>\<open>GitHub issues\<close> (\<^verbatim>\<open>github_issues.py\<close>): \<^theory_text>\<open>IssueBody\<close> has sections, snapshots, eligibility and the text the
  selector sees, \<^theory_text>\<open>IssueClient\<close> the client of the \<^verbatim>\<open>gh\<close> command over an arbitrary state behind it.

  \<^bold>\<open>A registered run\<close> (\<^verbatim>\<open>authority_result.py\<close>, \<^verbatim>\<open>phase_schedule.py\<close>, \<^verbatim>\<open>review_reconciliation.py\<close>,
  \<^verbatim>\<open>todos_completion.py\<close>, parts of \<^verbatim>\<open>_agent_supervisor.py\<close>, \<^verbatim>\<open>agent_authority.py\<close> and
  \<^verbatim>\<open>run_registration.py\<close>).  \<^theory_text>\<open>Supervision\<close> is the gate between a worker's claim and an accepted result: the
  locks of a run and of an execution around a block, and the chain of accepted heads.  \<^theory_text>\<open>CardCreation\<close>
  registers an execution and publishes its card, \<^theory_text>\<open>RunState\<close> tells active runs from ended ones,
  \<^theory_text>\<open>Delivery\<close> hands a finished run to a pull request and closes its issue, \<^theory_text>\<open>Schedule\<close> walks the phases of a
  run and admits at most one.  \<^theory_text>\<open>ScheduleSafety\<close> proves that the walk and the chain agree, over a concrete run.
  \<^theory_text>\<open>RunCreation\<close> is \<^verbatim>\<open>register_pinned_run\<close>, which pins the issue and the Plan, makes branch and worktree and writes
  the registration once; \<^theory_text>\<open>CreationSafety\<close> proves that it stays.

  \<^bold>\<open>One tick of a project\<close> (\<^verbatim>\<open>tick.py\<close>, \<^verbatim>\<open>cli.py\<close>, \<^verbatim>\<open>ship.py\<close>, \<^verbatim>\<open>circuit.py\<close>, \<^verbatim>\<open>decision/\<close>, the settings).
  \<^theory_text>\<open>TickLock\<close> has the lock as a step relation of interleaved processes, with the exclusion it gives and the race of
  its sweep.  \<^theory_text>\<open>TickResume\<close> is \<^verbatim>\<open>_tick_project\<close> up to selection: it composes the pending task creation, the
  deliveries, the ship gate, the drift of the issue, the three reconcilers and the breaker; \<^theory_text>\<open>ResumeSafety\<close> shows
  what must be settled before it goes on.  \<^theory_text>\<open>TickLaunch\<close> is the rest of it: the profile and its prerequisites, the
  candidates, the selection, and the run of the TODO that was picked, registered, rendered and bound
  (\<^theory_text>\<open>PhaseBinding\<close>, of \<^verbatim>\<open>kanban_tasks.py\<close>) before the pointer names the tick and the board changes.
  \<^theory_text>\<open>LaunchSafety\<close> shows that what is picked may be worked on, that a tick without a pick does not wedge the project,
  and that a run which is given up is retired.  \<^theory_text>\<open>TickScan\<close> is \<^verbatim>\<open>tpo tick\<close> over all projects: no project waits for
  another's failure, and scans are fair.  \<^theory_text>\<open>ShipGate\<close> is the sidecar, the version bump and the merge of an approved
  run, \<^theory_text>\<open>ShipSafety\<close> its guards.  \<^theory_text>\<open>Circuit\<close> counts the ticks without progress.  \<^theory_text>\<open>Selection\<close> builds the prompt,
  asks the model, parses its reply and files the decision; \<^theory_text>\<open>SelectionSafety\<close> shows that fences of the prompt stay
  closed and that only an eligible candidate is believed.  \<^theory_text>\<open>Configuration\<close> has the settings, the execution
  contract of a project and the discovery of projects.

  \<^bold>\<open>Correspondence.\<close>  A JSON object is the association list of its items in order, a Python tuple or list
  of strings a list.  A function that only reads is a function to \<open>res\<close>; one that writes is an operation
  on its state.  A check that raises is \<open>raise_if\<close>, and a sequence of them \<open>run_checks\<close>, in the order of
  the code.  Standard output, standard error and exit codes of commands are values.

  \<^bold>\<open>Parameters.\<close>  Everything outside the package is an argument: Git, the board's command line, the
  clock, fresh identifiers, the failure of writes, hash functions, process identities, time parsing.
  A theorem that relies on what such a thing documents names it as a hypothesis, and a witness
  instantiates it with a concrete function.

  \<^bold>\<open>Bounds and fuel.\<close>  The bounds are the constants of the code.  Loops that run over a list recurse on
  it.  The child-first order of a tick's cards takes as many rounds as there are cards at most, and a
  substitution in text is a recursion on what is left of it; no definition needs a bound of its own.

  \<^bold>\<open>Not modelled.\<close>  Log output and the wording of diagnostics on it; permission bits, symbolic links and
  the identity checks of open file descriptors; threads inside one process; characters above code point
  255 (text is a list of 8-bit characters); the spelling of floats (a float carries its value and its
  text); the launching, watching and sweeping of processes (\<^verbatim>\<open>_agent_supervisor.py\<close>, \<^verbatim>\<open>agent_process.py\<close>,
  \<^verbatim>\<open>agent_darwin.py\<close>, \<^verbatim>\<open>agent_client.py\<close>, \<^verbatim>\<open>agent_collector.py\<close>), which is calls into the operating system;
  isolated Git views (\<^verbatim>\<open>agent_git.py\<close>); the commands of \<^verbatim>\<open>tpo\<close> other than \<^verbatim>\<open>tick\<close>
  (\<^verbatim>\<open>cli.py\<close>); the skill installer, the integration harness, the authoring
  of TODOs, migration and release scripts.  TOML and YAML parsing is a parameter.
\<close>

end
